(* ===== verification/Prelude.thy ===== *)
theory Prelude
  imports Complex_Main
begin

text \<open>
  Shared vocabulary of the development.

  Python values. A \<^verbatim>\<open>bytes\<close> or \<^verbatim>\<open>bytearray\<close> value is a list of 8-bit characters. A Python
  \<^verbatim>\<open>str\<close> is represented by its UTF-8 encoding, again a list of 8-bit characters: equality,
  concatenation, prefix tests and splitting at ASCII characters are the same on both
  representations, \<^verbatim>\<open>s.encode("utf-8")\<close> is the identity, \<^verbatim>\<open>len(s.encode("utf-8"))\<close> is the
  list length, \<^verbatim>\<open>ord(c) < 32\<close> can be read off the bytes, and \<^verbatim>\<open>len(s)\<close> counts the
  characters that \<open>py_chars\<close> finds. Text with lone surrogates has no encoding and is outside
  the model. The character categories that depend on the Unicode tables (\<^verbatim>\<open>isalnum\<close>,
  \<^verbatim>\<open>\d\<close>, case folding) are modelled on ASCII only; the white-space category of
  \<^verbatim>\<open>strip\<close> and the line boundaries of \<^verbatim>\<open>splitlines\<close> are complete.

  The theory also holds the result type of fallible code (\<open>'e + 'a\<close>) with its bind, the UTF-8
  decoder with the replacement behaviour of CPython, and the small string library the
  components use.
\<close>

named_theorems result_simps \<open>evaluation of the result monad\<close>
named_theorems text_simps \<open>facts on characters and text\<close>

type_synonym bytes = "char list"
type_synonym pystr = "char list"

section \<open>Results of fallible code\<close>

definition bindE :: "'e + 'a \<Rightarrow> ('a \<Rightarrow> 'e + 'b) \<Rightarrow> 'e + 'b" where
  "bindE m f = (case m of Inl e \<Rightarrow> Inl e | Inr a \<Rightarrow> f a)"

definition guardE :: "bool \<Rightarrow> 'e \<Rightarrow> 'e + unit" where
  "guardE b e = (if b then Inr () else Inl e)"

definition someE :: "'a option \<Rightarrow> 'e \<Rightarrow> 'e + 'a" where
  "someE x e = (case x of None \<Rightarrow> Inl e | Some a \<Rightarrow> Inr a)"

fun mapE :: "('a \<Rightarrow> 'e + 'b) \<Rightarrow> 'a list \<Rightarrow> 'e + 'b list" where
  "mapE f [] = Inr []"
| "mapE f (x # xs) = bindE (f x) (\<lambda>y. bindE (mapE f xs) (\<lambda>ys. Inr (y # ys)))"

definition isOk :: "'e + 'a \<Rightarrow> bool" where
  "isOk r = (case r of Inl _ \<Rightarrow> False | Inr _ \<Rightarrow> True)"

lemma bindE_Inl [simp, result_simps]: "bindE (Inl e) f = Inl e"
  by (simp add: bindE_def)

lemma bindE_Inr [simp, result_simps]: "bindE (Inr a) f = f a"
  by (simp add: bindE_def)

lemma bindE_eq_Inr: "(bindE m f = Inr b) = (\<exists>a. m = Inr a \<and> f a = Inr b)"
  by (cases m) auto

lemma bindE_eq_Inl: "(bindE m f = Inl e) = (m = Inl e \<or> (\<exists>a. m = Inr a \<and> f a = Inl e))"
  by (cases m) auto

lemma bindE_cong [fundef_cong]:
  "m = m' \<Longrightarrow> (\<And>a. m' = Inr a \<Longrightarrow> f a = f' a) \<Longrightarrow> bindE m f = bindE m' f'"
  by (cases m') (auto simp: bindE_def)

lemma guardE_True [simp, result_simps]: "guardE True e = Inr ()"
  by (simp add: guardE_def)

lemma guardE_False [simp, result_simps]: "guardE False e = Inl e"
  by (simp add: guardE_def)

lemma guardE_eq_Inr [simp]: "(guardE b e = Inr u) = b"
  by (simp add: guardE_def)

lemma guardE_eq_Inl [simp]: "(guardE b e = Inl e') = (\<not> b \<and> e' = e)"
  by (auto simp: guardE_def)

lemma someE_Some [simp, result_simps]: "someE (Some a) e = Inr a"
  by (simp add: someE_def)

lemma someE_None [simp, result_simps]: "someE None e = Inl e"
  by (simp add: someE_def)

lemma someE_eq_Inr [simp]: "(someE x e = Inr a) = (x = Some a)"
  by (cases x) auto

lemma isOk_Inr [simp]: "isOk (Inr a)"
  by (simp add: isOk_def)

lemma isOk_Inl [simp]: "\<not> isOk (Inl e)"
  by (simp add: isOk_def)

lemma isOk_iff: "isOk r = (\<exists>a. r = Inr a)"
  by (cases r) auto

lemma mapE_length: "mapE f xs = Inr ys \<Longrightarrow> length ys = length xs"
  by (induction xs arbitrary: ys) (auto simp: bindE_eq_Inr)

lemma mapE_Inr_all: "(\<And>x. x \<in> set xs \<Longrightarrow> f x = Inr (g x)) \<Longrightarrow> mapE f xs = Inr (map g xs)"
  by (induction xs) auto

text \<open>
  Code that reads and writes a state: an operation gives the new state together with its result, and
  an exception keeps the changes made before it.
\<close>

definition bindS :: "('s \<Rightarrow> 's \<times> ('e + 'a)) \<Rightarrow> ('a \<Rightarrow> 's \<Rightarrow> 's \<times> ('e + 'b)) \<Rightarrow> 's \<Rightarrow> 's \<times> ('e + 'b)" where
  "bindS m f s = (case m s of (s1, Inl e) \<Rightarrow> (s1, Inl e) | (s1, Inr a) \<Rightarrow> f a s1)"

definition liftS :: "'e + 'a \<Rightarrow> 's \<Rightarrow> 's \<times> ('e + 'a)" where
  "liftS r s = (s, r)"

lemma liftS_apply [simp, result_simps]: "liftS r s = (s, r)"
  by (simp add: liftS_def)

lemma bindS_Inl [result_simps]: "m s = (s1, Inl e) \<Longrightarrow> bindS m f s = (s1, Inl e)"
  by (simp add: bindS_def)

lemma bindS_Inr [result_simps]: "m s = (s1, Inr a) \<Longrightarrow> bindS m f s = f a s1"
  by (simp add: bindS_def)

lemma bindS_liftS [simp, result_simps]:
  "bindS (liftS (Inl e)) f s = (s, Inl e)" "bindS (liftS (Inr a)) f s = f a s"
  by (simp_all add: bindS_def)

text \<open>An invariant and a relation between the states before and after pass through a sequence.\<close>

lemma bindS_invariant:
  assumes "P (fst (m s))" and "\<And>a s1. m s = (s1, Inr a) \<Longrightarrow> P s1 \<Longrightarrow> P (fst (f a s1))"
  shows "P (fst (bindS m f s))"
  using assms by (cases "m s") (auto simp: bindS_def split: sum.split)

lemma bindS_eq_Inr: "(bindS m f s = (s', Inr b)) = (\<exists>s1 a. m s = (s1, Inr a) \<and> f a s1 = (s', Inr b))"
  by (cases "m s") (auto simp: bindS_def split: sum.split)

lemma bindS_eq_Inl:
  "(bindS m f s = (s', Inl e)) = (m s = (s', Inl e) \<or> (\<exists>s1 a. m s = (s1, Inr a) \<and> f a s1 = (s', Inl e)))"
  by (cases "m s") (auto simp: bindS_def split: sum.split)

section \<open>Characters\<close>

abbreviation ord :: "char \<Rightarrow> nat" where
  "ord c \<equiv> of_char c"

definition is_digit :: "char \<Rightarrow> bool" where
  "is_digit c = (48 \<le> ord c \<and> ord c \<le> 57)"

definition is_upper :: "char \<Rightarrow> bool" where
  "is_upper c = (65 \<le> ord c \<and> ord c \<le> 90)"

definition is_lower :: "char \<Rightarrow> bool" where
  "is_lower c = (97 \<le> ord c \<and> ord c \<le> 122)"

definition is_alnum :: "char \<Rightarrow> bool" where
  "is_alnum c = (is_digit c \<or> is_upper c \<or> is_lower c)"

definition is_hex :: "char \<Rightarrow> bool" where
  "is_hex c = (is_digit c \<or> (97 \<le> ord c \<and> ord c \<le> 102))"

definition to_lower :: "char \<Rightarrow> char" where
  "to_lower c = (if is_upper c then char_of (ord c + 32) else c)"

definition to_upper :: "char \<Rightarrow> char" where
  "to_upper c = (if is_lower c then char_of (ord c - 32) else c)"

definition is_control :: "char \<Rightarrow> bool" where
  "is_control c = (ord c < 32)"

abbreviation LF :: char where "LF \<equiv> CHR 0x0A"
abbreviation CR :: char where "CR \<equiv> CHR 0x0D"
abbreviation TAB :: char where "TAB \<equiv> CHR 0x09"
abbreviation NUL :: char where "NUL \<equiv> CHR 0x00"
abbreviation ESC :: char where "ESC \<equiv> CHR 0x1B"
abbreviation QT :: char where "QT \<equiv> CHR 0x22"
abbreviation SQ :: char where "SQ \<equiv> CHR 0x27"
abbreviation BSL :: char where "BSL \<equiv> CHR 0x5C"

lemma ord_less_256 [simp]: "ord c < 256"
  using of_char_mod_256 [of c, where 'a = nat] mod_less_divisor [of 256 "of_char c :: nat"] by simp

lemma LF_not_alnum [simp]: "\<not> is_alnum LF" "\<not> is_alnum CR" "\<not> is_alnum NUL" "\<not> is_alnum ESC"
  by (simp_all add: is_alnum_def is_digit_def is_upper_def is_lower_def)

section \<open>UTF-8\<close>

text \<open>
  The decoder of CPython. At a position it finds a complete character, an invalid sequence
  (\<open>UInvalid\<close>, with the number of bytes the error covers) or the start of a character that the
  data ends in (\<open>UEnd\<close>, which covers all the bytes left).
\<close>

datatype utf8_status = UOk | UInvalid | UEnd

definition is_cont :: "char \<Rightarrow> bool" where
  "is_cont c = (128 \<le> ord c \<and> ord c < 192)"

fun utf8_next3 :: "char \<Rightarrow> char list \<Rightarrow> utf8_status \<times> nat" where
  "utf8_next3 c [] = (UEnd, 1)"
| "utf8_next3 c (d # rest) =
     (if \<not> is_cont d \<or> (if ord d < 160 then ord c = 224 else ord c = 237) then (UInvalid, 1)
      else case rest of
        [] \<Rightarrow> (UEnd, 2)
      | e # _ \<Rightarrow> if is_cont e then (UOk, 3) else (UInvalid, 2))"

fun utf8_next4 :: "char \<Rightarrow> char list \<Rightarrow> utf8_status \<times> nat" where
  "utf8_next4 c [] = (UEnd, 1)"
| "utf8_next4 c (d # rest) =
     (if \<not> is_cont d \<or> (if ord d < 144 then ord c = 240 else ord c = 244) then (UInvalid, 1)
      else case rest of
        [] \<Rightarrow> (UEnd, 2)
      | e # rest' \<Rightarrow>
          if \<not> is_cont e then (UInvalid, 2)
          else (case rest' of
              [] \<Rightarrow> (UEnd, 3)
            | f # _ \<Rightarrow> if is_cont f then (UOk, 4) else (UInvalid, 3)))"

definition utf8_next :: "char \<Rightarrow> char list \<Rightarrow> utf8_status \<times> nat" where
  "utf8_next c rest =
     (if ord c < 128 then (UOk, 1)
      else if ord c < 194 then (UInvalid, 1)
      else if ord c < 224 then
        (case rest of [] \<Rightarrow> (UEnd, 1) | d # _ \<Rightarrow> if is_cont d then (UOk, 2) else (UInvalid, 1))
      else if ord c < 240 then utf8_next3 c rest
      else if ord c < 245 then utf8_next4 c rest
      else (UInvalid, 1))"

lemma utf8_next3_pos: "0 < snd (utf8_next3 c rest)"
  by (cases rest) (auto split: list.split)

lemma utf8_next4_pos: "0 < snd (utf8_next4 c rest)"
  by (cases rest) (auto split: list.split)

lemma utf8_next_pos: "0 < snd (utf8_next c rest)"
  by (auto simp: utf8_next_def utf8_next3_pos utf8_next4_pos split: list.split)

lemma utf8_next_shrinks:
  "(st, n) = utf8_next c rest \<Longrightarrow> Suc (length rest) - n < Suc (length rest)"
  using utf8_next_pos [of c rest] by (cases "utf8_next c rest") simp

definition replacement :: "pystr" where
  "replacement = [CHR 0xEF, CHR 0xBF, CHR 0xBD]"

text \<open>\<^verbatim>\<open>data.decode("utf-8", errors="replace")\<close>\<close>

function (sequential) decode_replace :: "bytes \<Rightarrow> pystr" where
  "decode_replace [] = []"
| "decode_replace (c # rest) =
     (case utf8_next c rest of
        (UOk, n) \<Rightarrow> take n (c # rest) @ decode_replace (drop n (c # rest))
      | (_, n) \<Rightarrow> replacement @ decode_replace (drop n (c # rest)))"
  by pat_completeness auto
termination
  by (relation "measure length") (auto dest: utf8_next_shrinks)

text \<open>
  \<^verbatim>\<open>data.decode("utf-8")\<close>: the text, or the start and end of the first error and whether its
  reason is \<^verbatim>\<open>unexpected end of data\<close>.
\<close>

record unicode_error =
  ue_start :: nat
  ue_end :: nat
  ue_unexpected_end :: bool

function (sequential) utf8_error :: "nat \<Rightarrow> bytes \<Rightarrow> unicode_error option" where
  "utf8_error i [] = None"
| "utf8_error i (c # rest) =
     (case utf8_next c rest of
        (UOk, n) \<Rightarrow> utf8_error (i + n) (drop n (c # rest))
      | (UInvalid, n) \<Rightarrow> Some \<lparr>ue_start = i, ue_end = i + n, ue_unexpected_end = False\<rparr>
      | (UEnd, n) \<Rightarrow> Some \<lparr>ue_start = i, ue_end = i + n, ue_unexpected_end = True\<rparr>)"
  by pat_completeness auto
termination
  by (relation "measure (\<lambda>(i, s). length s)") (auto dest: utf8_next_shrinks)

definition decode_strict :: "bytes \<Rightarrow> unicode_error + pystr" where
  "decode_strict s = (case utf8_error 0 s of None \<Rightarrow> Inr s | Some e \<Rightarrow> Inl e)"

text \<open>The characters of a text, each as its bytes, and \<^verbatim>\<open>len\<close>.\<close>

function (sequential) py_chars :: "pystr \<Rightarrow> pystr list" where
  "py_chars [] = []"
| "py_chars (c # rest) =
     (case utf8_next c rest of (_, n) \<Rightarrow> take n (c # rest) # py_chars (drop n (c # rest)))"
  by pat_completeness auto
termination
  by (relation "measure length") (auto dest: utf8_next_shrinks)

definition py_len :: "pystr \<Rightarrow> nat" where
  "py_len s = length (py_chars s)"

declare decode_replace.simps(2) [simp del] utf8_error.simps(2) [simp del]
  py_chars.simps(2) [simp del]

definition ascii :: "char \<Rightarrow> bool" where
  "ascii c = (ord c < 128)"

lemma utf8_next_ascii [simp]: "ascii c \<Longrightarrow> utf8_next c rest = (UOk, 1)"
  by (simp add: utf8_next_def ascii_def)

lemma decode_replace_ascii_Cons [simp]:
  "ascii c \<Longrightarrow> decode_replace (c # s) = c # decode_replace s"
  by (simp add: decode_replace.simps(2))

lemma decode_replace_ascii [simp]: "list_all ascii s \<Longrightarrow> decode_replace s = s"
  by (induction s) auto

lemma utf8_error_ascii: "list_all ascii s \<Longrightarrow> utf8_error i s = None"
  by (induction s arbitrary: i) (auto simp: utf8_error.simps(2))

lemma decode_strict_ascii [simp]: "list_all ascii s \<Longrightarrow> decode_strict s = Inr s"
  by (simp add: decode_strict_def utf8_error_ascii)

text \<open>Decoding is the identity on the representation: text that decodes is its own bytes.\<close>

lemma decode_strict_Inr: "decode_strict s = Inr t \<Longrightarrow> t = s"
  by (simp add: decode_strict_def split: option.splits)

lemma concat_py_chars [simp]: "concat (py_chars s) = s"
proof (induction s rule: py_chars.induct)
  case (2 c rest)
  obtain st n where n: "utf8_next c rest = (st, n)" by (cases "utf8_next c rest")
  with 2 show ?case by (simp add: py_chars.simps(2))
qed simp

lemma py_chars_nonempty: "x \<in> set (py_chars s) \<Longrightarrow> x \<noteq> []"
proof (induction s rule: py_chars.induct)
  case (2 c rest)
  obtain st n where n: "utf8_next c rest = (st, n)" by (cases "utf8_next c rest")
  have "0 < n" using utf8_next_pos [of c rest] n by simp
  with 2 n show ?case by (auto simp: py_chars.simps(2))
qed simp

lemma py_chars_ascii: "list_all ascii s \<Longrightarrow> py_chars s = map (\<lambda>c. [c]) s"
  by (induction s) (auto simp: py_chars.simps(2))

lemma py_len_ascii [simp]: "list_all ascii s \<Longrightarrow> py_len s = length s"
  by (simp add: py_len_def py_chars_ascii)

lemma length_le_concat: "(\<And>x. x \<in> set xs \<Longrightarrow> x \<noteq> []) \<Longrightarrow> length xs \<le> length (concat xs)"
proof (induction xs)
  case (Cons x xs)
  then have "1 \<le> length x" by (cases x) auto
  moreover have "length xs \<le> length (concat xs)" using Cons by simp
  ultimately show ?case by simp
qed simp

lemma py_len_le: "py_len s \<le> length s"
proof -
  have "length (py_chars s) \<le> length (concat (py_chars s))"
    by (rule length_le_concat) (rule py_chars_nonempty)
  then show ?thesis by (simp add: py_len_def)
qed

end
