(* ===== verification/Text_Lib.thy ===== *)
theory Text_Lib
  imports Prelude
begin

text \<open>
  The part of Python's text, number and dictionary library that the components use:
  prefixes, stripping, splitting and joining, \<^verbatim>\<open>splitlines\<close>, decimal numerals, base-16 and
  base-64 text, JSON values and insertion-ordered dictionaries with text keys.
\<close>

section \<open>Prefixes and simple rewriting\<close>

definition starts_with :: "pystr \<Rightarrow> pystr \<Rightarrow> bool" where
  "starts_with p s = (take (length p) s = p)"

definition contains_char :: "char \<Rightarrow> pystr \<Rightarrow> bool" where
  "contains_char c s = (c \<in> set s)"

fun is_infix :: "pystr \<Rightarrow> pystr \<Rightarrow> bool" where
  "is_infix p [] = (p = [])"
| "is_infix p (c # s) = (starts_with p (c # s) \<or> is_infix p s)"

definition rstrip_chars :: "char set \<Rightarrow> pystr \<Rightarrow> pystr" where
  "rstrip_chars cs s = rev (dropWhile (\<lambda>c. c \<in> cs) (rev s))"

definition remove_suffix :: "pystr \<Rightarrow> pystr \<Rightarrow> pystr" where
  "remove_suffix suf s =
     (if length suf \<le> length s \<and> drop (length s - length suf) s = suf
      then take (length s - length suf) s else s)"

text \<open>\<^verbatim>\<open>s.replace("\r\n", "\n")\<close> and \<^verbatim>\<open>s.replace(c, "")\<close>\<close>

fun replace_crlf :: "pystr \<Rightarrow> pystr" where
  "replace_crlf (c # d # s) =
     (if c = CR \<and> d = LF then LF # replace_crlf s else c # replace_crlf (d # s))"
| "replace_crlf s = s"

definition delete_char :: "char \<Rightarrow> pystr \<Rightarrow> pystr" where
  "delete_char c s = filter (\<lambda>d. d \<noteq> c) s"

definition subst_char :: "char \<Rightarrow> char \<Rightarrow> pystr \<Rightarrow> pystr" where
  "subst_char c d s = map (\<lambda>x. if x = c then d else x) s"

section \<open>White space and lines\<close>

text \<open>The white-space characters of \<^verbatim>\<open>str.isspace\<close>, as the bytes of one character.\<close>

definition is_space :: "pystr \<Rightarrow> bool" where
  "is_space ch =
     (case map ord ch of
        [b] \<Rightarrow> (9 \<le> b \<and> b \<le> 13) \<or> (28 \<le> b \<and> b \<le> 32)
      | [b, c] \<Rightarrow> b = 194 \<and> (c = 133 \<or> c = 160)
      | [b, c, d] \<Rightarrow>
          (b = 225 \<and> c = 154 \<and> d = 128) \<or>
          (b = 226 \<and> c = 128 \<and> ((128 \<le> d \<and> d \<le> 138) \<or> d = 168 \<or> d = 169 \<or> d = 175)) \<or>
          (b = 226 \<and> c = 129 \<and> d = 159) \<or>
          (b = 227 \<and> c = 128 \<and> d = 128)
      | _ \<Rightarrow> False)"

definition py_strip :: "pystr \<Rightarrow> pystr" where
  "py_strip s = concat (rev (dropWhile is_space (rev (dropWhile is_space (py_chars s)))))"

text \<open>The line boundaries of \<^verbatim>\<open>str.splitlines\<close>.\<close>

definition is_line_break :: "pystr \<Rightarrow> bool" where
  "is_line_break ch =
     (case map ord ch of
        [b] \<Rightarrow> (10 \<le> b \<and> b \<le> 13) \<or> (28 \<le> b \<and> b \<le> 30)
      | [b, c] \<Rightarrow> b = 194 \<and> c = 133
      | [b, c, d] \<Rightarrow> b = 226 \<and> c = 128 \<and> (d = 168 \<or> d = 169)
      | _ \<Rightarrow> False)"

fun lines_of_chars :: "pystr \<Rightarrow> pystr list \<Rightarrow> pystr list" where
  "lines_of_chars cur [] = (if cur = [] then [] else [cur])"
| "lines_of_chars cur [ch] =
     (if is_line_break ch then [cur @ ch] else lines_of_chars (cur @ ch) [])"
| "lines_of_chars cur (ch # ch' # rest) =
     (if ch = [CR] \<and> ch' = [LF] then (cur @ [CR, LF]) # lines_of_chars [] rest
      else if is_line_break ch then (cur @ ch) # lines_of_chars [] (ch' # rest)
      else lines_of_chars (cur @ ch) (ch' # rest))"

text \<open>\<^verbatim>\<open>s.splitlines(keepends=True)\<close>\<close>

definition splitlines_keep :: "pystr \<Rightarrow> pystr list" where
  "splitlines_keep s = lines_of_chars [] (py_chars s)"

section \<open>Splitting and joining\<close>

fun split_on :: "char \<Rightarrow> pystr \<Rightarrow> pystr list" where
  "split_on sep [] = [[]]"
| "split_on sep (c # s) =
     (if c = sep then [] # split_on sep s
      else (case split_on sep s of [] \<Rightarrow> [[c]] | w # ws \<Rightarrow> (c # w) # ws))"

fun join :: "pystr \<Rightarrow> pystr list \<Rightarrow> pystr" where
  "join sep [] = []"
| "join sep [w] = w"
| "join sep (w # w' # ws) = w @ sep @ join sep (w' # ws)"

section \<open>Numerals\<close>

fun dec_nat :: "nat \<Rightarrow> pystr" where
  "dec_nat n = (if n < 10 then [char_of (48 + n)] else dec_nat (n div 10) @ [char_of (48 + n mod 10)])"

declare dec_nat.simps [simp del]

definition dec_int :: "int \<Rightarrow> pystr" where
  "dec_int i = (if i < 0 then CHR ''-'' # dec_nat (nat (- i)) else dec_nat (nat i))"

definition digits_val :: "pystr \<Rightarrow> nat" where
  "digits_val s = foldl (\<lambda>n c. 10 * n + (ord c - 48)) 0 s"

text \<open>The digits of \<^verbatim>\<open>int(text)\<close>: digits with single underscores between them, at most 4300 of them.\<close>

fun int_digits_ok :: "pystr \<Rightarrow> bool" where
  "int_digits_ok [] = False"
| "int_digits_ok [c] = is_digit c"
| "int_digits_ok (c # d # s) =
     (is_digit c \<and> (if d = CHR ''_'' then int_digits_ok s else int_digits_ok (d # s)))"

definition py_int :: "pystr \<Rightarrow> int option" where
  "py_int t =
     (let s = py_strip t;
          neg = (case s of c # _ \<Rightarrow> c = CHR ''-'' | [] \<Rightarrow> False);
          body = (case s of c # r \<Rightarrow> if c = CHR ''-'' \<or> c = CHR ''+'' then r else s | [] \<Rightarrow> s)
      in if int_digits_ok body \<and> length (filter is_digit body) \<le> 4300
         then (let v = int (digits_val (filter is_digit body)) in Some (if neg then - v else v))
         else None)"

section \<open>Quoting\<close>

text \<open>
  \<^verbatim>\<open>repr(text)\<close>: single quotes unless only single quotes occur in the text. A character
  beyond ASCII is shown as it is.
\<close>

definition hex_digit :: "nat \<Rightarrow> char" where
  "hex_digit n = char_of (if n < 10 then 48 + n else 87 + n)"

definition repr_char :: "char \<Rightarrow> char \<Rightarrow> pystr" where
  "repr_char q c =
     (if c = q \<or> c = CHR 0x5C then [CHR 0x5C, c]
      else if c = TAB then [CHR 0x5C, CHR ''t'']
      else if c = LF then [CHR 0x5C, CHR ''n'']
      else if c = CR then [CHR 0x5C, CHR ''r'']
      else if ord c < 32 \<or> ord c = 127
        then [CHR 0x5C, CHR ''x'', hex_digit (ord c div 16), hex_digit (ord c mod 16)]
      else [c])"

definition py_repr :: "pystr \<Rightarrow> pystr" where
  "py_repr s =
     (let q = (if CHR 0x27 \<in> set s \<and> CHR 0x22 \<notin> set s then CHR 0x22 else CHR 0x27)
      in q # concat (map (repr_char q) s) @ [q])"

section \<open>JSON values and dictionaries\<close>

text \<open>
  Values of the payload dictionaries. A float is the rational number it denotes.
  A dictionary is the list of its items in insertion order.
\<close>

datatype json =
    JNull
  | JBool bool
  | JInt int
  | JFloat rat
  | JStr pystr
  | JList "json list"
  | JObj "(pystr \<times> json) list"

type_synonym 'v dict = "(pystr \<times> 'v) list"
type_synonym payload = "json dict"

definition keys :: "'v dict \<Rightarrow> pystr list" where
  "keys d = map fst d"

fun dput :: "pystr \<Rightarrow> 'v \<Rightarrow> 'v dict \<Rightarrow> 'v dict" where
  "dput k v [] = [(k, v)]"
| "dput k v (e # d) = (if fst e = k then (k, v) # d else e # dput k v d)"

definition ddel :: "pystr \<Rightarrow> 'v dict \<Rightarrow> 'v dict" where
  "ddel k d = filter (\<lambda>e. fst e \<noteq> k) d"

text \<open>\<^verbatim>\<open>{**a, **b}\<close>\<close>

fun dmerge :: "'v dict \<Rightarrow> 'v dict \<Rightarrow> 'v dict" where
  "dmerge a [] = a"
| "dmerge a ((k, v) # b) = dmerge (dput k v a) b"

text \<open>\<^verbatim>\<open>payload.get(name)\<close> and \<^verbatim>\<open>payload.get(name, default)\<close>\<close>

definition pget :: "payload \<Rightarrow> pystr \<Rightarrow> json" where
  "pget p k = (case map_of p k of None \<Rightarrow> JNull | Some v \<Rightarrow> v)"

definition pget_default :: "payload \<Rightarrow> pystr \<Rightarrow> json \<Rightarrow> json" where
  "pget_default p k d = (case map_of p k of None \<Rightarrow> d | Some v \<Rightarrow> v)"

text \<open>The field check the handlers share: required fields present, no field beyond the optional.\<close>

definition fields_match :: "payload \<Rightarrow> pystr list \<Rightarrow> pystr list \<Rightarrow> bool" where
  "fields_match p required optional =
     (list_all (\<lambda>k. k \<in> set (keys p)) required \<and>
      list_all (\<lambda>k. k \<in> set required \<or> k \<in> set optional) (keys p))"

section \<open>Facts on text\<close>

lemma starts_with_append [simp]: "starts_with p (p @ s)"
  by (simp add: starts_with_def)

lemma starts_with_self [simp]: "starts_with p p"
  by (simp add: starts_with_def)

lemma starts_with_iff: "starts_with p s = (\<exists>t. s = p @ t)"
  unfolding starts_with_def by (metis append_take_drop_id append_eq_conv_conj)

lemma drop_starts_with [simp]: "drop (length p) (p @ s) = s"
  by simp

lemma split_on_nonempty [simp]: "split_on sep s \<noteq> []"
  by (cases s) (auto split: list.split)

lemma split_on_no_sep: "sep \<notin> set s \<Longrightarrow> split_on sep s = [s]"
  by (induction s) auto

lemma split_on_append: "sep \<notin> set w \<Longrightarrow> split_on sep (w @ sep # s) = w # split_on sep s"
  by (induction w) auto

lemma join_Cons: "ws \<noteq> [] \<Longrightarrow> join sep (w # ws) = w @ sep @ join sep ws"
  by (cases ws) auto

lemma join_split_on [simp]: "join [sep] (split_on sep s) = s"
proof (induction s)
  case (Cons c s)
  show ?case
  proof (cases "c = sep")
    case True
    with Cons show ?thesis by (simp add: join_Cons)
  next
    case False
    obtain w ws where w: "split_on sep s = w # ws" by (cases "split_on sep s") auto
    with Cons False show ?thesis by (cases ws) auto
  qed
qed simp

lemma split_on_join:
  "ws \<noteq> [] \<Longrightarrow> (\<forall>w \<in> set ws. sep \<notin> set w) \<Longrightarrow> split_on sep (join [sep] ws) = ws"
proof (induction ws)
  case (Cons w ws)
  then show ?case
    by (cases "ws = []") (auto simp: join_Cons split_on_append split_on_no_sep)
qed simp

lemma split_on_no_sep_in: "w \<in> set (split_on sep s) \<Longrightarrow> sep \<notin> set w"
proof (induction s arbitrary: w)
  case (Cons c s)
  then show ?case by (auto split: if_splits list.splits)
qed auto

lemma concat_lines_of_chars: "concat (lines_of_chars cur chs) = cur @ concat chs"
  by (induction cur chs rule: lines_of_chars.induct) auto

lemma concat_splitlines_keep [simp]: "concat (splitlines_keep s) = s"
  by (simp add: splitlines_keep_def concat_lines_of_chars)

lemma is_line_break_Nil [simp]: "\<not> is_line_break []"
  by (simp add: is_line_break_def)

lemma lines_of_chars_nonempty: "l \<in> set (lines_of_chars cur chs) \<Longrightarrow> l \<noteq> []"
  by (induction cur chs rule: lines_of_chars.induct)
     (auto split: if_splits)

lemma splitlines_keep_nonempty: "l \<in> set (splitlines_keep s) \<Longrightarrow> l \<noteq> []"
  unfolding splitlines_keep_def by (rule lines_of_chars_nonempty)

lemma replace_crlf_no_cr: "CR \<notin> set s \<Longrightarrow> replace_crlf s = s"
  by (induction s rule: replace_crlf.induct) auto

lemma delete_char_absent: "c \<notin> set s \<Longrightarrow> delete_char c s = s"
  unfolding delete_char_def by (induction s) auto

lemma subst_char_absent: "c \<notin> set s \<Longrightarrow> subst_char c d s = s"
  unfolding subst_char_def by (induction s) auto

lemma rstrip_chars_snoc_in [simp]: "c \<in> cs \<Longrightarrow> rstrip_chars cs (s @ [c]) = rstrip_chars cs s"
  by (simp add: rstrip_chars_def)

lemma rstrip_chars_snoc_out [simp]: "c \<notin> cs \<Longrightarrow> rstrip_chars cs (s @ [c]) = s @ [c]"
  by (simp add: rstrip_chars_def)

lemma rstrip_chars_absent: "set s \<inter> cs = {} \<Longrightarrow> rstrip_chars cs s = s"
proof (cases s rule: rev_cases)
  case (snoc ys y)
  then show "set s \<inter> cs = {} \<Longrightarrow> rstrip_chars cs s = s" by simp
qed (simp add: rstrip_chars_def)

section \<open>Facts on numerals\<close>

lemma ord_char_of [simp]: "n < 256 \<Longrightarrow> ord (char_of n) = n"
  by simp

lemma digit_of_char [simp]: "(n::nat) < 10 \<Longrightarrow> is_digit (char_of (48 + n))"
  by (simp add: is_digit_def)

lemma dec_nat_digits: "list_all is_digit (dec_nat n)"
  by (induction n rule: dec_nat.induct) (subst dec_nat.simps, auto)

lemma dec_nat_nonempty [simp]: "dec_nat n \<noteq> []"
  by (subst dec_nat.simps) simp

lemma digits_val_snoc: "digits_val (s @ [c]) = 10 * digits_val s + (ord c - 48)"
  by (simp add: digits_val_def)

lemma digits_val_dec_nat [simp]: "digits_val (dec_nat n) = n"
proof (induction n rule: dec_nat.induct)
  case (1 n)
  show ?case
  proof (cases "n < 10")
    case True
    then show ?thesis by (subst dec_nat.simps) (simp add: digits_val_def)
  next
    case False
    have "digits_val (dec_nat n) = 10 * digits_val (dec_nat (n div 10)) + n mod 10"
      using False by (subst dec_nat.simps) (simp add: digits_val_snoc)
    with 1 False show ?thesis by simp
  qed
qed

lemma int_digits_ok_digits: "s \<noteq> [] \<Longrightarrow> list_all is_digit s \<Longrightarrow> int_digits_ok s"
  by (induction s rule: int_digits_ok.induct) (auto simp: is_digit_def)

section \<open>Facts on dictionaries\<close>

lemma set_keys: "set (keys d) = dom (map_of d)"
  by (simp add: keys_def dom_map_of_conv_image_fst)

lemma map_of_dput [simp]: "map_of (dput k v d) = (map_of d)(k \<mapsto> v)"
  by (induction d) auto

lemma set_keys_dput [simp]: "set (keys (dput k v d)) = insert k (set (keys d))"
  by (simp add: set_keys)

lemma distinct_dput: "distinct (keys d) \<Longrightarrow> distinct (keys (dput k v d))"
proof (induction d)
  case (Cons e d)
  then show ?case
    using set_keys_dput [of k v d] by (auto simp: keys_def)
qed (simp add: keys_def)

lemma map_of_ddel [simp]: "map_of (ddel k d) = (map_of d)(k := None)"
  by (induction d) (auto simp: ddel_def)

lemma set_keys_ddel [simp]: "set (keys (ddel k d)) = set (keys d) - {k}"
  by (auto simp: keys_def ddel_def)

lemma distinct_ddel: "distinct (keys d) \<Longrightarrow> distinct (keys (ddel k d))"
  by (induction d) (auto simp: keys_def ddel_def)

lemma map_of_dmerge: "distinct (keys b) \<Longrightarrow> map_of (dmerge a b) = map_of a ++ map_of b"
proof (induction a b rule: dmerge.induct)
  case (2 a k v b)
  then have "k \<notin> dom (map_of b)"
    using set_keys [of b] by (auto simp: keys_def)
  with 2 show ?case
    by (auto simp: fun_eq_iff map_add_def keys_def split: option.split)
qed (simp add: keys_def)

lemma fields_match_iff:
  "fields_match p req opt = (set req \<subseteq> set (keys p) \<and> set (keys p) \<subseteq> set req \<union> set opt)"
  by (auto simp: fields_match_def list_all_iff)

lemma fields_match_required:
  "fields_match p req opt \<Longrightarrow> k \<in> set req \<Longrightarrow> \<exists>v. map_of p k = Some v"
  by (auto simp: fields_match_iff set_keys)

end
