(* ===== verification/Errors.thy ===== *)
theory Errors
  imports Text_Lib
begin

text \<open>
  The exceptions of the program, one constructor per class that the modelled code raises, with
  the message it carries, and the \<^verbatim>\<open>code\<close> attribute by which an error travels between
  processes. A built-in exception has no code.
\<close>

datatype exn =
    ValueError pystr
  | KeyError pystr
  | TypeError pystr
  | OverflowError pystr
  | AssertionError pystr
  | RuntimeError pystr
  | OSError pystr
  | ServerOpsError pystr
  | ConfigurationError pystr
  | ConfigVersionError pystr
  | ConfigConflictError pystr
  | ConfigLockTimeout pystr
  | SessionError pystr
  | InvalidSessionState pystr
  | AuthenticationUnavailable pystr
  | SessionLost pystr
  | CommandTimedOut pystr
  | OutcomeUnknown pystr
  | AuthenticationError pystr pystr
  | BrokerUnavailable pystr
  | BrokerRequestError pystr
  | BrokerRemoteError pystr pystr
  | BrokerOutcomeUnknown pystr pystr
  | WorkerOperationError pystr pystr "pystr option"
  | SessionNotFound pystr
  | IpcClosed pystr
  | IpcTimeout pystr
  | IpcMessageError pystr
  | ProtocolVersionError pystr
  | IpcAuthenticationError pystr
  | RemoteFileError pystr pystr
  | FileConflictError pystr
  | ElevationError pystr pystr
  | FrameProtocolError pystr
  | PromptPolicyError pystr
  | BrokerTaskError pystr
  | BrokerTaskUnavailable pystr
  | InstallerError pystr
  | PublicKeyInstallOutcomeUnknown pystr "pystr option"
  | PublicKeyTransitionError pystr pystr bool

type_synonym 'a res = "exn + 'a"

fun exn_code :: "exn \<Rightarrow> pystr option" where
  "exn_code (ValueError _) = None"
| "exn_code (KeyError _) = None"
| "exn_code (TypeError _) = None"
| "exn_code (OverflowError _) = None"
| "exn_code (AssertionError _) = None"
| "exn_code (RuntimeError _) = None"
| "exn_code (OSError _) = None"
| "exn_code (FrameProtocolError _) = None"
| "exn_code (PromptPolicyError _) = None"
| "exn_code (ServerOpsError _) = Some ''serverops_error''"
| "exn_code (ConfigurationError _) = Some ''configuration_invalid''"
| "exn_code (ConfigVersionError _) = Some ''configuration_version_unsupported''"
| "exn_code (ConfigConflictError _) = Some ''configuration_conflict''"
| "exn_code (ConfigLockTimeout _) = Some ''configuration_lock_timeout''"
| "exn_code (SessionError _) = Some ''session_error''"
| "exn_code (InvalidSessionState _) = Some ''invalid_session_state''"
| "exn_code (AuthenticationUnavailable _) = Some ''authentication_unavailable''"
| "exn_code (SessionLost _) = Some ''session_lost''"
| "exn_code (CommandTimedOut _) = Some ''command_timed_out''"
| "exn_code (OutcomeUnknown _) = Some ''outcome_unknown''"
| "exn_code (AuthenticationError c _) = Some c"
| "exn_code (BrokerUnavailable _) = Some ''broker_unavailable''"
| "exn_code (BrokerRequestError _) = Some ''broker_request_failed''"
| "exn_code (BrokerRemoteError c _) = Some c"
| "exn_code (BrokerOutcomeUnknown c _) = Some c"
| "exn_code (WorkerOperationError c _ _) = Some c"
| "exn_code (SessionNotFound _) = Some ''session_not_found''"
| "exn_code (IpcClosed _) = Some ''ipc_closed''"
| "exn_code (IpcTimeout _) = Some ''ipc_timeout''"
| "exn_code (IpcMessageError _) = Some ''ipc_message_invalid''"
| "exn_code (ProtocolVersionError _) = Some ''ipc_protocol_version_mismatch''"
| "exn_code (IpcAuthenticationError _) = Some ''ipc_authentication_failed''"
| "exn_code (RemoteFileError c _) = Some c"
| "exn_code (FileConflictError _) = Some ''file_conflict''"
| "exn_code (ElevationError c _) = Some c"
| "exn_code (BrokerTaskError _) = Some ''broker_task_error''"
| "exn_code (BrokerTaskUnavailable _) = Some ''broker_task_unavailable''"
| "exn_code (InstallerError _) = Some ''installer_error''"
| "exn_code (PublicKeyInstallOutcomeUnknown _ _) = Some ''outcome_unknown''"
| "exn_code (PublicKeyTransitionError _ _ _) = Some ''public_key_transition_failed''"

fun exn_message :: "exn \<Rightarrow> pystr" where
  "exn_message (ValueError m) = m"
| "exn_message (KeyError m) = m"
| "exn_message (TypeError m) = m"
| "exn_message (OverflowError m) = m"
| "exn_message (AssertionError m) = m"
| "exn_message (RuntimeError m) = m"
| "exn_message (OSError m) = m"
| "exn_message (FrameProtocolError m) = m"
| "exn_message (PromptPolicyError m) = m"
| "exn_message (ServerOpsError m) = m"
| "exn_message (ConfigurationError m) = m"
| "exn_message (ConfigVersionError m) = m"
| "exn_message (ConfigConflictError m) = m"
| "exn_message (ConfigLockTimeout m) = m"
| "exn_message (SessionError m) = m"
| "exn_message (InvalidSessionState m) = m"
| "exn_message (AuthenticationUnavailable m) = m"
| "exn_message (SessionLost m) = m"
| "exn_message (CommandTimedOut m) = m"
| "exn_message (OutcomeUnknown m) = m"
| "exn_message (AuthenticationError _ m) = m"
| "exn_message (BrokerUnavailable m) = m"
| "exn_message (BrokerRequestError m) = m"
| "exn_message (BrokerRemoteError _ m) = m"
| "exn_message (BrokerOutcomeUnknown _ m) = m"
| "exn_message (WorkerOperationError _ m _) = m"
| "exn_message (SessionNotFound m) = m"
| "exn_message (IpcClosed m) = m"
| "exn_message (IpcTimeout m) = m"
| "exn_message (IpcMessageError m) = m"
| "exn_message (ProtocolVersionError m) = m"
| "exn_message (IpcAuthenticationError m) = m"
| "exn_message (RemoteFileError _ m) = m"
| "exn_message (FileConflictError m) = m"
| "exn_message (ElevationError _ m) = m"
| "exn_message (BrokerTaskError m) = m"
| "exn_message (BrokerTaskUnavailable m) = m"
| "exn_message (InstallerError m) = m"
| "exn_message (PublicKeyInstallOutcomeUnknown m _) = m"
| "exn_message (PublicKeyTransitionError m _ _) = m"

text \<open>Which \<^verbatim>\<open>except\<close> clauses catch an exception: the class hierarchy.\<close>

definition is_serverops_error :: "exn \<Rightarrow> bool" where
  "is_serverops_error e = (exn_code e \<noteq> None)"

definition is_value_error :: "exn \<Rightarrow> bool" where
  "is_value_error e =
     (case e of ValueError _ \<Rightarrow> True | FrameProtocolError _ \<Rightarrow> True
      | PromptPolicyError _ \<Rightarrow> True | _ \<Rightarrow> False)"

definition is_ipc_error :: "exn \<Rightarrow> bool" where
  "is_ipc_error e =
     (case e of IpcClosed _ \<Rightarrow> True | IpcTimeout _ \<Rightarrow> True | IpcMessageError _ \<Rightarrow> True
      | ProtocolVersionError _ \<Rightarrow> True | IpcAuthenticationError _ \<Rightarrow> True | _ \<Rightarrow> False)"

definition is_broker_request_error :: "exn \<Rightarrow> bool" where
  "is_broker_request_error e =
     (case e of BrokerRequestError _ \<Rightarrow> True | BrokerRemoteError _ _ \<Rightarrow> True
      | BrokerOutcomeUnknown _ _ \<Rightarrow> True | WorkerOperationError _ _ _ \<Rightarrow> True
      | SessionNotFound _ \<Rightarrow> True | PublicKeyInstallOutcomeUnknown _ _ \<Rightarrow> True | _ \<Rightarrow> False)"

section \<open>Number conversions that can fail\<close>

text \<open>\<^verbatim>\<open>int(text)\<close> of a text of ASCII digits, and \<^verbatim>\<open>float(i)\<close> of an integer that is too large for a float.\<close>

definition digits_number :: "pystr \<Rightarrow> nat res" where
  "digits_number digits =
     (if length digits \<le> 4300 then Inr (digits_val digits)
      else Inl (ValueError (''Exceeds the limit (4300 digits) for integer string conversion: value has '' @
             dec_nat (length digits) @ '' digits; use sys.set_int_max_str_digits() to increase the limit'')))"

definition FLOAT_LIMIT :: int where
  "FLOAT_LIMIT = 2 ^ 1024 - 2 ^ 970"

definition float_of_int :: "int \<Rightarrow> rat res" where
  "float_of_int i =
     (if \<bar>i\<bar> < FLOAT_LIMIT then Inr (of_int i) else Inl (OverflowError ''int too large to convert to float''))"

lemma ipc_error_is_serverops [simp]: "is_ipc_error e \<Longrightarrow> is_serverops_error e"
  by (cases e) (auto simp: is_ipc_error_def is_serverops_error_def)

end
