(* ===== verification/Byte_Window.thy ===== *)
theory Byte_Window
  imports Text_Lib
begin

text \<open>
  The contract of the bounded byte stores: the output of the frame parser
  (\<^verbatim>\<open>_store_output\<close> in \<^verbatim>\<open>ssh/framing.py\<close>) and the terminal ring buffer
  (\<^verbatim>\<open>append\<close> in \<^verbatim>\<open>terminal/buffer.py\<close>). Each keeps the newest bytes of everything
  pushed into it, up to a fixed limit. What a client may conclude from that is proved once here.
\<close>

definition last_bytes :: "nat \<Rightarrow> bytes \<Rightarrow> bytes" where
  "last_bytes n s = drop (length s - n) s"

lemma length_last_bytes [simp]: "length (last_bytes n s) = min n (length s)"
  by (auto simp: last_bytes_def)

lemma last_bytes_short [simp]: "length s \<le> n \<Longrightarrow> last_bytes n s = s"
  by (simp add: last_bytes_def)

lemma last_bytes_append: "last_bytes n (last_bytes n s @ t) = last_bytes n (s @ t)"
proof (cases "length s \<le> n")
  case False
  then have "length s - n + (n + length t - n) = length s + length t - n" by simp
  with False show ?thesis by (simp add: last_bytes_def add.commute)
qed simp

lemma last_bytes_Nil [simp]: "last_bytes n [] = []"
  by (simp add: last_bytes_def)

lemma last_bytes_suffix: "\<exists>u. s = u @ last_bytes n s"
  unfolding last_bytes_def by (metis append_take_drop_id)

locale byte_window =
  fixes push :: "bytes \<Rightarrow> 's \<Rightarrow> 's"
    and window :: "'s \<Rightarrow> bytes"
    and limit :: "'s \<Rightarrow> nat"
  assumes window_push:
      "length (window s) \<le> limit s \<Longrightarrow> window (push d s) = last_bytes (limit s) (window s @ d)"
    and limit_push: "limit (push d s) = limit s"
begin

definition bounded :: "'s \<Rightarrow> bool" where
  "bounded s = (length (window s) \<le> limit s)"

lemma bounded_push: "bounded s \<Longrightarrow> bounded (push d s)"
  by (simp add: bounded_def window_push limit_push)

lemma limit_pushes: "limit (fold push ds s) = limit s"
  by (induction ds arbitrary: s) (simp_all add: limit_push)

text \<open>After any sequence of pushes the window is the newest part of everything pushed.\<close>

lemma window_pushes:
  "bounded s \<Longrightarrow> window (fold push ds s) = last_bytes (limit s) (window s @ concat ds)"
proof (induction ds arbitrary: s)
  case (Cons d ds)
  have "window (fold push (d # ds) s) = last_bytes (limit s) (window (push d s) @ concat ds)"
    using Cons by (simp add: bounded_push limit_push)
  also have "\<dots> = last_bytes (limit s) (window s @ concat (d # ds))"
    using Cons.prems by (simp add: window_push bounded_def last_bytes_append)
  finally show ?case .
qed (simp add: bounded_def)

lemma bounded_pushes: "bounded s \<Longrightarrow> bounded (fold push ds s)"
  by (induction ds arbitrary: s) (simp_all add: bounded_push)

end

end
