(* ===== verification/Framing.thy ===== *)
theory Framing
  imports Errors Byte_Window "HOL-Library.Sublist"
begin

text \<open>
  \<^verbatim>\<open>ssh/framing.py\<close>: the text that wraps a command for the held Bash shell, and the
  incremental parser that finds the completion frame in the terminal's bytes.

  The parser's fields keep the names of \<^verbatim>\<open>CommandFrameParser\<close> without the underscore. An
  operation returns the parser it leaves behind together with its result, since an exception
  does not undo the changes made before it.
\<close>

section \<open>Command text\<close>

definition SHELL_NONCE_VARIABLE :: pystr where
  "SHELL_NONCE_VARIABLE = ''_SERVEROPS_SHELL_NONCE''"

definition PARTIAL_LINE_LIMIT :: nat where
  "PARTIAL_LINE_LIMIT = 4096"

definition validate_token :: "pystr \<Rightarrow> pystr \<Rightarrow> unit res" where
  "validate_token value name =
     guardE (\<not> (LF \<in> set value \<or> CR \<in> set value \<or> \<not> (value \<noteq> [] \<and> list_all is_alnum value)))
       (ValueError (name @ '' must be a single alphanumeric value''))"

definition frame_marker :: "pystr \<Rightarrow> pystr \<Rightarrow> pystr" where
  "frame_marker kind token = ''__SERVEROPS_'' @ kind @ ''_'' @ token @ ''__''"

definition quoted_empty_check :: "pystr \<Rightarrow> pystr" where
  "quoted_empty_check var =
     '' && [[ ${'' @ var @ ''-} == '' @ [SQ, SQ] @ '' ]]'' @
     '' && [[ $(builtin declare -p '' @ var @ '' 2>/dev/null) == declare'' @ [BSL] @ '' -*r*'' @ [BSL] @ '' '' @
     var @ ''='' @ [BSL, QT, BSL, QT] @ '' ]]''"

definition shell_health_condition :: "pystr \<Rightarrow> pystr" where
  "shell_health_condition shell_nonce =
     ''[[ ${'' @ SHELL_NONCE_VARIABLE @ ''-} == '' @ [SQ] @ shell_nonce @ [SQ] @ '' ]]'' @
     '' && [[ $(builtin declare -p '' @ SHELL_NONCE_VARIABLE @ '' 2>/dev/null) == '' @
     ''declare'' @ [BSL] @ '' -*r*'' @ [BSL] @ '' '' @ SHELL_NONCE_VARIABLE @ ''='' @ [BSL, QT] @ shell_nonce @
     [BSL, QT] @ '' ]]'' @
     quoted_empty_check ''PROMPT_COMMAND'' @ quoted_empty_check ''PS0'' @ quoted_empty_check ''PS1'' @
     quoted_empty_check ''PS2'' @ quoted_empty_check ''PS3'' @ quoted_empty_check ''PS4''"

definition completion_wrapper :: "pystr \<Rightarrow> pystr option \<Rightarrow> pystr \<Rightarrow> pystr" where
  "completion_wrapper token shell_nonce exit_value =
     (let end_m = frame_marker ''END'' token; cwd = frame_marker ''CWD'' token;
          health = frame_marker ''HEALTH'' token;
          condition = ''builtin command -p stty -echo intr '' @ [SQ] @ ''^]'' @ [SQ] @ '' >/dev/null 2>&1'' @
            (case shell_nonce of None \<Rightarrow> [] | Some n \<Rightarrow> '' && '' @ shell_health_condition n)
      in (case shell_nonce of None \<Rightarrow> [] | Some _ \<Rightarrow>
            ''builtin printf '' @ [SQ, BSL] @ ''n'' @ frame_marker ''DEBUG'' token @ [BSL] @ ''n'' @ [SQ, LF] @
            ''builtin trap -p DEBUG'' @ [LF] @
            ''builtin printf '' @ [SQ] @ frame_marker ''DEBUG_END'' token @ [BSL] @ ''n'' @ [SQ, LF] @
            ''builtin trap - DEBUG'' @ [LF]) @
         ''if '' @ condition @ ''; then'' @ [LF] @
         ''  builtin printf '' @ [SQ, BSL] @ ''n'' @ end_m @ '':%s'' @ [BSL] @ ''n'' @ [SQ] @ '' '' @ [QT] @ exit_value @ [QT, LF] @
         ''  builtin printf '' @ [SQ] @ cwd @ '':'' @ [SQ, LF] @
         ''  builtin pwd'' @ [LF] @
         (case shell_nonce of None \<Rightarrow> [] | Some _ \<Rightarrow>
            ''  builtin printf '' @ [SQ] @ health @ '':%s'' @ [BSL] @ ''n'' @ [SQ] @ '' '' @ [QT] @ ''${'' @
            SHELL_NONCE_VARIABLE @ ''}'' @ [QT, LF]) @
         ''fi'' @ [LF])"

definition validate_nonce :: "pystr option \<Rightarrow> unit res" where
  "validate_nonce shell_nonce =
     (case shell_nonce of None \<Rightarrow> Inr () | Some n \<Rightarrow> validate_token n ''shell nonce'')"

definition command_wrapper :: "pystr \<Rightarrow> pystr \<Rightarrow> pystr option \<Rightarrow> pystr res" where
  "command_wrapper command token shell_nonce =
     bindE (validate_token token ''token'') (\<lambda>_.
     bindE (validate_nonce shell_nonce) (\<lambda>_.
       let begin_m = frame_marker ''BEGIN'' token;
           stripped = rstrip_chars {CR, LF} command;
           body = (if stripped = [] then '':'' else stripped)
       in Inr (''{'' @ [LF] @
          ''builtin command -p stty -echo intr '' @ [SQ] @ ''^]'' @ [SQ] @ '' >/dev/null 2>&1'' @ [LF] @
          ''builtin printf '' @ [SQ, BSL] @ ''n'' @ begin_m @ [BSL] @ ''n'' @ [SQ] @ ''; {'' @ [LF] @
          body @ [LF] @
          ''}; _serverops_exit=$?'' @ [LF] @
          completion_wrapper token shell_nonce ''$_serverops_exit'' @
          ''}'' @ [LF])))"

definition interrupt_recovery_wrapper :: "pystr \<Rightarrow> pystr option \<Rightarrow> pystr res" where
  "interrupt_recovery_wrapper token shell_nonce =
     bindE (validate_token token ''token'') (\<lambda>_.
     bindE (validate_nonce shell_nonce) (\<lambda>_.
       Inr (completion_wrapper token shell_nonce ''130'')))"

definition shell_bootstrap_wrapper :: "pystr \<Rightarrow> pystr \<Rightarrow> pystr res" where
  "shell_bootstrap_wrapper shell_nonce token =
     bindE (validate_token shell_nonce ''shell nonce'') (\<lambda>_.
       let e = [SQ, SQ] in
       command_wrapper
         (''builtin unset PROMPT_COMMAND PS0'' @ [LF] @
          ''builtin export PS1='' @ e @ '' PS2='' @ e @ '' PS3='' @ e @ '' PS4='' @ e @ [LF] @
          ''builtin readonly PROMPT_COMMAND='' @ e @ '' PS0='' @ e @ '' PS1='' @ e @ '' PS2='' @ e @
          '' PS3='' @ e @ '' PS4='' @ e @ [LF] @
          ''builtin readonly '' @ SHELL_NONCE_VARIABLE @ ''='' @ [SQ] @ shell_nonce @ [SQ])
         token (Some shell_nonce))"

section \<open>ANSI escape sequences\<close>

text \<open>
  \<^verbatim>\<open>ANSI_ESCAPE.sub("", text)\<close> for the pattern ESC followed by one of \<^verbatim>\<open>[@-Z\\-_]\<close>, or by
  \<^verbatim>\<open>[\<close>, parameter bytes \<^verbatim>\<open>[0-?]*\<close>, intermediate bytes \<^verbatim>\<open>[ -/]*\<close> and a final byte
  \<^verbatim>\<open>[@-~]\<close>. The byte classes are disjoint, so the pattern never backtracks into another match.
\<close>

definition csi_tail :: "pystr \<Rightarrow> pystr option" where
  "csi_tail s =
     (case dropWhile (\<lambda>c. 32 \<le> ord c \<and> ord c \<le> 47) (dropWhile (\<lambda>c. 48 \<le> ord c \<and> ord c \<le> 63) s) of
        [] \<Rightarrow> None
      | c # rest \<Rightarrow> if 64 \<le> ord c \<and> ord c \<le> 126 then Some rest else None)"

definition escape_tail :: "pystr \<Rightarrow> pystr option" where
  "escape_tail s =
     (case s of
        [] \<Rightarrow> None
      | c # rest \<Rightarrow>
          if (64 \<le> ord c \<and> ord c \<le> 90) \<or> (92 \<le> ord c \<and> ord c \<le> 95) then Some rest
          else if ord c = 91 then csi_tail rest
          else None)"

lemma dropWhile_Cons_length: "dropWhile P s = c # r \<Longrightarrow> length r < length s"
  using length_dropWhile_le [of P s] by simp

lemma csi_tail_length:
  assumes "csi_tail s = Some r"
  shows "length r < length s"
proof -
  let ?t = "dropWhile (\<lambda>c. 48 \<le> ord c \<and> ord c \<le> 63) s"
  from assms obtain c where "dropWhile (\<lambda>c. 32 \<le> ord c \<and> ord c \<le> 47) ?t = c # r"
    by (auto simp: csi_tail_def split: list.splits if_splits)
  then have "length r < length ?t" by (rule dropWhile_Cons_length)
  also have "\<dots> \<le> length s" by (rule length_dropWhile_le)
  finally show ?thesis .
qed

lemma escape_tail_length: "escape_tail s = Some r \<Longrightarrow> length r < length s"
  by (auto simp: escape_tail_def dest!: csi_tail_length split: list.splits if_splits)

function (sequential) strip_ansi :: "pystr \<Rightarrow> pystr" where
  "strip_ansi [] = []"
| "strip_ansi (c # s) =
     (if c = ESC then (case escape_tail s of Some r \<Rightarrow> strip_ansi r | None \<Rightarrow> c # strip_ansi s)
      else c # strip_ansi s)"
  by pat_completeness auto
termination
  by (relation "measure length") (auto dest: escape_tail_length)

section \<open>The frame parser\<close>

record command_result =
  cr_output :: pystr
  cr_exit_code :: int
  cr_cwd :: pystr
  cr_truncated :: bool

record frame_parser =
  fp_begin :: pystr
  fp_end_prefix :: pystr
  fp_cwd_prefix :: pystr
  fp_health_line :: "pystr option"
  fp_debug_begin :: "pystr option"
  fp_debug_end :: "pystr option"
  fp_scan :: bytes
  fp_output :: bytes
  fp_max_output_bytes :: nat
  fp_started :: bool
  fp_truncated :: bool
  fp_done :: bool
  fp_pending_exit :: "int option"
  fp_pending_cwd :: "pystr option"
  fp_pending_output_line :: "bytes option"
  fp_in_debug_probe :: bool
  fp_debug_probe_seen :: bool

definition new_frame_parser :: "pystr \<Rightarrow> int \<Rightarrow> pystr option \<Rightarrow> frame_parser res" where
  "new_frame_parser token max_output_bytes shell_nonce =
     bindE (validate_token token ''token'') (\<lambda>_.
     bindE (validate_nonce shell_nonce) (\<lambda>_.
     bindE (guardE (\<not> max_output_bytes < 1) (ValueError ''max_output_bytes must be positive'')) (\<lambda>_.
       Inr \<lparr>fp_begin = frame_marker ''BEGIN'' token,
            fp_end_prefix = frame_marker ''END'' token @ '':'',
            fp_cwd_prefix = frame_marker ''CWD'' token @ '':'',
            fp_health_line = map_option (\<lambda>n. frame_marker ''HEALTH'' token @ '':'' @ n) shell_nonce,
            fp_debug_begin = map_option (\<lambda>_. frame_marker ''DEBUG'' token) shell_nonce,
            fp_debug_end = map_option (\<lambda>_. frame_marker ''DEBUG_END'' token) shell_nonce,
            fp_scan = [], fp_output = [],
            fp_max_output_bytes = nat max_output_bytes,
            fp_started = False, fp_truncated = False, fp_done = False,
            fp_pending_exit = None, fp_pending_cwd = None, fp_pending_output_line = None,
            fp_in_debug_probe = False, fp_debug_probe_seen = (shell_nonce = None)\<rparr>)))"

definition store_output :: "bytes \<Rightarrow> frame_parser \<Rightarrow> frame_parser" where
  "store_output data p =
     (if data = [] then p
      else let out = fp_output p @ data;
               overflow = length out - fp_max_output_bytes p
           in if 0 < overflow then p\<lparr>fp_output := drop overflow out, fp_truncated := True\<rparr>
              else p\<lparr>fp_output := out\<rparr>)"

text \<open>The line without its end: \<^verbatim>\<open>\r+\n$\<close>, else a final \<^verbatim>\<open>\n\<close>.\<close>

definition chop_line_end :: "bytes \<Rightarrow> bytes" where
  "chop_line_end line =
     (if line \<noteq> [] \<and> last line = LF then rstrip_chars {CR} (butlast line) else line)"

definition flush_final_output_line :: "frame_parser \<Rightarrow> frame_parser" where
  "flush_final_output_line p =
     (case fp_pending_output_line p of
        None \<Rightarrow> p
      | Some line \<Rightarrow> store_output (chop_line_end line) (p\<lparr>fp_pending_output_line := None\<rparr>))"

definition store_pending :: "frame_parser \<Rightarrow> frame_parser" where
  "store_pending p =
     (case fp_pending_output_line p of None \<Rightarrow> p | Some line \<Rightarrow> store_output line p)"

text \<open>\<^verbatim>\<open>re.sub(r"\r+\n", "\n", text).replace("\r", "\n")\<close>\<close>

fun crs_then_lf :: "pystr \<Rightarrow> bool" where
  "crs_then_lf [] = False"
| "crs_then_lf (c # s) = (c = LF \<or> (c = CR \<and> crs_then_lf s))"

fun collapse_cr_lf :: "pystr \<Rightarrow> pystr" where
  "collapse_cr_lf [] = []"
| "collapse_cr_lf (c # s) =
     (if c = CR \<and> crs_then_lf s then collapse_cr_lf s else c # collapse_cr_lf s)"

definition normalize_output :: "bytes \<Rightarrow> pystr" where
  "normalize_output out = subst_char CR LF (collapse_cr_lf (strip_ansi (decode_replace out)))"

definition exit_text_ok :: "pystr \<Rightarrow> bool" where
  "exit_text_ok t =
     (case t of
        [] \<Rightarrow> False
      | c # r \<Rightarrow> if c = CHR ''-'' then r \<noteq> [] \<and> list_all is_digit r else list_all is_digit t)"

definition exit_value :: "pystr \<Rightarrow> int" where
  "exit_value t =
     (case t of
        [] \<Rightarrow> 0
      | c # r \<Rightarrow> if c = CHR ''-'' then - int (digits_val r) else int (digits_val t))"

definition complete :: "int \<Rightarrow> pystr \<Rightarrow> frame_parser \<Rightarrow> frame_parser \<times> command_result option res" where
  "complete code cwd p =
     (p\<lparr>fp_done := True\<rparr>,
      Inr (Some \<lparr>cr_output = normalize_output (fp_output p), cr_exit_code = code, cr_cwd = cwd,
                 cr_truncated = fp_truncated p\<rparr>))"

definition normalized_line :: "bytes \<Rightarrow> pystr" where
  "normalized_line raw_line = strip_ansi (decode_replace (rstrip_chars {CR} (butlast raw_line)))"

text \<open>A line of the command's own output, before the exit frame.\<close>

definition consume_output_line ::
  "bytes \<Rightarrow> pystr \<Rightarrow> frame_parser \<Rightarrow> frame_parser \<times> command_result option res" where
  "consume_output_line raw_line normalized p =
     (if fp_in_debug_probe p then
        (if Some normalized = fp_debug_end p
         then (p\<lparr>fp_in_debug_probe := False, fp_debug_probe_seen := True\<rparr>, Inr None)
         else if normalized \<noteq> []
         then (p, Inl (FrameProtocolError ''the Bash DEBUG trap changed during the command''))
         else (p, Inr None))
      else if fp_debug_begin p = Some normalized
      then ((flush_final_output_line p)\<lparr>fp_in_debug_probe := True\<rparr>, Inr None)
      else if (case fp_debug_begin p of None \<Rightarrow> False | Some d \<Rightarrow> starts_with d normalized)
      then (p, Inl (FrameProtocolError ''command DEBUG-probe frame is malformed''))
      else if starts_with (fp_end_prefix p) normalized then
        (if \<not> fp_debug_probe_seen p
         then (p, Inl (FrameProtocolError ''command DEBUG-probe frame is missing''))
         else let exit_text = drop (length (fp_end_prefix p)) normalized in
           if \<not> exit_text_ok exit_text
           then (p, Inl (FrameProtocolError ''command exit frame is malformed''))
           else ((flush_final_output_line p)\<lparr>fp_pending_exit := Some (exit_value exit_text)\<rparr>, Inr None))
      else ((store_pending p)\<lparr>fp_pending_output_line := Some raw_line\<rparr>, Inr None))"

definition consume_line ::
  "bytes \<Rightarrow> frame_parser \<Rightarrow> frame_parser \<times> command_result option res" where
  "consume_line raw_line p =
     (let normalized = normalized_line raw_line in
      if \<not> fp_started p then
        (if normalized = fp_begin p then (p\<lparr>fp_started := True\<rparr>, Inr None)
         else if starts_with (fp_begin p) normalized
         then (p, Inl (FrameProtocolError ''command begin frame is malformed''))
         else (p, Inr None))
      else case fp_pending_exit p of
        None \<Rightarrow> consume_output_line raw_line normalized p
      | Some code \<Rightarrow>
          (case fp_pending_cwd p of
             None \<Rightarrow>
               if \<not> starts_with (fp_cwd_prefix p) normalized
               then (p, Inl (FrameProtocolError ''command cwd frame is missing after the exit frame''))
               else let cwd = drop (length (fp_cwd_prefix p)) normalized;
                        p' = p\<lparr>fp_pending_cwd := Some cwd\<rparr>
                    in if fp_health_line p = None then complete code cwd p' else (p', Inr None)
           | Some cwd \<Rightarrow>
               if Some normalized \<noteq> fp_health_line p
               then (p, Inl (FrameProtocolError ''command shell-health frame is invalid''))
               else complete code cwd p))"

definition bound_partial_line :: "frame_parser \<Rightarrow> frame_parser \<times> unit res" where
  "bound_partial_line p =
     (if \<not> fp_started p \<or> fp_pending_exit p \<noteq> None then
        (p, guardE (\<not> PARTIAL_LINE_LIMIT < length (fp_scan p))
              (FrameProtocolError ''command frame line exceeds the supported limit''))
      else if PARTIAL_LINE_LIMIT < length (fp_scan p) then
        (let p1 = (store_pending p)\<lparr>fp_pending_output_line := None\<rparr>;
             flush = length (fp_scan p1) - PARTIAL_LINE_LIMIT
         in ((store_output (take flush (fp_scan p1)) p1)\<lparr>fp_scan := drop flush (fp_scan p1)\<rparr>, Inr ()))
      else (p, Inr ()))"

text \<open>The first line of the scan buffer with its line feed, and the bytes after it.\<close>

definition take_line :: "bytes \<Rightarrow> (bytes \<times> bytes) option" where
  "take_line s =
     (case dropWhile (\<lambda>c. c \<noteq> LF) s of
        [] \<Rightarrow> None
      | _ # rest \<Rightarrow> Some (takeWhile (\<lambda>c. c \<noteq> LF) s @ [LF], rest))"

lemma take_line_length: "take_line s = Some (l, r) \<Longrightarrow> length r < length s"
  by (auto simp: take_line_def dest: dropWhile_Cons_length split: list.splits)

definition feed_end :: "bool \<Rightarrow> frame_parser \<Rightarrow> frame_parser \<times> command_result option res" where
  "feed_end final p =
     (case bound_partial_line p of
        (p', Inl e) \<Rightarrow> (p', Inl e)
      | (p', Inr _) \<Rightarrow>
          (p', if final then Inl (FrameProtocolError ''command frame ended before verified completion'')
               else Inr None))"

text \<open>The \<^verbatim>\<open>while True\<close> loop of \<^verbatim>\<open>feed\<close>, on the bytes of the scan buffer.\<close>

function feed_loop ::
  "bool \<Rightarrow> bytes \<Rightarrow> frame_parser \<Rightarrow> frame_parser \<times> command_result option res" where
  "feed_loop final scan p =
     (case take_line scan of
        None \<Rightarrow> feed_end final (p\<lparr>fp_scan := scan\<rparr>)
      | Some (line, rest) \<Rightarrow>
          (case consume_line line (p\<lparr>fp_scan := rest\<rparr>) of
             (p', Inl e) \<Rightarrow> (p', Inl e)
           | (p', Inr (Some r)) \<Rightarrow> (p', Inr (Some r))
           | (p', Inr None) \<Rightarrow> feed_loop final rest p'))"
  by pat_completeness auto
termination
  by (relation "measure (\<lambda>(f, s, p). length s)") (auto dest: take_line_length)

declare feed_loop.simps [simp del]

definition feed ::
  "bytes \<Rightarrow> bool \<Rightarrow> frame_parser \<Rightarrow> frame_parser \<times> command_result option res" where
  "feed data final p =
     (if fp_done p then (p, Inl (RuntimeError ''frame already completed''))
      else feed_loop final (fp_scan p @ data) p)"

lemmas frame_defs = consume_line_def consume_output_line_def complete_def
  flush_final_output_line_def store_pending_def store_output_def

lemma limit_store_output [simp]: "fp_max_output_bytes (store_output d p) = fp_max_output_bytes p"
  by (simp add: store_output_def Let_def)

interpretation fw: byte_window store_output fp_output fp_max_output_bytes
  by unfold_locales (auto simp: store_output_def last_bytes_def Let_def)

lemma bounded_fields [simp]:
  "fw.bounded (p\<lparr>fp_scan := x\<rparr>) = fw.bounded p"
  "fw.bounded (p\<lparr>fp_started := b\<rparr>) = fw.bounded p"
  "fw.bounded (p\<lparr>fp_done := b\<rparr>) = fw.bounded p"
  "fw.bounded (p\<lparr>fp_pending_exit := e\<rparr>) = fw.bounded p"
  "fw.bounded (p\<lparr>fp_pending_cwd := c\<rparr>) = fw.bounded p"
  "fw.bounded (p\<lparr>fp_pending_output_line := l\<rparr>) = fw.bounded p"
  "fw.bounded (p\<lparr>fp_in_debug_probe := b\<rparr>) = fw.bounded p"
  "fw.bounded (p\<lparr>fp_debug_probe_seen := b\<rparr>) = fw.bounded p"
  by (simp_all add: fw.bounded_def)

lemma bounded_store_output [simp]: "fw.bounded p \<Longrightarrow> fw.bounded (store_output d p)"
  by (rule fw.bounded_push)

lemma bounded_flush [simp]: "fw.bounded p \<Longrightarrow> fw.bounded (flush_final_output_line p)"
  by (simp add: flush_final_output_line_def split: option.split)

lemma bounded_store_pending [simp]: "fw.bounded p \<Longrightarrow> fw.bounded (store_pending p)"
  by (simp add: store_pending_def split: option.split)

lemma bounded_consume_line: "fw.bounded p \<Longrightarrow> fw.bounded (fst (consume_line l p))"
  by (auto simp: consume_line_def consume_output_line_def complete_def Let_def split: option.split)

lemma bounded_bound_partial: "fw.bounded p \<Longrightarrow> fw.bounded (fst (bound_partial_line p))"
  by (simp add: bound_partial_line_def Let_def)

lemma scan_store_output [simp]: "fp_scan (store_output d p) = fp_scan p"
  by (simp add: store_output_def Let_def)

lemma scan_store_pending [simp]: "fp_scan (store_pending p) = fp_scan p"
  by (simp add: store_pending_def split: option.split)

lemma bound_partial_scan:
  "bound_partial_line p = (p', Inr u) \<Longrightarrow> length (fp_scan p') \<le> PARTIAL_LINE_LIMIT"
  by (auto simp: bound_partial_line_def Let_def split: if_splits)


text \<open>The lines of a buffer that end in a line feed, and what follows the last of them.\<close>

definition complete_lines :: "bytes \<Rightarrow> bytes list" where
  "complete_lines s = map (\<lambda>w. w @ [LF]) (butlast (split_on LF s))"

definition remainder :: "bytes \<Rightarrow> bytes" where
  "remainder s = last (split_on LF s)"

fun run_lines :: "bytes list \<Rightarrow> frame_parser \<Rightarrow> frame_parser \<times> command_result option res" where
  "run_lines [] p = (p, Inr None)"
| "run_lines (l # ls) p =
     (case consume_line l p of
        (p', Inr None) \<Rightarrow> run_lines ls p'
      | (p', r) \<Rightarrow> (p', r))"

lemma take_line_None: "(take_line s = None) = (LF \<notin> set s)"
proof -
  have "(take_line s = None) = (dropWhile (\<lambda>c. c \<noteq> LF) s = [])"
    by (simp add: take_line_def del: dropWhile_eq_Nil_conv split: list.split)
  also have "\<dots> = (LF \<notin> set s)" by (auto simp: dropWhile_eq_Nil_conv)
  finally show ?thesis .
qed

lemma take_line_Some:
  assumes "take_line s = Some (l, r)"
  shows "\<exists>w. LF \<notin> set w \<and> l = w @ [LF] \<and> s = w @ LF # r"
proof -
  from assms obtain c where d: "dropWhile (\<lambda>c. c \<noteq> LF) s = c # r"
      and l: "l = takeWhile (\<lambda>c. c \<noteq> LF) s @ [LF]"
    by (auto simp: take_line_def split: list.splits)
  from d have "c = LF" using hd_dropWhile [of "\<lambda>c. c \<noteq> LF" s] by simp
  then have "s = takeWhile (\<lambda>c. c \<noteq> LF) s @ LF # r"
    using d takeWhile_dropWhile_id [of "\<lambda>c. c \<noteq> LF" s] by simp
  moreover have "LF \<notin> set (takeWhile (\<lambda>c. c \<noteq> LF) s)"
    by (auto dest: set_takeWhileD)
  ultimately show ?thesis using l by blast
qed

lemma lines_no_LF: "LF \<notin> set s \<Longrightarrow> complete_lines s = [] \<and> remainder s = s"
  by (simp add: complete_lines_def remainder_def split_on_no_sep)

lemma lines_LF:
  "LF \<notin> set w \<Longrightarrow> complete_lines (w @ LF # s) = (w @ [LF]) # complete_lines s \<and>
     remainder (w @ LF # s) = remainder s"
  by (simp add: complete_lines_def remainder_def split_on_append)

lemma store_output_scan [simp]: "store_output d (p\<lparr>fp_scan := x\<rparr>) = (store_output d p)\<lparr>fp_scan := x\<rparr>"
  by (simp add: store_output_def Let_def)

lemma flush_scan [simp]:
  "flush_final_output_line (p\<lparr>fp_scan := x\<rparr>) = (flush_final_output_line p)\<lparr>fp_scan := x\<rparr>"
  by (simp add: flush_final_output_line_def store_output_def Let_def split: option.split)

lemma store_pending_scan [simp]: "store_pending (p\<lparr>fp_scan := x\<rparr>) = (store_pending p)\<lparr>fp_scan := x\<rparr>"
  by (simp add: store_pending_def split: option.split)

lemma consume_line_scan:
  "consume_line l (p\<lparr>fp_scan := x\<rparr>) = apfst (fp_scan_update (\<lambda>_. x)) (consume_line l p)"
  by (auto simp: consume_line_def consume_output_line_def complete_def Let_def split: option.split)

lemma run_lines_scan:
  "run_lines ls (p\<lparr>fp_scan := x\<rparr>) = apfst (fp_scan_update (\<lambda>_. x)) (run_lines ls p)"
proof (induction ls arbitrary: p)
  case (Cons l ls)
  obtain q r where "consume_line l p = (q, r)" by (cases "consume_line l p")
  with Cons show ?case
    by (auto simp: consume_line_scan split: sum.split option.split)
qed simp

lemma feed_loop_line:
  assumes "LF \<notin> set w"
  shows "feed_loop final (w @ LF # s) p =
    (case consume_line (w @ [LF]) p of
       (q, Inl e) \<Rightarrow> (q\<lparr>fp_scan := s\<rparr>, Inl e)
     | (q, Inr (Some r)) \<Rightarrow> (q\<lparr>fp_scan := s\<rparr>, Inr (Some r))
     | (q, Inr None) \<Rightarrow> feed_loop final s (q\<lparr>fp_scan := s\<rparr>))"
proof -
  have "dropWhile (\<lambda>c. c \<noteq> LF) (w @ LF # s) = LF # s"
    and "takeWhile (\<lambda>c. c \<noteq> LF) (w @ LF # s) = w"
    using assms by (induction w) auto
  then have "take_line (w @ LF # s) = Some (w @ [LF], s)"
    by (simp add: take_line_def)
  then show ?thesis
    by (cases "consume_line (w @ [LF]) p")
       (auto simp: feed_loop.simps [of final "w @ LF # s" p] consume_line_scan
          split: sum.split option.split)
qed

lemma feed_loop_no_line: "LF \<notin> set s \<Longrightarrow> feed_loop final s p = feed_end final (p\<lparr>fp_scan := s\<rparr>)"
  using take_line_None [of s] by (simp add: feed_loop.simps [of final s p])

text \<open>A text is either one unfinished line or a line followed by more text.\<close>

lemma line_induct [case_names partial line]:
  assumes "\<And>s. LF \<notin> set s \<Longrightarrow> P s"
    and "\<And>w s. LF \<notin> set w \<Longrightarrow> P s \<Longrightarrow> P (w @ LF # s)"
  shows "P s"
proof (induction "length s" arbitrary: s rule: less_induct)
  case less
  show ?case
  proof (cases "LF \<in> set s")
    case True
    then obtain w r where "s = w @ LF # r" "LF \<notin> set w" by (meson split_list_first)
    with less assms(2) show ?thesis by simp
  qed (rule assms(1))
qed

lemma feed_loop_run_None:
  "run_lines (complete_lines s) p = (q, Inr None) \<Longrightarrow>
   feed_loop final s p = feed_end final (q\<lparr>fp_scan := remainder s\<rparr>)"
proof (induction s arbitrary: p q rule: line_induct)
  case (partial s)
  then show ?case by (simp add: lines_no_LF feed_loop_no_line)
next
  case (line w s)
  then obtain p' where p': "consume_line (w @ [LF]) p = (p', Inr None)"
      "run_lines (complete_lines s) p' = (q, Inr None)"
    by (auto simp: lines_LF split: prod.splits sum.splits option.splits)
  then have "run_lines (complete_lines s) (p'\<lparr>fp_scan := s\<rparr>) = (q\<lparr>fp_scan := s\<rparr>, Inr None)"
    by (simp add: run_lines_scan)
  from line.IH [OF this] line.hyps p' show ?case by (simp add: feed_loop_line lines_LF)
qed

lemma feed_loop_run_stop:
  "run_lines (complete_lines s) p = (q, r) \<Longrightarrow> r \<noteq> Inr None \<Longrightarrow>
   \<exists>x. feed_loop final s p = (q\<lparr>fp_scan := x\<rparr>, r)"
proof (induction s arbitrary: p q rule: line_induct)
  case (partial s)
  then show ?case by (simp add: lines_no_LF)
next
  case (line w s)
  obtain p' r' where p': "consume_line (w @ [LF]) p = (p', r')" by (cases "consume_line (w @ [LF]) p")
  show ?case
  proof (cases "r' = Inr None")
    case True
    with line.prems line.hyps p' have "run_lines (complete_lines s) p' = (q, r)"
      by (simp add: lines_LF)
    then have "run_lines (complete_lines s) (p'\<lparr>fp_scan := s\<rparr>) = (q\<lparr>fp_scan := s\<rparr>, r)"
      by (simp add: run_lines_scan)
    from line.IH [OF this line.prems(2)] True line.hyps p' show ?thesis by (simp add: feed_loop_line)
  next
    case False
    with line.prems line.hyps p' show ?thesis
      by (auto simp: feed_loop_line lines_LF split: sum.splits option.splits)
  qed
qed

lemma bounded_run_lines: "fw.bounded p \<Longrightarrow> fw.bounded (fst (run_lines ls p))"
proof (induction ls arbitrary: p)
  case (Cons l ls)
  have "fw.bounded (fst (consume_line l p))" using Cons.prems by (rule bounded_consume_line)
  with Cons.IH show ?case by (auto split: prod.split sum.split option.split)
qed simp

lemma bounded_feed_end:
  "fw.bounded p \<Longrightarrow> feed_end final p = (p', r) \<Longrightarrow>
   fw.bounded p' \<and> (r = Inr None \<longrightarrow> length (fp_scan p') \<le> PARTIAL_LINE_LIMIT)"
  using bounded_bound_partial [of p]
  by (auto simp: feed_end_def dest: bound_partial_scan split: prod.splits sum.splits if_splits)

lemma bounded_feed_loop:
  assumes "fw.bounded p" and "feed_loop final s p = (p', r)"
  shows "fw.bounded p' \<and> (r = Inr None \<longrightarrow> length (fp_scan p') \<le> PARTIAL_LINE_LIMIT)"
proof -
  obtain q r' where q: "run_lines (complete_lines s) p = (q, r')"
    by (cases "run_lines (complete_lines s) p")
  have bq: "fw.bounded q" using bounded_run_lines [OF assms(1), of "complete_lines s"] q by simp
  show ?thesis
  proof (cases "r' = Inr None")
    case True
    with q assms(2) have "feed_end final (q\<lparr>fp_scan := remainder s\<rparr>) = (p', r)"
      by (simp add: feed_loop_run_None)
    then show ?thesis using bq bounded_feed_end [of "q\<lparr>fp_scan := remainder s\<rparr>"] by simp
  next
    case False
    with q assms(2) obtain x where "(p', r) = (q\<lparr>fp_scan := x\<rparr>, r')"
      using feed_loop_run_stop [of s p q r' final] by auto
    with bq False show ?thesis by simp
  qed
qed

section \<open>Feeding in chunks\<close>

fun feed_chunks :: "bytes list \<Rightarrow> frame_parser \<Rightarrow> frame_parser \<times> command_result option res" where
  "feed_chunks [] p = (p, Inr None)"
| "feed_chunks (d # ds) p =
     (case feed d False p of
        (p', Inr None) \<Rightarrow> feed_chunks ds p'
      | (p', r) \<Rightarrow> (p', r))"

lemma complete_lines_append:
  "complete_lines (s @ d) = complete_lines s @ complete_lines (remainder s @ d) \<and>
   remainder (s @ d) = remainder (remainder s @ d)"
proof (induction s rule: line_induct)
  case (partial s)
  then show ?case by (simp add: lines_no_LF)
next
  case (line w s)
  then show ?case using lines_LF [of w "s @ d"] lines_LF [of w s] by simp
qed

lemma run_lines_append:
  "run_lines (ls @ ls') p =
     (case run_lines ls p of (q, Inr None) \<Rightarrow> run_lines ls' q | (q, r) \<Rightarrow> (q, r))"
  by (induction ls arbitrary: p) (auto split: prod.split sum.split option.split)

lemma consume_line_not_done:
  "consume_line l p = (q, Inr None) \<Longrightarrow> fp_done q = fp_done p"
  by (auto simp: consume_line_def consume_output_line_def complete_def Let_def
     flush_final_output_line_def store_pending_def store_output_def split: if_splits option.splits)

lemma run_lines_not_done: "run_lines ls p = (q, Inr None) \<Longrightarrow> fp_done q = fp_done p"
proof (induction ls arbitrary: p)
  case (Cons l ls)
  then show ?case
    by (auto dest!: consume_line_not_done split: prod.splits sum.splits option.splits)
qed simp

text \<open>No unfinished line of the stream is longer than the limit at a chunk boundary.\<close>

fun short_chunks :: "bytes \<Rightarrow> bytes list \<Rightarrow> bool" where
  "short_chunks s [] = True"
| "short_chunks s (d # ds) =
     (length (remainder (s @ d)) \<le> PARTIAL_LINE_LIMIT \<and> short_chunks (remainder (s @ d)) ds)"

lemma feed_end_short:
  "length (fp_scan p) \<le> PARTIAL_LINE_LIMIT \<Longrightarrow> feed_end False p = (p, Inr None)"
  by (simp add: feed_end_def bound_partial_line_def)

lemma feed_result:
  assumes "\<not> fp_done p" and "length (remainder (fp_scan p @ d)) \<le> PARTIAL_LINE_LIMIT"
  shows "snd (feed d False p) = snd (run_lines (complete_lines (fp_scan p @ d)) p)"
    and "snd (feed d False p) = Inr None \<Longrightarrow>
      fst (feed d False p) = (fst (run_lines (complete_lines (fp_scan p @ d)) p))
        \<lparr>fp_scan := remainder (fp_scan p @ d)\<rparr>"
proof -
  obtain q r where q: "run_lines (complete_lines (fp_scan p @ d)) p = (q, r)"
    by (cases "run_lines (complete_lines (fp_scan p @ d)) p")
  have "feed d False p = feed_loop False (fp_scan p @ d) p" using assms(1) by (simp add: feed_def)
  then have "(r = Inr None \<and> feed d False p = (q\<lparr>fp_scan := remainder (fp_scan p @ d)\<rparr>, Inr None)) \<or>
      (r \<noteq> Inr None \<and> (\<exists>x. feed d False p = (q\<lparr>fp_scan := x\<rparr>, r)))"
    using q assms(2) feed_loop_run_None [of "fp_scan p @ d" p q False]
      feed_loop_run_stop [of "fp_scan p @ d" p q r False]
    by (cases "r = Inr None") (simp_all add: feed_end_short)
  then show "snd (feed d False p) = snd (run_lines (complete_lines (fp_scan p @ d)) p)"
    and "snd (feed d False p) = Inr None \<Longrightarrow>
      fst (feed d False p) = (fst (run_lines (complete_lines (fp_scan p @ d)) p))
        \<lparr>fp_scan := remainder (fp_scan p @ d)\<rparr>"
    using q by auto
qed

lemma feed_chunks_lines:
  "\<not> fp_done p \<Longrightarrow> short_chunks (fp_scan p) ds \<Longrightarrow> LF \<notin> set (fp_scan p) \<Longrightarrow>
   snd (feed_chunks ds p) = snd (run_lines (complete_lines (fp_scan p @ concat ds)) p)"
proof (induction ds arbitrary: p)
  case Nil
  then show ?case by (simp add: lines_no_LF)
next
  case (Cons d ds)
  let ?s = "fp_scan p @ d"
  obtain q r where q: "run_lines (complete_lines ?s) p = (q, r)"
    by (cases "run_lines (complete_lines ?s) p")
  have split: "complete_lines (fp_scan p @ concat (d # ds))
      = complete_lines ?s @ complete_lines (remainder ?s @ concat ds)"
    using complete_lines_append [of ?s "concat ds"] by simp
  obtain f where f: "feed d False p = f" by simp
  have short: "length (remainder ?s) \<le> PARTIAL_LINE_LIMIT" using Cons.prems by simp
  note res = feed_result [OF Cons.prems(1) short]
  show ?case
  proof (cases "r = Inr None")
    case True
    have noLF: "LF \<notin> set (remainder ?s)"
      using split_on_no_sep_in [of _ LF ?s] last_in_set [OF split_on_nonempty [of LF ?s]]
      by (auto simp: remainder_def)
    let ?p' = "q\<lparr>fp_scan := remainder ?s\<rparr>"
    have "snd (feed_chunks ds ?p') = snd (run_lines (complete_lines (remainder ?s @ concat ds)) ?p')"
      using Cons.IH [of ?p'] Cons.prems noLF run_lines_not_done [of "complete_lines ?s" p q] q True
      by simp
    moreover have "feed d False p = (?p', Inr None)"
      using res q True by (cases "feed d False p") simp
    ultimately show ?thesis
      using q True split by (simp add: run_lines_append run_lines_scan)
  next
    case False
    then have "snd (feed d False p) = r" using res(1) q by simp
    with False q split show ?thesis
      by (cases "feed d False p") (auto simp: run_lines_append split: sum.splits option.splits)
  qed
qed

section \<open>The frame of a completed command\<close>

text \<open>
  What the wrapper's \<^verbatim>\<open>printf\<close> commands make the shell emit around the output of a command
  that prints \<open>out\<close> and ends with \<open>code\<close> in the directory \<open>cwd\<close>.
\<close>

definition frame_bytes :: "pystr \<Rightarrow> pystr \<Rightarrow> bytes \<Rightarrow> int \<Rightarrow> pystr \<Rightarrow> bytes" where
  "frame_bytes token nonce out code cwd =
     concat (map (\<lambda>l. l @ [LF])
       [[], frame_marker ''BEGIN'' token, out,
        frame_marker ''DEBUG'' token, frame_marker ''DEBUG_END'' token, [],
        frame_marker ''END'' token @ '':'' @ dec_int code,
        frame_marker ''CWD'' token @ '':'' @ cwd,
        frame_marker ''HEALTH'' token @ '':'' @ nonce])"

definition plain_char :: "char \<Rightarrow> bool" where
  "plain_char c = (ascii c \<and> c \<noteq> ESC \<and> c \<noteq> CR \<and> c \<noteq> LF)"

definition plain_text :: "pystr \<Rightarrow> bool" where
  "plain_text s = list_all plain_char s"

text \<open>No line of the output normalizes to the beginning of a DEBUG or END frame of the token.\<close>

definition frame_free :: "pystr \<Rightarrow> bytes \<Rightarrow> bool" where
  "frame_free token out =
     list_all (\<lambda>w. \<not> starts_with (frame_marker ''DEBUG'' token) (normalized_line (w @ [LF])) \<and>
                   \<not> starts_with (frame_marker ''END'' token @ '':'') (normalized_line (w @ [LF])))
       (split_on LF out)"

lemma strip_ansi_no_esc [simp]: "ESC \<notin> set s \<Longrightarrow> strip_ansi s = s"
  by (induction s) auto

lemma rstrip_CR_plain: "plain_text s \<Longrightarrow> rstrip_chars {CR} s = s"
  by (rule rstrip_chars_absent) (auto simp: plain_text_def plain_char_def list_all_iff)

lemma plain_esc: "plain_text s \<Longrightarrow> ESC \<notin> set s"
  by (auto simp: plain_text_def plain_char_def list_all_iff)

lemma plain_ascii: "plain_text s \<Longrightarrow> list_all ascii s"
  by (simp add: plain_text_def plain_char_def list_all_iff)

lemma plain_LF: "plain_text s \<Longrightarrow> LF \<notin> set s"
  by (auto simp: plain_text_def plain_char_def list_all_iff)

lemma normalized_plain: "plain_text s \<Longrightarrow> normalized_line (s @ [LF]) = s"
  by (simp add: normalized_line_def rstrip_CR_plain plain_esc plain_ascii)

lemma alnum_plain: "is_alnum c \<Longrightarrow> plain_char c"
  by (auto simp: plain_char_def ascii_def is_alnum_def is_digit_def is_upper_def is_lower_def)

lemma alnums_plain: "list_all is_alnum s \<Longrightarrow> plain_text s"
  by (auto simp: plain_text_def list_all_iff alnum_plain)

lemma plain_text_append [simp]: "plain_text (s @ t) = (plain_text s \<and> plain_text t)"
  by (simp add: plain_text_def)

lemma plain_text_Nil [simp]: "plain_text []"
  by (simp add: plain_text_def)

lemma plain_colon [simp]: "plain_text (CHR '':'' # s) = plain_text s"
  by (simp add: plain_text_def plain_char_def ascii_def)

lemma marker_plain:
  "plain_text kind \<Longrightarrow> plain_text token \<Longrightarrow> plain_text (frame_marker kind token)"
  by (simp add: frame_marker_def) (simp add: plain_text_def plain_char_def ascii_def)

lemma dec_int_plain: "plain_text (dec_int i)"
proof -
  have "plain_text (dec_nat n)" for n
    using dec_nat_digits [of n] by (intro alnums_plain) (simp add: list_all_iff is_alnum_def)
  then show ?thesis by (auto simp: dec_int_def plain_text_def plain_char_def ascii_def)
qed

lemma kinds_plain [simp]:
  "plain_text ''BEGIN''" "plain_text ''END''" "plain_text ''CWD''"
  "plain_text ''HEALTH''" "plain_text ''DEBUG''" "plain_text ''DEBUG_END''"
  "plain_text '':''"
  by (simp_all add: plain_text_def plain_char_def ascii_def)

lemma exit_dec_int: "exit_text_ok (dec_int i) \<and> exit_value (dec_int i) = i"
proof -
  obtain c r where c: "dec_nat (nat i) = c # r" by (cases "dec_nat (nat i)") auto
  have d: "list_all is_digit (c # r)" using dec_nat_digits [of "nat i"] c by simp
  then have "c \<noteq> CHR ''-''" by (auto simp: is_digit_def)
  moreover have "digits_val (c # r) = nat i" using digits_val_dec_nat [of "nat i"] c by simp
  ultimately show ?thesis
    using d c dec_nat_digits [of "nat (- i)"]
    by (auto simp: dec_int_def exit_text_ok_def exit_value_def)
qed

lemma pending_store [simp]:
  "fp_pending_output_line (store_output d p) = fp_pending_output_line p"
  "store_output d (p\<lparr>fp_pending_output_line := x\<rparr>) = (store_output d p)\<lparr>fp_pending_output_line := x\<rparr>"
  "store_output d (p\<lparr>fp_started := b\<rparr>) = (store_output d p)\<lparr>fp_started := b\<rparr>"
  by (simp_all add: store_output_def Let_def)

lemma fold_store_pending [simp]:
  "fold store_output ds (p\<lparr>fp_pending_output_line := x\<rparr>) =
   (fold store_output ds p)\<lparr>fp_pending_output_line := x\<rparr>"
  by (induction ds arbitrary: p) auto

text \<open>Storing output changes the output and the truncation flag, nothing else.\<close>

lemma store_output_frame:
  "store_output d p = p\<lparr>fp_output := fp_output (store_output d p), fp_truncated := fp_truncated (store_output d p)\<rparr>"
  by (simp add: store_output_def Let_def)

lemma fold_store_output_frame:
  "fold store_output ds p =
     p\<lparr>fp_output := fp_output (fold store_output ds p), fp_truncated := fp_truncated (fold store_output ds p)\<rparr>"
proof (induction ds arbitrary: p)
  case (Cons d ds)
  have "fold store_output ds (store_output d p) = (store_output d p)
      \<lparr>fp_output := fp_output (fold store_output ds (store_output d p)),
       fp_truncated := fp_truncated (fold store_output ds (store_output d p))\<rparr>"
    by (rule Cons.IH)
  also have "\<dots> = p\<lparr>fp_output := fp_output (fold store_output ds (store_output d p)),
       fp_truncated := fp_truncated (fold store_output ds (store_output d p))\<rparr>"
    by (subst store_output_frame [of d p]) simp
  finally show ?case by simp
qed simp

lemma truncated_store_output:
  "fw.bounded p \<Longrightarrow>
   fp_truncated (store_output d p) = (fp_truncated p \<or> fp_max_output_bytes p < length (fp_output p @ d))"
  by (auto simp: store_output_def Let_def fw.bounded_def)

lemma truncated_pushes:
  "fw.bounded p \<Longrightarrow> fp_truncated (fold store_output ds p) =
     (fp_truncated p \<or> fp_max_output_bytes p < length (fp_output p @ concat ds))"
proof (induction ds arbitrary: p)
  case (Cons d ds)
  have b: "fw.bounded (store_output d p)" using Cons.prems by simp
  have w: "length (fp_output (store_output d p)) = min (fp_max_output_bytes p) (length (fp_output p @ d))"
    using Cons.prems fw.window_push [of p d] by (simp add: fw.bounded_def)
  obtain L where L: "length (concat ds) = L" by blast
  have "fp_truncated (fold store_output (d # ds) p) =
      (fp_truncated (store_output d p) \<or> fp_max_output_bytes p < length (fp_output (store_output d p)) + L)"
    using Cons.IH [OF b] L by simp
  also have "\<dots> = (fp_truncated p \<or> fp_max_output_bytes p < length (fp_output p @ d) + L)"
    unfolding truncated_store_output [OF Cons.prems] w by auto
  finally show ?case using L by (simp add: add.assoc)
qed (simp add: fw.bounded_def)

definition pending_lines :: "frame_parser \<Rightarrow> bytes list" where
  "pending_lines p = (case fp_pending_output_line p of None \<Rightarrow> [] | Some l \<Rightarrow> [l])"

lemma store_pending_fold: "store_pending p = fold store_output (pending_lines p) p"
  by (simp add: store_pending_def pending_lines_def split: option.split)

lemma consume_plain_output:
  assumes "fp_started p" "fp_pending_exit p = None" "\<not> fp_in_debug_probe p"
    and "fp_debug_begin p = Some d" "\<not> starts_with d (normalized_line l)"
    and "\<not> starts_with (fp_end_prefix p) (normalized_line l)"
  shows "consume_line l p = ((store_pending p)\<lparr>fp_pending_output_line := Some l\<rparr>, Inr None)"
  using assms by (auto simp: consume_line_def consume_output_line_def Let_def)

lemma run_output_lines:
  assumes "fp_started p" "fp_pending_exit p = None" "\<not> fp_in_debug_probe p"
    and "fp_debug_begin p = Some d"
    and "\<forall>l \<in> set (ls @ [l]). \<not> starts_with d (normalized_line l) \<and> \<not> starts_with (fp_end_prefix p) (normalized_line l)"
  shows "run_lines (ls @ [l]) p =
    ((fold store_output (pending_lines p @ ls) p)\<lparr>fp_pending_output_line := Some l\<rparr>, Inr None)"
  using assms
proof (induction ls arbitrary: p)
  case Nil
  then show ?case by (simp add: consume_plain_output store_pending_fold)
next
  case (Cons k ls)
  have step: "consume_line k p = ((store_pending p)\<lparr>fp_pending_output_line := Some k\<rparr>, Inr None)"
    using Cons.prems by (intro consume_plain_output) auto
  let ?q = "(store_pending p)\<lparr>fp_pending_output_line := Some k\<rparr>"
  have frame: "?q = p\<lparr>fp_output := fp_output ?q, fp_truncated := fp_truncated ?q, fp_pending_output_line := Some k\<rparr>"
    by (simp add: store_pending_fold, subst fold_store_output_frame) simp
  have "run_lines (ls @ [l]) ?q =
      ((fold store_output (pending_lines ?q @ ls) ?q)\<lparr>fp_pending_output_line := Some l\<rparr>, Inr None)"
    by (rule Cons.IH; subst frame; use Cons.prems in simp)
  then show ?case using step by (simp add: store_pending_fold pending_lines_def)
qed

lemma output_lines_concat:
  "concat (map (\<lambda>w. w @ [LF]) (butlast (split_on LF out))) @ rstrip_chars {CR} (last (split_on LF out))
     = rstrip_chars {CR} out"
proof (induction out rule: line_induct)
  case (partial s)
  then show ?case by (simp add: split_on_no_sep)
next
  case (line w s)
  have "rstrip_chars {CR} (w @ LF # s) = w @ LF # rstrip_chars {CR} s"
    by (cases "set s \<subseteq> {CR}")
       (auto simp: rstrip_chars_def dropWhile_append1 dropWhile_append2 dropWhile_append3 subset_iff)
  with line show ?case by (simp add: split_on_append)
qed

lemma rstrip_last:
  "chop_line_end (w @ [LF]) = rstrip_chars {CR} w"
  by (simp add: chop_line_end_def)

lemma validate_token_Inr:
  "(validate_token t n = Inr u) = (t \<noteq> [] \<and> list_all is_alnum t)"
  by (auto simp: validate_token_def list_all_iff)

lemma markers_distinct:
  "frame_marker ''DEBUG_END'' t \<noteq> frame_marker ''DEBUG'' t"
  "\<not> starts_with (frame_marker ''DEBUG'' t) (frame_marker ''END'' t @ x)"
  "\<not> starts_with (frame_marker ''DEBUG'' t) []"
  "\<not> starts_with (frame_marker ''END'' t @ '':'') []"
  "frame_marker k t \<noteq> []"
  by (simp_all add: frame_marker_def starts_with_def)

lemma feed_whole:
  assumes "\<not> fp_done p" "fp_scan p = []" "run_lines (complete_lines d) p = (q, Inr (Some r))"
  shows "snd (feed d final p) = Inr (Some r)"
  using assms feed_loop_run_stop [of d p q "Inr (Some r)" final] by (auto simp: feed_def)

lemma split_on_LF_append: "split_on LF (out @ LF # s) = split_on LF out @ split_on LF s"
  by (induction out rule: line_induct) (simp_all add: split_on_append split_on_no_sep)

lemma complete_lines_terminated:
  "complete_lines (concat (map (\<lambda>l. l @ [LF]) ls)) =
   concat (map (\<lambda>l. map (\<lambda>w. w @ [LF]) (split_on LF l)) ls)"
proof (induction ls)
  case (Cons l ls)
  have "complete_lines (l @ LF # s) = map (\<lambda>w. w @ [LF]) (split_on LF l) @ complete_lines s" for s
    by (simp add: complete_lines_def split_on_LF_append butlast_append)
  with Cons show ?case by simp
qed (simp add: complete_lines_def)

lemma frame_lines:
  assumes "list_all is_alnum token" "list_all is_alnum nonce" "plain_text cwd"
  shows "complete_lines (frame_bytes token nonce out code cwd) =
    [[LF], frame_marker ''BEGIN'' token @ [LF]] @
    map (\<lambda>w. w @ [LF]) (split_on LF out) @
    [frame_marker ''DEBUG'' token @ [LF], frame_marker ''DEBUG_END'' token @ [LF], [LF],
     (frame_marker ''END'' token @ '':'' @ dec_int code) @ [LF],
     (frame_marker ''CWD'' token @ '':'' @ cwd) @ [LF],
     (frame_marker ''HEALTH'' token @ '':'' @ nonce) @ [LF]]"
proof -
  have n: "split_on LF (frame_marker k token @ x) = [frame_marker k token @ x]"
    if "plain_text k" "plain_text x" for k x
    by (rule split_on_no_sep, rule plain_LF)
       (use assms that in \<open>simp add: marker_plain alnums_plain\<close>)
  have x: "plain_text ('':'' @ dec_int code)" "plain_text ('':'' @ cwd)"
    "plain_text ('':'' @ nonce)"
    using assms by (simp_all add: dec_int_plain alnums_plain)
  show ?thesis
    unfolding frame_bytes_def complete_lines_terminated
    using n [OF _ x(1)] n [OF _ x(2)] n [OF _ x(3)] n [where x = "[]"]
    by (simp add: split_on_no_sep)
qed


lemma new_frame_parser_Inr:
  assumes "new_frame_parser token m (Some nonce) = Inr p"
  shows "token \<noteq> [] \<and> list_all is_alnum token \<and> list_all is_alnum nonce \<and> 1 \<le> m \<and>
    fp_begin p = frame_marker ''BEGIN'' token \<and>
    fp_end_prefix p = frame_marker ''END'' token @ '':'' \<and>
    fp_cwd_prefix p = frame_marker ''CWD'' token @ '':'' \<and>
    fp_health_line p = Some (frame_marker ''HEALTH'' token @ '':'' @ nonce) \<and>
    fp_debug_begin p = Some (frame_marker ''DEBUG'' token) \<and>
    fp_debug_end p = Some (frame_marker ''DEBUG_END'' token) \<and>
    fp_scan p = [] \<and> fp_output p = [] \<and> fp_max_output_bytes p = nat m \<and>
    \<not> fp_started p \<and> \<not> fp_truncated p \<and> \<not> fp_done p \<and>
    fp_pending_exit p = None \<and> fp_pending_cwd p = None \<and> fp_pending_output_line p = None \<and>
    \<not> fp_in_debug_probe p \<and> \<not> fp_debug_probe_seen p"
  using assms
  by (auto simp: new_frame_parser_def bindE_eq_Inr validate_nonce_def validate_token_Inr)

lemma flush_pending:
  "fp_pending_output_line p = Some (w @ [LF]) \<Longrightarrow>
   flush_final_output_line p = (fold store_output [rstrip_chars {CR} w] p)\<lparr>fp_pending_output_line := None\<rparr>"
  by (simp add: flush_final_output_line_def rstrip_last)

lemma store_output_Nil [simp]: "store_output [] p = p"
  by (simp add: store_output_def)

text \<open>The steps of the parser on the lines of a completion frame.\<close>

lemma consume_begin:
  "\<not> fp_started p \<Longrightarrow> normalized_line l = fp_begin p \<Longrightarrow> consume_line l p = (p\<lparr>fp_started := True\<rparr>, Inr None)"
  by (simp add: consume_line_def)

lemma consume_noise:
  "\<not> fp_started p \<Longrightarrow> \<not> starts_with (fp_begin p) (normalized_line l) \<Longrightarrow> consume_line l p = (p, Inr None)"
  by (auto simp: consume_line_def Let_def)

lemma consume_debug_begin:
  "fp_started p \<Longrightarrow> fp_pending_exit p = None \<Longrightarrow> \<not> fp_in_debug_probe p \<Longrightarrow>
   fp_debug_begin p = Some (normalized_line l) \<Longrightarrow>
   consume_line l p = ((flush_final_output_line p)\<lparr>fp_in_debug_probe := True\<rparr>, Inr None)"
  by (simp add: consume_line_def consume_output_line_def)

lemma consume_debug_end:
  "fp_started p \<Longrightarrow> fp_pending_exit p = None \<Longrightarrow> fp_in_debug_probe p \<Longrightarrow>
   fp_debug_end p = Some (normalized_line l) \<Longrightarrow>
   consume_line l p = (p\<lparr>fp_in_debug_probe := False, fp_debug_probe_seen := True\<rparr>, Inr None)"
  by (simp add: consume_line_def consume_output_line_def)

lemma consume_exit:
  assumes "fp_started p" "fp_pending_exit p = None" "\<not> fp_in_debug_probe p" "fp_debug_probe_seen p"
    and "fp_debug_begin p = Some d" "normalized_line l = fp_end_prefix p @ t"
    and "\<not> starts_with d (normalized_line l)" "exit_text_ok t"
  shows "consume_line l p = ((flush_final_output_line p)\<lparr>fp_pending_exit := Some (exit_value t)\<rparr>, Inr None)"
proof -
  have "d \<noteq> normalized_line l" using assms(7) by auto
  with assms show ?thesis by (simp add: consume_line_def consume_output_line_def Let_def)
qed

lemma consume_cwd:
  "fp_started p \<Longrightarrow> fp_pending_exit p = Some c \<Longrightarrow> fp_pending_cwd p = None \<Longrightarrow> fp_health_line p = Some h \<Longrightarrow>
   normalized_line l = fp_cwd_prefix p @ t \<Longrightarrow>
   consume_line l p = (p\<lparr>fp_pending_cwd := Some t\<rparr>, Inr None)"
  by (simp add: consume_line_def)

lemma consume_health:
  "fp_started p \<Longrightarrow> fp_pending_exit p = Some c \<Longrightarrow> fp_pending_cwd p = Some d \<Longrightarrow>
   fp_health_line p = Some (normalized_line l) \<Longrightarrow> consume_line l p = complete c d p"
  by (simp add: consume_line_def)

lemmas consume_steps = consume_debug_begin consume_debug_end consume_exit consume_cwd consume_health

lemma normalized_marker:
  "plain_text k \<Longrightarrow> list_all is_alnum token \<Longrightarrow> plain_text x \<Longrightarrow>
   normalized_line (frame_marker k token @ x @ [LF]) = frame_marker k token @ x"
  using normalized_plain [of "frame_marker k token @ x"] by (simp add: marker_plain alnums_plain)

text \<open>The lines after the output: the DEBUG probe, the exit, the directory and the shell's nonce.\<close>

lemma run_frame_end:
  assumes st: "fp_started p" "fp_pending_exit p = None" "fp_pending_cwd p = None" "\<not> fp_in_debug_probe p"
    and pend: "fp_pending_output_line p = Some (w @ [LF])"
    and f: "fp_debug_begin p = Some (frame_marker ''DEBUG'' token)"
      "fp_debug_end p = Some (frame_marker ''DEBUG_END'' token)"
      "fp_end_prefix p = frame_marker ''END'' token @ '':''"
      "fp_cwd_prefix p = frame_marker ''CWD'' token @ '':''"
      "fp_health_line p = Some (frame_marker ''HEALTH'' token @ '':'' @ nonce)"
    and tok: "list_all is_alnum token" "list_all is_alnum nonce" "plain_text cwd"
    and q: "q = fold store_output [rstrip_chars {CR} w] p"
  shows "snd (run_lines [frame_marker ''DEBUG'' token @ [LF], frame_marker ''DEBUG_END'' token @ [LF], [LF],
      (frame_marker ''END'' token @ '':'' @ dec_int code) @ [LF],
      (frame_marker ''CWD'' token @ '':'' @ cwd) @ [LF],
      (frame_marker ''HEALTH'' token @ '':'' @ nonce) @ [LF]] p) =
    Inr (Some \<lparr>cr_output = normalize_output (fp_output q), cr_exit_code = code, cr_cwd = cwd,
      cr_truncated = fp_truncated q\<rparr>)"
proof -
  note nl = normalized_marker [OF _ tok(1) plain_text_Nil, simplified]
  note nlx = normalized_marker [OF _ tok(1), of _ "CHR '':'' # x" for x, simplified]
  have nle: "normalized_line [LF] = []" using normalized_plain [of "[]"] by simp
  have qf: "fp_started q" "fp_pending_exit q = None" "fp_pending_cwd q = None"
     "fp_debug_begin q = fp_debug_begin p" "fp_debug_end q = fp_debug_end p"
     "fp_end_prefix q = fp_end_prefix p" "fp_cwd_prefix q = fp_cwd_prefix p"
     "fp_health_line q = fp_health_line p"
    using st q by (simp_all add: store_output_def Let_def)
  define q1 where "q1 = q\<lparr>fp_pending_output_line := None, fp_in_debug_probe := True\<rparr>"
  define q2 where "q2 = q1\<lparr>fp_in_debug_probe := False, fp_debug_probe_seen := True\<rparr>"
  define q3 where "q3 = q2\<lparr>fp_pending_output_line := Some [LF]\<rparr>"
  define q4 where "q4 = q2\<lparr>fp_pending_exit := Some code\<rparr>"
  define q5 where "q5 = q4\<lparr>fp_pending_cwd := Some cwd\<rparr>"
  note qd = q1_def q2_def q3_def q4_def q5_def
  have s1: "consume_line (frame_marker ''DEBUG'' token @ [LF]) p = (q1, Inr None)"
    using st pend f(1) q by (simp add: consume_debug_begin nl flush_pending qd)
  have s2: "consume_line (frame_marker ''DEBUG_END'' token @ [LF]) q1 = (q2, Inr None)"
    using qf f(2) by (simp add: consume_debug_end nl qd)
  have s3: "consume_line [LF] q2 = (q3, Inr None)"
    using qf f(1,3) markers_distinct
    by (simp add: consume_plain_output [where d = "frame_marker ''DEBUG'' token"] nle qd store_pending_def)
  have s4: "consume_line (frame_marker ''END'' token @ CHR '':'' # dec_int code @ [LF]) q3 = (q4, Inr None)"
    by (subst consume_exit [where d = "frame_marker ''DEBUG'' token" and t = "dec_int code"])
       (use qf f(1,3) in \<open>simp_all add: qd nlx dec_int_plain exit_dec_int markers_distinct
          flush_final_output_line_def chop_line_end_def rstrip_chars_def\<close>)
  have s5: "consume_line (frame_marker ''CWD'' token @ CHR '':'' # cwd @ [LF]) q4 = (q5, Inr None)"
    by (subst consume_cwd [where t = cwd])
       (use qf f(4,5) tok in \<open>simp_all add: qd nlx\<close>)
  have s6: "consume_line (frame_marker ''HEALTH'' token @ CHR '':'' # nonce @ [LF]) q5 = complete code cwd q5"
    by (subst consume_health) (use qf f(5) tok in \<open>simp_all add: qd nlx alnums_plain\<close>)
  show ?thesis
    using s1 s2 s3 s4 s5 s6 by (simp add: complete_def qd)
qed

lemma map_butlast_last: "xs \<noteq> [] \<Longrightarrow> map f xs = map f (butlast xs) @ [f (last xs)]"
  by (induction xs) auto

lemma feed_frame:
  assumes new: "new_frame_parser token m (Some nonce) = Inr p"
    and free: "frame_free token out" and cwd: "plain_text cwd"
  shows "snd (feed (frame_bytes token nonce out code cwd) False p) =
    Inr (Some \<lparr>cr_output = normalize_output (last_bytes (nat m) (rstrip_chars {CR} out)),
      cr_exit_code = code, cr_cwd = cwd, cr_truncated = (nat m < length (rstrip_chars {CR} out))\<rparr>)"
proof -
  note p = new_frame_parser_Inr [OF new]
  let ?ls = "map (\<lambda>w. w @ [LF]) (butlast (split_on LF out))" and ?w = "last (split_on LF out)"
  have split: "map (\<lambda>w. w @ [LF]) (split_on LF out) = ?ls @ [?w @ [LF]]"
    by (rule map_butlast_last) simp
  let ?p1 = "p\<lparr>fp_started := True\<rparr>"
  define p2 where "p2 = (fold store_output ?ls ?p1)\<lparr>fp_pending_output_line := Some (?w @ [LF])\<rparr>"
  have p2f: "p2 = ?p1\<lparr>fp_output := fp_output p2, fp_truncated := fp_truncated p2,
      fp_pending_output_line := Some (?w @ [LF])\<rparr>"
    unfolding p2_def by (subst fold_store_output_frame) simp
  have p2s: "fp_started p2" "fp_pending_exit p2 = None" "fp_pending_cwd p2 = None"
      "\<not> fp_in_debug_probe p2" "fp_pending_output_line p2 = Some (?w @ [LF])"
      "fp_debug_begin p2 = fp_debug_begin p" "fp_debug_end p2 = fp_debug_end p"
      "fp_end_prefix p2 = fp_end_prefix p" "fp_cwd_prefix p2 = fp_cwd_prefix p"
      "fp_health_line p2 = fp_health_line p"
    by (subst p2f, use p in simp)+
  have b: "fw.bounded ?p1" using p by (simp add: fw.bounded_def)
  have nl: "normalized_line [LF] = []" using normalized_plain [of "[]"] by simp
  have s1: "consume_line [LF] p = (p, Inr None)"
    using p by (intro consume_noise) (simp_all add: nl starts_with_def frame_marker_def)
  have s2: "consume_line (frame_marker ''BEGIN'' token @ [LF]) p = (?p1, Inr None)"
    using p by (intro consume_begin) (simp_all add: normalized_plain marker_plain alnums_plain)
  have lines: "run_lines (?ls @ [?w @ [LF]]) ?p1 = (p2, Inr None)"
  proof -
    have "\<forall>l \<in> set (?ls @ [?w @ [LF]]). \<not> starts_with (frame_marker ''DEBUG'' token) (normalized_line l) \<and>
        \<not> starts_with (fp_end_prefix ?p1) (normalized_line l)"
      unfolding split [symmetric] using p free by (simp add: frame_free_def list_all_iff)
    then show ?thesis
      using run_output_lines [of ?p1 "frame_marker ''DEBUG'' token" ?ls "?w @ [LF]"] p
      by (simp add: p2_def pending_lines_def)
  qed
  let ?tail = "[frame_marker ''DEBUG'' token @ [LF], frame_marker ''DEBUG_END'' token @ [LF], [LF],
     (frame_marker ''END'' token @ '':'' @ dec_int code) @ [LF],
     (frame_marker ''CWD'' token @ '':'' @ cwd) @ [LF],
     (frame_marker ''HEALTH'' token @ '':'' @ nonce) @ [LF]]"
  define q where "q = fold store_output [rstrip_chars {CR} ?w] p2"
  have q: "q = (fold store_output (?ls @ [rstrip_chars {CR} ?w]) ?p1)\<lparr>fp_pending_output_line := Some (?w @ [LF])\<rparr>"
    by (simp add: q_def p2_def)
  have all: "concat (?ls @ [rstrip_chars {CR} ?w]) = rstrip_chars {CR} out"
    using output_lines_concat [of out] by simp
  have "fp_output q = last_bytes (nat m) (rstrip_chars {CR} out)"
    and "fp_truncated q = (nat m < length (rstrip_chars {CR} out))"
    unfolding q using fw.window_pushes [OF b, of "?ls @ [rstrip_chars {CR} ?w]"]
      truncated_pushes [OF b, of "?ls @ [rstrip_chars {CR} ?w]"] p
    unfolding all by simp_all
  moreover have "snd (run_lines ?tail p2) = Inr (Some \<lparr>cr_output = normalize_output (fp_output q),
      cr_exit_code = code, cr_cwd = cwd, cr_truncated = fp_truncated q\<rparr>)"
    using run_frame_end [of p2 ?w token nonce cwd q code] p2s p cwd q_def by simp
  ultimately have e: "snd (run_lines ?tail p2) = Inr (Some \<lparr>cr_output =
      normalize_output (last_bytes (nat m) (rstrip_chars {CR} out)), cr_exit_code = code, cr_cwd = cwd,
      cr_truncated = (nat m < length (rstrip_chars {CR} out))\<rparr>)" by simp
  have step: "run_lines ([[LF], frame_marker ''BEGIN'' token @ [LF]] @ M @ E) p = run_lines E p2"
    if "run_lines M ?p1 = (p2, Inr None)" for M E
    using s1 s2 that by (simp add: run_lines_append)
  have "complete_lines (frame_bytes token nonce out code cwd) =
      [[LF], frame_marker ''BEGIN'' token @ [LF]] @ (?ls @ [?w @ [LF]]) @ ?tail"
    using p cwd by (simp only: frame_lines split)
  then have "run_lines (complete_lines (frame_bytes token nonce out code cwd)) p = run_lines ?tail p2"
    by (simp only: step [OF lines])
  with e p show ?thesis
    by (cases "run_lines ?tail p2") (auto intro!: feed_whole)
qed

section \<open>Completion needs every frame\<close>

lemma consume_line_None_cases:
  assumes "consume_line l p = (p', Inr None)"
  obtains
    (beginning) "\<not> fp_started p" "normalized_line l = fp_begin p" "p' = p\<lparr>fp_started := True\<rparr>"
  | (noise) "\<not> fp_started p" "p' = p"
  | (debug_end) "fp_started p" "fp_pending_exit p = None" "fp_in_debug_probe p"
      "fp_debug_end p = Some (normalized_line l)"
      "p' = p\<lparr>fp_in_debug_probe := False, fp_debug_probe_seen := True\<rparr>"
  | (debug_blank) "fp_started p" "fp_pending_exit p = None" "fp_in_debug_probe p" "p' = p"
  | (debug_begin) "fp_started p" "fp_pending_exit p = None" "\<not> fp_in_debug_probe p"
      "fp_debug_begin p = Some (normalized_line l)"
      "p' = (flush_final_output_line p)\<lparr>fp_in_debug_probe := True\<rparr>"
  | (exit) t where "fp_started p" "fp_pending_exit p = None" "\<not> fp_in_debug_probe p" "fp_debug_probe_seen p"
      "normalized_line l = fp_end_prefix p @ t" "exit_text_ok t"
      "p' = (flush_final_output_line p)\<lparr>fp_pending_exit := Some (exit_value t)\<rparr>"
  | (plain) "fp_started p" "fp_pending_exit p = None" "\<not> fp_in_debug_probe p"
      "p' = (store_pending p)\<lparr>fp_pending_output_line := Some l\<rparr>"
  | (cwd) x t where "fp_started p" "fp_pending_exit p = Some x" "fp_pending_cwd p = None"
      "fp_health_line p \<noteq> None" "normalized_line l = fp_cwd_prefix p @ t"
      "p' = p\<lparr>fp_pending_cwd := Some t\<rparr>"
proof (cases "fp_started p")
  case False
  show ?thesis
  proof (cases "normalized_line l = fp_begin p")
    case True
    with False assms show ?thesis by (intro that(1)) (simp_all add: consume_line_def)
  next
    case ne: False
    with False assms show ?thesis
      by (intro that(2)) (simp_all add: consume_line_def Let_def split: if_splits)
  qed
next
  case started: True
  show ?thesis
  proof (cases "fp_pending_exit p")
    case None
    with started assms have c: "consume_output_line l (normalized_line l) p = (p', Inr None)"
      by (simp add: consume_line_def)
    consider (e) "fp_in_debug_probe p" "fp_debug_end p = Some (normalized_line l)"
      | (b) "fp_in_debug_probe p" "fp_debug_end p \<noteq> Some (normalized_line l)"
      | (d) "\<not> fp_in_debug_probe p" "fp_debug_begin p = Some (normalized_line l)"
      | (x) "\<not> fp_in_debug_probe p" "fp_debug_begin p \<noteq> Some (normalized_line l)"
          "starts_with (fp_end_prefix p) (normalized_line l)"
      | (o) "\<not> fp_in_debug_probe p" "fp_debug_begin p \<noteq> Some (normalized_line l)"
          "\<not> starts_with (fp_end_prefix p) (normalized_line l)"
      by blast
    then show ?thesis
    proof cases
      case e
      with started None c show ?thesis by (intro that(3)) (simp_all add: consume_output_line_def)
    next
      case b
      with started None c show ?thesis
        by (intro that(4)) (auto simp: consume_output_line_def split: if_splits)
    next
      case d
      with started None c show ?thesis by (intro that(5)) (simp_all add: consume_output_line_def)
    next
      case x
      then obtain t where t: "normalized_line l = fp_end_prefix p @ t" by (auto simp: starts_with_iff)
      with x started None c show ?thesis
        by (intro that(6) [of t]) (simp_all add: consume_output_line_def Let_def split: if_splits)
    next
      case o
      with started None c show ?thesis
        by (intro that(7)) (simp_all add: consume_output_line_def split: if_splits)
    qed
  next
    case (Some x)
    show ?thesis
    proof (cases "fp_pending_cwd p")
      case None
      with started Some assms have "starts_with (fp_cwd_prefix p) (normalized_line l)"
        by (simp add: consume_line_def Let_def split: if_splits)
      then obtain t where t: "normalized_line l = fp_cwd_prefix p @ t" by (auto simp: starts_with_iff)
      with None started Some assms show ?thesis
        by (intro that(8) [of x t]) (simp_all add: consume_line_def complete_def Let_def split: if_splits)
    next
      case (Some c)
      with started \<open>fp_pending_exit p = Some x\<close> assms show ?thesis
        by (simp add: consume_line_def complete_def Let_def split: if_splits)
    qed
  qed
qed

lemma consume_line_Some:
  assumes "consume_line l p = (p', Inr (Some r))" "fp_health_line p = Some h"
  shows "fp_started p" "fp_pending_exit p = Some (cr_exit_code r)" "fp_pending_cwd p = Some (cr_cwd r)"
    "normalized_line l = h"
proof -
  have st: "fp_started p" using assms(1) by (auto simp: consume_line_def Let_def split: if_splits)
  then obtain x where x: "fp_pending_exit p = Some x"
    using assms(1) by (cases "fp_pending_exit p")
      (auto simp: consume_line_def consume_output_line_def Let_def split: if_splits)
  then obtain c where c: "fp_pending_cwd p = Some c"
    using st assms by (cases "fp_pending_cwd p")
      (auto simp: consume_line_def Let_def split: if_splits)
  show "fp_started p" by (rule st)
  show "fp_pending_exit p = Some (cr_exit_code r)" "fp_pending_cwd p = Some (cr_cwd r)"
    "normalized_line l = h"
    using st x c assms by (auto simp: consume_line_def complete_def Let_def split: if_splits)
qed

text \<open>The markers of a parser never change.\<close>

definition markers :: "frame_parser \<Rightarrow> pystr \<times> pystr \<times> pystr \<times> pystr option \<times> pystr option \<times> pystr option" where
  "markers p = (fp_begin p, fp_end_prefix p, fp_cwd_prefix p, fp_health_line p, fp_debug_begin p, fp_debug_end p)"

lemma flush_fields [simp]:
  "fp_started (flush_final_output_line p) = fp_started p"
  "fp_pending_exit (flush_final_output_line p) = fp_pending_exit p"
  "fp_pending_cwd (flush_final_output_line p) = fp_pending_cwd p"
  "fp_in_debug_probe (flush_final_output_line p) = fp_in_debug_probe p"
  "fp_debug_probe_seen (flush_final_output_line p) = fp_debug_probe_seen p"
  "fp_begin (flush_final_output_line p) = fp_begin p"
  "fp_end_prefix (flush_final_output_line p) = fp_end_prefix p"
  "fp_cwd_prefix (flush_final_output_line p) = fp_cwd_prefix p"
  "fp_health_line (flush_final_output_line p) = fp_health_line p"
  "fp_debug_begin (flush_final_output_line p) = fp_debug_begin p"
  "fp_debug_end (flush_final_output_line p) = fp_debug_end p"
  by (simp_all add: flush_final_output_line_def store_output_def Let_def split: option.split)

lemma store_pending_fields [simp]:
  "fp_started (store_pending p) = fp_started p"
  "fp_pending_exit (store_pending p) = fp_pending_exit p"
  "fp_pending_cwd (store_pending p) = fp_pending_cwd p"
  "fp_in_debug_probe (store_pending p) = fp_in_debug_probe p"
  "fp_debug_probe_seen (store_pending p) = fp_debug_probe_seen p"
  "fp_begin (store_pending p) = fp_begin p"
  "fp_end_prefix (store_pending p) = fp_end_prefix p"
  "fp_cwd_prefix (store_pending p) = fp_cwd_prefix p"
  "fp_health_line (store_pending p) = fp_health_line p"
  "fp_debug_begin (store_pending p) = fp_debug_begin p"
  "fp_debug_end (store_pending p) = fp_debug_end p"
  by (simp_all add: store_pending_def store_output_def Let_def split: option.split)

lemma markers_consume: "consume_line l p = (p', Inr None) \<Longrightarrow> markers p' = markers p"
  by (erule consume_line_None_cases) (auto simp: markers_def)

text \<open>The frames a parser still has to see before it can complete.\<close>

definition missing :: "frame_parser \<Rightarrow> pystr \<Rightarrow> pystr \<Rightarrow> pystr list" where
  "missing p t c =
     (let h = the (fp_health_line p); rest3 = [fp_end_prefix p @ t, fp_cwd_prefix p @ c, h] in
      if \<not> fp_started p then fp_begin p # the (fp_debug_begin p) # the (fp_debug_end p) # rest3
      else if fp_pending_exit p \<noteq> None then
        (if fp_pending_cwd p \<noteq> None then [h] else [fp_cwd_prefix p @ c, h])
      else if fp_in_debug_probe p then the (fp_debug_end p) # rest3
      else if fp_debug_probe_seen p then rest3
      else the (fp_debug_begin p) # the (fp_debug_end p) # rest3)"

definition guarded :: "frame_parser \<Rightarrow> bool" where
  "guarded p = (fp_health_line p \<noteq> None \<and> fp_debug_begin p \<noteq> None \<and> fp_debug_end p \<noteq> None \<and>
     (\<not> fp_started p \<longrightarrow> fp_pending_exit p = None \<and> \<not> fp_in_debug_probe p \<and> \<not> fp_debug_probe_seen p) \<and>
     (fp_pending_exit p = None \<longrightarrow> fp_pending_cwd p = None))"

lemma guarded_consume: "guarded p \<Longrightarrow> consume_line l p = (p', Inr None) \<Longrightarrow> guarded p'"
  by (erule consume_line_None_cases) (auto simp: guarded_def)

lemma subseq_ConsI: "subseq xs ys \<Longrightarrow> subseq xs (y # ys)"
  by auto

lemma run_lines_evidence:
  "guarded p \<Longrightarrow> run_lines ls p = (q, Inr (Some r)) \<Longrightarrow>
   \<exists>t. subseq (missing p t (cr_cwd r)) (map normalized_line ls) \<and>
     (case fp_pending_exit p of
        None \<Rightarrow> exit_text_ok t \<and> exit_value t = cr_exit_code r
      | Some x \<Rightarrow> cr_exit_code r = x) \<and>
     (fp_pending_cwd p = None \<or> fp_pending_cwd p = Some (cr_cwd r))"
proof (induction ls arbitrary: p)
  case (Cons l ls)
  obtain p' o1 where step: "consume_line l p = (p', o1)" by (cases "consume_line l p")
  show ?case
  proof (cases o1)
    case (Inl e)
    with step Cons.prems show ?thesis by simp
  next
    case (Inr o2)
    show ?thesis
    proof (cases o2)
      case (Some r')
      with Inr step Cons.prems have c: "consume_line l p = (q, Inr (Some r))" by simp
      from Cons.prems(1) obtain h where h: "fp_health_line p = Some h" by (auto simp: guarded_def)
      from consume_line_Some [OF c h] h show ?thesis by (simp add: missing_def Let_def)
    next
      case None
      with Inr step Cons.prems have c: "consume_line l p = (p', Inr None)"
          and r: "run_lines ls p' = (q, Inr (Some r))" by simp_all
      from Cons.IH [OF guarded_consume [OF Cons.prems(1) c] r] obtain t where
        t: "subseq (missing p' t (cr_cwd r)) (map normalized_line ls)"
          "case fp_pending_exit p' of None \<Rightarrow> exit_text_ok t \<and> exit_value t = cr_exit_code r
            | Some x \<Rightarrow> cr_exit_code r = x"
          "fp_pending_cwd p' = None \<or> fp_pending_cwd p' = Some (cr_cwd r)" by blast
      from c show ?thesis
      proof (cases rule: consume_line_None_cases)
        case (exit u)
        with t Cons.prems(1) show ?thesis
          by (intro exI [of _ u]) (auto simp: missing_def guarded_def Let_def)
      next
        case noise
        with t show ?thesis by (intro exI [of _ t]) (simp add: subseq_ConsI)
      next
        case debug_blank
        with t show ?thesis by (intro exI [of _ t]) (simp add: subseq_ConsI)
      next
        case plain
        then have "missing p' t (cr_cwd r) = missing p t (cr_cwd r)" by (simp add: missing_def Let_def)
        with t plain show ?thesis by (intro exI [of _ t]) (simp add: subseq_ConsI)
      next
        case debug_begin
        with t Cons.prems(1) show ?thesis
          by (intro exI [of _ t]) (auto simp: missing_def guarded_def Let_def dest: subseq_Cons')
      next
        case debug_end
        with t Cons.prems(1) show ?thesis
          by (intro exI [of _ t]) (auto simp: missing_def guarded_def Let_def)
      next
        case beginning
        with t Cons.prems(1) show ?thesis
          by (intro exI [of _ t]) (auto simp: missing_def guarded_def Let_def)
      next
        case (cwd x u)
        with t Cons.prems(1) show ?thesis
          by (intro exI [of _ t]) (auto simp: missing_def guarded_def Let_def)
      qed
    qed
  qed
qed simp

lemma guarded_new: "new_frame_parser token m (Some nonce) = Inr p \<Longrightarrow> guarded p"
  by (drule new_frame_parser_Inr) (simp add: guarded_def)

text \<open>
  A completed frame carries evidence: its stream holds, in order, the begin line, the two lines of
  the DEBUG probe, the exit, the directory and the line with the shell's nonce.
\<close>

lemma completion_evidence:
  assumes new: "new_frame_parser token m (Some nonce) = Inr p"
    and run: "run_lines ls p = (q, Inr (Some r))"
  shows "\<exists>t. exit_text_ok t \<and> exit_value t = cr_exit_code r \<and>
    subseq [frame_marker ''BEGIN'' token, frame_marker ''DEBUG'' token, frame_marker ''DEBUG_END'' token,
      frame_marker ''END'' token @ '':'' @ t, frame_marker ''CWD'' token @ '':'' @ cr_cwd r,
      frame_marker ''HEALTH'' token @ '':'' @ nonce] (map normalized_line ls)"
proof -
  note p = new_frame_parser_Inr [OF new]
  from run_lines_evidence [OF guarded_new [OF new] run] p obtain t where
    "subseq (missing p t (cr_cwd r)) (map normalized_line ls)" "exit_text_ok t"
    "exit_value t = cr_exit_code r" by auto
  moreover from p have "missing p t (cr_cwd r) = [frame_marker ''BEGIN'' token, frame_marker ''DEBUG'' token,
      frame_marker ''DEBUG_END'' token, frame_marker ''END'' token @ '':'' @ t,
      frame_marker ''CWD'' token @ '':'' @ cr_cwd r, frame_marker ''HEALTH'' token @ '':'' @ nonce]"
    by (simp add: missing_def)
  ultimately show ?thesis by auto
qed

section \<open>Properties of the frame parser\<close>


definition demo_frame_parser :: frame_parser where
  "demo_frame_parser = (case new_frame_parser ''AB12'' 8 (Some ''CD34'') of Inr p \<Rightarrow> p)"

lemma demo_frame_parser_new: "new_frame_parser ''AB12'' 8 (Some ''CD34'') = Inr demo_frame_parser"
  by (simp add: demo_frame_parser_def new_frame_parser_def validate_token_def validate_nonce_def
      is_alnum_def is_digit_def is_upper_def is_lower_def)



lemma demo_chunks:
  "snd (feed_chunks [take 30 (frame_bytes ''AB12'' ''CD34'' ''hi'' 0 ''/''),
      drop 30 (frame_bytes ''AB12'' ''CD34'' ''hi'' 0 ''/'')] demo_frame_parser)
   = Inr (Some \<lparr>cr_output = ''hi'', cr_exit_code = 0, cr_cwd = ''/'', cr_truncated = False\<rparr>)"
  by code_simp






end
