(* ===== verification/Ring_Buffer.thy ===== *)
theory Ring_Buffer
  imports Errors Byte_Window
begin

text \<open>
  \<^verbatim>\<open>terminal/buffer.py\<close>: the ring buffer between the terminal's reader thread and the session.
  A reader holds an absolute cursor into the stream of all bytes ever appended; the buffer keeps
  the newest \<^verbatim>\<open>max_bytes\<close> of them. Each method runs under the buffer's condition variable, so a
  call is one atomic step; \<^verbatim>\<open>wait_for_data\<close> releases the lock while it waits, and its model takes
  the steps of other threads between two of its tests as an argument.
\<close>

record ring_buffer =
  rb_max_bytes :: nat
  rb_data :: bytes
  rb_start :: nat
  rb_closed :: bool

record buffer_read =
  br_data :: bytes
  br_next_cursor :: nat
  br_dropped_before_cursor :: bool

definition new_ring_buffer :: "int \<Rightarrow> ring_buffer res" where
  "new_ring_buffer max_bytes =
     (if max_bytes < 1 then Inl (ValueError ''max_bytes must be positive'')
      else Inr \<lparr>rb_max_bytes = nat max_bytes, rb_data = [], rb_start = 0, rb_closed = False\<rparr>)"

definition end_cursor :: "ring_buffer \<Rightarrow> nat" where
  "end_cursor b = rb_start b + length (rb_data b)"

definition start_cursor :: "ring_buffer \<Rightarrow> nat" where
  "start_cursor b = rb_start b"

definition rb_append :: "bytes \<Rightarrow> ring_buffer \<Rightarrow> ring_buffer" where
  "rb_append data b =
     (if data = [] then b
      else let d = rb_data b @ data;
               overflow = length d - rb_max_bytes b
           in if 0 < overflow
              then b\<lparr>rb_data := drop overflow d, rb_start := rb_start b + overflow\<rparr>
              else b\<lparr>rb_data := d\<rparr>)"

definition rb_close :: "ring_buffer \<Rightarrow> ring_buffer" where
  "rb_close b = b\<lparr>rb_closed := True\<rparr>"

definition read_locked :: "int \<Rightarrow> ring_buffer \<Rightarrow> buffer_read" where
  "read_locked cursor b =
     (let dropped = cursor < int (rb_start b);
          effective = max cursor (int (rb_start b));
          offset = min (effective - int (rb_start b)) (int (length (rb_data b)))
      in \<lparr>br_data = drop (nat offset) (rb_data b), br_next_cursor = end_cursor b,
          br_dropped_before_cursor = dropped\<rparr>)"

definition rb_read :: "int \<Rightarrow> ring_buffer \<Rightarrow> buffer_read" where
  "rb_read cursor b = read_locked cursor b"

text \<open>A step of another thread, and the waiting loop: each entry of the schedule is the clock at
  one test of the loop and what other threads do before the next. The value \<open>None\<close> means that the
  call is still waiting when the schedule ends.\<close>

datatype ring_event = Append bytes | Close

fun ring_step :: "ring_event \<Rightarrow> ring_buffer \<Rightarrow> ring_buffer" where
  "ring_step (Append d) b = rb_append d b"
| "ring_step Close b = rb_close b"

fun wait_for_data ::
  "int \<Rightarrow> rat option \<Rightarrow> (rat \<times> ring_event list) list \<Rightarrow> ring_buffer \<Rightarrow> (buffer_read \<times> ring_buffer) option" where
  "wait_for_data cursor deadline [] b = None"
| "wait_for_data cursor deadline ((now, steps) # rest) b =
     (if \<not> (\<not> rb_closed b \<and> int (end_cursor b) \<le> cursor) then Some (read_locked cursor b, b)
      else if (case deadline of None \<Rightarrow> False | Some d \<Rightarrow> d - now \<le> 0) then Some (read_locked cursor b, b)
      else wait_for_data cursor deadline rest (fold ring_step steps b))"

section \<open>The stream behind the buffer\<close>

interpretation rw: byte_window rb_append rb_data rb_max_bytes
  by unfold_locales (auto simp: rb_append_def last_bytes_def Let_def)

text \<open>The buffer represents the stream \<open>h\<close> of all bytes appended so far.\<close>

definition rb_represents :: "ring_buffer \<Rightarrow> bytes \<Rightarrow> bool" where
  "rb_represents b h = (rb_data b = last_bytes (rb_max_bytes b) h \<and> end_cursor b = length h)"

lemma rb_represents_new: "new_ring_buffer m = Inr b \<Longrightarrow> rb_represents b []"
  by (auto simp: new_ring_buffer_def rb_represents_def end_cursor_def split: if_splits)

lemma end_cursor_append: "end_cursor (rb_append d b) = end_cursor b + length d"
  by (cases "rb_max_bytes b < length (rb_data b) + length d") (auto simp: rb_append_def end_cursor_def Let_def)

lemma rb_represents_append: "rb_represents b h \<Longrightarrow> rb_represents (rb_append d b) (h @ d)"
proof -
  assume h: "rb_represents b h"
  then have b: "length (rb_data b) \<le> rb_max_bytes b" by (simp add: rb_represents_def)
  have "rb_data (rb_append d b) = last_bytes (rb_max_bytes b) (last_bytes (rb_max_bytes b) h @ d)"
    using h rw.window_push [OF b, of d] by (simp add: rb_represents_def)
  then show ?thesis
    using h unfolding rb_represents_def end_cursor_append last_bytes_append rw.limit_push by simp
qed

lemma rb_represents_close: "rb_represents b h \<Longrightarrow> rb_represents (rb_close b) h"
  unfolding rb_represents_def rb_close_def end_cursor_def by (cases b) auto

fun appended :: "ring_event list \<Rightarrow> bytes" where
  "appended [] = []"
| "appended (Append d # s) = d @ appended s"
| "appended (Close # s) = appended s"

lemma rb_represents_steps: "rb_represents b h \<Longrightarrow> rb_represents (fold ring_step ss b) (h @ appended ss)"
proof (induction ss arbitrary: b h)
  case (Cons s ss)
  show ?case
  proof (cases s)
    case (Append d)
    with Cons.IH [OF rb_represents_append [OF Cons.prems, of d]] show ?thesis by simp
  next
    case Close
    with Cons.IH [OF rb_represents_close [OF Cons.prems]] show ?thesis by simp
  qed
qed simp

lemma rb_start_represents:
  "rb_represents b h \<Longrightarrow> rb_start b = length h - rb_max_bytes b"
  by (auto simp: rb_represents_def end_cursor_def min_def split: if_splits)

lemma read_represents:
  assumes "rb_represents b h" and "0 \<le> c" and "c \<le> int (length h)"
  shows "read_locked c b = \<lparr>br_data = drop (max (nat c) (length h - rb_max_bytes b)) h,
    br_next_cursor = length h, br_dropped_before_cursor = (nat c < length h - rb_max_bytes b)\<rparr>"
proof -
  note st = rb_start_represents [OF assms(1)]
  have d: "rb_data b = drop (rb_start b) h" and e: "end_cursor b = length h"
    using assms(1) st by (auto simp: rb_represents_def last_bytes_def)
  have "drop (nat (min (max c (int (rb_start b)) - int (rb_start b)) (int (length (rb_data b))))) (rb_data b)
      = drop (max (nat c) (rb_start b)) h"
  proof -
    have "nat (min (max c (int (rb_start b)) - int (rb_start b)) (int (length (rb_data b)))) + rb_start b
        = max (nat c) (rb_start b)"
      using assms(2,3) d st by (auto simp: min_def max_def)
    then show ?thesis unfolding d drop_drop by (rule arg_cong)
  qed
  with st e assms(2) show ?thesis by (auto simp: read_locked_def Let_def)
qed

section \<open>Properties of the ring buffer\<close>

text \<open>
  Reads are exact. After any sequence of appends and closes, a read at a cursor inside the
  stream returns the stream from that cursor on, or from the oldest byte still held, says whether
  bytes before it were lost, and hands out the end of the stream as the next cursor.
\<close>

theorem ring_read_exact:
  assumes "new_ring_buffer m = Inr b" and "0 \<le> c" and "c \<le> int (length (appended ss))"
  shows "rb_read c (fold ring_step ss b) =
    \<lparr>br_data = drop (max (nat c) (length (appended ss) - nat m)) (appended ss),
     br_next_cursor = length (appended ss),
     br_dropped_before_cursor = (nat c < length (appended ss) - nat m)\<rparr>"
proof -
  have "rb_represents (fold ring_step ss b) (appended ss)"
    using rb_represents_steps [OF rb_represents_new [OF assms(1)], of ss] by simp
  moreover have "rb_max_bytes (fold ring_step ss b) = nat m"
  proof -
    have "rb_max_bytes (fold ring_step ss b') = rb_max_bytes b'" for b'
    proof (induction ss arbitrary: b')
      case (Cons s ss)
      then show ?case by (cases s) (simp_all add: rw.limit_push rb_close_def)
    qed simp
    with assms(1) show ?thesis by (auto simp: new_ring_buffer_def split: if_splits)
  qed
  ultimately show ?thesis using read_represents [of _ "appended ss" c] assms(2,3) by (simp add: rb_read_def)
qed

definition demo_ring :: ring_buffer where
  "demo_ring = \<lparr>rb_max_bytes = 4, rb_data = [], rb_start = 0, rb_closed = False\<rparr>"

theorem ring_read_exact_witness:
  "rb_read 1 (fold ring_step [Append ''abc'', Append ''def'', Close] demo_ring) =
   \<lparr>br_data = ''cdef'', br_next_cursor = 6, br_dropped_before_cursor = True\<rparr>"
proof -
  have new: "new_ring_buffer 4 = Inr demo_ring" by (simp add: new_ring_buffer_def demo_ring_def)
  show ?thesis
    using ring_read_exact [OF new, of 1 "[Append ''abc'', Append ''def'', Close]"] by simp
qed

text \<open>
  Waiting ends, with the right answer. A wait with a deadline that the clock reaches returns,
  at the first test of its loop at which the buffer is closed, data beyond the cursor is there or
  the deadline has passed; it then returns the read of the buffer as it is at that test.
\<close>

theorem wait_for_data_returns:
  assumes "\<exists>e \<in> set schedule. d \<le> fst e"
  shows "\<exists>n < length schedule.
    let b' = fold ring_step (concat (map snd (take n schedule))) b in
    wait_for_data cursor (Some d) schedule b = Some (read_locked cursor b', b') \<and>
    (rb_closed b' \<or> cursor < int (end_cursor b') \<or> d \<le> fst (schedule ! n))"
  using assms
proof (induction schedule arbitrary: b)
  case (Cons e rest)
  obtain now steps where e: "e = (now, steps)" by (cases e)
  show ?case
  proof (cases "rb_closed b \<or> cursor < int (end_cursor b) \<or> d \<le> now")
    case True
    with e show ?thesis by (intro exI [of _ 0]) (auto simp: Let_def)
  next
    case False
    with Cons.prems e have "\<exists>e \<in> set rest. d \<le> fst e" by auto
    from Cons.IH [OF this, of "fold ring_step steps b"] obtain n where
      "n < length rest" and
      "let b' = fold ring_step (concat (map snd (take n rest))) (fold ring_step steps b) in
       wait_for_data cursor (Some d) rest (fold ring_step steps b) = Some (read_locked cursor b', b') \<and>
       (rb_closed b' \<or> cursor < int (end_cursor b') \<or> d \<le> fst (rest ! n))" by blast
    with False e show ?thesis by (intro exI [of _ "Suc n"]) (auto simp: Let_def)
  qed
qed simp

definition demo_schedule :: "(rat \<times> ring_event list) list" where
  "demo_schedule = [(3, [Append ''x'']), (6, [])]"

theorem wait_for_data_returns_witness:
  "\<exists>n < length demo_schedule. let b' = fold ring_step (concat (map snd (take n demo_schedule))) demo_ring in
    wait_for_data 0 (Some 5) demo_schedule demo_ring = Some (read_locked 0 b', b') \<and>
    (rb_closed b' \<or> 0 < int (end_cursor b') \<or> 5 \<le> fst (demo_schedule ! n))"
  by (rule wait_for_data_returns) (simp add: demo_schedule_def)

end
