(* ===== verification/Session_State.thy ===== *)
theory Session_State
  imports Errors
begin

text \<open>
  \<^verbatim>\<open>worker/state.py\<close>: the life cycle of a worker session. The lock makes every method one
  atomic step. The time of the last change comes from the monotonic clock, which is an argument
  of the operations that read it. An operation returns the machine it leaves behind with its
  result.
\<close>

datatype session_state =
    CREATED | STARTING | AUTHENTICATION_REQUIRED | READY | EXECUTING | INTERACTIVE
  | LOST | CLOSING | CLOSED | FAILED

fun state_value :: "session_state \<Rightarrow> pystr" where
  "state_value CREATED = ''created''"
| "state_value STARTING = ''starting''"
| "state_value AUTHENTICATION_REQUIRED = ''authentication_required''"
| "state_value READY = ''ready''"
| "state_value EXECUTING = ''executing''"
| "state_value INTERACTIVE = ''interactive''"
| "state_value LOST = ''lost''"
| "state_value CLOSING = ''closing''"
| "state_value CLOSED = ''closed''"
| "state_value FAILED = ''failed''"

fun ALLOWED_TRANSITIONS :: "session_state \<Rightarrow> session_state list" where
  "ALLOWED_TRANSITIONS CREATED = [STARTING, CLOSING]"
| "ALLOWED_TRANSITIONS STARTING = [AUTHENTICATION_REQUIRED, READY, LOST, FAILED, CLOSING]"
| "ALLOWED_TRANSITIONS AUTHENTICATION_REQUIRED = [STARTING, EXECUTING, LOST, FAILED, CLOSING]"
| "ALLOWED_TRANSITIONS READY = [EXECUTING, INTERACTIVE, LOST, FAILED, CLOSING]"
| "ALLOWED_TRANSITIONS EXECUTING = [AUTHENTICATION_REQUIRED, READY, LOST, FAILED, CLOSING]"
| "ALLOWED_TRANSITIONS INTERACTIVE = [READY, LOST, FAILED, CLOSING]"
| "ALLOWED_TRANSITIONS LOST = [CLOSING, CLOSED]"
| "ALLOWED_TRANSITIONS FAILED = [CLOSING, CLOSED]"
| "ALLOWED_TRANSITIONS CLOSING = [CLOSED]"
| "ALLOWED_TRANSITIONS CLOSED = []"

record state_machine =
  sm_state :: session_state
  sm_generation :: nat
  sm_changed_at :: rat
  sm_auth_return_state :: "session_state option"

record state_snapshot =
  ss_state :: session_state
  ss_generation :: nat
  ss_changed_at :: rat

definition new_state_machine :: "rat \<Rightarrow> state_machine" where
  "new_state_machine now =
     \<lparr>sm_state = CREATED, sm_generation = 0, sm_changed_at = now, sm_auth_return_state = None\<rparr>"

definition snapshot :: "state_machine \<Rightarrow> state_snapshot" where
  "snapshot m = \<lparr>ss_state = sm_state m, ss_generation = sm_generation m, ss_changed_at = sm_changed_at m\<rparr>"

definition require :: "session_state list \<Rightarrow> state_machine \<Rightarrow> unit res" where
  "require states m =
     guardE (sm_state m \<in> set states)
       (InvalidSessionState (''operation requires state '' @ join '', '' (map state_value states) @
          ''; current state is '' @ state_value (sm_state m)))"

definition transition :: "rat \<Rightarrow> session_state \<Rightarrow> state_machine \<Rightarrow> state_machine \<times> state_snapshot res" where
  "transition now target m =
     (if target \<notin> set (ALLOWED_TRANSITIONS (sm_state m))
      then (m, Inl (InvalidSessionState (''invalid session transition: '' @ state_value (sm_state m) @
             '' -> '' @ state_value target)))
      else let m' = m\<lparr>sm_state := target, sm_generation := sm_generation m + 1, sm_changed_at := now\<rparr>
           in (m', Inr (snapshot m')))"

definition begin_authentication :: "rat \<Rightarrow> state_machine \<Rightarrow> state_machine \<times> state_snapshot res" where
  "begin_authentication now m =
     (if sm_state m \<notin> {STARTING, EXECUTING}
      then (m, Inl (InvalidSessionState (''authentication prompt is invalid in state '' @ state_value (sm_state m))))
      else transition now AUTHENTICATION_REQUIRED (m\<lparr>sm_auth_return_state := Some (sm_state m)\<rparr>))"

definition finish_authentication :: "rat \<Rightarrow> state_machine \<Rightarrow> state_machine \<times> state_snapshot res" where
  "finish_authentication now m =
     (if sm_state m \<noteq> AUTHENTICATION_REQUIRED
      then (m, Inl (InvalidSessionState ''authentication is not active''))
      else let m' = m\<lparr>sm_auth_return_state := None\<rparr> in
        case sm_auth_return_state m of
          None \<Rightarrow> (m', Inl (InvalidSessionState ''authentication return state is unavailable''))
        | Some target \<Rightarrow> transition now target m')"

definition begin_close :: "rat \<Rightarrow> state_machine \<Rightarrow> state_machine \<times> bool res" where
  "begin_close now m =
     (if sm_state m = CLOSED then (m, Inr False)
      else if sm_state m = CLOSING then (m, Inr True)
      else case transition now CLOSING (m\<lparr>sm_auth_return_state := None\<rparr>) of
        (m', Inl e) \<Rightarrow> (m', Inl e)
      | (m', Inr _) \<Rightarrow> (m', Inr True))"

section \<open>Runs of the machine\<close>

datatype machine_call =
    CallTransition session_state
  | CallBeginAuthentication
  | CallFinishAuthentication
  | CallBeginClose

fun state_call :: "rat \<Rightarrow> machine_call \<Rightarrow> state_machine \<Rightarrow> state_machine" where
  "state_call now (CallTransition t) m = fst (transition now t m)"
| "state_call now CallBeginAuthentication m = fst (begin_authentication now m)"
| "state_call now CallFinishAuthentication m = fst (finish_authentication now m)"
| "state_call now CallBeginClose m = fst (begin_close now m)"

inductive machine_step :: "state_machine \<Rightarrow> state_machine \<Rightarrow> bool" where
  call: "machine_step m (state_call now c m)"

inductive machine_reachable :: "state_machine \<Rightarrow> bool" where
  start: "machine_reachable (new_state_machine now)"
| step: "machine_reachable m \<Longrightarrow> machine_step m m' \<Longrightarrow> machine_reachable m'"

inductive_cases machine_stepE: "machine_step m m'"

text \<open>
  The invariant of the machine: the state to return to after authentication is one of the two
  states that may ask for it.
\<close>

definition machine_ok :: "state_machine \<Rightarrow> bool" where
  "machine_ok m =
     ((sm_generation m = 0 \<longrightarrow> sm_state m = CREATED) \<and>
      (sm_state m = CREATED \<longrightarrow> sm_auth_return_state m = None) \<and>
      (sm_auth_return_state m \<in> {None, Some STARTING, Some EXECUTING}))"

definition advances :: "state_machine \<Rightarrow> state_machine \<Rightarrow> bool" where
  "advances m m' =
     ((sm_state m' = sm_state m \<and> sm_generation m' = sm_generation m \<and> sm_changed_at m' = sm_changed_at m) \<or>
      (sm_state m' \<in> set (ALLOWED_TRANSITIONS (sm_state m)) \<and> sm_generation m' = sm_generation m + 1))"

lemma transition_advances: "advances m (fst (transition now t m))"
  by (simp add: transition_def advances_def Let_def)

lemma state_call_advances: "advances m (state_call now c m)"
proof (cases c)
  case (CallTransition t)
  then show ?thesis by (simp add: transition_advances)
next
  case CallBeginAuthentication
  then show ?thesis by (simp add: begin_authentication_def transition_def advances_def Let_def)
next
  case CallFinishAuthentication
  then show ?thesis
    by (simp add: finish_authentication_def transition_def advances_def Let_def split: option.split)
next
  case CallBeginClose
  then show ?thesis
    by (auto simp: begin_close_def transition_def advances_def Let_def)
qed

lemma created_not_target: "CREATED \<notin> set (ALLOWED_TRANSITIONS s)"
  by (cases s) auto

lemma machine_ok_call: "machine_ok m \<Longrightarrow> machine_ok (state_call now c m)"
proof (cases c)
  case (CallTransition t)
  then show "machine_ok m \<Longrightarrow> ?thesis"
    by (auto simp: machine_ok_def transition_def Let_def created_not_target)
next
  case CallBeginAuthentication
  then show "machine_ok m \<Longrightarrow> ?thesis"
    by (auto simp: machine_ok_def begin_authentication_def transition_def Let_def created_not_target)
next
  case CallFinishAuthentication
  then show "machine_ok m \<Longrightarrow> ?thesis"
    by (auto simp: machine_ok_def finish_authentication_def transition_def Let_def created_not_target
        split: option.split)
next
  case CallBeginClose
  then show "machine_ok m \<Longrightarrow> ?thesis"
    by (auto simp: machine_ok_def begin_close_def transition_def Let_def created_not_target)
qed

lemma machine_reachable_ok: "machine_reachable m \<Longrightarrow> machine_ok m"
proof (induction rule: machine_reachable.induct)
  case (start now)
  show ?case by (simp add: machine_ok_def new_state_machine_def)
next
  case (step m m')
  then show ?case by (auto elim!: machine_stepE intro: machine_ok_call)
qed

text \<open>The states a session cannot leave except towards its end.\<close>

definition ended :: "session_state \<Rightarrow> bool" where
  "ended s = (s \<in> {LOST, FAILED, CLOSING, CLOSED})"

lemma ended_closed: "ended s \<Longrightarrow> t \<in> set (ALLOWED_TRANSITIONS s) \<Longrightarrow> ended t"
  by (cases s) (auto simp: ended_def)

lemma ended_step: "machine_step m m' \<Longrightarrow> ended (sm_state m) \<Longrightarrow> ended (sm_state m')"
proof (elim machine_stepE)
  fix now c
  assume "m' = state_call now c m" and e: "ended (sm_state m)"
  then have "advances m m'" using state_call_advances by simp
  with e show "ended (sm_state m')" by (auto simp: advances_def intro: ended_closed)
qed

section \<open>Properties of the state machine\<close>

text \<open>
  C5: a session that is lost, failed, closing or closed never becomes usable again: whatever
  methods are called afterwards, in any order, its state stays among these four.
\<close>

theorem ended_is_final:
  assumes "machine_step\<^sup>*\<^sup>* m m'" and "ended (sm_state m)"
  shows "ended (sm_state m')"
  using assms by (induction rule: rtranclp_induct) (auto intro: ended_step)

definition demo_lost_machine :: state_machine where
  "demo_lost_machine = \<lparr>sm_state = LOST, sm_generation = 4, sm_changed_at = 0, sm_auth_return_state = None\<rparr>"

theorem ended_is_final_witness: "ended (sm_state (state_call 1 (CallTransition READY) demo_lost_machine))"
proof -
  have "machine_step demo_lost_machine (state_call 1 (CallTransition READY) demo_lost_machine)"
    by (rule machine_step.call)
  then have "machine_step\<^sup>*\<^sup>* demo_lost_machine (state_call 1 (CallTransition READY) demo_lost_machine)" by simp
  then show ?thesis by (rule ended_is_final) (simp add: ended_def demo_lost_machine_def)
qed

text \<open>
  Authentication returns where it came from. In a machine that is starting or
  executing, beginning and then finishing an authentication both succeed, restore exactly the
  state from before, clear the recorded return state, and count as two changes.
\<close>

theorem authentication_returns:
  assumes "sm_state m = STARTING \<or> sm_state m = EXECUTING"
  shows "\<exists>m1 s1 m2 s2. begin_authentication t1 m = (m1, Inr s1) \<and> sm_state m1 = AUTHENTICATION_REQUIRED \<and>
    finish_authentication t2 m1 = (m2, Inr s2) \<and> sm_state m2 = sm_state m \<and>
    sm_auth_return_state m2 = None \<and> sm_generation m2 = sm_generation m + 2"
  using assms by (auto simp: begin_authentication_def finish_authentication_def transition_def Let_def)

theorem authentication_returns_witness:
  "sm_state (fst (finish_authentication 3 (fst (begin_authentication 2
     \<lparr>sm_state = EXECUTING, sm_generation = 3, sm_changed_at = 1, sm_auth_return_state = None\<rparr>)))) = EXECUTING"
  using authentication_returns [of "\<lparr>sm_state = EXECUTING, sm_generation = 3, sm_changed_at = 1,
      sm_auth_return_state = None\<rparr>" 2 3] by auto

text \<open>
  Closing is always possible and never repeated. From every state other than
  closed, \<^verbatim>\<open>begin_close\<close> succeeds, returns true and leaves the machine closing; from closed it
  returns false and changes nothing.
\<close>

theorem begin_close_total:
  "\<exists>m'. begin_close now m = (m', Inr (sm_state m \<noteq> CLOSED)) \<and>
    (if sm_state m = CLOSED then m' = m else sm_state m' = CLOSING)"
  by (cases "sm_state m") (auto simp: begin_close_def transition_def Let_def)

end
