(* ===== verification/Keyed_Store.thy ===== *)
theory Keyed_Store
  imports Errors
begin

text \<open>
  The contract of the two keyed collections of the program: the profiles of a configuration
  (\<^verbatim>\<open>config/model.py\<close>) and the sessions of the broker (\<^verbatim>\<open>broker/registry.py\<close>). Both hold at most
  one value per name, refuse an insertion or a removal with an error that leaves them unchanged,
  and are otherwise the finite map one expects. The predicate \<open>fits\<close> says which values may stand
  under a name. What follows for a sequence of calls is proved
  once here.
\<close>

locale keyed_store =
  fixes store_ok :: "'s \<Rightarrow> bool"
    and fits :: "pystr \<Rightarrow> 'v \<Rightarrow> bool"
    and find :: "'s \<Rightarrow> pystr \<Rightarrow> 'v option"
    and put :: "pystr \<Rightarrow> 'v \<Rightarrow> 's \<Rightarrow> 's res"
    and del :: "pystr \<Rightarrow> 's \<Rightarrow> 's res"
  assumes put_store: "store_ok s \<Longrightarrow> fits k v \<Longrightarrow> put k v s = Inr s' \<Longrightarrow> store_ok s' \<and> find s' = (find s)(k \<mapsto> v)"
    and del_store: "store_ok s \<Longrightarrow> del k s = Inr s' \<Longrightarrow> store_ok s' \<and> find s' = (find s)(k := None)"
    and del_present: "store_ok s \<Longrightarrow> del k s = Inr s' \<Longrightarrow> find s k \<noteq> None"
begin

text \<open>A call of a client: insert or remove. A call that raises leaves the collection alone.\<close>

fun attempt :: "pystr \<times> 'v option \<Rightarrow> 's \<Rightarrow> 's" where
  "attempt (k, Some v) s = (case put k v s of Inl _ \<Rightarrow> s | Inr s' \<Rightarrow> s')"
| "attempt (k, None) s = (case del k s of Inl _ \<Rightarrow> s | Inr s' \<Rightarrow> s')"

definition fitting :: "pystr \<times> 'v option \<Rightarrow> bool" where
  "fitting c = (case snd c of None \<Rightarrow> True | Some v \<Rightarrow> fits (fst c) v)"

lemma attempt_ok: "store_ok s \<Longrightarrow> fitting c \<Longrightarrow> store_ok (attempt c s)"
  by (cases "(c, s)" rule: attempt.cases) (auto simp: fitting_def split: sum.split dest: put_store del_store)

lemma attempts_ok: "store_ok s \<Longrightarrow> list_all fitting cs \<Longrightarrow> store_ok (fold attempt cs s)"
  by (induction cs arbitrary: s) (simp_all add: attempt_ok)

lemma attempt_other: "store_ok s \<Longrightarrow> fitting c \<Longrightarrow> fst c \<noteq> k \<Longrightarrow> find (attempt c s) k = find s k"
  by (cases "(c, s)" rule: attempt.cases) (auto simp: fitting_def split: sum.split dest: put_store del_store)

text \<open>Calls under other names never disturb the value stored under a name.\<close>

lemma attempts_other:
  "store_ok s \<Longrightarrow> list_all fitting cs \<Longrightarrow> k \<notin> fst ` set cs \<Longrightarrow> find (fold attempt cs s) k = find s k"
proof (induction cs arbitrary: s)
  case (Cons c cs)
  then have "find (fold attempt cs (attempt c s)) k = find (attempt c s) k" by (simp add: attempt_ok)
  also have "\<dots> = find s k" using Cons.prems by (intro attempt_other) auto
  finally show ?case by simp
qed simp

lemma find_put: "store_ok s \<Longrightarrow> fits k v \<Longrightarrow> put k v s = Inr s' \<Longrightarrow> list_all fitting cs \<Longrightarrow> k \<notin> fst ` set cs \<Longrightarrow>
    find (fold attempt cs s') k = Some v"
  using put_store [of s k v s'] attempts_other [of s' cs k] by simp

lemma find_del: "store_ok s \<Longrightarrow> del k s = Inr s' \<Longrightarrow> list_all fitting cs \<Longrightarrow> k \<notin> fst ` set cs \<Longrightarrow>
    find (fold attempt cs s') k = None"
  using del_store [of s k s'] attempts_other [of s' cs k] by simp

lemma del_twice: "store_ok s \<Longrightarrow> del k s = Inr s' \<Longrightarrow> \<exists>e. del k s' = Inl e"
  using del_store [of s k s'] del_present [of s' k] by (cases "del k s'") auto

end

end
