(* ===== verification/Config_Model.thy ===== *)
theory Config_Model
  imports Keyed_Store
begin

text \<open>
  \<^verbatim>\<open>config/model.py\<close>: the server profiles and the configuration that holds them. The dataclasses
  are records; \<^verbatim>\<open>__post_init__\<close> is a function from the arguments of the constructor to the value
  it leaves behind or the error it raises. The fields have the types of their annotations, so the
  \<^verbatim>\<open>isinstance\<close> tests of the constructor hold by typing. The theory shows what every accepted
  profile satisfies and that a configuration is the finite map of its profiles.
\<close>

section \<open>The model\<close>

datatype connection_type = SSH_CONFIG | DIRECT

datatype authentication = OPENSSH | INTERACTIVE_PASSWORD

datatype elevation_mode = DISABLED | NON_INTERACTIVE | INTERACTIVE_ELEVATION

fun connection_type_value :: "connection_type \<Rightarrow> pystr" where
  "connection_type_value SSH_CONFIG = ''ssh_config''"
| "connection_type_value DIRECT = ''direct''"

fun authentication_value :: "authentication \<Rightarrow> pystr" where
  "authentication_value OPENSSH = ''openssh''"
| "authentication_value INTERACTIVE_PASSWORD = ''interactive_password''"

fun elevation_mode_value :: "elevation_mode \<Rightarrow> pystr" where
  "elevation_mode_value DISABLED = ''disabled''"
| "elevation_mode_value NON_INTERACTIVE = ''non_interactive''"
| "elevation_mode_value INTERACTIVE_ELEVATION = ''interactive''"

definition CONFIG_SCHEMA_VERSION :: int where
  "CONFIG_SCHEMA_VERSION = 1"

text \<open>The two name patterns: a first character and at most 63 more.\<close>

definition name_matches :: "(char \<Rightarrow> bool) \<Rightarrow> (char \<Rightarrow> bool) \<Rightarrow> pystr \<Rightarrow> bool" where
  "name_matches first later s =
     (case s of [] \<Rightarrow> False | c # r \<Rightarrow> first c \<and> length r \<le> 63 \<and> list_all later r)"

definition PROFILE_NAME :: "pystr \<Rightarrow> bool" where
  "PROFILE_NAME = name_matches is_alnum (\<lambda>c. is_alnum c \<or> c \<in> {CHR ''.'', CHR ''_'', CHR ''-''})"

definition REMOTE_USER :: "pystr \<Rightarrow> bool" where
  "REMOTE_USER = name_matches (\<lambda>c. is_upper c \<or> is_lower c \<or> c = CHR ''_'')
     (\<lambda>c. is_alnum c \<or> c \<in> {CHR ''_'', CHR ''.'', CHR ''-''})"

definition validate_profile_name :: "pystr \<Rightarrow> unit res" where
  "validate_profile_name name =
     guardE (PROFILE_NAME name) (ConfigurationError
       (''profile name must be 1-64 characters using letters, digits, '.', '_' or '-'' @ [CHR 0x27]))"

definition validate_display_text :: "pystr \<Rightarrow> pystr \<Rightarrow> nat \<Rightarrow> unit res" where
  "validate_display_text value field_name maximum =
     (if value = [] \<or> value \<noteq> py_strip value \<or> maximum < py_len value
      then Inl (ConfigurationError (field_name @ '' must be a non-empty trimmed string''))
      else if list_ex is_control value
      then Inl (ConfigurationError (field_name @ '' contains a control character''))
      else Inr ())"

definition validate_target :: "pystr \<Rightarrow> pystr \<Rightarrow> unit res" where
  "validate_target value field_name =
     bindE (validate_display_text value field_name 255) (\<lambda>_.
     guardE (\<not> (starts_with ''-'' value \<or> list_ex is_space (py_chars value)))
       (ConfigurationError (field_name @ '' is not a valid OpenSSH target value'')))"

text \<open>\<^verbatim>\<open>PurePosixPath(value)\<close>: its root, its parts and its text.\<close>

definition posix_root :: "pystr \<Rightarrow> pystr" where
  "posix_root s =
     (if starts_with ''//'' s \<and> \<not> starts_with ''///'' s then ''//''
      else if starts_with ''/'' s then ''/'' else [])"

definition posix_parts :: "pystr \<Rightarrow> pystr list" where
  "posix_parts s = filter (\<lambda>w. w \<noteq> [] \<and> w \<noteq> ''.'') (split_on (CHR ''/'') s)"

definition posix_str :: "pystr \<Rightarrow> pystr" where
  "posix_str s =
     (if posix_root s = [] \<and> posix_parts s = [] then ''.''
      else posix_root s @ join ''/'' (posix_parts s))"

fun normalize_roots_loop :: "pystr list \<Rightarrow> pystr list \<Rightarrow> pystr list res" where
  "normalize_roots_loop normalized [] = Inr normalized"
| "normalize_roots_loop normalized (value # roots) =
     (if 4096 < length value \<or> list_ex is_control value
      then Inl (ConfigurationError ''allowed_roots must contain only text paths'')
      else if posix_root value = [] \<or> ''..'' \<in> set (posix_parts value)
      then Inl (ConfigurationError (''allowed root must be an absolute normalized path: '' @ py_repr value))
      else let canonical = posix_str value in
        if canonical \<noteq> rstrip_chars {CHR ''/''} value \<and> \<not> (canonical = ''/'' \<and> value = ''/'')
        then Inl (ConfigurationError (''allowed root must already be normalized: '' @ py_repr value))
        else normalize_roots_loop
          (if canonical \<notin> set normalized then normalized @ [canonical] else normalized) roots)"

definition normalize_allowed_roots :: "pystr list \<Rightarrow> pystr list res" where
  "normalize_allowed_roots roots = normalize_roots_loop [] roots"

record server_profile =
  display_name :: pystr
  connection_type_of :: connection_type
  authentication_of :: authentication
  ssh_host :: "pystr option"
  host :: "pystr option"
  port :: "int option"
  user :: "pystr option"
  identity_file :: "pystr option"
  allowed_roots :: "pystr list"
  allow_terminal :: bool
  allow_file_read :: bool
  allow_file_write :: bool
  elevation_mode_of :: elevation_mode
  allow_root_session :: bool
  environment :: pystr
  command_timeout_seconds :: int
  max_output_bytes :: int

definition check_connection :: "server_profile \<Rightarrow> unit res" where
  "check_connection p =
     (case connection_type_of p of
        SSH_CONFIG \<Rightarrow>
          (case ssh_host p of
             None \<Rightarrow> Inl (ConfigurationError ''ssh_config profiles require ssh_host'')
           | Some h \<Rightarrow>
               bindE (validate_target h ''ssh_host'') (\<lambda>_.
               bindE (guardE (host p = None \<and> port p = None \<and> user p = None) (ConfigurationError
                 ''ssh_config profiles cannot also define direct host, port or user'')) (\<lambda>_.
               guardE (authentication_of p = OPENSSH)
                 (ConfigurationError ''ssh_config profiles must use OpenSSH authentication''))))
      | DIRECT \<Rightarrow>
          if ssh_host p \<noteq> None then Inl (ConfigurationError ''direct profiles cannot define ssh_host'')
          else (case (host p, user p, port p) of
             (Some h, Some u, Some n) \<Rightarrow>
               bindE (validate_target h ''host'') (\<lambda>_.
               bindE (guardE (REMOTE_USER u) (ConfigurationError ''user is not a supported Linux account name'')) (\<lambda>_.
               guardE (1 \<le> n \<and> n \<le> 65535) (ConfigurationError ''port must be between 1 and 65535'')))
           | _ \<Rightarrow> Inl (ConfigurationError ''direct profiles require host, port and user'')))"

definition check_identity :: "server_profile \<Rightarrow> unit res" where
  "check_identity p =
     (case identity_file p of
        None \<Rightarrow> Inr ()
      | Some f \<Rightarrow>
          bindE (validate_display_text f ''identity_file'' 1024) (\<lambda>_.
          guardE (authentication_of p = OPENSSH)
            (ConfigurationError ''identity_file is only valid with OpenSSH authentication'')))"

definition check_permissions :: "server_profile \<Rightarrow> unit res" where
  "check_permissions p =
     bindE (guardE (\<not> (allow_file_write p \<and> \<not> allow_file_read p))
       (ConfigurationError ''allow_file_write requires allow_file_read'')) (\<lambda>_.
     bindE (guardE (\<not> ((allow_file_read p \<or> allow_file_write p) \<and> allowed_roots p = []))
       (ConfigurationError ''structured file access requires at least one allowed root'')) (\<lambda>_.
     bindE (guardE (\<not> (allow_root_session p \<and> elevation_mode_of p = DISABLED))
       (ConfigurationError ''a root session requires an enabled elevation mode'')) (\<lambda>_.
     bindE (guardE (\<not> (allow_root_session p \<and> \<not> allow_terminal p))
       (ConfigurationError ''a root session requires terminal access'')) (\<lambda>_.
     bindE (guardE (1 \<le> command_timeout_seconds p \<and> command_timeout_seconds p \<le> 3600)
       (ConfigurationError ''command_timeout_seconds must be between 1 and 3600'')) (\<lambda>_.
     guardE (4096 \<le> max_output_bytes p \<and> max_output_bytes p \<le> 16777216)
       (ConfigurationError ''max_output_bytes must be between 4096 and 16777216''))))))"

text \<open>\<^verbatim>\<open>ServerProfile.__post_init__\<close>\<close>

definition new_server_profile :: "server_profile \<Rightarrow> server_profile res" where
  "new_server_profile p =
     bindE (validate_display_text (display_name p) ''display_name'' 128) (\<lambda>_.
     bindE (validate_display_text (environment p) ''environment'' 64) (\<lambda>_.
     bindE (normalize_allowed_roots (allowed_roots p)) (\<lambda>roots.
     let p = p\<lparr>allowed_roots := roots\<rparr> in
     bindE (check_connection p) (\<lambda>_.
     bindE (check_identity p) (\<lambda>_.
     bindE (check_permissions p) (\<lambda>_. Inr p))))))"

record server_ops_config =
  profiles :: "server_profile dict"
  schema_version :: int

text \<open>\<^verbatim>\<open>ServerOpsConfig.__post_init__\<close>\<close>

fun validate_names :: "pystr list \<Rightarrow> unit res" where
  "validate_names [] = Inr ()"
| "validate_names (name # names) = bindE (validate_profile_name name) (\<lambda>_. validate_names names)"

definition new_server_ops_config :: "server_profile dict \<Rightarrow> int \<Rightarrow> server_ops_config res" where
  "new_server_ops_config ps version =
     (if version \<noteq> CONFIG_SCHEMA_VERSION
      then Inl (ConfigurationError (''config schema must be '' @ dec_int CONFIG_SCHEMA_VERSION @
             '', got '' @ dec_int version))
      else bindE (validate_names (keys ps)) (\<lambda>_. Inr \<lparr>profiles = ps, schema_version = version\<rparr>))"

definition empty_config :: server_ops_config where
  "empty_config = \<lparr>profiles = [], schema_version = CONFIG_SCHEMA_VERSION\<rparr>"

definition with_profile :: "pystr \<Rightarrow> server_profile \<Rightarrow> server_ops_config \<Rightarrow> server_ops_config res" where
  "with_profile name profile c =
     bindE (validate_profile_name name) (\<lambda>_.
     new_server_ops_config (dput name profile (profiles c)) CONFIG_SCHEMA_VERSION)"

definition without_profile :: "pystr \<Rightarrow> server_ops_config \<Rightarrow> server_ops_config res" where
  "without_profile name c =
     bindE (validate_profile_name name) (\<lambda>_.
     if name \<notin> set (keys (profiles c)) then Inl (ConfigurationError (''profile does not exist: '' @ name))
     else new_server_ops_config (ddel name (profiles c)) CONFIG_SCHEMA_VERSION)"

section \<open>Normalised roots\<close>

text \<open>What every root of an accepted profile satisfies.\<close>

definition safe_root :: "pystr \<Rightarrow> bool" where
  "safe_root r =
     (length r \<le> 4096 \<and> list_all (\<lambda>c. \<not> is_control c) r \<and> starts_with ''/'' r \<and>
      ''..'' \<notin> set (split_on (CHR ''/'') r) \<and> ''.'' \<notin> set (split_on (CHR ''/'') r) \<and>
      (r = ''/'' \<or> last r \<noteq> CHR ''/''))"

lemma posix_parts_sound: "w \<in> set (posix_parts s) \<Longrightarrow> w \<noteq> [] \<and> w \<noteq> ''.'' \<and> CHR ''/'' \<notin> set w"
  by (auto simp: posix_parts_def dest: split_on_no_sep_in)

lemma join_head: "\<exists>t. join sep ((c # w) # ws) = c # t"
  by (cases ws) auto

lemma posix_root_cases: "posix_root s = [] \<or> posix_root s = ''/'' \<or> posix_root s = ''//''"
  by (simp add: posix_root_def)

text \<open>Taking the text of a path and reading it again gives the same root and parts.\<close>

lemma posix_text:
  assumes "posix_parts s \<noteq> []"
  shows "posix_root (posix_root s @ join ''/'' (posix_parts s)) = posix_root s"
    and "posix_parts (posix_root s @ join ''/'' (posix_parts s)) = posix_parts s"
proof -
  obtain c w ws where ps: "posix_parts s = (c # w) # ws"
    using assms posix_parts_sound [of "hd (posix_parts s)" s] by (cases "posix_parts s") (auto simp: neq_Nil_conv)
  have c: "c \<noteq> CHR ''/''" using posix_parts_sound [of "c # w" s] ps by auto
  obtain t where t: "join ''/'' (posix_parts s) = c # t" using join_head [of "''/''" c w ws] ps by auto
  show "posix_root (posix_root s @ join ''/'' (posix_parts s)) = posix_root s"
    using posix_root_cases [of s] c unfolding t by (auto simp: posix_root_def starts_with_def)
  have "split_on (CHR ''/'') (join ''/'' (posix_parts s)) = posix_parts s"
    using assms posix_parts_sound by (intro split_on_join) auto
  moreover have "filter (\<lambda>w. w \<noteq> [] \<and> w \<noteq> ''.'') (posix_parts s) = posix_parts s"
    by (simp add: posix_parts_def)
  ultimately show "posix_parts (posix_root s @ join ''/'' (posix_parts s)) = posix_parts s"
    using posix_root_cases [of s] by (auto simp: posix_parts_def)
qed

lemma rstrip_idem: "rstrip_chars cs (rstrip_chars cs s) = rstrip_chars cs s"
  by (simp add: rstrip_chars_def)

lemma rstrip_set: "set (rstrip_chars cs s) \<subseteq> set s"
  unfolding rstrip_chars_def by (auto dest: set_dropWhileD)

lemma rstrip_length: "length (rstrip_chars cs s) \<le> length s"
  unfolding rstrip_chars_def by (simp add: length_dropWhile_le [of _ "rev s", simplified])

lemma rstrip_fixed_last:
  assumes "s \<noteq> []" and "rstrip_chars cs s = s"
  shows "last s \<notin> cs"
proof
  assume l: "last s \<in> cs"
  obtain t c where "s = t @ [c]" using assms(1) by (cases s rule: rev_cases) auto
  with assms(2) l rstrip_length [of cs t] show False by simp
qed

text \<open>A root that the loop accepts, and the canonical text it keeps, which it accepts as it is.\<close>

definition accepts_root :: "pystr \<Rightarrow> bool" where
  "accepts_root v =
     (length v \<le> 4096 \<and> \<not> list_ex is_control v \<and> posix_root v \<noteq> [] \<and> ''..'' \<notin> set (posix_parts v) \<and>
      (posix_str v = rstrip_chars {CHR ''/''} v \<or> posix_str v = ''/'' \<and> v = ''/''))"

lemma normalize_roots_Cons:
  "normalize_roots_loop acc (v # vs) = Inr out \<Longrightarrow>
   accepts_root v \<and> normalize_roots_loop (if posix_str v \<notin> set acc then acc @ [posix_str v] else acc) vs = Inr out"
  by (auto simp: accepts_root_def Let_def split: if_splits)

lemma normalize_roots_accepts:
  "accepts_root v \<Longrightarrow> normalize_roots_loop acc (v # vs) =
     normalize_roots_loop (if posix_str v \<notin> set acc then acc @ [posix_str v] else acc) vs"
  by (auto simp: accepts_root_def Let_def)

lemma posix_str_accepted:
  assumes "accepts_root v"
  shows "accepts_root (posix_str v) \<and> posix_str (posix_str v) = posix_str v"
proof (cases "posix_parts v = []")
  case True
  with assms have "posix_str v = ''/'' \<and> v = ''/''"
    using posix_root_cases [of v] rstrip_fixed_last [of "posix_str v" "{CHR ''/''}"] rstrip_idem [of "{CHR ''/''}" v]
    by (auto simp: accepts_root_def posix_str_def)
  with assms show ?thesis by auto
next
  case False
  define u where "u = posix_root v @ join ''/'' (posix_parts v)"
  have u: "posix_str v = u" using assms by (simp add: posix_str_def u_def accepts_root_def)
  have root: "posix_root u = posix_root v" and parts: "posix_parts u = posix_parts v"
    unfolding u_def using posix_text [OF False] by auto
  then have uu: "posix_str u = u" using False unfolding posix_str_def root parts by (simp add: u_def)
  have "v \<noteq> ''/''" using False by (auto simp: posix_parts_def)
  then have ur: "u = rstrip_chars {CHR ''/''} v" using assms u by (simp add: accepts_root_def)
  then have "length u \<le> 4096" and "\<not> list_ex is_control u"
    using assms rstrip_length [of "{CHR ''/''}" v] rstrip_set [of "{CHR ''/''}" v]
    by (auto simp: accepts_root_def list_ex_iff)
  with assms root parts uu ur show ?thesis unfolding u by (auto simp: accepts_root_def rstrip_idem)
qed

lemma split_posix_text:
  "posix_parts s \<noteq> [] \<Longrightarrow> set (split_on (CHR ''/'') (posix_root s @ join ''/'' (posix_parts s))) \<subseteq> {[]} \<union> set (posix_parts s)"
proof -
  assume ps: "posix_parts s \<noteq> []"
  then have "split_on (CHR ''/'') (join ''/'' (posix_parts s)) = posix_parts s"
    using posix_parts_sound by (intro split_on_join) auto
  then show ?thesis using posix_root_cases [of s] by auto
qed

lemma accepted_root_safe:
  assumes "accepts_root r" and "posix_str r = r"
  shows "safe_root r"
proof -
  have c: "starts_with ''/'' r"
    using assms(1) posix_root_cases [of r] by (cases r) (auto simp: accepts_root_def posix_root_def starts_with_def split: if_splits)
  moreover have "r = ''/'' \<or> last r \<noteq> CHR ''/''"
    using assms c rstrip_fixed_last [of r "{CHR ''/''}"] by (cases "r = []") (auto simp: accepts_root_def starts_with_def)
  moreover have "''..'' \<notin> set (split_on (CHR ''/'') r)"
    using assms(1) by (auto simp: accepts_root_def posix_parts_def)
  moreover have "''.'' \<notin> set (split_on (CHR ''/'') r)"
  proof (cases "posix_parts r = []")
    case True
    with assms have "r = ''/'' \<or> r = ''//''"
      using posix_root_cases [of r] by (auto simp: posix_str_def accepts_root_def)
    then show ?thesis by auto
  next
    case False
    then have "r = posix_root r @ join ''/'' (posix_parts r)" using assms(2) by (simp add: posix_str_def)
    with split_posix_text [OF False] posix_parts_sound [of "''.''" r] show ?thesis by auto
  qed
  ultimately show ?thesis using assms(1) by (auto simp: safe_root_def accepts_root_def list_ex_iff list_all_iff)
qed

lemma normalize_roots_sound:
  assumes "normalize_roots_loop acc vs = Inr out" and "distinct acc"
    and "\<forall>r \<in> set acc. accepts_root r \<and> posix_str r = r"
  shows "distinct out \<and> (\<forall>r \<in> set out. accepts_root r \<and> posix_str r = r)"
  using assms
proof (induction vs arbitrary: acc)
  case (Cons v vs)
  note c = normalize_roots_Cons [OF Cons.prems(1)]
  show ?case by (rule Cons.IH [OF conjunct2 [OF c]]) (use Cons.prems c posix_str_accepted [of v] in auto)
qed simp

lemma normalize_roots_fixed:
  "distinct (acc @ rs) \<Longrightarrow> \<forall>r \<in> set rs. accepts_root r \<and> posix_str r = r \<Longrightarrow>
   normalize_roots_loop acc rs = Inr (acc @ rs)"
proof (induction rs arbitrary: acc)
  case (Cons r rs)
  then show ?case using normalize_roots_accepts [of r acc rs] Cons.IH [of "acc @ [r]"] by simp
qed simp

section \<open>Accepted profiles\<close>

definition safe_target :: "pystr \<Rightarrow> bool" where
  "safe_target t = (t \<noteq> [] \<and> \<not> starts_with ''-'' t \<and> \<not> list_ex is_space (py_chars t) \<and> \<not> list_ex is_control t)"

text \<open>What a profile promises its users, independently of how the constructor checks it.\<close>

definition profile_ok :: "server_profile \<Rightarrow> bool" where
  "profile_ok p =
     (display_name p \<noteq> [] \<and> list_all safe_root (allowed_roots p) \<and> distinct (allowed_roots p) \<and>
      (case connection_type_of p of
         SSH_CONFIG \<Rightarrow> (\<exists>h. ssh_host p = Some h \<and> safe_target h) \<and> host p = None \<and> port p = None \<and>
           user p = None \<and> authentication_of p = OPENSSH
       | DIRECT \<Rightarrow> ssh_host p = None \<and> (\<exists>h u n. host p = Some h \<and> user p = Some u \<and> port p = Some n \<and>
           safe_target h \<and> REMOTE_USER u \<and> 1 \<le> n \<and> n \<le> 65535)) \<and>
      (identity_file p = None \<or> authentication_of p = OPENSSH) \<and>
      (allow_file_write p \<longrightarrow> allow_file_read p) \<and>
      (allow_file_read p \<longrightarrow> allowed_roots p \<noteq> []) \<and>
      (allow_root_session p \<longrightarrow> elevation_mode_of p \<noteq> DISABLED \<and> allow_terminal p) \<and>
      1 \<le> command_timeout_seconds p \<and> command_timeout_seconds p \<le> 3600 \<and>
      4096 \<le> max_output_bytes p \<and> max_output_bytes p \<le> 16777216)"

lemma validate_display_text_ok:
  "validate_display_text v f m = Inr u \<Longrightarrow> v \<noteq> [] \<and> \<not> list_ex is_control v"
  by (simp add: validate_display_text_def split: if_splits)

lemma validate_target_ok: "validate_target v f = Inr u \<Longrightarrow> safe_target v"
  by (auto simp: validate_target_def safe_target_def bindE_eq_Inr dest: validate_display_text_ok)

lemma check_connection_ok:
  "check_connection p = Inr u \<Longrightarrow>
   (case connection_type_of p of
      SSH_CONFIG \<Rightarrow> (\<exists>h. ssh_host p = Some h \<and> safe_target h) \<and> host p = None \<and> port p = None \<and>
        user p = None \<and> authentication_of p = OPENSSH
    | DIRECT \<Rightarrow> ssh_host p = None \<and> (\<exists>h u n. host p = Some h \<and> user p = Some u \<and> port p = Some n \<and>
        safe_target h \<and> REMOTE_USER u \<and> 1 \<le> n \<and> n \<le> 65535))"
  by (auto simp: check_connection_def bindE_eq_Inr
      split: connection_type.splits option.splits if_splits dest: validate_target_ok)

lemma check_identity_ok: "check_identity p = Inr u \<Longrightarrow> identity_file p = None \<or> authentication_of p = OPENSSH"
  by (auto simp: check_identity_def bindE_eq_Inr split: option.splits)

lemma new_server_profile_roots:
  assumes "new_server_profile p = Inr q"
  shows "\<exists>roots. normalize_allowed_roots (allowed_roots p) = Inr roots \<and> q = p\<lparr>allowed_roots := roots\<rparr> \<and>
    validate_display_text (display_name q) ''display_name'' 128 = Inr () \<and>
    validate_display_text (environment q) ''environment'' 64 = Inr () \<and>
    check_connection q = Inr () \<and> check_identity q = Inr () \<and> check_permissions q = Inr ()"
  using assms by (auto simp: new_server_profile_def bindE_eq_Inr Let_def)

lemma accepted_profile:
  assumes "new_server_profile p = Inr q"
  shows "profile_ok q \<and> new_server_profile q = Inr q"
proof -
  obtain roots where n: "normalize_allowed_roots (allowed_roots p) = Inr roots"
    and q: "q = p\<lparr>allowed_roots := roots\<rparr>"
    and t: "validate_display_text (display_name q) ''display_name'' 128 = Inr ()"
      "validate_display_text (environment q) ''environment'' 64 = Inr ()"
    and c: "check_connection q = Inr ()" "check_identity q = Inr ()" "check_permissions q = Inr ()"
    using new_server_profile_roots [OF assms] by blast
  have r: "allowed_roots q = roots" by (simp add: q)
  have s: "distinct roots" "\<forall>r \<in> set roots. accepts_root r \<and> posix_str r = r"
    using normalize_roots_sound [of "[]" "allowed_roots p" roots] n by (simp_all add: normalize_allowed_roots_def)
  then have "normalize_allowed_roots roots = Inr roots"
    using normalize_roots_fixed [of "[]" roots] by (simp add: normalize_allowed_roots_def)
  moreover have u: "q\<lparr>allowed_roots := roots\<rparr> = q" by (simp add: q)
  ultimately have again: "new_server_profile q = Inr q"
    unfolding new_server_profile_def t r Let_def by (simp add: u c)
  have "list_all safe_root roots" using s accepted_root_safe by (auto simp: list_all_iff)
  with s(1) r c(3) check_connection_ok [OF c(1)] check_identity_ok [OF c(2)] validate_display_text_ok [OF t(1)]
  have "profile_ok q" by (auto simp: profile_ok_def check_permissions_def bindE_eq_Inr)
  with again show ?thesis by simp
qed

text \<open>
  Only safe profiles exist. A profile that the constructor accepts has normalised absolute
  roots without \<^verbatim>\<open>..\<close> components, a target that OpenSSH cannot read as an option, write access
  only with read access and file access only with a root, a root session only where elevation and
  a terminal are allowed, and limits in range; and constructing it again from its own fields
  gives the same profile.
\<close>

theorem accepted_profile_safe:
  assumes "new_server_profile p = Inr q"
  shows "profile_ok q \<and> new_server_profile q = Inr q"
  using assms by (rule accepted_profile)

definition demo_profile :: server_profile where
  "demo_profile = \<lparr>display_name = ''Web'', connection_type_of = DIRECT, authentication_of = OPENSSH,
     ssh_host = None, host = Some ''web.example'', port = Some 22, user = Some ''deploy'',
     identity_file = None, allowed_roots = [''/srv/app'', ''/etc''], allow_terminal = True,
     allow_file_read = True, allow_file_write = True, elevation_mode_of = INTERACTIVE_ELEVATION,
     allow_root_session = False, environment = ''production'', command_timeout_seconds = 60,
     max_output_bytes = 2097152\<rparr>"

lemma demo_profile_accepted: "new_server_profile (demo_profile\<lparr>allowed_roots := [''/srv/app/'', ''/etc'', ''/srv/app'']\<rparr>) = Inr demo_profile"
  by code_simp

theorem accepted_profile_safe_witness: "profile_ok demo_profile \<and> new_server_profile demo_profile = Inr demo_profile"
  by (rule accepted_profile_safe [OF demo_profile_accepted])

section \<open>The configuration as a map of profiles\<close>

definition config_ok :: "server_ops_config \<Rightarrow> bool" where
  "config_ok c = (distinct (keys (profiles c)) \<and> schema_version c = CONFIG_SCHEMA_VERSION \<and>
     list_all PROFILE_NAME (keys (profiles c)))"

definition find_profile :: "server_ops_config \<Rightarrow> pystr \<Rightarrow> server_profile option" where
  "find_profile c = map_of (profiles c)"

lemma validate_names_iff: "(validate_names ns = Inr u) = list_all PROFILE_NAME ns"
  by (induction ns) (auto simp: validate_profile_name_def guardE_def)

lemma new_server_ops_config_ok:
  "distinct (keys ps) \<Longrightarrow> new_server_ops_config ps v = Inr c \<Longrightarrow> config_ok c \<and> profiles c = ps"
  by (auto simp: new_server_ops_config_def config_ok_def bindE_eq_Inr validate_names_iff split: if_splits)

lemma config_ok_new:
  "config_ok c \<Longrightarrow> new_server_ops_config (profiles c) CONFIG_SCHEMA_VERSION = Inr c"
  using validate_names_iff [of "keys (profiles c)" "()"] by (simp add: config_ok_def new_server_ops_config_def)

lemma config_ok_empty: "config_ok empty_config"
  by (simp add: config_ok_def empty_config_def keys_def)

interpretation cs: keyed_store config_ok "\<lambda>_ _. True" find_profile with_profile without_profile
proof
  fix c k v c'
  assume "config_ok c" and "with_profile k v c = Inr c'"
  then show "config_ok c' \<and> find_profile c' = (find_profile c)(k \<mapsto> v)"
    using new_server_ops_config_ok [of "dput k v (profiles c)" CONFIG_SCHEMA_VERSION c']
    by (auto simp: with_profile_def bindE_eq_Inr find_profile_def config_ok_def distinct_dput)
next
  fix c k c'
  assume "config_ok c" and "without_profile k c = Inr c'"
  then show "config_ok c' \<and> find_profile c' = (find_profile c)(k := None)"
    using new_server_ops_config_ok [of "ddel k (profiles c)" CONFIG_SCHEMA_VERSION c']
    by (auto simp: without_profile_def bindE_eq_Inr find_profile_def config_ok_def distinct_ddel split: if_splits)
next
  fix c k c'
  assume "without_profile k c = Inr c'"
  then show "find_profile c k \<noteq> None"
    by (auto simp: without_profile_def bindE_eq_Inr find_profile_def set_keys split: if_splits)
qed

lemma with_profile_succeeds:
  "config_ok c \<Longrightarrow> PROFILE_NAME k \<Longrightarrow> \<exists>c'. with_profile k v c = Inr c'"
proof -
  assume c: "config_ok c" and k: "PROFILE_NAME k"
  have "list_all PROFILE_NAME (keys (dput k v (profiles c)))"
    using c k by (simp add: config_ok_def list_all_iff)
  with k show ?thesis
    using validate_names_iff [of "keys (dput k v (profiles c))" "()"]
    by (simp add: with_profile_def validate_profile_name_def new_server_ops_config_def)
qed

end
