(* ===== verification/Config_Codec.thy ===== *)
theory Config_Codec
  imports Config_Model "HOL-Library.Char_ord" "HOL-Library.List_Lexorder"
begin

text \<open>
  \<^verbatim>\<open>config/codec.py\<close>: reading a configuration from TOML and writing it. The parser of TOML itself
  (\<^verbatim>\<open>tomllib.loads\<close>) is an argument: it gives the document as nested dictionaries, or the message of
  its \<^verbatim>\<open>TOMLDecodeError\<close>. Values are those of the \<open>json\<close> type; a TOML date or time counts as a
  \<open>JFloat\<close>, which no check of this file accepts either. What the theorems need of the parser is
  stated as hypotheses on it: \<open>reads_toml\<close> is the TOML specification for the kind of document that
  \<^verbatim>\<open>encode_config\<close> writes, and \<open>refuses_del\<close> its rule that a raw U+007F is not permitted. A reader
  for that kind of document, \<open>toml_reader\<close>, shows that both can hold.
\<close>

section \<open>Decoding\<close>

definition FORBIDDEN_SECRET_FIELDS :: "pystr list" where
  "FORBIDDEN_SECRET_FIELDS = [''password'', ''sudo_password'', ''key_passphrase'', ''private_key_content'']"

definition PROFILE_FIELDS :: "pystr list" where
  "PROFILE_FIELDS =
     [''display_name'', ''connection_type'', ''authentication'', ''ssh_host'', ''host'', ''port'', ''user'',
      ''identity_file'', ''allowed_roots'', ''allow_terminal'', ''allow_file_read'', ''allow_file_write'',
      ''elevation_mode'', ''allow_root_session'', ''environment'', ''command_timeout_seconds'',
      ''max_output_bytes'']"

definition expect_string :: "payload \<Rightarrow> pystr \<Rightarrow> bool \<Rightarrow> pystr option res" where
  "expect_string raw name required =
     (case pget raw name of
        JStr s \<Rightarrow> Inr (Some s)
      | v \<Rightarrow> if v = JNull \<and> \<not> required then Inr None
             else Inl (ConfigurationError (name @ '' must be a string'')))"

definition expect_bool :: "payload \<Rightarrow> pystr \<Rightarrow> bool \<Rightarrow> bool res" where
  "expect_bool raw name dflt =
     (case pget_default raw name (JBool dflt) of
        JBool b \<Rightarrow> Inr b
      | _ \<Rightarrow> Inl (ConfigurationError (name @ '' must be true or false'')))"

definition expect_int :: "payload \<Rightarrow> pystr \<Rightarrow> int option \<Rightarrow> int option res" where
  "expect_int raw name dflt =
     (case pget_default raw name (case dflt of None \<Rightarrow> JNull | Some d \<Rightarrow> JInt d) of
        JNull \<Rightarrow> Inr None
      | JInt i \<Rightarrow> Inr (Some i)
      | _ \<Rightarrow> Inl (ConfigurationError (name @ '' must be an integer'')))"

text \<open>\<^verbatim>\<open>_expect_enum\<close>: the enum is the list of its members with their values.\<close>

definition expect_enum :: "(pystr \<times> 'a) list \<Rightarrow> json \<Rightarrow> pystr \<Rightarrow> 'a res" where
  "expect_enum members v name =
     (case v of
        JStr s \<Rightarrow> someE (map_of members s)
          (ConfigurationError (name @ '' must be one of: '' @ join '', '' (map fst members)))
      | _ \<Rightarrow> Inl (ConfigurationError (name @ '' must be a string'')))"

definition connection_types :: "(pystr \<times> connection_type) list" where
  "connection_types = map (\<lambda>m. (connection_type_value m, m)) [SSH_CONFIG, DIRECT]"

definition authentications :: "(pystr \<times> authentication) list" where
  "authentications = map (\<lambda>m. (authentication_value m, m)) [OPENSSH, INTERACTIVE_PASSWORD]"

definition elevation_modes :: "(pystr \<times> elevation_mode) list" where
  "elevation_modes = map (\<lambda>m. (elevation_mode_value m, m)) [DISABLED, NON_INTERACTIVE, INTERACTIVE_ELEVATION]"

fun migrate_profiles :: "payload \<Rightarrow> payload res" where
  "migrate_profiles [] = Inr []"
| "migrate_profiles ((name, JObj profile) # rest) =
     bindE (case map_of profile ''sudo_mode'' of
         None \<Rightarrow> Inr profile
       | Some v \<Rightarrow>
           if ''elevation_mode'' \<in> set (keys profile)
           then Inl (ConfigurationError ''legacy sudo_mode conflicts with elevation_mode'')
           else Inr (dput ''elevation_mode'' v (ddel ''sudo_mode'' profile))) (\<lambda>profile'.
     bindE (migrate_profiles rest) (\<lambda>rest'. Inr ((name, JObj profile') # rest')))"
| "migrate_profiles ((name, _) # rest) = Inl (ConfigurationError ''every profile must be a table'')"

definition migrate :: "payload \<Rightarrow> (payload \<times> bool) res" where
  "migrate raw =
     (case pget_default raw ''schema_version'' (JInt 0) of
        JInt version \<Rightarrow>
          if CONFIG_SCHEMA_VERSION < version
          then Inl (ConfigVersionError (''config schema '' @ dec_int version @
                 '' is newer than supported schema '' @ dec_int CONFIG_SCHEMA_VERSION))
          else if version < 0 then Inl (ConfigVersionError ''config schema version cannot be negative'')
          else if version = 0 then
            (case pget_default raw ''profiles'' (JObj []) of
               JObj ps \<Rightarrow>
                 bindE (migrate_profiles ps) (\<lambda>ps'.
                 let document = (if ''profiles'' \<in> set (keys raw) then dput ''profiles'' (JObj ps') raw else raw)
                 in Inr (dput ''schema_version'' (JInt 1) document, True))
             | _ \<Rightarrow> Inl (ConfigurationError ''profiles must be a table''))
          else if version \<noteq> CONFIG_SCHEMA_VERSION
          then Inl (ConfigVersionError (''no migration path exists for config schema '' @ dec_int version))
          else Inr (raw, False)
      | _ \<Rightarrow> Inl (ConfigurationError ''schema_version must be an integer''))"

fun strings_of :: "json list \<Rightarrow> pystr list option" where
  "strings_of [] = Some []"
| "strings_of (JStr s # vs) = map_option ((#) s) (strings_of vs)"
| "strings_of (_ # vs) = None"

definition expect_roots :: "json \<Rightarrow> pystr list res" where
  "expect_roots v =
     someE (case v of JList vs \<Rightarrow> strings_of vs | _ \<Rightarrow> None)
       (ConfigurationError ''allowed_roots must be an array of strings'')"

definition parse_fields :: "payload \<Rightarrow> server_profile res" where
  "parse_fields raw =
     bindE (expect_roots (pget_default raw ''allowed_roots'' (JList []))) (\<lambda>roots.
     bindE (expect_enum connection_types (pget raw ''connection_type'') ''connection_type'') (\<lambda>ct.
     bindE (expect_enum authentications (pget raw ''authentication'') ''authentication'') (\<lambda>au.
     bindE (expect_enum elevation_modes
       (pget_default raw ''elevation_mode'' (JStr (elevation_mode_value DISABLED))) ''elevation_mode'') (\<lambda>em.
     bindE (expect_string raw ''display_name'' True) (\<lambda>dn.
     bindE (expect_string raw ''ssh_host'' False) (\<lambda>sh.
     bindE (expect_string raw ''host'' False) (\<lambda>h.
     bindE (expect_int raw ''port'' None) (\<lambda>po.
     bindE (expect_string raw ''user'' False) (\<lambda>u.
     bindE (expect_string raw ''identity_file'' False) (\<lambda>idf.
     bindE (expect_bool raw ''allow_terminal'' True) (\<lambda>tm.
     bindE (expect_bool raw ''allow_file_read'' False) (\<lambda>ar.
     bindE (expect_bool raw ''allow_file_write'' False) (\<lambda>aw.
     bindE (expect_bool raw ''allow_root_session'' False) (\<lambda>rs.
     bindE (expect_string raw ''environment'' False) (\<lambda>env.
     bindE (expect_int raw ''command_timeout_seconds'' (Some 60)) (\<lambda>ti.
     bindE (expect_int raw ''max_output_bytes'' (Some 2097152)) (\<lambda>mx.
     Inr \<lparr>display_name = (case dn of None \<Rightarrow> [] | Some s \<Rightarrow> s), connection_type_of = ct,
       authentication_of = au, ssh_host = sh, host = h, port = po, user = u, identity_file = idf,
       allowed_roots = roots, allow_terminal = tm, allow_file_read = ar, allow_file_write = aw,
       elevation_mode_of = em, allow_root_session = rs,
       environment = (case env of None \<Rightarrow> ''unspecified'' | Some s \<Rightarrow> if s = [] then ''unspecified'' else s),
       command_timeout_seconds = (case ti of None \<Rightarrow> 0 | Some i \<Rightarrow> i),
       max_output_bytes = (case mx of None \<Rightarrow> 0 | Some i \<Rightarrow> i)\<rparr>)))))))))))))))))"

definition parse_profile :: "pystr \<Rightarrow> json \<Rightarrow> server_profile res" where
  "parse_profile name raw_value =
     (case raw_value of
        JObj raw \<Rightarrow>
          let forbidden = filter (\<lambda>f. f \<in> set (keys raw)) FORBIDDEN_SECRET_FIELDS;
              unknown = filter (\<lambda>f. f \<notin> set PROFILE_FIELDS) (keys raw)
          in if forbidden \<noteq> []
             then Inl (ConfigurationError (''profile '' @ py_repr name @
                    '' contains forbidden secret fields: '' @ join '', '' (sort forbidden)))
             else if unknown \<noteq> []
             then Inl (ConfigurationError (''profile '' @ py_repr name @
                    '' contains unknown fields: '' @ join '', '' (sort unknown)))
             else bindE (parse_fields raw) new_server_profile
      | _ \<Rightarrow> Inl (ConfigurationError (''profile '' @ py_repr name @ '' must be a table'')))"

definition parse_entry :: "pystr \<times> json \<Rightarrow> (pystr \<times> server_profile) res" where
  "parse_entry e = bindE (parse_profile (fst e) (snd e)) (\<lambda>p. Inr (fst e, p))"

definition decode_document :: "payload \<Rightarrow> (server_ops_config \<times> bool) res" where
  "decode_document parsed =
     bindE (migrate parsed) (\<lambda>(document, migrated).
     let unknown_root = filter (\<lambda>f. f \<notin> {''schema_version'', ''profiles''}) (keys document)
     in if unknown_root \<noteq> []
        then Inl (ConfigurationError (''config contains unknown top-level fields: '' @
               join '', '' (sort unknown_root)))
        else (case pget_default document ''profiles'' (JObj []) of
            JObj ps \<Rightarrow>
              bindE (mapE parse_entry ps) (\<lambda>parsed_profiles.
              bindE (new_server_ops_config parsed_profiles CONFIG_SCHEMA_VERSION) (\<lambda>c. Inr (c, migrated)))
          | _ \<Rightarrow> Inl (ConfigurationError ''profiles must be a table'')))"

definition decode_config :: "(pystr \<Rightarrow> pystr + payload) \<Rightarrow> pystr \<Rightarrow> (server_ops_config \<times> bool) res" where
  "decode_config loads text =
     (case loads text of
        Inl message \<Rightarrow> Inl (ConfigurationError (''invalid TOML: '' @ message))
      | Inr parsed \<Rightarrow> decode_document parsed)"

section \<open>Encoding\<close>

text \<open>\<^verbatim>\<open>json.dumps(value, ensure_ascii=False)\<close> of a text.\<close>

definition json_escape :: "char \<Rightarrow> pystr" where
  "json_escape c =
     (if c = CHR 0x22 \<or> c = CHR 0x5C then [CHR 0x5C, c]
      else if c = LF then [CHR 0x5C, CHR ''n'']
      else if c = CR then [CHR 0x5C, CHR ''r'']
      else if c = TAB then [CHR 0x5C, CHR ''t'']
      else if c = CHR 0x0C then [CHR 0x5C, CHR ''f'']
      else if c = CHR 0x08 then [CHR 0x5C, CHR ''b'']
      else if is_control c
        then [CHR 0x5C, CHR ''u'', CHR ''0'', CHR ''0'', hex_digit (ord c div 16), hex_digit (ord c mod 16)]
      else [c])"

definition toml_string :: "pystr \<Rightarrow> pystr" where
  "toml_string s = CHR 0x22 # concat (map json_escape s) @ [CHR 0x22]"

datatype toml_field = TStr pystr | TInt int | TBool bool | TTuple "pystr list"

fun toml_value :: "toml_field \<Rightarrow> pystr" where
  "toml_value (TStr s) = toml_string s"
| "toml_value (TBool b) = (if b then ''true'' else ''false'')"
| "toml_value (TInt i) = dec_int i"
| "toml_value (TTuple xs) = ''['' @ join '', '' (map toml_string xs) @ '']''"

definition profile_fields :: "server_profile \<Rightarrow> (pystr \<times> toml_field option) list" where
  "profile_fields p =
     [(''display_name'', Some (TStr (display_name p))),
      (''connection_type'', Some (TStr (connection_type_value (connection_type_of p)))),
      (''authentication'', Some (TStr (authentication_value (authentication_of p)))),
      (''ssh_host'', map_option TStr (ssh_host p)),
      (''host'', map_option TStr (host p)),
      (''port'', map_option TInt (port p)),
      (''user'', map_option TStr (user p)),
      (''identity_file'', map_option TStr (identity_file p)),
      (''allowed_roots'', Some (TTuple (allowed_roots p))),
      (''allow_terminal'', Some (TBool (allow_terminal p))),
      (''allow_file_read'', Some (TBool (allow_file_read p))),
      (''allow_file_write'', Some (TBool (allow_file_write p))),
      (''elevation_mode'', Some (TStr (elevation_mode_value (elevation_mode_of p)))),
      (''allow_root_session'', Some (TBool (allow_root_session p))),
      (''environment'', Some (TStr (environment p))),
      (''command_timeout_seconds'', Some (TInt (command_timeout_seconds p))),
      (''max_output_bytes'', Some (TInt (max_output_bytes p)))]"

definition present_fields :: "server_profile \<Rightarrow> (pystr \<times> toml_field) list" where
  "present_fields p = List.map_filter (\<lambda>(n, v). map_option (Pair n) v) (profile_fields p)"

definition field_line :: "pystr \<times> toml_field \<Rightarrow> pystr" where
  "field_line f = fst f @ '' = '' @ toml_value (snd f)"

definition profile_lines :: "pystr \<times> server_profile \<Rightarrow> pystr list" where
  "profile_lines e = [[], ''[profiles.'' @ toml_string (fst e) @ '']''] @ map field_line (present_fields (snd e))"

definition sorted_items :: "'v dict \<Rightarrow> 'v dict" where
  "sorted_items d = sort_key fst d"

definition encode_config :: "server_ops_config \<Rightarrow> pystr" where
  "encode_config c =
     join [LF] ((''schema_version = '' @ dec_int CONFIG_SCHEMA_VERSION) #
       concat (map profile_lines (sorted_items (profiles c)))) @ [LF]"

section \<open>What is assumed of the TOML parser\<close>

fun field_json :: "toml_field \<Rightarrow> json" where
  "field_json (TStr s) = JStr s"
| "field_json (TInt i) = JInt i"
| "field_json (TBool b) = JBool b"
| "field_json (TTuple xs) = JList (map JStr xs)"

definition table_lines :: "pystr \<times> (pystr \<times> toml_field) list \<Rightarrow> pystr list" where
  "table_lines t = [[], ''[profiles.'' @ toml_string (fst t) @ '']''] @ map field_line (snd t)"

definition toml_text :: "(pystr \<times> toml_field) list \<Rightarrow> (pystr \<times> (pystr \<times> toml_field) list) list \<Rightarrow> pystr" where
  "toml_text header tables = join [LF] (map field_line header @ concat (map table_lines tables)) @ [LF]"

definition fields_json :: "(pystr \<times> toml_field) list \<Rightarrow> payload" where
  "fields_json fs = map (\<lambda>f. (fst f, field_json (snd f))) fs"

definition tables_json :: "(pystr \<times> (pystr \<times> toml_field) list) list \<Rightarrow> payload" where
  "tables_json ts = map (\<lambda>t. (fst t, JObj (fields_json (snd t)))) ts"

definition toml_document :: "(pystr \<times> toml_field) list \<Rightarrow> (pystr \<times> (pystr \<times> toml_field) list) list \<Rightarrow> payload" where
  "toml_document header tables =
     fields_json header @ (if tables = [] then [] else [(''profiles'', JObj (tables_json tables))])"

definition bare_key :: "pystr \<Rightarrow> bool" where
  "bare_key k = (k \<noteq> [] \<and> list_all (\<lambda>c. is_alnum c \<or> c = CHR ''_'' \<or> c = CHR ''-'') k)"

text \<open>The documents that may be written: bare keys, no key or table twice, no raw U+007F.\<close>

definition toml_writable :: "(pystr \<times> toml_field) list \<Rightarrow> (pystr \<times> (pystr \<times> toml_field) list) list \<Rightarrow> bool" where
  "toml_writable header tables =
     (header \<noteq> [] \<and> distinct (''profiles'' # keys header) \<and> list_all bare_key (keys header) \<and> distinct (keys tables) \<and>
      list_all (\<lambda>t. distinct (keys (snd t)) \<and> list_all bare_key (keys (snd t))) tables \<and>
      CHR 0x7F \<notin> set (toml_text header tables))"

definition reads_toml :: "(pystr \<Rightarrow> pystr + payload) \<Rightarrow> bool" where
  "reads_toml loads =
     (\<forall>header tables. toml_writable header tables \<longrightarrow> loads (toml_text header tables) = Inr (toml_document header tables))"

definition refuses_del :: "(pystr \<Rightarrow> pystr + payload) \<Rightarrow> bool" where
  "refuses_del loads = (\<forall>text. CHR 0x7F \<in> set text \<longrightarrow> (\<exists>message. loads text = Inl message))"

section \<open>A reader that meets the assumptions\<close>

definition unhex :: "char \<Rightarrow> nat" where
  "unhex c = (if is_digit c then ord c - 48 else ord c - 87)"

fun unquote :: "pystr \<Rightarrow> (pystr \<times> pystr) option" where
  "unquote [] = None"
| "unquote (c # s) =
     (if c = CHR 0x22 then Some ([], s)
      else if c \<noteq> CHR 0x5C then map_option (\<lambda>(t, r). (c # t, r)) (unquote s)
      else (case s of
          CHR ''u'' # _ # _ # h # l # s' \<Rightarrow>
            map_option (\<lambda>(t, r). (char_of (16 * unhex h + unhex l) # t, r)) (unquote s')
        | d # s' \<Rightarrow>
            map_option (\<lambda>(t, r). ((if d = CHR ''n'' then LF else if d = CHR ''r'' then CR
              else if d = CHR ''t'' then TAB else if d = CHR ''f'' then CHR 0x0C
              else if d = CHR ''b'' then CHR 0x08 else d) # t, r)) (unquote s')
        | [] \<Rightarrow> None))"

lemma unhex_hex_digit [simp]: "n < 16 \<Longrightarrow> unhex (hex_digit n) = n"
  by (auto simp: unhex_def hex_digit_def is_digit_def)

lemma unquote_escape: "unquote (json_escape c @ s) = map_option (\<lambda>(t, r). (c # t, r)) (unquote s)"
proof (cases "is_control c")
  case True
  then have "ord c div 16 < 16" by (simp add: is_control_def)
  have "char_of (16 * (ord c div 16) + ord c mod 16) = c" by simp
  with True \<open>ord c div 16 < 16\<close> show ?thesis by (simp add: json_escape_def)
next
  case False
  then show ?thesis by (auto simp: json_escape_def is_control_def)
qed

lemma unquote_string: "unquote (concat (map json_escape s) @ CHR 0x22 # r) = Some (s, r)"
  by (induction s) (simp_all add: unquote_escape del: unquote.simps(2), simp)

fun read_items :: "nat \<Rightarrow> pystr \<Rightarrow> json list option" where
  "read_items 0 s = None"
| "read_items (Suc n) s =
     (case s of
        CHR 0x22 # r \<Rightarrow>
          (case unquote r of
             None \<Rightarrow> None
           | Some (t, r') \<Rightarrow>
               if r' = '']'' then Some [JStr t]
               else if starts_with '', '' r' then map_option ((#) (JStr t)) (read_items n (drop 2 r'))
               else None)
      | _ \<Rightarrow> if s = '']'' then Some [] else None)"

definition read_value :: "pystr \<Rightarrow> json option" where
  "read_value v =
     (if v = ''true'' then Some (JBool True) else if v = ''false'' then Some (JBool False)
      else case v of
        [] \<Rightarrow> None
      | c # r \<Rightarrow>
          if c = CHR 0x22 then (case unquote r of Some (t, []) \<Rightarrow> Some (JStr t) | _ \<Rightarrow> None)
          else if c = CHR ''['' then map_option JList (read_items (length r) r)
          else if c = CHR ''-'' then Some (JInt (- int (digits_val r)))
          else if list_all is_digit v then Some (JInt (int (digits_val v)))
          else None)"

definition read_field :: "pystr \<Rightarrow> (pystr \<times> json) option" where
  "read_field l =
     (let k = takeWhile (\<lambda>c. c \<noteq> CHR '' '') l
      in map_option (Pair k) (read_value (drop (length k + 3) l)))"

fun read_lines :: "pystr list \<Rightarrow> (payload \<times> payload) option" where
  "read_lines [] = Some ([], [])"
| "read_lines (l # ls) =
     (case read_lines ls of
        None \<Rightarrow> None
      | Some (fs, tables) \<Rightarrow>
          if l = [] then Some (fs, tables)
          else if starts_with ''['' l then
            (case unquote (drop 11 l) of Some (n, _) \<Rightarrow> Some ([], (n, JObj fs) # tables) | None \<Rightarrow> None)
          else (case read_field l of None \<Rightarrow> None | Some f \<Rightarrow> Some (f # fs, tables)))"

definition toml_reader :: "pystr \<Rightarrow> pystr + payload" where
  "toml_reader text =
     (if CHR 0x7F \<in> set text then Inl ''illegal character''
      else case read_lines (split_on LF text) of
        None \<Rightarrow> Inl ''not a document of the expected form''
      | Some (fs, tables) \<Rightarrow> Inr (fs @ (if tables = [] then [] else [(''profiles'', JObj tables)])))"

lemma read_items_strings:
  "length (join '', '' (map toml_string xs)) < n \<Longrightarrow> read_items n (join '', '' (map toml_string xs) @ '']'') = Some (map JStr xs)"
proof (induction xs arbitrary: n)
  case Nil
  then show ?case by (cases n) auto
next
  case (Cons x xs)
  obtain m where n: "n = Suc m" using Cons.prems by (cases n) auto
  show ?case
  proof (cases "xs = []")
    case True
    then show ?thesis by (simp add: n toml_string_def unquote_string)
  next
    case False
    have j: "join '', '' (map toml_string (x # xs)) = toml_string x @ '', '' @ join '', '' (map toml_string xs)"
      using False by (simp add: join_Cons)
    then have "length (join '', '' (map toml_string xs)) < m" using Cons.prems n by simp
    from Cons.IH [OF this] show ?thesis
      unfolding j by (simp add: n toml_string_def [of x] unquote_string starts_with_def)
  qed
qed

lemma dec_nat_head: "\<exists>c r. dec_nat n = c # r \<and> is_digit c"
  using dec_nat_digits [of n] dec_nat_nonempty [of n] by (cases "dec_nat n") auto

lemma read_value_int: "read_value (dec_int i) = Some (JInt i)"
proof -
  obtain c r where d: "dec_nat (nat i) = c # r" "is_digit c" using dec_nat_head by blast
  then have "c \<noteq> CHR ''t''" "c \<noteq> CHR ''f''" "c \<noteq> CHR 0x22" "c \<noteq> CHR ''[''" "c \<noteq> CHR ''-''"
    by (auto simp: is_digit_def)
  with d show ?thesis
    using dec_nat_digits [of "nat i"] digits_val_dec_nat [of "nat i"]
    by (auto simp: dec_int_def read_value_def)
qed

lemma read_value_field: "read_value (toml_value v) = Some (field_json v)"
proof (cases v)
  case (TTuple xs)
  then show ?thesis using read_items_strings [of xs] by (simp add: read_value_def del: read_items.simps)
qed (auto simp: read_value_int, auto simp: read_value_def toml_string_def unquote_string)

lemma read_field_line: "bare_key (fst f) \<Longrightarrow> read_field (field_line f) = Some (fst f, field_json (snd f))"
proof -
  assume "bare_key (fst f)"
  then have "\<forall>c \<in> set (fst f). c \<noteq> CHR '' ''"
    by (auto simp: bare_key_def list_all_iff is_alnum_def is_digit_def is_upper_def is_lower_def)
  then have "takeWhile (\<lambda>c. c \<noteq> CHR '' '') (field_line f) = fst f"
    by (simp add: field_line_def)
  then show ?thesis by (simp add: read_field_def field_line_def read_value_field)
qed

lemma hex_digit_is_hex: "n < 16 \<Longrightarrow> is_hex (hex_digit n)"
  by (auto simp: is_hex_def is_digit_def hex_digit_def)

lemma escape_no_LF: "LF \<notin> set (json_escape c)"
proof -
  have "ord c div 16 < 16" using ord_less_256 [of c] by linarith
  then have "hex_digit (ord c div 16) \<noteq> LF" "hex_digit (ord c mod 16) \<noteq> LF"
    using hex_digit_is_hex [of "ord c div 16"] hex_digit_is_hex [of "ord c mod 16"]
    by (auto simp: is_hex_def is_digit_def)
  then show ?thesis by (auto simp: json_escape_def)
qed

lemma toml_string_no_LF [simp]: "LF \<notin> set (toml_string s)"
  by (auto simp: toml_string_def escape_no_LF)

lemma dec_int_no_LF [simp]: "LF \<notin> set (dec_int i)"
  using dec_nat_digits [of "nat i"] dec_nat_digits [of "nat (- i)"]
  by (auto simp: dec_int_def list_all_iff is_digit_def)

lemma join_set: "set (join sep ws) \<subseteq> set sep \<union> \<Union> (set ` set ws)"
  by (induction sep ws rule: join.induct) auto

lemma toml_value_no_LF: "LF \<notin> set (toml_value v)"
proof (cases v)
  case (TTuple xs)
  then show ?thesis using join_set [of "'', ''" "map toml_string xs"] by auto
qed auto

lemma bare_key_no_LF: "bare_key k \<Longrightarrow> LF \<notin> set k"
  by (auto simp: bare_key_def list_all_iff)

lemma field_line_no_LF: "bare_key (fst f) \<Longrightarrow> LF \<notin> set (field_line f)"
  by (simp add: field_line_def bare_key_no_LF toml_value_no_LF)

lemma field_lines_no_LF: "list_all bare_key (keys fs) \<Longrightarrow> l \<in> set (map field_line fs) \<Longrightarrow> LF \<notin> set l"
  by (induction fs) (auto simp: keys_def dest: field_line_no_LF)

lemma table_lines_no_LF: "list_all bare_key (keys (snd t)) \<Longrightarrow> l \<in> set (table_lines t) \<Longrightarrow> LF \<notin> set l"
  using field_lines_no_LF [of "snd t" l] by (auto simp: table_lines_def)

lemma bare_key_line: "bare_key (fst f) \<Longrightarrow> field_line f \<noteq> [] \<and> \<not> starts_with ''['' (field_line f)"
  by (cases "fst f") (auto simp: bare_key_def field_line_def starts_with_def is_alnum_def is_digit_def
      is_upper_def is_lower_def)

lemma read_field_lines:
  "list_all bare_key (keys fs) \<Longrightarrow> read_lines ls = Some (gs, ts) \<Longrightarrow>
   read_lines (map field_line fs @ ls) = Some (fields_json fs @ gs, ts)"
  by (induction fs) (auto simp: keys_def fields_json_def bare_key_line read_field_line)

lemma read_table_lines:
  "list_all (\<lambda>t. list_all bare_key (keys (snd t))) ts \<Longrightarrow>
   read_lines (concat (map table_lines ts) @ [[]]) = Some ([], tables_json ts)"
proof (induction ts)
  case (Cons t ts)
  then have "read_lines (map field_line (snd t) @ concat (map table_lines ts) @ [[]]) =
      Some (fields_json (snd t), tables_json ts)"
    using read_field_lines [of "snd t" "concat (map table_lines ts) @ [[]]" "[]" "tables_json ts"] by simp
  then show ?case
    by (simp add: table_lines_def [of t] starts_with_def toml_string_def [of "fst t"] unquote_string
        tables_json_def [of "t # ts"] tables_json_def [of ts])
qed (simp add: tables_json_def)

lemma tables_json_Nil: "(tables_json ts = []) = (ts = [])"
  by (simp add: tables_json_def)

lemma split_join_line:
  "ws \<noteq> [] \<Longrightarrow> \<forall>w \<in> set ws. LF \<notin> set w \<Longrightarrow> split_on LF (join [LF] ws @ [LF]) = ws @ [[]]"
proof -
  assume ws: "ws \<noteq> []" "\<forall>w \<in> set ws. LF \<notin> set w"
  have "join [LF] ws @ [LF] = join [LF] (ws @ [[]])"
    using ws(1) by (induction ws rule: list_nonempty_induct) (auto simp: join_Cons)
  then show ?thesis using split_on_join [of "ws @ [[]]" LF] ws by simp
qed

lemma toml_reader_reads: "reads_toml toml_reader"
  unfolding reads_toml_def
proof (intro allI impI)
  fix hd tables
  assume w: "toml_writable hd tables"
  have keys: "list_all bare_key (keys hd)" "list_all (\<lambda>t. list_all bare_key (keys (snd t))) tables"
    using w by (auto simp: toml_writable_def list_all_iff)
  have "LF \<notin> set l" if mem: "l \<in> set (map field_line hd @ concat (map table_lines tables))" for l
  proof -
    consider "l \<in> set (map field_line hd)" | t where "t \<in> set tables" "l \<in> set (table_lines t)"
      using mem by auto
    then show ?thesis
    proof cases
      case 1
      with keys(1) show ?thesis by (rule field_lines_no_LF)
    next
      case 2
      with keys(2) table_lines_no_LF [of t l] show ?thesis by (auto simp: list_all_iff)
    qed
  qed
  then have "split_on LF (toml_text hd tables) = map field_line hd @ concat (map table_lines tables) @ [[]]"
    using w split_join_line [of "map field_line hd @ concat (map table_lines tables)"]
    by (simp add: toml_text_def toml_writable_def)
  then show "toml_reader (toml_text hd tables) = Inr (toml_document hd tables)"
    using w read_field_lines [OF keys(1) read_table_lines [OF keys(2)]]
    by (simp add: toml_reader_def toml_writable_def toml_document_def tables_json_Nil)
qed

lemma toml_reader_refuses: "refuses_del toml_reader"
  by (simp add: refuses_del_def toml_reader_def)

section \<open>Encoding and decoding\<close>

definition config_tables :: "server_ops_config \<Rightarrow> (pystr \<times> (pystr \<times> toml_field) list) list" where
  "config_tables c = map (\<lambda>e. (fst e, present_fields (snd e))) (sorted_items (profiles c))"

definition config_header :: "(pystr \<times> toml_field) list" where
  "config_header = [(''schema_version'', TInt CONFIG_SCHEMA_VERSION)]"

lemma encode_config_text: "encode_config c = toml_text config_header (config_tables c)"
proof -
  have "profile_lines = (\<lambda>e. table_lines (fst e, present_fields (snd e)))"
    by (simp add: fun_eq_iff profile_lines_def table_lines_def)
  then show ?thesis
    by (simp add: encode_config_def toml_text_def config_header_def config_tables_def field_line_def o_def)
qed

lemma map_filter_keys: "keys (List.map_filter (\<lambda>(n, v). map_option (Pair n) v) fs) = keys (filter (\<lambda>f. snd f \<noteq> None) fs)"
  by (induction fs) (auto simp: keys_def List.map_filter_simps split: option.splits)

lemma profile_fields_keys: "keys (profile_fields p) = PROFILE_FIELDS"
  by (simp add: profile_fields_def keys_def PROFILE_FIELDS_def)

lemma present_fields_keys: "set (keys (present_fields p)) \<subseteq> set PROFILE_FIELDS"
  unfolding present_fields_def map_filter_keys
  unfolding profile_fields_keys [of p, symmetric] by (auto simp: keys_def)

lemma distinct_filter_keys: "distinct (keys fs) \<Longrightarrow> distinct (keys (filter P fs))"
  by (induction fs) (auto simp: keys_def)

lemma present_fields_distinct: "distinct (keys (present_fields p))"
  unfolding present_fields_def map_filter_keys
  by (rule distinct_filter_keys) (simp add: profile_fields_def keys_def)

lemma profile_fields_bare: "list_all bare_key PROFILE_FIELDS"
  by code_simp

lemma sorted_items_set: "set (sorted_items d) = set d"
  by (simp add: sorted_items_def)

lemma sorted_items_distinct: "distinct (keys d) \<Longrightarrow> distinct (keys (sorted_items d))"
proof -
  assume "distinct (keys d)"
  then have "distinct d" and "inj_on fst (set d)" by (simp_all add: keys_def distinct_map)
  then show ?thesis by (simp add: keys_def distinct_map sorted_items_def)
qed

lemma sorted_items_map_of: "distinct (keys d) \<Longrightarrow> map_of (sorted_items d) = map_of d"
  using sorted_items_distinct [of d] sorted_items_set [of d]
  by (simp add: keys_def map_of_inject_set)

lemma config_writable:
  assumes "config_ok c" and "CHR 0x7F \<notin> set (encode_config c)"
  shows "toml_writable config_header (config_tables c)"
proof -
  have "keys (config_tables c) = keys (sorted_items (profiles c))"
    by (simp add: config_tables_def keys_def o_def)
  moreover have "list_all bare_key (keys (present_fields p))" for p
    using present_fields_keys [of p] profile_fields_bare by (auto simp: list_all_iff)
  moreover have "bare_key ''schema_version''" by code_simp
  ultimately show ?thesis
    using assms sorted_items_distinct [of "profiles c"] present_fields_distinct
    unfolding toml_writable_def encode_config_text config_ok_def
    by (auto simp: config_header_def config_tables_def keys_def list_all_iff o_def)
qed

text \<open>The table of a profile, read back.\<close>

definition profile_table :: "server_profile \<Rightarrow> payload" where
  "profile_table p = fields_json (present_fields p)"

lemma map_of_profile_table:
  "map_of (profile_table p) k = map_option field_json (Option.bind (map_of (profile_fields p) k) (\<lambda>v. v))"
proof -
  have "map_of (fields_json (List.map_filter (\<lambda>(n, v). map_option (Pair n) v) fs)) k =
      map_option field_json (Option.bind (map_of fs k) (\<lambda>v. v))" if "distinct (keys fs)" for fs k
    using that
  proof (induction fs arbitrary: k)
    case (Cons f fs)
    obtain n v where f: "f = (n, v)" by (cases f)
    have "map_of (fields_json (List.map_filter (\<lambda>(n, v). map_option (Pair n) v) fs)) n = None" if "n \<notin> set (keys fs)"
      using that Cons.IH [of n] Cons.prems map_of_eq_None_iff [of fs n] by (simp add: keys_def)
    with Cons f show ?case
      by (cases v) (auto simp: List.map_filter_simps fields_json_def keys_def)
  qed (simp add: fields_json_def List.map_filter_simps)
  moreover have "distinct (keys (profile_fields p))" by (simp add: profile_fields_def keys_def)
  ultimately show ?thesis unfolding profile_table_def present_fields_def by blast
qed

lemma strings_of_map [simp]: "strings_of (map JStr xs) = Some xs"
  by (induction xs) auto

lemma parse_fields_table:
  assumes "environment p \<noteq> []"
  shows "parse_fields (profile_table p) = Inr p"
proof -
  have ct: "expect_enum connection_types (JStr (connection_type_value t)) n = Inr t" for t n
    by (cases t) (simp_all add: expect_enum_def connection_types_def)
  have au: "expect_enum authentications (JStr (authentication_value t)) n = Inr t" for t n
    by (cases t) (simp_all add: expect_enum_def authentications_def)
  have em: "expect_enum elevation_modes (JStr (elevation_mode_value t)) n = Inr t" for t n
    by (cases t) (simp_all add: expect_enum_def elevation_modes_def)
  show ?thesis
    using assms
    by (simp add: parse_fields_def pget_def pget_default_def map_of_profile_table profile_fields_def ct au em
        expect_string_def expect_bool_def expect_int_def expect_roots_def split: option.split)
qed

lemma profile_table_keys: "keys (profile_table p) = keys (present_fields p)"
  by (simp add: profile_table_def fields_json_def keys_def o_def)

lemma secrets_not_fields: "filter (\<lambda>f. f \<in> set PROFILE_FIELDS) FORBIDDEN_SECRET_FIELDS = []"
  by code_simp

lemma parse_profile_table:
  assumes "new_server_profile p = Inr p"
  shows "parse_profile n (JObj (profile_table p)) = Inr p"
proof -
  have "environment p \<noteq> []" using new_server_profile_roots [OF assms] validate_display_text_ok by blast
  moreover have "filter (\<lambda>f. f \<in> set (keys (profile_table p))) FORBIDDEN_SECRET_FIELDS = []"
    using secrets_not_fields present_fields_keys [of p] unfolding profile_table_keys filter_empty_conv by blast
  moreover have "filter (\<lambda>f. f \<notin> set PROFILE_FIELDS) (keys (profile_table p)) = []"
    using present_fields_keys [of p] unfolding profile_table_keys filter_empty_conv by blast
  ultimately show ?thesis using assms by (simp add: parse_profile_def parse_fields_table)
qed

lemma parse_tables:
  "\<forall>e \<in> set items. new_server_profile (snd e) = Inr (snd e) \<Longrightarrow>
   mapE parse_entry (map (\<lambda>e. (fst e, JObj (profile_table (snd e)))) items) = Inr items"
  by (induction items) (auto simp: parse_entry_def parse_profile_table)

lemma tables_json_config:
  "tables_json (config_tables c) = map (\<lambda>e. (fst e, JObj (profile_table (snd e)))) (sorted_items (profiles c))"
  by (simp add: tables_json_def config_tables_def profile_table_def o_def)

lemma decode_written:
  assumes "config_ok c" and "\<forall>e \<in> set (profiles c). new_server_profile (snd e) = Inr (snd e)"
  shows "decode_document (toml_document config_header (config_tables c)) =
    Inr (c\<lparr>profiles := sorted_items (profiles c)\<rparr>, False)"
proof -
  let ?items = "sorted_items (profiles c)"
  have m: "migrate (toml_document config_header (config_tables c)) =
      Inr (toml_document config_header (config_tables c), False)"
    by (simp add: migrate_def pget_default_def toml_document_def config_header_def fields_json_def CONFIG_SCHEMA_VERSION_def)
  have k: "filter (\<lambda>f. f \<noteq> ''schema_version'' \<and> f \<noteq> ''profiles'') (keys (toml_document config_header (config_tables c))) = []"
    by (simp add: toml_document_def config_header_def fields_json_def keys_def)
  have p: "pget_default (toml_document config_header (config_tables c)) ''profiles'' (JObj []) =
      JObj (tables_json (config_tables c))"
    by (simp add: pget_default_def toml_document_def config_header_def fields_json_def tables_json_def)
  have "config_ok (c\<lparr>profiles := ?items\<rparr>)"
    using assms(1) sorted_items_distinct [of "profiles c"] sorted_items_set [of "profiles c"]
    by (auto simp: config_ok_def keys_def list_all_iff)
  then have "new_server_ops_config ?items CONFIG_SCHEMA_VERSION = Inr (c\<lparr>profiles := ?items\<rparr>)"
    using config_ok_new by fastforce
  moreover have "mapE parse_entry (tables_json (config_tables c)) = Inr ?items"
    unfolding tables_json_config using assms(2) sorted_items_set by (intro parse_tables) auto
  ultimately show ?thesis unfolding decode_document_def m by (simp add: k p Let_def)
qed

lemma decode_encoded:
  assumes "reads_toml loads" and "config_ok c"
    and "\<forall>e \<in> set (profiles c). new_server_profile (snd e) = Inr (snd e)"
    and "CHR 0x7F \<notin> set (encode_config c)"
  shows "\<exists>c'. decode_config loads (encode_config c) = Inr (c', False) \<and> config_ok c' \<and>
    find_profile c' = find_profile c"
proof -
  let ?c = "c\<lparr>profiles := sorted_items (profiles c)\<rparr>"
  have "decode_config loads (encode_config c) = Inr (?c, False)"
    using assms(1) config_writable [OF assms(2,4)] decode_written [OF assms(2,3)]
    by (simp add: decode_config_def reads_toml_def encode_config_text)
  moreover have "config_ok ?c"
    using assms(2) sorted_items_distinct [of "profiles c"] sorted_items_set [of "profiles c"]
    by (auto simp: config_ok_def keys_def list_all_iff)
  moreover have "find_profile ?c = find_profile c"
    using assms(2) sorted_items_map_of [of "profiles c"] by (simp add: find_profile_def config_ok_def)
  ultimately show ?thesis by blast
qed


definition demo_config :: server_ops_config where
  "demo_config = \<lparr>profiles = [(''web'', demo_profile), (''db'', demo_profile)], schema_version = 1\<rparr>"

lemma demo_config_accepted: "\<forall>e \<in> set (profiles demo_config). new_server_profile (snd e) = Inr (snd e)"
  using accepted_profile [OF demo_profile_accepted] by (simp add: demo_config_def)

lemma demo_config_ok: "config_ok demo_config"
  by code_simp

text \<open>The text has no raw U+007F when no text in the profiles has one.\<close>

fun without_del :: "toml_field \<Rightarrow> bool" where
  "without_del (TStr s) = (CHR 0x7F \<notin> set s)"
| "without_del (TTuple xs) = (\<forall>x \<in> set xs. CHR 0x7F \<notin> set x)"
| "without_del _ = True"

lemma escape_no_del: "CHR 0x7F \<noteq> c \<Longrightarrow> CHR 0x7F \<notin> set (json_escape c)"
proof -
  have "ord c div 16 < 16" using ord_less_256 [of c] by linarith
  then have "hex_digit (ord c div 16) \<noteq> CHR 0x7F" "hex_digit (ord c mod 16) \<noteq> CHR 0x7F"
    using hex_digit_is_hex [of "ord c div 16"] hex_digit_is_hex [of "ord c mod 16"]
    by (auto simp: is_hex_def is_digit_def)
  then show "CHR 0x7F \<noteq> c \<Longrightarrow> ?thesis" by (auto simp: json_escape_def)
qed

lemma toml_string_no_del: "CHR 0x7F \<notin> set s \<Longrightarrow> CHR 0x7F \<notin> set (toml_string s)"
  by (induction s) (simp_all add: toml_string_def escape_no_del)

lemma dec_int_no_del [simp]: "CHR 0x7F \<notin> set (dec_int i)"
  using dec_nat_digits [of "nat i"] dec_nat_digits [of "nat (- i)"]
  by (auto simp: dec_int_def list_all_iff is_digit_def)

lemma toml_value_no_del: "without_del v \<Longrightarrow> CHR 0x7F \<notin> set (toml_value v)"
proof (cases v)
  case (TTuple xs)
  then show "without_del v \<Longrightarrow> ?thesis"
    using join_set [of "'', ''" "map toml_string xs"] toml_string_no_del by auto
qed (auto simp: toml_string_no_del)

lemma encode_config_no_del:
  assumes "\<And>e. e \<in> set (profiles c) \<Longrightarrow> CHR 0x7F \<notin> set (fst e) \<and> list_all (\<lambda>f. without_del (snd f)) (present_fields (snd e))"
  shows "CHR 0x7F \<notin> set (encode_config c)"
proof -
  have key: "CHR 0x7F \<notin> set k" if "k \<in> set PROFILE_FIELDS" for k
    using that by (auto simp: PROFILE_FIELDS_def)
  have field: "CHR 0x7F \<notin> set (field_line f)" if "e \<in> set (profiles c)" and "f \<in> set (present_fields (snd e))" for e f
  proof -
    have "fst f \<in> set PROFILE_FIELDS" using that(2) present_fields_keys [of "snd e"] by (auto simp: keys_def)
    moreover have "without_del (snd f)" using that(2) assms [OF that(1)] by (simp add: list_all_iff)
    ultimately show ?thesis using key [of "fst f"] toml_value_no_del [of "snd f"] by (simp add: field_line_def)
  qed
  have "CHR 0x7F \<notin> set l" if e: "e \<in> set (profiles c)" and l: "l \<in> set (profile_lines e)" for e l
  proof -
    consider "l = []" | "l = ''[profiles.'' @ toml_string (fst e) @ '']''"
      | f where "f \<in> set (present_fields (snd e))" "l = field_line f"
      using l by (auto simp: profile_lines_def)
    then show ?thesis
      by cases (use assms [OF e] toml_string_no_del [of "fst e"] field [OF e] in auto)
  qed
  then have "\<forall>l \<in> set (concat (map profile_lines (sorted_items (profiles c)))). CHR 0x7F \<notin> set l"
    using sorted_items_set [of "profiles c"] by auto
  then show ?thesis
    using join_set [of "[LF]" "(''schema_version = '' @ dec_int CONFIG_SCHEMA_VERSION) #
      concat (map profile_lines (sorted_items (profiles c)))"]
    unfolding encode_config_def by auto
qed

lemma demo_config_text: "CHR 0x7F \<notin> set (encode_config demo_config)"
  by (rule encode_config_no_del)
    (auto simp: demo_config_def present_fields_def profile_fields_def demo_profile_def List.map_filter_simps)


section \<open>What a decoded configuration satisfies\<close>

definition document_tables :: "payload \<Rightarrow> payload" where
  "document_tables doc = (case pget_default doc ''profiles'' (JObj []) of JObj ps \<Rightarrow> ps | _ \<Rightarrow> [])"

definition free_of_secrets :: "json \<Rightarrow> bool" where
  "free_of_secrets v = (\<exists>t. v = JObj t \<and> set (keys t) \<inter> set FORBIDDEN_SECRET_FIELDS = {})"

lemma parse_profile_ok:
  "parse_profile n v = Inr p \<Longrightarrow> free_of_secrets v \<and> profile_ok p \<and> new_server_profile p = Inr p"
proof -
  assume h: "parse_profile n v = Inr p"
  then obtain t q where v: "v = JObj t"
    and f: "filter (\<lambda>f. f \<in> set (keys t)) FORBIDDEN_SECRET_FIELDS = []"
    and p: "new_server_profile q = Inr p"
    by (auto simp: parse_profile_def Let_def bindE_eq_Inr split: json.splits if_splits)
  have "free_of_secrets v" using f unfolding free_of_secrets_def v filter_empty_conv by blast
  with accepted_profile [OF p] show ?thesis by simp
qed

lemma parse_entries_ok:
  "mapE parse_entry ps = Inr es \<Longrightarrow> keys es = keys ps \<and> (\<forall>e \<in> set ps. free_of_secrets (snd e)) \<and>
     (\<forall>e \<in> set es. profile_ok (snd e) \<and> new_server_profile (snd e) = Inr (snd e))"
proof (induction ps arbitrary: es)
  case (Cons p ps)
  then obtain q qs where "parse_profile (fst p) (snd p) = Inr q" "mapE parse_entry ps = Inr qs" "es = (fst p, q) # qs"
    by (auto simp: parse_entry_def [of p] bindE_eq_Inr)
  with Cons.IH [of qs] parse_profile_ok [of "fst p" "snd p" q] show ?case by (simp add: keys_def)
qed (simp add: keys_def)

lemma keys_renamed: "set (keys (dput b v (ddel a t))) = insert b (set (keys t) - {a})"
  by simp

lemma migrate_profiles_ok:
  "migrate_profiles ps = Inr qs \<Longrightarrow> keys qs = keys ps \<and>
     ((\<forall>e \<in> set qs. free_of_secrets (snd e)) \<longrightarrow> (\<forall>e \<in> set ps. free_of_secrets (snd e))) \<and>
     (\<forall>t. (n, JObj t) \<in> set qs \<longrightarrow> ''sudo_mode'' \<notin> set (keys t))"
proof (induction ps arbitrary: qs rule: migrate_profiles.induct)
  case (2 name profile rest)
  from "2.prems" obtain t r where
    t: "(case map_of profile ''sudo_mode'' of None \<Rightarrow> Inr profile | Some v \<Rightarrow>
         if ''elevation_mode'' \<in> set (keys profile)
         then Inl (ConfigurationError ''legacy sudo_mode conflicts with elevation_mode'')
         else Inr (dput ''elevation_mode'' v (ddel ''sudo_mode'' profile))) = Inr t"
    and r: "migrate_profiles rest = Inr r" and q: "qs = (name, JObj t) # r"
    by (auto simp: bindE_eq_Inr)
  have "''sudo_mode'' \<notin> set (keys t)"
    using t by (cases "map_of profile ''sudo_mode''") (auto simp: set_keys domIff simp del: set_keys_dput split: if_splits)
  moreover have "set (keys profile) \<subseteq> insert ''sudo_mode'' (set (keys t))"
    using t by (cases "map_of profile ''sudo_mode''") (auto split: if_splits)
  moreover have "''sudo_mode'' \<notin> set FORBIDDEN_SECRET_FIELDS" by code_simp
  ultimately have "free_of_secrets (JObj t) \<longrightarrow> free_of_secrets (JObj profile)"
    unfolding free_of_secrets_def by blast
  with \<open>''sudo_mode'' \<notin> set (keys t)\<close> "2.IH" [OF t r] show ?case by (simp add: q keys_def)
qed (auto simp: keys_def)

lemma document_tables_migrated:
  assumes "migrate raw = Inr (doc, b)"
  shows "keys (document_tables doc) = keys (document_tables raw) \<and>
    ((\<forall>e \<in> set (document_tables doc). free_of_secrets (snd e)) \<longrightarrow>
     (\<forall>e \<in> set (document_tables raw). free_of_secrets (snd e)))"
proof (cases b)
  case True
  with assms obtain ps qs where p: "pget_default raw ''profiles'' (JObj []) = JObj ps"
    and q: "migrate_profiles ps = Inr qs"
    and doc: "doc = dput ''schema_version'' (JInt 1) (if ''profiles'' \<in> set (keys raw) then dput ''profiles'' (JObj qs) raw else raw)"
    by (auto simp: migrate_def Let_def bindE_eq_Inr split: json.splits if_splits)
  have "pget_default doc ''profiles'' (JObj []) = JObj qs"
  proof (cases "''profiles'' \<in> set (keys raw)")
    case False
    then have "ps = []" using p by (simp add: pget_default_def set_keys domIff)
    with False q show ?thesis by (simp add: doc pget_default_def set_keys domIff)
  qed (simp add: doc pget_default_def)
  with p migrate_profiles_ok [OF q] show ?thesis by (simp add: document_tables_def)
next
  case False
  with assms have "doc = raw"
    by (auto simp: migrate_def Let_def bindE_eq_Inr split: json.splits if_splits)
  then show ?thesis by simp
qed

lemma decode_document_parts:
  assumes "decode_document raw = Inr (c, b)"
  shows "\<exists>doc es. migrate raw = Inr (doc, b) \<and> mapE parse_entry (document_tables doc) = Inr es \<and>
    new_server_ops_config es CONFIG_SCHEMA_VERSION = Inr c"
  using assms unfolding decode_document_def document_tables_def
  by (auto simp: bindE_eq_Inr Let_def split: prod.splits if_splits json.splits)

text \<open>
  Only valid, secret-free configurations are loaded. Whatever TOML text is given, if it decodes
  then every profile table of the document is free of the forbidden secret fields, every resulting
  profile satisfies \<open>profile_ok\<close> and is one the constructor accepts, and the configuration is valid
  and has exactly the profile names of the document.
\<close>

theorem decoded_config_safe:
  assumes "loads text = Inr raw" and "decode_config loads text = Inr (c, migrated)"
    and "distinct (keys (document_tables raw))"
  shows "config_ok c \<and> keys (profiles c) = keys (document_tables raw) \<and>
    (\<forall>e \<in> set (document_tables raw). free_of_secrets (snd e)) \<and>
    (\<forall>e \<in> set (profiles c). profile_ok (snd e) \<and> new_server_profile (snd e) = Inr (snd e))"
proof -
  from assms(1,2) obtain doc es where m: "migrate raw = Inr (doc, migrated)"
    and es: "mapE parse_entry (document_tables doc) = Inr es"
    and c: "new_server_ops_config es CONFIG_SCHEMA_VERSION = Inr c"
    using decode_document_parts [of raw c migrated] by (auto simp: decode_config_def)
  note k = document_tables_migrated [OF m] parse_entries_ok [OF es]
  then have "distinct (keys es)" using assms(3) by simp
  from new_server_ops_config_ok [OF this c] have "config_ok c" "profiles c = es" by simp_all
  with k show ?thesis by simp
qed

definition demo_document :: payload where
  "demo_document = toml_document config_header (config_tables demo_config)"

theorem decoded_config_safe_witness:
  "\<exists>c. decode_config toml_reader (encode_config demo_config) = Inr (c, False) \<and>
    (\<forall>e \<in> set (profiles c). profile_ok (snd e))"
proof -
  let ?c = "demo_config\<lparr>profiles := sorted_items (profiles demo_config)\<rparr>"
  have l: "toml_reader (encode_config demo_config) = Inr demo_document"
    using toml_reader_reads config_writable [OF demo_config_ok demo_config_text]
    by (simp add: reads_toml_def encode_config_text demo_document_def)
  have d: "decode_config toml_reader (encode_config demo_config) = Inr (?c, False)"
    using decode_written [OF demo_config_ok demo_config_accepted] by (simp add: decode_config_def l demo_document_def)
  have "document_tables demo_document = tables_json (config_tables demo_config)"
    by (simp add: document_tables_def demo_document_def toml_document_def pget_default_def config_header_def
        fields_json_def tables_json_def)
  then have "keys (document_tables demo_document) = keys (sorted_items (profiles demo_config))"
    by (simp add: tables_json_config keys_def o_def)
  then have "distinct (keys (document_tables demo_document))"
    using demo_config_ok sorted_items_distinct [of "profiles demo_config"] by (simp add: config_ok_def)
  from decoded_config_safe [OF l d this] d show ?thesis by blast
qed

section \<open>Migration\<close>

text \<open>One table before and after the migration: \<^verbatim>\<open>sudo_mode\<close> has become \<^verbatim>\<open>elevation_mode\<close>.\<close>

definition table_migrated :: "pystr \<times> json \<Rightarrow> pystr \<times> json \<Rightarrow> bool" where
  "table_migrated e e' = (fst e' = fst e \<and> (\<exists>t t'. snd e = JObj t \<and> snd e' = JObj t' \<and>
     map_of t' = (case map_of t ''sudo_mode'' of
         None \<Rightarrow> map_of t
       | Some v \<Rightarrow> (map_of t)(''sudo_mode'' := None, ''elevation_mode'' \<mapsto> v))))"

lemma migrate_profiles_tables: "migrate_profiles ps = Inr qs \<Longrightarrow> list_all2 table_migrated ps qs"
proof (induction ps arbitrary: qs rule: migrate_profiles.induct)
  case (2 name profile rest)
  from "2.prems" obtain t r where
    t: "(case map_of profile ''sudo_mode'' of None \<Rightarrow> Inr profile | Some v \<Rightarrow>
         if ''elevation_mode'' \<in> set (keys profile)
         then Inl (ConfigurationError ''legacy sudo_mode conflicts with elevation_mode'')
         else Inr (dput ''elevation_mode'' v (ddel ''sudo_mode'' profile))) = Inr t"
    and r: "migrate_profiles rest = Inr r" and q: "qs = (name, JObj t) # r"
    by (auto simp: bindE_eq_Inr)
  have "table_migrated (name, JObj profile) (name, JObj t)"
    using t by (cases "map_of profile ''sudo_mode''") (auto simp: table_migrated_def split: if_splits)
  with "2.IH" [OF t r] q show ?case by simp
qed auto

lemma migrate_cases:
  assumes "migrate raw = Inr (doc, b)"
  shows "(b \<longrightarrow> list_all2 table_migrated (document_tables raw) (document_tables doc)) \<and>
    (b = False \<longrightarrow> doc = raw) \<and> pget_default doc ''schema_version'' (JInt 0) = JInt 1"
proof (cases b)
  case True
  with assms obtain ps qs where p: "pget_default raw ''profiles'' (JObj []) = JObj ps"
    and q: "migrate_profiles ps = Inr qs"
    and doc: "doc = dput ''schema_version'' (JInt 1) (if ''profiles'' \<in> set (keys raw) then dput ''profiles'' (JObj qs) raw else raw)"
    by (auto simp: migrate_def Let_def bindE_eq_Inr split: json.splits if_splits)
  have "pget_default doc ''profiles'' (JObj []) = JObj qs"
  proof (cases "''profiles'' \<in> set (keys raw)")
    case False
    then have "ps = []" using p by (simp add: pget_default_def set_keys domIff)
    with False q show ?thesis by (simp add: doc pget_default_def set_keys domIff)
  qed (simp add: doc pget_default_def)
  then show ?thesis
    using p migrate_profiles_tables [OF q] True by (simp add: document_tables_def doc pget_default_def)
next
  case False
  with assms show ?thesis
    by (auto simp: migrate_def Let_def bindE_eq_Inr CONFIG_SCHEMA_VERSION_def split: json.splits if_splits)
qed

lemma migrate_current: "pget_default doc ''schema_version'' (JInt 0) = JInt 1 \<Longrightarrow> migrate doc = Inr (doc, False)"
  by (simp add: migrate_def CONFIG_SCHEMA_VERSION_def)

text \<open>
  Migration is complete and happens once. A document of schema 0 or 1 that migrates gives a
  document of the current schema, which the migration then leaves alone; decoding the old document
  gives what decoding the new one gives; and where a migration took place, every profile table
  keeps its fields except that \<^verbatim>\<open>sudo_mode\<close> is now called \<^verbatim>\<open>elevation_mode\<close>.
\<close>

theorem migration_settles:
  assumes "migrate raw = Inr (doc, b)"
  shows "migrate doc = Inr (doc, False) \<and>
    decode_document raw = bindE (decode_document doc) (\<lambda>(c, _). Inr (c, b)) \<and>
    (b \<longrightarrow> list_all2 table_migrated (document_tables raw) (document_tables doc))"
proof -
  have m: "migrate doc = Inr (doc, False)"
    using migrate_cases [OF assms] by (simp add: migrate_current)
  have "decode_document raw = bindE (decode_document doc) (\<lambda>(c, _). Inr (c, b))"
    unfolding decode_document_def m assms
    by (auto simp: Let_def bindE_def split: json.split sum.split)
  with m migrate_cases [OF assms] show ?thesis by blast
qed

definition demo_legacy_document :: payload where
  "demo_legacy_document =
     [(''profiles'', JObj [(''web'', JObj [(''sudo_mode'', JStr ''interactive''), (''port'', JInt 22)])])]"

definition demo_current_document :: payload where
  "demo_current_document =
     [(''profiles'', JObj [(''web'', JObj [(''port'', JInt 22), (''elevation_mode'', JStr ''interactive'')])]),
      (''schema_version'', JInt 1)]"

theorem migration_settles_witness:
  "migrate demo_current_document = Inr (demo_current_document, False) \<and>
   list_all2 table_migrated (document_tables demo_legacy_document) (document_tables demo_current_document)"
proof -
  have "migrate demo_legacy_document = Inr (demo_current_document, True)" by code_simp
  from migration_settles [OF this] show ?thesis by simp
qed

lemma join_mem: "w \<in> set ws \<Longrightarrow> c \<in> set w \<Longrightarrow> c \<in> set (join sep ws)"
  by (induction sep ws rule: join.induct) auto

lemma toml_string_del: "CHR 0x7F \<in> set s \<Longrightarrow> CHR 0x7F \<in> set (toml_string s)"
proof -
  have "CHR 0x7F \<in> set (json_escape (CHR 0x7F))" by (simp add: json_escape_def is_control_def)
  then show "CHR 0x7F \<in> set s \<Longrightarrow> ?thesis" unfolding toml_string_def by auto
qed

lemma encode_config_del:
  assumes "e \<in> set (profiles c)" and "CHR 0x7F \<in> set (display_name (snd e))"
  shows "CHR 0x7F \<in> set (encode_config c)"
proof -
  let ?l = "field_line (''display_name'', TStr (display_name (snd e)))"
  have "?l \<in> set (profile_lines e)"
    by (simp add: profile_lines_def present_fields_def profile_fields_def List.map_filter_simps)
  then have "?l \<in> set (concat (map profile_lines (sorted_items (profiles c))))"
    using assms(1) sorted_items_set [of "profiles c"] by auto
  moreover have "CHR 0x7F \<in> set ?l" using toml_string_del [OF assms(2)] by (simp add: field_line_def)
  ultimately have "CHR 0x7F \<in> set (join [LF] (h # concat (map profile_lines (sorted_items (profiles c)))))" for h
    by (intro join_mem [of ?l]) (simp_all only: list.set insert_iff simp_thms)
  then show ?thesis unfolding encode_config_def set_append Un_iff by blast
qed

text \<open>
  A control character that the profile check lets through makes the written file unreadable. A
  display name with U+007F is accepted by the constructor (only characters below U+0020 are
  refused) and written raw, since JSON does not escape it; TOML does not permit it, so the file that
  was saved no longer loads.
\<close>

theorem del_name_unreadable:
  assumes "refuses_del loads" and "e \<in> set (profiles c)" and "CHR 0x7F \<in> set (display_name (snd e))"
  shows "\<exists>m. decode_config loads (encode_config c) = Inl (ConfigurationError m)"
  using assms(1) encode_config_del [OF assms(2,3)] by (fastforce simp: refuses_del_def decode_config_def)

definition demo_del_profile :: server_profile where
  "demo_del_profile = demo_profile\<lparr>display_name := ''Web'' @ [CHR 0x7F]\<rparr>"

theorem del_name_unreadable_witness:
  "new_server_profile demo_del_profile = Inr demo_del_profile \<and>
   (\<exists>m. decode_config toml_reader (encode_config (empty_config\<lparr>profiles := [(''web'', demo_del_profile)]\<rparr>))
      = Inl (ConfigurationError m))"
proof
  show "new_server_profile demo_del_profile = Inr demo_del_profile" by code_simp
  show "\<exists>m. decode_config toml_reader (encode_config (empty_config\<lparr>profiles := [(''web'', demo_del_profile)]\<rparr>))
      = Inl (ConfigurationError m)"
    by (rule del_name_unreadable [OF toml_reader_refuses, of "(''web'', demo_del_profile)"])
      (simp_all add: demo_del_profile_def)
qed

end
