(* ===== verification/Config_Repository.thy ===== *)
theory Config_Repository
  imports Config_Codec
begin

text \<open>
  \<^verbatim>\<open>config/repository.py\<close> and \<^verbatim>\<open>config/locking.py\<close>: the configuration file, its optimistic
  concurrency check and its migration with backup and rollback. The state is the content of the
  configuration file and of the backup directory. The operating system decides how a write ends;
  its decision is an argument of the operation (\<open>write_outcome\<close>): a write that fails before
  \<^verbatim>\<open>os.replace\<close> leaves the old content, one that fails after it the new. The hash and the TOML
  parser are arguments as well. Every operation runs under the inter-process lock, whose
  acquisition loop is modelled on a schedule of attempts.
\<close>

section \<open>The lock\<close>

text \<open>Each entry of the schedule is one attempt: whether the system grants the lock, and the clock
  read after a refusal.\<close>

fun acquire_lock :: "pystr \<Rightarrow> rat \<Rightarrow> (bool \<times> rat) list \<Rightarrow> unit res option" where
  "acquire_lock path deadline [] = None"
| "acquire_lock path deadline ((granted, now) # rest) =
     (if granted then Some (Inr ())
      else if deadline \<le> now
      then Some (Inl (ConfigLockTimeout (''timed out waiting for configuration lock: '' @ path)))
      else acquire_lock path deadline rest)"

definition locked ::
  "pystr \<Rightarrow> rat \<Rightarrow> (bool \<times> rat) list \<Rightarrow> ('s \<Rightarrow> 's \<times> 'a res) \<Rightarrow> 's \<Rightarrow> ('s \<times> 'a res) option" where
  "locked path deadline schedule body s =
     (case acquire_lock path deadline schedule of
        None \<Rightarrow> None
      | Some (Inl e) \<Rightarrow> Some (s, Inl e)
      | Some (Inr _) \<Rightarrow> Some (body s))"

section \<open>The repository\<close>

record repo_env =
  env_loads :: "pystr \<Rightarrow> pystr + payload"
  env_sha256 :: "bytes \<Rightarrow> pystr"
  env_sep :: pystr

record repo =
  config_file :: "bytes option"
  backups :: "bytes dict"

record config_snapshot =
  snap_config :: server_ops_config
  snap_hash :: pystr

record config_preparation =
  prep_snapshot :: config_snapshot
  prep_created :: bool
  prep_migrated :: bool
  prep_backup_path :: "pystr option"

datatype write_outcome = Written | NotWritten exn | WrittenButFailed exn

datatype backup_outcome = BackupWritten | BackupFailed exn "bytes option"

definition default_config_path :: "repo_env \<Rightarrow> pystr option \<Rightarrow> pystr option \<Rightarrow> pystr res" where
  "default_config_path env local_app_data environ =
     (case (case local_app_data of Some d \<Rightarrow> Some d | None \<Rightarrow> environ) of
        Some (c # d) \<Rightarrow>
          Inr ((c # d) @ env_sep env @ ''codex-serverops-mcp'' @ env_sep env @ ''config.toml'')
      | _ \<Rightarrow> Inl (ConfigurationError ''LOCALAPPDATA is unavailable''))"

definition check_hash :: "pystr \<Rightarrow> pystr option \<Rightarrow> unit res" where
  "check_hash current expected =
     guardE (\<not> (expected \<noteq> None \<and> expected \<noteq> Some current))
       (ConfigConflictError ''configuration changed after it was read; reload before writing'')"

definition load_unlocked :: "repo_env \<Rightarrow> repo \<Rightarrow> (config_snapshot \<times> bool) res" where
  "load_unlocked env r =
     (case config_file r of
        None \<Rightarrow> Inr (\<lparr>snap_config = empty_config, snap_hash = env_sha256 env []\<rparr>, False)
      | Some content \<Rightarrow>
          (case decode_strict content of
             Inl _ \<Rightarrow> Inl (ConfigurationError ''configuration must be UTF-8'')
           | Inr text \<Rightarrow>
               bindE (decode_config (env_loads env) text) (\<lambda>(c, migrated).
               Inr (\<lparr>snap_config = c, snap_hash = env_sha256 env content\<rparr>, migrated))))"

fun write_bytes_unlocked :: "write_outcome \<Rightarrow> bytes \<Rightarrow> repo \<Rightarrow> repo \<times> unit res" where
  "write_bytes_unlocked Written content r = (r\<lparr>config_file := Some content\<rparr>, Inr ())"
| "write_bytes_unlocked (NotWritten e) content r = (r, Inl e)"
| "write_bytes_unlocked (WrittenButFailed e) content r = (r\<lparr>config_file := Some content\<rparr>, Inl e)"

definition write_unlocked :: "repo_env \<Rightarrow> write_outcome \<Rightarrow> server_ops_config \<Rightarrow> repo \<Rightarrow> repo \<times> config_snapshot res" where
  "write_unlocked env w c r =
     (let content = encode_config c in
      case write_bytes_unlocked w content r of
        (r', Inl e) \<Rightarrow> (r', Inl e)
      | (r', Inr _) \<Rightarrow> (r', Inr \<lparr>snap_config = c, snap_hash = env_sha256 env content\<rparr>))"

definition backup_path :: "repo_env \<Rightarrow> pystr \<Rightarrow> bytes \<Rightarrow> pystr" where
  "backup_path env directory content =
     directory @ env_sep env @ ''config-'' @ env_sha256 env content @ ''.toml''"

definition backup_migration_unlocked ::
  "repo_env \<Rightarrow> backup_outcome \<Rightarrow> pystr \<Rightarrow> bytes \<Rightarrow> repo \<Rightarrow> repo \<times> pystr res" where
  "backup_migration_unlocked env w directory content r =
     (let path = backup_path env directory content in
      case map_of (backups r) path of
        Some existing \<Rightarrow>
          if existing \<noteq> content
          then (r, Inl (ConfigurationError (''configuration migration backup collision: '' @ path)))
          else (r, Inr path)
      | None \<Rightarrow>
          (case w of
             BackupWritten \<Rightarrow> (r\<lparr>backups := dput path content (backups r)\<rparr>, Inr path)
           | BackupFailed e leftover \<Rightarrow>
               (case leftover of None \<Rightarrow> r | Some b \<Rightarrow> r\<lparr>backups := dput path b (backups r)\<rparr>, Inl e)))"

definition repo_load :: "repo_env \<Rightarrow> repo \<Rightarrow> repo \<times> config_snapshot res" where
  "repo_load env r = (r, bindE (load_unlocked env r) (\<lambda>(s, _). Inr s))"

definition repo_migrate :: "repo_env \<Rightarrow> write_outcome \<Rightarrow> repo \<Rightarrow> repo \<times> (config_snapshot \<times> bool) res" where
  "repo_migrate env w r =
     (case load_unlocked env r of
        Inl e \<Rightarrow> (r, Inl e)
      | Inr (s, migrated) \<Rightarrow>
          if \<not> migrated then (r, Inr (s, False))
          else (case write_unlocked env w (snap_config s) r of
              (r', Inl e) \<Rightarrow> (r', Inl e)
            | (r', Inr s') \<Rightarrow> (r', Inr (s', True))))"

text \<open>The \<^verbatim>\<open>try\<close> block of \<^verbatim>\<open>initialize_or_migrate\<close>: write, read back, compare. Configurations are
  equal when their schema versions and their profile dictionaries are.\<close>

definition same_config :: "server_ops_config \<Rightarrow> server_ops_config \<Rightarrow> bool" where
  "same_config a b =
     (schema_version a = schema_version b \<and> set (keys (profiles a)) = set (keys (profiles b)) \<and>
      list_all (\<lambda>k. map_of (profiles a) k = map_of (profiles b) k) (keys (profiles a)))"

definition write_verified :: "repo_env \<Rightarrow> write_outcome \<Rightarrow> server_ops_config \<Rightarrow> repo \<Rightarrow> repo \<times> config_snapshot res" where
  "write_verified env w c r =
     (case write_unlocked env w c r of
        (r', Inl e) \<Rightarrow> (r', Inl e)
      | (r', Inr written) \<Rightarrow>
          (r', bindE (load_unlocked env r') (\<lambda>(verified, pending).
            if pending \<or> \<not> same_config (snap_config verified) c
            then Inl (ConfigurationError ''migrated configuration verification failed'')
            else Inr written)))"

definition initialize_or_migrate ::
  "repo_env \<Rightarrow> backup_outcome \<Rightarrow> write_outcome \<Rightarrow> write_outcome \<Rightarrow> pystr \<Rightarrow> repo \<Rightarrow> repo \<times> config_preparation res" where
  "initialize_or_migrate env wb w wr migration_backup_dir r =
     (case config_file r of
        None \<Rightarrow>
          (case write_unlocked env w empty_config r of
             (r', Inl e) \<Rightarrow> (r', Inl e)
           | (r', Inr s) \<Rightarrow> (r', Inr \<lparr>prep_snapshot = s, prep_created = True, prep_migrated = False,
               prep_backup_path = None\<rparr>))
      | Some original \<Rightarrow>
          (case load_unlocked env r of
             Inl e \<Rightarrow> (r, Inl e)
           | Inr (s, migrated) \<Rightarrow>
               if \<not> migrated
               then (r, Inr \<lparr>prep_snapshot = s, prep_created = False, prep_migrated = False,
                 prep_backup_path = None\<rparr>)
               else (case backup_migration_unlocked env wb migration_backup_dir original r of
                   (r1, Inl e) \<Rightarrow> (r1, Inl e)
                 | (r1, Inr path) \<Rightarrow>
                     (case write_verified env w (snap_config s) r1 of
                        (r2, Inr written) \<Rightarrow>
                          (r2, Inr \<lparr>prep_snapshot = written, prep_created = False, prep_migrated = True,
                            prep_backup_path = Some path\<rparr>)
                      | (r2, Inl _) \<Rightarrow>
                          (case write_bytes_unlocked wr original r2 of
                             (r3, Inl _) \<Rightarrow> (r3, Inl (ConfigurationError
                               (''configuration migration and rollback failed; backup: '' @ path)))
                           | (r3, Inr _) \<Rightarrow> (r3, Inl (ConfigurationError
                               (''configuration migration failed and was rolled back; backup: '' @ path))))))))"

definition update ::
  "repo_env \<Rightarrow> write_outcome \<Rightarrow> (server_ops_config \<Rightarrow> server_ops_config res) \<Rightarrow> pystr option \<Rightarrow> repo \<Rightarrow>
   repo \<times> config_snapshot res" where
  "update env w operation expected_hash r =
     (case bindE (load_unlocked env r) (\<lambda>(current, _).
            bindE (check_hash (snap_hash current) expected_hash) (\<lambda>_. operation (snap_config current))) of
        Inl e \<Rightarrow> (r, Inl e)
      | Inr c \<Rightarrow> write_unlocked env w c r)"

definition save :: "repo_env \<Rightarrow> write_outcome \<Rightarrow> server_ops_config \<Rightarrow> pystr option \<Rightarrow> repo \<Rightarrow> repo \<times> config_snapshot res" where
  "save env w c expected_hash r =
     (case bindE (load_unlocked env r) (\<lambda>(current, _). check_hash (snap_hash current) expected_hash) of
        Inl e \<Rightarrow> (r, Inl e)
      | Inr _ \<Rightarrow> write_unlocked env w c r)"

definition put_profile ::
  "repo_env \<Rightarrow> write_outcome \<Rightarrow> pystr \<Rightarrow> server_profile \<Rightarrow> pystr option \<Rightarrow> repo \<Rightarrow> repo \<times> config_snapshot res" where
  "put_profile env w name profile expected_hash r =
     (case validate_profile_name name of
        Inl e \<Rightarrow> (r, Inl e)
      | Inr _ \<Rightarrow> update env w (with_profile name profile) expected_hash r)"

definition remove_profile ::
  "repo_env \<Rightarrow> write_outcome \<Rightarrow> pystr \<Rightarrow> pystr option \<Rightarrow> repo \<Rightarrow> repo \<times> config_snapshot res" where
  "remove_profile env w name expected_hash r =
     (case validate_profile_name name of
        Inl e \<Rightarrow> (r, Inl e)
      | Inr _ \<Rightarrow> update env w (without_profile name) expected_hash r)"

section \<open>Properties of the repository\<close>

definition file_bytes :: "repo \<Rightarrow> bytes" where
  "file_bytes r = (case config_file r of None \<Rightarrow> [] | Some b \<Rightarrow> b)"

lemma load_hash: "load_unlocked env r = Inr (s, m) \<Longrightarrow> snap_hash s = env_sha256 env (file_bytes r)"
  by (auto simp: load_unlocked_def file_bytes_def bindE_eq_Inr split: option.splits sum.splits)

lemma check_hash_stale: "h \<noteq> current \<Longrightarrow> \<exists>e. check_hash current (Some h) = Inl e"
  by (simp add: check_hash_def)

lemma update_stale:
  assumes "h \<noteq> env_sha256 env (file_bytes r)"
  shows "\<exists>e. update env w f (Some h) r = (r, Inl e)"
proof (cases "load_unlocked env r")
  case (Inr sm)
  obtain s m where sm: "sm = (s, m)" by (cases sm)
  with Inr have "h \<noteq> snap_hash s" using assms load_hash by simp
  with check_hash_stale [OF this] Inr sm show ?thesis by (auto simp: update_def)
qed (simp add: update_def)

lemma save_stale:
  assumes "h \<noteq> env_sha256 env (file_bytes r)"
  shows "\<exists>e. save env w c (Some h) r = (r, Inl e)"
proof (cases "load_unlocked env r")
  case (Inr sm)
  obtain s m where sm: "sm = (s, m)" by (cases sm)
  with Inr have "h \<noteq> snap_hash s" using assms load_hash by simp
  with check_hash_stale [OF this] Inr sm show ?thesis by (auto simp: save_def)
qed (simp add: save_def)

text \<open>
  C14: no lost update. A client that read the configuration at one moment and writes it back later,
  giving the hash it read, never overwrites a change made in between: when the file's bytes have
  another hash by then, \<^verbatim>\<open>save\<close>, \<^verbatim>\<open>put_profile\<close> and \<^verbatim>\<open>remove_profile\<close> raise and leave the file and
  the backups exactly as they are.
\<close>

theorem stale_write_refused:
  assumes "load_unlocked env r1 = Inr (s, m)"
    and "env_sha256 env (file_bytes r2) \<noteq> env_sha256 env (file_bytes r1)"
  shows "(\<exists>e. save env w c (Some (snap_hash s)) r2 = (r2, Inl e)) \<and>
    (\<exists>e. put_profile env w n p (Some (snap_hash s)) r2 = (r2, Inl e)) \<and>
    (\<exists>e. remove_profile env w n (Some (snap_hash s)) r2 = (r2, Inl e))"
proof -
  have h: "snap_hash s \<noteq> env_sha256 env (file_bytes r2)" using load_hash [OF assms(1)] assms(2) by simp
  show ?thesis
    using save_stale [OF h] update_stale [OF h]
    by (auto simp: put_profile_def remove_profile_def split: sum.split)
qed

definition demo_env :: repo_env where
  "demo_env = \<lparr>env_loads = toml_reader, env_sha256 = (\<lambda>b. dec_nat (length b)), env_sep = ''/''\<rparr>"

theorem stale_write_refused_witness:
  "\<exists>e. save demo_env Written empty_config (Some (env_sha256 demo_env []))
     \<lparr>config_file = Some ''schema_version = 1'', backups = []\<rparr> =
     (\<lparr>config_file = Some ''schema_version = 1'', backups = []\<rparr>, Inl e)"
proof -
  have l: "load_unlocked demo_env \<lparr>config_file = None, backups = []\<rparr> =
      Inr (\<lparr>snap_config = empty_config, snap_hash = env_sha256 demo_env []\<rparr>, False)"
    by (simp add: load_unlocked_def)
  have h: "env_sha256 demo_env (file_bytes \<lparr>config_file = Some ''schema_version = 1'', backups = []\<rparr>) \<noteq>
      env_sha256 demo_env (file_bytes \<lparr>config_file = None, backups = []\<rparr>)"
    by code_simp
  from stale_write_refused [OF l h] show ?thesis by auto
qed

definition accepted_config :: "server_ops_config \<Rightarrow> bool" where
  "accepted_config c = (config_ok c \<and> list_all (\<lambda>e. new_server_profile (snd e) = Inr (snd e)) (profiles c))"

definition writable_config :: "server_ops_config \<Rightarrow> bool" where
  "writable_config c = (CHR 0x7F \<notin> set (encode_config c) \<and> utf8_error 0 (encode_config c) = None)"

lemma load_written:
  assumes "reads_toml (env_loads env)" and "accepted_config c" and "writable_config c"
    and "config_file r = Some (encode_config c)"
  shows "\<exists>t. load_unlocked env r = Inr (t, False) \<and> config_ok (snap_config t) \<and>
    find_profile (snap_config t) = find_profile c \<and> snap_hash t = env_sha256 env (encode_config c)"
proof -
  obtain c' where "decode_config (env_loads env) (encode_config c) = Inr (c', False)" "config_ok c'"
      "find_profile c' = find_profile c"
    using decode_encoded [OF assms(1)] assms(2,3) by (auto simp: accepted_config_def writable_config_def list_all_iff)
  with assms(3,4) show ?thesis by (simp add: load_unlocked_def decode_strict_def writable_config_def)
qed

lemma write_unlocked_ok:
  "write_unlocked env w c r = (r', Inr s') \<Longrightarrow> config_file r' = Some (encode_config c) \<and> snap_config s' = c \<and>
    snap_hash s' = env_sha256 env (encode_config c)"
  by (cases w) (auto simp: write_unlocked_def Let_def)

lemma update_ok:
  assumes "update env w f h r = (r', Inr s')" and "load_unlocked env r = Inr (s, m)"
  shows "f (snap_config s) = Inr (snap_config s') \<and> config_file r' = Some (encode_config (snap_config s')) \<and>
    snap_hash s' = env_sha256 env (encode_config (snap_config s'))"
  using assms by (auto simp: update_def bindE_def dest: write_unlocked_ok split: sum.splits)

lemma dput_values: "e \<in> set (dput k v d) \<Longrightarrow> e = (k, v) \<or> e \<in> set d"
  by (induction d) (auto split: if_splits)

lemma with_profile_accepted:
  "accepted_config c \<Longrightarrow> new_server_profile p = Inr p \<Longrightarrow> with_profile n p c = Inr c' \<Longrightarrow>
   accepted_config c' \<and> find_profile c' = (find_profile c)(n \<mapsto> p)"
  using cs.put_store [of c n p c']
  by (auto simp: accepted_config_def list_all_iff with_profile_def new_server_ops_config_def bindE_eq_Inr
      dest!: dput_values split: if_splits)

lemma without_profile_accepted:
  "accepted_config c \<Longrightarrow> without_profile n c = Inr c' \<Longrightarrow>
   accepted_config c' \<and> find_profile c' = (find_profile c)(n := None)"
  using cs.del_store [of c n c']
  by (auto simp: accepted_config_def list_all_iff without_profile_def new_server_ops_config_def bindE_eq_Inr
      ddel_def split: if_splits)

text \<open>
  A change of a profile is durable and exact. When \<^verbatim>\<open>put_profile\<close> or \<^verbatim>\<open>remove_profile\<close> returns,
  loading the repository afterwards gives the old profiles with exactly that name changed, and the
  hash in the returned snapshot is the one the next conditional write has to name.
\<close>

theorem profile_change_persists:
  assumes "reads_toml (env_loads env)" and "load_unlocked env r = Inr (s, m)"
    and "accepted_config (snap_config s)" and "new_server_profile p = Inr p"
    and "put_profile env w n p h r = (r', Inr s') \<and> change = Some p \<or>
      remove_profile env w n h r = (r', Inr s') \<and> change = None"
    and "writable_config (snap_config s')"
  shows "\<exists>t. load_unlocked env r' = Inr (t, False) \<and> snap_hash t = snap_hash s' \<and>
    find_profile (snap_config t) = (find_profile (snap_config s))(n := change)"
proof -
  obtain f where u: "update env w f h r = (r', Inr s')"
    and f: "f = with_profile n p \<and> change = Some p \<or> f = without_profile n \<and> change = None"
    using assms(5) by (auto simp: put_profile_def remove_profile_def split: sum.splits)
  note ok = update_ok [OF u assms(2)]
  then have "accepted_config (snap_config s')"
    and "find_profile (snap_config s') = (find_profile (snap_config s))(n := change)"
    using f with_profile_accepted [OF assms(3,4)] without_profile_accepted [OF assms(3)] by auto
  with load_written [OF assms(1) _ assms(6)] ok show ?thesis by metis
qed

definition demo_new_config :: server_ops_config where
  "demo_new_config = \<lparr>profiles = [(''web'', demo_profile)], schema_version = 1\<rparr>"

lemma demo_put:
  "put_profile demo_env Written ''web'' demo_profile None \<lparr>config_file = None, backups = []\<rparr> =
   (\<lparr>config_file = Some (encode_config demo_new_config), backups = []\<rparr>,
    Inr \<lparr>snap_config = demo_new_config, snap_hash = env_sha256 demo_env (encode_config demo_new_config)\<rparr>)"
proof -
  have "validate_profile_name ''web'' = Inr ()" by code_simp
  moreover have "with_profile ''web'' demo_profile empty_config = Inr demo_new_config"
    by (simp add: with_profile_def calculation empty_config_def new_server_ops_config_def keys_def
        demo_new_config_def CONFIG_SCHEMA_VERSION_def)
  ultimately show ?thesis
    by (simp add: put_profile_def update_def load_unlocked_def check_hash_def write_unlocked_def Let_def)
qed

lemma del_not_char_of: "(n::nat) < 127 \<Longrightarrow> CHR 0x7F \<noteq> char_of n"
  by (auto dest: arg_cong [of _ _ "of_char :: char \<Rightarrow> nat"])

lemma demo_new_config_text: "list_all ascii (encode_config demo_new_config) \<and> CHR 0x7F \<notin> set (encode_config demo_new_config)"
  by (simp add: encode_config_def demo_new_config_def sorted_items_def profile_lines_def present_fields_def
      profile_fields_def List.map_filter_simps demo_profile_def toml_string_def json_escape_def is_control_def
      field_line_def dec_int_def dec_nat.simps ascii_def CONFIG_SCHEMA_VERSION_def
      del_not_char_of)

theorem profile_change_persists_witness:
  "\<exists>t. load_unlocked demo_env \<lparr>config_file = Some (encode_config demo_new_config), backups = []\<rparr> = Inr (t, False) \<and>
    find_profile (snap_config t) = [''web'' \<mapsto> demo_profile]"
proof -
  let ?r = "\<lparr>config_file = None, backups = []\<rparr>"
  have l: "load_unlocked demo_env ?r = Inr (\<lparr>snap_config = empty_config, snap_hash = env_sha256 demo_env []\<rparr>, False)"
    by (simp add: load_unlocked_def)
  have "reads_toml (env_loads demo_env)" using toml_reader_reads by (simp add: demo_env_def)
  moreover have "accepted_config empty_config" using config_ok_empty by (simp add: accepted_config_def empty_config_def)
  moreover have "writable_config demo_new_config"
    using demo_new_config_text utf8_error_ascii by (simp add: writable_config_def)
  moreover have "new_server_profile demo_profile = Inr demo_profile"
    using accepted_profile [OF demo_profile_accepted] by simp
  ultimately have "\<exists>t. load_unlocked demo_env \<lparr>config_file = Some (encode_config demo_new_config), backups = []\<rparr> = Inr (t, False) \<and>
      snap_hash t = snap_hash \<lparr>snap_config = demo_new_config, snap_hash = env_sha256 demo_env (encode_config demo_new_config)\<rparr> \<and>
      find_profile (snap_config t) = (find_profile empty_config)(''web'' := Some demo_profile)"
    using profile_change_persists [OF _ l, of demo_profile Written "''web''" None
        "\<lparr>config_file = Some (encode_config demo_new_config), backups = []\<rparr>"
        "\<lparr>snap_config = demo_new_config, snap_hash = env_sha256 demo_env (encode_config demo_new_config)\<rparr>"
        "Some demo_profile"] demo_put by simp
  then show ?thesis by (auto simp: find_profile_def empty_config_def)
qed

lemma write_bytes_cases:
  "write_bytes_unlocked w b r = (r', x) \<Longrightarrow>
   (r' = r \<and> (\<exists>e. x = Inl e)) \<or> (r' = r\<lparr>config_file := Some b\<rparr> \<and> (x = Inr () \<longrightarrow> w = Written))"
  by (cases w) auto

lemma write_verified_file:
  "write_verified env w c r = (r', x) \<Longrightarrow> backups r' = backups r \<and>
   (\<forall>t. x = Inr t \<longrightarrow> config_file r' = Some (encode_config c) \<and> snap_config t = c \<and>
     (\<exists>v. load_unlocked env r' = Inr (v, False) \<and> same_config (snap_config v) c))"
  by (cases w) (auto simp: write_verified_def write_unlocked_def Let_def bindE_def split: sum.splits if_splits prod.splits)

lemma backup_ok:
  "backup_migration_unlocked env wb dir b r = (r', Inr path) \<Longrightarrow>
   path = backup_path env dir b \<and> map_of (backups r') path = Some b \<and> config_file r' = config_file r"
  by (auto simp: backup_migration_unlocked_def Let_def split: option.splits if_splits backup_outcome.splits)

lemma backup_error:
  "backup_migration_unlocked env wb dir b r = (r', Inl e) \<Longrightarrow> config_file r' = config_file r"
  by (auto simp: backup_migration_unlocked_def Let_def split: option.splits if_splits backup_outcome.splits)

definition original_kept :: "repo_env \<Rightarrow> pystr \<Rightarrow> bytes \<Rightarrow> write_outcome \<Rightarrow> repo \<Rightarrow> repo \<Rightarrow> config_preparation res \<Rightarrow> bool" where
  "original_kept env dir original wr r r' outcome =
    ((config_file r' = Some original \<or> map_of (backups r') (backup_path env dir original) = Some original) \<and>
     (\<forall>prep. outcome = Inr prep \<and> prep_migrated prep \<longrightarrow>
       prep_backup_path prep = Some (backup_path env dir original) \<and>
       map_of (backups r') (backup_path env dir original) = Some original \<and>
       (\<exists>v. load_unlocked env r' = Inr (v, False) \<and>
         same_config (snap_config v) (snap_config (prep_snapshot prep)))) \<and>
     (\<forall>prep. outcome = Inr prep \<and> \<not> prep_migrated prep \<longrightarrow> r' = r) \<and>
     (\<forall>e. outcome = Inl e \<and> wr = Written \<longrightarrow> config_file r' = Some original))"

lemma migration_written:
  assumes "config_file r = Some original" and "load_unlocked env r = Inr (s, True)"
    and b: "backup_migration_unlocked env wb dir original r = (r1, Inr path)"
    and run: "initialize_or_migrate env wb w wr dir r = (r', outcome)"
  shows "original_kept env dir original wr r r' outcome"
proof -
  note bk = backup_ok [OF b]
  obtain r2 x2 where v: "write_verified env w (snap_config s) r1 = (r2, x2)" by fastforce
  note vf = write_verified_file [OF v]
  obtain r3 x3 where rb: "write_bytes_unlocked wr original r2 = (r3, x3)" by fastforce
  have r': "(r', outcome) = (case x2 of
      Inr t \<Rightarrow> (r2, Inr \<lparr>prep_snapshot = t, prep_created = False, prep_migrated = True, prep_backup_path = Some path\<rparr>)
    | Inl _ \<Rightarrow> (case x3 of Inl _ \<Rightarrow> (r3, Inl (ConfigurationError (''configuration migration and rollback failed; backup: '' @ path)))
        | Inr _ \<Rightarrow> (r3, Inl (ConfigurationError (''configuration migration failed and was rolled back; backup: '' @ path)))))"
    using assms v rb by (simp add: initialize_or_migrate_def split: sum.splits)
  have rest: "backups r3 = backups r2" "wr = Written \<Longrightarrow> config_file r3 = Some original"
    using rb by (cases wr; auto)+
  show ?thesis
  proof (cases x2)
    case (Inl e)
    then have "r' = r3" "\<exists>e. outcome = Inl e" using r' by (simp_all split: sum.splits)
    with rest bk vf show ?thesis by (auto simp: original_kept_def)
  next
    case (Inr t)
    then have "r' = r2" "outcome = Inr \<lparr>prep_snapshot = t, prep_created = False, prep_migrated = True,
        prep_backup_path = Some path\<rparr>" using r' by simp_all
    with bk vf Inr show ?thesis by (auto simp: original_kept_def)
  qed
qed

lemma migration_kept:
  assumes "config_file r = Some original" and "initialize_or_migrate env wb w wr dir r = (r', outcome)"
  shows "original_kept env dir original wr r r' outcome"
proof (cases "load_unlocked env r")
  case (Inl e)
  with assms show ?thesis by (auto simp: initialize_or_migrate_def original_kept_def)
next
  case (Inr sm)
  obtain s m where sm: "sm = (s, m)" by (cases sm)
  obtain r1 x1 where b: "backup_migration_unlocked env wb dir original r = (r1, x1)" by fastforce
  consider "\<not> m" | e where "m" "x1 = Inl e" | path where "m" "x1 = Inr path" by (cases x1) auto
  then show ?thesis
  proof cases
    case 1
    with assms Inr sm show ?thesis by (auto simp: initialize_or_migrate_def original_kept_def)
  next
    case 2
    with assms Inr sm b have "(r', outcome) = (r1, Inl e)" by (simp add: initialize_or_migrate_def)
    with 2 b assms(1) backup_error [of env wb dir original r r1 e] show ?thesis by (simp add: original_kept_def)
  next
    case 3
    then have "load_unlocked env r = Inr (s, True)" using Inr sm by simp
    from migration_written [OF assms(1) this b [unfolded 3(2)] assms(2)] show ?thesis .
  qed
qed

text \<open>
  C15: a migration never loses the configuration. However the backup, the write and the rollback end,
  after \<^verbatim>\<open>initialize_or_migrate\<close> on an existing file the original bytes are still in the file or in
  the backup named by their hash. If it returns after a migration, the backup holds the original
  and the file reads back, without a further migration, as the configuration that was migrated. If
  it raises and the rollback could be written, the file is as it was.
\<close>

theorem migration_preserves_original:
  assumes "config_file r = Some original"
    and "initialize_or_migrate env wb w wr dir r = (r', outcome)"
  shows "(config_file r' = Some original \<or> map_of (backups r') (backup_path env dir original) = Some original) \<and>
    (\<forall>prep. outcome = Inr prep \<and> prep_migrated prep \<longrightarrow>
       prep_backup_path prep = Some (backup_path env dir original) \<and>
       map_of (backups r') (backup_path env dir original) = Some original \<and>
       (\<exists>v. load_unlocked env r' = Inr (v, False) \<and>
         same_config (snap_config v) (snap_config (prep_snapshot prep)))) \<and>
    (\<forall>prep. outcome = Inr prep \<and> \<not> prep_migrated prep \<longrightarrow> r' = r) \<and>
    (\<forall>e. outcome = Inl e \<and> wr = Written \<longrightarrow> config_file r' = Some original)"
  using migration_kept [OF assms] unfolding original_kept_def .

text \<open>A legacy file without profiles, whose write fails after the file was replaced.\<close>

definition demo_legacy_repo :: repo where
  "demo_legacy_repo = \<lparr>config_file = Some ''schema_version = 0'', backups = []\<rparr>"

theorem migration_preserves_original_witness:
  "config_file (fst (initialize_or_migrate demo_env BackupWritten (WrittenButFailed (OSError ''sync'')) Written
     ''backup'' demo_legacy_repo)) = Some ''schema_version = 0''"
proof -
  let ?run = "initialize_or_migrate demo_env BackupWritten (WrittenButFailed (OSError ''sync'')) Written
     ''backup'' demo_legacy_repo"
  have f: "config_file demo_legacy_repo = Some ''schema_version = 0''" by (simp add: demo_legacy_repo_def)
  have run: "?run = (fst ?run, snd ?run)" by simp
  have "\<not> isOk (snd ?run)" by code_simp
  then have "\<exists>e. snd ?run = Inl e" by (cases "snd ?run") auto
  with migration_preserves_original [OF f run] show ?thesis by blast
qed

end
