(* ===== verification/Ipc_Messages.thy ===== *)
theory Ipc_Messages
  imports Errors
begin

text \<open>
  \<^verbatim>\<open>ipc/messages.py\<close> and \<^verbatim>\<open>ipc/router.py\<close>: the envelope that every request and response travels in.
  Values of a document that has not been checked yet are \<open>json\<close> values, so the constructor sees
  what the sender put there. JSON text itself is written and read by \<^verbatim>\<open>json.dumps\<close> and
  \<^verbatim>\<open>json.loads\<close>, which are an argument (\<open>json_codec\<close>): writing gives the text or fails, reading gives
  the value with the fields of an object in the order of the text and duplicates kept, which is
  what the \<^verbatim>\<open>object_pairs_hook\<close> sees. A random message id is an argument.
\<close>

record json_codec =
  jc_dumps :: "json \<Rightarrow> pystr option"
  jc_loads :: "pystr \<Rightarrow> json option"

definition BROKER_PROTOCOL_VERSION :: int where
  "BROKER_PROTOCOL_VERSION = 3"

definition MAX_IPC_MESSAGE_BYTES :: nat where
  "MAX_IPC_MESSAGE_BYTES = 262144"

definition MESSAGE_ID :: "pystr \<Rightarrow> bool" where
  "MESSAGE_ID s =
     (8 \<le> length s \<and> length s \<le> 64 \<and> list_all (\<lambda>c. is_alnum c \<or> c = CHR ''_'' \<or> c = CHR ''-'') s)"

definition MESSAGE_TYPE :: "pystr \<Rightarrow> bool" where
  "MESSAGE_TYPE s =
     (case s of
        [] \<Rightarrow> False
      | c # r \<Rightarrow> is_lower c \<and> length r \<le> 63 \<and>
          list_all (\<lambda>c. is_lower c \<or> is_digit c \<or> c \<in> {CHR ''_'', CHR ''.'', CHR ''-''}) r)"

definition ENVELOPE_FIELDS :: "pystr list" where
  "ENVELOPE_FIELDS = [''protocol_version'', ''message_id'', ''message_type'', ''payload'']"

record envelope =
  env_version :: int
  env_message_id :: pystr
  env_message_type :: pystr
  env_payload :: payload

text \<open>\<^verbatim>\<open>pattern.fullmatch(value)\<close> on a value that may not be a text.\<close>

fun type_name :: "json \<Rightarrow> pystr" where
  "type_name JNull = ''NoneType''"
| "type_name (JBool _) = ''bool''"
| "type_name (JInt _) = ''int''"
| "type_name (JFloat _) = ''float''"
| "type_name (JStr _) = ''str''"
| "type_name (JList _) = ''list''"
| "type_name (JObj _) = ''dict''"

definition match_text :: "(pystr \<Rightarrow> bool) \<Rightarrow> json \<Rightarrow> pystr \<Rightarrow> pystr res" where
  "match_text pattern v message =
     (case v of
        JStr s \<Rightarrow> if pattern s then Inr s else Inl (IpcMessageError message)
      | _ \<Rightarrow> Inl (TypeError (''expected string or bytes-like object, got '' @ py_repr (type_name v))))"

definition new_envelope :: "json \<Rightarrow> json \<Rightarrow> json \<Rightarrow> json \<Rightarrow> envelope res" where
  "new_envelope version message_id message_type pl =
     bindE (case version of JInt v \<Rightarrow> Inr v
            | _ \<Rightarrow> Inl (IpcMessageError ''protocol_version must be an integer'')) (\<lambda>v.
     bindE (match_text MESSAGE_ID message_id ''message_id has an invalid format'') (\<lambda>i.
     bindE (match_text MESSAGE_TYPE message_type ''message_type has an invalid format'') (\<lambda>t.
     case pl of
       JObj d \<Rightarrow> Inr \<lparr>env_version = v, env_message_id = i, env_message_type = t, env_payload = d\<rparr>
     | _ \<Rightarrow> Inl (IpcMessageError ''payload must be an object''))))"

definition create :: "pystr \<Rightarrow> pystr \<Rightarrow> payload \<Rightarrow> pystr option \<Rightarrow> envelope res" where
  "create fresh message_type pl message_id =
     new_envelope (JInt BROKER_PROTOCOL_VERSION)
       (JStr (case message_id of Some (c # i) \<Rightarrow> c # i | _ \<Rightarrow> ''msg_'' @ fresh))
       (JStr message_type) (JObj pl)"

text \<open>Python's \<^verbatim>\<open>==\<close> between a payload value and an integer.\<close>

fun equals_int :: "json \<Rightarrow> int \<Rightarrow> bool" where
  "equals_int (JInt i) n = (i = n)"
| "equals_int (JFloat f) n = (f = of_int n)"
| "equals_int (JBool b) n = ((if b then 1 else 0) = n)"
| "equals_int _ n = False"

section \<open>Duplicate fields\<close>

fun reject_duplicate_keys :: "payload \<Rightarrow> payload \<Rightarrow> payload res" where
  "reject_duplicate_keys result [] = Inr result"
| "reject_duplicate_keys result ((k, v) # pairs) =
     (if k \<in> set (keys result) then Inl (IpcMessageError (''duplicate JSON field: '' @ k))
      else reject_duplicate_keys (dput k v result) pairs)"

text \<open>The hook runs on every object of the document, the inner ones first.\<close>

fun checked_json :: "json \<Rightarrow> json res"
  and checked_list :: "json list \<Rightarrow> json list res"
  and checked_pairs :: "payload \<Rightarrow> payload res" where
  "checked_json (JList vs) = bindE (checked_list vs) (\<lambda>vs'. Inr (JList vs'))"
| "checked_json (JObj ps) =
     bindE (checked_pairs ps) (\<lambda>ps'. bindE (reject_duplicate_keys [] ps') (\<lambda>d. Inr (JObj d)))"
| "checked_json v = Inr v"
| "checked_list [] = Inr []"
| "checked_list (v # vs) = bindE (checked_json v) (\<lambda>v'. bindE (checked_list vs) (\<lambda>vs'. Inr (v' # vs')))"
| "checked_pairs [] = Inr []"
| "checked_pairs ((k, v) # ps) = bindE (checked_json v) (\<lambda>v'. bindE (checked_pairs ps) (\<lambda>ps'. Inr ((k, v') # ps')))"

section \<open>Encoding and decoding\<close>

definition envelope_document :: "envelope \<Rightarrow> json" where
  "envelope_document e =
     JObj [(''protocol_version'', JInt (env_version e)), (''message_id'', JStr (env_message_id e)),
           (''message_type'', JStr (env_message_type e)), (''payload'', JObj (env_payload e))]"

definition size_error :: "nat \<Rightarrow> exn" where
  "size_error max_bytes = IpcMessageError (''message exceeds the '' @ dec_nat max_bytes @ ''-byte limit'')"

definition encode_envelope :: "json_codec \<Rightarrow> envelope \<Rightarrow> nat \<Rightarrow> bytes res" where
  "encode_envelope codec e max_bytes =
     bindE (someE (jc_dumps codec (envelope_document e)) (IpcMessageError ''message payload is not valid JSON''))
       (\<lambda>encoded.
     if encoded = [] \<or> max_bytes < length encoded then Inl (size_error max_bytes) else Inr encoded)"

definition read_document :: "json_codec \<Rightarrow> bytes \<Rightarrow> json res" where
  "read_document codec data =
     (case decode_strict data of
        Inl _ \<Rightarrow> Inl (IpcMessageError ''message is not valid UTF-8 JSON'')
      | Inr text \<Rightarrow>
          bindE (someE (jc_loads codec text) (IpcMessageError ''message is not valid UTF-8 JSON'')) checked_json)"

definition decode_envelope :: "json_codec \<Rightarrow> bytes \<Rightarrow> nat \<Rightarrow> envelope res" where
  "decode_envelope codec data max_bytes =
     (if data = [] \<or> max_bytes < length data then Inl (size_error max_bytes)
      else bindE (read_document codec data) (\<lambda>document.
        case document of
          JObj d \<Rightarrow>
            if set (keys d) \<noteq> set ENVELOPE_FIELDS
            then Inl (IpcMessageError ''message envelope fields do not match the protocol'')
            else bindE (new_envelope (pget d ''protocol_version'') (pget d ''message_id'')
                   (pget d ''message_type'') (pget d ''payload'')) (\<lambda>e.
              if env_version e \<noteq> BROKER_PROTOCOL_VERSION
              then Inl (ProtocolVersionError (''broker protocol mismatch: expected '' @
                     dec_int BROKER_PROTOCOL_VERSION @ '', got '' @ dec_int (env_version e)))
              else Inr e)
        | _ \<Rightarrow> Inl (IpcMessageError ''message envelope must be an object'')))"

section \<open>The router\<close>

type_synonym handler = "payload \<Rightarrow> payload res"

definition register :: "pystr \<Rightarrow> pystr \<Rightarrow> handler \<Rightarrow> handler dict \<Rightarrow> handler dict res" where
  "register fresh message_type h handlers =
     (if message_type \<in> set (keys handlers)
      then Inl (ValueError (''message handler is already registered: '' @ message_type))
      else bindE (create fresh message_type [] None) (\<lambda>_. Inr (dput message_type h handlers)))"

definition router_dispatch :: "pystr \<Rightarrow> handler dict \<Rightarrow> envelope \<Rightarrow> envelope res" where
  "router_dispatch fresh handlers request =
     (case map_of handlers (env_message_type request) of
        None \<Rightarrow> create fresh ''error''
          [(''code'', JStr ''unknown_message_type''), (''message_type'', JStr (env_message_type request))]
          (Some (env_message_id request))
      | Some h \<Rightarrow>
          bindE (h (env_payload request)) (\<lambda>result.
          create fresh (env_message_type request @ ''.result'') result (Some (env_message_id request))))"

section \<open>Properties of envelopes\<close>

definition envelope_ok :: "envelope \<Rightarrow> bool" where
  "envelope_ok e = (MESSAGE_ID (env_message_id e) \<and> MESSAGE_TYPE (env_message_type e))"

text \<open>A value in which no object has a field twice.\<close>

fun plain_json :: "json \<Rightarrow> bool" where
  "plain_json (JList vs) = list_all plain_json vs"
| "plain_json (JObj ps) = (distinct (map fst ps) \<and> list_all (\<lambda>p. plain_json (snd p)) ps)"
| "plain_json v = True"

lemma reject_distinct:
  "distinct (keys (r @ ps)) \<Longrightarrow> reject_duplicate_keys r ps = Inr (r @ ps)"
proof (induction r ps rule: reject_duplicate_keys.induct)
  case (2 r k v ps)
  then have k: "k \<notin> set (keys r)" by (auto simp: keys_def)
  have "dput k v r = r @ [(k, v)]" using k by (induction r) (auto simp: keys_def)
  with 2 k show ?case by (simp add: keys_def)
qed simp

lemma reject_result:
  "reject_duplicate_keys r ps = Inr d \<Longrightarrow> distinct (keys r) \<Longrightarrow> distinct (keys d)"
  by (induction r ps rule: reject_duplicate_keys.induct) (auto simp: distinct_dput split: if_splits)

lemma checked_plain:
  "plain_json v \<Longrightarrow> checked_json v = Inr v"
  "list_all plain_json vs \<Longrightarrow> checked_list vs = Inr vs"
  "list_all (\<lambda>p. plain_json (snd p)) ps \<Longrightarrow> checked_pairs ps = Inr ps"
proof (induction v and vs and ps rule: checked_json_checked_list_checked_pairs.induct)
  case (2 ps)
  then show ?case using reject_distinct [of "[]" ps] by (simp add: keys_def)
qed auto

lemma match_text_Inr: "(match_text P v m = Inr s) = (v = JStr s \<and> P s)"
  by (cases v) (auto simp: match_text_def)

lemma new_envelope_ok:
  "new_envelope v i t p = Inr e \<Longrightarrow> envelope_ok e \<and> v = JInt (env_version e) \<and> i = JStr (env_message_id e) \<and>
     t = JStr (env_message_type e) \<and> p = JObj (env_payload e)"
  by (cases p; cases v) (auto simp: new_envelope_def match_text_Inr envelope_ok_def bindE_eq_Inr)

lemma new_envelope_of:
  "envelope_ok e \<Longrightarrow> new_envelope (JInt (env_version e)) (JStr (env_message_id e)) (JStr (env_message_type e))
     (JObj (env_payload e)) = Inr e"
  by (simp add: new_envelope_def match_text_def envelope_ok_def)

lemma create_ok:
  "create fresh t p i = Inr e \<Longrightarrow> envelope_ok e \<and> env_version e = BROKER_PROTOCOL_VERSION \<and>
     env_message_type e = t \<and> env_payload e = p \<and> (\<forall>m. i = Some m \<and> m \<noteq> [] \<longrightarrow> env_message_id e = m)"
  unfolding create_def by (drule new_envelope_ok) (auto split: option.splits list.splits)

lemma create_valid:
  "MESSAGE_TYPE t \<Longrightarrow> MESSAGE_ID (''msg_'' @ f) \<Longrightarrow> create f t p None =
     Inr \<lparr>env_version = BROKER_PROTOCOL_VERSION, env_message_id = ''msg_'' @ f, env_message_type = t, env_payload = p\<rparr>"
  "MESSAGE_TYPE t \<Longrightarrow> MESSAGE_ID (''msg_'' @ f) \<Longrightarrow> create g t p (Some (''msg_'' @ f)) =
     Inr \<lparr>env_version = BROKER_PROTOCOL_VERSION, env_message_id = ''msg_'' @ f, env_message_type = t, env_payload = p\<rparr>"
  by (simp_all add: create_def new_envelope_def match_text_def)

text \<open>What the codec has to do with one value: write it as UTF-8 text that reads back as the value.\<close>

definition codec_faithful :: "json_codec \<Rightarrow> json \<Rightarrow> bool" where
  "codec_faithful codec v =
     (case jc_dumps codec v of
        None \<Rightarrow> False
      | Some t \<Rightarrow> t \<noteq> [] \<and> utf8_error 0 t = None \<and> jc_loads codec t = Some v)"

lemma decode_encoded_envelope:
  assumes "envelope_ok e" and "env_version e = BROKER_PROTOCOL_VERSION" and "plain_json (JObj (env_payload e))"
    and "codec_faithful codec (envelope_document e)" and "encode_envelope codec e m = Inr data"
  shows "decode_envelope codec data m = Inr e"
proof -
  have t: "jc_dumps codec (envelope_document e) = Some data" "data \<noteq> []" "length data \<le> m"
    using assms(5) by (auto simp: encode_envelope_def bindE_eq_Inr split: if_splits)
  then have "utf8_error 0 data = None" "jc_loads codec data = Some (envelope_document e)"
    using assms(4) by (simp_all add: codec_faithful_def)
  moreover have "plain_json (envelope_document e)" using assms(3) by (simp add: envelope_document_def)
  ultimately have "read_document codec data = Inr (envelope_document e)"
    using checked_plain(1) by (simp add: read_document_def decode_strict_def)
  with t assms(1,2) show ?thesis
    using new_envelope_of [OF assms(1), unfolded assms(2)]
    by (simp add: decode_envelope_def envelope_document_def keys_def ENVELOPE_FIELDS_def pget_def insert_commute)
qed

text \<open>
  Messages survive the wire. An envelope of the current protocol whose payload has no field
  twice, once encoded, decodes to itself.
\<close>

theorem envelope_roundtrip:
  assumes "envelope_ok e" and "env_version e = BROKER_PROTOCOL_VERSION" and "plain_json (JObj (env_payload e))"
    and "codec_faithful codec (envelope_document e)" and "encode_envelope codec e m = Inr data"
  shows "decode_envelope codec data m = Inr e"
  using assms by (rule decode_encoded_envelope)

definition demo_envelope :: envelope where
  "demo_envelope = \<lparr>env_version = 3, env_message_id = ''msg_0001'', env_message_type = ''session.exec'',
     env_payload = [(''command'', JStr ''uptime'')]\<rparr>"

definition demo_codec :: json_codec where
  "demo_codec = \<lparr>jc_dumps = (\<lambda>v. Some ''{}''), jc_loads = (\<lambda>t. Some (envelope_document demo_envelope))\<rparr>"

theorem envelope_roundtrip_witness: "decode_envelope demo_codec ''{}'' 100 = Inr demo_envelope"
proof (rule envelope_roundtrip)
  show "envelope_ok demo_envelope" by code_simp
  show "codec_faithful demo_codec (envelope_document demo_envelope)"
    by (simp add: codec_faithful_def demo_codec_def utf8_error_ascii ascii_def)
  show "encode_envelope demo_codec demo_envelope 100 = Inr ''{}''"
    by (simp add: encode_envelope_def demo_codec_def)
qed (simp_all add: demo_envelope_def BROKER_PROTOCOL_VERSION_def)

lemma dput_list_all: "P (k, v) \<Longrightarrow> list_all P d \<Longrightarrow> list_all P (dput k v d)"
  by (induction d) auto

lemma reject_list_all:
  "reject_duplicate_keys r ps = Inr d \<Longrightarrow> list_all P r \<Longrightarrow> list_all P ps \<Longrightarrow> list_all P d"
  by (induction r ps rule: reject_duplicate_keys.induct) (auto simp: dput_list_all split: if_splits)

lemma checked_result:
  "checked_json v = Inr w \<Longrightarrow> plain_json w"
  "checked_list vs = Inr ws \<Longrightarrow> list_all plain_json ws"
  "checked_pairs ps = Inr qs \<Longrightarrow> list_all (\<lambda>p. plain_json (snd p)) qs"
proof (induction v and vs and ps arbitrary: w and ws and qs rule: checked_json_checked_list_checked_pairs.induct)
  case (2 ps)
  then obtain qs d where "checked_pairs ps = Inr qs" "reject_duplicate_keys [] qs = Inr d" "w = JObj d"
    by (auto simp: bindE_eq_Inr)
  with 2 reject_result [of "[]" qs d] reject_list_all [of "[]" qs d "\<lambda>p. plain_json (snd p)"]
  show ?case by (simp add: keys_def)
qed (auto simp: bindE_eq_Inr)

lemma read_document_plain: "read_document codec data = Inr v \<Longrightarrow> plain_json v"
  by (auto simp: read_document_def bindE_eq_Inr split: sum.splits dest: checked_result(1))

lemma decode_envelope_document:
  assumes "decode_envelope codec data m = Inr e"
  shows "data \<noteq> [] \<and> length data \<le> m \<and> env_version e = BROKER_PROTOCOL_VERSION \<and>
    (\<exists>d. read_document codec data = Inr (JObj d) \<and>
      new_envelope (pget d ''protocol_version'') (pget d ''message_id'') (pget d ''message_type'') (pget d ''payload'') = Inr e)"
proof -
  obtain v where v: "read_document codec data = Inr v"
    using assms by (auto simp: decode_envelope_def bindE_eq_Inr split: if_splits)
  with assms show ?thesis
    by (cases v) (auto simp: decode_envelope_def bindE_eq_Inr split: if_splits)
qed

text \<open>
  What is accepted from the wire is well formed. Whatever the bytes and the JSON codec, a
  decoded envelope has a valid id and type, the protocol version of this program, a payload in
  which no field occurs twice, and came from at most the permitted number of bytes.
\<close>

theorem decoded_envelope_ok:
  assumes "decode_envelope codec data m = Inr e"
  shows "envelope_ok e \<and> env_version e = BROKER_PROTOCOL_VERSION \<and> plain_json (JObj (env_payload e)) \<and>
    data \<noteq> [] \<and> length data \<le> m"
proof -
  note d = decode_envelope_document [OF assms]
  then obtain d where r: "read_document codec data = Inr (JObj d)"
    and n: "new_envelope (pget d ''protocol_version'') (pget d ''message_id'') (pget d ''message_type'') (pget d ''payload'') = Inr e"
    by blast
  have "plain_json (JObj d)" using r by (rule read_document_plain)
  moreover have "map_of d ''payload'' = Some (JObj (env_payload e))"
    using new_envelope_ok [OF n] by (simp add: pget_def split: option.splits)
  then have "(''payload'', JObj (env_payload e)) \<in> set d" by (rule map_of_SomeD)
  ultimately have "plain_json (JObj (env_payload e))" by (fastforce simp: list_all_iff)
  with d new_envelope_ok [OF n] show ?thesis by blast
qed

theorem decoded_envelope_ok_witness:
  "envelope_ok demo_envelope \<and> env_version demo_envelope = BROKER_PROTOCOL_VERSION"
proof -
  have "decode_envelope demo_codec ''{}'' 100 = Inr demo_envelope" by code_simp
  from decoded_envelope_ok [OF this] show ?thesis by simp
qed

text \<open>
  One malformed field escapes the protocol's own errors. A message whose \<^verbatim>\<open>message_id\<close> is not a
  text is not refused as an invalid message: the pattern match raises a \<^verbatim>\<open>TypeError\<close>, which is none of
  the IPC errors that the callers of \<^verbatim>\<open>receive\<close> catch.
\<close>

theorem untyped_message_id_escapes:
  assumes "data \<noteq> []" and "length data \<le> m" and "read_document codec data = Inr (JObj d)"
    and "set (keys d) = set ENVELOPE_FIELDS" and "pget d ''protocol_version'' = JInt v"
    and "pget d ''message_id'' = JInt n"
  shows "\<exists>msg. decode_envelope codec data m = Inl (TypeError msg) \<and> \<not> is_ipc_error (TypeError msg)"
  using assms by (simp add: decode_envelope_def new_envelope_def match_text_def is_ipc_error_def)

definition demo_untyped :: payload where
  "demo_untyped = [(''protocol_version'', JInt 3), (''message_id'', JInt 7), (''message_type'', JStr ''hello''),
     (''payload'', JObj [])]"

theorem untyped_message_id_escapes_witness:
  "\<exists>msg. decode_envelope (demo_codec\<lparr>jc_loads := (\<lambda>_. Some (JObj demo_untyped))\<rparr>) ''{}'' 10 = Inl (TypeError msg)
    \<and> \<not> is_ipc_error (TypeError msg)"
proof (rule untyped_message_id_escapes)
  show "read_document (demo_codec\<lparr>jc_loads := (\<lambda>_. Some (JObj demo_untyped))\<rparr>) ''{}'' = Inr (JObj demo_untyped)"
    by code_simp
  show "set (keys demo_untyped) = set ENVELOPE_FIELDS" by code_simp
qed (simp_all add: demo_untyped_def pget_def)

end
