(* ===== verification/Ipc_Connection.thy ===== *)
theory Ipc_Connection
  imports Ipc_Messages "HOL-Library.Word"
begin

text \<open>
  \<^verbatim>\<open>ipc/connection.py\<close>: length-prefixed messages over a named pipe. The pipe is the sequence of what
  successive system calls on it see: bytes that have arrived (with the clock when they are read), an
  empty pipe (with the clock of the time-out test), or an error number. A call that would block
  beyond the end of the sequence has the value \<open>None\<close>. Writing consumes a sequence of results of
  \<^verbatim>\<open>WriteFile\<close>. The length prefix is a 32-bit word in network order. Not modelled: a close by
  another thread while a read waits, and the erasing of the frame after a secret was sent.
\<close>

section \<open>The length prefix\<close>

definition pack_u32 :: "32 word \<Rightarrow> bytes" where
  "pack_u32 w = map (\<lambda>k. char_of (unat (drop_bit k w) mod 256)) [24, 16, 8, 0]"

definition unpack_u32 :: "bytes \<Rightarrow> 32 word" where
  "unpack_u32 bs = foldl (\<lambda>w c. 256 * w + word_of_nat (ord c)) 0 bs"

lemma bytes_of_number:
  "(((n div 16777216 mod 256) * 256 + n div 65536 mod 256) * 256 + n div 256 mod 256) * 256 + n mod 256 = (n::nat)"
  if "n < 4294967296"
proof -
  have "n div 65536 = n div 256 div 256" "n div 16777216 = n div 256 div 256 div 256"
    by (simp_all add: div_mult2_eq [symmetric])
  moreover have "n div 16777216 < 256" using that by (simp add: less_mult_imp_div_less)
  ultimately show ?thesis by (metis div_mult_mod_eq mod_less)
qed

lemma unpack_pack [simp]: "unpack_u32 (pack_u32 w) = w"
proof -
  define n where "n = unat w"
  have n: "n < 4294967296" using unsigned_less [of w] unfolding n_def by simp
  have d: "unat (drop_bit k w) = n div 2 ^ k" for k
    by (simp only: n_def unat_drop_bit_eq) (simp add: drop_bit_eq_div)
  have "unpack_u32 (pack_u32 w) =
      word_of_nat ((((n div 16777216 mod 256) * 256 + n div 65536 mod 256) * 256 + n div 256 mod 256) * 256 + n mod 256)"
    unfolding unpack_u32_def pack_u32_def by (simp add: d algebra_simps)
  also have "\<dots> = word_of_nat n" using bytes_of_number [OF n] by (rule arg_cong)
  also have "\<dots> = w" by (simp add: n_def)
  finally show ?thesis .
qed

lemma length_pack [simp]: "length (pack_u32 w) = 4"
  by (simp add: pack_u32_def)

section \<open>The connection\<close>

datatype pipe_event = Avail rat bytes | Empty rat | Broken nat

datatype write_result = Wrote nat | WriteFailed nat

record pipe_connection =
  pc_closed :: bool
  pc_in :: "pipe_event list"

definition BROKEN_PIPE_ERRORS :: "nat list" where
  "BROKEN_PIPE_ERRORS = [109, 232, 233]"

definition pipe_error :: "nat \<Rightarrow> exn" where
  "pipe_error winerror =
     (if winerror \<in> set BROKEN_PIPE_ERRORS then IpcClosed ''named-pipe peer closed the connection''
      else OSError (dec_nat winerror))"

definition pipe_close :: "pipe_connection \<Rightarrow> pipe_connection" where
  "pipe_close c = c\<lparr>pc_closed := True\<rparr>"

text \<open>\<^verbatim>\<open>ReadFile\<close>: waits for the next bytes and takes at most \<open>n\<close> of them.\<close>

fun read_file :: "nat \<Rightarrow> pipe_event list \<Rightarrow> ((rat \<times> bytes) res \<times> pipe_event list) option" where
  "read_file n [] = None"
| "read_file n (Empty now # es) = read_file n es"
| "read_file n (Broken code # es) = Some (Inl (pipe_error code), es)"
| "read_file n (Avail now b # es) =
     Some (Inr (now, take n b), if length b \<le> n then es else Avail now (drop n b) # es)"

fun wait_for_available_bytes :: "rat \<Rightarrow> pipe_event list \<Rightarrow> (nat res \<times> pipe_event list) option" where
  "wait_for_available_bytes deadline [] = None"
| "wait_for_available_bytes deadline (Broken code # es) = Some (Inl (pipe_error code), es)"
| "wait_for_available_bytes deadline (Empty now # es) =
     (if deadline - now \<le> 0 then Some (Inl (IpcTimeout ''timed out waiting for a named-pipe message''), es)
      else wait_for_available_bytes deadline es)"
| "wait_for_available_bytes deadline (Avail now b # es) =
     (if 0 < length b then Some (Inr (length b), Avail now b # es)
      else if deadline - now \<le> 0 then Some (Inl (IpcTimeout ''timed out waiting for a named-pipe message''), es)
      else wait_for_available_bytes deadline es)"

text \<open>One pass of the loop of \<^verbatim>\<open>_read_exact\<close>: the next chunk and the clock after it.\<close>

definition read_chunk :: "nat \<Rightarrow> rat option \<Rightarrow> pipe_event list \<Rightarrow> ((rat \<times> bytes) res \<times> pipe_event list) option" where
  "read_chunk read_size deadline es =
     (case (case deadline of
              None \<Rightarrow> Some (Inr read_size, es)
            | Some d \<Rightarrow> (case wait_for_available_bytes d es of
                None \<Rightarrow> None
              | Some (Inl e, es') \<Rightarrow> Some (Inl e, es')
              | Some (Inr available, es') \<Rightarrow> Some (Inr (min read_size available), es'))) of
        None \<Rightarrow> None
      | Some (Inl e, es') \<Rightarrow> Some (Inl e, es')
      | Some (Inr n, es') \<Rightarrow>
          (case read_file n es' of
             None \<Rightarrow> None
           | Some (Inl e, es'') \<Rightarrow> Some (Inl e, es'')
           | Some (Inr (now, chunk), es'') \<Rightarrow>
               Some (Inr (now, chunk), es'')))"

function read_loop ::
  "nat \<Rightarrow> bytes \<Rightarrow> rat option \<Rightarrow> rat option \<Rightarrow> pipe_event list \<Rightarrow>
   ((bytes \<times> rat option) res \<times> pipe_event list) option" where
  "read_loop wanted chunks deadline frame_timeout es =
     (if wanted \<le> length chunks then Some (Inr (chunks, deadline), es)
      else (case read_chunk (wanted - length chunks) deadline es of
          None \<Rightarrow> None
        | Some (Inl e, es') \<Rightarrow> Some (Inl e, es')
        | Some (Inr (now, chunk), es') \<Rightarrow>
            if chunk = [] then Some (Inl (IpcClosed ''named-pipe peer returned end of stream''), es')
            else read_loop wanted (chunks @ chunk)
              (case (deadline, frame_timeout) of (None, Some t) \<Rightarrow> Some (now + max 0 t) | _ \<Rightarrow> deadline)
              frame_timeout es'))"
  by pat_completeness auto
termination
  by (relation "measure (\<lambda>(wanted, chunks, _). wanted - length chunks)") (auto simp: diff_less_mono2)

declare read_loop.simps [simp del]

definition read_exact ::
  "nat \<Rightarrow> rat option \<Rightarrow> rat option \<Rightarrow> pipe_connection \<Rightarrow>
   ((bytes \<times> rat option) res \<times> pipe_connection) option" where
  "read_exact wanted deadline frame_timeout c =
     (if pc_closed c then Some (Inl (IpcClosed ''named-pipe connection is closed''), c)
      else map_option (\<lambda>(x, es). (x, c\<lparr>pc_in := es\<rparr>)) (read_loop wanted [] deadline frame_timeout (pc_in c)))"

definition receive_bytes ::
  "nat \<Rightarrow> rat \<Rightarrow> rat option \<Rightarrow> rat option \<Rightarrow> pipe_connection \<Rightarrow> (bytes res \<times> pipe_connection) option" where
  "receive_bytes max_bytes now timeout frame_timeout c =
     (case read_exact 4 (map_option (\<lambda>t. now + max 0 t) timeout) frame_timeout c of
        None \<Rightarrow> None
      | Some (Inl e, c') \<Rightarrow> Some (Inl e, pipe_close c')
      | Some (Inr (prefix, deadline), c') \<Rightarrow>
          let n = unat (unpack_u32 prefix) in
          if n < 1 \<or> max_bytes < n
          then Some (Inl (IpcMessageError (''declared message length exceeds the '' @ dec_nat max_bytes @ ''-byte limit'')),
                 pipe_close c')
          else (case read_exact n deadline None c' of
              None \<Rightarrow> None
            | Some (Inl e, c'') \<Rightarrow> Some (Inl e, pipe_close c'')
            | Some (Inr (payload, _), c'') \<Rightarrow> Some (Inr payload, c'')))"

definition receive ::
  "json_codec \<Rightarrow> nat \<Rightarrow> rat \<Rightarrow> rat option \<Rightarrow> rat option \<Rightarrow> pipe_connection \<Rightarrow> (envelope res \<times> pipe_connection) option" where
  "receive codec max_bytes now timeout frame_timeout c =
     (case receive_bytes max_bytes now timeout frame_timeout c of
        None \<Rightarrow> None
      | Some (Inl e, c') \<Rightarrow> Some (Inl e, pipe_close c')
      | Some (Inr data, c') \<Rightarrow>
          (case decode_envelope codec data max_bytes of
             Inl e \<Rightarrow> Some (Inl e, pipe_close c')
           | Inr env \<Rightarrow> Some (Inr env, c')))"

text \<open>Writing: the bytes that reached the pipe, with the result.\<close>

fun write_loop :: "write_result list \<Rightarrow> bytes \<Rightarrow> (bytes \<times> unit res) option" where
  "write_loop rs [] = Some ([], Inr ())"
| "write_loop [] data = None"
| "write_loop (WriteFailed code # rs) data = Some ([], Inl (pipe_error code))"
| "write_loop (Wrote n # rs) data =
     (if n < 1 then Some ([], Inl (IpcClosed ''named-pipe write made no progress''))
      else map_option (\<lambda>(out, x). (take n data @ out, x)) (write_loop rs (drop n data)))"

definition write_all :: "write_result list \<Rightarrow> bytes \<Rightarrow> pipe_connection \<Rightarrow> (bytes \<times> unit res) option" where
  "write_all rs data c =
     (if pc_closed c then Some ([], Inl (IpcClosed ''named-pipe connection is closed'')) else write_loop rs data)"

definition send_bytes :: "nat \<Rightarrow> write_result list \<Rightarrow> bytes \<Rightarrow> pipe_connection \<Rightarrow> (bytes \<times> unit res) option" where
  "send_bytes max_bytes rs payload c =
     (if payload = [] \<or> max_bytes < length payload then Some ([], Inl (size_error max_bytes))
      else write_all rs (pack_u32 (word_of_nat (length payload)) @ payload) c)"

definition send :: "json_codec \<Rightarrow> nat \<Rightarrow> write_result list \<Rightarrow> envelope \<Rightarrow> pipe_connection \<Rightarrow> (bytes \<times> unit res) option" where
  "send codec max_bytes rs e c =
     (case encode_envelope codec e max_bytes of
        Inl x \<Rightarrow> Some ([], Inl x)
      | Inr payload \<Rightarrow> send_bytes max_bytes rs payload c)"

section \<open>Messages keep their boundaries\<close>

text \<open>A pipe in which everything up to some point has arrived, in pieces of any size.\<close>

fun arrived :: "pipe_event list \<Rightarrow> bool" where
  "arrived [] = True"
| "arrived (Avail now b # es) = (b \<noteq> [] \<and> arrived es)"
| "arrived (_ # es) = False"

fun stream :: "pipe_event list \<Rightarrow> bytes" where
  "stream [] = []"
| "stream (Avail now b # es) = b @ stream es"
| "stream (_ # es) = stream es"

lemma read_chunk_arrived:
  assumes "arrived es" and "stream es \<noteq> []" and "0 < n"
  shows "\<exists>now chunk es'. read_chunk n deadline es = Some (Inr (now, chunk), es') \<and> chunk \<noteq> [] \<and>
    length chunk \<le> n \<and> arrived es' \<and> stream es = chunk @ stream es'"
proof -
  obtain now b rest where es: "es = Avail now b # rest" "b \<noteq> []" "arrived rest"
    using assms(1,2) by (cases es rule: arrived.cases) auto
  define k where "k = (case deadline of None \<Rightarrow> n | Some _ \<Rightarrow> min n (length b))"
  have k: "0 < k" "k \<le> n" using assms(3) es(2) by (auto simp: k_def split: option.split)
  have "read_chunk n deadline es =
      Some (Inr (now, take k b), if length b \<le> k then rest else Avail now (drop k b) # rest)"
    using es by (cases deadline) (auto simp: read_chunk_def k_def)
  moreover have "stream es = take k b @ stream (if length b \<le> k then rest else Avail now (drop k b) # rest)"
    using es by simp
  ultimately show ?thesis using es k by auto
qed

lemma read_loop_arrived:
  assumes "arrived es" and "wanted - length chunks \<le> length (stream es)"
  shows "\<exists>deadline' es'. read_loop wanted chunks deadline ft es =
      Some (Inr (chunks @ take (wanted - length chunks) (stream es), deadline'), es') \<and>
    arrived es' \<and> stream es' = drop (wanted - length chunks) (stream es)"
  using assms
proof (induction wanted chunks deadline ft es rule: read_loop.induct)
  case (1 wanted chunks deadline ft es)
  show ?case
  proof (cases "wanted \<le> length chunks")
    case True
    then show ?thesis using "1.prems" by (subst read_loop.simps) auto
  next
    case False
    then obtain now chunk es' where c: "read_chunk (wanted - length chunks) deadline es = Some (Inr (now, chunk), es')"
      and k: "chunk \<noteq> []" "length chunk \<le> wanted - length chunks" "arrived es'" "stream es = chunk @ stream es'"
      using read_chunk_arrived [of es "wanted - length chunks" deadline] "1.prems" by fastforce
    define dl where "dl = (case deadline of
        None \<Rightarrow> (case ft of None \<Rightarrow> deadline | Some t \<Rightarrow> Some (now + max 0 t)) | Some _ \<Rightarrow> deadline)"
    have step: "read_loop wanted chunks deadline ft es = read_loop wanted (chunks @ chunk) dl ft es'"
      using False c k(1) by (subst read_loop.simps) (simp add: dl_def)
    have "wanted - length (chunks @ chunk) \<le> length (stream es')" using "1.prems"(2) k by simp
    from "1.IH" [OF False c refl refl refl k(1) k(3), folded dl_def] this
    obtain d' es'' where "read_loop wanted (chunks @ chunk) dl ft es' =
        Some (Inr ((chunks @ chunk) @ take (wanted - length (chunks @ chunk)) (stream es'), d'), es'')"
      "arrived es''" "stream es'' = drop (wanted - length (chunks @ chunk)) (stream es')"
      by blast
    with step k show ?thesis by simp
  qed
qed

lemma read_exact_arrived:
  assumes "\<not> pc_closed c" and "arrived (pc_in c)" and "stream (pc_in c) = d @ rest" and "length d = n"
  shows "\<exists>deadline' es. read_exact n deadline ft c = Some (Inr (d, deadline'), c\<lparr>pc_in := es\<rparr>) \<and>
    arrived es \<and> stream es = rest"
  using read_loop_arrived [OF assms(2), of n "[]" deadline ft] assms(1,3,4)
  by (auto simp: read_exact_def)

lemma write_loop_ok: "write_loop rs data = Some (out, Inr ()) \<Longrightarrow> out = data"
proof (induction rs data arbitrary: out rule: write_loop.induct)
  case (4 n rs v va)
  then show ?case by (auto split: if_splits)
qed auto

lemma receive_arrived:
  assumes "\<not> pc_closed c" and "arrived (pc_in c)"
    and "stream (pc_in c) = pack_u32 (word_of_nat (length data)) @ data @ rest"
    and "data \<noteq> []" and "length data \<le> m" and "m < 2 ^ 32"
  shows "\<exists>es. receive_bytes m now timeout ft c = Some (Inr data, c\<lparr>pc_in := es\<rparr>) \<and> arrived es \<and> stream es = rest"
proof -
  obtain dl es where r: "read_exact 4 (map_option (\<lambda>t. now + max 0 t) timeout) ft c =
      Some (Inr (pack_u32 (word_of_nat (length data)), dl), c\<lparr>pc_in := es\<rparr>)"
    and es: "arrived es" "stream es = data @ rest"
    using read_exact_arrived [OF assms(1,2,3), of 4] by fastforce
  have n: "unat (word_of_nat (length data) :: 32 word) = length data"
    using assms(5,6) by (simp add: unsigned_of_nat take_bit_nat_eq_self)
  obtain dl' es' where "read_exact (length data) dl None (c\<lparr>pc_in := es\<rparr>) = Some (Inr (data, dl'), c\<lparr>pc_in := es'\<rparr>)"
    and "arrived es'" "stream es' = rest"
    using read_exact_arrived [of "c\<lparr>pc_in := es\<rparr>" data rest "length data" dl None] assms(1) es by fastforce
  with r n assms(4,5) show ?thesis by (auto simp: receive_bytes_def Let_def not_less_eq_eq Suc_le_eq)
qed

text \<open>
  Messages keep their boundaries. Whatever the sizes of the pieces in which the system accepts
  the written bytes and delivers them to the reader, a message whose sending succeeded is received
  as exactly the payload that was sent, and everything written after it is left in the pipe for the
  next receive.
\<close>

theorem pipe_message_exact:
  assumes "send_bytes m rs data sender = Some (out, Inr ())" and "m < 2 ^ 32"
    and "\<not> pc_closed c" and "arrived (pc_in c)" and "stream (pc_in c) = out @ rest"
  shows "\<exists>es. receive_bytes m now timeout ft c = Some (Inr data, c\<lparr>pc_in := es\<rparr>) \<and> arrived es \<and> stream es = rest"
proof (rule receive_arrived)
  have "out = pack_u32 (word_of_nat (length data)) @ data"
    using assms(1) by (auto simp: send_bytes_def write_all_def split: if_splits dest: write_loop_ok)
  with assms(5) show "stream (pc_in c) = pack_u32 (word_of_nat (length data)) @ data @ rest" by simp
  show "data \<noteq> []" "length data \<le> m" using assms(1) by (auto simp: send_bytes_def split: if_splits)
qed (use assms in auto)

definition demo_pipe :: "bytes list \<Rightarrow> pipe_connection" where
  "demo_pipe bs = \<lparr>pc_closed = False, pc_in = map (Avail 0) bs\<rparr>"

theorem pipe_message_exact_witness:
  "\<exists>es. receive_bytes 100 0 (Some 5) None (demo_pipe [[NUL, NUL], [NUL, CHR 0x02, CHR ''o''], ''k??'']) =
     Some (Inr ''ok'', (demo_pipe [[NUL, NUL], [NUL, CHR 0x02, CHR ''o''], ''k??''])\<lparr>pc_in := es\<rparr>) \<and>
     arrived es \<and> stream es = ''??''"
proof (rule pipe_message_exact)
  show "send_bytes 100 [Wrote 3, Wrote 9] ''ok'' (demo_pipe []) =
      Some ([NUL, NUL, NUL, CHR 0x02, CHR ''o'', CHR ''k''], Inr ())" by code_simp
qed (simp_all add: demo_pipe_def)

section \<open>Bounds and time-outs\<close>

lemma read_file_length: "read_file n es = Some (Inr (now, b), es') \<Longrightarrow> length b \<le> n"
  by (induction n es rule: read_file.induct) auto

lemma read_chunk_length: "read_chunk n dl es = Some (Inr (now, b), es') \<Longrightarrow> length b \<le> n"
  by (auto simp: read_chunk_def dest!: read_file_length split: option.splits sum.splits)

lemma read_loop_length:
  "read_loop wanted chunks dl ft es = Some (Inr (d, dl'), es') \<Longrightarrow> length chunks \<le> wanted \<Longrightarrow> length d = wanted"
proof (induction wanted chunks dl ft es rule: read_loop.induct)
  case (1 wanted chunks dl ft es)
  show ?case
  proof (cases "wanted \<le> length chunks")
    case True
    with "1.prems" show ?thesis by (subst (asm) read_loop.simps) auto
  next
    case False
    with "1.prems"(1) obtain now b es'' where c: "read_chunk (wanted - length chunks) dl es = Some (Inr (now, b), es'')"
      and b: "b \<noteq> []"
      by (subst (asm) read_loop.simps) (auto split: option.splits sum.splits prod.splits if_splits)
    have "length (chunks @ b) \<le> wanted" using read_chunk_length [OF c] False by simp
    moreover have "read_loop wanted (chunks @ b) (case dl of None \<Rightarrow> (case ft of None \<Rightarrow> dl | Some t \<Rightarrow> Some (now + max 0 t)) | Some _ \<Rightarrow> dl) ft es''
        = Some (Inr (d, dl'), es')"
      using "1.prems"(1) False c b by (subst (asm) read_loop.simps) (cases dl; cases ft; simp)
    ultimately show ?thesis using "1.IH" [OF False c refl refl refl b] by blast
  qed
qed

lemma read_exact_result:
  "read_exact n dl ft c = Some (Inr (d, dl'), c') \<Longrightarrow> length d = n \<and> \<not> pc_closed c \<and> pc_closed c' = pc_closed c"
  by (auto simp: read_exact_def dest: read_loop_length split: if_splits)

text \<open>
  Received messages are bounded and errors are final. A received payload is never empty and
  never longer than the limit; whatever ends a receive with an error leaves the connection closed,
  so no later call can read from the middle of a message; and when the declared length is out of
  bounds nothing after the four prefix bytes has been read.
\<close>

theorem receive_bounded:
  assumes "receive_bytes m now timeout ft c = Some (x, c')"
  shows "(\<forall>data. x = Inr data \<longrightarrow> 1 \<le> length data \<and> length data \<le> m \<and> \<not> pc_closed c') \<and>
    (\<forall>e. x = Inl e \<longrightarrow> pc_closed c') \<and>
    (\<forall>w rest. \<not> pc_closed c \<and> arrived (pc_in c) \<and> stream (pc_in c) = pack_u32 w @ rest \<and>
       (unat w < 1 \<or> m < unat w) \<longrightarrow> (\<exists>e. x = Inl (IpcMessageError e)) \<and> stream (pc_in c') = rest)"
proof -
  have "(\<exists>e. x = Inl (IpcMessageError e)) \<and> stream (pc_in c') = rest"
    if h: "\<not> pc_closed c" "arrived (pc_in c)" "stream (pc_in c) = pack_u32 w @ rest" "unat w < 1 \<or> m < unat w" for w rest
  proof -
    obtain dl es where "read_exact 4 (map_option (\<lambda>t. now + max 0 t) timeout) ft c =
        Some (Inr (pack_u32 w, dl), c\<lparr>pc_in := es\<rparr>)" "stream es = rest"
      using read_exact_arrived [OF h(1-3), of 4] by fastforce
    with assms h(4) show ?thesis by (auto simp: receive_bytes_def Let_def pipe_close_def)
  qed
  moreover have "1 \<le> length data \<and> length data \<le> m \<and> \<not> pc_closed c'" if "x = Inr data" for data
    using assms that
    by (auto simp: receive_bytes_def Let_def dest!: read_exact_result split: option.splits sum.splits prod.splits if_splits)
  moreover have "pc_closed c'" if "x = Inl e" for e
    using assms that
    by (auto simp: receive_bytes_def Let_def pipe_close_def split: option.splits sum.splits prod.splits if_splits)
  ultimately show ?thesis by blast
qed

theorem receive_bounded_witness:
  "\<exists>e c'. receive_bytes 1 0 None None (demo_pipe [[NUL, NUL, NUL, CHR 0x02], ''ok'']) = Some (Inl (IpcMessageError e), c') \<and>
    stream (pc_in c') = ''ok''"
proof -
  let ?c = "demo_pipe [[NUL, NUL, NUL, CHR 0x02], ''ok'']"
  have r: "receive_bytes 1 0 None None ?c \<noteq> None" by code_simp
  then obtain x c' where x: "receive_bytes 1 0 None None ?c = Some (x, c')" by auto
  have "pack_u32 2 = [NUL, NUL, NUL, CHR 0x02]" by code_simp
  then have "stream (pc_in ?c) = pack_u32 2 @ ''ok''" by (simp add: demo_pipe_def)
  with receive_bounded [OF x] x show ?thesis by (force simp: demo_pipe_def)
qed

text \<open>The clock is seen at or past the deadline while the pipe is empty.\<close>

definition expires :: "rat \<Rightarrow> pipe_event list \<Rightarrow> bool" where
  "expires d es = (\<exists>now \<ge> d. Empty now \<in> set es)"

lemma wait_expires:
  "expires d es \<Longrightarrow> \<exists>x es'. wait_for_available_bytes d es = Some (x, es') \<and>
     (\<forall>n. x = Inr n \<longrightarrow> expires d es' \<and> (\<exists>now b rest. es' = Avail now b # rest \<and> b \<noteq> []))"
proof (induction d es rule: wait_for_available_bytes.induct)
  case (3 d now es)
  then show ?case by (cases "d \<le> now") (auto simp: expires_def)
next
  case (4 d now b es)
  then show ?case by (cases "b = []"; cases "d \<le> now") (auto simp: expires_def)
qed (auto simp: expires_def)

lemma read_chunk_expires:
  assumes "expires d es"
  shows "\<exists>x es'. read_chunk n (Some d) es = Some (x, es') \<and> (\<forall>r. x = Inr r \<longrightarrow> expires d es')"
proof -
  obtain x es' where w: "wait_for_available_bytes d es = Some (x, es')"
    and r: "\<forall>n. x = Inr n \<longrightarrow> expires d es' \<and> (\<exists>now b rest. es' = Avail now b # rest \<and> b \<noteq> [])"
    using wait_expires [OF assms] by (elim exE conjE) (rule that)
  show ?thesis
  proof (cases x)
    case (Inl e)
    with w show ?thesis by (simp add: read_chunk_def)
  next
    case (Inr k)
    then obtain now b rest where "es' = Avail now b # rest" "expires d es'" using r by blast
    with w Inr show ?thesis by (auto simp: read_chunk_def expires_def)
  qed
qed

lemma read_loop_expires:
  "expires d es \<Longrightarrow> \<exists>x es'. read_loop wanted chunks (Some d) ft es = Some (x, es') \<and>
     (\<forall>r dl. x = Inr (r, dl) \<longrightarrow> dl = Some d \<and> expires d es')"
proof (induction wanted chunks "Some d" ft es rule: read_loop.induct)
  case (1 wanted chunks ft es)
  show ?case
  proof (cases "wanted \<le> length chunks")
    case True
    with "1.prems" show ?thesis by (subst read_loop.simps) auto
  next
    case False
    obtain x es' where c: "read_chunk (wanted - length chunks) (Some d) es = Some (x, es')"
      and e: "\<And>r. x = Inr r \<Longrightarrow> expires d es'"
      using read_chunk_expires [OF "1.prems"] by blast
    show ?thesis
    proof (cases "\<exists>now b. x = Inr (now, b) \<and> b \<noteq> []")
      case True
      then obtain now b where x: "x = Inr (now, b)" "b \<noteq> []" by blast
      have "read_loop wanted chunks (Some d) ft es = read_loop wanted (chunks @ b) (Some d) ft es'"
        using False c x by (subst read_loop.simps) simp
      then show ?thesis using "1.hyps" [OF False c refl x(1) refl x(2)] e x(1) by simp
    next
      case bad: False
      then show ?thesis using False c by (subst read_loop.simps) (cases x; auto)
    qed
  qed
qed

lemma read_exact_expires:
  assumes "expires d (pc_in c)"
  shows "\<exists>x c'. read_exact n (Some d) ft c = Some (x, c') \<and>
    (\<forall>r dl. x = Inr (r, dl) \<longrightarrow> dl = Some d \<and> expires d (pc_in c'))"
  using read_loop_expires [OF assms, of n "[]" ft] by (auto simp: read_exact_def)

text \<open>
  A receive with a time-out ends. When the clock is seen past the deadline on an empty pipe at
  some point, the receive returns (a message or an error), whatever else happens before: it never
  waits for the rest of a message that does not come.
\<close>

theorem receive_times_out:
  assumes "expires (now + max 0 t) (pc_in c)"
  shows "\<exists>x c'. receive_bytes m now (Some t) ft c = Some (x, c')"
proof -
  obtain x c' where p: "read_exact 4 (Some (now + max 0 t)) ft c = Some (x, c')"
    and e: "\<And>r dl. x = Inr (r, dl) \<Longrightarrow> dl = Some (now + max 0 t) \<and> expires (now + max 0 t) (pc_in c')"
    using read_exact_expires [OF assms] by blast
  show ?thesis
  proof (cases x)
    case (Inl e)
    with p show ?thesis by (simp add: receive_bytes_def)
  next
    case (Inr rd)
    obtain r dl where "rd = (r, dl)" by (cases rd)
    with Inr e have x: "x = Inr (r, Some (now + max 0 t))" and ex: "expires (now + max 0 t) (pc_in c')" by auto
    obtain y c'' where "read_exact (unat (unpack_u32 r)) (Some (now + max 0 t)) None c' = Some (y, c'')"
      using read_exact_expires [OF ex] by blast
    with p x show ?thesis by (auto simp: receive_bytes_def Let_def split: sum.split)
  qed
qed

theorem receive_times_out_witness:
  "\<exists>x c'. receive_bytes 100 0 (Some 5) None
     \<lparr>pc_closed = False, pc_in = [Avail 1 [NUL, NUL], Empty 2, Empty 6]\<rparr> = Some (x, c')"
  by (rule receive_times_out) (auto simp: expires_def intro: exI [of _ 6])

end
