(* ===== verification/Ipc_Handshake.thy ===== *)
theory Ipc_Handshake
  imports Ipc_Messages
begin

text \<open>
  \<^verbatim>\<open>ipc/handshake.py\<close>: the mutual challenge-response that opens every connection. The keyed hash
  (\<^verbatim>\<open>hmac.digest(...).hex()\<close>) is an argument \<open>mac\<close> of key and message; random nonces and message ids
  are arguments. Each side is one function: what it receives is given by the peer (a result, since
  a receive may raise), what it sends is collected, and the value says how it ended.
\<close>

definition IPC_ROLES :: "pystr list" where
  "IPC_ROLES = [''mcp'', ''broker'', ''auth'', ''askpass'']"

definition hex64 :: "pystr \<Rightarrow> bool" where
  "hex64 s = (length s = 64 \<and> list_all is_hex s)"

definition proof_message :: "pystr \<Rightarrow> pystr \<Rightarrow> pystr \<Rightarrow> pystr \<Rightarrow> pystr" where
  "proof_message label role client_nonce server_nonce =
     join [NUL] [label, dec_int BROKER_PROTOCOL_VERSION, role, client_nonce, server_nonce]"

definition ipc_proof :: "(bytes \<Rightarrow> bytes \<Rightarrow> pystr) \<Rightarrow> pystr \<Rightarrow> pystr \<Rightarrow> pystr \<Rightarrow> pystr \<Rightarrow> pystr \<Rightarrow> pystr" where
  "ipc_proof mac instance_token label role client_nonce server_nonce =
     mac instance_token (proof_message label role client_nonce server_nonce)"

definition text_field :: "payload \<Rightarrow> pystr \<Rightarrow> (pystr \<Rightarrow> bool) \<Rightarrow> pystr res" where
  "text_field pl name pattern =
     (case pget pl name of
        JStr s \<Rightarrow> if pattern s then Inr s
                  else Inl (IpcAuthenticationError (''broker handshake '' @ name @ '' is invalid''))
      | _ \<Rightarrow> Inl (IpcAuthenticationError (''broker handshake '' @ name @ '' is invalid'')))"

section \<open>The client\<close>

definition check_challenge_response ::
  "(bytes \<Rightarrow> bytes \<Rightarrow> pystr) \<Rightarrow> pystr \<Rightarrow> pystr \<Rightarrow> pystr \<Rightarrow> envelope \<Rightarrow> envelope \<Rightarrow> pystr res" where
  "check_challenge_response mac instance_token role client_nonce challenge response =
     (if env_message_id response \<noteq> env_message_id challenge \<or> env_message_type response \<noteq> ''hello.challenge.ack'' \<or>
         set (keys (env_payload response)) \<noteq> {''protocol_version'', ''server_nonce'', ''server_proof''} \<or>
         \<not> equals_int (pget (env_payload response) ''protocol_version'') BROKER_PROTOCOL_VERSION
      then Inl (IpcAuthenticationError ''broker handshake challenge response is invalid'')
      else bindE (text_field (env_payload response) ''server_nonce'' hex64) (\<lambda>server_nonce.
        bindE (text_field (env_payload response) ''server_proof'' hex64) (\<lambda>server_proof.
        if server_proof \<noteq> ipc_proof mac instance_token ''server'' role client_nonce server_nonce
        then Inl (IpcAuthenticationError ''broker server proof was rejected'')
        else Inr server_nonce)))"

definition check_acknowledgement :: "envelope \<Rightarrow> envelope \<Rightarrow> unit res" where
  "check_acknowledgement hello ack =
     guardE (\<not> (env_message_id ack \<noteq> env_message_id hello \<or> env_message_type ack \<noteq> ''hello.ack'' \<or>
         \<not> (set (keys (env_payload ack)) = {''protocol_version''} \<and>
            equals_int (pget (env_payload ack) ''protocol_version'') BROKER_PROTOCOL_VERSION)))
       (IpcMessageError ''broker handshake acknowledgement is invalid'')"

definition client_hello :: "(bytes \<Rightarrow> bytes \<Rightarrow> pystr) \<Rightarrow> pystr \<Rightarrow> pystr \<Rightarrow> pystr \<Rightarrow> pystr \<Rightarrow> pystr \<Rightarrow> envelope res" where
  "client_hello mac instance_token role client_nonce server_nonce fresh =
     create fresh ''hello''
       [(''role'', JStr role), (''client_nonce'', JStr client_nonce), (''server_nonce'', JStr server_nonce),
        (''client_proof'', JStr (ipc_proof mac instance_token ''client'' role client_nonce server_nonce))] None"

definition client_handshake ::
  "(bytes \<Rightarrow> bytes \<Rightarrow> pystr) \<Rightarrow> pystr \<Rightarrow> pystr \<Rightarrow> pystr \<Rightarrow> pystr \<Rightarrow> pystr \<Rightarrow>
   (envelope \<Rightarrow> envelope res) \<Rightarrow> (envelope \<Rightarrow> envelope res) \<Rightarrow> envelope list \<times> unit res" where
  "client_handshake mac instance_token role client_nonce fresh1 fresh2 reply1 reply2 =
     (if role \<notin> set IPC_ROLES then ([], Inl (ValueError ''IPC handshake role is invalid''))
      else case create fresh1 ''hello.challenge''
             [(''role'', JStr role), (''client_nonce'', JStr client_nonce)] None of
        Inl e \<Rightarrow> ([], Inl e)
      | Inr challenge \<Rightarrow>
          (case bindE (reply1 challenge) (\<lambda>response.
                bindE (check_challenge_response mac instance_token role client_nonce challenge response)
                  (\<lambda>server_nonce. client_hello mac instance_token role client_nonce server_nonce fresh2)) of
             Inl e \<Rightarrow> ([challenge], Inl e)
           | Inr hello \<Rightarrow> ([challenge, hello], bindE (reply2 hello) (check_acknowledgement hello))))"

section \<open>The server\<close>

definition check_challenge :: "pystr \<Rightarrow> envelope \<Rightarrow> pystr res" where
  "check_challenge expected_role challenge =
     (if env_message_type challenge \<noteq> ''hello.challenge'' \<or>
         set (keys (env_payload challenge)) \<noteq> {''role'', ''client_nonce''} \<or>
         pget (env_payload challenge) ''role'' \<noteq> JStr expected_role
      then Inl (IpcAuthenticationError ''broker handshake challenge is invalid'')
      else text_field (env_payload challenge) ''client_nonce'' hex64)"

definition server_ack ::
  "(bytes \<Rightarrow> bytes \<Rightarrow> pystr) \<Rightarrow> pystr \<Rightarrow> pystr \<Rightarrow> pystr \<Rightarrow> pystr \<Rightarrow> envelope \<Rightarrow> envelope res" where
  "server_ack mac expected_token expected_role client_nonce server_nonce challenge =
     create [] ''hello.challenge.ack''
       [(''protocol_version'', JInt BROKER_PROTOCOL_VERSION), (''server_nonce'', JStr server_nonce),
        (''server_proof'', JStr (ipc_proof mac expected_token ''server'' expected_role client_nonce server_nonce))]
       (Some (env_message_id challenge))"

definition check_hello ::
  "(bytes \<Rightarrow> bytes \<Rightarrow> pystr) \<Rightarrow> pystr \<Rightarrow> pystr \<Rightarrow> pystr \<Rightarrow> pystr \<Rightarrow> envelope \<Rightarrow> unit res" where
  "check_hello mac expected_token expected_role client_nonce server_nonce hello =
     (if env_message_type hello \<noteq> ''hello'' \<or>
         set (keys (env_payload hello)) \<noteq> {''role'', ''client_nonce'', ''server_nonce'', ''client_proof''} \<or>
         pget (env_payload hello) ''role'' \<noteq> JStr expected_role \<or>
         pget (env_payload hello) ''client_nonce'' \<noteq> JStr client_nonce \<or>
         pget (env_payload hello) ''server_nonce'' \<noteq> JStr server_nonce
      then Inl (IpcAuthenticationError ''broker handshake request is invalid'')
      else bindE (text_field (env_payload hello) ''client_proof'' hex64) (\<lambda>client_proof.
        guardE (client_proof = ipc_proof mac expected_token ''client'' expected_role client_nonce server_nonce)
          (IpcAuthenticationError ''broker client proof was rejected'')))"

definition server_handshake ::
  "(bytes \<Rightarrow> bytes \<Rightarrow> pystr) \<Rightarrow> pystr \<Rightarrow> pystr \<Rightarrow> pystr \<Rightarrow> envelope res \<Rightarrow> (envelope \<Rightarrow> envelope res) \<Rightarrow>
   envelope list \<times> unit res" where
  "server_handshake mac expected_token expected_role server_nonce first reply =
     (if expected_role \<notin> set IPC_ROLES then ([], Inl (ValueError ''IPC handshake role is invalid''))
      else case bindE first (\<lambda>challenge.
             bindE (check_challenge expected_role challenge) (\<lambda>client_nonce.
             bindE (server_ack mac expected_token expected_role client_nonce server_nonce challenge) (\<lambda>ack.
             Inr (client_nonce, ack)))) of
        Inl e \<Rightarrow> ([], Inl e)
      | Inr (client_nonce, ack) \<Rightarrow>
          (case bindE (reply ack) (\<lambda>hello.
                bindE (check_hello mac expected_token expected_role client_nonce server_nonce hello) (\<lambda>_.
                create [] ''hello.ack'' [(''protocol_version'', JInt BROKER_PROTOCOL_VERSION)]
                  (Some (env_message_id hello)))) of
             Inl e \<Rightarrow> ([ack], Inl e)
           | Inr final \<Rightarrow> ([ack, final], Inr ())))"

section \<open>What a proof binds\<close>

lemma hex_not_NUL: "list_all is_hex s \<Longrightarrow> NUL \<notin> set s"
  by (auto simp: list_all_iff is_hex_def is_digit_def)

lemma role_not_NUL: "r \<in> set IPC_ROLES \<Longrightarrow> NUL \<notin> set r"
  by (auto simp: IPC_ROLES_def)

lemma version_text: "dec_int BROKER_PROTOCOL_VERSION = ''3''"
  by code_simp

text \<open>The message under the proof determines the label, the role and both nonces.\<close>

lemma split_proof_message:
  assumes "l \<in> {''client'', ''server''}" and "r \<in> set IPC_ROLES" and "hex64 c" and "hex64 s"
  shows "split_on NUL (proof_message l r c s) = [l, ''3'', r, c, s]"
proof -
  have "NUL \<notin> set l" using assms(1) unfolding insert_iff empty_iff by (elim disjE) simp_all
  moreover have "NUL \<notin> set r" using assms(2) by (rule role_not_NUL)
  moreover have "NUL \<notin> set c" "NUL \<notin> set s" using assms(3,4) hex_not_NUL unfolding hex64_def by blast+
  ultimately show ?thesis unfolding proof_message_def version_text by (intro split_on_join) simp_all
qed

lemma proof_message_inject:
  assumes "proof_message l r c s = proof_message l' r' c' s'"
    and "l \<in> {''client'', ''server''}" and "r \<in> set IPC_ROLES" and "hex64 c" and "hex64 s"
    and "l' \<in> {''client'', ''server''}" and "r' \<in> set IPC_ROLES" and "hex64 c'" and "hex64 s'"
  shows "l = l' \<and> r = r' \<and> c = c' \<and> s = s'"
  using arg_cong [OF assms(1), of "split_on NUL"]
  unfolding split_proof_message [OF assms(2-5)] split_proof_message [OF assms(6-9)] by simp

section \<open>Agreement\<close>

lemma text_field_Inr: "(text_field pl n P = Inr s) = (pget pl n = JStr s \<and> P s)"
  by (cases "pget pl n") (auto simp: text_field_def)

lemma server_handshake_ok:
  assumes "server_handshake mac tok role sn (Inr challenge) reply = (sent, Inr ())"
  shows "\<exists>cn ack hello. pget (env_payload challenge) ''client_nonce'' = JStr cn \<and> hex64 cn \<and> role \<in> set IPC_ROLES \<and>
    reply ack = Inr hello \<and>
    pget (env_payload hello) ''client_proof'' = JStr (ipc_proof mac tok ''client'' role cn sn)"
proof -
  from assms have r: "role \<in> set IPC_ROLES" by (auto simp: server_handshake_def split: if_splits)
  with assms obtain cn ack where c: "check_challenge role challenge = Inr cn"
    and a: "server_ack mac tok role cn sn challenge = Inr ack"
    by (auto simp: server_handshake_def bindE_def split: sum.splits)
  with assms r obtain hello where h: "reply ack = Inr hello" "check_hello mac tok role cn sn hello = Inr ()"
    by (auto simp: server_handshake_def bindE_def split: sum.splits)
  have "pget (env_payload challenge) ''client_nonce'' = JStr cn \<and> hex64 cn"
    using c by (auto simp: check_challenge_def text_field_Inr split: if_splits)
  moreover have "pget (env_payload hello) ''client_proof'' = JStr (ipc_proof mac tok ''client'' role cn sn)"
    using h(2) by (auto simp: check_hello_def text_field_Inr bindE_eq_Inr split: if_splits)
  ultimately show ?thesis using r h(1) by blast
qed

lemma client_handshake_hello:
  assumes "client_handshake mac tok role cn f1 f2 reply1 reply2 = (challenge # hello # rest, x)"
  shows "\<exists>response sn. reply1 challenge = Inr response \<and> hex64 sn \<and> role \<in> set IPC_ROLES \<and>
    env_message_id response = env_message_id challenge \<and>
    pget (env_payload response) ''server_nonce'' = JStr sn \<and>
    pget (env_payload response) ''server_proof'' = JStr (ipc_proof mac tok ''server'' role cn sn)"
proof -
  from assms have r: "role \<in> set IPC_ROLES" by (auto simp: client_handshake_def split: if_splits)
  with assms obtain response sn where "reply1 challenge = Inr response"
    "check_challenge_response mac tok role cn challenge response = Inr sn"
    by (auto simp: client_handshake_def bindE_def split: sum.splits)
  with r show ?thesis
    by (auto simp: check_challenge_response_def text_field_Inr bindE_eq_Inr split: if_splits)
qed

text \<open>
  A peer without the token cannot compute a proof: every proof value it presents that is a proof at
  all was computed by a holder of the token, on one of the messages in \<open>honest\<close>.
\<close>

definition unforgeable :: "(bytes \<Rightarrow> bytes \<Rightarrow> pystr) \<Rightarrow> pystr \<Rightarrow> pystr set \<Rightarrow> json \<Rightarrow> bool" where
  "unforgeable mac tok honest v = (\<forall>m. v = JStr (mac tok m) \<longrightarrow> v \<in> (\<lambda>m. JStr (mac tok m)) ` honest)"

lemma unforgeable_honest:
  assumes "unforgeable mac tok honest (JStr (mac tok m))" and "inj_on (mac tok) (insert m honest)"
  shows "m \<in> honest"
proof -
  obtain m' where "m' \<in> honest" "mac tok m' = mac tok m" using assms(1) by (auto simp: unforgeable_def)
  with assms(2) have "m' = m" by (meson inj_onD insertI1 insertI2)
  with \<open>m' \<in> honest\<close> show ?thesis by simp
qed

text \<open>
  C17: the server only serves holders of the token, in this very run. If the server's side of the
  handshake succeeds, then, as far as the keyed hash cannot be forged or made to collide, a holder of
  the token computed the client's proof for this role, the nonce of this challenge and the fresh
  nonce of this server; proofs made for the other side, another role or another run do not count.
\<close>

theorem server_agreement:
  assumes "server_handshake mac tok role sn (Inr challenge) reply = (sent, Inr ())"
    and "pget (env_payload challenge) ''client_nonce'' = JStr cn" and "hex64 sn"
    and "\<And>ack hello. reply ack = Inr hello \<Longrightarrow> unforgeable mac tok honest (pget (env_payload hello) ''client_proof'')"
    and "inj_on (mac tok) (insert (proof_message ''client'' role cn sn) honest)"
  shows "proof_message ''client'' role cn sn \<in> honest \<and>
    (\<forall>l r c s. proof_message l r c s = proof_message ''client'' role cn sn \<and> l \<in> {''client'', ''server''} \<and>
       r \<in> set IPC_ROLES \<and> hex64 c \<and> hex64 s \<longrightarrow> l = ''client'' \<and> r = role \<and> c = cn \<and> s = sn)"
proof -
  obtain ack hello where h: "hex64 cn" "role \<in> set IPC_ROLES" "reply ack = Inr hello"
    "pget (env_payload hello) ''client_proof'' = JStr (ipc_proof mac tok ''client'' role cn sn)"
    using server_handshake_ok [OF assms(1)] assms(2) by auto
  have "unforgeable mac tok honest (JStr (mac tok (proof_message ''client'' role cn sn)))"
    using assms(4) [OF h(3)] unfolding h(4) ipc_proof_def .
  from unforgeable_honest [OF this assms(5)] show ?thesis
    using proof_message_inject h(1,2) assms(3) by blast
qed

text \<open>
  The client proves itself only to a holder of the token. If the client gets as far as sending
  its own proof, then, as far as the keyed hash cannot be forged or made to collide, a holder of the
  token computed the server's proof for this role and for the fresh nonce of this client.
\<close>

theorem client_agreement:
  assumes "client_handshake mac tok role cn f1 f2 reply1 reply2 = (challenge # hello # rest, x)"
    and "\<And>response. reply1 challenge = Inr response \<Longrightarrow>
      unforgeable mac tok honest (pget (env_payload response) ''server_proof'')"
    and "\<And>sn. inj_on (mac tok) (insert (proof_message ''server'' role cn sn) honest)"
  shows "\<exists>sn. hex64 sn \<and> proof_message ''server'' role cn sn \<in> honest"
proof -
  obtain response sn where h: "reply1 challenge = Inr response" "hex64 sn"
    "pget (env_payload response) ''server_proof'' = JStr (ipc_proof mac tok ''server'' role cn sn)"
    using client_handshake_hello [OF assms(1)] by blast
  have "unforgeable mac tok honest (JStr (mac tok (proof_message ''server'' role cn sn)))"
    using assms(2) [OF h(1)] unfolding h(3) ipc_proof_def .
  from unforgeable_honest [OF this assms(3)] h(2) show ?thesis by blast
qed

section \<open>An honest run\<close>

text \<open>The two sides connected to each other: each receives what the other sends.\<close>

definition server_reply ::
  "(bytes \<Rightarrow> bytes \<Rightarrow> pystr) \<Rightarrow> pystr \<Rightarrow> pystr \<Rightarrow> pystr \<Rightarrow> envelope \<Rightarrow> envelope res option \<Rightarrow> nat \<Rightarrow> envelope res" where
  "server_reply mac tok role sn challenge hello n =
     (let (sent, x) = server_handshake mac tok role sn (Inr challenge)
            (\<lambda>_. case hello of None \<Rightarrow> Inl (IpcClosed ''waiting'') | Some h \<Rightarrow> h)
      in if n < length sent then Inr (sent ! n) else Inl (IpcClosed ''named-pipe peer closed the connection''))"

definition honest_challenge :: "pystr \<Rightarrow> pystr \<Rightarrow> pystr \<Rightarrow> envelope" where
  "honest_challenge role cn f1 = \<lparr>env_version = BROKER_PROTOCOL_VERSION, env_message_id = ''msg_'' @ f1,
     env_message_type = ''hello.challenge'', env_payload = [(''role'', JStr role), (''client_nonce'', JStr cn)]\<rparr>"

definition honest_hello :: "(bytes \<Rightarrow> bytes \<Rightarrow> pystr) \<Rightarrow> pystr \<Rightarrow> pystr \<Rightarrow> pystr \<Rightarrow> pystr \<Rightarrow> pystr \<Rightarrow> envelope" where
  "honest_hello mac tok role cn sn f2 = \<lparr>env_version = BROKER_PROTOCOL_VERSION, env_message_id = ''msg_'' @ f2,
     env_message_type = ''hello'', env_payload = [(''role'', JStr role), (''client_nonce'', JStr cn),
       (''server_nonce'', JStr sn), (''client_proof'', JStr (ipc_proof mac tok ''client'' role cn sn))]\<rparr>"

definition honest_ack :: "(bytes \<Rightarrow> bytes \<Rightarrow> pystr) \<Rightarrow> pystr \<Rightarrow> pystr \<Rightarrow> pystr \<Rightarrow> pystr \<Rightarrow> pystr \<Rightarrow> envelope" where
  "honest_ack mac tok role cn sn f1 = \<lparr>env_version = BROKER_PROTOCOL_VERSION, env_message_id = ''msg_'' @ f1,
     env_message_type = ''hello.challenge.ack'', env_payload =
       [(''protocol_version'', JInt BROKER_PROTOCOL_VERSION), (''server_nonce'', JStr sn),
        (''server_proof'', JStr (ipc_proof mac tok ''server'' role cn sn))]\<rparr>"

definition honest_final :: "pystr \<Rightarrow> envelope" where
  "honest_final f2 = \<lparr>env_version = BROKER_PROTOCOL_VERSION, env_message_id = ''msg_'' @ f2,
     env_message_type = ''hello.ack'', env_payload = [(''protocol_version'', JInt BROKER_PROTOCOL_VERSION)]\<rparr>"

lemma message_types: "MESSAGE_TYPE ''hello.challenge''" "MESSAGE_TYPE ''hello.challenge.ack''"
  "MESSAGE_TYPE ''hello''" "MESSAGE_TYPE ''hello.ack''"
  by code_simp+

lemma honest_server:
  assumes "role \<in> set IPC_ROLES" and "hex64 cn" and "\<And>m. hex64 (mac tok m)"
    and "MESSAGE_ID (''msg_'' @ f1)" and "MESSAGE_ID (''msg_'' @ f2)"
  shows "server_handshake mac tok role sn (Inr (honest_challenge role cn f1))
      (\<lambda>_. case hello of None \<Rightarrow> Inl e | Some h \<Rightarrow> h) =
    (case hello of
       Some (Inr h) \<Rightarrow>
         if h = honest_hello mac tok role cn sn f2
         then ([honest_ack mac tok role cn sn f1, honest_final f2], Inr ())
         else server_handshake mac tok role sn (Inr (honest_challenge role cn f1)) (\<lambda>_. Inr h)
     | Some (Inl x) \<Rightarrow> ([honest_ack mac tok role cn sn f1], Inl x)
     | None \<Rightarrow> ([honest_ack mac tok role cn sn f1], Inl e))"
proof -
  have cc: "check_challenge role (honest_challenge role cn f1) = Inr cn"
    using assms(2) by (simp add: check_challenge_def honest_challenge_def keys_def pget_def text_field_def)
  have sa: "server_ack mac tok role cn sn (honest_challenge role cn f1) = Inr (honest_ack mac tok role cn sn f1)"
    unfolding server_ack_def honest_challenge_def honest_ack_def
    using create_valid(2) [OF message_types(2) assms(4)] by simp
  have ch: "check_hello mac tok role cn sn (honest_hello mac tok role cn sn f2) = Inr ()"
    using assms(3) by (simp add: check_hello_def honest_hello_def keys_def pget_def text_field_def ipc_proof_def insert_commute)
  have fa: "create [] ''hello.ack'' [(''protocol_version'', JInt BROKER_PROTOCOL_VERSION)]
      (Some (env_message_id (honest_hello mac tok role cn sn f2))) = Inr (honest_final f2)"
    unfolding honest_hello_def honest_final_def using create_valid(2) [OF message_types(4) assms(5)] by simp
  show ?thesis
    unfolding server_handshake_def using assms(1) cc sa ch fa by (simp split: option.split sum.split)
qed

lemma honest_client:
  assumes "role \<in> set IPC_ROLES" and "hex64 cn" and "hex64 sn" and "\<And>m. hex64 (mac tok m)"
    and "MESSAGE_ID (''msg_'' @ f1)" and "MESSAGE_ID (''msg_'' @ f2)"
    and r1: "reply1 (honest_challenge role cn f1) = Inr (honest_ack mac tok role cn sn f1)"
    and r2: "reply2 (honest_hello mac tok role cn sn f2) = Inr (honest_final f2)"
  shows "client_handshake mac tok role cn f1 f2 reply1 reply2 =
    ([honest_challenge role cn f1, honest_hello mac tok role cn sn f2], Inr ())"
proof -
  have c1: "create f1 ''hello.challenge'' [(''role'', JStr role), (''client_nonce'', JStr cn)] None = Inr (honest_challenge role cn f1)"
    unfolding honest_challenge_def by (rule create_valid(1) [OF message_types(1) assms(5)])
  have c2: "client_hello mac tok role cn sn f2 = Inr (honest_hello mac tok role cn sn f2)"
    unfolding client_hello_def honest_hello_def by (rule create_valid(1) [OF message_types(3) assms(6)])
  have k1: "check_challenge_response mac tok role cn (honest_challenge role cn f1) (honest_ack mac tok role cn sn f1) = Inr sn"
    using assms(3,4) by (simp add: check_challenge_response_def honest_challenge_def honest_ack_def keys_def pget_def
        text_field_def ipc_proof_def insert_commute)
  have k2: "check_acknowledgement (honest_hello mac tok role cn sn f2) (honest_final f2) = Inr ()"
    by (simp add: check_acknowledgement_def honest_hello_def honest_final_def keys_def pget_def)
  show ?thesis using assms(1) by (simp add: client_handshake_def c1 r1 k1 c2 r2 k2)
qed

text \<open>
  The two sides agree with each other. Connected to a server with the same token and role, the
  client completes the handshake, and so does the server: exactly four messages are exchanged.
\<close>

theorem honest_handshake:
  assumes "role \<in> set IPC_ROLES" and "hex64 cn" and "hex64 sn" and "\<And>m. hex64 (mac tok m)"
    and "MESSAGE_ID (''msg_'' @ f1)" and "MESSAGE_ID (''msg_'' @ f2)"
  shows "client_handshake mac tok role cn f1 f2
      (\<lambda>ch. server_reply mac tok role sn ch None 0)
      (\<lambda>h. server_reply mac tok role sn (honest_challenge role cn f1) (Some (Inr h)) 1) =
      ([honest_challenge role cn f1, honest_hello mac tok role cn sn f2], Inr ()) \<and>
    server_handshake mac tok role sn (Inr (honest_challenge role cn f1)) (\<lambda>_. Inr (honest_hello mac tok role cn sn f2)) =
      ([honest_ack mac tok role cn sn f1, honest_final f2], Inr ())"
proof -
  note hs = honest_server [where mac = mac and tok = tok and role = role and sn = sn, OF assms(1,2,4,5,6)]
  have r1: "server_reply mac tok role sn (honest_challenge role cn f1) None 0 = Inr (honest_ack mac tok role cn sn f1)"
    using hs [where hello = None] by (simp add: server_reply_def)
  have s2: "server_handshake mac tok role sn (Inr (honest_challenge role cn f1)) (\<lambda>_. Inr (honest_hello mac tok role cn sn f2)) =
      ([honest_ack mac tok role cn sn f1, honest_final f2], Inr ())"
    using hs [where hello = "Some (Inr (honest_hello mac tok role cn sn f2))"] by simp
  then have r2: "server_reply mac tok role sn (honest_challenge role cn f1) (Some (Inr (honest_hello mac tok role cn sn f2))) 1
      = Inr (honest_final f2)"
    by (simp add: server_reply_def)
  show ?thesis
    by (intro conjI honest_client [where mac = mac and tok = tok, OF assms] r1 r2 s2)
qed

text \<open>A run with concrete nonces, and a keyed hash that tells its two messages from all others.\<close>

definition demo_cn :: pystr where "demo_cn = replicate 64 (CHR ''1'')"

definition demo_sn :: pystr where "demo_sn = replicate 64 (CHR ''2'')"

definition demo_messages :: "pystr list" where
  "demo_messages = [proof_message ''client'' ''mcp'' demo_cn demo_sn, proof_message ''server'' ''mcp'' demo_cn demo_sn]"

definition demo_mac :: "bytes \<Rightarrow> bytes \<Rightarrow> pystr" where
  "demo_mac k m = replicate 64 (if m = demo_messages ! 0 then CHR ''a'' else if m = demo_messages ! 1 then CHR ''c'' else CHR ''b'')"

lemma demo_run_valid: "''mcp'' \<in> set IPC_ROLES" "hex64 demo_cn" "hex64 demo_sn" "hex64 (demo_mac k m)"
  "MESSAGE_ID (''msg_'' @ ''0001'')" "MESSAGE_ID (''msg_'' @ ''0002'')"
  by (simp_all add: IPC_ROLES_def hex64_def demo_cn_def demo_sn_def demo_mac_def list_all_iff is_hex_def is_digit_def,
      code_simp+)

lemma demo_server_run:
  "server_handshake demo_mac tok ''mcp'' demo_sn (Inr (honest_challenge ''mcp'' demo_cn ''0001''))
     (\<lambda>_. Inr (honest_hello demo_mac tok ''mcp'' demo_cn demo_sn ''0002'')) =
   ([honest_ack demo_mac tok ''mcp'' demo_cn demo_sn ''0001'', honest_final ''0002''], Inr ())"
  using honest_server [where hello = "Some (Inr (honest_hello demo_mac tok ''mcp'' demo_cn demo_sn ''0002''))",
      where mac = demo_mac and tok = tok and sn = demo_sn, OF demo_run_valid(1,2,4,5,6)] by simp

lemma demo_messages_distinct: "demo_messages ! 0 \<noteq> demo_messages ! 1"
proof
  assume "demo_messages ! 0 = demo_messages ! 1"
  then have "proof_message ''client'' ''mcp'' demo_cn demo_sn = proof_message ''server'' ''mcp'' demo_cn demo_sn"
    by (simp add: demo_messages_def)
  from proof_message_inject [OF this] demo_run_valid show False by simp
qed

lemma demo_mac_inj: "inj_on (demo_mac k) (insert m (set demo_messages))"
proof -
  have s: "set demo_messages = {demo_messages ! 0, demo_messages ! 1}" by (simp add: demo_messages_def)
  have e: "replicate 64 x = replicate 64 y \<longleftrightarrow> x = y" for x y :: char by simp
  show ?thesis
    unfolding s inj_on_def demo_mac_def e using demo_messages_distinct by auto
qed

theorem server_agreement_witness:
  "proof_message ''client'' ''mcp'' demo_cn demo_sn \<in> set demo_messages"
proof -
  have "unforgeable demo_mac ''t'' (set demo_messages)
      (JStr (demo_mac ''t'' (proof_message ''client'' ''mcp'' demo_cn demo_sn)))"
    by (auto simp: unforgeable_def demo_messages_def)
  then have "unforgeable demo_mac ''t'' (set demo_messages)
      (pget (env_payload (honest_hello demo_mac ''t'' ''mcp'' demo_cn demo_sn ''0002'')) ''client_proof'')"
    by (simp add: honest_hello_def pget_def ipc_proof_def)
  then show ?thesis
    using server_agreement [OF demo_server_run [where tok = "''t''"], where cn = demo_cn and honest = "set demo_messages"] demo_run_valid(3) demo_mac_inj
    by (simp add: honest_challenge_def pget_def)
qed

theorem honest_handshake_witness:
  "snd (client_handshake demo_mac ''t'' ''mcp'' demo_cn ''0001'' ''0002''
      (\<lambda>ch. server_reply demo_mac ''t'' ''mcp'' demo_sn ch None 0)
      (\<lambda>h. server_reply demo_mac ''t'' ''mcp'' demo_sn (honest_challenge ''mcp'' demo_cn ''0001'') (Some (Inr h)) 1)) = Inr ()"
  using honest_handshake [where mac = demo_mac and tok = "''t''", OF demo_run_valid] by simp

lemma demo_client_run:
  "client_handshake demo_mac ''t'' ''mcp'' demo_cn ''0001'' ''0002''
     (\<lambda>_. Inr (honest_ack demo_mac ''t'' ''mcp'' demo_cn demo_sn ''0001'')) (\<lambda>_. Inr (honest_final ''0002'')) =
   ([honest_challenge ''mcp'' demo_cn ''0001'', honest_hello demo_mac ''t'' ''mcp'' demo_cn demo_sn ''0002''], Inr ())"
  by (rule honest_client [where mac = demo_mac and tok = "''t''", OF demo_run_valid]) simp_all

theorem client_agreement_witness:
  "\<exists>sn. hex64 sn \<and> proof_message ''server'' ''mcp'' demo_cn sn \<in> set demo_messages"
proof -
  have "unforgeable demo_mac ''t'' (set demo_messages)
      (JStr (demo_mac ''t'' (proof_message ''server'' ''mcp'' demo_cn demo_sn)))"
    by (auto simp: unforgeable_def demo_messages_def)
  then have "unforgeable demo_mac ''t'' (set demo_messages)
      (pget (env_payload (honest_ack demo_mac ''t'' ''mcp'' demo_cn demo_sn ''0001'')) ''server_proof'')"
    by (simp add: honest_ack_def pget_def ipc_proof_def)
  then show ?thesis
    using client_agreement [OF demo_client_run, where honest = "set demo_messages"] demo_mac_inj by simp
qed

end
