(* ===== verification/Broker_Model.thy ===== *)
theory Broker_Model
  imports Keyed_Store
begin

text \<open>
  The broker's data: \<^verbatim>\<open>identifiers.py\<close>, \<^verbatim>\<open>broker/outcomes.py\<close>, \<^verbatim>\<open>broker/timeouts.py\<close>,
  \<^verbatim>\<open>broker/model.py\<close> and \<^verbatim>\<open>broker/registry.py\<close>. Every method of the registry holds its lock, so a
  call is one step. Wall-clock times are rational numbers. An \<^verbatim>\<open>action\<close> that is a list or an
  object, which Python cannot look up in a set, counts as no mutation.
\<close>

section \<open>Identifiers\<close>

definition SESSION_ID :: "pystr \<Rightarrow> bool" where
  "SESSION_ID s = (starts_with ''sess-'' s \<and> length s = 21 \<and> list_all is_hex (drop 5 s))"

definition new_session_id :: "pystr \<Rightarrow> pystr" where
  "new_session_id token_hex = ''sess-'' @ token_hex"

definition validate_session_id :: "pystr \<Rightarrow> unit res" where
  "validate_session_id v = guardE (SESSION_ID v) (ValueError ''session_id has an invalid format'')"

section \<open>Requests with uncertain outcomes\<close>

definition TERMINAL_MUTATIONS :: "pystr list" where
  "TERMINAL_MUTATIONS = [''start'', ''write'', ''interrupt'', ''resize'', ''close'']"

definition ELEVATION_MUTATIONS :: "pystr list" where
  "ELEVATION_MUTATIONS = [''acquire'', ''release'', ''exec'', ''open_root_session'', ''close_root_session'']"

definition action_in :: "payload \<Rightarrow> pystr list \<Rightarrow> bool" where
  "action_in body names = (case pget body ''action'' of JStr s \<Rightarrow> s \<in> set names | _ \<Rightarrow> False)"

definition uncertain_outcome_code :: "pystr \<Rightarrow> payload \<Rightarrow> pystr option" where
  "uncertain_outcome_code message_type body =
     (if message_type \<in> {''session.exec'', ''worker.exec''} then Some ''outcome_unknown''
      else if message_type \<in> {''session.file_edit'', ''worker.file_edit''} then Some ''file_outcome_unknown''
      else if message_type \<in> {''session.elevation'', ''worker.elevation''} then
        (if action_in body ELEVATION_MUTATIONS then Some ''elevation_outcome_unknown'' else None)
      else if message_type \<in> {''session.terminal'', ''worker.terminal''} then
        (if action_in body TERMINAL_MUTATIONS then Some ''outcome_unknown'' else None)
      else if message_type \<in> {''session.create'', ''session.open'', ''session.close'', ''broker.shutdown'',
          ''worker.open'', ''worker.shutdown''} then Some ''outcome_unknown''
      else None)"

definition DEFAULT_BROKER_RESPONSE_TIMEOUT_SECONDS :: rat where
  "DEFAULT_BROKER_RESPONSE_TIMEOUT_SECONDS = 15"

definition SESSION_START_RESPONSE_TIMEOUT_SECONDS :: rat where
  "SESSION_START_RESPONSE_TIMEOUT_SECONDS = 210"

definition TERMINAL_RESPONSE_TIMEOUT_SECONDS :: rat where
  "TERMINAL_RESPONSE_TIMEOUT_SECONDS = 80"

definition WORKER_LONG_OPERATION_TIMEOUT_SECONDS :: rat where
  "WORKER_LONG_OPERATION_TIMEOUT_SECONDS = 3726"

definition LONG_OPERATION_RESPONSE_TIMEOUT_SECONDS :: rat where
  "LONG_OPERATION_RESPONSE_TIMEOUT_SECONDS = 3728"

definition broker_response_timeout :: "pystr \<Rightarrow> payload \<Rightarrow> rat" where
  "broker_response_timeout message_type body =
     (if message_type \<in> {''session.exec'', ''session.files'', ''session.file_edit''}
      then LONG_OPERATION_RESPONSE_TIMEOUT_SECONDS
      else if message_type = ''session.terminal'' then TERMINAL_RESPONSE_TIMEOUT_SECONDS
      else if message_type \<in> {''session.create'', ''session.open''} then SESSION_START_RESPONSE_TIMEOUT_SECONDS
      else if message_type = ''session.elevation'' then
        (if pget body ''action'' = JStr ''exec'' then LONG_OPERATION_RESPONSE_TIMEOUT_SECONDS
         else if pget body ''action'' = JStr ''acquire'' then LONG_OPERATION_RESPONSE_TIMEOUT_SECONDS
         else if pget body ''action'' = JStr ''open_root_session'' then SESSION_START_RESPONSE_TIMEOUT_SECONDS
         else DEFAULT_BROKER_RESPONSE_TIMEOUT_SECONDS)
      else DEFAULT_BROKER_RESPONSE_TIMEOUT_SECONDS)"

section \<open>Session records\<close>

record session_record =
  sr_session_id :: pystr
  sr_profile_name :: pystr
  sr_worker_pid :: int
  sr_worker_pipe :: pystr
  sr_state :: pystr
  sr_created_at :: rat
  sr_last_activity :: rat
  sr_ssh_user :: "pystr option"
  sr_effective_user :: "pystr option"
  sr_root_session :: bool
  sr_parent_session_id :: "pystr option"

definition with_state :: "pystr \<Rightarrow> rat \<Rightarrow> session_record \<Rightarrow> session_record" where
  "with_state st at_time r = r\<lparr>sr_state := st, sr_last_activity := at_time\<rparr>"

definition with_open_status :: "pystr \<Rightarrow> pystr \<Rightarrow> rat \<Rightarrow> session_record \<Rightarrow> session_record" where
  "with_open_status ssh_user effective_user at_time r =
     r\<lparr>sr_state := ''ready'', sr_ssh_user := Some ssh_user, sr_effective_user := Some effective_user,
       sr_last_activity := at_time\<rparr>"

definition json_option :: "pystr option \<Rightarrow> json" where
  "json_option x = (case x of None \<Rightarrow> JNull | Some s \<Rightarrow> JStr s)"

definition public_dict :: "session_record \<Rightarrow> payload" where
  "public_dict r =
     [(''session_id'', JStr (sr_session_id r)), (''profile_name'', JStr (sr_profile_name r)),
      (''worker_pid'', JInt (sr_worker_pid r)), (''state'', JStr (sr_state r)),
      (''created_at'', JFloat (sr_created_at r)), (''last_activity'', JFloat (sr_last_activity r)),
      (''ssh_user'', json_option (sr_ssh_user r)), (''effective_user'', json_option (sr_effective_user r)),
      (''elevated'', JBool (sr_root_session r)), (''root_session'', JBool (sr_root_session r)),
      (''parent_session_id'', json_option (sr_parent_session_id r))]"

section \<open>The registry\<close>

type_synonym registry = "session_record dict"

definition registry_add :: "session_record \<Rightarrow> registry \<Rightarrow> registry res" where
  "registry_add r reg =
     (if sr_session_id r \<in> set (keys reg)
      then Inl (BrokerRequestError (''session already exists: '' @ sr_session_id r))
      else Inr (dput (sr_session_id r) r reg))"

definition registry_get :: "pystr \<Rightarrow> registry \<Rightarrow> session_record res" where
  "registry_get sid reg = someE (map_of reg sid) (SessionNotFound (''session does not exist: '' @ sid))"

definition registry_replace :: "session_record \<Rightarrow> registry \<Rightarrow> registry res" where
  "registry_replace r reg =
     (if sr_session_id r \<notin> set (keys reg)
      then Inl (SessionNotFound (''session does not exist: '' @ sr_session_id r))
      else Inr (dput (sr_session_id r) r reg))"

definition registry_remove :: "pystr \<Rightarrow> registry \<Rightarrow> (session_record \<times> registry) res" where
  "registry_remove sid reg =
     (case map_of reg sid of
        None \<Rightarrow> Inl (SessionNotFound (''session does not exist: '' @ sid))
      | Some r \<Rightarrow> Inr (r, ddel sid reg))"

definition registry_list :: "registry \<Rightarrow> session_record list" where
  "registry_list reg = sort_key sr_created_at (map snd reg)"

section \<open>The registry as a map\<close>

definition registry_ok :: "registry \<Rightarrow> bool" where
  "registry_ok reg = (distinct (keys reg) \<and> (\<forall>k r. map_of reg k = Some r \<longrightarrow> sr_session_id r = k))"

interpretation ra: keyed_store registry_ok "\<lambda>k r. sr_session_id r = k" map_of "\<lambda>k. registry_add"
    "\<lambda>k reg. bindE (registry_remove k reg) (\<lambda>(r, reg'). Inr reg')"
proof
  fix s s' :: registry and k and v :: session_record
  show "registry_ok s \<Longrightarrow> sr_session_id v = k \<Longrightarrow> registry_add v s = Inr s' \<Longrightarrow>
      registry_ok s' \<and> map_of s' = (map_of s)(k \<mapsto> v)"
    by (auto simp: registry_add_def registry_ok_def distinct_dput split: if_splits)
  show "registry_ok s \<Longrightarrow> bindE (registry_remove k s) (\<lambda>(r, reg'). Inr reg') = Inr s' \<Longrightarrow>
      registry_ok s' \<and> map_of s' = (map_of s)(k := None)"
    by (auto simp: registry_remove_def registry_ok_def distinct_ddel bindE_eq_Inr split: option.splits if_splits)
  show "bindE (registry_remove k s) (\<lambda>(r, reg'). Inr reg') = Inr s' \<Longrightarrow> map_of s k \<noteq> None"
    by (auto simp: registry_remove_def bindE_eq_Inr split: option.splits)
qed

interpretation rr: keyed_store registry_ok "\<lambda>k r. sr_session_id r = k" map_of "\<lambda>k. registry_replace"
    "\<lambda>k reg. bindE (registry_remove k reg) (\<lambda>(r, reg'). Inr reg')"
proof
  fix s s' :: registry and k and v :: session_record
  show "registry_ok s \<Longrightarrow> sr_session_id v = k \<Longrightarrow> registry_replace v s = Inr s' \<Longrightarrow>
      registry_ok s' \<and> map_of s' = (map_of s)(k \<mapsto> v)"
    by (auto simp: registry_replace_def registry_ok_def distinct_dput split: if_splits)
qed (use ra.del_store ra.del_present in auto)

lemma registry_replace_succeeds: "map_of reg (sr_session_id r) = Some r' \<Longrightarrow> \<exists>reg'. registry_replace r reg = Inr reg'"
  by (auto simp: registry_replace_def set_keys)

lemma registry_ok_Nil: "registry_ok []"
  by (simp add: registry_ok_def keys_def)

lemma registry_list_set: "set (registry_list reg) = snd ` set reg"
  by (simp add: registry_list_def)

lemma registry_list_sorted: "sorted (map sr_created_at (registry_list reg))"
  by (simp add: registry_list_def)

end
