(* ===== verification/Broker_Channel.thy ===== *)
theory Broker_Channel
  imports Broker_Model Ipc_Messages
begin

text \<open>
  One request over an authenticated connection, as both ends of the broker make it:
  \<^verbatim>\<open>WorkerHandle.request\<close> (\<^verbatim>\<open>broker/supervisor.py\<close>) and \<^verbatim>\<open>BrokerClient.request\<close>
  (\<^verbatim>\<open>broker/client.py\<close>). What comes back from sending and receiving is an argument: an IPC error, or
  an envelope. Each request gives its result together with whether it closed the connection. The
  contract that both meet, and what follows from it for requests with effects, is the locale
  \<open>request_channel\<close>.
\<close>

section \<open>The two requests\<close>

datatype transport = TransportError exn | Reply envelope

definition transport_error :: "pystr \<Rightarrow> payload \<Rightarrow> exn" where
  "transport_error message_type pl =
     WorkerOperationError
       (case uncertain_outcome_code message_type pl of None \<Rightarrow> ''worker_ipc_failed'' | Some c \<Rightarrow> c)
       (''The worker connection became invalid after request delivery; the operation '' @
        ''must not be retried automatically.'')
       (Some ''lost'')"

definition worker_error :: "pystr \<Rightarrow> payload \<Rightarrow> payload \<Rightarrow> bool \<times> exn" where
  "worker_error message_type pl reply =
     (case (pget_default reply ''code'' (JStr ''worker_error''),
            pget_default reply ''message'' (JStr ''worker operation failed''), pget reply ''state'') of
        (JStr code, JStr message, JNull) \<Rightarrow> (False, WorkerOperationError code message None)
      | (JStr code, JStr message, JStr state) \<Rightarrow> (False, WorkerOperationError code message (Some state))
      | _ \<Rightarrow> (True, transport_error message_type pl))"

definition worker_request :: "pystr \<Rightarrow> payload \<Rightarrow> pystr \<Rightarrow> transport \<Rightarrow> bool \<times> payload res" where
  "worker_request message_type pl fresh transport =
     (case create fresh message_type pl None of
        Inl e \<Rightarrow> (False, Inl e)
      | Inr request \<Rightarrow>
          (case transport of
             TransportError e \<Rightarrow>
               if is_ipc_error e then (True, Inl (transport_error message_type pl)) else (False, Inl e)
           | Reply response \<Rightarrow>
               if env_message_id response \<noteq> env_message_id request then (True, Inl (transport_error message_type pl))
               else if env_message_type response = ''error''
               then (case worker_error message_type pl (env_payload response) of (cl, e) \<Rightarrow> (cl, Inl e))
               else if env_message_type response \<noteq> message_type @ ''.result''
               then (True, Inl (transport_error message_type pl))
               else (False, Inr (env_payload response))))"

definition transport_failure :: "pystr \<Rightarrow> payload \<Rightarrow> exn" where
  "transport_failure message_type pl =
     (case uncertain_outcome_code message_type pl of
        Some code \<Rightarrow> BrokerOutcomeUnknown code
          (''The broker connection failed after request delivery; the operation '' @
           ''must not be retried automatically.'')
      | None \<Rightarrow> BrokerUnavailable ''broker connection failed during request'')"

definition client_error :: "pystr \<Rightarrow> payload \<Rightarrow> payload \<Rightarrow> bool \<times> exn" where
  "client_error message_type pl reply =
     (case (pget_default reply ''code'' (JStr ''broker_request_failed''),
            pget_default reply ''message'' (JStr ''broker request failed'')) of
        (JStr code, JStr message) \<Rightarrow> (False, BrokerRemoteError code message)
      | _ \<Rightarrow> (True, transport_failure message_type pl))"

definition client_request :: "pystr \<Rightarrow> payload \<Rightarrow> pystr \<Rightarrow> transport \<Rightarrow> bool \<times> payload res" where
  "client_request message_type pl fresh transport =
     (case create fresh message_type pl None of
        Inl e \<Rightarrow> (False, Inl e)
      | Inr request \<Rightarrow>
          (case transport of
             TransportError e \<Rightarrow>
               if is_ipc_error e then (True, Inl (transport_failure message_type pl)) else (False, Inl e)
           | Reply response \<Rightarrow>
               if env_message_id response \<noteq> env_message_id request then (True, Inl (transport_failure message_type pl))
               else if env_message_type response = ''error''
               then (case client_error message_type pl (env_payload response) of (cl, e) \<Rightarrow> (cl, Inl e))
               else if env_message_type response \<noteq> message_type @ ''.result''
               then (True, Inl (transport_failure message_type pl))
               else (False, Inr (env_payload response))))"

text \<open>A client that was closed raises before anything is sent.\<close>

definition client_request_open :: "bool \<Rightarrow> pystr \<Rightarrow> payload \<Rightarrow> pystr \<Rightarrow> transport \<Rightarrow> bool \<times> payload res" where
  "client_request_open is_open message_type pl fresh transport =
     (case create fresh message_type pl None of
        Inl e \<Rightarrow> (False, Inl e)
      | Inr _ \<Rightarrow>
          if \<not> is_open then (False, Inl (BrokerUnavailable ''broker client is closed''))
          else client_request message_type pl fresh transport)"

definition validate_broker_status :: "payload \<Rightarrow> unit res" where
  "validate_broker_status status =
     (if set (keys status) \<noteq> {''pid'', ''pipe'', ''protocol_version'', ''instance_token'', ''started_at''}
      then Inl (BrokerUnavailable ''broker status fields are invalid'')
      else if \<not> equals_int (pget status ''protocol_version'') BROKER_PROTOCOL_VERSION
      then Inl (BrokerUnavailable ''broker protocol version is incompatible'')
      else case (pget status ''pid'', pget status ''pipe'', pget status ''instance_token'') of
        (JInt pid, JStr pipe, JStr token) \<Rightarrow>
          if pid < 1 \<or> py_len token < 32
          then Inl (BrokerUnavailable ''broker connection details are invalid'') else Inr ()
      | _ \<Rightarrow> Inl (BrokerUnavailable ''broker connection details are invalid''))"

section \<open>The contract of a request\<close>

text \<open>
  An answer to a request: an envelope with its id that carries a result of its type, or an error
  report that has the form \<open>report\<close> expects.
\<close>

definition answers :: "(payload \<Rightarrow> bool) \<Rightarrow> pystr \<Rightarrow> pystr \<Rightarrow> transport \<Rightarrow> bool" where
  "answers report message_type fresh transport =
     (case transport of
        TransportError _ \<Rightarrow> False
      | Reply r \<Rightarrow> env_message_id r = ''msg_'' @ fresh \<and>
          (if env_message_type r = ''error'' then report (env_payload r)
           else env_message_type r = message_type @ ''.result''))"

definition ipc_transport :: "transport \<Rightarrow> bool" where
  "ipc_transport transport = (case transport of TransportError e \<Rightarrow> is_ipc_error e | Reply _ \<Rightarrow> True)"

locale request_channel =
  fixes request :: "pystr \<Rightarrow> payload \<Rightarrow> pystr \<Rightarrow> transport \<Rightarrow> bool \<times> payload res"
    and report :: "payload \<Rightarrow> bool"
  assumes result_answers:
      "snd (request t p f tr) = Inr r \<Longrightarrow>
        \<exists>e. tr = Reply e \<and> env_message_id e = ''msg_'' @ f \<and> env_message_type e = t @ ''.result'' \<and> env_payload e = r"
    and unanswered:
      "MESSAGE_TYPE t \<Longrightarrow> MESSAGE_ID (''msg_'' @ f) \<Longrightarrow> ipc_transport tr \<Longrightarrow> \<not> answers report t f tr \<Longrightarrow>
        \<exists>x. request t p f tr = (True, Inl x) \<and>
          (\<forall>c. uncertain_outcome_code t p = Some c \<longrightarrow> exn_code x = Some c)"
    and answered_open: "answers report t f tr \<Longrightarrow> fst (request t p f tr) = False"
begin

text \<open>
  A request with effects either was answered, and then the connection stays usable, or is reported
  under the code that says its outcome is unknown, and then the connection is closed.
\<close>

lemma effect_accounted:
  assumes "MESSAGE_TYPE t" and "MESSAGE_ID (''msg_'' @ f)" and "ipc_transport tr"
    and "uncertain_outcome_code t p = Some c"
  shows "(answers report t f tr \<and> fst (request t p f tr) = False) \<or>
    (\<not> answers report t f tr \<and> (\<exists>x. request t p f tr = (True, Inl x) \<and> exn_code x = Some c))"
  using answered_open unanswered [OF assms(1,2,3)] assms(4) by blast

lemma result_is_own: "snd (request t p f tr) = Inr r \<Longrightarrow> t @ ''.result'' \<noteq> ''error'' \<Longrightarrow> answers report t f tr"
  using result_answers [of t p f tr r] by (auto simp: answers_def)

end

section \<open>Both requests meet it\<close>

definition worker_report :: "payload \<Rightarrow> bool" where
  "worker_report reply =
     (case (pget_default reply ''code'' (JStr ''worker_error''),
            pget_default reply ''message'' (JStr ''worker operation failed''), pget reply ''state'') of
        (JStr _, JStr _, JNull) \<Rightarrow> True
      | (JStr _, JStr _, JStr _) \<Rightarrow> True
      | _ \<Rightarrow> False)"

definition client_report :: "payload \<Rightarrow> bool" where
  "client_report reply =
     (case (pget_default reply ''code'' (JStr ''broker_request_failed''),
            pget_default reply ''message'' (JStr ''broker request failed'')) of
        (JStr _, JStr _) \<Rightarrow> True
      | _ \<Rightarrow> False)"

lemma worker_error_report:
  "worker_report r \<Longrightarrow> worker_error t p r = (b, e) \<Longrightarrow> b = False"
  "\<not> worker_report r \<Longrightarrow> worker_error t p r = (True, transport_error t p)"
  by (auto simp: worker_report_def worker_error_def split: json.splits)

lemma client_error_report:
  "client_report r \<Longrightarrow> client_error t p r = (b, e) \<Longrightarrow> b = False"
  "\<not> client_report r \<Longrightarrow> client_error t p r = (True, transport_failure t p)"
  by (auto simp: client_report_def client_error_def split: json.splits)

lemma transport_error_code: "uncertain_outcome_code t p = Some c \<Longrightarrow> exn_code (transport_error t p) = Some c"
  by (simp add: transport_error_def)

lemma transport_failure_code: "uncertain_outcome_code t p = Some c \<Longrightarrow> exn_code (transport_failure t p) = Some c"
  by (simp add: transport_failure_def)

lemma create_id: "create f t p None = Inr e \<Longrightarrow> env_message_id e = ''msg_'' @ f"
  by (auto simp: create_def dest: new_envelope_ok)

lemma worker_unanswered:
  assumes "MESSAGE_TYPE t" and "MESSAGE_ID (''msg_'' @ f)" and "ipc_transport tr" and "\<not> answers worker_report t f tr"
  shows "worker_request t p f tr = (True, Inl (transport_error t p))"
  using assms
  by (auto simp: worker_request_def create_valid(1) ipc_transport_def answers_def worker_error_report(2)
      split: transport.splits)

interpretation wc: request_channel worker_request worker_report
proof
  fix t p f tr r
  assume "snd (worker_request t p f tr) = Inr r"
  then show "\<exists>e. tr = Reply e \<and> env_message_id e = ''msg_'' @ f \<and> env_message_type e = t @ ''.result'' \<and> env_payload e = r"
    by (auto simp: worker_request_def dest: create_id split: sum.splits transport.splits if_splits prod.splits)
next
  fix t f tr p
  assume "MESSAGE_TYPE t" and "MESSAGE_ID (''msg_'' @ f)" and "ipc_transport tr" and "\<not> answers worker_report t f tr"
  then have "worker_request t p f tr = (True, Inl (transport_error t p))"
    by (rule worker_unanswered)
  then show "\<exists>x. worker_request t p f tr = (True, Inl x) \<and> (\<forall>c. uncertain_outcome_code t p = Some c \<longrightarrow> exn_code x = Some c)"
    by (simp add: transport_error_code)
next
  fix t f tr p
  assume "answers worker_report t f tr"
  then show "fst (worker_request t p f tr) = False"
    by (auto simp: worker_request_def answers_def dest: create_id worker_error_report(1) split: sum.splits transport.splits if_splits prod.splits)
qed

interpretation cc: request_channel client_request client_report
proof
  fix t p f tr r
  assume "snd (client_request t p f tr) = Inr r"
  then show "\<exists>e. tr = Reply e \<and> env_message_id e = ''msg_'' @ f \<and> env_message_type e = t @ ''.result'' \<and> env_payload e = r"
    by (auto simp: client_request_def dest: create_id split: sum.splits transport.splits if_splits prod.splits)
next
  fix t f tr p
  assume "MESSAGE_TYPE t" and "MESSAGE_ID (''msg_'' @ f)" and "ipc_transport tr" and "\<not> answers client_report t f tr"
  then have "client_request t p f tr = (True, Inl (transport_failure t p))"
    by (auto simp: client_request_def create_valid(1) ipc_transport_def answers_def client_error_report(2)
        split: transport.splits)
  then show "\<exists>x. client_request t p f tr = (True, Inl x) \<and> (\<forall>c. uncertain_outcome_code t p = Some c \<longrightarrow> exn_code x = Some c)"
    by (simp add: transport_failure_code)
next
  fix t f tr p
  assume "answers client_report t f tr"
  then show "fst (client_request t p f tr) = False"
    by (auto simp: client_request_def answers_def dest: create_id client_error_report(1) split: sum.splits transport.splits if_splits prod.splits)
qed



end
