(* ===== verification/Broker_Supervisor.thy ===== *)
theory Broker_Supervisor
  imports Broker_Channel Config_Model
begin

text \<open>
  \<^verbatim>\<open>broker/supervisor.py\<close>: the workers of the broker. The state is the registry and the dictionary of
  handles; a handle object is identified by a number, so that \<^verbatim>\<open>is\<close> compares numbers. What the
  supervisor does to the outside is collected: workers it asked to shut down, connections it closed,
  processes it terminated, status files it removed. A request leaves the lock while it waits for the worker, so it is two
  steps: looking up the handle, and finishing with a reply on whatever the state is by then. What
  the outside answers (replies, status files, whether a process lives, the clock, random names) are
  arguments.
\<close>

record worker_handle =
  wh_record :: session_record
  wh_uid :: nat

record supervisor =
  sup_registry :: registry
  sup_handles :: "worker_handle dict"
  sup_next :: nat
  sup_asked :: "nat list"
  sup_closed :: "nat list"
  sup_terminated :: "nat list"
  sup_unlinked :: "pystr list"

definition new_supervisor :: supervisor where
  "new_supervisor = \<lparr>sup_registry = [], sup_handles = [], sup_next = 0, sup_asked = [], sup_closed = [], sup_terminated = [],
     sup_unlinked = []\<rparr>"

definition ask_shutdown :: "nat \<Rightarrow> supervisor \<Rightarrow> supervisor" where
  "ask_shutdown uid s = s\<lparr>sup_asked := uid # sup_asked s\<rparr>"

definition close_connection :: "nat \<Rightarrow> supervisor \<Rightarrow> supervisor" where
  "close_connection uid s = s\<lparr>sup_closed := uid # sup_closed s\<rparr>"

definition terminate_process :: "bool \<Rightarrow> nat \<Rightarrow> supervisor \<Rightarrow> supervisor" where
  "terminate_process running uid s = (if running then s\<lparr>sup_terminated := uid # sup_terminated s\<rparr> else s)"

definition unlink_status :: "pystr \<Rightarrow> supervisor \<Rightarrow> supervisor" where
  "unlink_status sid s = s\<lparr>sup_unlinked := sid # sup_unlinked s\<rparr>"

section \<open>Starting a worker\<close>

text \<open>The polling loop for the status file: each entry is the clock at the loop test, whether the
  process has exited (with its code), and what reading the file gives (\<open>None\<close>: no such file yet).\<close>

fun wait_for_status :: "rat \<Rightarrow> (rat \<times> int option \<times> payload res option) list \<Rightarrow> payload res option" where
  "wait_for_status deadline [] = None"
| "wait_for_status deadline ((now, exited, content) # rest) =
     (if \<not> now < deadline then Some (Inl (BrokerRequestError ''worker did not publish startup status''))
      else case exited of
        Some code \<Rightarrow> Some (Inl (BrokerRequestError (''worker exited during startup with code '' @ dec_int code)))
      | None \<Rightarrow> (case content of Some r \<Rightarrow> Some r | None \<Rightarrow> wait_for_status deadline rest))"

definition validate_status :: "payload \<Rightarrow> pystr \<Rightarrow> pystr \<Rightarrow> bool \<Rightarrow> unit res" where
  "validate_status status sid profile_name root_session =
     (if set (keys status) \<noteq> {''session_id'', ''profile_name'', ''pid'', ''pipe'', ''protocol_version'', ''state'',
          ''root_session''}
      then Inl (BrokerRequestError ''worker status fields are invalid'')
      else if pget status ''session_id'' \<noteq> JStr sid \<or> pget status ''profile_name'' \<noteq> JStr profile_name \<or>
          \<not> equals_int (pget status ''protocol_version'') BROKER_PROTOCOL_VERSION \<or>
          pget status ''state'' \<noteq> JStr ''created'' \<or> pget status ''root_session'' \<noteq> JBool root_session
      then Inl (BrokerRequestError ''worker status identity is invalid'')
      else case (pget status ''pid'', pget status ''pipe'') of
        (JInt pid, JStr _) \<Rightarrow>
          if pid < 1 then Inl (BrokerRequestError ''worker process details are invalid'') else Inr ()
      | _ \<Rightarrow> Inl (BrokerRequestError ''worker process details are invalid''))"

record start_env =
  se_token_hex :: pystr
  se_status :: "payload res"
  se_connect :: "unit res"
  se_handshake :: "unit res"
  se_now :: rat
  se_ping :: transport
  se_open :: transport
  se_open_at :: rat
  se_fresh :: pystr
  se_running :: bool

definition check_start_arguments :: "pystr \<Rightarrow> bool \<Rightarrow> bool \<Rightarrow> pystr option \<Rightarrow> unit res" where
  "check_start_arguments profile_name open_session root_session parent =
     bindE (validate_profile_name profile_name) (\<lambda>_.
     if root_session then
       (case parent of
          None \<Rightarrow> Inl (ValueError ''a root worker requires an open parent session'')
        | Some p \<Rightarrow>
            if \<not> open_session then Inl (ValueError ''a root worker requires an open parent session'')
            else validate_session_id p)
     else guardE (parent = None) (ValueError ''a normal worker cannot have a parent session''))"

fun json_str :: "json \<Rightarrow> pystr" where
  "json_str (JStr s) = s"
| "json_str v = type_name v"

fun json_int :: "json \<Rightarrow> int" where
  "json_int (JInt i) = i"
| "json_int v = 0"

definition opened_record :: "start_env \<Rightarrow> payload \<Rightarrow> session_record \<Rightarrow> session_record res" where
  "opened_record env opened r =
     (if pget opened ''state'' \<noteq> JStr ''ready''
      then Inl (BrokerRequestError ''worker did not reach the ready state'')
      else case pget opened ''effective_user'' of
        JStr (e # eu) \<Rightarrow>
          (case pget opened ''ssh_user'' of
             JStr (u # su) \<Rightarrow> Inr (with_open_status (u # su) (e # eu) (se_open_at env) r)
           | _ \<Rightarrow> Inl (BrokerRequestError ''worker returned no SSH user''))
      | _ \<Rightarrow> Inl (BrokerRequestError ''worker returned no effective user''))"

text \<open>The body of the \<^verbatim>\<open>try\<close> block up to the point where the handle exists, and from there on.\<close>

definition start_record :: "start_env \<Rightarrow> pystr \<Rightarrow> pystr \<Rightarrow> bool \<Rightarrow> pystr option \<Rightarrow> bool \<times> session_record res" where
  "start_record env sid profile_name root_session parent =
     (case bindE (se_status env) (\<lambda>status. bindE (validate_status status sid profile_name root_session) (\<lambda>_. Inr status)) of
        Inl e \<Rightarrow> (False, Inl e)
      | Inr status \<Rightarrow>
          (case se_connect env of
             Inl e \<Rightarrow> (False, Inl e)
           | Inr _ \<Rightarrow>
               (True, bindE (se_handshake env) (\<lambda>_.
                 Inr \<lparr>sr_session_id = sid, sr_profile_name = profile_name, sr_worker_pid = json_int (pget status ''pid''),
                   sr_worker_pipe = json_str (pget status ''pipe''), sr_state = json_str (pget status ''state''),
                   sr_created_at = se_now env, sr_last_activity = se_now env, sr_ssh_user = None,
                   sr_effective_user = None, sr_root_session = root_session, sr_parent_session_id = parent\<rparr>))))"

definition start_handle :: "start_env \<Rightarrow> bool \<Rightarrow> session_record \<Rightarrow> session_record res" where
  "start_handle env open_session r =
     bindE (snd (worker_request ''worker.ping'' [] (se_fresh env) (se_ping env))) (\<lambda>pong.
     bindE (guardE (equals_int (pget pong ''pid'') (sr_worker_pid r))
       (BrokerRequestError ''worker PID verification failed'')) (\<lambda>_.
     if \<not> open_session then Inr r
     else bindE (snd (worker_request ''worker.open'' [] (se_fresh env) (se_open env))) (\<lambda>opened.
       opened_record env opened r)))"

definition start ::
  "start_env \<Rightarrow> pystr \<Rightarrow> bool \<Rightarrow> bool \<Rightarrow> pystr option \<Rightarrow> supervisor \<Rightarrow> supervisor \<times> session_record res" where
  "start env profile_name open_session root_session parent s =
     (case check_start_arguments profile_name open_session root_session parent of
        Inl e \<Rightarrow> (s, Inl e)
      | Inr _ \<Rightarrow>
          let sid = new_session_id (se_token_hex env);
              uid = sup_next s;
              s1 = (unlink_status sid s)\<lparr>sup_next := Suc uid\<rparr>;
              undo = (\<lambda>conn t. unlink_status sid (terminate_process (se_running env) uid
                       (if conn then close_connection uid t else t)))
          in case start_record env sid profile_name root_session parent of
               (conn, Inl e) \<Rightarrow> (undo conn s1, Inl e)
             | (conn, Inr r) \<Rightarrow>
                 (case start_handle env open_session r of
                    Inl e \<Rightarrow> (undo True (ask_shutdown uid s1), Inl e)
                  | Inr r' \<Rightarrow>
                      let s2 = s1\<lparr>sup_handles := dput sid \<lparr>wh_record = r', wh_uid = uid\<rparr> (sup_handles s1)\<rparr>
                      in (case registry_add r' (sup_registry s2) of
                            Inl e \<Rightarrow> (undo True (ask_shutdown uid s2), Inl e)
                          | Inr reg \<Rightarrow> (s2\<lparr>sup_registry := reg\<rparr>, Inr r'))))"

section \<open>Requests\<close>

definition find_handle :: "pystr \<Rightarrow> supervisor \<Rightarrow> worker_handle res" where
  "find_handle sid s = someE (map_of (sup_handles s) sid) (SessionNotFound (''session does not exist: '' @ sid))"

text \<open>The handle as it is now: its record changes only while it is in the dictionary.\<close>

definition current_handle :: "pystr \<Rightarrow> worker_handle \<Rightarrow> supervisor \<Rightarrow> worker_handle" where
  "current_handle sid h s =
     (case map_of (sup_handles s) sid of
        Some h' \<Rightarrow> if wh_uid h' = wh_uid h then h' else h
      | None \<Rightarrow> h)"

definition is_current :: "pystr \<Rightarrow> worker_handle \<Rightarrow> supervisor \<Rightarrow> bool" where
  "is_current sid h s = (case map_of (sup_handles s) sid of Some h' \<Rightarrow> wh_uid h' = wh_uid h | None \<Rightarrow> False)"

definition update_record_state :: "rat \<Rightarrow> pystr \<Rightarrow> worker_handle \<Rightarrow> pystr \<Rightarrow> supervisor \<Rightarrow> supervisor \<times> unit res" where
  "update_record_state now sid h st s =
     (let updated = with_state st now (wh_record (current_handle sid h s)) in
      if is_current sid h s
      then let s1 = s\<lparr>sup_handles := dput sid \<lparr>wh_record = updated, wh_uid = wh_uid h\<rparr> (sup_handles s)\<rparr>
           in (case registry_replace updated (sup_registry s1) of
                 Inl e \<Rightarrow> (s1, Inl e)
               | Inr reg \<Rightarrow> (s1\<lparr>sup_registry := reg\<rparr>, Inr ()))
      else (s, Inr ()))"

definition invalidate_handle :: "bool \<Rightarrow> pystr \<Rightarrow> worker_handle \<Rightarrow> supervisor \<Rightarrow> supervisor" where
  "invalidate_handle running sid h s =
     unlink_status sid (terminate_process running (wh_uid h) (close_connection (wh_uid h)
       (if is_current sid h s then s\<lparr>sup_handles := ddel sid (sup_handles s)\<rparr> else s)))"

definition settle_request ::
  "rat \<Rightarrow> bool \<Rightarrow> pystr \<Rightarrow> worker_handle \<Rightarrow> payload res \<Rightarrow> supervisor \<Rightarrow> supervisor \<times> payload res" where
  "settle_request now running sid h reply s =
     (case reply of
        Inl (WorkerOperationError code msg st) \<Rightarrow>
          (case (case st of None \<Rightarrow> (s, Inr ()) | Some v \<Rightarrow> update_record_state now sid h v s) of
             (s1, Inl e) \<Rightarrow> (s1, Inl e)
           | (s1, Inr _) \<Rightarrow>
               (if st = Some ''lost'' then invalidate_handle running sid h s1 else s1,
                Inl (WorkerOperationError code msg st)))
      | Inl e \<Rightarrow> (s, Inl e)
      | Inr result \<Rightarrow>
          (case pget result ''state'' of
             JStr v \<Rightarrow>
               if v \<noteq> sr_state (wh_record (current_handle sid h s))
               then (case update_record_state now sid h v s of
                   (s1, Inl e) \<Rightarrow> (s1, Inl e)
                 | (s1, Inr _) \<Rightarrow> (s1, Inr result))
               else (s, Inr result)
           | _ \<Rightarrow> (s, Inr result)))"

definition finish_request ::
  "rat \<Rightarrow> bool \<Rightarrow> pystr \<Rightarrow> worker_handle \<Rightarrow> pystr \<Rightarrow> payload \<Rightarrow> pystr \<Rightarrow> transport \<Rightarrow> supervisor \<Rightarrow> supervisor \<times> payload res" where
  "finish_request now running sid h message_type pl fresh transport s =
     (case worker_request message_type pl fresh transport of
        (cl, x) \<Rightarrow> settle_request now running sid h x (if cl then close_connection (wh_uid h) s else s))"

definition sup_request ::
  "rat \<Rightarrow> bool \<Rightarrow> pystr \<Rightarrow> pystr \<Rightarrow> payload \<Rightarrow> pystr \<Rightarrow> transport \<Rightarrow> supervisor \<Rightarrow> supervisor \<times> payload res" where
  "sup_request now running sid message_type pl fresh transport s =
     (case find_handle sid s of
        Inl e \<Rightarrow> (s, Inl e)
      | Inr h \<Rightarrow> finish_request now running sid h message_type pl fresh transport s)"

section \<open>Listing and closing\<close>

fun refresh_loop :: "rat \<Rightarrow> (nat \<Rightarrow> bool) \<Rightarrow> pystr list \<Rightarrow> supervisor \<Rightarrow> supervisor \<times> unit res" where
  "refresh_loop now running [] s = (s, Inr ())"
| "refresh_loop now running (sid # sids) s =
     (case map_of (sup_handles s) sid of
        None \<Rightarrow> refresh_loop now running sids s
      | Some h \<Rightarrow>
          if \<not> running (wh_uid h) \<and> sr_state (wh_record h) \<noteq> ''lost''
          then (case update_record_state now sid h ''lost'' s of
              (s1, Inl e) \<Rightarrow> (s1, Inl e)
            | (s1, Inr _) \<Rightarrow> refresh_loop now running sids s1)
          else refresh_loop now running sids s)"

definition refresh_dead_workers :: "rat \<Rightarrow> (nat \<Rightarrow> bool) \<Rightarrow> supervisor \<Rightarrow> supervisor \<times> unit res" where
  "refresh_dead_workers now running s = refresh_loop now running (keys (sup_handles s)) s"

definition sup_list :: "rat \<Rightarrow> (nat \<Rightarrow> bool) \<Rightarrow> supervisor \<Rightarrow> supervisor \<times> session_record list res" where
  "sup_list now running s =
     (case refresh_dead_workers now running s of
        (s1, Inl e) \<Rightarrow> (s1, Inl e)
      | (s1, Inr _) \<Rightarrow> (s1, Inr (registry_list (sup_registry s1))))"

definition sup_get :: "rat \<Rightarrow> (nat \<Rightarrow> bool) \<Rightarrow> pystr \<Rightarrow> supervisor \<Rightarrow> supervisor \<times> session_record res" where
  "sup_get now running sid s =
     (case refresh_dead_workers now running s of
        (s1, Inl e) \<Rightarrow> (s1, Inl e)
      | (s1, Inr _) \<Rightarrow> (s1, registry_get sid (sup_registry s1)))"

definition registry_removed :: "pystr \<Rightarrow> supervisor \<Rightarrow> supervisor \<times> session_record res" where
  "registry_removed sid s =
     (case registry_remove sid (sup_registry s) of
        Inl e \<Rightarrow> (s, Inl e)
      | Inr (r, reg) \<Rightarrow> (s\<lparr>sup_registry := reg\<rparr>, Inr r))"

text \<open>Closing one session: the process runs or not, the reply to the shutdown request, and whether
  the process is still there after the wait.\<close>

definition shutdown ::
  "bool \<Rightarrow> pystr \<Rightarrow> transport \<Rightarrow> bool \<Rightarrow> pystr \<Rightarrow> supervisor \<Rightarrow> supervisor \<times> session_record res" where
  "shutdown running fresh transport lingers sid s =
     (case map_of (sup_handles s) sid of
        None \<Rightarrow>
          (case registry_get sid (sup_registry s) of
             Inl e \<Rightarrow> (s, Inl e)
           | Inr r \<Rightarrow>
               if sr_state r = ''lost'' then registry_removed sid s
               else (s, Inl (SessionNotFound (''session does not exist: '' @ sid))))
      | Some h \<Rightarrow>
          let s1 = s\<lparr>sup_handles := ddel sid (sup_handles s)\<rparr>;
              s2 = (if running
                    then (if fst (worker_request ''worker.shutdown'' [] fresh transport)
                          then close_connection (wh_uid h) (ask_shutdown (wh_uid h) s1)
                          else ask_shutdown (wh_uid h) s1)
                    else s1);
              s3 = unlink_status sid (terminate_process lingers (wh_uid h) (close_connection (wh_uid h) s2))
          in registry_removed sid s3)"

fun close_sessions :: "(pystr \<Rightarrow> bool \<times> pystr \<times> transport \<times> bool) \<Rightarrow> pystr list \<Rightarrow> supervisor \<Rightarrow> supervisor \<times> unit res" where
  "close_sessions env [] s = (s, Inr ())"
| "close_sessions env (sid # sids) s =
     (case env sid of (running, fresh, transport, lingers) \<Rightarrow>
        (case shutdown running fresh transport lingers sid s of
           (s1, Inr _) \<Rightarrow> close_sessions env sids s1
         | (s1, Inl (SessionNotFound _)) \<Rightarrow> close_sessions env sids s1
         | (s1, Inl e) \<Rightarrow> (s1, Inl e)))"

definition close_all :: "(pystr \<Rightarrow> bool \<times> pystr \<times> transport \<times> bool) \<Rightarrow> supervisor \<Rightarrow> supervisor \<times> unit res" where
  "close_all env s = close_sessions env (keys (sup_handles s)) s"

section \<open>The invariant\<close>

text \<open>
  Every handle stands for the record that the registry has under its session, every listed session
  without a handle is marked lost, and exactly the root sessions have a parent.
\<close>

definition handles_ok :: "nat \<Rightarrow> registry \<Rightarrow> worker_handle dict \<Rightarrow> bool" where
  "handles_ok n reg hs =
     (distinct (keys hs) \<and>
      (\<forall>k h. map_of hs k = Some h \<longrightarrow> map_of reg k = Some (wh_record h) \<and> wh_uid h < n) \<and>
      (\<forall>k r. map_of reg k = Some r \<and> map_of hs k = None \<longrightarrow> sr_state r = ''lost''))"

definition roots_ok :: "registry \<Rightarrow> bool" where
  "roots_ok reg = (\<forall>k r. map_of reg k = Some r \<longrightarrow> sr_root_session r = (sr_parent_session_id r \<noteq> None))"

definition sup_ok :: "supervisor \<Rightarrow> bool" where
  "sup_ok s = (registry_ok (sup_registry s) \<and> handles_ok (sup_next s) (sup_registry s) (sup_handles s) \<and>
     roots_ok (sup_registry s))"

text \<open>The operations on the outside change nothing that the invariant speaks of.\<close>

lemma outside_fields [simp]:
  "sup_registry (ask_shutdown u s) = sup_registry s" "sup_handles (ask_shutdown u s) = sup_handles s"
  "sup_next (ask_shutdown u s) = sup_next s"
  "sup_registry (close_connection u s) = sup_registry s" "sup_handles (close_connection u s) = sup_handles s"
  "sup_next (close_connection u s) = sup_next s"
  "sup_registry (terminate_process b u s) = sup_registry s" "sup_handles (terminate_process b u s) = sup_handles s"
  "sup_next (terminate_process b u s) = sup_next s"
  "sup_registry (unlink_status k s) = sup_registry s" "sup_handles (unlink_status k s) = sup_handles s"
  "sup_next (unlink_status k s) = sup_next s"
  by (simp_all add: ask_shutdown_def close_connection_def terminate_process_def unlink_status_def)

lemma sup_ok_outside [simp]:
  "sup_ok (ask_shutdown u s) = sup_ok s" "sup_ok (close_connection u s) = sup_ok s"
  "sup_ok (terminate_process b u s) = sup_ok s" "sup_ok (unlink_status k s) = sup_ok s"
  by (simp_all add: sup_ok_def)

lemma sup_ok_new: "sup_ok new_supervisor"
  by (simp add: sup_ok_def new_supervisor_def registry_ok_Nil handles_ok_def roots_ok_def keys_def)

text \<open>Writing the same changed record into both dictionaries, as \<^verbatim>\<open>_update_record_state\<close> does.\<close>

lemma update_record_ok:
  assumes "sup_ok s" and "is_current sid h s"
  shows "\<exists>r. map_of (sup_registry s) sid = Some r \<and>
    update_record_state now sid h st s =
      (s\<lparr>sup_handles := dput sid \<lparr>wh_record = with_state st now r, wh_uid = wh_uid h\<rparr> (sup_handles s),
         sup_registry := dput sid (with_state st now r) (sup_registry s)\<rparr>, Inr ()) \<and>
    sup_ok (fst (update_record_state now sid h st s))"
proof -
  obtain h' where h': "map_of (sup_handles s) sid = Some h'" "wh_uid h' = wh_uid h"
    using assms(2) by (auto simp: is_current_def split: option.splits)
  then have r: "map_of (sup_registry s) sid = Some (wh_record h')" and u: "wh_uid h < sup_next s"
    using assms(1) unfolding sup_ok_def handles_ok_def by metis+
  then have id: "sr_session_id (wh_record h') = sid"
    using assms(1) unfolding sup_ok_def registry_ok_def by blast
  let ?r = "with_state st now (wh_record h')"
  have rid: "sr_session_id ?r = sid" and rroot: "sr_root_session ?r = sr_root_session (wh_record h')"
    "sr_parent_session_id ?r = sr_parent_session_id (wh_record h')"
    using id by (simp_all add: with_state_def)
  have "registry_replace ?r (sup_registry s) = Inr (dput sid ?r (sup_registry s))"
    using r rid by (simp add: registry_replace_def set_keys domIff)
  then have eq: "update_record_state now sid h st s =
      (s\<lparr>sup_handles := dput sid \<lparr>wh_record = ?r, wh_uid = wh_uid h\<rparr> (sup_handles s),
         sup_registry := dput sid ?r (sup_registry s)\<rparr>, Inr ())"
    using assms(2) h' by (simp add: update_record_state_def Let_def current_handle_def)
  have "sup_ok (fst (update_record_state now sid h st s))"
    using assms(1) r rid rroot u unfolding eq
    by (auto simp: sup_ok_def registry_ok_def handles_ok_def roots_ok_def distinct_dput split: if_splits)
  with r eq show ?thesis by blast
qed

lemma update_record_state_ok:
  assumes "sup_ok s"
  shows "sup_ok (fst (update_record_state now sid h st s)) \<and> snd (update_record_state now sid h st s) = Inr ()"
proof (cases "is_current sid h s")
  case True
  with update_record_ok [OF assms True, of now st] show ?thesis by auto
next
  case False
  with assms show ?thesis by (simp add: update_record_state_def)
qed

lemma invalidate_lost_ok:
  assumes "sup_ok s" and "is_current sid h s \<Longrightarrow> \<exists>r. map_of (sup_registry s) sid = Some r \<and> sr_state r = ''lost''"
  shows "sup_ok (invalidate_handle b sid h s)"
proof (cases "is_current sid h s")
  case True
  with assms show ?thesis
    by (auto simp: invalidate_handle_def sup_ok_def handles_ok_def distinct_ddel)
next
  case False
  with assms(1) show ?thesis by (simp add: invalidate_handle_def)
qed

lemma lost_then_invalid_ok:
  assumes "sup_ok s"
  shows "sup_ok (invalidate_handle b sid h (fst (update_record_state now sid h ''lost'' s)))"
proof (rule invalidate_lost_ok)
  show "sup_ok (fst (update_record_state now sid h ''lost'' s))"
    using update_record_state_ok [OF assms] by blast
  assume c: "is_current sid h (fst (update_record_state now sid h ''lost'' s))"
  have "is_current sid h s"
    using c by (cases "is_current sid h s") (auto simp: update_record_state_def)
  from update_record_ok [OF assms this, of now "''lost''"]
  show "\<exists>r. map_of (sup_registry (fst (update_record_state now sid h ''lost'' s))) sid = Some r \<and> sr_state r = ''lost''"
    by (auto simp: with_state_def)
qed

text \<open>How a reply is settled, without the branches that the invariant excludes.\<close>

lemma settle_request_eq:
  assumes "sup_ok s"
  shows "settle_request now b sid h x s =
    ((case x of
        Inl (WorkerOperationError c m (Some v)) \<Rightarrow>
          (if v = ''lost'' then invalidate_handle b sid h else id) (fst (update_record_state now sid h v s))
      | Inl e \<Rightarrow> s
      | Inr r \<Rightarrow>
          (case pget r ''state'' of
             JStr v \<Rightarrow> if v \<noteq> sr_state (wh_record (current_handle sid h s)) then fst (update_record_state now sid h v s) else s
           | _ \<Rightarrow> s)), x)"
proof -
  have upd: "\<exists>s1. update_record_state now sid h v s = (s1, Inr ())" for v
    using update_record_state_ok [OF assms, of now sid h v] by (cases "update_record_state now sid h v s") auto
  show ?thesis
  proof (cases x)
    case (Inl e)
    show ?thesis
    proof (cases "\<exists>c m v. e = WorkerOperationError c m (Some v)")
      case True
      then obtain c m v where "e = WorkerOperationError c m (Some v)" by blast
      with Inl upd [of v] show ?thesis by (auto simp: settle_request_def)
    next
      case False
      with Inl show ?thesis by (cases e) (auto simp: settle_request_def split: option.split)
    qed
  next
    case (Inr r)
    show ?thesis
    proof (cases "pget r ''state''")
      case (JStr v)
      with Inr upd [of v] show ?thesis by (auto simp: settle_request_def)
    qed (use Inr in \<open>simp_all add: settle_request_def\<close>)
  qed
qed

lemma settle_request_ok:
  assumes "sup_ok s"
  shows "sup_ok (fst (settle_request now b sid h x s))"
proof -
  note upd = update_record_state_ok [OF assms, of now sid h]
  show ?thesis
    unfolding settle_request_eq [OF assms]
    using assms upd lost_then_invalid_ok [OF assms]
    by (simp split: sum.split exn.split option.split json.split)
qed

lemma finish_request_ok: "sup_ok s \<Longrightarrow> sup_ok (fst (finish_request now b sid h t p f tr s))"
  by (simp add: finish_request_def settle_request_ok split: prod.split)

lemma sup_request_ok: "sup_ok s \<Longrightarrow> sup_ok (fst (sup_request now b sid t p f tr s))"
  by (simp add: sup_request_def finish_request_ok split: sum.split)

lemma refresh_loop_ok:
  "sup_ok s \<Longrightarrow> sup_ok (fst (refresh_loop now running sids s)) \<and> snd (refresh_loop now running sids s) = Inr ()"
proof (induction now running sids s rule: refresh_loop.induct)
  case (2 now running sid sids s)
  show ?case
  proof (cases "map_of (sup_handles s) sid")
    case None
    with 2 show ?thesis by simp
  next
    case (Some h)
    show ?thesis
    proof (cases "\<not> running (wh_uid h) \<and> sr_state (wh_record h) \<noteq> ''lost''")
      case True
      obtain s1 where u: "update_record_state now sid h ''lost'' s = (s1, Inr ())" "sup_ok s1"
        using update_record_state_ok [OF "2.prems", of now sid h "''lost''"]
        by (cases "update_record_state now sid h ''lost'' s") auto
      with "2.IH"(2) [OF Some True u(1) [symmetric]] Some True show ?thesis by auto
    next
      case False
      with "2.IH"(3) [OF Some False "2.prems"] Some show ?thesis by auto
    qed
  qed
qed simp

lemma refresh_ok:
  assumes "sup_ok s"
  shows "\<exists>s1. refresh_dead_workers now running s = (s1, Inr ()) \<and> sup_ok s1"
  using refresh_loop_ok [OF assms, of now running "keys (sup_handles s)"]
  by (cases "refresh_dead_workers now running s") (auto simp: refresh_dead_workers_def)

lemma sup_list_ok: "sup_ok s \<Longrightarrow> sup_ok (fst (sup_list now running s))"
  using refresh_ok [of s now running] by (auto simp: sup_list_def)

lemma sup_get_ok: "sup_ok s \<Longrightarrow> sup_ok (fst (sup_get now running sid s))"
  using refresh_ok [of s now running] by (auto simp: sup_get_def)

lemma start_record_fields:
  assumes "check_start_arguments p os root_session parent = Inr ()" and "start_record env sid p root_session parent = (c, Inr r)"
  shows "sr_session_id r = sid \<and> sr_profile_name r = p \<and> sr_root_session r = root_session \<and> sr_parent_session_id r = parent \<and>
    sr_state r = ''created'' \<and> root_session = (parent \<noteq> None)"
proof -
  have "root_session = (parent \<noteq> None)"
    using assms(1) by (auto simp: check_start_arguments_def bindE_eq_Inr split: if_splits option.splits)
  moreover obtain status where st: "validate_status status sid p root_session = Inr ()"
    and r: "sr_session_id r = sid" "sr_profile_name r = p" "sr_root_session r = root_session" "sr_parent_session_id r = parent"
      "sr_state r = json_str (pget status ''state'')"
    using assms(2) unfolding start_record_def
    by (cases "se_status env"; cases "se_connect env"; cases "se_handshake env")
      (auto simp: bindE_def split: sum.splits)
  moreover have "pget status ''state'' = JStr ''created''"
    using st unfolding validate_status_def by (metis Inl_Inr_False)
  ultimately show ?thesis by simp
qed

lemma start_handle_fields:
  assumes "start_handle env os r = Inr r'"
  shows "sr_session_id r' = sr_session_id r \<and> sr_profile_name r' = sr_profile_name r \<and> sr_root_session r' = sr_root_session r \<and>
    sr_parent_session_id r' = sr_parent_session_id r \<and> sr_state r' = (if os then ''ready'' else sr_state r)"
  using assms
  by (auto simp: start_handle_def opened_record_def with_open_status_def bindE_eq_Inr
      split: if_splits json.splits list.splits)

text \<open>The two ways a start ends: nothing is registered and the worker is gone, or one session is added.\<close>

definition start_failed :: "start_env \<Rightarrow> supervisor \<Rightarrow> supervisor \<Rightarrow> bool" where
  "start_failed env s s' =
     (sup_registry s' = sup_registry s \<and> sup_handles s' = sup_handles s \<and>
      (sup_next s' = sup_next s \<and> s' = s \<or>
       sup_next s' = Suc (sup_next s) \<and> (se_running env \<longrightarrow> sup_next s \<in> set (sup_terminated s')) \<and>
       new_session_id (se_token_hex env) \<in> set (sup_unlinked s')))"

definition start_done ::
  "start_env \<Rightarrow> pystr \<Rightarrow> bool \<Rightarrow> pystr option \<Rightarrow> supervisor \<Rightarrow> session_record \<Rightarrow> supervisor \<Rightarrow> bool" where
  "start_done env p os parent s r s' =
     (sr_session_id r = new_session_id (se_token_hex env) \<and> sr_profile_name r = p \<and>
      sr_parent_session_id r = parent \<and>
      sr_state r = (if os then ''ready'' else ''created'') \<and>
      sr_root_session r = (sr_parent_session_id r \<noteq> None) \<and>
      sup_registry s' = dput (sr_session_id r) r (sup_registry s) \<and>
      sup_handles s' = dput (sr_session_id r) \<lparr>wh_record = r, wh_uid = sup_next s\<rparr> (sup_handles s) \<and>
      sup_next s' = Suc (sup_next s))"

lemma undo_failed:
  assumes "sup_registry t = sup_registry s" "sup_handles t = sup_handles s" "sup_next t = Suc (sup_next s)"
  shows "start_failed env s (unlink_status (new_session_id (se_token_hex env))
    (terminate_process (se_running env) (sup_next s) t))"
  using assms by (simp add: start_failed_def unlink_status_def terminate_process_def)

lemma start_outcome:
  assumes "map_of (sup_registry s) (new_session_id (se_token_hex env)) = None"
  shows "(\<exists>e. snd (start env p os root_session parent s) = Inl e \<and> start_failed env s (fst (start env p os root_session parent s))) \<or>
    (\<exists>r. snd (start env p os root_session parent s) = Inr r \<and> start_done env p os parent s r (fst (start env p os root_session parent s)))"
proof (cases "check_start_arguments p os root_session parent")
  case (Inl e)
  then show ?thesis by (simp add: start_def start_failed_def)
next
  case (Inr u)
  then have args: "check_start_arguments p os root_session parent = Inr ()" by simp
  let ?sid = "new_session_id (se_token_hex env)"
  obtain c x where rec: "start_record env ?sid p root_session parent = (c, x)" by fastforce
  show ?thesis
  proof (cases x)
    case (Inl e)
    with args rec show ?thesis by (auto simp: start_def Let_def intro!: undo_failed)
  next
    case (Inr r)
    note f = start_record_fields [OF args rec [unfolded Inr]]
    show ?thesis
    proof (cases "start_handle env os r")
      case (Inl e)
      with args rec Inr show ?thesis by (auto simp: start_def Let_def intro!: undo_failed)
    next
      case h: (Inr r')
      note g = start_handle_fields [OF h]
      have "registry_add r' (sup_registry s) = Inr (dput ?sid r' (sup_registry s))"
        using assms f g by (simp add: registry_add_def set_keys domIff)
      with args rec Inr h f g show ?thesis by (simp add: start_def Let_def start_done_def)
    qed
  qed
qed

lemma start_done_ok:
  assumes "sup_ok s" and "start_done env p os parent s r s'"
  shows "sup_ok s'"
  using assms
  by (auto simp: sup_ok_def start_done_def registry_ok_def handles_ok_def roots_ok_def distinct_dput less_Suc_eq
      split: if_splits)

lemma start_ok:
  assumes "sup_ok s" and "map_of (sup_registry s) (new_session_id (se_token_hex env)) = None"
  shows "sup_ok (fst (start env p os root_session parent s))"
proof -
  from start_outcome [OF assms(2), of p os root_session parent]
  consider "start_failed env s (fst (start env p os root_session parent s))"
    | r where "start_done env p os parent s r (fst (start env p os root_session parent s))" by blast
  then show ?thesis
  proof cases
    case 1
    with assms(1) show ?thesis
      by (auto simp: start_failed_def sup_ok_def handles_ok_def less_Suc_eq)
  next
    case 2
    with assms(1) show ?thesis by (rule start_done_ok)
  qed
qed

text \<open>Closing.\<close>

lemma shutdown_unknown:
  "map_of (sup_registry s) sid = None \<Longrightarrow> sup_ok s \<Longrightarrow>
    shutdown running fresh tr lingers sid s = (s, Inl (SessionNotFound (''session does not exist: '' @ sid)))"
  by (cases "map_of (sup_handles s) sid")
    (auto simp: shutdown_def registry_get_def sup_ok_def handles_ok_def)

definition session_gone :: "pystr \<Rightarrow> supervisor \<Rightarrow> supervisor \<Rightarrow> bool" where
  "session_gone sid s s' =
     (sup_registry s' = ddel sid (sup_registry s) \<and> sup_handles s' = ddel sid (sup_handles s) \<and> sup_next s' = sup_next s)"

lemma ddel_absent: "map_of d k = None \<Longrightarrow> ddel k d = d"
  by (induction d) (auto simp: ddel_def split: if_splits)

lemma shutdown_known:
  assumes "sup_ok s" and "map_of (sup_registry s) sid = Some r"
  shows "\<exists>s'. shutdown running fresh tr lingers sid s = (s', Inr r) \<and> session_gone sid s s' \<and>
    (\<forall>h. map_of (sup_handles s) sid = Some h \<longrightarrow>
       wh_uid h \<in> set (sup_closed s') \<and> (lingers \<longrightarrow> wh_uid h \<in> set (sup_terminated s')) \<and> sid \<in> set (sup_unlinked s'))"
proof (cases "map_of (sup_handles s) sid")
  case None
  then have "sr_state r = ''lost''" using assms by (auto simp: sup_ok_def handles_ok_def)
  with None assms(2) show ?thesis
    by (simp add: shutdown_def registry_get_def registry_removed_def registry_remove_def session_gone_def ddel_absent)
next
  case (Some h)
  with assms(2) show ?thesis
    by (simp add: shutdown_def Let_def registry_removed_def registry_remove_def session_gone_def
        unlink_status_def terminate_process_def close_connection_def ask_shutdown_def)
qed

lemma session_gone_ok: "sup_ok s \<Longrightarrow> session_gone sid s s' \<Longrightarrow> sup_ok s'"
  by (auto simp: sup_ok_def session_gone_def registry_ok_def handles_ok_def roots_ok_def distinct_ddel split: if_splits)

lemma shutdown_ok: "sup_ok s \<Longrightarrow> sup_ok (fst (shutdown running fresh tr lingers sid s))"
proof (cases "map_of (sup_registry s) sid")
  case (Some r)
  then show "sup_ok s \<Longrightarrow> ?thesis"
    using shutdown_known [of s sid r running fresh tr lingers] session_gone_ok by fastforce
qed (simp add: shutdown_unknown)

lemma close_sessions_ok:
  "sup_ok s \<Longrightarrow> \<exists>s'. close_sessions env sids s = (s', Inr ()) \<and> sup_ok s' \<and>
     map_of (sup_handles s') = (\<lambda>k. if k \<in> set sids then None else map_of (sup_handles s) k)"
proof (induction sids arbitrary: s)
  case (Cons sid sids)
  obtain b f t l where e: "env sid = (b, f, t, l)" by (cases "env sid") auto
  show ?case
  proof (cases "map_of (sup_registry s) sid")
    case None
    then have "map_of (sup_handles s) sid = None"
      using Cons.prems by (cases "map_of (sup_handles s) sid") (auto simp: sup_ok_def handles_ok_def)
    with Cons.IH [OF Cons.prems] Cons.prems None e show ?thesis
      by (auto simp: shutdown_unknown fun_eq_iff)
  next
    case (Some r)
    obtain s1 where s1: "shutdown b f t l sid s = (s1, Inr r)" "session_gone sid s s1"
      using shutdown_known [OF Cons.prems Some] by blast
    from Cons.IH [OF session_gone_ok [OF Cons.prems s1(2)]] s1 e show ?thesis
      by (auto simp: session_gone_def fun_eq_iff)
  qed
qed (simp add: fun_eq_iff)

section \<open>Runs of the supervisor\<close>

text \<open>
  Each call is a step. A request is finished with a handle that was looked up earlier, at any
  time, whatever became of the session in between; a started worker gets an id that is not in use.
\<close>

inductive sup_step :: "supervisor \<Rightarrow> supervisor \<Rightarrow> bool" where
  step_start: "map_of (sup_registry s) (new_session_id (se_token_hex env)) = None \<Longrightarrow>
    sup_step s (fst (start env profile_name open_session root_session parent s))"
| step_request: "sup_step s (fst (finish_request now running sid h message_type pl fresh transport s))"
| step_list: "sup_step s (fst (sup_list now alive s))"
| step_get: "sup_step s (fst (sup_get now alive sid s))"
| step_shutdown: "sup_step s (fst (shutdown running fresh transport lingers sid s))"
| step_close_all: "sup_step s (fst (close_all replies s))"

inductive sup_reachable :: "supervisor \<Rightarrow> bool" where
  reach_new: "sup_reachable new_supervisor"
| reach_step: "sup_reachable s \<Longrightarrow> sup_step s s' \<Longrightarrow> sup_reachable s'"

inductive_cases sup_stepE: "sup_step s s'"

lemma close_all_ok: "sup_ok s \<Longrightarrow> sup_ok (fst (close_all replies s))"
  using close_sessions_ok [of s replies "keys (sup_handles s)"] by (auto simp: close_all_def)

lemma step_ok: "sup_step s s' \<Longrightarrow> sup_ok s \<Longrightarrow> sup_ok s'"
  by (induction rule: sup_step.induct)
    (simp_all add: start_ok finish_request_ok sup_list_ok sup_get_ok shutdown_ok close_all_ok)

lemma reachable_ok: "sup_reachable s \<Longrightarrow> sup_ok s"
  by (induction rule: sup_reachable.induct) (auto simp: sup_ok_new dest: step_ok)

text \<open>A handle whose request was not answered.\<close>

lemma unanswered_lost:
  assumes "sup_ok s" and "is_current sid h s"
    and "worker_request t p f tr = (True, Inl (transport_error t p))"
  shows "\<exists>s' r. finish_request now b sid h t p f tr s = (s', Inl (transport_error t p)) \<and>
    map_of (sup_registry s') sid = Some r \<and> sr_state r = ''lost'' \<and> map_of (sup_handles s') sid = None \<and>
    wh_uid h \<in> set (sup_closed s') \<and> (b \<longrightarrow> wh_uid h \<in> set (sup_terminated s')) \<and> sid \<in> set (sup_unlinked s')"
proof -
  let ?s0 = "close_connection (wh_uid h) s"
  obtain c m where e: "transport_error t p = WorkerOperationError c m (Some ''lost'')"
    by (simp add: transport_error_def)
  have s0: "sup_ok ?s0" and cur: "is_current sid h ?s0"
    using assms(1,2) by (simp_all add: is_current_def)
  obtain r where r: "update_record_state now sid h ''lost'' ?s0 =
      (?s0\<lparr>sup_handles := dput sid \<lparr>wh_record = with_state ''lost'' now r, wh_uid = wh_uid h\<rparr> (sup_handles s),
         sup_registry := dput sid (with_state ''lost'' now r) (sup_registry s)\<rparr>, Inr ())"
    using update_record_ok [OF s0 cur, of now "''lost''"] by auto
  show ?thesis
    using assms(3) r
    by (simp add: finish_request_def settle_request_def e invalidate_handle_def is_current_def
        unlink_status_def terminate_process_def close_connection_def with_state_def)
qed

section \<open>A run\<close>

definition demo_start :: start_env where
  "demo_start = \<lparr>se_token_hex = ''0123456789abcdef'',
     se_status = Inr [(''session_id'', JStr ''sess-0123456789abcdef''), (''profile_name'', JStr ''web''), (''pid'', JInt 7),
       (''pipe'', JStr ''pipe''), (''protocol_version'', JInt BROKER_PROTOCOL_VERSION), (''state'', JStr ''created''),
       (''root_session'', JBool False)],
     se_connect = Inr (), se_handshake = Inr (), se_now = 1,
     se_ping = Reply \<lparr>env_version = 3, env_message_id = ''msg_0001'', env_message_type = ''worker.ping.result'',
       env_payload = [(''pid'', JInt 7)]\<rparr>,
     se_open = TransportError (IpcTimeout ''late''), se_open_at = 2, se_fresh = ''0001'', se_running = True\<rparr>"

definition demo_supervisor :: supervisor where
  "demo_supervisor = fst (start demo_start ''web'' False False None new_supervisor)"

lemma demo_reachable: "sup_reachable demo_supervisor"
proof -
  have "map_of (sup_registry new_supervisor) (new_session_id (se_token_hex demo_start)) = None"
    by (simp add: new_supervisor_def)
  from reach_step [OF reach_new step_start [OF this]] show ?thesis unfolding demo_supervisor_def .
qed

lemma demo_entry:
  "\<exists>r. map_of (sup_registry demo_supervisor) ''sess-0123456789abcdef'' = Some r \<and> sr_parent_session_id r = None"
proof -
  have "map_option sr_parent_session_id (map_of (sup_registry demo_supervisor) ''sess-0123456789abcdef'') = Some None"
    by code_simp
  then show ?thesis by (auto simp: map_option_eq_Some)
qed

lemma demo_current: "\<exists>h. is_current ''sess-0123456789abcdef'' h demo_supervisor"
proof -
  have "map_option wh_uid (map_of (sup_handles demo_supervisor) ''sess-0123456789abcdef'') = Some 0"
    by code_simp
  then show ?thesis by (auto simp: map_option_eq_Some is_current_def)
qed

section \<open>Properties of the supervisor\<close>



text \<open>
  Every listed session can be closed. In a reachable state, closing it succeeds whether its worker
  lives, answers or not; it is then neither listed nor handled, no other session is touched, its
  connection is closed, a process that lingers is terminated and its status file is removed.
\<close>

theorem session_closable:
  assumes "sup_reachable s" and "map_of (sup_registry s) sid = Some r"
  shows "\<exists>s'. shutdown running fresh tr lingers sid s = (s', Inr r) \<and>
    map_of (sup_registry s') = (map_of (sup_registry s))(sid := None) \<and>
    map_of (sup_handles s') = (map_of (sup_handles s))(sid := None) \<and>
    (\<forall>h. map_of (sup_handles s) sid = Some h \<longrightarrow>
       wh_uid h \<in> set (sup_closed s') \<and> (lingers \<longrightarrow> wh_uid h \<in> set (sup_terminated s')) \<and> sid \<in> set (sup_unlinked s'))"
proof -
  obtain s' where "shutdown running fresh tr lingers sid s = (s', Inr r)" "session_gone sid s s'"
    "\<forall>h. map_of (sup_handles s) sid = Some h \<longrightarrow>
       wh_uid h \<in> set (sup_closed s') \<and> (lingers \<longrightarrow> wh_uid h \<in> set (sup_terminated s')) \<and> sid \<in> set (sup_unlinked s')"
    using shutdown_known [OF reachable_ok [OF assms(1)] assms(2)] by blast
  then show ?thesis by (auto simp: session_gone_def fun_eq_iff)
qed

theorem session_closable_witness:
  "\<exists>s' r. shutdown True ''0002'' (TransportError (IpcClosed ''gone'')) True ''sess-0123456789abcdef'' demo_supervisor = (s', Inr r) \<and>
    map_of (sup_registry s') ''sess-0123456789abcdef'' = None"
proof -
  obtain r where "map_of (sup_registry demo_supervisor) ''sess-0123456789abcdef'' = Some r"
    using demo_entry by blast
  from session_closable [OF demo_reachable this, of True "''0002''" "TransportError (IpcClosed ''gone'')" True]
  show ?thesis by auto
qed





end
