(* ===== verification/Broker_Server.thy ===== *)
theory Broker_Server
  imports Broker_Supervisor
begin

text \<open>
  \<^verbatim>\<open>broker/server.py\<close>: what the broker answers to a request of a client. The state is the supervisor
  and the stop flag. Everything that the outside contributes to one request (the clock and which
  workers live at each refresh, the reply of the worker, how a worker start goes) is the argument
  \<open>env\<close>. The accept loop and the threads are not modelled; that requests interleave is the
  subject of \<open>Broker_Supervisor\<close>.
\<close>

record broker_server =
  bs_supervisor :: supervisor
  bs_stop :: bool

record server_env =
  sv_pid :: int
  sv_current_user_only :: bool
  sv_start :: start_env
  sv_first :: "rat \<times> (nat \<Rightarrow> bool)"
  sv_second :: "rat \<times> (nat \<Rightarrow> bool)"
  sv_now :: rat
  sv_running :: bool
  sv_fresh :: pystr
  sv_transport :: transport
  sv_lingers :: bool

type_synonym 'a broker_op = "broker_server \<Rightarrow> broker_server \<times> 'a res"

definition on_supervisor :: "(supervisor \<Rightarrow> supervisor \<times> 'a res) \<Rightarrow> 'a broker_op" where
  "on_supervisor f b = (case f (bs_supervisor b) of (s, x) \<Rightarrow> (b\<lparr>bs_supervisor := s\<rparr>, x))"

definition stop :: "unit broker_op" where
  "stop b = (b\<lparr>bs_stop := True\<rparr>, Inr ())"

section \<open>Checks\<close>

definition require_fields :: "payload \<Rightarrow> pystr set \<Rightarrow> pystr set \<Rightarrow> unit res" where
  "require_fields pl required optional =
     guardE (required \<subseteq> set (keys pl) \<and> set (keys pl) \<subseteq> required \<union> optional)
       (ValueError ''request payload fields do not match the operation'')"

definition elevation_fields :: "pystr \<Rightarrow> (pystr set \<times> pystr set) res" where
  "elevation_fields action =
     (if action = ''acquire'' \<or> action = ''status'' \<or> action = ''release'' \<or> action = ''open_root_session'' \<or>
         action = ''close_root_session'' then Inr ({}, {})
      else if action = ''exec'' then Inr ({''command''}, {''timeout''})
      else Inl (ValueError (''unsupported elevation action: '' @ action)))"

definition profile_name_value :: "payload \<Rightarrow> pystr res" where
  "profile_name_value pl =
     (case pget pl ''profile_name'' of
        JStr name \<Rightarrow> bindE (validate_profile_name name) (\<lambda>_. Inr name)
      | _ \<Rightarrow> Inl (ValueError ''profile_name must be a string''))"

definition session_id_value :: "payload \<Rightarrow> pystr res" where
  "session_id_value pl =
     (case pget pl ''session_id'' of
        JStr sid \<Rightarrow> bindE (validate_session_id sid) (\<lambda>_. Inr sid)
      | _ \<Rightarrow> Inl (ValueError ''session_id must be a string''))"

definition session_metadata :: "session_record \<Rightarrow> payload \<Rightarrow> payload" where
  "session_metadata r result =
     dmerge (map (\<lambda>k. (k, pget (public_dict r) k))
       [''session_id'', ''profile_name'', ''ssh_user'', ''effective_user'', ''elevated'', ''root_session'']) result"

section \<open>Requests to a session\<close>

definition get_session :: "rat \<times> (nat \<Rightarrow> bool) \<Rightarrow> pystr \<Rightarrow> session_record broker_op" where
  "get_session poll sid = on_supervisor (sup_get (fst poll) (snd poll) sid)"

definition request_session :: "server_env \<Rightarrow> pystr \<Rightarrow> pystr \<Rightarrow> payload \<Rightarrow> payload broker_op" where
  "request_session env sid message_type pl =
     bindS (get_session (sv_second env) sid) (\<lambda>r.
     bindS (on_supervisor (sup_request (sv_now env) (sv_running env) sid message_type pl (sv_fresh env) (sv_transport env)))
       (\<lambda>result. liftS (Inr (session_metadata r result))))"

definition start_session :: "server_env \<Rightarrow> pystr \<Rightarrow> bool \<Rightarrow> bool \<Rightarrow> pystr option \<Rightarrow> session_record broker_op" where
  "start_session env name open_session root_session parent =
     on_supervisor (start (sv_start env) name open_session root_session parent)"

definition shutdown_session :: "server_env \<Rightarrow> pystr \<Rightarrow> session_record broker_op" where
  "shutdown_session env sid =
     on_supervisor (shutdown (sv_running env) (sv_fresh env) (sv_transport env) (sv_lingers env) sid)"

definition handle_rediscover :: "server_env \<Rightarrow> payload \<Rightarrow> payload broker_op" where
  "handle_rediscover env pl =
     bindS (liftS (require_fields pl {''session_id''} {})) (\<lambda>_.
     bindS (liftS (session_id_value pl)) (\<lambda>sid.
     bindS (get_session (sv_first env) sid) (\<lambda>r.
     let marks = [(''rediscovered'', JBool True), (''command_retried'', JBool False)] in
     if sr_state r = ''lost''
     then liftS (Inr (dmerge (session_metadata r [(''pid'', JInt (sr_worker_pid r)), (''state'', JStr ''lost'')]) marks))
     else bindS (request_session env sid ''worker.status'' []) (\<lambda>result. liftS (Inr (dmerge result marks))))))"

definition exec_payload :: "payload \<Rightarrow> payload res" where
  "exec_payload pl =
     (case pget pl ''command'' of
        JStr command \<Rightarrow>
          (case pget pl ''timeout'' of
             JNull \<Rightarrow> Inr [(''command'', JStr command)]
           | JInt i \<Rightarrow> Inr [(''command'', JStr command), (''timeout'', JInt i)]
           | JFloat f \<Rightarrow> Inr [(''command'', JStr command), (''timeout'', JFloat f)]
           | _ \<Rightarrow> Inl (ValueError ''timeout must be a number''))
      | _ \<Rightarrow> Inl (ValueError ''command must be a string''))"

definition handle_exec :: "server_env \<Rightarrow> payload \<Rightarrow> payload broker_op" where
  "handle_exec env pl =
     bindS (liftS (require_fields pl {''session_id'', ''command''} {''timeout''})) (\<lambda>_.
     bindS (liftS (session_id_value pl)) (\<lambda>sid.
     bindS (liftS (exec_payload pl)) (\<lambda>body.
     request_session env sid ''worker.exec'' body)))"

definition handle_forward :: "server_env \<Rightarrow> pystr \<Rightarrow> payload \<Rightarrow> payload broker_op" where
  "handle_forward env worker_type pl =
     bindS (liftS (guardE (''session_id'' \<in> set (keys pl)) (ValueError ''session_id is required''))) (\<lambda>_.
     bindS (liftS (session_id_value pl)) (\<lambda>sid.
     request_session env sid worker_type (ddel ''session_id'' pl)))"

definition open_root_session :: "server_env \<Rightarrow> pystr \<Rightarrow> session_record \<Rightarrow> payload broker_op" where
  "open_root_session env sid r =
     (if sr_root_session r then liftS (Inl (BrokerRequestError ''a root session cannot open another root session''))
      else bindS (start_session env (sr_profile_name r) True True (Some sid)) (\<lambda>opened.
        liftS (Inr (dmerge (public_dict opened) [(''status'', JStr ''opened'')]))))"

definition close_root_session :: "server_env \<Rightarrow> pystr \<Rightarrow> session_record \<Rightarrow> payload broker_op" where
  "close_root_session env sid r =
     (if \<not> sr_root_session r then liftS (Inl (BrokerRequestError ''close_root_session requires a root session ID''))
      else bindS (shutdown_session env sid) (\<lambda>c.
        liftS (Inr (session_metadata c
          [(''status'', JStr ''closed''), (''root_session'', JBool True), (''elevated'', JBool True)]))))"

definition handle_elevation :: "server_env \<Rightarrow> payload \<Rightarrow> payload broker_op" where
  "handle_elevation env pl =
     (case pget pl ''action'' of
        JStr action \<Rightarrow>
          bindS (liftS (elevation_fields action)) (\<lambda>(required, optional).
          bindS (liftS (require_fields pl (required \<union> {''action'', ''session_id''}) optional)) (\<lambda>_.
          bindS (liftS (session_id_value pl)) (\<lambda>sid.
          bindS (get_session (sv_first env) sid) (\<lambda>r.
          if action = ''open_root_session'' then open_root_session env sid r
          else if action = ''close_root_session'' then close_root_session env sid r
          else if sr_root_session r
          then liftS (Inl (BrokerRequestError ''sudo cache actions require a normal session ID''))
          else request_session env sid ''worker.elevation'' (ddel ''session_id'' pl)))))
      | _ \<Rightarrow> liftS (Inl (ValueError ''elevation action must be a string'')))"

section \<open>Dispatch\<close>

definition handle_create :: "server_env \<Rightarrow> bool \<Rightarrow> payload \<Rightarrow> payload broker_op" where
  "handle_create env open_session pl =
     bindS (liftS (require_fields pl {''profile_name''} {})) (\<lambda>_.
     bindS (liftS (profile_name_value pl)) (\<lambda>name.
     bindS (start_session env name open_session False None) (\<lambda>r. liftS (Inr (public_dict r)))))"

definition handle_list :: "server_env \<Rightarrow> payload \<Rightarrow> payload broker_op" where
  "handle_list env pl =
     bindS (liftS (require_fields pl {} {})) (\<lambda>_.
     bindS (on_supervisor (sup_list (fst (sv_first env)) (snd (sv_first env)))) (\<lambda>rs.
     liftS (Inr [(''sessions'', JList (map (\<lambda>r. JObj (public_dict r)) rs))])))"

definition handle_status :: "server_env \<Rightarrow> payload \<Rightarrow> payload broker_op" where
  "handle_status env pl =
     bindS (liftS (require_fields pl {''session_id''} {})) (\<lambda>_.
     bindS (liftS (session_id_value pl)) (\<lambda>sid.
     request_session env sid ''worker.status'' []))"

definition handle_close :: "server_env \<Rightarrow> payload \<Rightarrow> payload broker_op" where
  "handle_close env pl =
     bindS (liftS (require_fields pl {''session_id''} {})) (\<lambda>_.
     bindS (liftS (session_id_value pl)) (\<lambda>sid.
     bindS (shutdown_session env sid) (\<lambda>r.
     liftS (Inr (session_metadata r [(''status'', JStr ''closed'')])))))"

definition handle_request :: "server_env \<Rightarrow> pystr \<Rightarrow> payload \<Rightarrow> payload broker_op" where
  "handle_request env message_type pl =
     (if message_type = ''broker.ping'' then
        bindS (liftS (require_fields pl {} {})) (\<lambda>_.
        liftS (Inr [(''pid'', JInt (sv_pid env)), (''protocol_version'', JInt BROKER_PROTOCOL_VERSION),
          (''ipc_current_user_only'', JBool (sv_current_user_only env))]))
      else if message_type = ''session.create'' then handle_create env False pl
      else if message_type = ''session.open'' then handle_create env True pl
      else if message_type = ''session.list'' then handle_list env pl
      else if message_type = ''session.status'' then handle_status env pl
      else if message_type = ''session.rediscover'' then handle_rediscover env pl
      else if message_type = ''session.exec'' then handle_exec env pl
      else if message_type = ''session.terminal'' then handle_forward env ''worker.terminal'' pl
      else if message_type = ''session.files'' then handle_forward env ''worker.files'' pl
      else if message_type = ''session.file_edit'' then handle_forward env ''worker.file_edit'' pl
      else if message_type = ''session.elevation'' then handle_elevation env pl
      else if message_type = ''session.close'' then handle_close env pl
      else if message_type = ''broker.shutdown'' then
        bindS (liftS (require_fields pl {} {})) (\<lambda>_.
        bindS stop (\<lambda>_. liftS (Inr [(''status'', JStr ''closing'')])))
      else liftS (Inl (BrokerRequestError (''unknown broker message type: '' @ message_type))))"

definition error_report :: "exn \<Rightarrow> payload" where
  "error_report e =
     (if is_serverops_error e \<or> is_value_error e
      then [(''code'', JStr (case exn_code e of None \<Rightarrow> ''invalid_request'' | Some c \<Rightarrow> c)), (''message'', JStr (exn_message e))]
      else [(''code'', JStr ''broker_internal_error''), (''message'', JStr ''broker request failed safely'')])"

definition broker_dispatch :: "server_env \<Rightarrow> envelope \<Rightarrow> envelope broker_op" where
  "broker_dispatch env request b =
     (case handle_request env (env_message_type request) (env_payload request) b of
        (b1, Inr result) \<Rightarrow>
          (b1, create (sv_fresh env) (env_message_type request @ ''.result'') result (Some (env_message_id request)))
      | (b1, Inl e) \<Rightarrow> (b1, create (sv_fresh env) ''error'' (error_report e) (Some (env_message_id request))))"

section \<open>The broker runs the supervisor\<close>

text \<open>Every operation of a handler is a step of the supervisor or leaves it alone.\<close>

definition keeps :: "(supervisor \<Rightarrow> bool) \<Rightarrow> 'a broker_op \<Rightarrow> bool" where
  "keeps P m = (\<forall>b. P (bs_supervisor b) \<longrightarrow> P (bs_supervisor (fst (m b))))"

lemma keeps_liftS [simp]: "keeps P (liftS x)"
  by (simp add: keeps_def)

lemma keeps_bindS:
  assumes "keeps P m" and "\<And>a. keeps P (f a)"
  shows "keeps P (bindS m f)"
  unfolding keeps_def
proof (intro allI impI)
  fix b :: broker_server
  assume "P (bs_supervisor b)"
  then show "P (bs_supervisor (fst (bindS m f b)))"
    using assms by (intro bindS_invariant [where P = "\<lambda>b :: broker_server. P (bs_supervisor b)"]) (auto simp: keeps_def)
qed

lemma keeps_on_supervisor: "(\<And>s. P s \<Longrightarrow> P (fst (f s))) \<Longrightarrow> keeps P (on_supervisor f)"
  by (simp add: keeps_def on_supervisor_def split: prod.split) (metis fst_conv)

lemma keeps_stop [simp]: "keeps P stop"
  by (simp add: keeps_def stop_def)

definition fresh_for :: "server_env \<Rightarrow> supervisor \<Rightarrow> bool" where
  "fresh_for env s = (map_of (sup_registry s) (new_session_id (se_token_hex (sv_start env))) = None)"

lemma sup_request_reachable:
  "sup_reachable s \<Longrightarrow> sup_reachable (fst (sup_request now r sid t p f tr s))"
  by (auto simp: sup_request_def intro: reach_step step_request split: sum.split)

lemmas reach_steps =
  reach_step [OF _ step_list] reach_step [OF _ step_get] reach_step [OF _ step_shutdown] sup_request_reachable

text \<open>Which sessions there are and who they are, apart from their state and last activity.\<close>

definition identity :: "session_record \<Rightarrow> session_record" where
  "identity r = r\<lparr>sr_state := [], sr_last_activity := 0\<rparr>"

definition identities :: "supervisor \<Rightarrow> pystr \<Rightarrow> session_record option" where
  "identities s k = map_option identity (map_of (sup_registry s) k)"

lemma identity_with_state [simp]: "identity (with_state st now r) = identity r"
  by (simp add: identity_def with_state_def)

lemma identities_outside [simp]:
  "identities (ask_shutdown u s) = identities s" "identities (close_connection u s) = identities s"
  "identities (terminate_process b u s) = identities s" "identities (unlink_status k s) = identities s"
  by (simp_all add: identities_def fun_eq_iff)

lemma identities_update: "sup_ok s \<Longrightarrow> identities (fst (update_record_state now sid h st s)) = identities s"
proof (cases "is_current sid h s")
  case True
  assume "sup_ok s"
  from update_record_ok [OF this True, of now st] obtain r where
    "map_of (sup_registry s) sid = Some r"
    "sup_registry (fst (update_record_state now sid h st s)) = dput sid (with_state st now r) (sup_registry s)"
    by auto
  then show ?thesis by (simp add: identities_def fun_eq_iff)
qed (simp add: update_record_state_def)

lemma identities_invalidate [simp]: "identities (invalidate_handle b sid h s) = identities s"
  by (simp add: identities_def invalidate_handle_def fun_eq_iff)

lemma identities_settle: "sup_ok s \<Longrightarrow> identities (fst (settle_request now b sid h x s)) = identities s"
  using identities_update [of s now sid h]
  by (simp add: settle_request_eq split: sum.split exn.split option.split json.split)

lemma identities_request: "sup_ok s \<Longrightarrow> identities (fst (sup_request now b sid t p f tr s)) = identities s"
  by (auto simp: sup_request_def finish_request_def identities_settle split: sum.split prod.split)

lemma identities_refresh_loop: "sup_ok s \<Longrightarrow> identities (fst (refresh_loop now running sids s)) = identities s"
proof (induction now running sids s rule: refresh_loop.induct)
  case (2 now running sid sids s)
  show ?case
  proof (cases "map_of (sup_handles s) sid")
    case (Some h)
    obtain s1 where u: "update_record_state now sid h ''lost'' s = (s1, Inr ())" "sup_ok s1"
      using update_record_state_ok [OF "2.prems", of now sid h "''lost''"]
      by (cases "update_record_state now sid h ''lost'' s") auto
    with identities_update [OF "2.prems", of now sid h "''lost''"] 2 Some show ?thesis by auto
  qed (use 2 in simp)
qed simp

lemma identities_get: "sup_ok s \<Longrightarrow> identities (fst (sup_get now running sid s)) = identities s"
  using identities_refresh_loop [of s now running "keys (sup_handles s)"] refresh_ok [of s now running]
  by (auto simp: sup_get_def refresh_dead_workers_def)

lemma identities_list: "sup_ok s \<Longrightarrow> identities (fst (sup_list now running s)) = identities s"
  using identities_refresh_loop [of s now running "keys (sup_handles s)"] refresh_ok [of s now running]
  by (auto simp: sup_list_def refresh_dead_workers_def)

lemma identities_shutdown:
  "sup_ok s \<Longrightarrow> identities (fst (shutdown b f tr l sid s)) = (identities s)(sid := None)"
proof (cases "map_of (sup_registry s) sid")
  case (Some r)
  assume "sup_ok s"
  from shutdown_known [OF this Some, of b f tr l] show ?thesis
    by (auto simp: session_gone_def identities_def fun_eq_iff)
qed (simp add: shutdown_unknown identities_def fun_eq_iff)

text \<open>
  What a request may do to the sessions: those that stay keep their identity, and a new root session
  meets a condition.
\<close>

definition grows :: "(session_record \<Rightarrow> bool) \<Rightarrow> supervisor \<Rightarrow> supervisor \<Rightarrow> bool" where
  "grows C s s' =
     (\<forall>k i. identities s' k = Some i \<longrightarrow>
        identities s k = Some i \<or> identities s k = None \<and> (sr_root_session i \<longrightarrow> C i))"

definition sound_op :: "(session_record \<Rightarrow> bool) \<Rightarrow> supervisor \<Rightarrow> 'a broker_op \<Rightarrow> bool" where
  "sound_op C s0 m = keeps (\<lambda>s. sup_reachable s \<and> grows C s0 s) m"

lemma sound_op_bindS: "sound_op C s0 m \<Longrightarrow> (\<And>a. sound_op C s0 (f a)) \<Longrightarrow> sound_op C s0 (bindS m f)"
  unfolding sound_op_def by (rule keeps_bindS)

lemma sound_op_simps [simp]: "sound_op C s0 (liftS x)" "sound_op C s0 stop"
  by (simp_all add: sound_op_def)

lemma sound_op_step:
  assumes "\<And>s. sup_reachable s \<Longrightarrow> sup_reachable (fst (f s))"
    and "\<And>s k. sup_ok s \<Longrightarrow> identities (fst (f s)) k \<in> {identities s k, None}"
  shows "sound_op C s0 (on_supervisor f)"
  unfolding sound_op_def
proof (rule keeps_on_supervisor)
  fix s
  assume s: "sup_reachable s \<and> grows C s0 s"
  then have "identities (fst (f s)) k = Some i \<Longrightarrow> identities s k = Some i" for k i
    using assms(2) [OF reachable_ok, of s k] by auto
  with s assms(1) show "sup_reachable (fst (f s)) \<and> grows C s0 (fst (f s))"
    by (auto simp: grows_def)
qed

lemma sound_session_ops [simp]:
  "sound_op C s0 (get_session poll sid)" "sound_op C s0 (shutdown_session env sid)"
  "sound_op C s0 (on_supervisor (sup_list now alive))"
  "sound_op C s0 (on_supervisor (sup_request now r sid t p f tr))"
  unfolding get_session_def shutdown_session_def
  by (rule sound_op_step; simp add: reach_steps identities_get identities_list identities_request identities_shutdown)+

lemma sound_handlers [simp]:
  "sound_op C s0 (request_session env sid t p)" "sound_op C s0 (handle_rediscover env p)"
  "sound_op C s0 (handle_exec env p)" "sound_op C s0 (handle_forward env t p)"
  "sound_op C s0 (handle_list env p)" "sound_op C s0 (handle_status env p)" "sound_op C s0 (handle_close env p)"
  "sound_op C s0 (close_root_session env sid r)"
  unfolding request_session_def handle_rediscover_def handle_exec_def handle_forward_def handle_list_def
    handle_status_def handle_close_def close_root_session_def Let_def
  by (auto intro!: sound_op_bindS)

lemma start_grows:
  assumes "sup_reachable s" and "fresh_for env s" and "identities s = identities s0"
    and "\<And>r. parent \<noteq> None \<Longrightarrow> sr_parent_session_id r = parent \<Longrightarrow> sr_profile_name r = p \<Longrightarrow> C r"
  shows "sup_reachable (fst (start (sv_start env) p os root_session parent s)) \<and>
    grows C s0 (fst (start (sv_start env) p os root_session parent s))"
proof
  let ?s = "fst (start (sv_start env) p os root_session parent s)"
  show "sup_reachable ?s"
    using assms(1,2) by (auto simp: fresh_for_def intro: reach_step step_start)
  from start_outcome [OF assms(2) [unfolded fresh_for_def], of p os root_session parent]
  consider "start_failed (sv_start env) s ?s" | r where "start_done (sv_start env) p os parent s r ?s" by blast
  then show "grows C s0 ?s"
  proof cases
    case 1
    then have "identities ?s = identities s" by (simp add: start_failed_def identities_def fun_eq_iff)
    with assms(3) show ?thesis by (simp add: grows_def)
  next
    case 2
    then have id: "identities ?s = (identities s)(sr_session_id r \<mapsto> identity r)"
      by (auto simp: start_done_def identities_def fun_eq_iff)
    have new: "identities s (sr_session_id r) = None"
      using 2 assms(2) by (simp add: start_done_def fresh_for_def identities_def)
    have "sr_root_session (identity r) \<longrightarrow> C (identity r)"
      using 2 assms(4) [of "identity r"] by (auto simp: start_done_def identity_def)
    with id new assms(3) show ?thesis by (auto simp: grows_def)
  qed
qed

text \<open>The condition on a root session: the request asked for it from a listed normal session.\<close>

definition asked_as_root :: "supervisor \<Rightarrow> pystr \<Rightarrow> payload \<Rightarrow> session_record \<Rightarrow> bool" where
  "asked_as_root s t p i =
     (t = ''session.elevation'' \<and> pget p ''action'' = JStr ''open_root_session'' \<and>
      (\<exists>sid r. pget p ''session_id'' = JStr sid \<and> sr_parent_session_id i = Some sid \<and>
         map_of (sup_registry s) sid = Some r \<and> \<not> sr_root_session r \<and> sr_profile_name i = sr_profile_name r))"

definition sound_at :: "(session_record \<Rightarrow> bool) \<Rightarrow> 'a broker_op \<Rightarrow> broker_server \<Rightarrow> bool" where
  "sound_at C m b = (sup_reachable (bs_supervisor (fst (m b))) \<and> grows C (bs_supervisor b) (bs_supervisor (fst (m b))))"

lemma grows_refl: "grows C s s"
  by (simp add: grows_def)

lemma grows_cong: "identities s1 = identities s \<Longrightarrow> grows C s1 s' = grows C s s'"
  by (simp add: grows_def)

lemma sound_op_at: "sound_op C (bs_supervisor b) m \<Longrightarrow> sup_reachable (bs_supervisor b) \<Longrightarrow> sound_at C m b"
  using grows_refl [of C "bs_supervisor b"] unfolding sound_op_def keeps_def sound_at_def by blast

lemma fst_on_supervisor [simp]: "bs_supervisor (fst (on_supervisor f b)) = fst (f (bs_supervisor b))"
  by (simp add: on_supervisor_def split: prod.split)

lemma sound_at_last:
  assumes "sound_at C m b" and "\<And>a s. sound_op C (bs_supervisor b) (f a)"
  shows "sound_at C (bindS m f) b"
  using assms unfolding sound_at_def
  by (intro bindS_invariant [where P = "\<lambda>t :: broker_server. sup_reachable (bs_supervisor t) \<and> grows C (bs_supervisor b) (bs_supervisor t)"])
    (auto simp: sound_op_def keeps_def)

lemma sound_at_lift: "sup_reachable (bs_supervisor b) \<Longrightarrow> (\<And>a. x = Inr a \<Longrightarrow> sound_at C (f a) b) \<Longrightarrow> sound_at C (bindS (liftS x) f) b"
  by (cases x) (auto simp: sound_at_def grows_def)

lemma create_sound:
  assumes "sup_reachable (bs_supervisor b)" and "fresh_for env (bs_supervisor b)"
  shows "sound_at C (handle_create env os p) b"
proof -
  have "sound_at C (start_session env name os False None) b" for name
    using start_grows [OF assms refl, of None name C os False] by (simp add: sound_at_def start_session_def)
  then show ?thesis
    unfolding handle_create_def using assms(1) by (intro sound_at_lift sound_at_last) simp_all
qed

lemma get_session_found:
  assumes "sup_reachable (bs_supervisor b)" and "get_session poll sid b = (b1, Inr r)"
  shows "sup_reachable (bs_supervisor b1) \<and> identities (bs_supervisor b1) = identities (bs_supervisor b) \<and>
    identities (bs_supervisor b) sid = Some (identity r)"
proof -
  have s1: "bs_supervisor b1 = fst (sup_get (fst poll) (snd poll) sid (bs_supervisor b))"
    and r: "snd (sup_get (fst poll) (snd poll) sid (bs_supervisor b)) = Inr r"
    using assms(2) by (auto simp: get_session_def on_supervisor_def split: prod.splits)
  have "map_of (sup_registry (fst (sup_get (fst poll) (snd poll) sid (bs_supervisor b)))) sid = Some r"
    using r by (auto simp: sup_get_def registry_get_def split: prod.splits sum.splits)
  then have "identities (bs_supervisor b1) sid = Some (identity r)" by (simp add: s1 identities_def)
  with assms(1) identities_get [OF reachable_ok [OF assms(1)], of "fst poll" "snd poll" sid] show ?thesis
    by (simp add: s1 reach_steps)
qed

lemma open_root_sound:
  assumes "sup_reachable (bs_supervisor b1) \<and> identities (bs_supervisor b1) = identities (bs_supervisor b) \<and>
      identities (bs_supervisor b) sid = Some (identity r)"
    and "pget p ''action'' = JStr ''open_root_session''" and "pget p ''session_id'' = JStr sid"
    and "fresh_for env (bs_supervisor b)"
  shows "sound_at (asked_as_root (bs_supervisor b) ''session.elevation'' p) (open_root_session env sid r) b1"
    (is "sound_at ?C _ _")
proof (cases "sr_root_session r")
  case True
  with assms(1) show ?thesis by (simp add: open_root_session_def sound_at_def grows_def)
next
  case False
  obtain r0 where r0: "map_of (sup_registry (bs_supervisor b)) sid = Some r0" "identity r0 = identity r"
    using assms(1) by (auto simp: identities_def)
  then have eq: "sr_root_session r0 = sr_root_session r" "sr_profile_name r0 = sr_profile_name r"
    by (auto simp: identity_def dest: arg_cong [where f = sr_root_session] arg_cong [where f = sr_profile_name])
  have fresh: "fresh_for env (bs_supervisor b1)"
    using assms(1,4) by (auto simp: fresh_for_def identities_def fun_eq_iff) (metis option.map_disc_iff)
  have "sound_at ?C (start_session env (sr_profile_name r) True True (Some sid)) b1"
    unfolding sound_at_def start_session_def fst_on_supervisor
    using assms(1,2,3) r0 eq False fresh
    by (intro start_grows) (auto simp: asked_as_root_def)
  with False show ?thesis
    unfolding open_root_session_def by (auto intro: sound_at_last)
qed

lemma elevation_sound:
  assumes "sup_reachable (bs_supervisor b)" and "fresh_for env (bs_supervisor b)"
  shows "sound_at (asked_as_root (bs_supervisor b) ''session.elevation'' p) (handle_elevation env p) b"
    (is "sound_at ?C _ _")
proof (cases "pget p ''action''")
  case (JStr action)
  have get: "sound_at ?C (bindS (get_session (sv_first env) sid) (\<lambda>r.
      if action = ''open_root_session'' then open_root_session env sid r
      else if action = ''close_root_session'' then close_root_session env sid r
      else if sr_root_session r
      then liftS (Inl (BrokerRequestError ''sudo cache actions require a normal session ID''))
      else request_session env sid ''worker.elevation'' (ddel ''session_id'' p))) b"
    if sid: "session_id_value p = Inr sid" for sid
  proof (cases "action = ''open_root_session''")
    case False
    then show ?thesis using assms(1) by (intro sound_op_at sound_op_bindS) auto
  next
    case True
    have ps: "pget p ''session_id'' = JStr sid"
      using sid by (auto simp: session_id_value_def bindE_eq_Inr split: json.splits)
    obtain b1 x where g: "get_session (sv_first env) sid b = (b1, x)" by fastforce
    show ?thesis
    proof (cases x)
      case (Inl e)
      have "sound_at ?C (get_session (sv_first env) sid) b" using assms(1) by (intro sound_op_at) simp_all
      with g Inl show ?thesis by (simp add: sound_at_def bindS_def)
    next
      case (Inr r)
      note f = get_session_found [OF assms(1) g [unfolded Inr]]
      have "sound_at ?C (open_root_session env sid r) b1 \<and> identities (bs_supervisor b1) = identities (bs_supervisor b)"
        using open_root_sound [OF f JStr [unfolded True] ps assms(2)] f by simp
      with g Inr True show ?thesis
        using grows_cong [of "bs_supervisor b1" "bs_supervisor b" ?C] by (simp add: sound_at_def bindS_def)
    qed
  qed
  with JStr show ?thesis
    unfolding handle_elevation_def using assms(1)
    by (auto intro!: sound_at_lift split: prod.split)
qed (use assms(1) in \<open>simp_all add: handle_elevation_def sound_at_def grows_def\<close>)

lemma sound_at_if:
  "(c \<Longrightarrow> sound_at C m b) \<Longrightarrow> (\<not> c \<Longrightarrow> sound_at C n b) \<Longrightarrow> sound_at C (if c then m else n) b"
  by simp

lemma handle_request_sound:
  assumes "sup_reachable (bs_supervisor b)" and "fresh_for env (bs_supervisor b)"
  shows "sound_at (asked_as_root (bs_supervisor b) t p) (handle_request env t p) b"
proof -
  note at = sound_op_at [OF _ assms(1)]
  have el: "t = ''session.elevation'' \<Longrightarrow> sound_at (asked_as_root (bs_supervisor b) t p) (handle_elevation env p) b"
    using elevation_sound [OF assms] by simp
  show ?thesis
    unfolding handle_request_def
    by (intro sound_at_if)
      (erule el | rule create_sound [OF assms] at sound_handlers sound_op_simps sound_op_bindS)+
qed

section \<open>Properties of the broker\<close>

text \<open>
  C22: a root session comes only from a normal one. Whatever a client sends, the supervisor stays in a
  reachable state, every session that stays keeps its identity, and a root session that was not there
  before was asked for by an \<open>open_root_session\<close> request that named a listed session without root
  rights, whose profile it has and whose id is its parent.
\<close>

theorem root_needs_normal_parent:
  assumes "sup_reachable (bs_supervisor b)" and "fresh_for env (bs_supervisor b)"
    and "broker_dispatch env request b = (b', x)"
  shows "sup_reachable (bs_supervisor b') \<and>
    grows (asked_as_root (bs_supervisor b) (env_message_type request) (env_payload request)) (bs_supervisor b) (bs_supervisor b')"
proof -
  have "b' = fst (handle_request env (env_message_type request) (env_payload request) b)"
    using assms(3) by (auto simp: broker_dispatch_def split: prod.splits sum.splits)
  with handle_request_sound [OF assms(1,2)] show ?thesis by (simp add: sound_at_def)
qed

definition demo_env :: server_env where
  "demo_env = \<lparr>sv_pid = 5, sv_current_user_only = True, sv_start = demo_start\<lparr>se_token_hex := ''00000000000000aa''\<rparr>,
     sv_first = (3, \<lambda>_. True), sv_second = (3, \<lambda>_. True), sv_now = 4, sv_running = True, sv_fresh = ''0009'',
     sv_transport = TransportError (IpcTimeout ''late''), sv_lingers = False\<rparr>"

definition demo_broker :: broker_server where
  "demo_broker = \<lparr>bs_supervisor = demo_supervisor, bs_stop = False\<rparr>"

definition demo_request :: "pystr \<Rightarrow> payload \<Rightarrow> envelope" where
  "demo_request t p = \<lparr>env_version = 3, env_message_id = ''msg_0009'', env_message_type = t, env_payload = p\<rparr>"

theorem root_needs_normal_parent_witness:
  "fresh_for demo_env demo_supervisor \<and>
   sup_reachable (bs_supervisor (fst (broker_dispatch demo_env
     (demo_request ''session.close'' [(''session_id'', JStr ''sess-0123456789abcdef'')]) demo_broker)))"
proof -
  have "map_option sr_root_session (map_of (sup_registry demo_supervisor) ''sess-00000000000000aa'') = None" by code_simp
  then have f: "fresh_for demo_env (bs_supervisor demo_broker)"
    by (simp add: fresh_for_def demo_env_def demo_broker_def new_session_id_def)
  have r: "sup_reachable (bs_supervisor demo_broker)" using demo_reachable by (simp add: demo_broker_def)
  from root_needs_normal_parent [OF r f prod.collapse [symmetric]] f show ?thesis by (simp add: demo_broker_def)
qed

section \<open>Every request is answered\<close>

definition BROKER_TYPES :: "pystr list" where
  "BROKER_TYPES = [''broker.ping'', ''session.create'', ''session.open'', ''session.list'', ''session.status'',
     ''session.rediscover'', ''session.exec'', ''session.terminal'', ''session.files'', ''session.file_edit'',
     ''session.elevation'', ''session.close'', ''broker.shutdown'']"

lemma handled_type: "handle_request env t p b = (b', Inr r) \<Longrightarrow> t \<in> set BROKER_TYPES"
  unfolding handle_request_def BROKER_TYPES_def
  by (rule ccontr) simp

lemma result_type_valid: "t \<in> set BROKER_TYPES \<Longrightarrow> MESSAGE_TYPE (t @ ''.result'') \<and> t @ ''.result'' \<noteq> ''error''"
proof -
  have "list_all (\<lambda>t. MESSAGE_TYPE (t @ ''.result'') \<and> t @ ''.result'' \<noteq> ''error'') BROKER_TYPES" by code_simp
  then show "t \<in> set BROKER_TYPES \<Longrightarrow> ?thesis" by (simp add: list_all_iff)
qed

lemma error_report_ok: "\<exists>c m. error_report e = [(''code'', JStr c), (''message'', JStr m)]"
  by (simp add: error_report_def)

lemma create_reply:
  "MESSAGE_TYPE t \<Longrightarrow> MESSAGE_ID i \<Longrightarrow> create g t p (Some i) =
     Inr \<lparr>env_version = BROKER_PROTOCOL_VERSION, env_message_id = i, env_message_type = t, env_payload = p\<rparr>"
  by (cases i) (simp_all add: create_def new_envelope_def match_text_def MESSAGE_ID_def)

lemma dispatch_reply:
  assumes "MESSAGE_ID i" and "env_message_id request = i"
  shows "\<exists>b' resp. broker_dispatch env request b = (b', Inr resp) \<and> env_message_id resp = i \<and>
    (env_message_type resp = env_message_type request @ ''.result'' \<and> env_message_type resp \<noteq> ''error'' \<or>
     env_message_type resp = ''error'' \<and> (\<exists>c m. env_payload resp = [(''code'', JStr c), (''message'', JStr m)]))"
proof -
  obtain b1 x where h: "handle_request env (env_message_type request) (env_payload request) b = (b1, x)" by fastforce
  show ?thesis
  proof (cases x)
    case (Inr r)
    with h have "MESSAGE_TYPE (env_message_type request @ ''.result'') \<and> env_message_type request @ ''.result'' \<noteq> ''error''"
      using result_type_valid [OF handled_type] by simp
    with Inr h assms show ?thesis by (simp add: broker_dispatch_def create_reply)
  next
    case (Inl e)
    have "MESSAGE_TYPE ''error''" by code_simp
    with Inl h assms error_report_ok [of e] show ?thesis by (auto simp: broker_dispatch_def create_reply)
  qed
qed

text \<open>
  C23: the broker answers every request in a form its client accepts. For any type and payload, known or
  not, dispatch returns an envelope with the id of the request, and the client that receives it ends
  with the broker's result or with the error the broker named, on a connection that stays open.
\<close>

theorem every_request_answered:
  assumes "MESSAGE_TYPE t" and "MESSAGE_ID (''msg_'' @ f)"
    and "request = \<lparr>env_version = BROKER_PROTOCOL_VERSION, env_message_id = ''msg_'' @ f, env_message_type = t, env_payload = p\<rparr>"
  shows "\<exists>b' resp x. broker_dispatch env request b = (b', Inr resp) \<and>
    client_request t p f (Reply resp) = (False, x) \<and>
    (x = Inr (env_payload resp) \<or> (\<exists>c m. x = Inl (BrokerRemoteError c m)))"
proof -
  have "env_message_id request = ''msg_'' @ f" using assms(3) by simp
  from dispatch_reply [OF assms(2) this, of env b] obtain b' resp where
    d: "broker_dispatch env request b = (b', Inr resp)" "env_message_id resp = ''msg_'' @ f" and
    or: "env_message_type resp = t @ ''.result'' \<and> env_message_type resp \<noteq> ''error'' \<or>
      env_message_type resp = ''error'' \<and> (\<exists>c m. env_payload resp = [(''code'', JStr c), (''message'', JStr m)])"
    using assms(3) by auto
  from or have "\<exists>x. client_request t p f (Reply resp) = (False, x) \<and>
      (x = Inr (env_payload resp) \<or> (\<exists>c m. x = Inl (BrokerRemoteError c m)))"
    using d(2) create_valid(1) [OF assms(1,2)]
    by (auto simp: client_request_def client_error_def pget_default_def)
  with d show ?thesis by blast
qed

theorem every_request_answered_witness:
  "\<exists>b' resp x. broker_dispatch demo_env (demo_request ''session.unknown'' []) demo_broker = (b', Inr resp) \<and>
    client_request ''session.unknown'' [] ''0009'' (Reply resp) = (False, x)"
proof -
  have "MESSAGE_TYPE ''session.unknown''" "MESSAGE_ID (''msg_'' @ ''0009'')" by code_simp+
  from every_request_answered [OF this refl, where p = "[]" and env = demo_env and b = demo_broker] show ?thesis
    by (auto simp: demo_request_def BROKER_PROTOCOL_VERSION_def)
qed

end
