(* ===== verification/Runtime_Dir.thy ===== *)
theory Runtime_Dir
  imports Ipc_Messages Broker_Model "HOL-Library.Char_ord" "HOL-Library.List_Lexorder"
begin

text \<open>
  \<^verbatim>\<open>runtime.py\<close>: the status files by which broker and workers are found, and the clean-up at the
  start of a broker, with \<^verbatim>\<open>_process_is_alive\<close> of \<^verbatim>\<open>broker/server.py\<close>. The directory of the workers
  maps file names to their bytes, \<open>None\<close> for a file that the system refuses to read. The system calls
  of the atomic write (temporary file, flush, access lists) are not modelled.
\<close>

definition MAX_RUNTIME_JSON_BYTES :: nat where
  "MAX_RUNTIME_JSON_BYTES = 65536"

record stale_runtime_cleanup =
  rc_broker_status_removed :: bool
  rc_dead_removed :: "pystr list"
  rc_live_preserved :: "pystr list"
  rc_unreadable_preserved :: "pystr list"

text \<open>The hook of this module differs from the one of the messages in the exception only.\<close>

definition reject_runtime_duplicates :: "json \<Rightarrow> json res" where
  "reject_runtime_duplicates v =
     (case checked_json v of
        Inr d \<Rightarrow> Inr d
      | Inl e \<Rightarrow> Inl (ValueError (''duplicate runtime status field: '' @
          drop (length ''duplicate JSON field: '') (exn_message e))))"

definition worker_status_name :: "pystr \<Rightarrow> pystr res" where
  "worker_status_name sid = bindE (validate_session_id sid) (\<lambda>_. Inr (sid @ ''.json''))"

definition runtime_content :: "json_codec \<Rightarrow> payload \<Rightarrow> bytes res" where
  "runtime_content codec document =
     bindE (someE (jc_dumps codec (JObj document)) (ValueError ''Out of range float values are not JSON compliant'')) (\<lambda>content.
     if MAX_RUNTIME_JSON_BYTES < length content then Inl (ValueError ''runtime status exceeds its size limit'')
     else Inr content)"

definition read_json :: "json_codec \<Rightarrow> bytes option \<Rightarrow> payload res" where
  "read_json codec file =
     bindE (someE file (OSError ''cannot read'')) (\<lambda>content.
     if content = [] \<or> MAX_RUNTIME_JSON_BYTES < length content
     then Inl (ValueError ''runtime status has an invalid size'')
     else case decode_strict content of
       Inl _ \<Rightarrow> Inl (ValueError ''invalid UTF-8'')
     | Inr text \<Rightarrow>
         bindE (someE (jc_loads codec text) (ValueError ''invalid JSON'')) (\<lambda>v.
         bindE (reject_runtime_duplicates v) (\<lambda>document.
         case document of JObj d \<Rightarrow> Inr d | _ \<Rightarrow> Inl (ValueError ''runtime status must be an object''))))"

section \<open>Clean-up\<close>

text \<open>Opening a process either fails with an error number or gives its exit code.\<close>

definition STILL_ACTIVE :: int where
  "STILL_ACTIVE = 259"

definition process_is_alive :: "int + int \<Rightarrow> bool" where
  "process_is_alive opened = (case opened of Inl winerror \<Rightarrow> winerror \<noteq> 87 | Inr code \<Rightarrow> code = STILL_ACTIVE)"

definition status_pid :: "json_codec \<Rightarrow> bytes option \<Rightarrow> int res" where
  "status_pid codec file =
     bindE (read_json codec file) (\<lambda>document.
     bindE (someE (map_of document ''pid'') (KeyError ''pid'')) (\<lambda>pid.
     case pid of
       JInt i \<Rightarrow> if i < 1 then Inl (ValueError ''worker status has an invalid PID'') else Inr i
     | _ \<Rightarrow> Inl (ValueError ''worker status has an invalid PID'')))"

definition is_status_name :: "pystr \<Rightarrow> bool" where
  "is_status_name name =
     (starts_with ''sess-'' name \<and> drop (length name - 5) name = ''.json'' \<and> length ''sess-.json'' \<le> length name)"

fun clean_worker_statuses ::
  "json_codec \<Rightarrow> (int \<Rightarrow> int + int) \<Rightarrow> pystr list \<Rightarrow> bytes option dict \<Rightarrow> bytes option dict \<times> pystr list \<times> pystr list \<times> pystr list" where
  "clean_worker_statuses codec open_process [] dir = (dir, [], [], [])"
| "clean_worker_statuses codec open_process (name # names) dir =
     (case bindE (someE (map_of dir name) (OSError ''no such file'')) (status_pid codec) of
        Inl _ \<Rightarrow>
          (case clean_worker_statuses codec open_process names dir of (dir', dead, live, unreadable) \<Rightarrow>
             (dir', dead, live, name # unreadable))
      | Inr pid \<Rightarrow>
          if process_is_alive (open_process pid)
          then (case clean_worker_statuses codec open_process names dir of (dir', dead, live, unreadable) \<Rightarrow>
             (dir', dead, name # live, unreadable))
          else (case clean_worker_statuses codec open_process names (ddel name dir) of (dir', dead, live, unreadable) \<Rightarrow>
             (dir', name # dead, live, unreadable)))"

definition clean_stale_statuses ::
  "json_codec \<Rightarrow> (int \<Rightarrow> int + int) \<Rightarrow> bytes option option \<Rightarrow> bytes option dict \<Rightarrow> bytes option dict \<times> stale_runtime_cleanup" where
  "clean_stale_statuses codec open_process broker_status dir =
     (case clean_worker_statuses codec open_process (sort (List.filter is_status_name (keys dir))) dir of
        (dir', dead, live, unreadable) \<Rightarrow>
          (dir', \<lparr>rc_broker_status_removed = (broker_status \<noteq> None), rc_dead_removed = dead, rc_live_preserved = live,
             rc_unreadable_preserved = unreadable\<rparr>))"

section \<open>Only the files of dead workers go\<close>

definition dead_status :: "json_codec \<Rightarrow> (int \<Rightarrow> int + int) \<Rightarrow> bytes option \<Rightarrow> bool" where
  "dead_status codec open_process file =
     (\<exists>pid. status_pid codec file = Inr pid \<and>
        (case open_process pid of Inl winerror \<Rightarrow> winerror = 87 | Inr code \<Rightarrow> code \<noteq> STILL_ACTIVE))"

lemma dead_status_iff:
  "dead_status codec op file = (\<exists>pid. status_pid codec file = Inr pid \<and> \<not> process_is_alive (op pid))"
  by (auto simp: dead_status_def process_is_alive_def split: sum.splits)

lemma clean_worker_statuses_spec:
  assumes "distinct names" and "set names \<subseteq> set (keys dir)" and "distinct (keys dir)"
    and "clean_worker_statuses codec op names dir = (dir', dead, live, unreadable)"
  shows "(\<forall>k. map_of dir' k = (if k \<in> set dead then None else map_of dir k)) \<and>
    (\<forall>k. k \<in> set dead \<longleftrightarrow> k \<in> set names \<and> dead_status codec op (the (map_of dir k))) \<and>
    set dead \<union> set live \<union> set unreadable = set names \<and> length dead + length live + length unreadable = length names"
  using assms
proof (induction names arbitrary: dir dir' dead live unreadable)
  case (Cons name names)
  obtain content where present: "map_of dir name = Some content"
    using Cons.prems(2) by (auto simp: set_keys)
  show ?case
  proof (cases "status_pid codec content")
    case (Inl e)
    then obtain u where "clean_worker_statuses codec op names dir = (dir', dead, live, u)" "unreadable = name # u"
      using Cons.prems(4) present by (auto split: prod.splits)
    with Cons.IH [of dir dir' dead live u] Cons.prems present Inl show ?thesis
      by (auto simp: dead_status_iff)
  next
    case (Inr pid)
    show ?thesis
    proof (cases "process_is_alive (op pid)")
      case True
      then obtain l where "clean_worker_statuses codec op names dir = (dir', dead, l, unreadable)" "live = name # l"
        using Cons.prems(4) present Inr by (auto split: prod.splits)
      with Cons.IH [of dir dir' dead l unreadable] Cons.prems present Inr True show ?thesis
        by (auto simp: dead_status_iff)
    next
      case False
      then obtain d where d: "clean_worker_statuses codec op names (ddel name dir) = (dir', d, live, unreadable)" "dead = name # d"
        using Cons.prems(4) present Inr by (auto split: prod.splits)
      have "set names \<subseteq> set (keys (ddel name dir))"
        using Cons.prems(1,2) by (auto simp: set_keys)
      note ih = Cons.IH [OF _ this distinct_ddel [OF Cons.prems(3)] d(1)]
      have self: "dead_status codec op (the (map_of dir name))"
        using present Inr False by (simp add: dead_status_iff)
      have mem: "k \<in> set d \<longleftrightarrow> k \<in> set names \<and> dead_status codec op (the (map_of dir k))" for k
        using ih Cons.prems(1) by (cases "k = name") auto
      show ?thesis
      proof (intro conjI allI)
        show "map_of dir' k = (if k \<in> set dead then None else map_of dir k)" for k
          using ih Cons.prems(1) d(2) by (cases "k = name") simp_all
        show "k \<in> set dead \<longleftrightarrow> k \<in> set (name # names) \<and> dead_status codec op (the (map_of dir k))" for k
          using mem [of k] self d(2) by (cases "k = name") simp_all
        have "set d \<union> set live \<union> set unreadable = set names" using ih Cons.prems(1) by simp
        then show "set dead \<union> set live \<union> set unreadable = set (name # names)" using d(2) by simp
        show "length dead + length live + length unreadable = length (name # names)"
          using ih Cons.prems(1) d(2) by simp
      qed
    qed
  qed
qed simp

text \<open>
  C27: the clean-up removes the status files of certainly dead workers and nothing else. A worker's file
  goes exactly when it can be read, names a process id of at least 1, and the system says that no
  such process exists or that it has exited; a file that cannot be read, or whose process may live,
  is kept with its content, and every worker file is reported in exactly one of the three lists.
\<close>

theorem cleanup_removes_only_dead:
  assumes "distinct (keys dir)" and "clean_stale_statuses codec op broker_status dir = (dir', report)"
  shows "(\<forall>k. map_of dir' k =
      (if is_status_name k \<and> (\<exists>file. map_of dir k = Some file \<and> dead_status codec op file) then None else map_of dir k)) \<and>
    set (rc_dead_removed report) \<union> set (rc_live_preserved report) \<union> set (rc_unreadable_preserved report) =
      {k \<in> set (keys dir). is_status_name k} \<and>
    length (rc_dead_removed report) + length (rc_live_preserved report) + length (rc_unreadable_preserved report) =
      card {k \<in> set (keys dir). is_status_name k}"
proof -
  let ?names = "sort (List.filter is_status_name (keys dir))"
  obtain dead live un where c: "clean_worker_statuses codec op ?names dir = (dir', dead, live, un)"
    and r: "rc_dead_removed report = dead" "rc_live_preserved report = live" "rc_unreadable_preserved report = un"
    using assms(2) by (auto simp: clean_stale_statuses_def split: prod.splits)
  have d: "distinct ?names" and s: "set ?names = {k \<in> set (keys dir). is_status_name k}" using assms(1) by auto
  then have "length ?names = card {k \<in> set (keys dir). is_status_name k}" using distinct_card [OF d] by simp
  moreover note spec = clean_worker_statuses_spec [OF d _ assms(1) c]
  ultimately have parts: "set dead \<union> set live \<union> set un = {k \<in> set (keys dir). is_status_name k}"
    "length dead + length live + length un = card {k \<in> set (keys dir). is_status_name k}"
    using s by simp_all
  have "k \<in> set dead \<longleftrightarrow> is_status_name k \<and> (\<exists>file. map_of dir k = Some file \<and> dead_status codec op file)" for k
    using spec s by (auto simp: set_keys)
  moreover have "\<forall>k. map_of dir' k = (if k \<in> set dead then None else map_of dir k)" using spec s by simp
  ultimately show ?thesis using parts unfolding r by presburger
qed

theorem cleanup_removes_only_dead_witness:
  "map_of (fst (clean_stale_statuses (\<lparr>jc_dumps = \<lambda>_. None, jc_loads = \<lambda>_. Some (JObj [(''pid'', JInt 7)])\<rparr>)
     (\<lambda>_. Inl 87) None [(''sess-1.json'', Some ''x''), (''sess-2.json'', None)])) ''sess-2.json'' = Some None"
proof -
  let ?dir = "[(''sess-1.json'', Some ''x''), (''sess-2.json'', None)] :: bytes option dict"
  let ?codec = "\<lparr>jc_dumps = \<lambda>_. None, jc_loads = \<lambda>_. Some (JObj [(''pid'', JInt 7)])\<rparr>"
  have "distinct (keys ?dir)" by (simp add: keys_def)
  from cleanup_removes_only_dead [OF this prod.collapse [symmetric], of ?codec "\<lambda>_. Inl 87" None] show ?thesis
    by (simp add: dead_status_def status_pid_def read_json_def)
qed

end
