(* ===== verification/Base64.thy ===== *)
theory Base64
  imports Text_Lib
begin

text \<open>
  \<^verbatim>\<open>base64.b64encode\<close> and \<^verbatim>\<open>base64.b64decode\<close> of the Python library, by which text is carried through a
  shell, with the fact that decoding an encoding gives the bytes back.
\<close>

definition b64_char :: "nat \<Rightarrow> char" where
  "b64_char n =
     (if n < 26 then char_of (65 + n) else if n < 52 then char_of (97 + (n - 26))
      else if n < 62 then char_of (48 + (n - 52)) else if n = 62 then CHR ''+'' else CHR ''/'')"

definition is_b64 :: "char \<Rightarrow> bool" where
  "is_b64 c = (is_alnum c \<or> c = CHR ''+'' \<or> c = CHR ''/'')"

definition b64_value :: "char \<Rightarrow> nat" where
  "b64_value c =
     (if is_upper c then ord c - 65 else if is_lower c then ord c - 97 + 26
      else if is_digit c then ord c - 48 + 52 else if c = CHR ''+'' then 62 else 63)"

fun b64encode :: "bytes \<Rightarrow> pystr" where
  "b64encode [] = []"
| "b64encode [a] = [b64_char (ord a div 4), b64_char (ord a mod 4 * 16), CHR ''='', CHR ''='']"
| "b64encode [a, b] =
     [b64_char (ord a div 4), b64_char (ord a mod 4 * 16 + ord b div 16), b64_char (ord b mod 16 * 4), CHR ''='']"
| "b64encode (a # b # c # r) =
     b64_char (ord a div 4) # b64_char (ord a mod 4 * 16 + ord b div 16) #
     b64_char (ord b mod 16 * 4 + ord c div 64) # b64_char (ord c mod 64) # b64encode r"

text \<open>
  \<^verbatim>\<open>b64decode(text, validate=True)\<close>: digits followed by at most two padding characters, of which
  as many are needed as complete the last group. Padding after complete groups and bits left over
  in the last digit are ignored.
\<close>

fun b64_groups :: "nat \<Rightarrow> pystr \<Rightarrow> bytes option" where
  "b64_groups pad [] = Some []"
| "b64_groups pad [w] = None"
| "b64_groups pad [w, x] =
     (if pad = 2 then Some [char_of (b64_value w * 4 + b64_value x div 16)] else None)"
| "b64_groups pad [w, x, y] =
     (if 1 \<le> pad then Some [char_of (b64_value w * 4 + b64_value x div 16), char_of (b64_value x mod 16 * 16 + b64_value y div 4)]
      else None)"
| "b64_groups pad (w # x # y # z # r) =
     map_option (\<lambda>bs. char_of (b64_value w * 4 + b64_value x div 16) # char_of (b64_value x mod 16 * 16 + b64_value y div 4) #
       char_of (b64_value y mod 4 * 64 + b64_value z) # bs) (b64_groups pad r)"

definition b64decode :: "pystr \<Rightarrow> bytes option" where
  "b64decode s =
     (let digits = takeWhile is_b64 s; padding = dropWhile is_b64 s in
      if padding = [] \<or> padding = ''='' \<or> padding = ''=='' then b64_groups (length padding) digits else None)"

lemma b64_char_ok:
  assumes "n < 64"
  shows "is_b64 (b64_char n)" and "b64_value (b64_char n) = n"
proof -
  consider "n < 26" | "26 \<le> n" "n < 52" | "52 \<le> n" "n < 62" | "n = 62" | "n = 63" using assms by linarith
  then have "is_b64 (b64_char n) \<and> b64_value (b64_char n) = n"
  proof cases
    case 1
    then have "ord (b64_char n) = 65 + n" by (simp add: b64_char_def)
    with 1 show ?thesis by (simp add: is_b64_def is_alnum_def b64_value_def is_upper_def)
  next
    case 2
    then have "ord (b64_char n) = 71 + n" by (simp add: b64_char_def)
    with 2 show ?thesis by (simp add: is_b64_def is_alnum_def b64_value_def is_upper_def is_lower_def)
  next
    case 3
    then have "ord (b64_char n) = n - 4" by (simp add: b64_char_def)
    with 3 show ?thesis by (simp add: is_b64_def is_alnum_def b64_value_def is_upper_def is_lower_def is_digit_def) linarith
  qed (simp_all add: b64_char_def is_b64_def b64_value_def is_upper_def is_lower_def is_digit_def)
  then show "is_b64 (b64_char n)" "b64_value (b64_char n) = n" by simp_all
qed

text \<open>Six bits at a time: the digits of three bytes give them back.\<close>

lemma byte_digits [simp]:
  "ord a div 4 < 64" "ord a mod 4 * 16 < 64" "ord b mod 16 * 4 < 64" "ord c mod 64 < 64"
  "ord a mod 4 * 16 + ord b div 16 < 64" "ord b mod 16 * 4 + ord c div 64 < 64"
  using ord_less_256 [of a] ord_less_256 [of b] ord_less_256 [of c] by linarith+

lemma high_bits [simp]:
  "ord b div 16 div 16 = 0" "ord b div 16 mod 16 = ord b div 16" "ord c div 64 div 4 = 0" "ord c div 64 mod 4 = ord c div 64"
proof -
  have "ord b div 16 < 16" "ord c div 64 < 4" using ord_less_256 [of b] ord_less_256 [of c] by linarith+
  then show "ord b div 16 div 16 = 0" "ord b div 16 mod 16 = ord b div 16" "ord c div 64 div 4 = 0"
    "ord c div 64 mod 4 = ord c div 64" by simp_all
qed

lemma first_byte: "char_of (ord a div 4 * 4 + (ord a mod 4 * 16 + ord b div 16) div 16) = a"
proof -
  have "ord b div 16 < 16" using ord_less_256 [of b] by linarith
  then have "(ord a mod 4 * 16 + ord b div 16) div 16 = ord a mod 4" by simp
  then show ?thesis by simp
qed

lemma second_byte: "char_of ((ord a mod 4 * 16 + ord b div 16) mod 16 * 16 + (ord b mod 16 * 4 + ord c div 64) div 4) = b"
proof -
  have "ord b div 16 < 16" "ord c div 64 < 4" using ord_less_256 [of b] ord_less_256 [of c] by linarith+
  then have "(ord a mod 4 * 16 + ord b div 16) mod 16 = ord b div 16" "(ord b mod 16 * 4 + ord c div 64) div 4 = ord b mod 16"
    by simp_all
  then show ?thesis by simp
qed

lemma third_byte: "char_of ((ord b mod 16 * 4 + ord c div 64) mod 4 * 64 + ord c mod 64) = c"
proof -
  have "ord c div 64 < 4" using ord_less_256 [of c] by linarith
  then have "(ord b mod 16 * 4 + ord c div 64) mod 4 = ord c div 64" by simp
  then show ?thesis by simp
qed

lemma last_bytes:
  "char_of (ord a div 4 * 4 + ord a mod 4 * 16 div 16) = a"
  "char_of ((ord a mod 4 * 16 + ord b div 16) mod 16 * 16 + ord b mod 16 * 4 div 4) = b"
proof -
  have "ord b div 16 < 16" using ord_less_256 [of b] by linarith
  then have "(ord a mod 4 * 16 + ord b div 16) mod 16 = ord b div 16" by simp
  then show "char_of ((ord a mod 4 * 16 + ord b div 16) mod 16 * 16 + ord b mod 16 * 4 div 4) = b" by simp
qed simp

lemma equals_not_b64 [simp]: "\<not> is_b64 (CHR ''='')"
  by (simp add: is_b64_def is_alnum_def is_upper_def is_lower_def is_digit_def)

text \<open>The encoding is digits followed by the padding that its last group needs.\<close>

lemma b64encode_parts:
  "\<exists>digits padding. b64encode bs = digits @ padding \<and> list_all is_b64 digits \<and> padding \<in> {[], ''='', ''==''} \<and>
    b64_groups (length padding) digits = Some bs"
proof (induction bs rule: b64encode.induct)
  case (2 a)
  show ?case
    by (rule exI [of _ "[b64_char (ord a div 4), b64_char (ord a mod 4 * 16)]"], rule exI [of _ "''==''"])
      (simp add: b64_char_ok last_bytes)
next
  case (3 a b)
  show ?case
    by (rule exI [of _ "[b64_char (ord a div 4), b64_char (ord a mod 4 * 16 + ord b div 16), b64_char (ord b mod 16 * 4)]"],
        rule exI [of _ "''=''"])
      (simp add: b64_char_ok first_byte last_bytes)
next
  case (4 a b c r)
  then obtain ds ps where d: "b64encode r = ds @ ps" "list_all is_b64 ds" "ps \<in> {[], ''='', ''==''}"
    "b64_groups (length ps) ds = Some r" by blast
  show ?case
    by (rule exI [of _ "b64_char (ord a div 4) # b64_char (ord a mod 4 * 16 + ord b div 16) #
          b64_char (ord b mod 16 * 4 + ord c div 64) # b64_char (ord c mod 64) # ds"], rule exI [of _ ps])
      (use d in \<open>simp add: b64_char_ok first_byte second_byte third_byte\<close>)
qed simp

lemma b64_roundtrip [simp]: "b64decode (b64encode bs) = Some bs"
proof -
  obtain ds ps where d: "b64encode bs = ds @ ps" "list_all is_b64 ds" "ps \<in> {[], ''='', ''==''}"
    "b64_groups (length ps) ds = Some bs" using b64encode_parts by blast
  have "takeWhile is_b64 (ds @ ps) = ds \<and> dropWhile is_b64 (ds @ ps) = ps"
    using d(2,3) by (auto simp: list_all_iff takeWhile_append dropWhile_append)
  with d show ?thesis by (auto simp: b64decode_def)
qed

lemma b64encode_chars: "c \<in> set (b64encode bs) \<Longrightarrow> is_b64 c \<or> c = CHR ''=''"
  using b64encode_parts [of bs] by (auto simp: list_all_iff)
end
