(* ===== verification/Files_Wire.thy ===== *)
theory Files_Wire
  imports Errors Base64
begin

text \<open>
  \<^verbatim>\<open>files/wire.py\<close>: the answer of the remote file helper. Between two marker lines with the token of
  the command, each line is a key and cells in base 64. Rows of one key keep their order.
\<close>

type_synonym file_wire_response = "bytes list list dict"

record file_wire_command =
  fw_token :: pystr
  fw_command :: pystr

definition WIRE_KEY :: "pystr \<Rightarrow> bool" where
  "WIRE_KEY s =
     (case s of
        [] \<Rightarrow> False
      | c # r \<Rightarrow> is_lower c \<and> length r \<le> 31 \<and> list_all (\<lambda>c. is_lower c \<or> is_digit c \<or> c = CHR ''_'') r)"

definition MAX_WIRE_TEXT_BYTES :: nat where
  "MAX_WIRE_TEXT_BYTES = 8388608"

definition protocol_error :: "pystr \<Rightarrow> exn" where
  "protocol_error message = RemoteFileError ''file_protocol_error'' message"

definition wire_text :: "bytes \<Rightarrow> pystr res" where
  "wire_text v =
     (case decode_strict v of
        Inl _ \<Rightarrow> Inl (protocol_error ''remote file response contains invalid encoded text'')
      | Inr t \<Rightarrow> Inr t)"

definition rows_of :: "pystr \<Rightarrow> file_wire_response \<Rightarrow> bytes list list" where
  "rows_of name resp = (case map_of resp name of None \<Rightarrow> [] | Some rows \<Rightarrow> rows)"

definition one_bytes :: "pystr \<Rightarrow> file_wire_response \<Rightarrow> bytes res" where
  "one_bytes name resp =
     (case rows_of name resp of
        [[cell]] \<Rightarrow> Inr cell
      | _ \<Rightarrow> Inl (protocol_error (''invalid remote field: '' @ name)))"

definition one :: "pystr \<Rightarrow> file_wire_response \<Rightarrow> pystr res" where
  "one name resp = bindE (one_bytes name resp) wire_text"

definition optional_field :: "pystr \<Rightarrow> file_wire_response \<Rightarrow> pystr option res" where
  "optional_field name resp =
     (if rows_of name resp = [] then Inr None else bindE (one name resp) (\<lambda>t. Inr (Some t)))"

definition many :: "pystr \<Rightarrow> nat \<Rightarrow> file_wire_response \<Rightarrow> pystr list list res" where
  "many name width resp =
     (if \<not> list_all (\<lambda>row. length row = width) (rows_of name resp)
      then Inl (protocol_error (''invalid remote rows: '' @ name))
      else mapE (mapE wire_text) (rows_of name resp))"

definition encode_argument :: "pystr \<Rightarrow> pystr" where
  "encode_argument v = b64encode v"

definition decode_cell :: "pystr \<Rightarrow> bytes res" where
  "decode_cell v = someE (b64decode v) (protocol_error ''remote file response contains invalid base64'')"

definition wire_marker :: "pystr \<Rightarrow> pystr \<Rightarrow> pystr" where
  "wire_marker kind token = ''__SERVEROPS_FILE_'' @ kind @ ''_'' @ token @ ''__''"

text \<open>\<^verbatim>\<open>lines.index(marker)\<close>, as the lines before and after the first occurrence.\<close>

fun split_at :: "'a \<Rightarrow> 'a list \<Rightarrow> ('a list \<times> 'a list) option" where
  "split_at m [] = None"
| "split_at m (l # ls) =
     (if l = m then Some ([], ls) else map_option (\<lambda>(before, after). (l # before, after)) (split_at m ls))"

fun parse_rows :: "file_wire_response \<Rightarrow> pystr list \<Rightarrow> file_wire_response res" where
  "parse_rows parsed [] = Inr parsed"
| "parse_rows parsed (line # ls) =
     (case split_on TAB line of
        key # cell # cells \<Rightarrow>
          if WIRE_KEY key
          then bindE (mapE decode_cell (cell # cells)) (\<lambda>values.
            parse_rows (dput key (rows_of key parsed @ [values]) parsed) ls)
          else Inl (protocol_error ''remote file response row is invalid'')
      | _ \<Rightarrow> Inl (protocol_error ''remote file response row is invalid''))"

definition check_wire_status :: "file_wire_response \<Rightarrow> file_wire_response res" where
  "check_wire_status resp =
     bindE (one ''status'' resp) (\<lambda>status.
     if status = ''error''
     then bindE (one ''code'' resp) (\<lambda>code. bindE (one ''message'' resp) (\<lambda>message. Inl (RemoteFileError code message)))
     else if status \<noteq> ''ok'' then Inl (protocol_error ''remote file response status is invalid'')
     else Inr resp)"

definition parse_file_response :: "pystr \<Rightarrow> pystr \<Rightarrow> file_wire_response res" where
  "parse_file_response output_text token =
     (if MAX_WIRE_TEXT_BYTES < length output_text
      then Inl (protocol_error ''remote file response exceeds its limit'')
      else
        let ls = split_on LF (delete_char CR (replace_crlf output_text));
            missing = protocol_error ''remote file response markers are missing''
        in bindE (someE (split_at (wire_marker ''BEGIN'' token) ls) missing) (\<lambda>(_, rest).
           bindE (someE (split_at (wire_marker ''END'' token) rest) missing) (\<lambda>(body, after).
           if list_ex (\<lambda>l. l \<noteq> []) after then Inl (protocol_error ''unexpected data follows file response'')
           else bindE (parse_rows [] body) check_wire_status)))"

section \<open>What the helper writes is what is read\<close>

text \<open>The lines that the shell functions \<^verbatim>\<open>_serverops_row\<close> and \<^verbatim>\<open>_serverops_blob\<close> print.\<close>

definition wire_row :: "pystr \<times> bytes list \<Rightarrow> pystr" where
  "wire_row row = fst row @ concat (map (\<lambda>cell. TAB # b64encode cell) (snd row))"

definition row_ok :: "pystr \<times> bytes list \<Rightarrow> bool" where
  "row_ok row = (WIRE_KEY (fst row) \<and> snd row \<noteq> [])"

definition terminal_lines :: "pystr list \<Rightarrow> pystr" where
  "terminal_lines ls = concat (map (\<lambda>l. l @ [CR, LF]) ls)"

lemma plain_chars:
  "c \<in> set (b64encode bs) \<Longrightarrow> c \<noteq> TAB \<and> c \<noteq> LF \<and> c \<noteq> CR"
  "WIRE_KEY k \<Longrightarrow> c \<in> set k \<Longrightarrow> c \<noteq> TAB \<and> c \<noteq> LF \<and> c \<noteq> CR"
  using b64encode_chars [of c bs]
  by (auto simp: is_b64_def is_alnum_def is_upper_def is_lower_def is_digit_def WIRE_KEY_def list_all_iff split: list.splits)

lemma split_cells: "split_on TAB (k @ concat (map (\<lambda>c. TAB # b64encode c) cells)) = k # map b64encode cells"
  if "TAB \<notin> set k"
  using that
proof (induction cells arbitrary: k)
  case (Cons c cs)
  then have "TAB \<notin> set (b64encode c)" using plain_chars(1) by blast
  with Cons show ?case by (simp add: split_on_append)
qed (simp add: split_on_no_sep)

lemma decode_cells: "mapE decode_cell (map b64encode cells) = Inr cells"
  by (induction cells) (simp_all add: decode_cell_def)

definition add_row :: "file_wire_response \<Rightarrow> pystr \<times> bytes list \<Rightarrow> file_wire_response" where
  "add_row d row = dput (fst row) (rows_of (fst row) d @ [snd row]) d"

lemma parse_rows_wire: "list_all row_ok rows \<Longrightarrow> parse_rows d (map wire_row rows) = Inr (foldl add_row d rows)"
proof (induction rows arbitrary: d)
  case (Cons row rows)
  then have ok: "WIRE_KEY (fst row)" "snd row \<noteq> []" by (auto simp: row_ok_def)
  then have "TAB \<notin> set (fst row)" using plain_chars(2) by blast
  then have "split_on TAB (wire_row row) = fst row # map b64encode (snd row)" by (simp add: wire_row_def split_cells)
  moreover obtain c cs where c: "snd row = c # cs" using ok(2) by (cases "snd row") auto
  ultimately show ?case
    using Cons ok(1) decode_cells [of "c # cs"] by (simp add: add_row_def bindE_def split: sum.splits)
qed simp

lemma rows_of_gathered: "rows_of k (foldl add_row d rows) = rows_of k d @ map snd (filter (\<lambda>r. fst r = k) rows)"
  by (induction rows arbitrary: d) (auto simp: add_row_def rows_of_def)

lemma rows_of_Nil [simp]: "rows_of k [] = []"
  by (simp add: rows_of_def)

lemma replace_crlf_line: "CR \<notin> set l \<Longrightarrow> replace_crlf (l @ CR # LF # s) = l @ LF # replace_crlf s"
  by (induction l rule: replace_crlf.induct) auto

lemma terminal_split:
  "list_all (\<lambda>l. CR \<notin> set l \<and> LF \<notin> set l) ls \<Longrightarrow>
    split_on LF (delete_char CR (replace_crlf (terminal_lines ls))) = ls @ [[]]"
proof (induction ls)
  case (Cons l ls)
  then have "replace_crlf (terminal_lines (l # ls)) = l @ LF # replace_crlf (terminal_lines ls)"
    by (simp add: terminal_lines_def replace_crlf_line)
  moreover have "delete_char CR (l @ LF # s) = l @ LF # delete_char CR s" for s
    using Cons.prems by (auto simp: delete_char_def filter_id_conv)
  ultimately show ?case using Cons by (simp add: split_on_append)
qed (simp add: terminal_lines_def delete_char_def)

lemma split_at_first: "m \<notin> set xs \<Longrightarrow> split_at m (xs @ m # ys) = Some (xs, ys)"
  by (induction xs) auto

lemma wire_row_tab: "row_ok row \<Longrightarrow> TAB \<in> set (wire_row row)"
  by (cases "snd row") (auto simp: wire_row_def row_ok_def)

lemma wire_row_line: "row_ok row \<Longrightarrow> CR \<notin> set (wire_row row) \<and> LF \<notin> set (wire_row row)"
  using plain_chars by (fastforce simp: wire_row_def row_ok_def)

lemma marker_chars: "list_all is_alnum token \<Longrightarrow> TAB \<notin> set (wire_marker kind token) \<and> CR \<notin> set (wire_marker kind token) \<and> LF \<notin> set (wire_marker kind token)"
  if "kind \<in> {''BEGIN'', ''END''}"
  using that by (auto simp: wire_marker_def list_all_iff is_alnum_def is_digit_def is_upper_def is_lower_def)

lemma parse_terminal:
  assumes "list_all row_ok rows" and "list_all is_alnum token"
    and "list_all (\<lambda>l. CR \<notin> set l \<and> LF \<notin> set l \<and> l \<noteq> wire_marker ''BEGIN'' token) noise"
    and "out = terminal_lines (noise @ [wire_marker ''BEGIN'' token] @ map wire_row rows @ [wire_marker ''END'' token])"
    and "length out \<le> MAX_WIRE_TEXT_BYTES"
  shows "parse_file_response out token = check_wire_status (foldl add_row [] rows)"
proof -
  let ?b = "wire_marker ''BEGIN'' token" and ?e = "wire_marker ''END'' token"
  have m: "TAB \<notin> set ?e" "CR \<notin> set ?b" "LF \<notin> set ?b" "CR \<notin> set ?e" "LF \<notin> set ?e"
    using marker_chars [OF _ assms(2)] by auto
  have "list_all (\<lambda>l. CR \<notin> set l \<and> LF \<notin> set l) (noise @ [?b] @ map wire_row rows @ [?e])"
    using assms(1,3) m wire_row_line by (auto simp: list_all_iff)
  then have ls: "split_on LF (delete_char CR (replace_crlf out)) = noise @ ?b # map wire_row rows @ ?e # [[]]"
    using terminal_split unfolding assms(4) by auto
  have "?b \<notin> set noise" using assms(3) by (auto simp: list_all_iff)
  then have s1: "split_at ?b (noise @ ?b # map wire_row rows @ ?e # [[]]) = Some (noise, map wire_row rows @ ?e # [[]])"
    by (rule split_at_first)
  have "?e \<notin> set (map wire_row rows)" using assms(1) m(1) wire_row_tab by (fastforce simp: list_all_iff)
  then have s2: "split_at ?e (map wire_row rows @ ?e # [[]]) = Some (map wire_row rows, [[]])"
    by (rule split_at_first)
  show ?thesis
    using assms(5) by (simp add: parse_file_response_def ls s1 s2 parse_rows_wire [OF assms(1)])
qed

text \<open>
  The answer of the file helper arrives unchanged through the terminal. Any rows whose keys are well
  formed, with any bytes in their cells, written between the markers of this command after any other
  output, come back as the same rows in the same order for each key, when the status row says so.
\<close>

theorem wire_roundtrip:
  assumes "list_all row_ok rows" and "list_all is_alnum token"
    and "map snd (filter (\<lambda>r. fst r = ''status'') rows) = [[''ok'']]"
    and "list_all (\<lambda>l. CR \<notin> set l \<and> LF \<notin> set l \<and> l \<noteq> wire_marker ''BEGIN'' token) noise"
    and "out = terminal_lines (noise @ [wire_marker ''BEGIN'' token] @ map wire_row rows @ [wire_marker ''END'' token])"
    and "length out \<le> MAX_WIRE_TEXT_BYTES"
  shows "\<exists>resp. parse_file_response out token = Inr resp \<and> (\<forall>k. rows_of k resp = map snd (filter (\<lambda>r. fst r = k) rows))"
proof -
  have "list_all ascii ''ok''" by code_simp
  then have "decode_strict ''ok'' = Inr ''ok''" by (rule decode_strict_ascii)
  then have "check_wire_status (foldl add_row [] rows) = Inr (foldl add_row [] rows)"
    using assms(3) by (simp add: check_wire_status_def one_def one_bytes_def rows_of_gathered wire_text_def)
  with parse_terminal [OF assms(1,2,4,5,6)] show ?thesis by (auto simp: rows_of_gathered)
qed

definition demo_rows :: "(pystr \<times> bytes list) list" where
  "demo_rows = [(''status'', [''ok'']), (''path'', [''/srv'']), (''entry'', [''a'', ''file'', [CHR 0x00, CHR 0xFF]])]"

theorem wire_roundtrip_witness:
  "\<exists>resp. parse_file_response (terminal_lines ([''motd''] @ [wire_marker ''BEGIN'' ''ab12''] @ map wire_row demo_rows @
      [wire_marker ''END'' ''ab12''])) ''ab12'' = Inr resp \<and>
    rows_of ''entry'' resp = [[''a'', ''file'', [CHR 0x00, CHR 0xFF]]]"
proof -
  have "list_all row_ok demo_rows" "list_all is_alnum ''ab12''" by code_simp+
  moreover have "map snd (filter (\<lambda>r. fst r = ''status'') demo_rows) = [[''ok'']]" by (simp add: demo_rows_def)
  moreover have "list_all (\<lambda>l. CR \<notin> set l \<and> LF \<notin> set l \<and> l \<noteq> wire_marker ''BEGIN'' ''ab12'') [''motd'']"
    by (simp add: wire_marker_def)
  moreover have "length (terminal_lines ([''motd''] @ [wire_marker ''BEGIN'' ''ab12''] @ map wire_row demo_rows @
      [wire_marker ''END'' ''ab12''])) \<le> MAX_WIRE_TEXT_BYTES"
    by (simp add: terminal_lines_def wire_marker_def demo_rows_def wire_row_def MAX_WIRE_TEXT_BYTES_def)
  ultimately show ?thesis using wire_roundtrip [OF _ _ _ _ refl] by (fastforce simp: demo_rows_def)
qed

end
