(* ===== verification/Files_Shell.thy ===== *)
theory Files_Shell
  imports Files_Wire
begin

text \<open>
  \<^verbatim>\<open>files/shell_protocol.py\<close> and \<^verbatim>\<open>files/shell.py\<close>: the shell commands of the file operations, text by
  text. In a literal below a backquote stands for a single quote and a tilde for a backslash (neither
  occurs in the commands); a line that the source continues with a backslash inside a string literal
  is one line, as it is in the string's value. The random token of a command and SHA-256 are
  arguments.
\<close>

definition sh :: "pystr \<Rightarrow> pystr" where
  "sh s = map (\<lambda>c. if c = CHR ''`'' then SQ else if c = CHR ''~'' then BSL else c) s"

definition script :: "pystr list \<Rightarrow> pystr" where
  "script ls = concat (map (\<lambda>l. sh l @ [LF]) ls)"

section \<open>The protocol of the helper\<close>

definition encoded_roots :: "pystr list \<Rightarrow> pystr" where
  "encoded_roots roots = join [CHR '' ''] (map encode_argument roots)"

definition prologue :: "pystr \<Rightarrow> pystr list \<Rightarrow> pystr" where
  \<open>prologue token roots =
     script
       [''('',
        ''set +e''] @
     sh ''_serverops_begin=`'' @ wire_marker ''BEGIN'' token @ sh ''`'' @ [LF] @
     sh ''_serverops_end=`'' @ wire_marker ''END'' token @ sh ''`'' @ [LF] @
     sh ''_serverops_roots=`'' @ encoded_roots roots @ sh ''`'' @ [LF] @
     script
       [''_serverops_encode() { base64 | tr -d `~r~n`; }'',
        ''_serverops_decode() { printf `%s` "$1" | base64 -d; }'',
        ''_serverops_row() {'',
        ''  _serverops_row_key=$1'',
        ''  shift'',
        ''  printf `%s` "$_serverops_row_key"'',
        ''  for _serverops_row_value in "$@"; do'',
        ''    printf `~t`'',
        ''    printf `%s` "$_serverops_row_value" | _serverops_encode'',
        ''  done'',
        ''  printf `~n`'',
        ''}'',
        ''_serverops_blob() {'',
        ''  printf `%s~t` "$1"'',
        ''  _serverops_encode'',
        ''  printf `~n`'',
        ''}'',
        ''_serverops_error() {'',
        ''  printf `%s~n` "$_serverops_begin"'',
        ''  _serverops_row status error'',
        ''  _serverops_row code "$1"'',
        ''  _serverops_row message "$2"'',
        ''  printf `%s~n` "$_serverops_end"'',
        ''  exit 0'',
        ''}'',
        ''_serverops_success() {'',
        ''  printf `%s~n` "$_serverops_begin"'',
        ''  _serverops_row status ok'',
        ''}'',
        ''_serverops_finish() { printf `%s~n` "$_serverops_end"; exit 0; }'',
        ''_serverops_allowed() {'',
        ''  _serverops_candidate=$1'',
        ''  for _serverops_encoded_root in $_serverops_roots; do'',
        ''    _serverops_root_input=$(_serverops_decode "$_serverops_encoded_root") || return 2'',
        ''    _serverops_root=$(realpath -- "$_serverops_root_input" 2>/dev/null) || return 2'',
        ''    if [ "$_serverops_root" = / ]; then return 0; fi'',
        ''    case "$_serverops_candidate" in'',
        ''      "$_serverops_root"|"$_serverops_root"/*) return 0 ;;'',
        ''    esac'',
        ''  done'',
        ''  return 1'',
        ''}'',
        ''_serverops_is_root() {'',
        ''  _serverops_candidate=$1'',
        ''  for _serverops_encoded_root in $_serverops_roots; do'',
        ''    _serverops_root_input=$(_serverops_decode "$_serverops_encoded_root") || continue'',
        ''    _serverops_root=$(realpath -- "$_serverops_root_input" 2>/dev/null) || continue'',
        ''    [ "$_serverops_candidate" = "$_serverops_root" ] && return 0'',
        ''  done'',
        ''  return 1'',
        ''}'',
        ''_serverops_valid_name() {'',
        ''  [ -n "$1" ] && [ "$1" != . ] && [ "$1" != .. ] && [ "${1#-}" = "$1" ]'',
        ''}'',
        ''_serverops_owned_tree() {'',
        ''  _serverops_foreign=$(find "$1" ! -user "$(id -u)" -print -quit 2>/dev/null) || return 1'',
        ''  [ -z "$_serverops_foreign" ]'',
        ''}'']\<close>

definition wrap :: "pystr \<Rightarrow> pystr list \<Rightarrow> pystr \<Rightarrow> file_wire_command" where
  "wrap token roots body = \<lparr>fw_token = token, fw_command = prologue token roots @ body @ [LF] @ '')'' @ [LF]\<rparr>"

section \<open>Paths\<close>

definition existing :: "pystr \<Rightarrow> pystr" where
  \<open>existing path =
     script
       [[]] @
     sh ''_serverops_path=$(_serverops_decode `'' @ encode_argument path @ sh ''`) ||   _serverops_error invalid_path `Remote path could not be decoded.`'' @ [LF] @
     script
       [''_serverops_resolved=$(realpath -- "$_serverops_path" 2>/dev/null) ||   _serverops_error path_not_found `Remote path could not be resolved.`'',
        ''_serverops_allowed "$_serverops_resolved"'',
        ''_serverops_allowed_status=$?'',
        ''[ "$_serverops_allowed_status" -eq 0 ] ||   _serverops_error path_outside_roots `Remote path is outside allowed roots.`'']\<close>

definition entry_variable :: "pystr \<Rightarrow> pystr" where
  "entry_variable prefix = (if prefix = [] then ''_serverops_'' else ''_serverops_'' @ prefix @ ''_'')"

definition new_entry :: "pystr \<Rightarrow> pystr \<Rightarrow> pystr" where
  \<open>new_entry prefix path =
     (let variable = entry_variable prefix in
     script
       [[]] @
     variable @ sh ''path=$(_serverops_decode `'' @ encode_argument path @ sh ''`) ||   _serverops_error invalid_path `Remote path could not be decoded.`'' @ [LF] @
     variable @ ''parent_input=$(dirname -- "${'' @ variable @ ''path}")'' @ [LF] @
     variable @ ''name=$(basename -- "${'' @ variable @ ''path}")'' @ [LF] @
     ''_serverops_valid_name "${'' @ variable @ sh ''name}" ||   _serverops_error invalid_path `New path name is invalid.`'' @ [LF] @
     variable @ ''parent=$(realpath -- "${'' @ variable @ sh ''parent_input}" 2>/dev/null) ||   _serverops_error parent_not_found `Remote parent directory could not be resolved.`'' @ [LF] @
     ''_serverops_allowed "${'' @ variable @ sh ''parent}" ||   _serverops_error path_outside_roots `Remote parent is outside allowed roots.`'' @ [LF] @
     ''[ -w "${'' @ variable @ sh ''parent}" ] ||   _serverops_error permission_denied `Remote parent directory is not writable.`'' @ [LF] @
     variable @ ''target="${'' @ variable @ ''parent}/${'' @ variable @ ''name}"'' @ [LF] @
     ''if [ -e "${'' @ variable @ ''target}" ] || [ -L "${'' @ variable @ ''target}" ]; then'' @ [LF] @
     script
       [''  _serverops_error destination_exists `Remote destination already exists.`'',
        ''fi''])\<close>

definition entry_reference :: "pystr \<Rightarrow> pystr \<Rightarrow> pystr" where
  \<open>entry_reference prefix path =
     (let variable = ''_serverops_'' @ prefix @ ''_'' in
     script
       [[]] @
     variable @ sh ''path=$(_serverops_decode `'' @ encode_argument path @ sh ''`) ||   _serverops_error invalid_path `Remote path could not be decoded.`'' @ [LF] @
     variable @ ''parent_input=$(dirname -- "${'' @ variable @ ''path}")'' @ [LF] @
     variable @ ''name=$(basename -- "${'' @ variable @ ''path}")'' @ [LF] @
     ''_serverops_valid_name "${'' @ variable @ sh ''name}" ||   _serverops_error invalid_path `Remote path name is invalid.`'' @ [LF] @
     variable @ ''parent=$(realpath -- "${'' @ variable @ sh ''parent_input}" 2>/dev/null) ||   _serverops_error parent_not_found `Remote parent directory could not be resolved.`'' @ [LF] @
     variable @ ''entry="${'' @ variable @ ''parent}/${'' @ variable @ ''name}"'' @ [LF] @
     variable @ ''resolved=$(realpath -- "${'' @ variable @ sh ''entry}" 2>/dev/null) ||   _serverops_error path_not_found `Remote path could not be resolved.`'' @ [LF] @
     ''_serverops_allowed "${'' @ variable @ sh ''parent}" ||   _serverops_error path_outside_roots `Remote parent is outside allowed roots.`'' @ [LF] @
     ''_serverops_allowed "${'' @ variable @ sh ''resolved}" ||   _serverops_error path_outside_roots `Remote path target is outside allowed roots.`'' @ [LF] @
     variable @ ''owner=$(stat -c %u -- "${'' @ variable @ sh ''entry}" 2>/dev/null) ||   _serverops_error stat_failed `Remote ownership could not be read.`'' @ [LF] @
     ''[ "${'' @ variable @ sh ''owner}" = "$(id -u)" ] ||   _serverops_error ownership_unsupported `Structured edits require paths owned by the SSH user.`'' @ [LF])\<close>

section \<open>Reading\<close>

definition list_directory :: "pystr \<Rightarrow> pystr list \<Rightarrow> pystr \<Rightarrow> int \<Rightarrow> file_wire_command" where
  \<open>list_directory token roots path limit =
     wrap token roots (existing path @
     script
       [[],
        ''[ -d "$_serverops_resolved" ] || _serverops_error not_a_directory `Remote path is not a directory.`'',
        ''_serverops_success'',
        ''_serverops_row path "$_serverops_resolved"'',
        ''_serverops_count=0'',
        ''_serverops_truncated=false'',
        ''while IFS= read -r -d `` _serverops_child; do''] @
     ''  if [ "$_serverops_count" -ge '' @ dec_int limit @ '' ]; then'' @ [LF] @
     script
       [''    _serverops_truncated=true'',
        ''    break'',
        ''  fi'',
        ''  _serverops_name=${_serverops_child##*/}'',
        ''  if [ -L "$_serverops_child" ]; then _serverops_type=symlink'',
        ''  elif [ -d "$_serverops_child" ]; then _serverops_type=directory'',
        ''  elif [ -f "$_serverops_child" ]; then _serverops_type=file'',
        ''  else _serverops_type=other'',
        ''  fi'',
        ''  _serverops_size=$(stat -c %s -- "$_serverops_child" 2>/dev/null) || _serverops_size=0'',
        ''  _serverops_mtime=$(stat -c %Y -- "$_serverops_child" 2>/dev/null) || _serverops_mtime=0'',
        ''  _serverops_mode=$(stat -c %a -- "$_serverops_child" 2>/dev/null) || _serverops_mode=``'',
        ''  _serverops_row entry "$_serverops_name" "$_serverops_type"     "$_serverops_size" "$_serverops_mtime" "$_serverops_mode"'',
        ''  _serverops_count=$((_serverops_count + 1))'',
        ''done < <(find "$_serverops_resolved" -mindepth 1 -maxdepth 1 -print0 2>/dev/null | LC_ALL=C sort -z)'',
        ''_serverops_row truncated "$_serverops_truncated"'',
        ''_serverops_finish''])\<close>

definition file_stat :: "pystr \<Rightarrow> pystr list \<Rightarrow> pystr \<Rightarrow> file_wire_command" where
  \<open>file_stat token roots path =
     wrap token roots (existing path @
     script
       [[],
        ''if [ -L "$_serverops_path" ]; then _serverops_type=symlink'',
        ''elif [ -d "$_serverops_resolved" ]; then _serverops_type=directory'',
        ''elif [ -f "$_serverops_resolved" ]; then _serverops_type=file'',
        ''else _serverops_type=other'',
        ''fi'',
        ''_serverops_size=$(stat -c %s -- "$_serverops_resolved" 2>/dev/null) ||   _serverops_error stat_failed `Remote metadata could not be read.`'',
        ''_serverops_mtime=$(stat -c %Y -- "$_serverops_resolved" 2>/dev/null) ||   _serverops_error stat_failed `Remote metadata could not be read.`'',
        ''_serverops_mode=$(stat -c %a -- "$_serverops_resolved" 2>/dev/null) ||   _serverops_error stat_failed `Remote metadata could not be read.`'',
        ''_serverops_success'',
        ''_serverops_row path "$_serverops_resolved"'',
        ''_serverops_row type "$_serverops_type"'',
        ''_serverops_row size "$_serverops_size"'',
        ''_serverops_row modified_epoch "$_serverops_mtime"'',
        ''_serverops_row mode "$_serverops_mode"'',
        ''_serverops_finish''])\<close>

definition file_hash :: "pystr \<Rightarrow> pystr list \<Rightarrow> pystr \<Rightarrow> file_wire_command" where
  \<open>file_hash token roots path =
     wrap token roots (existing path @
     script
       [[],
        ''[ -f "$_serverops_resolved" ] || _serverops_error not_a_file `Remote path is not a regular file.`'',
        ''_serverops_sha=$(sha256sum -- "$_serverops_resolved" 2>/dev/null | awk `{print $1}`) ||   _serverops_error hash_failed `Remote file hash could not be calculated.`'',
        ''_serverops_success'',
        ''_serverops_row path "$_serverops_resolved"'',
        ''_serverops_row sha256 "$_serverops_sha"'',
        ''_serverops_finish''])\<close>

definition read_text :: "pystr \<Rightarrow> pystr list \<Rightarrow> pystr \<Rightarrow> int \<Rightarrow> (int \<times> int) option \<Rightarrow> file_wire_command" where
  \<open>read_text token roots path byte_limit line_range =
     wrap token roots (existing path @
     script
       [[],
        ''[ -f "$_serverops_resolved" ] || _serverops_error not_a_file `Remote path is not a regular file.`'',
        ''_serverops_sha=$(sha256sum -- "$_serverops_resolved" 2>/dev/null | awk `{print $1}`) ||   _serverops_error hash_failed `Remote file hash could not be calculated.`''] @
     (case line_range of
        None \<Rightarrow>
          script
            [[],
             ''_serverops_selected_size=$(wc -c < "$_serverops_resolved") ||   _serverops_error read_failed `Remote file size could not be read.`'',
             ''_serverops_success'',
             ''_serverops_row path "$_serverops_resolved"'',
             ''_serverops_row sha256 "$_serverops_sha"'',
             ''_serverops_row selected_bytes "$_serverops_selected_size"''] @
          ''if [ "$_serverops_selected_size" -gt '' @ dec_int byte_limit @ '' ]; then _serverops_row truncated true'' @ [LF] @
          script
            [''else _serverops_row truncated false'',
             ''fi''] @
          ''head -c '' @ dec_int byte_limit @ '' -- "$_serverops_resolved" | _serverops_blob content'' @ [LF] @
          script
            [''_serverops_finish'']
      | Some (start_line, end_line) \<Rightarrow>
          let sed_range = dec_int start_line @ '','' @ dec_int end_line @ ''p'' in
          script
            [[]] @
          sh ''_serverops_selected_size=$(sed -n `'' @ sed_range @ sh ''` -- "$_serverops_resolved" | wc -c) ||   _serverops_error read_failed `Remote line range could not be read.`'' @ [LF] @
          script
            [''_serverops_success'',
             ''_serverops_row path "$_serverops_resolved"'',
             ''_serverops_row sha256 "$_serverops_sha"'',
             ''_serverops_row selected_bytes "$_serverops_selected_size"''] @
          ''if [ "$_serverops_selected_size" -gt '' @ dec_int byte_limit @ '' ]; then _serverops_row truncated true'' @ [LF] @
          script
            [''else _serverops_row truncated false'',
             ''fi''] @
          sh ''sed -n `'' @ sed_range @ sh ''` -- "$_serverops_resolved" | head -c '' @ dec_int byte_limit @ '' | _serverops_blob content'' @ [LF] @
          script
            [''_serverops_finish'']))\<close>

definition search_text :: "pystr \<Rightarrow> pystr list \<Rightarrow> pystr \<Rightarrow> pystr \<Rightarrow> int \<Rightarrow> file_wire_command" where
  \<open>search_text token roots path query limit =
     wrap token roots (existing path @
     script
       [[]] @
     sh ''_serverops_query=$(_serverops_decode `'' @ encode_argument query @ sh ''`) ||   _serverops_error invalid_query `Search text could not be decoded.`'' @ [LF] @
     script
       [''_serverops_success'',
        ''_serverops_row path "$_serverops_resolved"'',
        ''_serverops_count=0'',
        ''_serverops_truncated=false'',
        ''while IFS= read -r -d `` _serverops_match_file; do'',
        ''  _serverops_match_resolved=$(realpath -- "$_serverops_match_file" 2>/dev/null) || continue'',
        ''  _serverops_allowed "$_serverops_match_resolved" || continue'',
        ''  if od -An -v -tx1 "$_serverops_match_resolved" 2>/dev/null |       grep -Eq `(^|[[:space:]])00([[:space:]]|$)`; then'',
        ''    continue'',
        ''  fi'',
        ''  while IFS= read -r _serverops_match; do''] @
     ''    if [ "$_serverops_count" -ge '' @ dec_int limit @ '' ]; then'' @ [LF] @
     script
       [''      _serverops_truncated=true'',
        ''      break 2'',
        ''    fi'',
        ''    _serverops_line=${_serverops_match%%:*}'',
        ''    _serverops_text=${_serverops_match#*:}'',
        ''    _serverops_row match "$_serverops_match_resolved" "$_serverops_line" "$_serverops_text"'',
        ''    _serverops_count=$((_serverops_count + 1))'',
        ''  done < <(LC_ALL=C grep -n -F -- "$_serverops_query" "$_serverops_match_resolved" 2>/dev/null)'',
        ''done < <(find "$_serverops_resolved" -type f -print0 2>/dev/null)'',
        ''_serverops_row truncated "$_serverops_truncated"'',
        ''_serverops_finish''])\<close>

section \<open>Writing\<close>

function chunks :: "nat \<Rightarrow> 'a list \<Rightarrow> 'a list list" where
  "chunks n xs = (if n = 0 \<or> xs = [] then [] else take n xs # chunks n (drop n xs))"
  by pat_completeness auto
termination
  by (relation "measure (\<lambda>(n, xs). length xs)") auto

declare chunks.simps [simp del]

definition quoted_chunks :: "pystr \<Rightarrow> pystr" where
  "quoted_chunks encoded = join [CHR '' '', BSL, LF] (map (\<lambda>part. ''  '' @ [SQ] @ part @ [SQ]) (chunks 512 encoded))"

definition content_arguments :: "bytes \<Rightarrow> pystr" where
  "content_arguments content = quoted_chunks (b64encode content)"

definition write_text :: "(bytes \<Rightarrow> pystr) \<Rightarrow> pystr \<Rightarrow> pystr list \<Rightarrow> pystr \<Rightarrow> bytes \<Rightarrow> pystr option \<Rightarrow> file_wire_command" where
  \<open>write_text sha256 token roots path content expected_sha256 =
     wrap token roots (
     script
       [[]] @
     sh ''_serverops_path=$(_serverops_decode `'' @ encode_argument path @ sh ''`) ||   _serverops_error invalid_path `Remote path could not be decoded.`'' @ [LF] @
     sh ''_serverops_expected=`'' @ (case expected_sha256 of None \<Rightarrow> [] | Some d \<Rightarrow> d) @ sh ''`'' @ [LF] @
     script
       [''_serverops_existing=false'',
        ''if [ -e "$_serverops_path" ] || [ -L "$_serverops_path" ]; then'',
        ''  _serverops_existing=true'',
        ''  _serverops_target=$(realpath -- "$_serverops_path" 2>/dev/null) ||     _serverops_error path_not_found `Remote path could not be resolved.`'',
        ''  _serverops_allowed "$_serverops_target"'',
        ''  _serverops_allowed_status=$?'',
        ''  [ "$_serverops_allowed_status" -eq 0 ] ||     _serverops_error path_outside_roots `Remote path is outside allowed roots.`'',
        ''  [ -f "$_serverops_target" ] || _serverops_error not_a_file `Remote path is not a regular file.`'',
        ''  [ -w "$_serverops_target" ] || _serverops_error permission_denied `Remote file is not writable.`'',
        ''  _serverops_parent=$(dirname -- "$_serverops_target")'',
        ''  _serverops_before=$(sha256sum -- "$_serverops_target" | awk `{print $1}`) ||     _serverops_error hash_failed `Remote file hash could not be calculated.`'',
        ''  [ -z "$_serverops_expected" ] || [ "$_serverops_before" = "$_serverops_expected" ] ||     _serverops_error file_conflict `Remote file does not match expected_sha256.`'',
        ''  _serverops_owner=$(stat -c %u -- "$_serverops_target") ||     _serverops_error stat_failed `Remote ownership could not be read.`'',
        ''  _serverops_mode=$(stat -c %a -- "$_serverops_target") ||     _serverops_error stat_failed `Remote mode could not be read.`'',
        ''  _serverops_group=$(stat -c %g -- "$_serverops_target") ||     _serverops_error stat_failed `Remote group could not be read.`'',
        ''  [ "$_serverops_owner" = "$(id -u)" ] ||     _serverops_error ownership_unsupported `Structured writes require a file owned by the SSH user.`'',
        ''else'',
        ''  [ -z "$_serverops_expected" ] ||     _serverops_error file_conflict `Expected file does not exist.`'',
        ''  _serverops_parent_input=$(dirname -- "$_serverops_path")'',
        ''  _serverops_name=$(basename -- "$_serverops_path")'',
        ''  _serverops_valid_name "$_serverops_name" ||     _serverops_error invalid_path `New file name is invalid.`'',
        ''  _serverops_parent=$(realpath -- "$_serverops_parent_input" 2>/dev/null) ||     _serverops_error parent_not_found `Remote parent directory could not be resolved.`'',
        ''  _serverops_allowed "$_serverops_parent" ||     _serverops_error path_outside_roots `Remote parent is outside allowed roots.`'',
        ''  _serverops_target="$_serverops_parent/$_serverops_name"'',
        ''fi'',
        ''[ -w "$_serverops_parent" ] ||   _serverops_error permission_denied `Remote parent directory is not writable.`'',
        ''_serverops_temp=$(mktemp -- "$_serverops_parent/.serverops.XXXXXX") ||   _serverops_error temporary_file_failed `Remote temporary file could not be created.`'',
        ''trap `rm -f -- "$_serverops_temp"` EXIT'',
        ''printf `%s` ~''] @
     content_arguments content @ sh '' | base64 -d > "$_serverops_temp" ||   _serverops_error transfer_failed `Remote text transfer failed.`'' @ [LF] @
     script
       [''_serverops_temp_hash=$(sha256sum -- "$_serverops_temp" | awk `{print $1}`) ||   _serverops_error hash_failed `Temporary file hash could not be calculated.`''] @
     sh ''[ "$_serverops_temp_hash" = `'' @ sha256 content @ sh ''` ] ||   _serverops_error transfer_failed `Transferred text hash does not match.`'' @ [LF] @
     script
       [''if [ "$_serverops_existing" = true ]; then'',
        ''  chmod "$_serverops_mode" -- "$_serverops_temp" ||     _serverops_error metadata_failed `Existing file mode could not be preserved.`'',
        ''  chgrp "$_serverops_group" -- "$_serverops_temp" ||     _serverops_error metadata_failed `Existing file group could not be preserved.`'',
        ''  _serverops_now=$(realpath -- "$_serverops_path" 2>/dev/null) ||     _serverops_error file_conflict `Remote file changed before replacement.`'',
        ''  [ "$_serverops_now" = "$_serverops_target" ] ||     _serverops_error file_conflict `Remote path target changed before replacement.`'',
        ''  _serverops_now_hash=$(sha256sum -- "$_serverops_target" | awk `{print $1}`) ||     _serverops_error file_conflict `Remote file changed before replacement.`'',
        ''  [ "$_serverops_now_hash" = "$_serverops_before" ] ||     _serverops_error file_conflict `Remote file changed before replacement.`'',
        ''else'',
        ''  if [ -e "$_serverops_target" ] || [ -L "$_serverops_target" ]; then'',
        ''    _serverops_error file_conflict `Remote destination appeared before replacement.`'',
        ''  fi'',
        ''fi'',
        ''sync "$_serverops_temp" 2>/dev/null || true'',
        ''mv -f -- "$_serverops_temp" "$_serverops_target" ||   _serverops_error replace_failed `Remote atomic replacement failed.`'',
        ''trap - EXIT'',
        ''_serverops_after=$(sha256sum -- "$_serverops_target" | awk `{print $1}`) ||   _serverops_error hash_failed `Replaced file hash could not be calculated.`''] @
     sh ''[ "$_serverops_after" = `'' @ sha256 content @ sh ''` ] ||   _serverops_error replace_failed `Replaced file hash does not match.`'' @ [LF] @
     script
       [''_serverops_success'',
        ''_serverops_row path "$_serverops_target"'',
        ''_serverops_row sha256 "$_serverops_after"'',
        ''_serverops_row created "$([ "$_serverops_existing" = false ] && printf true || printf false)"'',
        ''_serverops_finish''])\<close>

definition file_mkdir :: "pystr \<Rightarrow> pystr list \<Rightarrow> pystr \<Rightarrow> file_wire_command" where
  \<open>file_mkdir token roots path =
     wrap token roots (new_entry [] path @
     script
       [[],
        ''mkdir -m 700 -- "$_serverops_target" ||   _serverops_error mkdir_failed `Remote directory could not be created.`'',
        ''_serverops_resolved=$(realpath -- "$_serverops_target" 2>/dev/null) ||   _serverops_error mkdir_failed `Created directory could not be resolved.`'',
        ''_serverops_allowed "$_serverops_resolved" ||   _serverops_error path_outside_roots `Created directory is outside allowed roots.`'',
        ''_serverops_success'',
        ''_serverops_row path "$_serverops_resolved"'',
        ''_serverops_finish''])\<close>

definition file_rename :: "pystr \<Rightarrow> pystr list \<Rightarrow> pystr \<Rightarrow> pystr \<Rightarrow> file_wire_command" where
  \<open>file_rename token roots source destination =
     wrap token roots (entry_reference ''source'' source @
     script
       [[],
        ''_serverops_is_root "$_serverops_source_resolved" &&   _serverops_error protected_root `An allowed root cannot be renamed.`'',
        ''_serverops_owned_tree "$_serverops_source_entry" ||   _serverops_error ownership_unsupported `Structured edits require paths owned by the SSH user.`''] @
     new_entry ''destination'' destination @
     script
       [[],
        ''_serverops_source_now=$(realpath -- "$_serverops_source_entry" 2>/dev/null) ||   _serverops_error file_conflict `Remote source changed before rename.`'',
        ''[ "$_serverops_source_now" = "$_serverops_source_resolved" ] ||   _serverops_error file_conflict `Remote source target changed before rename.`'',
        ''mv -- "$_serverops_source_entry" "$_serverops_destination_target" ||   _serverops_error rename_failed `Remote path could not be renamed.`'',
        ''_serverops_result=$(realpath -- "$_serverops_destination_target" 2>/dev/null) ||   _serverops_error rename_failed `Renamed path could not be resolved.`'',
        ''_serverops_success'',
        ''_serverops_row source "$_serverops_source_resolved"'',
        ''_serverops_row destination "$_serverops_result"'',
        ''_serverops_finish''])\<close>

definition file_remove :: "pystr \<Rightarrow> pystr list \<Rightarrow> pystr \<Rightarrow> bool \<Rightarrow> pystr option \<Rightarrow> file_wire_command" where
  \<open>file_remove token roots path recursive expected_sha256 =
     wrap token roots (entry_reference ''target'' path @
     script
       [[],
        ''_serverops_is_root "$_serverops_target_resolved" &&   _serverops_error protected_root `An allowed root cannot be removed.`''] @
     (case expected_sha256 of
        None \<Rightarrow> []
      | Some digest \<Rightarrow>
          script
            [[],
             ''[ -f "$_serverops_target_resolved" ] ||   _serverops_error file_conflict `expected_sha256 requires a regular file.`'',
             ''_serverops_remove_hash=$(sha256sum -- "$_serverops_target_resolved" | awk `{print $1}`) ||   _serverops_error hash_failed `Remote file hash could not be calculated.`''] @
          sh ''[ "$_serverops_remove_hash" = `'' @ digest @ sh ''` ] ||   _serverops_error file_conflict `Remote file does not match expected_sha256.`'' @ [LF]) @
     script
       [[],
        ''_serverops_target_now=$(realpath -- "$_serverops_target_entry" 2>/dev/null) ||   _serverops_error file_conflict `Remote target changed before removal.`'',
        ''[ "$_serverops_target_now" = "$_serverops_target_resolved" ] ||   _serverops_error file_conflict `Remote target changed before removal.`''] @
     (if recursive then
          script
            [[],
             ''_serverops_owned_tree "$_serverops_target_entry" ||   _serverops_error ownership_unsupported `Recursive removal contains a foreign-owned path.`'',
             ''rm -rf -- "$_serverops_target_entry" ||   _serverops_error remove_failed `Remote path could not be removed.`'']
      else
          script
            [[],
             ''if [ -d "$_serverops_target_entry" ] && [ ! -L "$_serverops_target_entry" ]; then'',
             ''  rmdir -- "$_serverops_target_entry" ||     _serverops_error directory_not_empty `Remote directory is not empty; recursive is required.`'',
             ''else'',
             ''  rm -- "$_serverops_target_entry" ||     _serverops_error remove_failed `Remote path could not be removed.`'',
             ''fi'']) @
     script
       [[],
        ''_serverops_success'',
        ''_serverops_row path "$_serverops_target_resolved"'',
        ''_serverops_finish''])\<close>

section \<open>Arguments are quoted\<close>

text \<open>
  A command with a hole for an argument: fixed text around the encoded argument, which stands between
  single quotes.
\<close>

definition quoted_hole :: "(pystr \<Rightarrow> pystr) \<Rightarrow> bool" where
  "quoted_hole f = (\<exists>pre post. \<forall>x. f x = pre @ [SQ] @ encode_argument x @ [SQ] @ post)"

lemma quoted_hole_base:
  assumes "a = a' @ [SQ]" and "b = SQ # b'"
  shows "quoted_hole (\<lambda>x. a @ encode_argument x @ b)"
  unfolding quoted_hole_def using assms by (intro exI [of _ a'] exI [of _ b']) simp

lemma quoted_hole_left: "quoted_hole f \<Longrightarrow> quoted_hole (\<lambda>x. c @ f x)"
  unfolding quoted_hole_def by (metis append.assoc)

lemma quoted_hole_right:
  assumes "quoted_hole f" shows "quoted_hole (\<lambda>x. f x @ c)"
proof -
  obtain pre post where "f x = pre @ [SQ] @ encode_argument x @ [SQ] @ post" for x
    using assms unfolding quoted_hole_def by blast
  then show ?thesis unfolding quoted_hole_def by (intro exI [of _ pre] exI [of _ "post @ c"]) simp
qed

lemma sh_append: "sh (s @ t) = sh s @ sh t"
  by (simp add: sh_def)

lemma quoted_hole_sh:
  assumes "a = a' @ ''`''" and "b = CHR ''`'' # b'"
  shows "quoted_hole (\<lambda>x. sh a @ encode_argument x @ sh b @ c)"
  by (rule quoted_hole_base [of _ "sh a'" _ "sh b' @ c"]) (simp_all add: assms sh_append sh_def)

lemma existing_hole: "quoted_hole existing"
proof -
  have "quoted_hole (\<lambda>path. existing path)"
    unfolding existing_def
    by (rule quoted_hole_left, rule quoted_hole_sh [where a' = "''_serverops_path=$(_serverops_decode ''"]) simp_all
  then show ?thesis by simp
qed

lemma new_entry_hole: "quoted_hole (new_entry prefix)"
proof -
  have "quoted_hole (\<lambda>path. new_entry prefix path)"
    unfolding new_entry_def Let_def
    by (rule quoted_hole_left, rule quoted_hole_left, rule quoted_hole_sh [where a' = "''path=$(_serverops_decode ''"]) simp_all
  then show ?thesis by simp
qed

lemma entry_reference_hole: "quoted_hole (entry_reference prefix)"
proof -
  have "quoted_hole (\<lambda>path. entry_reference prefix path)"
    unfolding entry_reference_def Let_def
    by (rule quoted_hole_left, rule quoted_hole_left, rule quoted_hole_sh [where a' = "''path=$(_serverops_decode ''"]) simp_all
  then show ?thesis by simp
qed

lemma wrap_hole: "quoted_hole f \<Longrightarrow> quoted_hole (\<lambda>x. fw_command (wrap token roots (f x)))"
  by (simp add: wrap_def quoted_hole_left quoted_hole_right)

lemmas holes = wrap_hole quoted_hole_right existing_hole new_entry_hole entry_reference_hole

lemma reading_holes:
  "quoted_hole (\<lambda>path. fw_command (list_directory token roots path limit))"
  "quoted_hole (\<lambda>path. fw_command (file_stat token roots path))"
  "quoted_hole (\<lambda>path. fw_command (file_hash token roots path))"
  "quoted_hole (\<lambda>path. fw_command (read_text token roots path byte_limit line_range))"
  "quoted_hole (\<lambda>path. fw_command (search_text token roots path query limit))"
  unfolding list_directory_def file_stat_def file_hash_def read_text_def search_text_def
  by (rule holes existing_hole)+

lemma search_query_hole: "quoted_hole (\<lambda>query. fw_command (search_text token roots path query limit))"
  unfolding search_text_def
  by (rule wrap_hole, rule quoted_hole_left, rule quoted_hole_left,
      rule quoted_hole_sh [where a' = "''_serverops_query=$(_serverops_decode ''"]) simp_all

lemma writing_holes:
  "quoted_hole (\<lambda>path. fw_command (file_mkdir token roots path))"
  "quoted_hole (\<lambda>source. fw_command (file_rename token roots source destination))"
  "quoted_hole (\<lambda>path. fw_command (file_remove token roots path recursive digest))"
  unfolding file_mkdir_def file_rename_def file_remove_def
  by (rule holes)+

lemma rename_destination_hole: "quoted_hole (\<lambda>destination. fw_command (file_rename token roots source destination))"
  unfolding file_rename_def
  by (rule wrap_hole, rule quoted_hole_left, rule quoted_hole_left, rule quoted_hole_right, rule new_entry_hole)

lemma write_path_hole: "quoted_hole (\<lambda>path. fw_command (write_text sha256 token roots path content digest))"
  unfolding write_text_def
  by (rule wrap_hole, rule quoted_hole_left,
      rule quoted_hole_sh [where a' = "''_serverops_path=$(_serverops_decode ''"]) simp_all

lemma concat_chunks: "0 < n \<Longrightarrow> concat (chunks n xs) = xs"
  by (induction n xs rule: chunks.induct) (simp add: chunks.simps)

lemma SQ_not_b64: "SQ \<notin> set (b64encode v)"
  using b64encode_chars [of SQ v] by (auto simp: is_b64_def is_alnum_def is_upper_def is_lower_def is_digit_def)


end
