(* ===== verification/Files_Patch.thy ===== *)
theory Files_Patch
  imports Errors
begin

text \<open>
  \<^verbatim>\<open>files/patch.py\<close>: applying a unified diff to a text. The lines are those of \<^verbatim>\<open>str.splitlines\<close>,
  with their ends. The digits of a hunk header are ASCII digits.
\<close>

definition MAX_PATCH_BYTES :: nat where
  "MAX_PATCH_BYTES = 131072"

record patch_hunk =
  ph_old_start :: nat
  ph_old_count :: nat
  ph_new_start :: nat
  ph_new_count :: nat
  ph_lines :: "pystr list"

definition patch_invalid :: "pystr \<Rightarrow> exn" where
  "patch_invalid message = RemoteFileError ''patch_invalid'' message"

section \<open>Hunk headers\<close>

text \<open>\<^verbatim>\<open>HUNK_HEADER.fullmatch(line)\<close>, with the groups as texts.\<close>

definition read_digits :: "pystr \<Rightarrow> (pystr \<times> pystr) option" where
  "read_digits s = (let d = takeWhile is_digit s in if d = [] then None else Some (d, dropWhile is_digit s))"

definition read_literal :: "pystr \<Rightarrow> pystr \<Rightarrow> pystr option" where
  "read_literal lit s = (if starts_with lit s then Some (drop (length lit) s) else None)"

definition read_range :: "pystr \<Rightarrow> (pystr \<times> pystr option \<times> pystr) option" where
  "read_range s =
     (case read_digits s of
        None \<Rightarrow> None
      | Some (start, r) \<Rightarrow>
          (case r of
             c # r' \<Rightarrow>
               if c = CHR '','' then map_option (\<lambda>(n, r''). (start, Some n, r'')) (read_digits r')
               else Some (start, None, r)
           | [] \<Rightarrow> Some (start, None, [])))"

definition header_tail_ok :: "pystr \<Rightarrow> bool" where
  "header_tail_ok s =
     (case s of
        [] \<Rightarrow> True
      | c # r \<Rightarrow> s = [LF] \<or> c = CHR '' '' \<and> LF \<notin> set (butlast r))"

definition hunk_header :: "pystr \<Rightarrow> (pystr \<times> pystr option \<times> pystr \<times> pystr option) option" where
  "hunk_header line =
     Option.bind (read_literal ''@@ -'' line) (\<lambda>r0.
     Option.bind (read_range r0) (\<lambda>(old_start, old_count, r1).
     Option.bind (read_literal '' +'' r1) (\<lambda>r2.
     Option.bind (read_range r2) (\<lambda>(new_start, new_count, r3).
     Option.bind (read_literal '' @@'' r3) (\<lambda>r4.
     if header_tail_ok r4 then Some (old_start, old_count, new_start, new_count) else None)))))"

definition header_count :: "pystr option \<Rightarrow> nat res" where
  "header_count digits = (case digits of None \<Rightarrow> Inr 1 | Some d \<Rightarrow> digits_number d)"

section \<open>Parsing\<close>

definition NO_NEWLINE :: pystr where
  "NO_NEWLINE = CHR 0x5C # '' No newline at end of file''"

definition is_skipped :: "pystr \<Rightarrow> bool" where
  "is_skipped line =
     (starts_with ''--- '' line \<or> starts_with ''+++ '' line \<or> starts_with ''diff '' line \<or> starts_with ''index '' line \<or>
      py_strip line = [])"

definition is_hunk_line :: "pystr \<Rightarrow> bool" where
  "is_hunk_line line =
     (starts_with '' '' line \<or> starts_with ''+'' line \<or> starts_with ''-'' line \<or> starts_with NO_NEWLINE line)"

fun hunk_body :: "pystr list \<Rightarrow> pystr list \<times> pystr list" where
  "hunk_body [] = ([], [])"
| "hunk_body (l # ls) =
     (if hunk_header l = None \<and> is_hunk_line l then (case hunk_body ls of (body, rest) \<Rightarrow> (l # body, rest))
      else ([], l # ls))"

lemma hunk_body_length: "length (snd (hunk_body ls)) \<le> length ls"
  by (induction ls) (auto split: prod.split)

function parse_hunk_lines :: "pystr list \<Rightarrow> patch_hunk list res" where
  "parse_hunk_lines [] = Inr []"
| "parse_hunk_lines (l # ls) =
     (if is_skipped l then parse_hunk_lines ls
      else case hunk_header l of
        None \<Rightarrow> Inl (patch_invalid ''patch contains unsupported text outside a hunk'')
      | Some (os, oc, ns, nc) \<Rightarrow>
          bindE (digits_number os) (\<lambda>old_start.
          bindE (header_count oc) (\<lambda>old_count.
          bindE (digits_number ns) (\<lambda>new_start.
          bindE (header_count nc) (\<lambda>new_count.
          bindE (parse_hunk_lines (snd (hunk_body ls))) (\<lambda>hunks.
          Inr (\<lparr>ph_old_start = old_start, ph_old_count = old_count, ph_new_start = new_start, ph_new_count = new_count,
                 ph_lines = fst (hunk_body ls)\<rparr> # hunks)))))))"
  by pat_completeness auto
termination
  by (relation "measure length") (auto simp: hunk_body_length le_imp_less_Suc)

definition parse_hunks :: "pystr \<Rightarrow> patch_hunk list res" where
  "parse_hunks patch =
     bindE (parse_hunk_lines (splitlines_keep patch)) (\<lambda>hunks.
     if hunks = [] then Inl (patch_invalid ''patch contains no unified-diff hunks'') else Inr hunks)"

fun normalize_lines :: "pystr list \<Rightarrow> pystr list \<Rightarrow> pystr list res" where
  "normalize_lines normalized [] = Inr normalized"
| "normalize_lines normalized (l # ls) =
     (if starts_with NO_NEWLINE l
      then (if normalized = [] then Inl (patch_invalid ''orphan no-newline marker'')
            else normalize_lines (butlast normalized @ [remove_suffix [LF] (last normalized)]) ls)
      else case l of
        c # _ \<Rightarrow>
          if c = CHR '' '' \<or> c = CHR ''+'' \<or> c = CHR ''-'' then normalize_lines (normalized @ [l]) ls
          else Inl (patch_invalid ''patch hunk line is invalid'')
      | [] \<Rightarrow> Inl (patch_invalid ''patch hunk line is invalid''))"

section \<open>Applying\<close>

definition require_source_line :: "pystr list \<Rightarrow> nat \<Rightarrow> pystr \<Rightarrow> unit res" where
  "require_source_line source index expected =
     guardE (index < length source \<and> source ! index = expected)
       (FileConflictError ''patch context does not match the current remote text'')"

fun apply_lines ::
  "pystr list \<Rightarrow> pystr list \<Rightarrow> nat \<Rightarrow> nat \<Rightarrow> nat \<Rightarrow> pystr list \<Rightarrow> (nat \<times> nat \<times> nat \<times> pystr list) res" where
  "apply_lines source [] index consumed produced result = Inr (index, consumed, produced, result)"
| "apply_lines source (l # ls) index consumed produced result =
     (case l of
        c # v \<Rightarrow>
          if c = CHR '' ''
          then bindE (require_source_line source index v) (\<lambda>_.
            apply_lines source ls (Suc index) (Suc consumed) (Suc produced) (result @ [v]))
          else if c = CHR ''-''
          then bindE (require_source_line source index v) (\<lambda>_.
            apply_lines source ls (Suc index) (Suc consumed) produced result)
          else if c = CHR ''+'' then apply_lines source ls index consumed (Suc produced) (result @ [v])
          else Inl (patch_invalid ''patch hunk line is invalid'')
      | [] \<Rightarrow> Inl (patch_invalid ''patch hunk line is invalid''))"

definition target_index :: "patch_hunk \<Rightarrow> int" where
  "target_index h = (if ph_old_count h \<noteq> 0 then int (ph_old_start h) - 1 else int (ph_old_start h))"

fun apply_hunks :: "pystr list \<Rightarrow> patch_hunk list \<Rightarrow> nat \<Rightarrow> pystr list \<Rightarrow> pystr list res" where
  "apply_hunks source [] cursor result = Inr (result @ drop cursor source)"
| "apply_hunks source (h # hs) cursor result =
     (if target_index h < int cursor \<or> int (length source) < target_index h
      then Inl (FileConflictError ''patch hunk starts outside the current remote text'')
      else
        let target = nat (target_index h) in
        bindE (normalize_lines [] (ph_lines h)) (\<lambda>ls.
        bindE (apply_lines source ls target 0 0 (result @ take (target - cursor) (drop cursor source)))
          (\<lambda>(index, consumed, produced, result').
        if consumed \<noteq> ph_old_count h \<or> produced \<noteq> ph_new_count h
        then Inl (patch_invalid ''patch hunk line counts do not match header'')
        else apply_hunks source hs index result')))"

definition check_patch_text :: "pystr \<Rightarrow> unit res" where
  "check_patch_text patch =
     (if patch = [] \<or> NUL \<in> set patch then Inl (ValueError ''patch must be non-empty text without NUL'')
      else if MAX_PATCH_BYTES < length patch then Inl (ValueError ''patch exceeds the 131072-byte limit'')
      else Inr ())"

definition apply_unified_patch :: "pystr \<Rightarrow> pystr \<Rightarrow> pystr res" where
  "apply_unified_patch original patch =
     bindE (check_patch_text patch) (\<lambda>_.
     bindE (parse_hunks patch) (\<lambda>hunks.
     bindE (apply_hunks (splitlines_keep original) hunks 0 []) (\<lambda>ls. Inr (concat ls))))"

section \<open>What a patch means\<close>

text \<open>
  The specification: a hunk is a sequence of edits with an old and a new side; a text is patched by
  leaving the lines before the hunk's position as they are, replacing the hunk's old side by its
  new side, and going on with the rest.
\<close>

datatype edit = Keep pystr | Del pystr | Add pystr

fun old_lines :: "edit list \<Rightarrow> pystr list" where
  "old_lines [] = []"
| "old_lines (Keep v # es) = v # old_lines es"
| "old_lines (Del v # es) = v # old_lines es"
| "old_lines (Add v # es) = old_lines es"

fun new_lines :: "edit list \<Rightarrow> pystr list" where
  "new_lines [] = []"
| "new_lines (Keep v # es) = v # new_lines es"
| "new_lines (Del v # es) = new_lines es"
| "new_lines (Add v # es) = v # new_lines es"

definition edit_of :: "pystr \<Rightarrow> edit option" where
  "edit_of l =
     (case l of
        c # v \<Rightarrow> if c = CHR '' '' then Some (Keep v) else if c = CHR ''-'' then Some (Del v)
          else if c = CHR ''+'' then Some (Add v) else None
      | [] \<Rightarrow> None)"

definition hunk_edits :: "patch_hunk \<Rightarrow> edit list option" where
  "hunk_edits h =
     (case normalize_lines [] (ph_lines h) of
        Inl _ \<Rightarrow> None
      | Inr ls \<Rightarrow> if list_all (\<lambda>l. edit_of l \<noteq> None) ls then Some (map (\<lambda>l. the (edit_of l)) ls) else None)"

inductive patches :: "nat \<Rightarrow> pystr list \<Rightarrow> patch_hunk list \<Rightarrow> pystr list \<Rightarrow> bool" where
  patches_end: "patches pos source [] source"
| patches_hunk: "hunk_edits h = Some es \<Longrightarrow> target_index h = int (pos + length gap) \<Longrightarrow>
    length (old_lines es) = ph_old_count h \<Longrightarrow> length (new_lines es) = ph_new_count h \<Longrightarrow>
    patches (pos + length gap + length (old_lines es)) rest hs out \<Longrightarrow>
    patches pos (gap @ old_lines es @ rest) (h # hs) (gap @ new_lines es @ out)"

inductive_cases patches_NilE: "patches pos source [] out"
inductive_cases patches_ConsE: "patches pos source (h # hs) out"

section \<open>Applying is patching\<close>

lemma drop_Cons_facts: "drop i source = x # xs \<Longrightarrow> i < length source \<and> source ! i = x \<and> drop (Suc i) source = xs"
  by (metis Cons_nth_drop_Suc list.inject not_le_imp_less drop_all list.distinct(1))

lemma require_source_iff: "(require_source_line source i v = Inr u) = (i < length source \<and> source ! i = v)"
  by (auto simp: require_source_line_def)

lemma drop_at_end: "drop i source = [] \<Longrightarrow> \<not> i < length source"
  by simp

lemma apply_lines_iff:
  "apply_lines source ls i c p res = Inr (i', c', p', res') \<longleftrightarrow>
    (\<exists>es. map edit_of ls = map Some es \<and> take (length (old_lines es)) (drop i source) = old_lines es \<and>
      i' = i + length (old_lines es) \<and> c' = c + length (old_lines es) \<and> p' = p + length (new_lines es) \<and>
      res' = res @ new_lines es)"
proof (induction ls arbitrary: i c p res)
  case (Cons l ls)
  have step: "take (Suc n) (drop i source) = v # xs \<longleftrightarrow>
      (i < length source \<and> source ! i = v) \<and> take n (drop (Suc i) source) = xs" for n v xs
    by (cases "drop i source") (auto dest: drop_Cons_facts drop_at_end)
  show ?case
  proof (cases "edit_of l")
    case None
    then have "apply_lines source (l # ls) i c p res = Inl (patch_invalid ''patch hunk line is invalid'')"
      by (auto simp: edit_of_def split: list.splits if_splits)
    with None show ?thesis by (auto simp: Cons_eq_map_conv)
  next
    case (Some e)
    have ex: "(\<exists>es. map edit_of (l # ls) = map Some es \<and> P es) = (\<exists>es. map edit_of ls = map Some es \<and> P (e # es))" for P
      using Some by (auto simp: Cons_eq_map_conv)
    show ?thesis
    proof (cases e)
      case (Keep v)
      with Some have "l = CHR '' '' # v" by (auto simp: edit_of_def split: list.splits if_splits)
      then have eq: "apply_lines source (l # ls) i c p res = Inr (i', c', p', res') \<longleftrightarrow> (i < length source \<and> source ! i = v) \<and>
          apply_lines source ls (Suc i) (Suc c) (Suc p) (res @ [v]) = Inr (i', c', p', res')"
        by (auto simp: bindE_eq_Inr require_source_iff)
      show ?thesis unfolding eq ex Cons.IH Keep by (auto simp: step)
    next
      case (Del v)
      with Some have "l = CHR ''-'' # v" by (auto simp: edit_of_def split: list.splits if_splits)
      then have eq: "apply_lines source (l # ls) i c p res = Inr (i', c', p', res') \<longleftrightarrow> (i < length source \<and> source ! i = v) \<and>
          apply_lines source ls (Suc i) (Suc c) p res = Inr (i', c', p', res')"
        by (auto simp: bindE_eq_Inr require_source_iff)
      show ?thesis unfolding eq ex Cons.IH Del by (auto simp: step)
    next
      case (Add v)
      with Some have "l = CHR ''+'' # v" by (auto simp: edit_of_def split: list.splits if_splits)
      then have eq: "apply_lines source (l # ls) i c p res = apply_lines source ls i c (Suc p) (res @ [v])" by simp
      show ?thesis unfolding eq ex Cons.IH Add by auto
    qed
  qed
qed auto

lemma hunk_edits_iff:
  "hunk_edits h = Some es \<longleftrightarrow> (\<exists>ls. normalize_lines [] (ph_lines h) = Inr ls \<and> map edit_of ls = map Some es)"
proof -
  have "(list_all (\<lambda>l. edit_of l \<noteq> None) ls \<and> map (\<lambda>l. the (edit_of l)) ls = es) = (map edit_of ls = map Some es)" for ls
  proof
    assume a: "list_all (\<lambda>l. edit_of l \<noteq> None) ls \<and> map (\<lambda>l. the (edit_of l)) ls = es"
    then have "map edit_of ls = map (\<lambda>l. Some (the (edit_of l))) ls" by (auto simp: list_all_iff)
    with a show "map edit_of ls = map Some es" by auto
  next
    assume a: "map edit_of ls = map Some es"
    then have "map the (map edit_of ls) = es" by (simp add: comp_def)
    moreover have "edit_of l \<noteq> None" if "l \<in> set ls" for l
      using that arg_cong [OF a, of set] by (metis (no_types) image_eqI image_iff list.set_map option.distinct(1))
    ultimately show "list_all (\<lambda>l. edit_of l \<noteq> None) ls \<and> map (\<lambda>l. the (edit_of l)) ls = es"
      by (auto simp: list_all_iff comp_def)
  qed
  then show ?thesis by (auto simp: hunk_edits_def split: sum.splits)
qed

text \<open>The loop over the hunks, on the part of the source that it has not passed.\<close>

lemma apply_hunks_iff:
  "cursor \<le> length source \<Longrightarrow>
    apply_hunks source hs cursor res = Inr ls \<longleftrightarrow> (\<exists>out. ls = res @ out \<and> patches cursor (drop cursor source) hs out)"
proof (induction hs arbitrary: cursor res)
  case Nil
  then show ?case by (auto intro: patches_end elim: patches_NilE)
next
  case (Cons h hs)
  show ?case
  proof
    assume l: "apply_hunks source (h # hs) cursor res = Inr ls"
    define t where "t = nat (target_index h)"
    from l have t: "target_index h = int t" "cursor \<le> t" "t \<le> length source"
      by (auto simp: t_def split: if_splits)
    from l t obtain nl index consumed produced res' where
      n: "normalize_lines [] (ph_lines h) = Inr nl" and
      a: "apply_lines source nl t 0 0 (res @ take (t - cursor) (drop cursor source)) = Inr (index, consumed, produced, res')" and
      c: "consumed = ph_old_count h" "produced = ph_new_count h" and
      r: "apply_hunks source hs index res' = Inr ls"
      by (auto simp: bindE_eq_Inr split: if_splits)
    from a obtain es where es: "map edit_of nl = map Some es"
      "take (length (old_lines es)) (drop t source) = old_lines es" "index = t + length (old_lines es)"
      "consumed = length (old_lines es)" "produced = length (new_lines es)"
      "res' = res @ take (t - cursor) (drop cursor source) @ new_lines es"
      unfolding apply_lines_iff by auto
    define gap where "gap = take (t - cursor) (drop cursor source)"
    have len: "length gap = t - cursor" and i: "index \<le> length source"
      using t es(2,3) by (auto simp: gap_def dest: arg_cong [where f = length])
    have "drop t source = old_lines es @ drop index source"
      using es(2,3) by (metis add.commute append_take_drop_id drop_drop)
    then have split: "drop cursor source = gap @ old_lines es @ drop index source"
      using t(2) append_take_drop_id [of "t - cursor" "drop cursor source"] by (simp add: gap_def)
    from r obtain out where out: "ls = res' @ out" "patches index (drop index source) hs out"
      using Cons.IH [OF i] by blast
    have he: "hunk_edits h = Some es" using n es(1) by (auto simp: hunk_edits_iff)
    have tg: "target_index h = int (cursor + length gap)" and ci: "cursor + length gap + length (old_lines es) = index"
      using len t es(3) by auto
    have "patches cursor (gap @ old_lines es @ drop index source) (h # hs) (gap @ new_lines es @ out)"
      using es(4,5) c out(2) ci by (intro patches_hunk [OF he tg]) simp_all
    then have "patches cursor (drop cursor source) (h # hs) (gap @ new_lines es @ out)" by (simp only: split)
    with out(1) es(6) gap_def show "\<exists>out. ls = res @ out \<and> patches cursor (drop cursor source) (h # hs) out" by auto
  next
    assume "\<exists>out. ls = res @ out \<and> patches cursor (drop cursor source) (h # hs) out"
    then obtain es gap rest out where
      p: "hunk_edits h = Some es" "target_index h = int (cursor + length gap)"
      "length (old_lines es) = ph_old_count h" "length (new_lines es) = ph_new_count h"
      "patches (cursor + length gap + length (old_lines es)) rest hs out"
      "drop cursor source = gap @ old_lines es @ rest" "ls = res @ gap @ new_lines es @ out"
      by (auto elim!: patches_ConsE)
    obtain nl where nl: "normalize_lines [] (ph_lines h) = Inr nl" "map edit_of nl = map Some es"
      using p(1) by (auto simp: hunk_edits_iff)
    let ?t = "cursor + length gap"
    have d: "drop ?t source = old_lines es @ rest" using p(6) by (metis add.commute append_eq_conv_conj drop_drop)
    have t: "?t \<le> length source" "?t + length (old_lines es) \<le> length source"
      using Cons.prems arg_cong [OF p(6), of length] by auto
    have a: "apply_lines source nl ?t 0 0 (res @ gap) =
        Inr (?t + length (old_lines es), ph_old_count h, ph_new_count h, res @ gap @ new_lines es)"
      unfolding apply_lines_iff using nl(2) d p(3,4) by (intro exI [of _ es]) simp
    have "rest = drop (?t + length (old_lines es)) source"
      using d by (metis add.commute append_eq_conv_conj drop_drop)
    then have "apply_hunks source hs (?t + length (old_lines es)) (res @ gap @ new_lines es) = Inr ls"
      using Cons.IH [OF t(2)] p(5,7) by auto
    then show "apply_hunks source (h # hs) cursor res = Inr ls"
      using p(2,6) t(1) a nl(1) by (simp add: nat_int_add)
  qed
qed

text \<open>
  C28: applying a patch is patching. \<open>apply_unified_patch\<close> returns a text exactly when the patch is an
  acceptable text that parses into hunks and the original can be patched by them in the sense of
  \<open>patches\<close>: each hunk stands at the position its header names, after the previous one, its context
  and removed lines are the lines of the original there, and its line counts are those of the
  header; the result is then the new sides with everything between and after the hunks unchanged.
\<close>

theorem patch_refines_spec:
  "apply_unified_patch original patch = Inr updated \<longleftrightarrow>
    check_patch_text patch = Inr () \<and>
    (\<exists>hunks ls. parse_hunks patch = Inr hunks \<and> patches 0 (splitlines_keep original) hunks ls \<and> updated = concat ls)"
  by (auto simp: apply_unified_patch_def bindE_eq_Inr apply_hunks_iff)

end
