(* ===== verification/Files_Service.thy ===== *)
theory Files_Service
  imports Files_Shell Files_Patch Config_Model Ipc_Messages
begin

text \<open>
  \<^verbatim>\<open>files/service.py\<close>: the file operations of a session. The runner of shell commands is an argument:
  it gets the command and its timeout and gives a result or an exception, on a state of its own. A
  command's token is an argument, a second one where an operation runs two commands, as is SHA-256.
\<close>

definition MAX_REMOTE_PATH_BYTES :: nat where
  "MAX_REMOTE_PATH_BYTES = 4096"

definition MAX_WRITE_TEXT_BYTES :: nat where
  "MAX_WRITE_TEXT_BYTES = 131072"

definition MAX_QUERY_BYTES :: nat where
  "MAX_QUERY_BYTES = 2048"

definition SHA256 :: "pystr \<Rightarrow> bool" where
  "SHA256 s = (length s = 64 \<and> list_all is_hex s)"

type_synonym 's command_runner = "pystr \<Rightarrow> int \<Rightarrow> 's \<Rightarrow> 's \<times> payload res"

section \<open>Arguments\<close>

definition file_path :: "payload \<Rightarrow> pystr \<Rightarrow> pystr res" where
  "file_path pl name =
     (case pget pl name of
        JStr v \<Rightarrow>
          if v = [] \<or> NUL \<in> set v then Inl (ValueError (name @ '' must be non-empty text without NUL''))
          else if MAX_REMOTE_PATH_BYTES < length v then Inl (ValueError (name @ '' exceeds the 4096-byte limit''))
          else if list_ex is_control v then Inl (ValueError (name @ '' contains a control character''))
          else Inr v
      | _ \<Rightarrow> Inl (ValueError (name @ '' must be non-empty text without NUL'')))"

definition file_content :: "payload \<Rightarrow> pystr \<Rightarrow> nat \<Rightarrow> pystr res" where
  "file_content pl name maximum =
     (case pget pl name of
        JStr v \<Rightarrow>
          if NUL \<in> set v then Inl (ValueError (name @ '' must be text without NUL''))
          else if maximum < length v then Inl (ValueError (name @ '' exceeds the '' @ dec_nat maximum @ ''-byte limit''))
          else Inr v
      | _ \<Rightarrow> Inl (ValueError (name @ '' must be text without NUL'')))"

definition file_query :: "payload \<Rightarrow> pystr res" where
  "file_query pl =
     bindE (file_content pl ''query'' MAX_QUERY_BYTES) (\<lambda>query.
     if query = [] \<or> list_ex is_control query then Inl (ValueError ''query must be non-empty single-line text'')
     else Inr query)"

definition expected_hash :: "payload \<Rightarrow> pystr option res" where
  "expected_hash pl =
     (case pget pl ''expected_sha256'' of
        JNull \<Rightarrow> Inr None
      | JStr v \<Rightarrow>
          if SHA256 (map to_lower v) then Inr (Some (map to_lower v))
          else Inl (ValueError ''expected_sha256 must be a 64-character hexadecimal digest'')
      | _ \<Rightarrow> Inl (ValueError ''expected_sha256 must be a 64-character hexadecimal digest''))"

definition file_line_range :: "payload \<Rightarrow> (int \<times> int) option res" where
  "file_line_range pl =
     (if pget pl ''start_line'' = JNull \<and> pget pl ''end_line'' = JNull then Inr None
      else case pget pl ''start_line'' of
        JInt start \<Rightarrow>
          if start < 1 then Inl (ValueError ''start_line must be a positive integer'')
          else (case pget pl ''end_line'' of
             JInt last_line \<Rightarrow>
               if last_line < start then Inl (ValueError ''end_line must be an integer at least start_line'')
               else if 100000 < last_line - start then Inl (ValueError ''line range is too large'')
               else Inr (Some (start, last_line))
           | _ \<Rightarrow> Inl (ValueError ''end_line must be an integer at least start_line''))
      | _ \<Rightarrow> Inl (ValueError ''start_line must be a positive integer''))"

definition file_integer :: "payload \<Rightarrow> pystr \<Rightarrow> int \<Rightarrow> int \<Rightarrow> int \<Rightarrow> int res" where
  "file_integer pl name default_value minimum maximum =
     (case pget_default pl name (JInt default_value) of
        JInt v \<Rightarrow>
          if minimum \<le> v \<and> v \<le> maximum then Inr v else Inl (ValueError (name @ '' is outside the supported range''))
      | _ \<Rightarrow> Inl (ValueError (name @ '' must be an integer'')))"

definition file_boolean :: "payload \<Rightarrow> pystr \<Rightarrow> bool \<Rightarrow> bool res" where
  "file_boolean pl name default_value =
     (case pget_default pl name (JBool default_value) of
        JBool v \<Rightarrow> Inr v
      | _ \<Rightarrow> Inl (ValueError (name @ '' must be true or false'')))"

definition forbid :: "'a option \<Rightarrow> pystr \<Rightarrow> pystr \<Rightarrow> unit res" where
  "forbid v field_name action = guardE (v = None) (ValueError (field_name @ '' is not valid for '' @ action))"

section \<open>Answers\<close>

definition wire_bool :: "pystr \<Rightarrow> bool res" where
  "wire_bool v =
     (if v = ''true'' then Inr True else if v = ''false'' then Inr False
      else Inl (protocol_error ''remote boolean field is invalid''))"

definition nonnegative_integer :: "pystr \<Rightarrow> pystr \<Rightarrow> int res" where
  "nonnegative_integer v name =
     (case py_int v of
        Some i \<Rightarrow> if i < 0 then Inl (protocol_error (''remote '' @ name @ '' is invalid'')) else Inr i
      | None \<Rightarrow> Inl (protocol_error (''remote '' @ name @ '' is invalid'')))"

definition positive_integer :: "pystr \<Rightarrow> pystr \<Rightarrow> int res" where
  "positive_integer v name =
     bindE (nonnegative_integer v name) (\<lambda>i.
     if i < 1 then Inl (protocol_error (''remote '' @ name @ '' is invalid'')) else Inr i)"

definition decode_remote_text :: "bytes \<Rightarrow> bool \<Rightarrow> pystr res" where
  "decode_remote_text content truncated =
     (if list_ex (\<lambda>c. ord c < 32 \<and> ord c \<notin> {9, 10, 13}) content
      then Inl (RemoteFileError ''binary_file'' ''remote file is not supported UTF-8 text'')
      else case decode_strict content of
        Inr text \<Rightarrow> Inr text
      | Inl e \<Rightarrow>
          if truncated \<and> ue_unexpected_end e \<and> ue_end e = length content then Inr (take (ue_start e) content)
          else Inl (RemoteFileError ''invalid_utf8'' ''remote file is not valid UTF-8 text''))"

definition one_integer :: "pystr \<Rightarrow> file_wire_response \<Rightarrow> json res" where
  "one_integer name resp =
     bindE (one name resp) (\<lambda>v. bindE (nonnegative_integer v name) (\<lambda>i. Inr (JInt i)))"

definition one_bool :: "pystr \<Rightarrow> file_wire_response \<Rightarrow> bool res" where
  "one_bool name resp = bindE (one name resp) wire_bool"

definition one_digest :: "file_wire_response \<Rightarrow> pystr res" where
  "one_digest resp =
     bindE (one ''sha256'' resp) (\<lambda>digest.
     if SHA256 digest then Inr digest else Inl (protocol_error ''remote SHA-256 is invalid''))"

definition list_entry :: "pystr list \<Rightarrow> json res" where
  "list_entry row =
     bindE (nonnegative_integer (row ! 2) ''size'') (\<lambda>sz.
     bindE (nonnegative_integer (row ! 3) ''modified_epoch'') (\<lambda>modified.
     Inr (JObj [(''name'', JStr (row ! 0)), (''type'', JStr (row ! 1)), (''size'', JInt sz),
       (''modified_epoch'', JInt modified), (''mode'', JStr (row ! 4))])))"

definition list_result :: "file_wire_response \<Rightarrow> payload res" where
  "list_result resp =
     bindE (many ''entry'' 5 resp) (\<lambda>rows.
     bindE (mapE list_entry rows) (\<lambda>entries.
     bindE (one ''path'' resp) (\<lambda>path.
     bindE (one_bool ''truncated'' resp) (\<lambda>truncated.
     Inr [(''status'', JStr ''completed''), (''path'', JStr path), (''entries'', JList entries),
       (''truncated'', JBool truncated)]))))"

definition stat_result :: "file_wire_response \<Rightarrow> payload res" where
  "stat_result resp =
     bindE (one ''path'' resp) (\<lambda>path.
     bindE (one ''type'' resp) (\<lambda>kind.
     bindE (one_integer ''size'' resp) (\<lambda>sz.
     bindE (one_integer ''modified_epoch'' resp) (\<lambda>modified.
     bindE (one ''mode'' resp) (\<lambda>mode.
     Inr [(''status'', JStr ''completed''), (''path'', JStr path), (''type'', JStr kind), (''size'', sz),
       (''modified_epoch'', modified), (''mode'', JStr mode)])))))"

definition hash_result :: "file_wire_response \<Rightarrow> payload res" where
  "hash_result resp =
     bindE (one_digest resp) (\<lambda>digest.
     bindE (one ''path'' resp) (\<lambda>path.
     Inr [(''status'', JStr ''completed''), (''path'', JStr path), (''sha256'', JStr digest)]))"

text \<open>What reading gives besides the payload: digest, text and whether it was cut.\<close>

definition read_text_result :: "file_wire_response \<Rightarrow> (int \<times> int) option \<Rightarrow> (pystr \<times> pystr \<times> bool \<times> payload) res" where
  "read_text_result resp line_range =
     bindE (one_digest resp) (\<lambda>digest.
     bindE (one_bool ''truncated'' resp) (\<lambda>truncated.
     bindE (one_bytes ''content'' resp) (\<lambda>raw.
     bindE (decode_remote_text raw truncated) (\<lambda>text.
     bindE (one ''path'' resp) (\<lambda>path.
     bindE (one_integer ''selected_bytes'' resp) (\<lambda>selected.
     Inr (digest, text, truncated,
       [(''status'', JStr ''completed''), (''path'', JStr path), (''sha256'', JStr digest), (''content'', JStr text),
        (''bytes_returned'', JInt (int (length raw))), (''selected_bytes'', selected), (''truncated'', JBool truncated)] @
       (case line_range of None \<Rightarrow> []
        | Some (start, last_line) \<Rightarrow> [(''start_line'', JInt start), (''end_line'', JInt last_line)]))))))))"

definition search_match :: "pystr list \<Rightarrow> json res" where
  "search_match row =
     bindE (positive_integer (row ! 1) ''line'') (\<lambda>line.
     Inr (JObj [(''path'', JStr (row ! 0)), (''line'', JInt line), (''text'', JStr (row ! 2))]))"

definition search_result :: "file_wire_response \<Rightarrow> payload res" where
  "search_result resp =
     bindE (many ''match'' 3 resp) (\<lambda>rows.
     bindE (mapE search_match rows) (\<lambda>matches.
     bindE (one ''path'' resp) (\<lambda>path.
     bindE (one_bool ''truncated'' resp) (\<lambda>truncated.
     Inr [(''status'', JStr ''completed''), (''path'', JStr path), (''matches'', JList matches),
       (''truncated'', JBool truncated)]))))"

definition write_result_of :: "file_wire_response \<Rightarrow> payload res" where
  "write_result_of resp =
     bindE (one_digest resp) (\<lambda>digest.
     bindE (one_bool ''created'' resp) (\<lambda>is_created.
     bindE (one ''path'' resp) (\<lambda>path.
     Inr [(''status'', JStr (if is_created then ''created'' else ''updated'')), (''path'', JStr path), (''sha256'', JStr digest)])))"

section \<open>Operations\<close>

definition check_file_result :: "payload \<Rightarrow> pystr \<Rightarrow> file_wire_response res" where
  "check_file_result result token =
     (if pget result ''status'' = JStr ''outcome_unknown''
      then Inl (RemoteFileError ''file_outcome_unknown'' ''connection ended before the remote file operation could be verified'')
      else if pget result ''status'' \<noteq> JStr ''completed'' \<or> \<not> equals_int (pget result ''exit_code'') 0
      then Inl (RemoteFileError ''file_command_failed'' ''remote file helper did not complete'')
      else if pget result ''truncated'' = JBool True
      then Inl (protocol_error ''remote file helper response was truncated'')
      else case pget result ''output'' of
        JStr out \<Rightarrow> parse_file_response out token
      | _ \<Rightarrow> Inl (protocol_error ''remote file helper returned no text''))"

definition run_file :: "'s command_runner \<Rightarrow> server_profile \<Rightarrow> file_wire_command \<Rightarrow> 's \<Rightarrow> 's \<times> file_wire_response res" where
  "run_file runner profile cmd =
     bindS (runner (fw_command cmd) (command_timeout_seconds profile)) (\<lambda>result.
     liftS (check_file_result result (fw_token cmd)))"

definition max_read_bytes :: "server_profile \<Rightarrow> int" where
  "max_read_bytes profile = min 1048576 (max 1 ((max_output_bytes profile - 2048) * 3 div 4))"

definition require_read :: "server_profile \<Rightarrow> unit res" where
  "require_read profile =
     guardE (allow_file_read profile) (RemoteFileError ''file_read_disabled'' ''structured file reads are disabled'')"

definition require_write :: "server_profile \<Rightarrow> unit res" where
  "require_write profile =
     guardE (allow_file_write profile) (RemoteFileError ''file_write_disabled'' ''structured file writes are disabled'')"

definition file_read :: "'s command_runner \<Rightarrow> pystr \<Rightarrow> server_profile \<Rightarrow> pystr \<Rightarrow> payload \<Rightarrow> 's \<Rightarrow> 's \<times> payload res" where
  "file_read runner token profile action pl =
     bindS (liftS (require_read profile)) (\<lambda>_.
     bindS (liftS (file_path pl ''path'')) (\<lambda>path.
     let roots = allowed_roots profile in
     if action = ''list'' then
       bindS (liftS (file_integer pl ''max_results'' 200 1 1000)) (\<lambda>limit.
       bindS (run_file runner profile (list_directory token roots path limit)) (\<lambda>resp. liftS (list_result resp)))
     else if action = ''stat'' then
       bindS (run_file runner profile (file_stat token roots path)) (\<lambda>resp. liftS (stat_result resp))
     else if action = ''hash'' then
       bindS (run_file runner profile (file_hash token roots path)) (\<lambda>resp. liftS (hash_result resp))
     else if action = ''read_text'' then
       bindS (liftS (file_integer pl ''byte_limit'' (min 65536 (max_read_bytes profile)) 1 (max_read_bytes profile))) (\<lambda>byte_limit.
       bindS (liftS (file_line_range pl)) (\<lambda>line_range.
       bindS (run_file runner profile (read_text token roots path byte_limit line_range)) (\<lambda>resp.
       liftS (bindE (read_text_result resp line_range) (\<lambda>(_, _, _, result). Inr result)))))
     else if action = ''search_text'' then
       bindS (liftS (file_query pl)) (\<lambda>query.
       bindS (liftS (file_integer pl ''max_results'' 100 1 500)) (\<lambda>limit.
       bindS (run_file runner profile (search_text token roots path query limit)) (\<lambda>resp. liftS (search_result resp))))
     else liftS (Inl (ValueError (''unsupported server_files action: '' @ action)))))"

definition check_patched :: "pystr option \<Rightarrow> pystr \<Rightarrow> pystr \<times> pystr \<times> bool \<times> payload \<Rightarrow> (pystr \<times> pystr) res" where
  "check_patched expected patch current =
     (case current of (current_hash, text, truncated, _) \<Rightarrow>
        if truncated then Inl (RemoteFileError ''file_too_large'' ''remote text exceeds the safe apply_patch size limit'')
        else if expected \<noteq> None \<and> expected \<noteq> Some current_hash
        then Inl (FileConflictError ''remote file does not match expected_sha256'')
        else bindE (apply_unified_patch text patch) (\<lambda>updated.
          if MAX_WRITE_TEXT_BYTES < length updated
          then Inl (ValueError ''patched text exceeds the 131072-byte write limit'')
          else Inr (updated, current_hash)))"

definition apply_file_patch ::
  "'s command_runner \<Rightarrow> (bytes \<Rightarrow> pystr) \<Rightarrow> pystr \<Rightarrow> pystr \<Rightarrow> server_profile \<Rightarrow> pystr \<Rightarrow> pystr \<Rightarrow> pystr option \<Rightarrow> 's \<Rightarrow> 's \<times> payload res" where
  "apply_file_patch runner sha256 token token' profile path patch expected =
     bindS (run_file runner profile (read_text token (allowed_roots profile) path
         (min (int MAX_WRITE_TEXT_BYTES + 1) (max_read_bytes profile)) None)) (\<lambda>resp.
     bindS (liftS (bindE (read_text_result resp None) (check_patched expected patch))) (\<lambda>(updated, current_hash).
     bindS (run_file runner profile (write_text sha256 token' (allowed_roots profile) path updated (Some current_hash))) (\<lambda>resp'.
     liftS (write_result_of resp'))))"

definition file_edit ::
  "'s command_runner \<Rightarrow> (bytes \<Rightarrow> pystr) \<Rightarrow> pystr \<Rightarrow> pystr \<Rightarrow> server_profile \<Rightarrow> pystr \<Rightarrow> payload \<Rightarrow> 's \<Rightarrow> 's \<times> payload res" where
  "file_edit runner sha256 token token' profile action pl =
     bindS (liftS (require_write profile)) (\<lambda>_.
     bindS (liftS (file_path pl ''path'')) (\<lambda>path.
     bindS (liftS (expected_hash pl)) (\<lambda>expected.
     let roots = allowed_roots profile in
     if action = ''write_text'' then
       bindS (liftS (file_content pl ''content'' MAX_WRITE_TEXT_BYTES)) (\<lambda>content.
       bindS (run_file runner profile (write_text sha256 token roots path content expected)) (\<lambda>resp. liftS (write_result_of resp)))
     else if action = ''apply_patch'' then
       bindS (liftS (file_content pl ''patch'' MAX_PATCH_BYTES)) (\<lambda>patch.
       apply_file_patch runner sha256 token token' profile path patch expected)
     else if action = ''mkdir'' then
       bindS (liftS (forbid expected ''expected_sha256'' action)) (\<lambda>_.
       bindS (run_file runner profile (file_mkdir token roots path)) (\<lambda>resp.
       liftS (bindE (one ''path'' resp) (\<lambda>p. Inr [(''status'', JStr ''created''), (''path'', JStr p)]))))
     else if action = ''rename'' then
       bindS (liftS (forbid expected ''expected_sha256'' action)) (\<lambda>_.
       bindS (liftS (file_path pl ''destination_path'')) (\<lambda>destination.
       bindS (run_file runner profile (file_rename token roots path destination)) (\<lambda>resp.
       liftS (bindE (one ''source'' resp) (\<lambda>src. bindE (one ''destination'' resp) (\<lambda>dst.
         Inr [(''status'', JStr ''renamed''), (''source'', JStr src), (''destination'', JStr dst)]))))))
     else if action = ''remove'' then
       bindS (liftS (file_boolean pl ''recursive'' False)) (\<lambda>recursive.
       bindS (run_file runner profile (file_remove token roots path recursive expected)) (\<lambda>resp.
       liftS (bindE (one ''path'' resp) (\<lambda>p. Inr [(''status'', JStr ''removed''), (''path'', JStr p)]))))
     else liftS (Inl (ValueError (''unsupported server_file_edit action: '' @ action))))))"

section \<open>Which commands run\<close>

text \<open>A runner that also writes down the commands it was given.\<close>

definition logged :: "'s command_runner \<Rightarrow> (pystr list \<times> 's) command_runner" where
  "logged runner command timeout st =
     (case runner command timeout (snd st) of (s', x) \<Rightarrow> ((fst st @ [command], s'), x))"

lemma run_file_log: "fst (fst (run_file (logged runner) profile cmd (lg, s))) = lg @ [fw_command cmd]"
  by (auto simp: run_file_def bindS_def logged_def split: prod.split sum.split)

definition path_ok :: "pystr \<Rightarrow> bool" where
  "path_ok v = (v \<noteq> [] \<and> length v \<le> MAX_REMOTE_PATH_BYTES \<and> (\<forall>c \<in> set v. \<not> is_control c))"

lemma file_path_ok: "file_path pl name = Inr v \<Longrightarrow> pget pl name = JStr v \<and> path_ok v"
  by (auto simp: file_path_def path_ok_def list_ex_iff split: json.splits if_splits)

lemma patch_log:
  fixes runner :: "'s command_runner"
  assumes "apply_file_patch (logged runner) sha256 token token' profile path patch expected (lg, s) = ((lg', s'), x)"
  defines "rd \<equiv> read_text token (allowed_roots profile) path (min (int MAX_WRITE_TEXT_BYTES + 1) (max_read_bytes profile)) None"
  shows "lg' = lg @ [fw_command rd] \<and> (\<exists>e. x = Inl e) \<or>
    (\<exists>s1 resp text digest rest updated.
       run_file runner profile rd s = (s1, Inr resp) \<and> read_text_result resp None = Inr (digest, text, False, rest) \<and>
       (expected = None \<or> expected = Some digest) \<and> apply_unified_patch text patch = Inr updated \<and>
       length updated \<le> MAX_WRITE_TEXT_BYTES \<and>
       lg' = lg @ [fw_command rd, fw_command (write_text sha256 token' (allowed_roots profile) path updated (Some digest))])"
proof -
  obtain s1 y where u: "run_file runner profile rd s = (s1, y)" by fastforce
  then have l: "run_file (logged runner) profile rd (lg, s) = ((lg @ [fw_command rd], s1), y)"
    by (auto simp: run_file_def bindS_def logged_def split: prod.splits sum.splits)
  show ?thesis
  proof (cases "bindE y (\<lambda>resp. bindE (read_text_result resp None) (check_patched expected patch))")
    case (Inl e)
    with assms(1) l show ?thesis
      unfolding apply_file_patch_def rd_def [symmetric] by (cases y) (auto simp: bindS_def)
  next
    case (Inr r)
    obtain updated digest where r: "r = (updated, digest)" by fastforce
    from Inr obtain resp digest' body truncated rest where y: "y = Inr resp"
      and t: "read_text_result resp None = Inr (digest', body, truncated, rest)"
      and c: "check_patched expected patch (digest', body, truncated, rest) = Inr (updated, digest)"
      unfolding r by (auto simp: bindE_eq_Inr)
    then have f: "\<not> truncated" "expected = None \<or> expected = Some digest'" "apply_unified_patch body patch = Inr updated"
      "length updated \<le> MAX_WRITE_TEXT_BYTES" "digest = digest'"
      by (auto simp: check_patched_def bindE_eq_Inr split: if_splits)
    let ?wr = "write_text sha256 token' (allowed_roots profile) path updated (Some digest')"
    have "lg' = (lg @ [fw_command rd]) @ [fw_command ?wr]"
      using assms(1) l Inr y run_file_log [of runner profile ?wr "lg @ [fw_command rd]" s1] r f(5)
      unfolding apply_file_patch_def rd_def [symmetric]
      by (auto simp: bindS_def split: prod.splits sum.splits)
    with u y t f show ?thesis by auto
  qed
qed

text \<open>
  No file command runs without permission and a checked path. When a read or an edit hands any
  command to the shell, the profile allows that kind of operation and the path of the request is a
  non-empty text of at most 4096 bytes without control characters; in every other case nothing
  runs and the request ends with an error.
\<close>

theorem file_commands_guarded:
  assumes "file_read (logged runner) token profile action pl (lg, s) = ((lg1, s1), x)"
    and "file_edit (logged runner) sha256 token token' profile action pl (lg, s) = ((lg2, s2), y)"
  shows "(allow_file_read profile \<and> (\<exists>path. pget pl ''path'' = JStr path \<and> path_ok path) \<or> lg1 = lg \<and> s1 = s \<and> \<not> isOk x) \<and>
    (allow_file_write profile \<and> (\<exists>path. pget pl ''path'' = JStr path \<and> path_ok path) \<or> lg2 = lg \<and> s2 = s \<and> \<not> isOk y)"
proof (cases "file_path pl ''path''")
  case (Inl e)
  with assms show ?thesis
    by (cases "allow_file_read profile"; cases "allow_file_write profile")
      (auto simp: file_read_def file_edit_def require_read_def require_write_def)
next
  case (Inr path)
  with file_path_ok [OF Inr] assms show ?thesis
    by (cases "allow_file_read profile"; cases "allow_file_write profile")
      (auto simp: file_read_def file_edit_def require_read_def require_write_def)
qed

definition demo_runner :: "unit command_runner" where
  "demo_runner command timeout st = (st, Inl (SessionLost ''gone''))"

theorem file_commands_guarded_witness:
  "fst (fst (file_edit (logged demo_runner) (\<lambda>_. []) ''t'' ''u'' (demo_profile\<lparr>allow_file_write := False\<rparr>) ''mkdir'' [] ([], ()))) = []"
proof -
  let ?p = "demo_profile\<lparr>allow_file_write := False\<rparr>"
  obtain l s x where r: "file_read (logged demo_runner) ''t'' ?p ''mkdir'' [] ([], ()) = ((l, s), x)" by (metis surj_pair)
  obtain l2 s2 y where e: "file_edit (logged demo_runner) (\<lambda>_. []) ''t'' ''u'' ?p ''mkdir'' [] ([], ()) = ((l2, s2), y)" by (metis surj_pair)
  from file_commands_guarded [OF r e] e show ?thesis by simp
qed

text \<open>
  C30: patching a file is a compare-and-swap. Applying a patch runs the read command and then either stops
  with an error, having written nothing, or runs exactly one write: of the text that the patch makes
  of the complete text just read, within the write limit, on condition that the file still has the
  digest that was read, which is the digest the caller expected if it named one.
\<close>

theorem patch_compare_and_swap:
  fixes runner :: "'s command_runner"
  assumes "apply_file_patch (logged runner) sha256 token token' profile path patch expected (lg, s) = ((lg', s'), x)"
    and "rd = read_text token (allowed_roots profile) path (min (int MAX_WRITE_TEXT_BYTES + 1) (max_read_bytes profile)) None"
  shows "lg' = lg @ [fw_command rd] \<and> (\<exists>e. x = Inl e) \<or>
    (\<exists>s1 resp text digest rest updated.
       run_file runner profile rd s = (s1, Inr resp) \<and> read_text_result resp None = Inr (digest, text, False, rest) \<and>
       (expected = None \<or> expected = Some digest) \<and> apply_unified_patch text patch = Inr updated \<and>
       length updated \<le> MAX_WRITE_TEXT_BYTES \<and>
       lg' = lg @ [fw_command rd, fw_command (write_text sha256 token' (allowed_roots profile) path updated (Some digest))])"
  using patch_log [OF assms(1)] unfolding assms(2) by simp

theorem patch_compare_and_swap_witness:
  "fst (fst (apply_file_patch (logged demo_runner) (\<lambda>_. []) ''t'' ''u'' demo_profile ''/srv/a'' ''x'' None ([], ()))) =
    [fw_command (read_text ''t'' (allowed_roots demo_profile) ''/srv/a''
      (min (int MAX_WRITE_TEXT_BYTES + 1) (max_read_bytes demo_profile)) None)]"
proof -
  obtain l s x where r: "apply_file_patch (logged demo_runner) (\<lambda>_. []) ''t'' ''u'' demo_profile ''/srv/a'' ''x'' None ([], ()) = ((l, s), x)"
    by (metis surj_pair)
  from patch_compare_and_swap [OF r refl] r show ?thesis
    by (auto simp: run_file_def bindS_def demo_runner_def)
qed

end
