(* ===== verification/Elevation.thy ===== *)
theory Elevation
  imports Config_Model Base64 Files_Shell Ipc_Messages
begin

text \<open>
  \<^verbatim>\<open>elevation/shell.py\<close> and \<^verbatim>\<open>elevation/service.py\<close>, with \<^verbatim>\<open>operation_sudo_prompt\<close> of \<^verbatim>\<open>ssh/prompts.py\<close>:
  commands through sudo. The runner of shell commands is an argument, on a state of its own, and so are
  the random tokens: one for the prompt, one for the markers. An integer converts to a float exactly
  here; the range that is accepted afterwards lies below the integers where it would not.
\<close>

section \<open>The shell command\<close>

definition SUDO_PROMPT_TEXT :: pystr where
  "SUDO_PROMPT_TEXT = ''[sudo] password for %u:''"

definition operation_sudo_prompt :: "pystr \<Rightarrow> pystr \<Rightarrow> pystr res" where
  "operation_sudo_prompt scope token =
     (if \<not> (scope \<noteq> [] \<and> list_all is_lower scope) \<or> \<not> (length token = 32 \<and> list_all is_hex token)
      then Inl (ValueError ''sudo prompt scope or token is invalid'')
      else Inr (SUDO_PROMPT_TEXT @ '' serverops-'' @ scope @ ''-'' @ token))"

text \<open>\<^verbatim>\<open>shlex.quote(text)\<close>\<close>

definition shell_safe :: "char \<Rightarrow> bool" where
  "shell_safe c = (is_alnum c \<or> c \<in> set ''_@%+=:,./-'')"

definition shlex_quote :: "pystr \<Rightarrow> pystr" where
  "shlex_quote s =
     (if s = [] then [SQ, SQ]
      else if list_all shell_safe s then s
      else [SQ] @ concat (map (\<lambda>c. if c = SQ then [SQ, QT, SQ, QT, SQ] else [c]) s) @ [SQ])"

record elevated_shell_command =
  es_command :: pystr
  es_begin_marker :: pystr
  es_end_marker :: pystr

definition root_wrapper :: "pystr \<Rightarrow> pystr \<Rightarrow> pystr" where
  \<open>root_wrapper begin_marker end_marker =
     sh ''/usr/bin/printf `%s~n` `'' @ begin_marker @ sh ''`; '' @
     ''/usr/bin/env -u BASH_ENV -u ENV -u SHELLOPTS -u BASHOPTS '' @
     ''/bin/bash --noprofile --norc -s; _serverops_root_exit=$?; '' @
     sh ''/usr/bin/printf `~n%s:%s~n` `'' @ end_marker @ sh ''` "$_serverops_root_exit"; '' @
     ''exit "$_serverops_root_exit"''\<close>

definition build_elevated_shell_command ::
  "pystr \<Rightarrow> pystr \<Rightarrow> bool \<Rightarrow> pystr option \<Rightarrow> elevated_shell_command res" where
  \<open>build_elevated_shell_command token command non_interactive sudo_prompt_token =
     (if non_interactive \<noteq> (sudo_prompt_token = None)
      then Inl (ValueError ''interactive sudo requires one operation-bound prompt token'')
      else
        let begin_marker = ''__SERVEROPS_ELEVATED_BEGIN_'' @ token @ ''__'';
            end_marker = ''__SERVEROPS_ELEVATED_END_'' @ token @ ''__'';
            arguments = quoted_chunks (b64encode command)
        in bindE (case sudo_prompt_token of
               None \<Rightarrow> Inr []
             | Some t \<Rightarrow> bindE (operation_sudo_prompt ''elevation'' t) (\<lambda>p. Inr (''-p '' @ shlex_quote p @ '' ''))) (\<lambda>prompt_flag.
           Inr \<lparr>es_command =
               sh ''builtin printf `%s` ~'' @ [LF] @
               arguments @ '' |'' @ [LF] @
               ''  /bin/base64 -d |'' @ [LF] @
               ''  /usr/bin/sudo '' @ (if non_interactive then ''-n '' else []) @ prompt_flag @ sh ''-- ~'' @ [LF] @
               sh ''  /usr/bin/env -u BASH_ENV -u ENV -u SHELLOPTS -u BASHOPTS ~'' @ [LF] @
               ''/bin/bash --noprofile --norc -c '' @ shlex_quote (root_wrapper begin_marker end_marker),
             es_begin_marker = begin_marker, es_end_marker = end_marker\<rparr>))\<close>

section \<open>The service\<close>

definition MAX_ELEVATED_COMMAND_BYTES :: nat where
  "MAX_ELEVATED_COMMAND_BYTES = 131072"

definition INTERACTIVE_ACQUIRE_TIMEOUT_SECONDS :: rat where
  "INTERACTIVE_ACQUIRE_TIMEOUT_SECONDS = 5"

text \<open>The float \<^verbatim>\<open>0.1\<close>.\<close>

definition ONE_TENTH :: rat where
  "ONE_TENTH = 3602879701896397 / 36028797018963968"

type_synonym 's elevation_runner = "pystr \<Rightarrow> rat \<Rightarrow> pystr option \<Rightarrow> 's \<Rightarrow> 's \<times> payload res"

definition elevation_run ::
  "'s elevation_runner \<Rightarrow> pystr \<Rightarrow> rat \<Rightarrow> pystr option \<Rightarrow> 's \<Rightarrow> 's \<times> payload res" where
  "elevation_run runner command timeout sudo_prompt_token =
     bindS (runner command timeout sudo_prompt_token) (\<lambda>result.
     liftS (if pget result ''status'' \<noteq> JStr ''completed''
       then Inl (ElevationError ''elevation_outcome_unknown'' ''sudo outcome could not be verified'')
       else Inr result))"

definition elevation_summary :: "server_profile \<Rightarrow> pystr \<Rightarrow> pystr \<Rightarrow> bool \<Rightarrow> payload" where
  "elevation_summary profile ssh_user status active =
     [(''status'', JStr status), (''active'', JBool active),
      (''elevation_mode'', JStr (elevation_mode_value (elevation_mode_of profile))), (''elevated'', JBool False),
      (''effective_user'', JStr ssh_user)]"

definition require_enabled :: "server_profile \<Rightarrow> unit res" where
  "require_enabled profile =
     guardE (elevation_mode_of profile \<noteq> DISABLED)
       (ElevationError ''elevation_disabled'' ''guided elevation is disabled for this profile'')"

definition exit_code_of :: "payload \<Rightarrow> int res" where
  "exit_code_of result =
     (case pget result ''exit_code'' of
        JInt i \<Rightarrow> Inr i
      | _ \<Rightarrow> Inl (ElevationError ''elevation_protocol_error'' ''sudo returned no valid exit code''))"

definition duration_of :: "payload \<Rightarrow> int" where
  "duration_of result = (case pget result ''duration_ms'' of JInt i \<Rightarrow> i | _ \<Rightarrow> 0)"

definition elevated_command :: "payload \<Rightarrow> pystr res" where
  "elevated_command pl =
     (case pget pl ''command'' of
        JStr c \<Rightarrow>
          if c = [] \<or> NUL \<in> set c then Inl (ValueError ''command must be non-empty text without NUL'')
          else if MAX_ELEVATED_COMMAND_BYTES < length c
          then Inl (ValueError ''command exceeds the 131072-byte elevation limit'')
          else Inr c
      | _ \<Rightarrow> Inl (ValueError ''command must be non-empty text without NUL''))"

definition elevation_timeout :: "payload \<Rightarrow> rat option res" where
  "elevation_timeout pl =
     (let in_range = (\<lambda>f. if ONE_TENTH \<le> f \<and> f \<le> 3600 then Inr (Some f)
            else Inl (ValueError ''timeout is outside the supported range''))
      in case pget pl ''timeout'' of
           JNull \<Rightarrow> Inr None
         | JInt i \<Rightarrow> bindE (float_of_int i) in_range
         | JFloat f \<Rightarrow> in_range f
         | _ \<Rightarrow> Inl (ValueError ''timeout must be a number''))"

definition elevation_check_fields :: "payload \<Rightarrow> pystr set \<Rightarrow> pystr set \<Rightarrow> unit res" where
  "elevation_check_fields pl required optional =
     guardE (required \<subseteq> set (keys pl) \<and> set (keys pl) \<subseteq> required \<union> optional)
       (ValueError ''elevation fields do not match the action'')"

definition SUDO_VALIDATE :: pystr where
  "SUDO_VALIDATE = ''/usr/bin/sudo -n -v''"

definition short_timeout :: "server_profile \<Rightarrow> rat" where
  "short_timeout profile = min 10 (of_int (command_timeout_seconds profile))"

definition elevation_status :: "'s elevation_runner \<Rightarrow> server_profile \<Rightarrow> pystr \<Rightarrow> 's \<Rightarrow> 's \<times> payload res" where
  "elevation_status runner profile ssh_user =
     (if elevation_mode_of profile = DISABLED then liftS (Inr (elevation_summary profile ssh_user ''disabled'' False))
      else bindS (elevation_run runner SUDO_VALIDATE (short_timeout profile) None) (\<lambda>result.
        liftS (bindE (exit_code_of result) (\<lambda>code.
          Inr (elevation_summary profile ssh_user (if code = 0 then ''active'' else ''inactive'') (code = 0))))))"

text \<open>\<^verbatim>\<open>except ServerOpsError: return False\<close>; any other exception goes on.\<close>

definition cache_is_active :: "'s elevation_runner \<Rightarrow> server_profile \<Rightarrow> 's \<Rightarrow> 's \<times> bool res" where
  "cache_is_active runner profile s =
     (case elevation_run runner SUDO_VALIDATE (short_timeout profile) None s of
        (s1, x) \<Rightarrow>
          (case bindE x exit_code_of of
             Inr code \<Rightarrow> (s1, Inr (code = 0))
           | Inl e \<Rightarrow> if is_serverops_error e then (s1, Inr False) else (s1, Inl e)))"

definition acquire_command :: "server_profile \<Rightarrow> pystr \<Rightarrow> (pystr \<times> rat \<times> pystr option) res" where
  "acquire_command profile token =
     (let timeout = of_int (command_timeout_seconds profile) in
      if elevation_mode_of profile = NON_INTERACTIVE then Inr (SUDO_VALIDATE, timeout, None)
      else bindE (operation_sudo_prompt ''elevation'' token) (\<lambda>p.
        Inr (''/usr/bin/sudo -p '' @ [SQ] @ p @ [SQ] @ '' -v'', min timeout INTERACTIVE_ACQUIRE_TIMEOUT_SECONDS, Some token)))"

definition elevation_acquire :: "'s elevation_runner \<Rightarrow> pystr \<Rightarrow> server_profile \<Rightarrow> pystr \<Rightarrow> 's \<Rightarrow> 's \<times> payload res" where
  "elevation_acquire runner token profile ssh_user =
     bindS (liftS (acquire_command profile token)) (\<lambda>(command, timeout, tok) s.
     (case elevation_run runner command timeout tok s of
        (s1, Inl e) \<Rightarrow>
          if is_serverops_error e \<and> exn_code e = Some ''command_timed_out''
          then (case cache_is_active runner profile s1 of
              (s2, Inr True) \<Rightarrow> (s2, Inr (elevation_summary profile ssh_user ''acquired'' True))
            | (s2, Inr False) \<Rightarrow> (s2, Inl e)
            | (s2, Inl e') \<Rightarrow> (s2, Inl e'))
          else (s1, Inl e)
      | (s1, Inr result) \<Rightarrow>
          (s1, bindE (exit_code_of result) (\<lambda>code.
             if code \<noteq> 0
             then Inl (ElevationError
               (if elevation_mode_of profile = NON_INTERACTIVE then ''elevation_authentication_required'' else ''elevation_failed'')
               ''sudo elevation could not be acquired'')
             else Inr (elevation_summary profile ssh_user ''acquired'' True)))))"

definition elevation_release :: "'s elevation_runner \<Rightarrow> server_profile \<Rightarrow> pystr \<Rightarrow> 's \<Rightarrow> 's \<times> payload res" where
  "elevation_release runner profile ssh_user =
     bindS (elevation_run runner ''/usr/bin/sudo -k'' (short_timeout profile) None) (\<lambda>result.
     liftS (bindE (exit_code_of result) (\<lambda>code.
       if code \<noteq> 0 then Inl (ElevationError ''elevation_release_failed'' ''sudo credentials could not be released'')
       else Inr (elevation_summary profile ssh_user ''released'' False))))"

section \<open>Elevated output\<close>

text \<open>
  The search for the last line: at the start of the output or after a line feed, the end marker, a
  colon, a number, and nothing but line feeds behind it. The first such position gives the output
  before it and the text of the number.
\<close>

definition end_number :: "pystr \<Rightarrow> pystr \<Rightarrow> pystr option" where
  "end_number end_marker s =
     (let m = end_marker @ '':'' in
      if \<not> starts_with m s then None
      else
        let r = drop (length m) s;
            sign = (case r of c # _ \<Rightarrow> if c = CHR ''-'' then ''-'' else [] | [] \<Rightarrow> []);
            digits = takeWhile is_digit (drop (length sign) r);
            rest = dropWhile is_digit (drop (length sign) r)
        in if digits = [] \<or> \<not> list_all (\<lambda>c. c = LF) rest then None else Some (sign @ digits))"

fun find_end :: "pystr \<Rightarrow> bool \<Rightarrow> pystr \<Rightarrow> (pystr \<times> pystr) option" where
  "find_end m first [] = (if first then map_option (\<lambda>n. ([], n)) (end_number m []) else None)"
| "find_end m first (c # s) =
     (case (if first then end_number m (c # s) else None) of
        Some n \<Rightarrow> Some ([], n)
      | None \<Rightarrow>
          (case (if c = LF then end_number m s else None) of
             Some n \<Rightarrow> Some ([], n)
           | None \<Rightarrow> map_option (\<lambda>(before, n). (c # before, n)) (find_end m False s)))"

fun after_first :: "pystr \<Rightarrow> pystr \<Rightarrow> pystr option" where
  "after_first p [] = (if p = [] then Some [] else None)"
| "after_first p (c # s) = (if starts_with p (c # s) then Some (drop (length p) (c # s)) else after_first p s)"

definition signed_number :: "pystr \<Rightarrow> int res" where
  "signed_number t =
     (case t of
        [] \<Rightarrow> Inr 0
      | c # r \<Rightarrow>
          if c = CHR ''-'' then bindE (digits_number r) (\<lambda>n. Inr (- int n))
          else bindE (digits_number t) (\<lambda>n. Inr (int n)))"

definition parse_elevated_output :: "server_profile \<Rightarrow> elevated_shell_command \<Rightarrow> payload \<Rightarrow> (pystr \<times> int) res" where
  "parse_elevated_output profile built result =
     (case pget result ''output'' of
        JStr out \<Rightarrow>
          (case find_end (es_end_marker built) True out of
             None \<Rightarrow> Inl (ElevationError
               (if elevation_mode_of profile = NON_INTERACTIVE then ''elevation_authentication_required'' else ''elevation_failed'')
               ''sudo did not start the elevated command'')
           | Some (before, number) \<Rightarrow>
               let user_output = (case after_first (es_begin_marker built @ [LF]) before of None \<Rightarrow> before | Some u \<Rightarrow> u)
               in bindE (signed_number number) (\<lambda>code. Inr (user_output, code)))
      | _ \<Rightarrow> Inl (ElevationError ''elevation_protocol_error'' ''sudo returned no framed output''))"

definition elevation_exec ::
  "'s elevation_runner \<Rightarrow> pystr \<Rightarrow> pystr \<Rightarrow> server_profile \<Rightarrow> pystr \<Rightarrow> rat option \<Rightarrow> 's \<Rightarrow> 's \<times> payload res" where
  "elevation_exec runner prompt_token token profile command timeout =
     (let non_interactive = (elevation_mode_of profile = NON_INTERACTIVE);
          tok = (if non_interactive then None else Some prompt_token) in
      bindS (liftS (build_elevated_shell_command token command non_interactive tok)) (\<lambda>built.
      bindS (elevation_run runner (es_command built)
          (case timeout of None \<Rightarrow> of_int (command_timeout_seconds profile) | Some t \<Rightarrow> t) tok) (\<lambda>result.
      liftS (bindE (parse_elevated_output profile built result) (\<lambda>(out, elevated_exit).
        bindE (exit_code_of result) (\<lambda>code.
        if code \<noteq> elevated_exit
        then Inl (ElevationError ''elevation_protocol_error'' ''elevated exit status was inconsistent'')
        else Inr [(''status'', JStr ''completed''), (''exit_code'', JInt elevated_exit), (''output'', JStr out),
          (''truncated'', JBool (pget result ''truncated'' = JBool True)), (''duration_ms'', JInt (duration_of result)),
          (''elevated'', JBool True), (''effective_user'', JStr ''root'')]))))))"

definition elevation_handle ::
  "'s elevation_runner \<Rightarrow> pystr \<Rightarrow> pystr \<Rightarrow> server_profile \<Rightarrow> pystr \<Rightarrow> pystr \<Rightarrow> payload \<Rightarrow> 's \<Rightarrow> 's \<times> payload res" where
  "elevation_handle runner prompt_token token profile ssh_user action pl =
     (if action = ''status'' then
        bindS (liftS (elevation_check_fields pl {} {})) (\<lambda>_. elevation_status runner profile ssh_user)
      else bindS (liftS (require_enabled profile)) (\<lambda>_.
        if action = ''acquire'' then
          bindS (liftS (elevation_check_fields pl {} {})) (\<lambda>_. elevation_acquire runner prompt_token profile ssh_user)
        else if action = ''release'' then
          bindS (liftS (elevation_check_fields pl {} {})) (\<lambda>_. elevation_release runner profile ssh_user)
        else if action = ''exec'' then
          bindS (liftS (elevation_check_fields pl {''command''} {''timeout''})) (\<lambda>_.
          bindS (liftS (elevated_command pl)) (\<lambda>command.
          bindS (liftS (elevation_timeout pl)) (\<lambda>timeout.
          elevation_exec runner prompt_token token profile command timeout)))
        else liftS (Inl (ValueError (''unsupported worker elevation action: '' @ action)))))"

section \<open>Properties of elevation\<close>

lemma end_number_shape:
  assumes "end_number m s = Some n"
  shows "\<exists>k. s = m @ '':'' @ n @ replicate k LF \<and> (\<forall>c \<in> set n. is_digit c \<or> c = CHR ''-'')"
proof -
  obtain r where s: "s = (m @ '':'') @ r"
    using assms by (auto simp: end_number_def Let_def starts_with_iff split: if_splits)
  define sign where "sign = (case r of c # _ \<Rightarrow> if c = CHR ''-'' then ''-'' else [] | [] \<Rightarrow> [])"
  have r: "r = sign @ drop (length sign) r" by (auto simp: sign_def split: list.split)
  let ?t = "drop (length sign) r"
  have n: "n = sign @ takeWhile is_digit ?t" and l: "list_all (\<lambda>c. c = LF) (dropWhile is_digit ?t)"
    using assms s by (auto simp: end_number_def Let_def sign_def [symmetric] split: if_splits)
  have "dropWhile is_digit ?t = replicate (length (dropWhile is_digit ?t)) LF"
    using l by (simp add: list_all_iff replicate_length_same)
  moreover have "?t = takeWhile is_digit ?t @ dropWhile is_digit ?t" by simp
  ultimately have "r = n @ replicate (length (dropWhile is_digit ?t)) LF" using r n by (metis append.assoc)
  moreover have "\<forall>c \<in> set n. is_digit c \<or> c = CHR ''-''"
    unfolding n by (auto simp: sign_def dest: set_takeWhileD split: list.splits if_splits)
  ultimately show ?thesis using s by auto
qed

lemma end_number_exact:
  assumes "list_all is_digit n" and "n \<noteq> []"
  shows "end_number m (m @ '':'' @ n @ replicate k LF) = Some n"
proof -
  have "\<not> is_digit LF" by (simp add: is_digit_def)
  then have t: "takeWhile is_digit (n @ replicate k LF) = n" "dropWhile is_digit (n @ replicate k LF) = replicate k LF"
    using assms(1) by (cases k; simp add: list_all_iff takeWhile_append2 dropWhile_append2)+
  obtain c r where c: "n = c # r" using assms(2) by (cases n) auto
  then have "c \<noteq> CHR ''-''" using assms(1) by (auto simp: is_digit_def)
  with c t assms(2) show ?thesis
    by (simp add: end_number_def Let_def starts_with_iff list_all_iff)
qed

text \<open>Before the line feed in front of the last line there is no other match.\<close>

lemma no_earlier_end:
  assumes "LF \<notin> set m" and "m' \<noteq> []" and "hd m' \<noteq> LF"
  shows "end_number m (x @ LF # m') = None"
proof (rule ccontr)
  assume "end_number m (x @ LF # m') \<noteq> None"
  then obtain n where "end_number m (x @ LF # m') = Some n" by blast
  from end_number_shape [OF this] obtain k where
    eq: "x @ LF # m' = (m @ '':'' @ n) @ replicate k LF" and n: "\<forall>c \<in> set n. is_digit c \<or> c = CHR ''-''" by auto
  have lf: "LF \<notin> set (m @ '':'' @ n)" using assms(1) n by (auto simp: is_digit_def)
  have dw: "dropWhile (\<lambda>c. c \<noteq> LF) (y @ replicate k LF) = replicate k LF" if "LF \<notin> set y" for y
    using that by (induction y) (cases k, auto)
  have "\<exists>y. dropWhile (\<lambda>c. c \<noteq> LF) (x @ LF # m') = y @ LF # m'"
    by (cases "\<forall>c \<in> set x. c \<noteq> LF") (auto simp: dropWhile_append)
  then obtain y where "y @ LF # m' = replicate k LF" using dw [OF lf] unfolding eq by metis
  then have "set m' \<subseteq> set (replicate k LF)" by (metis set_append le_sup_iff list.simps(15) insert_subset subset_refl)
  then have "set m' \<subseteq> {LF}" by (auto split: if_splits)
  with assms(2,3) show False by (cases m') auto
qed

lemma find_end_exact:
  assumes "LF \<notin> set m" and "m \<noteq> []" and "list_all is_digit n" and "n \<noteq> []"
  shows "find_end m first (x @ LF # m @ '':'' @ n @ replicate k LF) = Some (x, n)"
proof -
  let ?t = "m @ '':'' @ n @ replicate k LF"
  have t: "?t \<noteq> []" "hd ?t \<noteq> LF" using assms(1,2) by (cases m; auto)+
  have here: "end_number m ?t = Some n" using assms(3,4) by (rule end_number_exact)
  show ?thesis
  proof (induction x arbitrary: first)
    case Nil
    have "end_number m (LF # ?t) = None" using no_earlier_end [OF assms(1) t, of "[]"] by simp
    with here show ?case by simp
  next
    case (Cons c x)
    have "end_number m ((c # x) @ LF # ?t) = None" "end_number m (x @ LF # ?t) = None"
      using no_earlier_end [OF assms(1) t] by blast+
    with Cons.IH [of False] show ?case by simp
  qed
qed

lemma first_line_unique: "y @ c # u = b @ c # v \<Longrightarrow> c \<notin> set y \<Longrightarrow> c \<notin> set b \<Longrightarrow> y = b"
proof (induction y arbitrary: b)
  case Nil
  then show ?case by (cases b) auto
next
  case (Cons a y)
  then show ?case by (cases b) auto
qed

lemma after_first_exact:
  assumes "\<not> is_infix (b @ [LF]) pre" and "LF \<notin> set b"
  shows "after_first (b @ [LF]) (pre @ b @ LF # body) = Some body"
  using assms(1)
proof (induction pre)
  case Nil
  have "starts_with (b @ [LF]) (b @ LF # body)" by (simp add: starts_with_def)
  then show ?case by (cases b) auto
next
  case (Cons c pre)
  then have n: "\<not> starts_with (b @ [LF]) (c # pre)" and i: "\<not> is_infix (b @ [LF]) pre" by auto
  have "\<not> starts_with (b @ [LF]) (c # pre @ b @ LF # body)"
  proof
    assume "starts_with (b @ [LF]) (c # pre @ b @ LF # body)"
    then obtain t where eq: "(c # pre @ b) @ LF # body = b @ LF # t" by (auto simp: starts_with_iff)
    show False
    proof (cases "LF \<in> set (c # pre)")
      case True
      then obtain y z where yz: "c # pre = y @ LF # z" "LF \<notin> set y" using split_list_first by metis
      have "(c # pre) @ b @ LF # body = b @ LF # t" using eq by simp
      then have "y @ LF # (z @ b @ LF # body) = b @ LF # t" unfolding yz(1) by simp
      then have "y = b" using yz(2) assms(2) by (rule first_line_unique)
      with yz n show False by (simp add: starts_with_iff) 
    next
      case False
      then have "LF \<notin> set (c # pre @ b)" using assms(2) by simp
      then have "c # pre @ b = b" using eq assms(2) first_line_unique by metis
      then have "length (c # pre @ b) = length b" by simp
      then show False by simp
    qed
  qed
  with Cons.IH [OF i] show ?case by simp
qed

lemma signed_dec_nat:
  assumes "n < 256"
  shows "signed_number (dec_nat n) = Inr (int n)"
proof -
  obtain c r where c: "dec_nat n = c # r" using dec_nat_nonempty [of n] by (cases "dec_nat n") auto
  then have "c \<noteq> CHR ''-''" using dec_nat_digits [of n] by (auto simp: is_digit_def)
  moreover have "length (dec_nat n) \<le> 3"
    using assms dec_nat.simps [of n] dec_nat.simps [of "n div 10"] dec_nat.simps [of "n div 10 div 10"] by simp
  moreover have "digits_val (c # r) = n" using digits_val_dec_nat [of n] c by simp
  ultimately show ?thesis using c by (simp add: signed_number_def digits_number_def)
qed

lemma marker_no_LF: "list_all is_alnum token \<Longrightarrow> LF \<notin> set (''__SERVEROPS_ELEVATED_BEGIN_'' @ token @ ''__'') \<and>
    LF \<notin> set (''__SERVEROPS_ELEVATED_END_'' @ token @ ''__'')"
  by (auto simp: list_all_iff)

lemma built_markers:
  assumes "build_elevated_shell_command token command ni tok = Inr built"
  shows "es_begin_marker built = ''__SERVEROPS_ELEVATED_BEGIN_'' @ token @ ''__'' \<and>
    es_end_marker built = ''__SERVEROPS_ELEVATED_END_'' @ token @ ''__''"
  using assms by (auto simp: build_elevated_shell_command_def Let_def bindE_eq_Inr split: if_splits)

text \<open>
  The output of an elevated command is recovered exactly. Whatever the command printed, even lines that
  look like the markers, and whatever sudo printed before it: from the output of the wrapper (the begin
  marker, the command's output, the end marker with the exit status, any line feeds) exactly the
  command's output and status are read, provided the text before does not itself hold the begin
  marker of this operation.
\<close>

theorem elevated_output_exact:
  assumes "list_all is_alnum token" and "build_elevated_shell_command token command ni tok = Inr built"
    and "\<not> is_infix (es_begin_marker built @ [LF]) pre" and "status < 256"
    and "pget result ''output'' = JStr (pre @ es_begin_marker built @ LF # body @ LF # es_end_marker built @ '':'' @
           dec_nat status @ replicate k LF)"
  shows "parse_elevated_output profile built result = Inr (body, int status)"
proof -
  let ?b = "es_begin_marker built" and ?e = "es_end_marker built"
  have m: "LF \<notin> set ?b" "LF \<notin> set ?e" "?e \<noteq> []" using marker_no_LF [OF assms(1)] built_markers [OF assms(2)] by auto
  have "find_end ?e True ((pre @ ?b @ LF # body) @ LF # ?e @ '':'' @ dec_nat status @ replicate k LF) =
      Some (pre @ ?b @ LF # body, dec_nat status)"
    by (rule find_end_exact [OF m(2,3) dec_nat_digits dec_nat_nonempty])
  moreover have "after_first (?b @ [LF]) (pre @ ?b @ LF # body) = Some body"
    using assms(3) m(1) by (rule after_first_exact)
  moreover have "signed_number (dec_nat status) = Inr (int status)" by (rule signed_dec_nat [OF assms(4)])
  ultimately show ?thesis by (simp add: parse_elevated_output_def assms(5))
qed

theorem elevated_output_exact_witness:
  "\<exists>built. build_elevated_shell_command ''ab'' ''id'' True None = Inr built \<and>
    parse_elevated_output demo_profile built
      [(''output'', JStr (''hi'' @ es_begin_marker built @ LF # ''x'' @ LF # es_end_marker built @ '':'' @ dec_nat 3 @ [LF]))] =
    Inr (''x'', 3)"
proof -
  obtain built where b: "build_elevated_shell_command ''ab'' ''id'' True None = Inr built"
    by (simp add: build_elevated_shell_command_def Let_def)
  have "list_all is_alnum ''ab''" by code_simp
  moreover have "\<not> is_infix (es_begin_marker built @ [LF]) ''hi''"
    using built_markers [OF b] by (simp add: starts_with_def)
  moreover have "pget [(''output'', JStr (''hi'' @ es_begin_marker built @ LF # ''x'' @ LF # es_end_marker built @ '':'' @ dec_nat 3 @ [LF]))] ''output'' =
      JStr (''hi'' @ es_begin_marker built @ LF # ''x'' @ LF # es_end_marker built @ '':'' @ dec_nat 3 @ replicate 1 LF)"
    by (simp add: pget_def)
  ultimately show ?thesis
    using b elevated_output_exact [where profile = demo_profile and status = 3] by fastforce
qed

end
