(* ===== verification/Py_Regex.thy ===== *)
theory Py_Regex
  imports Text_Lib
begin

text \<open>
  The regular expressions of Python that the prompt and redaction code uses, as far as it uses them: classes of
  single characters, sequence, choice, repetition of a class (greedy or lazy), the two anchors and
  the edge of a word.
  A text is the list of its characters, each a character's bytes, so that positions are the
  positions of Python. A pattern gives the ends of its matches at a position in the order in
  which Python's matcher tries them; its match is the first.
\<close>

type_synonym text_chars = "pystr list"

datatype pattern =
    Cls "pystr \<Rightarrow> bool"
  | Seq pattern pattern
  | Alt pattern pattern
  | Greedy nat "pystr \<Rightarrow> bool"
  | Lazy nat "pystr \<Rightarrow> bool"
  | AtStart
  | AtEnd
  | WordEdge "pystr \<Rightarrow> bool"

definition run_length :: "(pystr \<Rightarrow> bool) \<Rightarrow> text_chars \<Rightarrow> nat \<Rightarrow> nat" where
  "run_length P s i = length (takeWhile P (drop i s))"

text \<open>Whether the characters in front of a position and behind it differ in being part of a word.\<close>

definition word_edge :: "(pystr \<Rightarrow> bool) \<Rightarrow> text_chars \<Rightarrow> nat \<Rightarrow> bool" where
  "word_edge W s i = ((0 < i \<and> i \<le> length s \<and> W (s ! (i - 1))) \<noteq> (i < length s \<and> W (s ! i)))"

text \<open>\<open>$\<close> also matches in front of a line feed that ends the text.\<close>

fun ends :: "pattern \<Rightarrow> text_chars \<Rightarrow> nat \<Rightarrow> nat list" where
  "ends (Cls P) s i = (if i < length s \<and> P (s ! i) then [Suc i] else [])"
| "ends (Seq p q) s i = concat (map (ends q s) (ends p s i))"
| "ends (Alt p q) s i = ends p s i @ ends q s i"
| "ends (Greedy n P) s i = rev [i + n ..< Suc (i + run_length P s i)]"
| "ends (Lazy n P) s i = [i + n ..< Suc (i + run_length P s i)]"
| "ends AtStart s i = (if i = 0 then [i] else [])"
| "ends AtEnd s i = (if i = length s \<or> Suc i = length s \<and> s ! i = [LF] then [i] else [])"
| "ends (WordEdge W) s i = (if word_edge W s i then [i] else [])"

definition match_end :: "pattern \<Rightarrow> text_chars \<Rightarrow> nat \<Rightarrow> nat option" where
  "match_end p s i = (case ends p s i of [] \<Rightarrow> None | e # _ \<Rightarrow> Some e)"

text \<open>\<^verbatim>\<open>search\<close> and \<^verbatim>\<open>finditer\<close>, from a position on; an empty match moves the search on by one.\<close>

definition search_from :: "pattern \<Rightarrow> text_chars \<Rightarrow> nat \<Rightarrow> (nat \<times> nat) option" where
  "search_from p s i =
     (case List.filter (\<lambda>j. match_end p s j \<noteq> None) [i ..< Suc (length s)] of
        [] \<Rightarrow> None
      | j # _ \<Rightarrow> Some (j, the (match_end p s j)))"

definition search :: "pattern \<Rightarrow> text_chars \<Rightarrow> bool" where
  "search p s = (search_from p s 0 \<noteq> None)"

lemma search_from_start:
  assumes "search_from p s i = Some (j, e)"
  shows "i \<le> j \<and> j \<le> length s \<and> match_end p s j = Some e"
proof -
  obtain js where js: "List.filter (\<lambda>j. match_end p s j \<noteq> None) [i ..< Suc (length s)] = j # js"
    and e: "e = the (match_end p s j)"
    using assms by (auto simp: search_from_def split: list.splits)
  have "j \<in> set (List.filter (\<lambda>j. match_end p s j \<noteq> None) [i ..< Suc (length s)])" unfolding js by simp
  then have "j \<in> set [i ..< Suc (length s)]" "match_end p s j \<noteq> None" by (simp_all del: upt_Suc)
  with e show ?thesis by (auto simp del: upt_Suc)
qed

function finditer_from :: "pattern \<Rightarrow> text_chars \<Rightarrow> nat \<Rightarrow> (nat \<times> nat) list" where
  "finditer_from p s i =
     (case search_from p s i of
        None \<Rightarrow> []
      | Some (j, e) \<Rightarrow> (j, e) # (if length s < max (Suc j) e then [] else finditer_from p s (max (Suc j) e)))"
  by pat_completeness auto
termination
proof (relation "measure (\<lambda>(p, s, i). Suc (length s) - i)", simp, goal_cases)
  case (1 p s i x j e)
  then show ?case using search_from_start [of p s i j e] by auto
qed

declare finditer_from.simps [simp del]

text \<open>Letters without regard to case; beside the capital, Python identifies the Kelvin sign with k, the
  long s with s, and the dotted capital and dotless small i with i.\<close>

definition case_variants :: "char \<Rightarrow> pystr list" where
  "case_variants c =
     (if c = CHR ''k'' then [[CHR 0xE2, CHR 0x84, CHR 0xAA]]
      else if c = CHR ''s'' then [[CHR 0xC5, CHR 0xBF]]
      else if c = CHR ''i'' then [[CHR 0xC4, CHR 0xB0], [CHR 0xC4, CHR 0xB1]] else [])"

definition ci :: "char \<Rightarrow> pystr \<Rightarrow> bool" where
  "ci c ch = (map to_lower ch = [to_lower c] \<or> ch \<in> set (case_variants (to_lower c)))"

fun literal_ci :: "pystr \<Rightarrow> pattern" where
  "literal_ci [] = Greedy 0 (\<lambda>_. False)"
| "literal_ci [c] = Cls (ci c)"
| "literal_ci (c # d # s) = Seq (Cls (ci c)) (literal_ci (d # s))"

fun literal :: "pystr \<Rightarrow> pattern" where
  "literal [] = Greedy 0 (\<lambda>_. False)"
| "literal [c] = Cls (\<lambda>ch. ch = [c])"
| "literal (c # d # s) = Seq (Cls (\<lambda>ch. ch = [c])) (literal (d # s))"

definition single :: "(char \<Rightarrow> bool) \<Rightarrow> pystr \<Rightarrow> bool" where
  "single P ch = (case ch of [c] \<Rightarrow> P c | _ \<Rightarrow> False)"

text \<open>A class that has all letters, without regard to case.\<close>

definition single_ci :: "(char \<Rightarrow> bool) \<Rightarrow> pystr \<Rightarrow> bool" where
  "single_ci P ch = (single P ch \<or> list_ex (\<lambda>c. ch \<in> set (case_variants c)) ''iks'')"

definition not_LF :: "pystr \<Rightarrow> bool" where
  "not_LF ch = (ch \<noteq> [LF])"

definition not_line_end :: "pystr \<Rightarrow> bool" where
  "not_line_end ch = (ch \<noteq> [LF] \<and> ch \<noteq> [CR])"

definition any_char :: "pystr \<Rightarrow> bool" where
  "any_char ch = True"

definition line_start :: pattern where
  "line_start = Alt AtStart (Cls (\<lambda>ch. ch = [LF]))"

section \<open>Facts on matches\<close>

lemma run_bounds: "i \<le> length s \<Longrightarrow> e \<in> set [i + n ..< Suc (i + run_length P s i)] \<Longrightarrow> i \<le> e \<and> e \<le> length s"
  using length_takeWhile_le [of P "drop i s"] by (simp add: run_length_def del: upt_Suc) linarith

lemma ends_bounds: "i \<le> length s \<Longrightarrow> e \<in> set (ends p s i) \<Longrightarrow> i \<le> e \<and> e \<le> length s"
proof (induction p arbitrary: i e)
  case (Seq p q)
  have "e \<in> (\<Union>m \<in> set (ends p s i). set (ends q s m))" using Seq.prems(2) by simp
  then obtain m where m: "m \<in> set (ends p s i)" "e \<in> set (ends q s m)" by blast
  have 1: "i \<le> m \<and> m \<le> length s" by (rule Seq.IH(1) [OF Seq.prems(1) m(1)])
  then have "m \<le> e \<and> e \<le> length s" by (intro Seq.IH(2) [OF _ m(2)]) simp
  with 1 show ?case by simp
next
  case (Greedy n P)
  then have "e \<in> set [i + n ..< Suc (i + run_length P s i)]" by (simp only: ends.simps set_rev)
  with Greedy.prems(1) show ?case by (rule run_bounds)
next
  case (Lazy n P)
  then have "e \<in> set [i + n ..< Suc (i + run_length P s i)]" by (simp only: ends.simps)
  with Lazy.prems(1) show ?case by (rule run_bounds)
next
  case (Alt p q)
  have "e \<in> set (ends p s i) \<or> e \<in> set (ends q s i)" using Alt.prems(2) by simp
  then consider "e \<in> set (ends p s i)" | "e \<in> set (ends q s i)" by blast
  then show ?case using Alt.IH Alt.prems(1) by cases blast+
next
  case (Cls P)
  then show ?case by (simp split: if_splits)
next
  case AtStart
  then show ?case by (simp split: if_splits)
next
  case AtEnd
  then show ?case by (simp split: if_splits)
next
  case (WordEdge W)
  then show ?case by (simp split: if_splits)
qed

lemma match_end_bounds: "i \<le> length s \<Longrightarrow> match_end p s i = Some e \<Longrightarrow> i \<le> e \<and> e \<le> length s"
  using ends_bounds [of i s e p] by (auto simp: match_end_def split: list.splits)

lemma finditer_bounds:
  "(j, e) \<in> set (finditer_from p s i) \<Longrightarrow> i \<le> j \<and> j \<le> e \<and> e \<le> length s \<and> match_end p s j = Some e"
proof (induction p s i rule: finditer_from.induct)
  case (1 p s i)
  show ?case
  proof (cases "search_from p s i")
    case None
    with "1.prems" show ?thesis by (simp add: finditer_from.simps)
  next
    case (Some m)
    obtain j' e' where m: "m = (j', e')" by fastforce
    note f = search_from_start [OF Some [unfolded m]]
    have b: "j' \<le> e' \<and> e' \<le> length s" using f match_end_bounds by blast
    from "1.prems" Some m consider "(j, e) = (j', e')" | "\<not> length s < max (Suc j') e'" "(j, e) \<in> set (finditer_from p s (max (Suc j') e'))"
      by (subst (asm) finditer_from.simps) (auto split: if_splits)
    then show ?thesis
    proof cases
      case 1
      with f b show ?thesis by auto
    next
      case 2
      from "1.IH" [OF Some m [symmetric] 2] f show ?thesis by auto
    qed
  qed
qed

end
