(* ===== verification/Ssh_Prompts.thy ===== *)
theory Ssh_Prompts
  imports Py_Regex Framing Config_Model "HOL-Library.Product_Lexorder" "HOL-Library.List_Lexorder" "HOL-Library.Char_ord"
begin

text \<open>
  \<^verbatim>\<open>ssh/prompts.py\<close> and \<^verbatim>\<open>ssh/auth_policy.py\<close>: recognising the prompts of OpenSSH and sudo in the output of a
  terminal, and which of them a profile lets be answered. The history is a list of characters, and
  offsets count characters. Case-insensitive matching is that of ASCII.
\<close>

section \<open>Patterns\<close>

definition READY_PROMPT :: pattern where
  "READY_PROMPT =
     Seq line_start (Seq (literal ''bash-'') (Seq (Greedy 1 (single (\<lambda>c. is_digit c \<or> c = CHR ''.'')))
       (Seq (Cls (\<lambda>ch. ch = ''$'' \<or> ch = ''#'')) (Alt (Cls (\<lambda>ch. ch = '' '')) (Greedy 0 (\<lambda>_. False))))))"

definition HOST_KEY_PROMPT :: pattern where
  "HOST_KEY_PROMPT =
     Seq (literal_ci ''Are you sure you want to continue connecting'') (Seq (Lazy 0 not_LF) (literal ''?''))"

definition HOST_KEY_NOTICE_START :: pattern where
  "HOST_KEY_NOTICE_START = Seq line_start (literal_ci ''The authenticity of host '')"

definition KEY_PASSPHRASE_PROMPT :: pattern where
  "KEY_PASSPHRASE_PROMPT = Seq (literal_ci ''Enter passphrase for key '') (Seq (Lazy 0 not_LF) (literal '':''))"

definition SUDO_PROMPT :: pattern where
  "SUDO_PROMPT =
     Seq (literal_ci ''[sudo] password for '') (Seq (Lazy 0 not_line_end) (Seq (literal '':'') (Greedy 0 not_line_end)))"

definition PASSWORD_PROMPT :: pattern where
  "PASSWORD_PROMPT = Seq line_start (Seq (Greedy 0 not_LF) (literal_ci ''password:''))"

datatype prompt_kind = HOST_KEY | PASSWORD | KEY_PASSPHRASE | SUDO_PASSWORD

fun kind_value :: "prompt_kind \<Rightarrow> pystr" where
  "kind_value HOST_KEY = ''host_key''"
| "kind_value PASSWORD = ''password''"
| "kind_value KEY_PASSPHRASE = ''key_passphrase''"
| "kind_value SUDO_PASSWORD = ''sudo_password''"

record prompt_event =
  pe_kind :: prompt_kind
  pe_prompt :: pystr

section \<open>The detector\<close>

record prompt_detector =
  pd_limit :: nat
  pd_history :: text_chars
  pd_base :: nat
  pd_seen :: "prompt_kind \<Rightarrow> nat"

definition new_prompt_detector :: "nat \<Rightarrow> prompt_detector res" where
  "new_prompt_detector history_characters =
     (if history_characters < 1024 then Inl (ValueError ''prompt history must be at least 1024 characters'')
      else Inr \<lparr>pd_limit = history_characters, pd_history = [], pd_base = 0, pd_seen = (\<lambda>_. 0)\<rparr>)"

definition detector_ready :: "prompt_detector \<Rightarrow> bool" where
  "detector_ready d = search READY_PROMPT (pd_history d)"

definition strip_chars :: "text_chars \<Rightarrow> text_chars" where
  "strip_chars cs = rev (dropWhile is_space (rev (dropWhile is_space cs)))"

definition slice :: "'a list \<Rightarrow> nat \<Rightarrow> nat \<Rightarrow> 'a list" where
  "slice xs i j = drop i (take j xs)"

definition host_key_notice :: "text_chars \<Rightarrow> nat \<Rightarrow> nat \<Rightarrow> text_chars" where
  "host_key_notice history question_start question_end =
     (let starts = finditer_from HOST_KEY_NOTICE_START (take question_start history) (question_start - 2048);
          start = (if starts = [] then question_start else fst (last starts))
      in strip_chars (slice history start question_end))"

definition prompt_patterns :: "(prompt_kind \<times> pattern) list" where
  "prompt_patterns =
     [(HOST_KEY, HOST_KEY_PROMPT), (KEY_PASSPHRASE, KEY_PASSPHRASE_PROMPT), (SUDO_PASSWORD, SUDO_PROMPT),
      (PASSWORD, PASSWORD_PROMPT)]"

definition prompt_candidates :: "prompt_detector \<Rightarrow> (nat \<times> nat \<times> prompt_kind \<times> text_chars) list" where
  "prompt_candidates d =
     concat (map (\<lambda>(kind, pat).
       List.map_filter (\<lambda>(i, j).
         if kind = PASSWORD \<and> search SUDO_PROMPT (slice (pd_history d) i j) then None
         else if pd_base d + j \<le> pd_seen d kind then None
         else Some (pd_base d + i, pd_base d + j, kind,
           if kind = HOST_KEY then host_key_notice (pd_history d) i j else strip_chars (slice (pd_history d) i j)))
         (finditer_from pat (pd_history d) 0)) prompt_patterns)"

fun report_prompts ::
  "(nat \<times> nat \<times> prompt_kind \<times> text_chars) list \<Rightarrow> (prompt_kind \<Rightarrow> nat) \<Rightarrow> (prompt_kind \<Rightarrow> nat) \<times> prompt_event list" where
  "report_prompts [] seen = (seen, [])"
| "report_prompts ((_, absolute_end, kind, prompt) # cs) seen =
     (if absolute_end \<le> seen kind then report_prompts cs seen
      else case report_prompts cs (seen(kind := absolute_end)) of
        (seen', events) \<Rightarrow>
          (seen', \<lparr>pe_kind = kind,
             pe_prompt = concat (drop (length prompt - (if kind = HOST_KEY then 2048 else 500)) prompt)\<rparr> # events))"

definition extend_history :: "pystr \<Rightarrow> prompt_detector \<Rightarrow> prompt_detector" where
  "extend_history text d =
     (let history = pd_history d @ py_chars (delete_char CR (strip_ansi text));
          dropped = length history - pd_limit d
      in d\<lparr>pd_history := drop dropped history, pd_base := pd_base d + dropped\<rparr>)"

definition detector_feed :: "pystr \<Rightarrow> prompt_detector \<Rightarrow> prompt_detector \<times> prompt_event list" where
  "detector_feed text d =
     (let d1 = extend_history text d;
          candidates = sort_key (\<lambda>(i, j, kind, _). (i, j, kind_value kind)) (prompt_candidates d1)
      in case report_prompts candidates (pd_seen d1) of (seen, events) \<Rightarrow> (d1\<lparr>pd_seen := seen\<rparr>, events))"

section \<open>Which prompts may be answered\<close>

definition HOST_KEY_LIMIT :: nat where
  "HOST_KEY_LIMIT = 2048"

definition CREDENTIAL_PROMPT_LIMIT :: nat where
  "CREDENTIAL_PROMPT_LIMIT = 500"

definition HOST_KEY_QUESTION :: pattern where
  "HOST_KEY_QUESTION =
     Seq (literal_ci ''Are you sure you want to continue connecting'') (Seq (Lazy 0 any_char) (literal ''?''))"

definition HOST_KEY_FINGERPRINT :: pattern where
  "HOST_KEY_FINGERPRINT =
     Seq (Alt (literal_ci ''ED25519'') (Alt (literal_ci ''ECDSA'') (Alt (literal_ci ''RSA'') (literal_ci ''DSA''))))
       (Seq (Lazy 0 any_char) (Seq (literal_ci ''fingerprint is SHA256:'')
         (Greedy 1 (single_ci (\<lambda>c. is_alnum c \<or> c = CHR ''+'' \<or> c = CHR ''/'')))))"

definition KEY_PASSPHRASE_LINE :: pattern where
  "KEY_PASSPHRASE_LINE =
     Seq (literal_ci ''Enter passphrase for key '') (Seq (Lazy 1 any_char) (Seq (literal '':'') (Seq (Greedy 0 is_space) AtEnd)))"

definition ACCOUNT_PASSWORD :: pattern where
  "ACCOUNT_PASSWORD =
     Seq line_start (Seq (Greedy 0 not_LF) (Seq (literal_ci ''password:'') (Seq (Greedy 0 is_space) AtEnd)))"

definition connection_prompt_kinds :: "server_profile \<Rightarrow> prompt_kind list" where
  "connection_prompt_kinds profile =
     (if connection_type_of profile = SSH_CONFIG then [HOST_KEY, PASSWORD, KEY_PASSPHRASE]
      else if authentication_of profile = INTERACTIVE_PASSWORD then [HOST_KEY, PASSWORD]
      else [HOST_KEY, KEY_PASSPHRASE])"

definition classify_askpass_prompt :: "pystr \<Rightarrow> prompt_event res" where
  "classify_askpass_prompt prompt =
     (let chars = strip_chars (py_chars (subst_char CR LF (replace_crlf prompt)));
          normalized = concat chars
      in if chars = [] \<or> HOST_KEY_LIMIT < length chars \<or>
            list_ex (\<lambda>c. (ord c < 32 \<and> c \<noteq> LF) \<or> ord c = 127) normalized
         then Inl (PromptPolicyError ''OpenSSH Askpass prompt is invalid or oversized'')
         else if search HOST_KEY_QUESTION chars
         then (if \<not> is_infix ''The authenticity of host '' normalized \<or> \<not> search HOST_KEY_FINGERPRINT chars
               then Inl (PromptPolicyError ''host-key prompt omitted its algorithm or fingerprint notice'')
               else Inr \<lparr>pe_kind = HOST_KEY, pe_prompt = normalized\<rparr>)
         else if CREDENTIAL_PROMPT_LIMIT < length chars then Inl (PromptPolicyError ''credential prompt is oversized'')
         else if search KEY_PASSPHRASE_LINE chars then Inr \<lparr>pe_kind = KEY_PASSPHRASE, pe_prompt = normalized\<rparr>
         else if \<not> is_infix ''[sudo]'' (map to_lower normalized) \<and> search ACCOUNT_PASSWORD chars
         then Inr \<lparr>pe_kind = PASSWORD, pe_prompt = normalized\<rparr>
         else Inl (PromptPolicyError ''OpenSSH Askpass prompt kind is not recognized''))"

record prompt_policy =
  pp_allowed :: "prompt_kind list"
  pp_host_key_answered :: bool
  pp_credential_answered :: bool

definition policy_from_profile :: "server_profile \<Rightarrow> prompt_policy" where
  "policy_from_profile profile =
     \<lparr>pp_allowed = connection_prompt_kinds profile, pp_host_key_answered = False, pp_credential_answered = False\<rparr>"

definition authorize :: "prompt_event \<Rightarrow> prompt_policy \<Rightarrow> unit res" where
  "authorize event p =
     (if pe_kind event \<notin> set (pp_allowed p)
      then Inl (PromptPolicyError (kind_value (pe_kind event) @ '' is not allowed by the selected profile''))
      else if pp_credential_answered p then Inl (PromptPolicyError ''connection authentication is already complete'')
      else if pe_kind event = HOST_KEY \<and> pp_host_key_answered p
      then Inl (PromptPolicyError ''a host-key decision was already supplied'')
      else Inr ())"

definition record_answer :: "prompt_kind \<Rightarrow> prompt_policy \<Rightarrow> prompt_policy res" where
  "record_answer kind p =
     (if kind = HOST_KEY
      then (if pp_host_key_answered p then Inl (PromptPolicyError ''a host-key decision was already supplied'')
            else Inr (p\<lparr>pp_host_key_answered := True\<rparr>))
      else if kind \<notin> {PASSWORD, KEY_PASSPHRASE} then Inl (PromptPolicyError ''prompt kind is not a connection credential'')
      else if pp_credential_answered p then Inl (PromptPolicyError ''connection authentication is already complete'')
      else Inr (p\<lparr>pp_credential_answered := True\<rparr>))"

section \<open>Properties\<close>

lemma report_seen: "report_prompts cs seen = (seen', events) \<Longrightarrow>
    (\<forall>k. seen k \<le> seen' k) \<and> (\<forall>(i, j, k, p) \<in> set cs. j \<le> seen' k)"
proof (induction cs seen arbitrary: seen' events rule: report_prompts.induct)
  case (2 i j k p cs seen)
  show ?case
  proof (cases "j \<le> seen k")
    case True
    with 2 show ?thesis by (fastforce dest: order_trans)
  next
    case False
    then obtain ev where "report_prompts cs (seen(k := j)) = (seen', ev)"
      using "2.prems" by (auto split: prod.splits)
    from "2.IH"(2) [OF False this] have ih: "\<forall>k'. (seen(k := j)) k' \<le> seen' k'" "\<forall>(i, j, k, p) \<in> set cs. j \<le> seen' k" by auto
    have "seen k' \<le> seen' k'" for k' using ih(1) [rule_format, of k'] False by (cases "k' = k") auto
    moreover have "j \<le> seen' k" using ih(1) [rule_format, of k] by simp
    ultimately show ?thesis using ih(2) by auto
  qed
qed simp

definition notice_of :: "prompt_kind \<Rightarrow> text_chars \<Rightarrow> nat \<Rightarrow> nat \<Rightarrow> text_chars" where
  "notice_of k history a b = (if k = HOST_KEY then host_key_notice history a b else strip_chars (slice history a b))"

lemma candidates_iff:
  "(i, j, k, p) \<in> set (prompt_candidates d) \<longleftrightarrow>
    (\<exists>pat a b. (k, pat) \<in> set prompt_patterns \<and> (a, b) \<in> set (finditer_from pat (pd_history d) 0) \<and>
      \<not> (k = PASSWORD \<and> search SUDO_PROMPT (slice (pd_history d) a b)) \<and> pd_seen d k < pd_base d + b \<and>
      i = pd_base d + a \<and> j = pd_base d + b \<and> p = notice_of k (pd_history d) a b)"
  unfolding prompt_candidates_def notice_of_def
  by (simp add: List.map_filter_def split_beta image_iff) (safe; force split: if_splits)

text \<open>Marking more as seen leaves fewer candidates.\<close>

lemma candidates_after:
  assumes "\<And>i j k p. (i, j, k, p) \<in> set (prompt_candidates d) \<Longrightarrow> j \<le> seen k" and "\<And>k. pd_seen d k \<le> seen k"
  shows "prompt_candidates (d\<lparr>pd_seen := seen\<rparr>) = []"
proof -
  have False if "(i, j, k, p) \<in> set (prompt_candidates (d\<lparr>pd_seen := seen\<rparr>))" for i j k p
  proof -
    from that obtain pat a b where c: "(k, pat) \<in> set prompt_patterns" "(a, b) \<in> set (finditer_from pat (pd_history d) 0)"
      "\<not> (k = PASSWORD \<and> search SUDO_PROMPT (slice (pd_history d) a b))" "seen k < pd_base d + b"
      unfolding candidates_iff by auto
    have "pd_seen d k < pd_base d + b" using c(4) assms(2) [of k] by simp
    with c(1-3) have "(pd_base d + a, pd_base d + b, k, notice_of k (pd_history d) a b) \<in> set (prompt_candidates d)"
      unfolding candidates_iff by blast
    from assms(1) [OF this] c(4) show False by simp
  qed
  then show ?thesis by (metis prod_cases4 list.exhaust list.set_intros(1))
qed

lemma extend_bounded: "length (pd_history (extend_history text d)) \<le> pd_limit d"
  by (simp add: extend_history_def Let_def)


lemma extend_nothing: "length (pd_history d) \<le> pd_limit d \<Longrightarrow> extend_history [] d = d"
  by (simp add: extend_history_def Let_def delete_char_def)

text \<open>
  A prompt is reported once and the detector's memory is bounded. After any output is fed, the history
  has at most the configured number of characters, and everything that it shows has been reported:
  feeding nothing more reports nothing and changes nothing, so that no prompt is answered twice.
\<close>

theorem prompts_reported_once:
  "length (pd_history (fst (detector_feed text d))) \<le> pd_limit d \<and>
   detector_feed [] (fst (detector_feed text d)) = (fst (detector_feed text d), [])"
proof -
  define d1 where "d1 = extend_history text d"
  let ?cs = "sort_key (\<lambda>(i, j, kind, _). (i, j, kind_value kind)) (prompt_candidates d1)"
  obtain seen events where r: "report_prompts ?cs (pd_seen d1) = (seen, events)" by fastforce
  have f: "fst (detector_feed text d) = d1\<lparr>pd_seen := seen\<rparr>"
    using r by (simp add: detector_feed_def Let_def d1_def)
  have len: "length (pd_history d1) \<le> pd_limit d1"
    using extend_bounded [of "text" d] by (simp add: d1_def extend_history_def Let_def)
  note s = report_seen [OF r]
  have "prompt_candidates (d1\<lparr>pd_seen := seen\<rparr>) = []"
    by (rule candidates_after) (use s in auto)
  moreover have "extend_history [] (d1\<lparr>pd_seen := seen\<rparr>) = d1\<lparr>pd_seen := seen\<rparr>"
    using len by (intro extend_nothing) simp
  ultimately have "detector_feed [] (d1\<lparr>pd_seen := seen\<rparr>) = (d1\<lparr>pd_seen := seen\<rparr>, [])"
    by (simp add: detector_feed_def)
  then show ?thesis using extend_bounded [of "text" d] by (simp add: f d1_def)
qed

text \<open>Answers along one connection: each is authorised by the policy and then recorded.\<close>

fun answer_all :: "prompt_event list \<Rightarrow> prompt_policy \<Rightarrow> prompt_policy res" where
  "answer_all [] p = Inr p"
| "answer_all (e # es) p =
     bindE (authorize e p) (\<lambda>_. bindE (record_answer (pe_kind e) p) (\<lambda>p'. answer_all es p'))"

lemma answer_all_credential:
  "answer_all es p = Inr p' \<Longrightarrow> pp_credential_answered p \<Longrightarrow> es = []"
  by (cases es) (auto simp: bindE_eq_Inr authorize_def split: if_splits)

lemma answer_all_shape:
  "answer_all es p = Inr p' \<Longrightarrow> set (map pe_kind es) \<subseteq> set (pp_allowed p) \<and>
    (map pe_kind es = [] \<or> (\<exists>c. map pe_kind es = [c]) \<or> (\<exists>c. c \<noteq> HOST_KEY \<and> map pe_kind es = [HOST_KEY, c])) \<and>
    (pp_host_key_answered p \<longrightarrow> HOST_KEY \<notin> set (map pe_kind es))"
proof (induction es p arbitrary: p' rule: answer_all.induct)
  case (2 e es p)
  then obtain p1 where a: "authorize e p = Inr ()" and r: "record_answer (pe_kind e) p = Inr p1"
    and rest: "answer_all es p1 = Inr p'"
    by (auto simp: bindE_eq_Inr)
  have k: "pe_kind e \<in> set (pp_allowed p)" "pp_allowed p1 = pp_allowed p"
    using a r by (auto simp: authorize_def record_answer_def split: if_splits)
  show ?case
  proof (cases "pe_kind e = HOST_KEY")
    case True
    have p1: "pp_host_key_answered p1" "\<not> pp_host_key_answered p"
      using r True by (auto simp: record_answer_def split: if_splits)
    have ih: "set (map pe_kind es) \<subseteq> set (pp_allowed p1)"
      "map pe_kind es = [] \<or> (\<exists>c. map pe_kind es = [c]) \<or> (\<exists>c. c \<noteq> HOST_KEY \<and> map pe_kind es = [HOST_KEY, c])"
      "HOST_KEY \<notin> set (map pe_kind es)"
      using "2.IH" [OF a r rest] p1 by blast+
    from ih(2,3) True have "map pe_kind (e # es) = [HOST_KEY] \<or> (\<exists>c. c \<noteq> HOST_KEY \<and> map pe_kind (e # es) = [HOST_KEY, c])" by auto
    with ih(1) k p1 show ?thesis by auto
  next
    case False
    then have "pp_credential_answered p1" using r by (auto simp: record_answer_def split: if_splits)
    with rest have "es = []" by (rule answer_all_credential)
    with False k show ?thesis by auto
  qed
qed simp

text \<open>
  A connection answers at most one host-key question, before at most one credential. Whatever prompts
  arrive and however they are ordered, the answers that the policy of a profile lets through are none,
  one, or a host-key decision followed by one other kind; each kind is one the profile's connection and
  authentication allow, and the sudo password is never among them.
\<close>

theorem connection_answers_bounded:
  assumes "answer_all events (policy_from_profile profile) = Inr policy"
  shows "set (map pe_kind events) \<subseteq> set (connection_prompt_kinds profile) - {SUDO_PASSWORD} \<and>
    (map pe_kind events = [] \<or> (\<exists>c. map pe_kind events = [c]) \<or> (\<exists>c. c \<noteq> HOST_KEY \<and> map pe_kind events = [HOST_KEY, c]))"
proof -
  have "SUDO_PASSWORD \<notin> set (connection_prompt_kinds profile)" by (simp add: connection_prompt_kinds_def)
  with answer_all_shape [OF assms] show ?thesis by (auto simp: policy_from_profile_def)
qed

theorem connection_answers_bounded_witness:
  "\<exists>policy. answer_all [\<lparr>pe_kind = HOST_KEY, pe_prompt = ''q''\<rparr>, \<lparr>pe_kind = KEY_PASSPHRASE, pe_prompt = ''k''\<rparr>]
      (policy_from_profile (demo_profile\<lparr>connection_type_of := SSH_CONFIG\<rparr>)) = Inr policy \<and>
    set [HOST_KEY, KEY_PASSPHRASE] \<subseteq> set (connection_prompt_kinds (demo_profile\<lparr>connection_type_of := SSH_CONFIG\<rparr>)) - {SUDO_PASSWORD}"
proof -
  let ?es = "[\<lparr>pe_kind = HOST_KEY, pe_prompt = ''q''\<rparr>, \<lparr>pe_kind = KEY_PASSPHRASE, pe_prompt = ''k''\<rparr>]"
  let ?p = "demo_profile\<lparr>connection_type_of := SSH_CONFIG\<rparr>"
  obtain policy where r: "answer_all ?es (policy_from_profile ?p) = Inr policy"
    by (simp add: policy_from_profile_def connection_prompt_kinds_def authorize_def record_answer_def)
  from connection_answers_bounded [OF r] r show ?thesis by auto
qed

end
