(* ===== verification/Ssh_Invocation.thy ===== *)
theory Ssh_Invocation
  imports Config_Model Elevation
begin

text \<open>
  \<^verbatim>\<open>ssh/invocation.py\<close> and \<^verbatim>\<open>ssh/target.py\<close>: the argument vector for OpenSSH and the target that it
  resolves to. A word of the vector is \<open>None\<close> where the code would put Python's \<^verbatim>\<open>None\<close>. What
  \<^verbatim>\<open>ssh -G\<close> answers is an argument.
\<close>

definition ssh_options :: "pystr \<Rightarrow> pystr \<Rightarrow> pystr list" where
  "ssh_options ssh_executable known_hosts_file =
     [ssh_executable, ''-tt'', ''-o'', ''BatchMode=no'', ''-o'', ''ControlMaster=no'', ''-o'',
      ''StrictHostKeyChecking=ask'', ''-o'', ''UserKnownHostsFile='' @ known_hosts_file, ''-o'',
      ''NumberOfPasswordPrompts=1'']"

definition identity_options :: "server_profile \<Rightarrow> pystr list" where
  "identity_options profile =
     (case identity_file profile of None \<Rightarrow> [] | Some f \<Rightarrow> [''-i'', f, ''-o'', ''IdentitiesOnly=yes''])"

definition target_options :: "server_profile \<Rightarrow> (pystr list \<times> pystr) res" where
  "target_options profile =
     (if connection_type_of profile = DIRECT
      then (case (host profile, port profile, user profile) of
          (Some h, Some p, Some u) \<Rightarrow>
            Inr ([''-p'', dec_int p, ''-l'', u] @
              (if authentication_of profile = INTERACTIVE_PASSWORD
               then [''-o'', ''PreferredAuthentications=keyboard-interactive,password'', ''-o'', ''PubkeyAuthentication=no'']
               else [''-o'', ''PreferredAuthentications=publickey'', ''-o'', ''PasswordAuthentication=no'', ''-o'',
                 ''KbdInteractiveAuthentication=no'']) @
              identity_options profile, h)
        | _ \<Rightarrow> Inl (AssertionError []))
      else (case ssh_host profile of
          None \<Rightarrow> Inl (AssertionError [])
        | Some h \<Rightarrow> Inr (identity_options profile, h)))"

definition BASH_COMMAND :: "pystr list" where
  "BASH_COMMAND = [''/bin/bash'', ''--noprofile'', ''--norc'', ''-i'']"

definition remote_command :: "server_profile \<Rightarrow> bool \<Rightarrow> pystr option \<Rightarrow> pystr option list res" where
  "remote_command profile root_session root_sudo_prompt =
     (if \<not> root_session then Inr (map Some BASH_COMMAND)
      else if elevation_mode_of profile = INTERACTIVE_ELEVATION \<and> (root_sudo_prompt = None \<or> root_sudo_prompt = Some [])
      then Inl (ValueError ''interactive root sessions require an operation-bound sudo prompt'')
      else Inr ([Some ''/usr/bin/sudo''] @
        (if elevation_mode_of profile = NON_INTERACTIVE then [Some ''-n''] else [Some ''-p'', root_sudo_prompt]) @
        map Some ([''-i'', ''--'', ''/usr/bin/env'', ''-u'', ''BASH_ENV'', ''-u'', ''ENV'', ''-u'', ''SHELLOPTS'', ''-u'', ''BASHOPTS''] @
          BASH_COMMAND)))"

definition build_ssh_arguments ::
  "server_profile \<Rightarrow> pystr \<Rightarrow> pystr \<Rightarrow> bool \<Rightarrow> pystr option \<Rightarrow> pystr option list res" where
  "build_ssh_arguments profile ssh_executable known_hosts_file root_session root_sudo_prompt =
     bindE (target_options profile) (\<lambda>(options, target).
     bindE (remote_command profile root_session root_sudo_prompt) (\<lambda>remote.
     Inr (map Some (ssh_options ssh_executable known_hosts_file @ options @ [''--'', target]) @ remote)))"

section \<open>The resolved target\<close>

definition MAX_SSH_CONFIG_OUTPUT_BYTES :: nat where
  "MAX_SSH_CONFIG_OUTPUT_BYTES = 1048576"

record resolved_ssh_target =
  rt_host :: pystr
  rt_port :: int
  rt_user :: pystr

definition target_text_ok :: "pystr \<Rightarrow> bool" where
  "target_text_ok v = (v \<noteq> [] \<and> v = py_strip v \<and> py_len v \<le> 255 \<and> \<not> list_ex is_control v)"

definition new_resolved_target :: "pystr \<Rightarrow> int \<Rightarrow> pystr \<Rightarrow> resolved_ssh_target res" where
  "new_resolved_target h p u =
     (if \<not> target_text_ok h then Inl (ConfigurationError ''resolved SSH host is invalid'')
      else if \<not> target_text_ok u then Inl (ConfigurationError ''resolved SSH user is invalid'')
      else if \<not> (1 \<le> p \<and> p \<le> 65535) then Inl (ConfigurationError ''resolved SSH port is invalid'')
      else Inr \<lparr>rt_host = h, rt_port = p, rt_user = u\<rparr>)"

definition drop_line_end :: "pystr \<Rightarrow> pystr" where
  "drop_line_end l =
     (let cs = py_chars l in
      if cs = [] \<or> \<not> is_line_break (last cs) then l
      else if last cs = [LF] \<and> butlast cs \<noteq> [] \<and> last (butlast cs) = [CR] then concat (butlast (butlast cs))
      else concat (butlast cs))"

fun config_values :: "pystr list \<Rightarrow> pystr dict \<Rightarrow> pystr dict" where
  "config_values [] values = values"
| "config_values (l # ls) values =
     (let key = takeWhile (\<lambda>c. c \<noteq> CHR '' '') l; rest = dropWhile (\<lambda>c. c \<noteq> CHR '' '') l in
      if rest \<noteq> [] \<and> key \<in> {''hostname'', ''port'', ''user''} \<and> key \<notin> set (keys values)
      then config_values ls (dput key (py_strip (tl rest)) values)
      else config_values ls values)"

definition parse_ssh_config :: "int \<Rightarrow> pystr \<Rightarrow> resolved_ssh_target res" where
  "parse_ssh_config returncode stdout =
     (if returncode \<noteq> 0 then Inl (ConfigurationError ''OpenSSH could not resolve the configured SSH alias'')
      else if MAX_SSH_CONFIG_OUTPUT_BYTES < length stdout
      then Inl (ConfigurationError ''OpenSSH alias resolution output exceeded its size limit'')
      else
        let values = config_values (map drop_line_end (splitlines_keep stdout)) [] in
        case (map_of values ''hostname'', map_of values ''port'', map_of values ''user'') of
          (Some h, Some p, Some u) \<Rightarrow>
            bindE (someE (py_int p) (ConfigurationError ''OpenSSH alias resolved to an invalid port'')) (\<lambda>i.
            new_resolved_target h i u)
        | _ \<Rightarrow> Inl (ConfigurationError ''OpenSSH alias resolution omitted host, port or user''))"

definition resolve_ssh_target :: "server_profile \<Rightarrow> (pystr \<Rightarrow> (int \<times> pystr) res) \<Rightarrow> resolved_ssh_target res" where
  "resolve_ssh_target profile runner =
     (if connection_type_of profile = DIRECT
      then (case (host profile, port profile, user profile) of
          (Some h, Some p, Some u) \<Rightarrow> new_resolved_target h p u
        | _ \<Rightarrow> Inl (AssertionError []))
      else (case ssh_host profile of
          None \<Rightarrow> Inl (AssertionError [])
        | Some h \<Rightarrow> bindE (runner h) (\<lambda>(returncode, stdout). parse_ssh_config returncode stdout)))"

section \<open>What the remote shell sees\<close>

text \<open>
  OpenSSH hands the words after the target to the remote shell joined by single blanks, and the shell
  splits them at blanks. A root session that asks for the sudo password carries its prompt as one word
  of the vector; the prompt contains blanks and is not quoted.
\<close>

theorem root_prompt_is_split:
  assumes "operation_sudo_prompt ''root'' token = Inr prompt"
    and "elevation_mode_of profile = INTERACTIVE_ELEVATION"
  shows "\<exists>words. remote_command profile True (Some prompt) = Inr (map Some words) \<and>
    take 3 words = [''/usr/bin/sudo'', ''-p'', prompt] \<and>
    take 4 (split_on (CHR '' '') (join '' '' words)) = [''/usr/bin/sudo'', ''-p'', ''[sudo]'', ''password'']"
proof -
  let ?tail = "[''-i'', ''--'', ''/usr/bin/env'', ''-u'', ''BASH_ENV'', ''-u'', ''ENV'', ''-u'', ''SHELLOPTS'', ''-u'', ''BASHOPTS''] @ BASH_COMMAND"
  let ?words = "[''/usr/bin/sudo'', ''-p'', prompt] @ ?tail"
  have p: "prompt = ''[sudo] password for %u: serverops-root-'' @ token"
    using assms(1) by (auto simp: operation_sudo_prompt_def SUDO_PROMPT_TEXT_def split: if_splits)
  have "remote_command profile True (Some prompt) = Inr (map Some ?words)"
    using assms(2) p by (simp add: remote_command_def)
  moreover have "join '' '' ?words =
      ''/usr/bin/sudo'' @ CHR '' '' # ''-p'' @ CHR '' '' # ''[sudo]'' @ CHR '' '' # ''password'' @ CHR '' '' #
      ''for %u: serverops-root-'' @ token @ '' '' @ join '' '' ?tail"
    by (simp add: p BASH_COMMAND_def)
  then have "take 4 (split_on (CHR '' '') (join '' '' ?words)) = [''/usr/bin/sudo'', ''-p'', ''[sudo]'', ''password'']"
    by (simp only: split_on_append) simp
  ultimately show ?thesis by (intro exI [of _ ?words]) simp
qed

end
