(* ===== verification/Worker_Session.thy ===== *)
theory Worker_Session
  imports Session_State Ssh_Prompts
begin

text \<open>
  \<^verbatim>\<open>worker/session.py\<close> with \<^verbatim>\<open>SecretInputSink\<close> of \<^verbatim>\<open>worker/authentication.py\<close>: one OpenSSH terminal and
  the state contract of its session. The terminal and the person who authenticates are the environment:
  a loop is given a list of \<open>tick\<close>s, one per turn, with the clock, the bytes that were read, how
  the prompts in them were answered and whether the terminal still runs. A loop that needs more turns than
  the list has gives \<open>None\<close>. Writes to the terminal are collected; that a write fails is part of
  the environment where the code reacts to it. The background thread that interrupts a command calls
  \<open>session_interrupt\<close>.
\<close>

definition REMOTE_VINTR_BYTE :: bytes where
  "REMOTE_VINTR_BYTE = [CHR 0x1D]"

definition COMMAND_INPUT_CHUNK_CHARACTERS :: nat where
  "COMMAND_INPUT_CHUNK_CHARACTERS = 512"

definition SHELL_BOOTSTRAP_TIMEOUT_SECONDS :: rat where
  "SHELL_BOOTSTRAP_TIMEOUT_SECONDS = 5"

definition RECOVERY_TIMEOUT_SECONDS :: rat where
  "RECOVERY_TIMEOUT_SECONDS = 5"

definition MAX_AUTH_RESPONSE_BYTES :: nat where
  "MAX_AUTH_RESPONSE_BYTES = 4096"

record ssh_session =
  ws_machine :: state_machine
  ws_detector :: prompt_detector
  ws_active :: "pystr option"
  ws_nonce :: pystr
  ws_max_output :: int
  ws_written :: "bytes list"
  ws_terminated :: bool

record execution_result =
  er_output :: pystr
  er_exit_code :: int
  er_cwd :: pystr
  er_truncated :: bool
  er_duration_ms :: int

record auth_outcome =
  ao_response :: "bytes option res"
  ao_seconds :: rat
  ao_running :: bool

record tick =
  tk_now :: rat
  tk_data :: bytes
  tk_auth :: "nat \<Rightarrow> auth_outcome"
  tk_running :: bool

type_synonym 'a session_op = "ssh_session \<Rightarrow> ssh_session \<times> 'a res"

abbreviation session_state_of :: "ssh_session \<Rightarrow> session_state" where
  "session_state_of s \<equiv> sm_state (ws_machine s)"

definition new_ssh_session :: "rat \<Rightarrow> pystr \<Rightarrow> int \<Rightarrow> ssh_session res" where
  "new_ssh_session now nonce max_output =
     bindE (new_prompt_detector 65536) (\<lambda>d.
     Inr \<lparr>ws_machine = new_state_machine now, ws_detector = d, ws_active = None, ws_nonce = nonce,
       ws_max_output = max_output, ws_written = [], ws_terminated = False\<rparr>)"

definition change_state :: "rat \<Rightarrow> session_state \<Rightarrow> unit session_op" where
  "change_state now target s =
     (case transition now target (ws_machine s) of (m, x) \<Rightarrow> (s\<lparr>ws_machine := m\<rparr>, bindE x (\<lambda>_. Inr ())))"

definition require_state :: "session_state list \<Rightarrow> unit session_op" where
  "require_state states s = (s, require states (ws_machine s))"

definition terminal_write :: "bytes \<Rightarrow> ssh_session \<Rightarrow> ssh_session" where
  "terminal_write data s = s\<lparr>ws_written := ws_written s @ [data]\<rparr>"

definition write_all :: "bytes list \<Rightarrow> ssh_session \<Rightarrow> ssh_session" where
  "write_all pieces s = fold terminal_write pieces s"

definition terminate_terminal :: "bool \<Rightarrow> ssh_session \<Rightarrow> ssh_session" where
  "terminate_terminal running s = (if running then s\<lparr>ws_terminated := True\<rparr> else s)"

section \<open>Delivering a command\<close>

text \<open>
  A command of more than 512 characters is written in pieces: lines are collected up to the limit, and a
  longer line is cut. The result is the list of pieces that are flushed, with what is pending.
\<close>

function cut_line :: "text_chars \<Rightarrow> text_chars \<Rightarrow> text_chars list \<times> text_chars \<times> text_chars" where
  "cut_line pending line =
     (if COMMAND_INPUT_CHUNK_CHARACTERS < length line
      then (case cut_line [] (drop COMMAND_INPUT_CHUNK_CHARACTERS line) of
          (flushed, pending', rest) \<Rightarrow>
            ((if pending = [] then [] else [pending]) @ [take COMMAND_INPUT_CHUNK_CHARACTERS line] @ flushed, pending', rest))
      else ([], pending, line))"
  by pat_completeness auto
termination
  by (relation "measure (\<lambda>(p, l). length l)") (auto simp: COMMAND_INPUT_CHUNK_CHARACTERS_def)

declare cut_line.simps [simp del]

fun collect_lines :: "text_chars \<Rightarrow> text_chars list \<Rightarrow> text_chars list" where
  "collect_lines pending [] = (if pending = [] then [] else [pending])"
| "collect_lines pending (line # ls) =
     (case cut_line pending line of
        (flushed, pending', rest) \<Rightarrow>
          flushed @
          (if pending' \<noteq> [] \<and> COMMAND_INPUT_CHUNK_CHARACTERS < length pending' + length rest
           then pending' # collect_lines rest ls
           else collect_lines (pending' @ rest) ls))"

definition command_pieces :: "pystr \<Rightarrow> text_chars list" where
  "command_pieces wrapped =
     (if length (py_chars wrapped) \<le> COMMAND_INPUT_CHUNK_CHARACTERS then [py_chars wrapped]
      else collect_lines [] (map py_chars (splitlines_keep wrapped)))"

definition command_chunks :: "pystr \<Rightarrow> bytes list" where
  "command_chunks wrapped = map concat (command_pieces wrapped)"

text \<open>Where a write raises, the failure names the piece it happens at.\<close>

definition write_command :: "(nat \<times> exn) option \<Rightarrow> pystr res \<Rightarrow> unit session_op" where
  "write_command failure wrapped s =
     (case wrapped of
        Inl e \<Rightarrow> (s, Inl e)
      | Inr w \<Rightarrow>
          (case failure of
             None \<Rightarrow> (write_all (command_chunks w) s, Inr ())
           | Some (n, e) \<Rightarrow>
               (write_all (take n (command_chunks w)) s, if n < length (command_chunks w) then Inl e else Inr ())))"

section \<open>Prompts\<close>

definition sink_submit :: "bool \<Rightarrow> bytes \<Rightarrow> bytes res" where
  "sink_submit used response =
     (if used then Inl (RuntimeError ''authentication response capability was already used'')
      else if response = [] \<or> MAX_AUTH_RESPONSE_BYTES < length response
      then Inl (ValueError ''authentication response has an invalid length'')
      else if CR \<in> set response \<or> LF \<in> set response
      then Inl (ValueError ''authentication response cannot contain a line ending'')
      else Inr (response @ [CR]))"

definition auth_answer :: "auth_outcome \<Rightarrow> bytes res" where
  "auth_answer outcome =
     (case ao_response outcome of
        Inl e \<Rightarrow> Inl e
      | Inr None \<Rightarrow> Inl (SessionError ''authentication coordinator returned without a response'')
      | Inr (Some response) \<Rightarrow> sink_submit False response)"

definition answer_prompt :: "rat \<Rightarrow> auth_outcome \<Rightarrow> unit session_op" where
  "answer_prompt now outcome s =
     (case begin_authentication now (ws_machine s) of
        (m, Inl e) \<Rightarrow> (s\<lparr>ws_machine := m\<rparr>, Inl e)
      | (m, Inr _) \<Rightarrow>
          let s1 = s\<lparr>ws_machine := m\<rparr> in
          (case auth_answer outcome of
             Inl e \<Rightarrow>
               (case change_state now FAILED (terminate_terminal (ao_running outcome) s1) of
                  (s2, Inl e') \<Rightarrow> (s2, Inl e')
                | (s2, Inr _) \<Rightarrow> (s2, Inl e))
           | Inr data \<Rightarrow>
               (case finish_authentication now (ws_machine s1) of
                  (m', x) \<Rightarrow> ((terminal_write data s1)\<lparr>ws_machine := m'\<rparr>, bindE x (\<lambda>_. Inr ())))))"

text \<open>The gate lets the first prompt through and interrupts at the second; \<open>None\<close> where there is none.\<close>

type_synonym auth_gate = "(bool \<times> bool) option"

definition prompt_skipped :: "prompt_kind list \<Rightarrow> pystr option \<Rightarrow> prompt_event \<Rightarrow> bool" where
  "prompt_skipped allowed sudo_prompt_token event =
     (pe_kind event \<notin> set allowed \<or>
      pe_kind event = SUDO_PASSWORD \<and> (case sudo_prompt_token of None \<Rightarrow> False | Some t \<Rightarrow> \<not> is_infix t (pe_prompt event)))"

fun handle_events ::
  "prompt_kind list \<Rightarrow> pystr option \<Rightarrow> rat \<Rightarrow> (nat \<Rightarrow> auth_outcome) \<Rightarrow> prompt_event list \<Rightarrow> nat \<Rightarrow> auth_gate \<Rightarrow> rat \<Rightarrow>
    ssh_session \<Rightarrow> ssh_session \<times> (auth_gate \<times> rat) res" where
  "handle_events allowed tok now auth [] i gate extra s = (s, Inr (gate, extra))"
| "handle_events allowed tok now auth (e # es) i gate extra s =
     (if prompt_skipped allowed tok e then handle_events allowed tok now auth es i gate extra s
      else case gate of
        Some (True, interrupted) \<Rightarrow>
          handle_events allowed tok now auth es i (Some (True, True)) extra
            (if interrupted then s else terminal_write REMOTE_VINTR_BYTE s)
      | _ \<Rightarrow>
          (case answer_prompt now (auth i) s of
             (s1, Inl x) \<Rightarrow> (s1, Inl x)
           | (s1, Inr _) \<Rightarrow>
               handle_events allowed tok now auth es (Suc i) (map_option (\<lambda>(_, b). (True, b)) gate) (extra + ao_seconds (auth i)) s1))"

definition read_and_handle_prompts ::
  "prompt_kind list \<Rightarrow> pystr option \<Rightarrow> tick \<Rightarrow> auth_gate \<Rightarrow> ssh_session \<Rightarrow> ssh_session \<times> (auth_gate \<times> rat) res" where
  "read_and_handle_prompts allowed tok t gate s =
     (if tk_data t = [] then (s, Inr (gate, 0))
      else case detector_feed (decode_replace (tk_data t)) (ws_detector s) of
        (d, events) \<Rightarrow>
          handle_events allowed tok (tk_now t) (tk_auth t) events 0 gate 0 (s\<lparr>ws_detector := d\<rparr>))"

definition sudo_prompts :: "bool \<Rightarrow> prompt_kind list" where
  "sudo_prompts allow = (if allow then [SUDO_PASSWORD] else [])"

definition new_gate :: "bool \<Rightarrow> auth_gate" where
  "new_gate allow = (if allow then Some (False, False) else None)"

section \<open>Executing\<close>

definition lose_executing_session :: "rat \<Rightarrow> bool \<Rightarrow> ssh_session \<Rightarrow> ssh_session" where
  "lose_executing_session now running s =
     terminate_terminal running (if session_state_of s = EXECUTING then fst (change_state now LOST s) else s)"

definition lost :: "rat \<Rightarrow> bool \<Rightarrow> pystr \<Rightarrow> ssh_session \<Rightarrow> ssh_session \<times> 'a res" where
  "lost now running message s = (lose_executing_session now running s, Inl (OutcomeUnknown message))"

text \<open>\<^verbatim>\<open>round(x)\<close> and the format \<^verbatim>\<open>.1f\<close>, on exact numbers.\<close>

definition round_even :: "rat \<Rightarrow> int" where
  "round_even x =
     (let f = \<lfloor>x\<rfloor>; d = x - of_int f in
      if d < 1/2 then f else if 1/2 < d then f + 1 else if even f then f else f + 1)"

definition format_1f :: "rat \<Rightarrow> pystr" where
  "format_1f x = (let n = round_even (10 * x) in dec_int (n div 10) @ ''.'' @ dec_int (n mod 10))"

definition execution_of :: "rat \<Rightarrow> command_result \<Rightarrow> execution_result" where
  "execution_of seconds r =
     \<lparr>er_output = cr_output r, er_exit_code = cr_exit_code r, er_cwd = cr_cwd r, er_truncated = cr_truncated r,
      er_duration_ms = round_even (seconds * 1000)\<rparr>"

fun wait_for_recovery ::
  "rat \<Rightarrow> tick list \<Rightarrow> frame_parser \<Rightarrow> ssh_session \<Rightarrow> (ssh_session \<times> bool res) option" where
  "wait_for_recovery deadline [] p s = None"
| "wait_for_recovery deadline (t # ts) p s =
     (if \<not> tk_now t < deadline then Some (s, Inr False)
      else case read_and_handle_prompts [] None t None s of
        (s1, Inl e) \<Rightarrow> Some (s1, Inl e)
      | (s1, Inr _) \<Rightarrow>
          (case (if tk_data t = [] then (p, Inr None) else feed (tk_data t) False p) of
             (p1, Inl e) \<Rightarrow> Some (s1, Inl e)
           | (p1, Inr (Some _)) \<Rightarrow> Some (s1, Inr True)
           | (p1, Inr None) \<Rightarrow>
               if \<not> tk_running t then Some (s1, Inr False) else wait_for_recovery deadline ts p1 s1))"

record exec_env =
  xe_token :: pystr
  xe_started :: rat
  xe_write :: "(nat \<times> exn) option"
  xe_ticks :: "tick list"
  xe_interrupt :: "nat option"
  xe_recovery_started :: rat
  xe_recovery :: "tick list"
  xe_now :: rat
  xe_running :: bool

text \<open>The failure, if there is one, is that of the first or of the second write.\<close>

definition send_interrupt :: "rat \<Rightarrow> bool \<Rightarrow> nat option \<Rightarrow> pystr \<Rightarrow> unit session_op" where
  "send_interrupt now running failure token s =
     (let s1 = (if failure = Some 0 then s else terminal_write REMOTE_VINTR_BYTE s) in
      case (failure, interrupt_recovery_wrapper token (Some (ws_nonce s))) of
        (None, Inr w) \<Rightarrow> (terminal_write w s1, Inr ())
      | _ \<Rightarrow>
          lost now running (''The connection failed while interrupting a delivered command; '' @
            ''the command outcome is unknown.'') s1)"

definition recover ::
  "exec_env \<Rightarrow> rat \<Rightarrow> frame_parser \<Rightarrow> ssh_session \<Rightarrow> (ssh_session \<times> execution_result res) option" where
  "recover env timeout p s =
     (case send_interrupt (xe_now env) (xe_running env) (xe_interrupt env) (xe_token env) s of
        (s1, Inl e) \<Rightarrow> Some (s1, Inl e)
      | (s1, Inr _) \<Rightarrow>
          (case wait_for_recovery (xe_recovery_started env + RECOVERY_TIMEOUT_SECONDS) (xe_recovery env) p s1 of
             None \<Rightarrow> None
           | Some (s2, Inl (FrameProtocolError _)) \<Rightarrow>
               Some (lost (xe_now env) (xe_running env)
                 (''The command timed out and recovery framing was invalid; the outcome '' @ ''is unknown.'') s2)
           | Some (s2, Inl e) \<Rightarrow> Some (s2, Inl e)
           | Some (s2, Inr recovered) \<Rightarrow>
               if recovered \<and> xe_running env
               then (case change_state (xe_now env) READY s2 of
                   (s3, Inl e) \<Rightarrow> Some (s3, Inl e)
                 | (s3, Inr _) \<Rightarrow> Some (s3, Inl (CommandTimedOut (''command exceeded its '' @ format_1f timeout @ ''-second timeout''))))
               else Some (lost (xe_now env) (xe_running env)
                 (''The command timed out and shell recovery could not be verified; '' @ ''the outcome is unknown.'') s2)))"

text \<open>One turn of the loop after the data was read: the parser decides, or the terminal ended, or it goes on.\<close>

definition after_read ::
  "exec_env \<Rightarrow> tick \<Rightarrow> frame_parser \<Rightarrow> ssh_session \<Rightarrow> (ssh_session \<times> execution_result res) + frame_parser" where
  "after_read env t p s =
     (case (if tk_data t = [] then (p, Inr None) else feed (tk_data t) False p) of
        (p1, Inl (FrameProtocolError _)) \<Rightarrow>
          Inl (lost (tk_now t) (tk_running t)
            (''Shell framing became invalid after command delivery; '' @ ''the command outcome is unknown.'') s)
      | (p1, Inl e) \<Rightarrow> Inl (s, Inl e)
      | (p1, Inr (Some r)) \<Rightarrow>
          if \<not> tk_running t
          then Inl (lost (tk_now t) False
            (''The shell ended after command delivery; the command outcome '' @ ''and reusable session state cannot be trusted.'') s)
          else (case change_state (tk_now t) READY s of
              (s1, Inl e) \<Rightarrow> Inl (s1, Inl e)
            | (s1, Inr _) \<Rightarrow> Inl (s1, Inr (execution_of (tk_now t - xe_started env) r)))
      | (p1, Inr None) \<Rightarrow>
          if \<not> tk_running t
          then Inl (lost (tk_now t) False ''The connection ended before command completion could be verified.'' s)
          else Inr p1)"

fun exec_loop ::
  "exec_env \<Rightarrow> rat \<Rightarrow> prompt_kind list \<Rightarrow> pystr option \<Rightarrow> rat \<Rightarrow> tick list \<Rightarrow> frame_parser \<Rightarrow> auth_gate \<Rightarrow>
    ssh_session \<Rightarrow> (ssh_session \<times> execution_result res) option" where
  "exec_loop env timeout allowed tok deadline [] p gate s = None"
| "exec_loop env timeout allowed tok deadline (t # ts) p gate s =
     (if \<not> tk_now t < deadline then recover env timeout p s
      else case read_and_handle_prompts allowed tok t gate s of
        (s1, Inl e) \<Rightarrow> Some (s1, Inl e)
      | (s1, Inr (gate', extra)) \<Rightarrow>
          (case after_read env t p s1 of
             Inl r \<Rightarrow> Some r
           | Inr p1 \<Rightarrow> exec_loop env timeout allowed tok (deadline + extra) ts p1 gate' s1))"

definition activate_command :: "pystr \<Rightarrow> unit session_op" where
  "activate_command token s =
     (if ws_active s \<noteq> None then (s, Inl (SessionError ''another command is already active''))
      else (s\<lparr>ws_active := Some token\<rparr>, Inr ()))"

definition clear_command :: "pystr \<Rightarrow> ssh_session \<Rightarrow> ssh_session" where
  "clear_command token s = (if ws_active s = Some token then s\<lparr>ws_active := None\<rparr> else s)"

text \<open>\<^verbatim>\<open>except BaseException\<close> and \<^verbatim>\<open>finally\<close> around the delivery and the loop.\<close>

definition finish_execute :: "exec_env \<Rightarrow> ssh_session \<times> execution_result res \<Rightarrow> ssh_session \<times> execution_result res" where
  "finish_execute env r =
     (case r of
        (s, Inr v) \<Rightarrow> (clear_command (xe_token env) s, Inr v)
      | (s, Inl e) \<Rightarrow>
          if session_state_of s = EXECUTING
          then (case change_state (xe_now env) (if xe_running env then FAILED else LOST) s of
              (s1, Inl e') \<Rightarrow> (clear_command (xe_token env) s1, Inl e')
            | (s1, Inr _) \<Rightarrow> (clear_command (xe_token env) s1, Inl e))
          else (clear_command (xe_token env) s, Inl e))"

definition deliver_and_wait ::
  "exec_env \<Rightarrow> pystr \<Rightarrow> rat \<Rightarrow> bool \<Rightarrow> pystr option \<Rightarrow> frame_parser \<Rightarrow> ssh_session \<Rightarrow> (ssh_session \<times> execution_result res) option" where
  "deliver_and_wait env command timeout allow tok p s =
     (case write_command (xe_write env) (command_wrapper command (xe_token env) (Some (ws_nonce s))) s of
        (s1, Inl e) \<Rightarrow> Some (s1, Inl e)
      | (s1, Inr _) \<Rightarrow>
          exec_loop env timeout (sudo_prompts allow) tok (xe_started env + timeout) (xe_ticks env) p (new_gate allow) s1)"

definition session_execute ::
  "exec_env \<Rightarrow> pystr \<Rightarrow> rat \<Rightarrow> bool \<Rightarrow> pystr option \<Rightarrow> ssh_session \<Rightarrow> (ssh_session \<times> execution_result res) option" where
  "session_execute env command timeout allow tok s =
     (case bindE (guardE (command \<noteq> [] \<and> NUL \<notin> set command) (ValueError ''command must be non-empty text without NUL'')) (\<lambda>_.
           bindE (guardE (allow = (tok \<noteq> None)) (ValueError ''sudo authentication requires one operation-bound prompt token'')) (\<lambda>_.
           bindE (require [READY] (ws_machine s)) (\<lambda>_.
           new_frame_parser (xe_token env) (ws_max_output s) (Some (ws_nonce s))))) of
        Inl e \<Rightarrow> Some (s, Inl e)
      | Inr p \<Rightarrow>
          (case bindS (activate_command (xe_token env)) (\<lambda>_. change_state (xe_started env) EXECUTING) s of
             (s1, Inl e) \<Rightarrow> Some (s1, Inl e)
           | (s1, Inr _) \<Rightarrow> map_option (finish_execute env) (deliver_and_wait env command timeout allow tok p s1)))"

section \<open>Interrupting and closing\<close>

definition session_interrupt :: "rat \<Rightarrow> bool \<Rightarrow> nat option \<Rightarrow> unit session_op" where
  "session_interrupt now running failure s =
     (case require [EXECUTING] (ws_machine s) of
        Inl e \<Rightarrow> (s, Inl e)
      | Inr _ \<Rightarrow>
          (case ws_active s of
             None \<Rightarrow> (s, Inl (SessionError ''there is no active command to interrupt''))
           | Some token \<Rightarrow> send_interrupt now running failure token s))"

text \<open>Closing: whether the terminal runs, whether writing fails, and whether it ended in time.\<close>

definition session_close :: "rat \<Rightarrow> bool \<Rightarrow> bool \<Rightarrow> bool \<Rightarrow> unit session_op" where
  "session_close now running write_fails exited s =
     (case begin_close now (ws_machine s) of
        (m, Inl e) \<Rightarrow> (s\<lparr>ws_machine := m\<rparr>, Inl e)
      | (m, Inr False) \<Rightarrow> (s\<lparr>ws_machine := m\<rparr>, Inr ())
      | (m, Inr True) \<Rightarrow>
          let s1 = s\<lparr>ws_machine := m\<rparr>;
              s2 = (if running
                    then (if write_fails then terminate_terminal True s1
                          else terminate_terminal (\<not> exited) (terminal_write (''exit'' @ [CR, LF]) s1))
                    else s1)
          in change_state now CLOSED s2)"

section \<open>Opening\<close>

fun initialize_loop :: "rat \<Rightarrow> (rat \<Rightarrow> exn option) \<Rightarrow> tick list \<Rightarrow> frame_parser \<Rightarrow> ssh_session \<Rightarrow> (ssh_session \<times> unit res) option" where
  "initialize_loop deadline check [] p s = None"
| "initialize_loop deadline check (t # ts) p s =
     (if \<not> tk_now t < deadline
      then Some (s, Inl (SessionError ''timed out while verifying control of the original Bash shell''))
      else case check (tk_now t) of
        Some e \<Rightarrow> Some (s, Inl e)
      | None \<Rightarrow>
          (case read_and_handle_prompts [] None t None s of
             (s1, Inl e) \<Rightarrow> Some (s1, Inl e)
           | (s1, Inr _) \<Rightarrow>
               (case (if tk_data t = [] then (p, Inr None) else feed (tk_data t) False p) of
                  (p1, Inl (FrameProtocolError _)) \<Rightarrow> Some (s1, Inl (SessionError ''the Bash bootstrap frame was invalid''))
                | (p1, Inl e) \<Rightarrow> Some (s1, Inl e)
                | (p1, Inr (Some r)) \<Rightarrow>
                    if \<not> tk_running t then Some (s1, Inl (SessionLost ''OpenSSH exited during Bash bootstrap''))
                    else if cr_exit_code r \<noteq> 0 then Some (s1, Inl (SessionError ''the Bash bootstrap command failed''))
                    else Some (s1, Inr ())
                | (p1, Inr None) \<Rightarrow>
                    if \<not> tk_running t then Some (s1, Inl (SessionLost ''OpenSSH exited during Bash bootstrap''))
                    else initialize_loop deadline check ts p1 s1)))"

definition initialize_shell ::
  "pystr \<Rightarrow> (nat \<times> exn) option \<Rightarrow> rat \<Rightarrow> rat \<Rightarrow> (rat \<Rightarrow> exn option) \<Rightarrow> tick list \<Rightarrow> ssh_session \<Rightarrow> (ssh_session \<times> unit res) option" where
  "initialize_shell token write_failure started timeout check ts s =
     (case new_frame_parser token 4096 (Some (ws_nonce s)) of
        Inl e \<Rightarrow> Some (s, Inl e)
      | Inr p \<Rightarrow>
          (case write_command write_failure (shell_bootstrap_wrapper (ws_nonce s) token) s of
             (s1, Inl e) \<Rightarrow> Some (s1, Inl e)
           | (s1, Inr _) \<Rightarrow> initialize_loop (started + timeout) check ts p s1))"

record open_env =
  oe_token :: pystr
  oe_started :: rat
  oe_start :: "exn option"
  oe_ticks :: "tick list"
  oe_check :: "rat \<Rightarrow> exn option"
  oe_write :: "(nat \<times> exn) option"
  oe_bootstrap_started :: rat
  oe_bootstrap :: "tick list"
  oe_now :: rat
  oe_running :: bool

fun open_loop ::
  "open_env \<Rightarrow> prompt_kind list \<Rightarrow> pystr option \<Rightarrow> rat \<Rightarrow> tick list \<Rightarrow> auth_gate \<Rightarrow> ssh_session \<Rightarrow> (ssh_session \<times> unit res) option" where
  "open_loop env allowed tok deadline [] gate s = None"
| "open_loop env allowed tok deadline (t # ts) gate s =
     (if \<not> tk_now t < deadline
      then Some (bindS (change_state (oe_now env) FAILED)
        (\<lambda>_. liftS (Inl (SessionError ''timed out waiting for the authenticated Bash prompt''))) s)
      else case oe_check env (tk_now t) of
        Some e \<Rightarrow> Some (s, Inl e)
      | None \<Rightarrow>
          (case read_and_handle_prompts allowed tok t gate s of
             (s1, Inl e) \<Rightarrow> Some (s1, Inl e)
           | (s1, Inr (gate', _)) \<Rightarrow>
               if detector_ready (ws_detector s1)
               then (case oe_check env (tk_now t) of
                   Some e \<Rightarrow> Some (s1, Inl e)
                 | None \<Rightarrow>
                     (case initialize_shell (oe_token env) (oe_write env) (oe_bootstrap_started env)
                         (min SHELL_BOOTSTRAP_TIMEOUT_SECONDS (max (3602879701896397 / 36028797018963968) (deadline - tk_now t)))
                         (oe_check env) (oe_bootstrap env) s1 of
                        None \<Rightarrow> None
                      | Some (s2, Inl e) \<Rightarrow> Some (s2, Inl e)
                      | Some (s2, Inr _) \<Rightarrow> Some (change_state (oe_now env) READY s2)))
               else if \<not> tk_running t
               then Some (bindS (change_state (oe_now env) FAILED)
                 (\<lambda>_. liftS (Inl (SessionLost ''OpenSSH exited before the Bash prompt was reached''))) s1)
               else open_loop env allowed tok deadline ts gate' s1))"

definition finish_open :: "open_env \<Rightarrow> ssh_session \<times> unit res \<Rightarrow> ssh_session \<times> unit res" where
  "finish_open env r =
     (case r of
        (s, Inr _) \<Rightarrow> (s, Inr ())
      | (s, Inl e) \<Rightarrow>
          let s1 = terminate_terminal (oe_running env) s in
          if session_state_of s1 \<in> {STARTING, AUTHENTICATION_REQUIRED}
          then bindS (change_state (oe_now env) FAILED) (\<lambda>_. liftS (Inl e)) s1
          else (s1, Inl e))"

definition session_open ::
  "open_env \<Rightarrow> rat \<Rightarrow> bool \<Rightarrow> pystr option \<Rightarrow> ssh_session \<Rightarrow> (ssh_session \<times> unit res) option" where
  "session_open env timeout allow tok s =
     (case bindE (require [CREATED] (ws_machine s)) (\<lambda>_.
           guardE (allow = (tok \<noteq> None)) (ValueError ''startup sudo authentication requires one operation-bound prompt token'')) of
        Inl e \<Rightarrow> Some (s, Inl e)
      | Inr _ \<Rightarrow>
          (case change_state (oe_now env) STARTING s of
             (s1, Inl e) \<Rightarrow> Some (s1, Inl e)
           | (s1, Inr _) \<Rightarrow>
               map_option (finish_open env)
                 (case oe_start env of
                    Some e \<Rightarrow> Some (s1, Inl e)
                  | None \<Rightarrow>
                      open_loop env (sudo_prompts allow) tok (oe_started env + timeout) (oe_ticks env) (new_gate allow) s1)))"

section \<open>The pieces of a command\<close>

lemma cut_line_concat:
  "cut_line pending line = (fl, p', r) \<Longrightarrow> concat fl @ p' @ r = pending @ line"
proof (induction pending line arbitrary: fl p' r rule: cut_line.induct)
  case (1 pending line)
  show ?case
  proof (cases "COMMAND_INPUT_CHUNK_CHARACTERS < length line")
    case True
    obtain fl1 p1 r1 where c: "cut_line [] (drop COMMAND_INPUT_CHUNK_CHARACTERS line) = (fl1, p1, r1)"
      by (metis surj_pair)
    with True "1.prems" have e: "fl = (if pending = [] then [] else [pending]) @ [take COMMAND_INPUT_CHUNK_CHARACTERS line] @ fl1"
      "p' = p1" "r = r1"
      by (auto simp: cut_line.simps [of pending line])
    have "concat fl1 @ p1 @ r1 = drop COMMAND_INPUT_CHUNK_CHARACTERS line"
      using "1.IH" [OF True c] by simp
    then show ?thesis
      unfolding e by (simp del: append_assoc add: append_assoc [symmetric]) (metis append.assoc append_take_drop_id)
  next
    case False
    with "1.prems" show ?thesis by (simp add: cut_line.simps [of pending line])
  qed
qed

lemma cut_line_bound:
  "cut_line pending line = (fl, p', r) \<Longrightarrow> length pending \<le> COMMAND_INPUT_CHUNK_CHARACTERS \<Longrightarrow>
    length p' \<le> COMMAND_INPUT_CHUNK_CHARACTERS \<and> length r \<le> COMMAND_INPUT_CHUNK_CHARACTERS \<and>
    (\<forall>c \<in> set fl. length c \<le> COMMAND_INPUT_CHUNK_CHARACTERS)"
proof (induction pending line arbitrary: fl p' r rule: cut_line.induct)
  case (1 pending line)
  show ?case
  proof (cases "COMMAND_INPUT_CHUNK_CHARACTERS < length line")
    case True
    obtain fl1 p1 r1 where c: "cut_line [] (drop COMMAND_INPUT_CHUNK_CHARACTERS line) = (fl1, p1, r1)"
      by (metis surj_pair)
    with True "1.prems"(1) have e: "fl = (if pending = [] then [] else [pending]) @ [take COMMAND_INPUT_CHUNK_CHARACTERS line] @ fl1"
      "p' = p1" "r = r1"
      by (auto simp: cut_line.simps [of pending line])
    show ?thesis using "1.IH" [OF True c] "1.prems"(2) unfolding e by simp
  next
    case False
    with "1.prems" show ?thesis by (simp add: cut_line.simps [of pending line])
  qed
qed

lemma collect_lines_concat: "concat (collect_lines pending ls) = pending @ concat ls"
proof (induction ls arbitrary: pending)
  case Nil
  show ?case by simp
next
  case (Cons line ls)
  obtain fl p' r where c: "cut_line pending line = (fl, p', r)" by (metis surj_pair)
  from cut_line_concat [OF c] have "concat fl @ p' @ r @ concat ls = pending @ line @ concat ls"
    by (metis append.assoc)
  then show ?case by (simp add: c Cons.IH)
qed

lemma collect_lines_bound:
  "length pending \<le> COMMAND_INPUT_CHUNK_CHARACTERS \<Longrightarrow> c \<in> set (collect_lines pending ls) \<Longrightarrow>
    length c \<le> COMMAND_INPUT_CHUNK_CHARACTERS"
proof (induction ls arbitrary: pending)
  case Nil
  then show ?case by (simp split: if_splits)
next
  case (Cons line ls)
  obtain fl p' r where k: "cut_line pending line = (fl, p', r)" by (metis surj_pair)
  note b = cut_line_bound [OF k Cons.prems(1)]
  consider "c \<in> set fl" | "c = p'" | "c \<in> set (collect_lines r ls)"
    | "length p' + length r \<le> COMMAND_INPUT_CHUNK_CHARACTERS" "c \<in> set (collect_lines (p' @ r) ls)"
    using Cons.prems(2) by (auto simp: k split: if_splits)
  then show ?case
  proof cases
    case 4
    then show ?thesis using Cons.IH [of "p' @ r"] by simp
  qed (use b Cons.IH [of r] in auto)
qed

lemma concat_map_concat: "concat (map concat xss) = concat (concat xss)"
  by (induction xss) auto

text \<open>
  A command reaches the shell complete, in order and in bounded pieces. The pieces in which a
  wrapped command is written, joined, are exactly the wrapped command, however long its lines are; and no piece
  has more than 512 characters, the amount the remote terminal line takes at a time.
\<close>

theorem command_delivered_in_pieces:
  "concat (command_chunks wrapped) = wrapped \<and>
   (\<forall>c \<in> set (command_pieces wrapped). length c \<le> COMMAND_INPUT_CHUNK_CHARACTERS)"
proof
  have "concat (concat (map py_chars (splitlines_keep wrapped))) = wrapped"
    by (simp flip: concat_map_concat add: o_def)
  then show "concat (command_chunks wrapped) = wrapped"
    by (simp add: command_chunks_def command_pieces_def concat_map_concat collect_lines_concat)
  show "\<forall>c \<in> set (command_pieces wrapped). length c \<le> COMMAND_INPUT_CHUNK_CHARACTERS"
    using collect_lines_bound [of "[]"] by (auto simp: command_pieces_def)
qed

theorem command_delivered_in_pieces_witness:
  "concat (command_chunks ''id'') = ''id''"
  using command_delivered_in_pieces [of "''id''"] by simp

section \<open>What a turn does to the session\<close>

lemma change_state_simps [simp]:
  "ws_active (fst (change_state now t s)) = ws_active s"
  "ws_nonce (fst (change_state now t s)) = ws_nonce s"
  by (simp_all add: change_state_def transition_def Let_def)

lemma change_state_ok:
  "t \<in> set (ALLOWED_TRANSITIONS (session_state_of s)) \<Longrightarrow>
    \<exists>s'. change_state now t s = (s', Inr ()) \<and> session_state_of s' = t \<and> ws_active s' = ws_active s"
  by (simp add: change_state_def transition_def Let_def)

lemma write_simps [simp]:
  "ws_machine (terminal_write d s) = ws_machine s" "ws_active (terminal_write d s) = ws_active s"
  "ws_machine (terminate_terminal b s) = ws_machine s" "ws_active (terminate_terminal b s) = ws_active s"
  by (simp_all add: terminal_write_def terminate_terminal_def)

lemma write_all_simps [simp]:
  "ws_machine (write_all ps s) = ws_machine s" "ws_active (write_all ps s) = ws_active s"
  by (induction ps arbitrary: s) (simp_all add: write_all_def)

text \<open>A session in a state, with its active command.\<close>

definition in_state :: "session_state \<Rightarrow> pystr option \<Rightarrow> ssh_session \<Rightarrow> bool" where
  "in_state st tok s = (session_state_of s = st \<and> ws_active s = tok)"

lemma in_state_change:
  "in_state st tok s \<Longrightarrow> t \<in> set (ALLOWED_TRANSITIONS st) \<Longrightarrow>
    \<exists>s'. change_state now t s = (s', Inr ()) \<and> in_state t tok s'"
  by (simp add: in_state_def change_state_def transition_def Let_def)

lemma in_state_write [simp]:
  "in_state st tok (terminal_write d s) = in_state st tok s"
  "in_state st tok (terminate_terminal b s) = in_state st tok s"
  "in_state st tok (write_all ps s) = in_state st tok s"
  "in_state st tok (s\<lparr>ws_detector := d'\<rparr>) = in_state st tok s"
  by (simp_all add: in_state_def)

lemma answer_prompt_executing:
  assumes "in_state EXECUTING tok s"
  shows "(\<exists>s'. answer_prompt now outcome s = (s', Inr ()) \<and> in_state EXECUTING tok s') \<or>
    (\<exists>s' e. answer_prompt now outcome s = (s', Inl e) \<and> in_state FAILED tok s')"
proof (cases "auth_answer outcome")
  case (Inl e)
  then show ?thesis using assms
    by (simp add: answer_prompt_def begin_authentication_def transition_def change_state_def in_state_def
        terminate_terminal_def Let_def)
next
  case (Inr data)
  then show ?thesis using assms
    by (simp add: answer_prompt_def begin_authentication_def finish_authentication_def transition_def in_state_def
        terminal_write_def Let_def)
qed

definition gate_used :: "auth_gate \<Rightarrow> bool" where
  "gate_used gate = (case gate of Some (True, _) \<Rightarrow> True | _ \<Rightarrow> False)"

lemma handle_events_skip:
  "prompt_skipped allowed st e \<Longrightarrow>
    handle_events allowed st now auth (e # es) i gate extra s = handle_events allowed st now auth es i gate extra s"
  by simp

lemma handle_events_again:
  assumes "\<not> prompt_skipped allowed st e" and "gate_used gate"
  shows "\<exists>b. handle_events allowed st now auth (e # es) i gate extra s =
    handle_events allowed st now auth es i (Some (True, True)) extra (if b then s else terminal_write REMOTE_VINTR_BYTE s)"
proof -
  obtain b where "gate = Some (True, b)" using assms(2) by (auto simp: gate_used_def split: option.splits bool.splits)
  then show ?thesis using assms(1) by (auto intro: exI [of _ b])
qed

lemma handle_events_answer:
  "\<not> prompt_skipped allowed st e \<Longrightarrow> \<not> gate_used gate \<Longrightarrow>
    handle_events allowed st now auth (e # es) i gate extra s =
      (case answer_prompt now (auth i) s of (s1, Inl x) \<Rightarrow> (s1, Inl x)
       | (s1, Inr _) \<Rightarrow> handle_events allowed st now auth es (Suc i) (map_option (\<lambda>(_, b). (True, b)) gate)
           (extra + ao_seconds (auth i)) s1)"
proof -
  assume n: "\<not> prompt_skipped allowed st e" and g: "\<not> gate_used gate"
  from g have "gate = None \<or> (\<exists>b. gate = Some (False, b))"
    by (cases gate) (auto simp: gate_used_def split: bool.splits)
  then show ?thesis using n by (auto split: prod.split sum.split)
qed

lemma handle_events_executing:
  assumes "in_state EXECUTING tok s" and "handle_events allowed st now auth events i gate extra s = (s', r)"
  shows "case r of Inr _ \<Rightarrow> in_state EXECUTING tok s' | Inl _ \<Rightarrow> in_state FAILED tok s'"
  using assms
proof (induction events arbitrary: i gate extra s)
  case (Cons e es)
  consider "prompt_skipped allowed st e" | "\<not> prompt_skipped allowed st e" "gate_used gate"
    | "\<not> prompt_skipped allowed st e" "\<not> gate_used gate" by blast
  then show ?case
  proof cases
    case 1
    then show ?thesis using Cons by (simp del: handle_events.simps add: handle_events_skip)
  next
    case 2
    from handle_events_again [OF this] Cons.prems obtain b where
      "handle_events allowed st now auth es i (Some (True, True)) extra (if b then s else terminal_write REMOTE_VINTR_BYTE s) = (s', r)"
      by (metis (lifting))
    moreover have "in_state EXECUTING tok (if b then s else terminal_write REMOTE_VINTR_BYTE s)" using Cons.prems(1) by simp
    ultimately show ?thesis using Cons.IH by blast
  next
    case 3
    note h = Cons.prems(2) [unfolded handle_events_answer [OF 3]]
    show ?thesis
      using answer_prompt_executing [OF Cons.prems(1), of now "auth i"]
    proof (elim disjE exE conjE)
      fix s1
      assume "answer_prompt now (auth i) s = (s1, Inr ())" and "in_state EXECUTING tok s1"
      then show ?thesis using h Cons.IH by simp
    next
      fix s1 x
      assume "answer_prompt now (auth i) s = (s1, Inl x)" and "in_state FAILED tok s1"
      then show ?thesis using h by auto
    qed
  qed
qed auto

lemma read_executing:
  assumes "in_state EXECUTING tok s" and "read_and_handle_prompts allowed st t gate s = (s', r)"
  shows "case r of Inr _ \<Rightarrow> in_state EXECUTING tok s' | Inl _ \<Rightarrow> in_state FAILED tok s'"
proof (cases "tk_data t = []")
  case False
  obtain d events where d: "detector_feed (decode_replace (tk_data t)) (ws_detector s) = (d, events)" by fastforce
  have "handle_events allowed st (tk_now t) (tk_auth t) events 0 gate 0 (s\<lparr>ws_detector := d\<rparr>) = (s', r)"
    using assms(2) False d by (simp add: read_and_handle_prompts_def)
  with handle_events_executing [where s = "s\<lparr>ws_detector := d\<rparr>"] assms(1) show ?thesis by simp
qed (use assms in \<open>auto simp: read_and_handle_prompts_def\<close>)

text \<open>How the part of \<^verbatim>\<open>execute\<close> after the state change may end: with the state it leaves and its result.\<close>

definition settled :: "pystr option \<Rightarrow> ssh_session \<times> 'a res \<Rightarrow> bool" where
  "settled tok r =
     (case r of
        (s, Inr _) \<Rightarrow> in_state READY tok s
      | (s, Inl e) \<Rightarrow>
          in_state LOST tok s \<or> in_state FAILED tok s \<or> in_state EXECUTING tok s \<or>
          in_state READY tok s \<and> (\<exists>m. e = CommandTimedOut m))"

lemma settled_lost: "in_state EXECUTING tok s \<or> in_state FAILED tok s \<Longrightarrow> settled tok (lost now running m s)"
  by (auto simp: lost_def settled_def lose_executing_session_def in_state_def change_state_def transition_def
      terminate_terminal_def Let_def)

lemma settled_ready: "in_state READY tok s \<Longrightarrow> settled tok (s, Inr v)"
  by (simp add: settled_def)

lemma settled_executing: "in_state EXECUTING tok s \<or> in_state FAILED tok s \<Longrightarrow> settled tok (s, Inl e)"
  by (auto simp: settled_def)

lemma settled_timed_out: "in_state READY tok s \<Longrightarrow> settled tok (s, Inl (CommandTimedOut m))"
  by (simp add: settled_def)

lemma settled_change_ready:
  "in_state EXECUTING tok s \<Longrightarrow> \<exists>s'. change_state now READY s = (s', Inr ()) \<and> in_state READY tok s'"
  using in_state_change by simp

lemma after_read_settled:
  assumes "in_state EXECUTING tok s" and "after_read env t p s = Inl r"
  shows "settled tok r"
proof -
  obtain p1 x where f: "(if tk_data t = [] then (p, Inr None) else feed (tk_data t) False p) = (p1, x)" by fastforce
  obtain s1 where c: "change_state (tk_now t) READY s = (s1, Inr ())" and c1: "in_state READY tok s1"
    using settled_change_ready [OF assms(1)] by blast
  show ?thesis
  proof (cases x)
    case (Inl e)
    show ?thesis
    proof (cases "\<exists>m. e = FrameProtocolError m")
      case True
      then show ?thesis using assms(2) settled_lost [OF disjI1, OF assms(1)] by (auto simp: after_read_def f Inl)
    next
      case False
      then have "r = (s, Inl e)" using assms(2) by (cases e) (simp_all add: after_read_def f Inl)
      then show ?thesis using assms(1) by (simp add: settled_executing)
    qed
  next
    case (Inr y)
    then show ?thesis using assms(2) settled_lost [OF disjI1, OF assms(1)] settled_ready [OF c1]
      by (cases y) (auto simp: after_read_def f c split: if_splits)
  qed
qed

lemma wait_for_recovery_state:
  assumes "in_state EXECUTING tok s" and "wait_for_recovery deadline ts p s = Some (s', r)"
  shows "case r of Inr _ \<Rightarrow> in_state EXECUTING tok s' | Inl _ \<Rightarrow> in_state EXECUTING tok s' \<or> in_state FAILED tok s'"
  using assms
proof (induction ts arbitrary: p s)
  case (Cons t ts)
  obtain s1 x where rd: "read_and_handle_prompts [] None t None s = (s1, x)" by fastforce
  note st = read_executing [OF Cons.prems(1) rd]
  obtain p1 y where f: "(if tk_data t = [] then (p, Inr None) else feed (tk_data t) False p) = (p1, y)" by fastforce
  show ?case
  proof (cases "tk_now t < deadline")
    case False
    then show ?thesis using Cons.prems by auto
  next
    case True
    show ?thesis
    proof (cases x)
      case (Inl e)
      then show ?thesis using Cons.prems(2) st True by (auto simp: rd)
    next
      case (Inr g)
      then have ex: "in_state EXECUTING tok s1" using st by simp
      then show ?thesis using Cons.prems(2) True Cons.IH [OF ex]
        by (cases y) (auto simp: rd f Inr split: option.splits if_splits)
    qed
  qed
qed simp

lemma send_interrupt_state:
  assumes "in_state EXECUTING tok s" and "send_interrupt now running failure token s = (s', r)"
  shows "case r of Inr _ \<Rightarrow> in_state EXECUTING tok s' | Inl e \<Rightarrow> in_state LOST tok s'"
proof -
  let ?s1 = "if failure = Some 0 then s else terminal_write REMOTE_VINTR_BYTE s"
  have ex: "in_state EXECUTING tok ?s1" using assms(1) by simp
  then have l: "in_state LOST tok (lose_executing_session now running ?s1)"
    by (auto simp: lose_executing_session_def in_state_def change_state_def transition_def Let_def)
  show ?thesis
  proof (cases "failure = None \<and> (\<exists>w. interrupt_recovery_wrapper token (Some (ws_nonce s)) = Inr w)")
    case True
    then show ?thesis using assms by (auto simp: send_interrupt_def Let_def)
  next
    case False
    then show ?thesis using assms(2) l
      by (auto simp: send_interrupt_def Let_def lost_def split: option.splits sum.splits)
  qed
qed

lemma recover_settled:
  assumes "in_state EXECUTING tok s" and "recover env timeout p s = Some r"
  shows "settled tok r"
proof -
  obtain s1 x where i: "send_interrupt (xe_now env) (xe_running env) (xe_interrupt env) (xe_token env) s = (s1, x)" by fastforce
  note ist = send_interrupt_state [OF assms(1) i]
  show ?thesis
  proof (cases x)
    case (Inl e)
    then show ?thesis using assms(2) ist by (auto simp: recover_def i settled_def)
  next
    case (Inr u)
    then have ex: "in_state EXECUTING tok s1" using ist by simp
    obtain s2 y where w: "wait_for_recovery (xe_recovery_started env + RECOVERY_TIMEOUT_SECONDS) (xe_recovery env) p s1 = Some (s2, y)"
      using assms(2) by (auto simp: recover_def i Inr split: option.splits)
    note ws = wait_for_recovery_state [OF ex w]
    show ?thesis
    proof (cases y)
      case (Inl e)
      then show ?thesis using assms(2) ws
        by (cases e) (simp_all add: recover_def i Inr w, auto simp: settled_executing settled_lost)
    next
      case (Inr b)
      then have e2: "in_state EXECUTING tok s2" using ws by simp
      obtain s3 where "change_state (xe_now env) READY s2 = (s3, Inr ())" "in_state READY tok s3"
        using settled_change_ready [OF e2] by blast
      then show ?thesis using assms(2) settled_lost [OF disjI1, OF e2]
        by (auto simp: recover_def i \<open>x = Inr u\<close> w Inr settled_timed_out split: if_splits)
    qed
  qed
qed

lemma exec_loop_settled:
  assumes "in_state EXECUTING tok s" and "exec_loop env timeout allowed st deadline ts p gate s = Some r"
  shows "settled tok r"
  using assms
proof (induction ts arbitrary: deadline p gate s)
  case (Cons t ts)
  show ?case
  proof (cases "tk_now t < deadline")
    case False
    then show ?thesis using Cons.prems recover_settled by auto
  next
    case True
    obtain s1 x where rd: "read_and_handle_prompts allowed st t gate s = (s1, x)" by fastforce
    note read = read_executing [OF Cons.prems(1) rd]
    show ?thesis
    proof (cases x)
      case (Inl e)
      then show ?thesis using Cons.prems(2) True read by (auto simp: rd settled_executing)
    next
      case (Inr g)
      then have ex: "in_state EXECUTING tok s1" using read by simp
      show ?thesis
        using Cons.prems(2) True after_read_settled [OF ex] Cons.IH [OF ex]
        by (cases g; cases "after_read env t p s1") (auto simp: rd Inr)
    qed
  qed
qed simp

lemma write_command_state: "in_state st tok s \<Longrightarrow> in_state st tok (fst (write_command failure wrapped s))"
  by (auto simp: write_command_def split: sum.split option.split prod.split)

lemma deliver_settled:
  assumes "in_state EXECUTING tok s" and "deliver_and_wait env command timeout allow st p s = Some r"
  shows "settled tok r"
proof -
  obtain s1 x where w: "write_command (xe_write env) (command_wrapper command (xe_token env) (Some (ws_nonce s))) s = (s1, x)"
    by fastforce
  have "in_state EXECUTING tok s1"
    using write_command_state [OF assms(1), of "xe_write env" "command_wrapper command (xe_token env) (Some (ws_nonce s))"]
    by (simp add: w)
  then show ?thesis using assms(2) exec_loop_settled
    by (cases x) (auto simp: deliver_and_wait_def w settled_executing)
qed

definition execute_ended :: "ssh_session \<times> 'a res \<Rightarrow> bool" where
  "execute_ended r =
     (case r of
        (s, Inr _) \<Rightarrow> in_state READY None s
      | (s, Inl e) \<Rightarrow> in_state LOST None s \<or> in_state FAILED None s \<or> in_state READY None s \<and> (\<exists>m. e = CommandTimedOut m))"

lemma clear_command_state: "in_state st (Some token) s \<Longrightarrow> in_state st None (clear_command token s)"
  by (simp add: in_state_def clear_command_def)

lemma finish_execute_ended:
  assumes "settled (Some (xe_token env)) r"
  shows "execute_ended (finish_execute env r)"
proof -
  obtain s x where r: "r = (s, x)" by fastforce
  let ?target = "if xe_running env then FAILED else LOST"
  show ?thesis
  proof (cases x)
    case (Inr v)
    then show ?thesis using assms by (simp add: r settled_def finish_execute_def execute_ended_def clear_command_state)
  next
    case (Inl e)
    show ?thesis
    proof (cases "session_state_of s = EXECUTING")
      case True
      with assms have ex: "in_state EXECUTING (Some (xe_token env)) s" by (auto simp: r Inl settled_def in_state_def)
      have "?target \<in> set (ALLOWED_TRANSITIONS EXECUTING)" by simp
      from in_state_change [OF ex this] obtain s1 where
        "change_state (xe_now env) ?target s = (s1, Inr ())" "in_state ?target (Some (xe_token env)) s1" by blast
      then show ?thesis using True clear_command_state [of ?target "xe_token env" s1]
        by (auto simp: r Inl finish_execute_def execute_ended_def split: if_splits)
    next
      case False
      then show ?thesis using assms
        by (auto simp: r Inl settled_def finish_execute_def execute_ended_def in_state_def clear_command_def)
    qed
  qed
qed


section \<open>Execution ends\<close>

text \<open>
  What authentication may still add to the deadline: nothing once the gate was used or where no prompt is
  allowed, and otherwise the longest answer.
\<close>

definition auth_budget :: "prompt_kind list \<Rightarrow> auth_gate \<Rightarrow> rat \<Rightarrow> rat" where
  "auth_budget allowed gate longest = (if allowed = [] \<or> gate_used gate then 0 else longest)"

lemma handle_events_budget:
  assumes "handle_events allowed st now auth events i gate extra s = (s', Inr (gate', extra'))"
    and "\<And>i. ao_seconds (auth i) \<le> longest" and "allowed = [] \<or> gate \<noteq> None" and "0 \<le> longest"
  shows "extra' + auth_budget allowed gate' longest \<le> extra + auth_budget allowed gate longest \<and>
    (allowed = [] \<or> gate' \<noteq> None)"
  using assms(1,3)
proof (induction events arbitrary: i gate extra s)
  case (Cons e es)
  consider "prompt_skipped allowed st e" | "\<not> prompt_skipped allowed st e" "gate_used gate"
    | "\<not> prompt_skipped allowed st e" "\<not> gate_used gate" by blast
  then show ?case
  proof cases
    case 1
    then show ?thesis using Cons by (simp del: handle_events.simps add: handle_events_skip)
  next
    case 2
    from handle_events_again [OF this] Cons.prems obtain b where
      "handle_events allowed st now auth es i (Some (True, True)) extra (if b then s else terminal_write REMOTE_VINTR_BYTE s) =
        (s', Inr (gate', extra'))"
      by (metis (lifting))
    from Cons.IH [OF this] 2 show ?thesis by (simp add: auth_budget_def gate_used_def)
  next
    case 3
    then have ne: "allowed \<noteq> []" by (auto simp: prompt_skipped_def)
    with Cons.prems(2) 3 obtain b where g: "gate = Some (False, b)"
      by (auto simp: gate_used_def split: option.splits bool.splits)
    obtain s1 where h: "handle_events allowed st now auth es (Suc i) (Some (True, b)) (extra + ao_seconds (auth i)) s1 =
        (s', Inr (gate', extra'))"
      using Cons.prems(1) [unfolded handle_events_answer [OF 3]] by (auto simp: g split: prod.splits sum.splits)
    from Cons.IH [OF h] assms(2) [of i] ne show ?thesis by (simp add: auth_budget_def gate_used_def g)
  qed
qed (use assms in auto)

lemma read_budget:
  assumes "read_and_handle_prompts allowed st t gate s = (s', Inr (gate', extra))"
    and "\<And>i. ao_seconds (tk_auth t i) \<le> longest" and "allowed = [] \<or> gate \<noteq> None" and "0 \<le> longest"
  shows "extra + auth_budget allowed gate' longest \<le> auth_budget allowed gate longest \<and> (allowed = [] \<or> gate' \<noteq> None)"
proof (cases "tk_data t = []")
  case False
  obtain d events where d: "detector_feed (decode_replace (tk_data t)) (ws_detector s) = (d, events)" by fastforce
  have "handle_events allowed st (tk_now t) (tk_auth t) events 0 gate 0 (s\<lparr>ws_detector := d\<rparr>) = (s', Inr (gate', extra))"
    using assms(1) False d by (simp add: read_and_handle_prompts_def)
  from handle_events_budget [OF this assms(2-4)] show ?thesis by simp
qed (use assms in \<open>auto simp: read_and_handle_prompts_def\<close>)

lemma wait_for_recovery_returns:
  "\<exists>t \<in> set ts. deadline \<le> tk_now t \<Longrightarrow> \<exists>r. wait_for_recovery deadline ts p s = Some r"
proof (induction ts arbitrary: p s)
  case (Cons t ts)
  obtain s1 x where rd: "read_and_handle_prompts [] None t None s = (s1, x)" by fastforce
  obtain p1 y where f: "(if tk_data t = [] then (p, Inr None) else feed (tk_data t) False p) = (p1, y)" by fastforce
  have later: "\<exists>r. wait_for_recovery deadline ts p1 s1 = Some r" if "tk_now t < deadline"
    using Cons that by auto
  show ?case
  proof (cases "tk_now t < deadline")
    case True
    then show ?thesis using later by (auto simp: rd f split: sum.split option.split)
  qed simp
qed simp

lemma recover_returns:
  assumes "\<exists>t \<in> set (xe_recovery env). xe_recovery_started env + RECOVERY_TIMEOUT_SECONDS \<le> tk_now t"
  shows "\<exists>r. recover env timeout p s = Some r"
proof -
  obtain s1 x where i: "send_interrupt (xe_now env) (xe_running env) (xe_interrupt env) (xe_token env) s = (s1, x)" by fastforce
  obtain s2 y where w: "wait_for_recovery (xe_recovery_started env + RECOVERY_TIMEOUT_SECONDS) (xe_recovery env) p s1 = Some (s2, y)"
    using wait_for_recovery_returns [OF assms] by fastforce
  show ?thesis
  proof (cases x)
    case (Inr u)
    show ?thesis
    proof (cases y)
      case (Inl e)
      then show ?thesis by (cases e) (simp_all add: recover_def i Inr w)
    qed (auto simp: recover_def i Inr w split: prod.split sum.split)
  qed (simp add: recover_def i)
qed

lemma exec_loop_returns:
  assumes "\<exists>t \<in> set (xe_recovery env). xe_recovery_started env + RECOVERY_TIMEOUT_SECONDS \<le> tk_now t"
    and "0 \<le> longest"
  shows "\<exists>t \<in> set ts. deadline + auth_budget allowed gate longest \<le> tk_now t \<Longrightarrow>
    \<forall>t \<in> set ts. \<forall>i. ao_seconds (tk_auth t i) \<le> longest \<Longrightarrow> allowed = [] \<or> gate \<noteq> None \<Longrightarrow>
    \<exists>r. exec_loop env timeout allowed st deadline ts p gate s = Some r"
proof (induction ts arbitrary: deadline p gate s)
  case (Cons t ts)
  have b: "0 \<le> auth_budget allowed gate longest" using assms(2) by (simp add: auth_budget_def)
  show ?case
  proof (cases "tk_now t < deadline")
    case False
    then show ?thesis using recover_returns [OF assms(1)] by simp
  next
    case True
    with Cons.prems(1) b have later: "\<exists>t \<in> set ts. deadline + auth_budget allowed gate longest \<le> tk_now t" by auto
    obtain s1 x where rd: "read_and_handle_prompts allowed st t gate s = (s1, x)" by fastforce
    show ?thesis
    proof (cases x)
      case (Inl e)
      then show ?thesis using True by (simp add: rd)
    next
      case (Inr g)
      obtain gate' extra where g: "g = (gate', extra)" by fastforce
      have le: "extra + auth_budget allowed gate' longest \<le> auth_budget allowed gate longest" "allowed = [] \<or> gate' \<noteq> None"
        using read_budget [OF rd [unfolded Inr g]] Cons.prems assms(2) by auto
      obtain u where "u \<in> set ts" "deadline + auth_budget allowed gate longest \<le> tk_now u" using later by blast
      with le(1) have l: "\<exists>t \<in> set ts. (deadline + extra) + auth_budget allowed gate' longest \<le> tk_now t"
        by (intro bexI [of _ u]) linarith+
      have IH: "\<exists>r. exec_loop env timeout allowed st (deadline + extra) ts p1 gate' s1 = Some r" for p1
        using Cons.IH [OF l _ le(2)] Cons.prems(2) by simp
      show ?thesis
        using True IH by (cases "after_read env t p s1") (simp_all add: rd Inr g)
    qed
  qed
qed simp

lemma execute_ends:
  assumes "\<exists>t \<in> set (xe_ticks env). xe_started env + timeout + longest \<le> tk_now t"
    and "\<exists>t \<in> set (xe_recovery env). xe_recovery_started env + RECOVERY_TIMEOUT_SECONDS \<le> tk_now t"
    and "\<forall>t \<in> set (xe_ticks env). \<forall>i. ao_seconds (tk_auth t i) \<le> longest" and "0 \<le> longest"
  shows "\<exists>s' r. session_execute env command timeout allow tok s = Some (s', r)"
proof -
  have "auth_budget (sudo_prompts allow) (new_gate allow) longest \<le> longest" using assms(4) by (simp add: auth_budget_def)
  with assms(1) have l: "\<exists>t \<in> set (xe_ticks env). xe_started env + timeout + auth_budget (sudo_prompts allow) (new_gate allow) longest \<le> tk_now t"
    by (metis add_left_mono order_trans)
  have loop: "\<exists>r. exec_loop env timeout (sudo_prompts allow) tok (xe_started env + timeout) (xe_ticks env) p (new_gate allow) s1 = Some r" for p s1
    by (rule exec_loop_returns [OF assms(2,4) l assms(3)]) (auto simp: sudo_prompts_def new_gate_def)
  have "\<exists>r. deliver_and_wait env command timeout allow tok p s1 = Some r" for p s1
    using loop by (simp add: deliver_and_wait_def split: prod.split sum.split)
  then show ?thesis by (simp add: session_execute_def split: prod.split sum.split) (metis option.simps(9) surj_pair)
qed

text \<open>
  C7: executing a command always ends. However the terminal and the person behave, once the clock has passed
  the timeout by the longest time that one authentication took, and recovery its five seconds,
  \<^verbatim>\<open>execute\<close> has returned or raised: authentication extends the deadline at most once, because the gate
  lets one prompt through.
\<close>

theorem execute_terminates:
  assumes "\<exists>t \<in> set (xe_ticks env). xe_started env + timeout + longest \<le> tk_now t"
    and "\<exists>t \<in> set (xe_recovery env). xe_recovery_started env + RECOVERY_TIMEOUT_SECONDS \<le> tk_now t"
    and "\<forall>t \<in> set (xe_ticks env). \<forall>i. ao_seconds (tk_auth t i) \<le> longest" and "0 \<le> longest"
  shows "\<exists>s' r. session_execute env command timeout allow tok s = Some (s', r)"
  using assms by (rule execute_ends)

definition demo_tick :: "rat \<Rightarrow> bytes \<Rightarrow> tick" where
  "demo_tick now data =
     \<lparr>tk_now = now, tk_data = data, tk_auth = (\<lambda>_. \<lparr>ao_response = Inr (Some ''pw''), ao_seconds = 2, ao_running = True\<rparr>),
      tk_running = True\<rparr>"

definition demo_exec_env :: exec_env where
  "demo_exec_env =
     \<lparr>xe_token = ''abcdef0123456789'', xe_started = 0, xe_write = None,
      xe_ticks = [demo_tick 1 ''out'', demo_tick 100 []], xe_interrupt = None,
      xe_recovery_started = 101, xe_recovery = [demo_tick 110 []], xe_now = 111, xe_running = True\<rparr>"

definition demo_ready_session :: ssh_session where
  "demo_ready_session =
     \<lparr>ws_machine = \<lparr>sm_state = READY, sm_generation = 2, sm_changed_at = 0, sm_auth_return_state = None\<rparr>,
      ws_detector = \<lparr>pd_limit = 65536, pd_history = [], pd_base = 0, pd_seen = (\<lambda>_. 0)\<rparr>, ws_active = None, ws_nonce = ''0123456789abcdef'', ws_max_output = 4096,
      ws_written = [], ws_terminated = False\<rparr>"

theorem execute_terminates_witness:
  "\<exists>s' r. session_execute demo_exec_env ''id'' 60 True (Some ''tok'') demo_ready_session = Some (s', r)"
  using execute_terminates [of demo_exec_env 60 2 "''id''" True "Some ''tok''" demo_ready_session]
  by (simp add: demo_exec_env_def demo_tick_def RECOVERY_TIMEOUT_SECONDS_def)


end
