(* ===== verification/Worker_Interactive.thy ===== *)
theory Worker_Interactive
  imports Ring_Buffer Worker_Session
begin

text \<open>
  \<^verbatim>\<open>worker/interactive.py\<close>: the raw use of a session's terminal. The environment of an operation holds the clock,
  whether writing fails, whether the terminal runs, its output buffer, and for closing the turns of the
  loop that waits for the shell.
\<close>

definition MAX_INTERACTIVE_WRITE_BYTES :: nat where
  "MAX_INTERACTIVE_WRITE_BYTES = 65536"

record interactive_status =
  is_state :: session_state
  is_running :: bool
  is_cursor :: nat

record interactive_read_result =
  ir_output :: pystr
  ir_next_cursor :: nat
  ir_dropped :: bool
  ir_state :: session_state

record interactive_env =
  ie_now :: rat
  ie_write :: "exn option"
  ie_second_write :: "exn option"
  ie_resize :: "exn option"
  ie_running :: bool
  ie_buffer :: ring_buffer
  ie_tick :: tick
  ie_token :: pystr
  ie_started :: rat
  ie_ticks :: "tick list"

definition try_write :: "exn option \<Rightarrow> bytes \<Rightarrow> unit session_op" where
  "try_write failure data s = (case failure of None \<Rightarrow> (terminal_write data s, Inr ()) | Some e \<Rightarrow> (s, Inl e))"

definition interactive_status_of :: "interactive_env \<Rightarrow> interactive_status session_op" where
  "interactive_status_of env =
     bindS (require_state [INTERACTIVE]) (\<lambda>_ s.
     (s, Inr \<lparr>is_state = session_state_of s, is_running = ie_running env, is_cursor = end_cursor (ie_buffer env)\<rparr>))"

definition interactive_start :: "interactive_env \<Rightarrow> pystr \<Rightarrow> interactive_status session_op" where
  "interactive_start env command =
     bindS (liftS (guardE (command \<noteq> [] \<and> NUL \<notin> set command)
       (ValueError ''interactive command must be non-empty text without NUL''))) (\<lambda>_.
     bindS (require_state [READY]) (\<lambda>_.
     bindS (change_state (ie_now env) INTERACTIVE) (\<lambda>_ s.
     (case try_write (ie_write env) (command @ [CR, LF]) s of
        (s1, Inl e) \<Rightarrow>
          bindS (change_state (ie_now env) (if ie_running env then FAILED else LOST)) (\<lambda>_. liftS (Inl e)) s1
      | (s1, Inr _) \<Rightarrow>
          (s1, Inr \<lparr>is_state = session_state_of s1, is_running = ie_running env, is_cursor = end_cursor (ie_buffer env)\<rparr>)))))"

definition interactive_read :: "interactive_env \<Rightarrow> int \<Rightarrow> interactive_read_result session_op" where
  "interactive_read env cursor =
     bindS (require_state [INTERACTIVE]) (\<lambda>_.
     bindS (read_and_handle_prompts [] None (ie_tick env) None) (\<lambda>_.
     if \<not> ie_running env
     then bindS (change_state (ie_now env) LOST) (\<lambda>_.
       liftS (Inl (SessionLost ''the SSH terminal closed during interactive operation'')))
     else (\<lambda>s. let r = rb_read cursor (ie_buffer env) in
       (s, Inr \<lparr>ir_output = decode_replace (br_data r), ir_next_cursor = br_next_cursor r,
         ir_dropped = br_dropped_before_cursor r, ir_state = session_state_of s\<rparr>))))"

definition interactive_write :: "interactive_env \<Rightarrow> pystr \<Rightarrow> interactive_status session_op" where
  "interactive_write env text =
     bindS (require_state [INTERACTIVE]) (\<lambda>_.
     bindS (liftS (guardE (text \<noteq> [] \<and> length text \<le> MAX_INTERACTIVE_WRITE_BYTES)
       (ValueError ''interactive input must contain 1-65536 UTF-8 bytes''))) (\<lambda>_.
     bindS (try_write (ie_write env) text) (\<lambda>_. interactive_status_of env)))"

definition interactive_interrupt :: "interactive_env \<Rightarrow> interactive_status session_op" where
  "interactive_interrupt env =
     bindS (require_state [INTERACTIVE]) (\<lambda>_.
     bindS (try_write (ie_write env) REMOTE_VINTR_BYTE) (\<lambda>_. interactive_status_of env))"

definition interactive_resize :: "interactive_env \<Rightarrow> int \<Rightarrow> int \<Rightarrow> interactive_status session_op" where
  "interactive_resize env columns rows =
     bindS (require_state [INTERACTIVE]) (\<lambda>_.
     bindS (liftS (case ie_resize env of None \<Rightarrow> Inr () | Some e \<Rightarrow> Inl e)) (\<lambda>_. interactive_status_of env))"

definition lose_session :: "rat \<Rightarrow> bool \<Rightarrow> ssh_session \<Rightarrow> ssh_session" where
  "lose_session now running s =
     terminate_terminal running (if session_state_of s = INTERACTIVE then fst (change_state now LOST s) else s)"

definition lost_session :: "rat \<Rightarrow> bool \<Rightarrow> pystr \<Rightarrow> 'a session_op" where
  "lost_session now running message s = (lose_session now running s, Inl (OutcomeUnknown message))"

text \<open>One turn of the loop of \<^verbatim>\<open>close\<close> after the data was read.\<close>

definition after_close_read ::
  "interactive_env \<Rightarrow> tick \<Rightarrow> frame_parser \<Rightarrow> ssh_session \<Rightarrow> (ssh_session \<times> interactive_status res) + frame_parser" where
  "after_close_read env t p s =
     (case (if tk_data t = [] then (p, Inr None) else feed (tk_data t) False p) of
        (p1, Inl (FrameProtocolError _)) \<Rightarrow>
          Inl (lost_session (tk_now t) (tk_running t) ''Interactive shell recovery framing was invalid; the session was lost.'' s)
      | (p1, Inl e) \<Rightarrow> Inl (s, Inl e)
      | (p1, Inr (Some _)) \<Rightarrow>
          if \<not> tk_running t
          then Inl (lost_session (tk_now t) False ''The shell ended during interactive recovery; the session was lost.'' s)
          else Inl (bindS (change_state (tk_now t) READY) (\<lambda>_ s1.
            (s1, Inr \<lparr>is_state = session_state_of s1, is_running = True, is_cursor = end_cursor (ie_buffer env)\<rparr>)) s)
      | (p1, Inr None) \<Rightarrow>
          if \<not> tk_running t
          then Inl (lost_session (tk_now t) False ''The SSH terminal closed before interactive recovery was verified.'' s)
          else Inr p1)"

fun close_loop :: "interactive_env \<Rightarrow> rat \<Rightarrow> tick list \<Rightarrow> frame_parser \<Rightarrow> ssh_session \<Rightarrow> (ssh_session \<times> interactive_status res) option" where
  "close_loop env deadline [] p s = None"
| "close_loop env deadline (t # ts) p s =
     (if \<not> tk_now t < deadline
      then Some (lost_session (tk_now t) (ie_running env)
        ''Interactive control did not return to the original Bash shell; the session was lost.'' s)
      else case read_and_handle_prompts [] None t None s of
        (s1, Inl e) \<Rightarrow> Some (s1, Inl e)
      | (s1, Inr _) \<Rightarrow>
          (case after_close_read env t p s1 of
             Inl r \<Rightarrow> Some r
           | Inr p1 \<Rightarrow> close_loop env deadline ts p1 s1))"

definition interactive_close :: "interactive_env \<Rightarrow> rat \<Rightarrow> ssh_session \<Rightarrow> (ssh_session \<times> interactive_status res) option" where
  "interactive_close env timeout s =
     (case bindS (require_state [INTERACTIVE]) (\<lambda>_.
           bindS (try_write (ie_write env) REMOTE_VINTR_BYTE) (\<lambda>_ s1.
           bindS (liftS (bindE (new_frame_parser (ie_token env) 4096 (Some (ws_nonce s1))) (\<lambda>p.
             bindE (command_wrapper '':'' (ie_token env) (Some (ws_nonce s1))) (\<lambda>w. Inr (p, w))))) (\<lambda>(p, w).
           bindS (try_write (ie_second_write env) w) (\<lambda>_. liftS (Inr p))) s1)) s of
        (s1, Inl e) \<Rightarrow> Some (s1, Inl e)
      | (s1, Inr p) \<Rightarrow> close_loop env (ie_started env + timeout) (ie_ticks env) p s1)"

section \<open>Giving the terminal back\<close>

text \<open>
  Where no prompt is to be answered, reading changes nothing but the detector.
\<close>

lemma handle_events_none: "handle_events [] st now auth events i gate extra s = (s, Inr (gate, extra))"
  by (induction events) (simp_all add: prompt_skipped_def)

lemma read_without_prompts:
  "\<exists>d. read_and_handle_prompts [] st t gate s = (s\<lparr>ws_detector := d\<rparr>, Inr (gate, 0))"
proof (cases "tk_data t = []")
  case True
  then show ?thesis by (intro exI [of _ "ws_detector s"]) (simp add: read_and_handle_prompts_def)
qed (auto simp: read_and_handle_prompts_def handle_events_none split: prod.split)

lemma lose_session_state: "in_state INTERACTIVE tok s \<Longrightarrow> in_state LOST tok (lose_session now running s)"
  by (simp add: lose_session_def in_state_def change_state_def transition_def Let_def)

lemma after_close_read_cases:
  assumes "in_state INTERACTIVE tok s" and "after_close_read env t p s = Inl (s', r)"
  shows "(\<exists>v. r = Inr v \<and> in_state READY tok s' \<and> tk_running t \<and> (\<exists>p1 x. feed (tk_data t) False p = (p1, Inr (Some x)))) \<or>
    (\<exists>m. r = Inl (OutcomeUnknown m) \<and> in_state LOST tok s') \<or>
    (\<exists>p1 e. r = Inl e \<and> s' = s \<and> feed (tk_data t) False p = (p1, Inl e))"
proof -
  obtain p1 x where f: "(if tk_data t = [] then (p, Inr None) else feed (tk_data t) False p) = (p1, x)" by fastforce
  note lost = lose_session_state [OF assms(1)]
  obtain s1 where ready: "change_state (tk_now t) READY s = (s1, Inr ())" "in_state READY tok s1"
    using in_state_change [OF assms(1), of READY "tk_now t"] by auto
  consider (bad) m where "x = Inl (FrameProtocolError m)" | (other) e where "x = Inl e" "\<forall>m. e \<noteq> FrameProtocolError m"
    | (more) "x = Inr None" | (found) y where "x = Inr (Some y)"
    by (metis option.exhaust sum.exhaust)
  then show ?thesis
  proof cases
    case bad
    then show ?thesis using assms(2) lost by (auto simp: after_close_read_def f lost_session_def)
  next
    case other
    then have "s' = s" "r = Inl e" using assms(2) by (cases e; simp add: after_close_read_def f)+
    moreover have "tk_data t \<noteq> []" "feed (tk_data t) False p = (p1, Inl e)" using f other by (auto split: if_splits)
    ultimately show ?thesis by blast
  next
    case more
    then show ?thesis using assms(2) lost by (auto simp: after_close_read_def f lost_session_def split: if_splits)
  next
    case found
    then have "feed (tk_data t) False p = (p1, Inr (Some y))" using f by (auto split: if_splits)
    then show ?thesis using assms(2) lost ready found
      by (auto simp: after_close_read_def f lost_session_def bindS_def split: if_splits)
  qed
qed

lemma close_loop_cases:
  assumes "in_state INTERACTIVE tok s" and "close_loop env deadline ts p s = Some (s', r)"
  shows "(\<exists>v. r = Inr v \<and> in_state READY tok s' \<and>
      (\<exists>t \<in> set ts. tk_running t \<and> (\<exists>p0 p1 x. feed (tk_data t) False p0 = (p1, Inr (Some x))))) \<or>
    (\<exists>m. r = Inl (OutcomeUnknown m) \<and> in_state LOST tok s') \<or> (\<exists>e. r = Inl e \<and> in_state INTERACTIVE tok s')"
  using assms
proof (induction ts arbitrary: p s)
  case (Cons t ts)
  obtain d where d: "read_and_handle_prompts [] None t None s = (s\<lparr>ws_detector := d\<rparr>, Inr (None, 0))"
    using read_without_prompts by blast
  have ex: "in_state INTERACTIVE tok (s\<lparr>ws_detector := d\<rparr>)" using Cons.prems(1) by simp
  show ?case
  proof (cases "tk_now t < deadline")
    case False
    then show ?thesis using Cons.prems(2) lose_session_state [OF Cons.prems(1)] by (auto simp: lost_session_def)
  next
    case True
    show ?thesis
    proof (cases "after_close_read env t p (s\<lparr>ws_detector := d\<rparr>)")
      case (Inl y)
      then have "after_close_read env t p (s\<lparr>ws_detector := d\<rparr>) = Inl (s', r)" using Cons.prems(2) True by (simp add: d)
      from after_close_read_cases [OF ex this] ex show ?thesis by auto
    next
      case (Inr p1)
      then show ?thesis using Cons.prems(2) True Cons.IH [OF ex] by (auto simp: d)
    qed
  qed
qed simp

text \<open>
  The terminal is handed back only to a verified shell. Closing an interactive operation makes the session
  ready exactly when it returns normally, and then the running shell has printed the complete frame of
  the probe command; when the shell's answer is invalid or does not come, the session is lost and the outcome
  reported as unknown; in every other case an error is raised and the session stays
  interactive, where no command is executed.
\<close>

theorem interactive_close_verified:
  assumes "interactive_close env timeout s = Some (s', r)" and "session_state_of s = INTERACTIVE"
  shows "(\<exists>v. r = Inr v \<and> session_state_of s' = READY \<and>
      (\<exists>t \<in> set (ie_ticks env). tk_running t \<and> (\<exists>p0 p1 x. feed (tk_data t) False p0 = (p1, Inr (Some x))))) \<or>
    (\<exists>m. r = Inl (OutcomeUnknown m) \<and> session_state_of s' = LOST) \<or>
    (\<exists>e. r = Inl e \<and> session_state_of s' = INTERACTIVE \<and>
      (\<forall>xenv command limit allow st. command \<noteq> [] \<and> NUL \<notin> set command \<and> allow = (st \<noteq> None) \<longrightarrow>
        (\<exists>m. session_execute xenv command limit allow st s' = Some (s', Inl (InvalidSessionState m)))))"
proof -
  have s0: "in_state INTERACTIVE (ws_active s) s" using assms(2) by (simp add: in_state_def)
  obtain s1 x where pre: "bindS (require_state [INTERACTIVE]) (\<lambda>_.
           bindS (try_write (ie_write env) REMOTE_VINTR_BYTE) (\<lambda>_ s1.
           bindS (liftS (bindE (new_frame_parser (ie_token env) 4096 (Some (ws_nonce s1))) (\<lambda>p.
             bindE (command_wrapper '':'' (ie_token env) (Some (ws_nonce s1))) (\<lambda>w. Inr (p, w))))) (\<lambda>(p, w).
           bindS (try_write (ie_second_write env) w) (\<lambda>_. liftS (Inr p))) s1)) s = (s1, x)" by fastforce
  then have s1: "in_state INTERACTIVE (ws_active s) s1"
    using s0 by (auto simp: bindS_def require_state_def require_def try_write_def guardE_def split: sum.splits option.splits prod.splits if_splits)
  have "(\<exists>v. r = Inr v \<and> in_state READY (ws_active s) s' \<and>
      (\<exists>t \<in> set (ie_ticks env). tk_running t \<and> (\<exists>p0 p1 x. feed (tk_data t) False p0 = (p1, Inr (Some x))))) \<or>
    (\<exists>m. r = Inl (OutcomeUnknown m) \<and> in_state LOST (ws_active s) s') \<or> (\<exists>e. r = Inl e \<and> in_state INTERACTIVE (ws_active s) s')"
  proof (cases x)
    case (Inl e)
    then show ?thesis using assms(1) s1 unfolding interactive_close_def pre by auto
  next
    case (Inr p)
    then have "close_loop env (ie_started env + timeout) (ie_ticks env) p s1 = Some (s', r)"
      using assms(1) unfolding interactive_close_def pre by simp
    from close_loop_cases [OF s1 this] show ?thesis .
  qed
  then show ?thesis
    by (elim disjE) (auto simp: in_state_def session_execute_def require_def)
qed

lemma close_loop_returns: "\<exists>t \<in> set ts. deadline \<le> tk_now t \<Longrightarrow> \<exists>r. close_loop env deadline ts p s = Some r"
proof (induction ts arbitrary: p s)
  case (Cons t ts)
  obtain d where d: "read_and_handle_prompts [] None t None s = (s\<lparr>ws_detector := d\<rparr>, Inr (None, 0))"
    using read_without_prompts by blast
  show ?case
  proof (cases "tk_now t < deadline")
    case True
    then have "\<exists>r. close_loop env deadline ts p1 s1 = Some r" for p1 s1 using Cons by auto
    then show ?thesis by (cases "after_close_read env t p (s\<lparr>ws_detector := d\<rparr>)") (simp_all add: d)
  qed simp
qed simp

lemma interactive_close_returns:
  "\<exists>t \<in> set (ie_ticks env). ie_started env + timeout \<le> tk_now t \<Longrightarrow> \<exists>s' r. interactive_close env timeout s = Some (s', r)"
  using close_loop_returns by (fastforce simp: interactive_close_def split: prod.split sum.split)

definition demo_interactive_env :: interactive_env where
  "demo_interactive_env =
     \<lparr>ie_now = 1, ie_write = None, ie_second_write = None, ie_resize = None, ie_running = True,
      ie_buffer = \<lparr>rb_max_bytes = 4096, rb_data = [], rb_start = 0, rb_closed = False\<rparr>, ie_tick = demo_tick 1 [],
      ie_token = ''abcdef0123456789'', ie_started = 1, ie_ticks = [demo_tick 2 ''x'', demo_tick 7 []]\<rparr>"

definition demo_interactive_session :: ssh_session where
  "demo_interactive_session = demo_ready_session\<lparr>ws_machine :=
     \<lparr>sm_state = INTERACTIVE, sm_generation = 3, sm_changed_at = 0, sm_auth_return_state = None\<rparr>\<rparr>"

theorem interactive_close_verified_witness:
  "\<exists>s' r. interactive_close demo_interactive_env 5 demo_interactive_session = Some (s', r) \<and>
    session_state_of s' \<in> {READY, LOST, INTERACTIVE}"
proof -
  obtain s' r where c: "interactive_close demo_interactive_env 5 demo_interactive_session = Some (s', r)"
    using interactive_close_returns [of demo_interactive_env 5 demo_interactive_session]
    by (auto simp: demo_interactive_env_def demo_tick_def)
  have "session_state_of demo_interactive_session = INTERACTIVE" by (simp add: demo_interactive_session_def)
  from interactive_close_verified [OF c this] c show ?thesis by blast
qed

end
