(* ===== verification/Auth_Model.thy ===== *)
theory Auth_Model
  imports Ipc_Messages Ssh_Prompts
begin

text \<open>
  \<^verbatim>\<open>auth/model.py\<close> and \<^verbatim>\<open>auth/wire.py\<close>: what the worker asks the authentication window, the payload in
  which the question travels, and the frame in which the answer comes back. The wiping of secrets in
  memory has no counterpart in the model.
\<close>

definition WORKER_PROTOCOL_VERSION :: int where
  "WORKER_PROTOCOL_VERSION = 3"

definition auth_code :: "pystr \<Rightarrow> pystr \<Rightarrow> exn" where
  "auth_code which message = AuthenticationError (''authentication_'' @ which) message"

abbreviation AuthenticationProtocolError :: "pystr \<Rightarrow> exn" where
  "AuthenticationProtocolError m \<equiv> auth_code ''protocol_invalid'' m"

abbreviation AuthenticationTimedOut :: "pystr \<Rightarrow> exn" where
  "AuthenticationTimedOut m \<equiv> auth_code ''timeout'' m"

abbreviation AuthenticationCancelled :: "pystr \<Rightarrow> exn" where
  "AuthenticationCancelled m \<equiv> auth_code ''cancelled'' m"

abbreviation AuthenticationRejected :: "pystr \<Rightarrow> exn" where
  "AuthenticationRejected m \<equiv> auth_code ''rejected'' m"

abbreviation AuthenticationReplayError :: "pystr \<Rightarrow> exn" where
  "AuthenticationReplayError m \<equiv> auth_code ''request_reused'' m"

section \<open>The question\<close>

definition AUTH_REQUEST_ID :: "pystr \<Rightarrow> bool" where
  "AUTH_REQUEST_ID s = (starts_with ''auth_'' s \<and> length s = 37 \<and> list_all is_hex (drop 5 s))"

definition AUTH_PROMPT_FIELDS :: "pystr list" where
  "AUTH_PROMPT_FIELDS =
     [''request_id'', ''profile_name'', ''display_name'', ''host'', ''port'', ''user'', ''prompt_kind'', ''prompt'',
      ''expires_at'', ''worker_protocol_version'']"

definition auth_validate_text :: "pystr \<Rightarrow> pystr \<Rightarrow> nat \<Rightarrow> unit res" where
  "auth_validate_text v field_name maximum =
     guardE (\<not> (v = [] \<or> v \<noteq> py_strip v \<or> maximum < py_len v \<or> list_ex (\<lambda>c. ord c < 32 \<or> ord c = 127) v))
       (ValueError (field_name @ '' has an invalid value''))"

definition validate_prompt_text :: "pystr \<Rightarrow> unit res" where
  "validate_prompt_text v =
     guardE (\<not> (v = [] \<or> v \<noteq> py_strip v \<or> 2048 < py_len v \<or> list_ex (\<lambda>c. ord c < 32 \<and> c \<noteq> LF \<or> ord c = 127) v))
       (ValueError ''prompt has an invalid value'')"

record auth_target =
  at_profile_name :: pystr
  at_display_name :: pystr
  at_host :: pystr
  at_port :: int
  at_user :: pystr

definition new_auth_target :: "pystr \<Rightarrow> pystr \<Rightarrow> pystr \<Rightarrow> int \<Rightarrow> pystr \<Rightarrow> auth_target res" where
  "new_auth_target profile_name display host_name port_number user_name =
     bindE (auth_validate_text profile_name ''profile_name'' 64) (\<lambda>_.
     bindE (auth_validate_text display ''display_name'' 255) (\<lambda>_.
     bindE (auth_validate_text host_name ''host'' 255) (\<lambda>_.
     bindE (auth_validate_text user_name ''user'' 64) (\<lambda>_.
     bindE (guardE (1 \<le> port_number \<and> port_number \<le> 65535) (ValueError ''port must be an integer from 1 through 65535'')) (\<lambda>_.
     Inr \<lparr>at_profile_name = profile_name, at_display_name = display, at_host = host_name, at_port = port_number,
       at_user = user_name\<rparr>)))))"

record auth_prompt =
  ap_request_id :: pystr
  ap_target :: auth_target
  ap_kind :: prompt_kind
  ap_prompt :: pystr
  ap_expires_at :: rat

definition new_auth_prompt :: "pystr \<Rightarrow> auth_target \<Rightarrow> prompt_kind \<Rightarrow> pystr \<Rightarrow> rat \<Rightarrow> auth_prompt res" where
  "new_auth_prompt request_id target kind prompt expires_at =
     bindE (guardE (AUTH_REQUEST_ID request_id) (ValueError ''authentication request ID has an invalid format'')) (\<lambda>_.
     bindE (validate_prompt_text prompt) (\<lambda>_.
     Inr \<lparr>ap_request_id = request_id, ap_target = target, ap_kind = kind, ap_prompt = prompt, ap_expires_at = expires_at\<rparr>))"

definition prompt_from_event :: "pystr \<Rightarrow> auth_target \<Rightarrow> prompt_event \<Rightarrow> rat \<Rightarrow> auth_prompt res" where
  "prompt_from_event request_id target event expires_at =
     new_auth_prompt request_id target (pe_kind event) (pe_prompt event) expires_at"

definition prompt_kind_of :: "pystr \<Rightarrow> prompt_kind res" where
  "prompt_kind_of v =
     (case find (\<lambda>k. kind_value k = v) [HOST_KEY, PASSWORD, KEY_PASSPHRASE, SUDO_PASSWORD] of
        Some k \<Rightarrow> Inr k
      | None \<Rightarrow> Inl (ValueError (py_repr v @ '' is not a valid PromptKind'')))"

definition json_text :: "json \<Rightarrow> pystr option" where
  "json_text v = (case v of JStr s \<Rightarrow> Some s | _ \<Rightarrow> None)"

fun expiry_of :: "json \<Rightarrow> rat res" where
  "expiry_of (JInt i) = float_of_int i"
| "expiry_of (JFloat f) = Inr f"
| "expiry_of _ = Inl (ValueError ''authentication prompt expiry is invalid'')"

fun is_number :: "json \<Rightarrow> bool" where
  "is_number (JInt _) = True"
| "is_number (JFloat _) = True"
| "is_number _ = False"

definition prompt_from_payload :: "payload \<Rightarrow> auth_prompt res" where
  "prompt_from_payload pl =
     (if set (keys pl) \<noteq> set AUTH_PROMPT_FIELDS then Inl (ValueError ''authentication prompt fields are invalid'')
      else case map (\<lambda>k. json_text (pget pl k))
          [''request_id'', ''profile_name'', ''display_name'', ''host'', ''user'', ''prompt_kind'', ''prompt''] of
        [Some request_id, Some profile_name, Some display, Some host_name, Some user_name, Some kind, Some prompt] \<Rightarrow>
          (case pget pl ''port'' of
             JInt port_number \<Rightarrow>
               if \<not> is_number (pget pl ''expires_at'') then Inl (ValueError ''authentication prompt expiry is invalid'')
               else if \<not> equals_int (pget pl ''worker_protocol_version'') WORKER_PROTOCOL_VERSION
               then Inl (ValueError ''authentication worker protocol version is incompatible'')
               else
                 bindE (new_auth_target profile_name display host_name port_number user_name) (\<lambda>target.
                 bindE (prompt_kind_of kind) (\<lambda>k.
                 bindE (expiry_of (pget pl ''expires_at'')) (\<lambda>expires_at.
                 new_auth_prompt request_id target k prompt expires_at)))
           | _ \<Rightarrow> Inl (ValueError ''authentication prompt port is invalid''))
      | _ \<Rightarrow> Inl (ValueError ''authentication prompt text fields are invalid''))"

definition prompt_to_payload :: "auth_prompt \<Rightarrow> payload" where
  "prompt_to_payload p =
     [(''request_id'', JStr (ap_request_id p)), (''profile_name'', JStr (at_profile_name (ap_target p))),
      (''display_name'', JStr (at_display_name (ap_target p))), (''host'', JStr (at_host (ap_target p))),
      (''port'', JInt (at_port (ap_target p))), (''user'', JStr (at_user (ap_target p))),
      (''prompt_kind'', JStr (kind_value (ap_kind p))), (''prompt'', JStr (ap_prompt p)),
      (''expires_at'', JFloat (ap_expires_at p)), (''worker_protocol_version'', JInt WORKER_PROTOCOL_VERSION)]"

section \<open>The answer\<close>

definition MAX_AUTH_RESPONSE_BYTES :: nat where
  "MAX_AUTH_RESPONSE_BYTES = 4096"

datatype auth_response_kind = SECRET | CONFIRM | REJECT | CANCEL | TIMEOUT

fun response_byte :: "auth_response_kind \<Rightarrow> char" where
  "response_byte SECRET = CHR 0x01"
| "response_byte CONFIRM = CHR 0x02"
| "response_byte REJECT = CHR 0x03"
| "response_byte CANCEL = CHR 0x04"
| "response_byte TIMEOUT = CHR 0x05"

fun response_status :: "auth_response_kind \<Rightarrow> pystr" where
  "response_status SECRET = ''submitted''"
| "response_status CONFIRM = ''confirmed''"
| "response_status REJECT = ''rejected''"
| "response_status CANCEL = ''cancelled''"
| "response_status TIMEOUT = ''timed_out''"

record auth_response =
  ar_kind :: auth_response_kind
  ar_secret :: "bytes option"

definition check_secret :: "bytes \<Rightarrow> unit res" where
  "check_secret secret =
     (if secret = [] \<or> MAX_AUTH_RESPONSE_BYTES < length secret
      then Inl (AuthenticationProtocolError ''authentication response has an invalid length'')
      else if CR \<in> set secret \<or> LF \<in> set secret
      then Inl (AuthenticationProtocolError ''authentication response contains a line ending'')
      else Inr ())"

definition secret_response_frame :: "bytes \<Rightarrow> bytes res" where
  "secret_response_frame secret = bindE (check_secret secret) (\<lambda>_. Inr (response_byte SECRET # secret))"

definition decision_response_frame :: "auth_response_kind \<Rightarrow> bytes res" where
  "decision_response_frame kind =
     (if kind = SECRET then Inl (AuthenticationProtocolError ''a secret response requires response bytes'')
      else Inr [response_byte kind])"

definition decode_auth_response :: "bytes \<Rightarrow> auth_response res" where
  "decode_auth_response frame =
     (case frame of
        [] \<Rightarrow> Inl (AuthenticationProtocolError ''authentication response is empty'')
      | b # rest \<Rightarrow>
          (case find (\<lambda>k. response_byte k = b) [SECRET, CONFIRM, REJECT, CANCEL, TIMEOUT] of
             None \<Rightarrow> Inl (AuthenticationProtocolError ''authentication response type is unknown'')
           | Some kind \<Rightarrow>
               if kind = SECRET
               then bindE (check_secret rest) (\<lambda>_. Inr \<lparr>ar_kind = SECRET, ar_secret = Some rest\<rparr>)
               else if rest \<noteq> [] then Inl (AuthenticationProtocolError ''authentication decision contains unexpected data'')
               else Inr \<lparr>ar_kind = kind, ar_secret = None\<rparr>))"

section \<open>Properties\<close>

lemma prompt_kind_of_value [simp]: "prompt_kind_of (kind_value k) = Inr k"
  by (cases k) (simp_all add: prompt_kind_of_def)

text \<open>
  The question shown in the authentication window is the one that the worker asks. The payload of
  an accepted prompt for an accepted target is accepted by the window's side and gives back the same
  request id, target, kind of prompt, text and expiry.
\<close>

theorem auth_prompt_roundtrip:
  assumes "new_auth_target name display h p u = Inr target" and "new_auth_prompt request_id target kind prompt expires_at = Inr a"
  shows "prompt_from_payload (prompt_to_payload a) = Inr a"
proof -
  have t: "target = \<lparr>at_profile_name = name, at_display_name = display, at_host = h, at_port = p, at_user = u\<rparr>"
    using assms(1) by (auto simp: new_auth_target_def bindE_eq_Inr)
  have a: "a = \<lparr>ap_request_id = request_id, ap_target = target, ap_kind = kind, ap_prompt = prompt, ap_expires_at = expires_at\<rparr>"
    using assms(2) by (auto simp: new_auth_prompt_def bindE_eq_Inr)
  have "set (keys (prompt_to_payload a)) = set AUTH_PROMPT_FIELDS"
    by (simp add: prompt_to_payload_def keys_def AUTH_PROMPT_FIELDS_def)
  then show ?thesis
    using assms a t by (simp add: prompt_from_payload_def prompt_to_payload_def pget_def json_text_def)
qed

definition demo_auth_target :: auth_target where
  "demo_auth_target = \<lparr>at_profile_name = ''web'', at_display_name = ''Web'', at_host = ''h'', at_port = 22, at_user = ''u''\<rparr>"

theorem auth_prompt_roundtrip_witness:
  "\<exists>a. new_auth_prompt (''auth_'' @ replicate 32 CHR ''0'') demo_auth_target PASSWORD ''password:'' 10 = Inr a \<and>
    prompt_from_payload (prompt_to_payload a) = Inr a"
proof -
  have target: "new_auth_target ''web'' ''Web'' ''h'' 22 ''u'' = Inr demo_auth_target"
    by (simp add: new_auth_target_def auth_validate_text_def demo_auth_target_def py_strip_def py_chars_ascii ascii_def is_space_def)
  have "AUTH_REQUEST_ID (''auth_'' @ replicate 32 CHR ''0'')"
    by (simp add: AUTH_REQUEST_ID_def starts_with_def list_all_iff is_hex_def is_digit_def)
  then obtain a where a: "new_auth_prompt (''auth_'' @ replicate 32 CHR ''0'') demo_auth_target PASSWORD ''password:'' 10 = Inr a"
    by (simp add: new_auth_prompt_def validate_prompt_text_def py_strip_def py_chars_ascii ascii_def is_space_def)
  with auth_prompt_roundtrip [OF target a] show ?thesis by blast
qed

lemma decode_secret_frame: "secret_response_frame secret = Inr frame \<Longrightarrow>
    decode_auth_response frame = Inr \<lparr>ar_kind = SECRET, ar_secret = Some secret\<rparr>"
  by (auto simp: secret_response_frame_def decode_auth_response_def bindE_eq_Inr)

lemma decode_decision_frame: "decision_response_frame kind = Inr frame \<Longrightarrow>
    decode_auth_response frame = Inr \<lparr>ar_kind = kind, ar_secret = None\<rparr>"
  by (cases kind) (auto simp: decision_response_frame_def decode_auth_response_def)

lemma decoded_secret_ok:
  "decode_auth_response frame = Inr r \<Longrightarrow> ar_secret r = Some secret \<Longrightarrow>
    ar_kind r = SECRET \<and> frame = response_byte SECRET # secret \<and> check_secret secret = Inr ()"
  by (auto simp: decode_auth_response_def bindE_eq_Inr split: list.splits option.splits if_splits)

end
