(* ===== verification/Auth_Flow.thy ===== *)
theory Auth_Flow
  imports Auth_Model Elevation Worker_Session
begin

text \<open>
  The processes through which an answer travels: the authentication window's client (\<^verbatim>\<open>auth/client.py\<close>), the
  worker's one-time challenge server (\<^verbatim>\<open>auth/server.py\<close>) and coordinator (\<^verbatim>\<open>worker/visible_auth.py\<close>), the
  relay that OpenSSH's askpass program talks to (\<^verbatim>\<open>worker/askpass.py\<close>), and that program
  (\<^verbatim>\<open>auth/askpass.py\<close>). Pipes, handshakes, processes and the clock are arguments: what each operation on them
  returned. The wiping of secrets in memory has no counterpart.
\<close>

section \<open>The challenge server\<close>

record challenge_server =
  cs_prompt :: auth_prompt
  cs_collect_started :: bool
  cs_authenticated :: bool
  cs_sent :: "envelope list"

text \<open>The request id and token are random; the time is that of the wall clock.\<close>

definition new_challenge_server :: "pystr \<Rightarrow> rat \<Rightarrow> auth_target \<Rightarrow> prompt_event \<Rightarrow> rat \<Rightarrow> challenge_server res" where
  "new_challenge_server request_hex time target event timeout =
     (if \<not> (ONE_TENTH \<le> timeout \<and> timeout \<le> 300)
      then Inl (ValueError ''authentication timeout must be from 0.1 through 300 seconds'')
      else bindE (prompt_from_event (''auth_'' @ request_hex) target event (time + timeout)) (\<lambda>p.
        Inr \<lparr>cs_prompt = p, cs_collect_started = False, cs_authenticated = False, cs_sent = []\<rparr>))"

text \<open>How waiting for a connection ends, and what then happens on it.\<close>

datatype accept_outcome = AcceptTimeout | AcceptFailed | Accepted

record attempt =
  tr_now :: rat
  tr_accept :: accept_outcome
  tr_cancelled :: bool
  tr_handshake :: "unit res"
  tr_challenge_id :: pystr
  tr_challenge_sent :: "unit res"
  tr_frame :: "bytes res"
  tr_ack_id :: pystr
  tr_ack_sent :: "unit res"
  tr_cancelled_later :: bool

definition is_ipc_timeout :: "exn \<Rightarrow> bool" where
  "is_ipc_timeout e = (case e of IpcTimeout _ \<Rightarrow> True | _ \<Rightarrow> False)"

definition receive_response :: "attempt \<Rightarrow> challenge_server \<Rightarrow> challenge_server \<times> auth_response res" where
  "receive_response t c =
     (case bindE (create (tr_challenge_id t) ''auth.challenge'' (prompt_to_payload (cs_prompt c)) None) (\<lambda>m.
           bindE (tr_challenge_sent t) (\<lambda>_. Inr m)) of
        Inl e \<Rightarrow> (c, Inl e)
      | Inr challenge \<Rightarrow>
          let c1 = c\<lparr>cs_sent := cs_sent c @ [challenge]\<rparr> in
          (case tr_frame t of
             Inl e \<Rightarrow>
               (c1, Inl (if is_ipc_timeout e then AuthenticationTimedOut ''authentication window timed out''
                  else if is_ipc_error e
                  then AuthenticationProtocolError ''authentication window disconnected without a response'' else e))
           | Inr frame \<Rightarrow>
               (case decode_auth_response frame of
                  Inl e \<Rightarrow> (c1, Inl e)
                | Inr response \<Rightarrow>
                    (case bindE (create (tr_ack_id t) ''auth.response.ack'' [(''status'', JStr (response_status (ar_kind response)))] None)
                        (\<lambda>m. bindE (tr_ack_sent t) (\<lambda>_. Inr m)) of
                       Inl e \<Rightarrow> (c1, Inl e)
                     | Inr ack \<Rightarrow> (c1\<lparr>cs_sent := cs_sent c1 @ [ack]\<rparr>, Inr response)))))"

text \<open>One accepted connection: its outcome, or none when the loop goes on.\<close>

definition serve_connection :: "attempt \<Rightarrow> challenge_server \<Rightarrow> challenge_server \<times> auth_response res option" where
  "serve_connection t c =
     (case (case tr_handshake t of
          Inl e \<Rightarrow> (c, Inl e)
        | Inr _ \<Rightarrow>
            if cs_authenticated c
            then (c, Inl (AuthenticationReplayError ''authentication request was already authenticated''))
            else receive_response t (c\<lparr>cs_authenticated := True\<rparr>)) of
        (c1, Inr response) \<Rightarrow> (c1, Some (Inr response))
      | (c1, Inl e) \<Rightarrow>
          if is_ipc_timeout e then (c1, Some (Inl (AuthenticationTimedOut ''authentication window timed out'')))
          else if is_ipc_error e
          then (if tr_cancelled_later t
                then (c1, Some (Inl (AuthenticationCancelled ''authentication request was cancelled'')))
                else (c1, None))
          else (c1, Some (Inl e)))"

fun collect_loop :: "rat \<Rightarrow> attempt list \<Rightarrow> challenge_server \<Rightarrow> (challenge_server \<times> auth_response res) option" where
  "collect_loop deadline [] c = None"
| "collect_loop deadline (t # ts) c =
     (if \<not> tr_now t < deadline then Some (c, Inl (AuthenticationTimedOut ''authentication window timed out''))
      else case tr_accept t of
        Accepted \<Rightarrow>
          if tr_cancelled t then Some (c, Inl (AuthenticationCancelled ''authentication request was cancelled''))
          else (case serve_connection t c of
              (c1, Some r) \<Rightarrow> Some (c1, r)
            | (c1, None) \<Rightarrow> collect_loop deadline ts c1)
      | failure \<Rightarrow>
          Some (c, Inl (if tr_cancelled t then AuthenticationCancelled ''authentication request was cancelled''
            else if failure = AcceptTimeout then AuthenticationTimedOut ''authentication window timed out''
            else AuthenticationProtocolError ''authentication pipe accept failed'')))"

definition challenge_collect :: "rat \<Rightarrow> attempt list \<Rightarrow> challenge_server \<Rightarrow> (challenge_server \<times> auth_response res) option" where
  "challenge_collect deadline ts c =
     (if cs_collect_started c
      then Some (c, Inl (AuthenticationReplayError ''authentication request was already consumed''))
      else collect_loop deadline ts (c\<lparr>cs_collect_started := True\<rparr>))"

section \<open>The coordinator\<close>

text \<open>What the response gives to the sink of the prompt.\<close>

definition apply_response :: "prompt_kind \<Rightarrow> auth_response \<Rightarrow> bytes res" where
  "apply_response kind response =
     (if ar_kind response = CANCEL then Inl (AuthenticationCancelled ''authentication was cancelled in the local window'')
      else if ar_kind response = TIMEOUT then Inl (AuthenticationTimedOut ''authentication window timed out'')
      else if kind = HOST_KEY
      then (if ar_kind response = REJECT then Inl (AuthenticationRejected ''the host key was rejected in the local window'')
            else if ar_kind response \<noteq> CONFIRM
            then Inl (AuthenticationProtocolError ''host-key prompt requires a local decision'')
            else Inr ''yes'')
      else case (ar_kind response, ar_secret response) of
        (SECRET, Some secret) \<Rightarrow> Inr secret
      | _ \<Rightarrow> Inl (AuthenticationProtocolError ''credential prompt requires local protected input''))"

record coordinator =
  co_active :: "pystr option"
  co_cancel_requested :: bool

text \<open>
  What the response does: the launch of the window, a cancellation that arrived while it was launched, the
  outcome of collecting, and how waiting for the process ends. \<open>None\<close> where collecting does not end.
\<close>

record respond_env =
  re_request_hex :: pystr
  re_time :: rat
  re_launch :: "exn option"
  re_deadline :: rat
  re_attempts :: "attempt list"
  re_finish :: "exn option"

definition coordinator_respond ::
  "respond_env \<Rightarrow> rat \<Rightarrow> auth_target \<Rightarrow> prompt_event \<Rightarrow> coordinator \<Rightarrow> (coordinator \<times> bytes res) option" where
  "coordinator_respond env timeout target event c =
     (case new_challenge_server (re_request_hex env) (re_time env) target event timeout of
        Inl e \<Rightarrow> Some (c, Inl e)
      | Inr challenge \<Rightarrow>
          if co_active c \<noteq> None
          then Some (c, Inl (AuthenticationProtocolError ''another authentication window is already active''))
          else let done_with = c\<lparr>co_active := None, co_cancel_requested := False\<rparr> in
            (case re_launch env of
               Some e \<Rightarrow> Some (done_with, Inl e)
             | None \<Rightarrow>
                 map_option (\<lambda>(_, r).
                   (done_with,
                    case re_finish env of Some e \<Rightarrow> Inl e | None \<Rightarrow> bindE r (apply_response (pe_kind event))))
                 (challenge_collect (re_deadline env) (re_attempts env) challenge)))"

definition cancel_active :: "coordinator \<Rightarrow> coordinator" where
  "cancel_active c = (if co_active c = None then c else c\<lparr>co_cancel_requested := True\<rparr>)"

section \<open>The window's client\<close>

record auth_client =
  ac_request_id :: pystr
  ac_connected :: bool
  ac_prompt :: "auth_prompt option"
  ac_finished :: bool

definition new_auth_client :: "pystr \<Rightarrow> auth_client" where
  "new_auth_client request_id = \<lparr>ac_request_id = request_id, ac_connected = False, ac_prompt = None, ac_finished = False\<rparr>"

text \<open>\<open>challenge\<close> is what connecting, the handshake and the first message gave.\<close>

definition auth_client_open :: "envelope res \<Rightarrow> rat \<Rightarrow> auth_client \<Rightarrow> auth_client \<times> auth_prompt res" where
  "auth_client_open challenge time c =
     (if ac_connected c \<or> ac_finished c
      then (c, Inl (AuthenticationProtocolError ''authentication client is already used''))
      else case challenge of
        Inl e \<Rightarrow> (c, Inl (if is_ipc_error e then AuthenticationProtocolError ''authentication connection failed'' else e))
      | Inr m \<Rightarrow>
          if env_message_type m \<noteq> ''auth.challenge''
          then (c, Inl (AuthenticationProtocolError ''authentication challenge type is invalid''))
          else (case prompt_from_payload (env_payload m) of
              Inl e \<Rightarrow>
                (c, Inl (if is_value_error e \<or> (\<exists>t. e = TypeError t)
                   then AuthenticationProtocolError ''authentication challenge is invalid'' else e))
            | Inr p \<Rightarrow>
                if ap_request_id p \<noteq> ac_request_id c
                then (c, Inl (AuthenticationProtocolError ''authentication request ID does not match''))
                else if ap_expires_at p \<le> time
                then (c, Inl (AuthenticationTimedOut ''authentication request already expired''))
                else (c\<lparr>ac_connected := True, ac_prompt := Some p\<rparr>, Inr p)))"

text \<open>\<open>reply\<close> is what the sending and the wait for the acknowledgement gave; the frame that is sent is returned.\<close>

definition auth_client_finish ::
  "bytes \<Rightarrow> pystr \<Rightarrow> envelope res \<Rightarrow> auth_client \<Rightarrow> auth_client \<times> bytes option \<times> pystr res" where
  "auth_client_finish frame expected_status reply c =
     (if ac_finished c then (c, None, Inl (AuthenticationProtocolError ''authentication response was already sent''))
      else if \<not> ac_connected c then (c, None, Inl (AuthenticationProtocolError ''authentication client is not connected''))
      else
        (c\<lparr>ac_finished := True, ac_connected := False\<rparr>, Some frame,
         case reply of
           Inl e \<Rightarrow> Inl (if is_ipc_error e then AuthenticationProtocolError ''authentication response was not acknowledged'' else e)
         | Inr ack \<Rightarrow>
             if env_message_type ack \<noteq> ''auth.response.ack''
             then Inl (AuthenticationProtocolError ''authentication acknowledgement type is invalid'')
             else if env_payload ack \<noteq> [(''status'', JStr expected_status)]
             then Inl (AuthenticationProtocolError ''authentication acknowledgement is invalid'')
             else Inr expected_status))"

definition submit_secret :: "bytes \<Rightarrow> envelope res \<Rightarrow> auth_client \<Rightarrow> auth_client \<times> bytes option \<times> pystr res" where
  "submit_secret secret reply c =
     (case secret_response_frame secret of
        Inl e \<Rightarrow> (c, None, Inl e)
      | Inr frame \<Rightarrow> auth_client_finish frame ''submitted'' reply c)"

definition submit_decision :: "auth_response_kind \<Rightarrow> envelope res \<Rightarrow> auth_client \<Rightarrow> auth_client \<times> bytes option \<times> pystr res" where
  "submit_decision kind reply c =
     (case decision_response_frame kind of
        Inl e \<Rightarrow> (c, None, Inl e)
      | Inr frame \<Rightarrow> auth_client_finish frame (response_status kind) reply c)"

section \<open>The askpass relay\<close>

definition ASKPASS_RESPONSE :: char where "ASKPASS_RESPONSE = CHR 0x01"
definition ASKPASS_REJECTED :: char where "ASKPASS_REJECTED = CHR 0x02"
definition ASKPASS_CANCELLED :: char where "ASKPASS_CANCELLED = CHR 0x03"
definition ASKPASS_TIMED_OUT :: char where "ASKPASS_TIMED_OUT = CHR 0x04"
definition ASKPASS_FAILED :: char where "ASKPASS_FAILED = CHR 0x05"

text \<open>
  What a request does to the policy, the frame that is sent for it if any, and how it ends. \<open>respond\<close> is
  what the coordinator submits to the sink, and \<open>sent\<close> whether sending fails.
\<close>

definition relay_failure :: "exn \<Rightarrow> char option" where
  "relay_failure e =
     (case e of
        AuthenticationError code _ \<Rightarrow>
          if code = ''authentication_rejected'' then Some ASKPASS_REJECTED
          else if code = ''authentication_cancelled'' then Some ASKPASS_CANCELLED
          else if code = ''authentication_timeout'' then Some ASKPASS_TIMED_OUT
          else None
      | _ \<Rightarrow> None)"

definition relay_answer :: "prompt_event \<Rightarrow> bytes option res \<Rightarrow> unit res \<Rightarrow> prompt_policy \<Rightarrow> prompt_policy \<times> bytes option \<times> unit res" where
  "relay_answer event answer sent policy =
     (case answer of
        Inl e \<Rightarrow>
          (case relay_failure e of
             Some code \<Rightarrow> (policy, Some [code], bindE sent (\<lambda>_. Inl e))
           | None \<Rightarrow> (policy, None, Inl e))
      | Inr None \<Rightarrow> (policy, None, Inl (AuthenticationProtocolError ''authentication window returned no Askpass response''))
      | Inr (Some secret) \<Rightarrow>
          (case record_answer (pe_kind event) policy of
             Inl e \<Rightarrow> (policy, None, Inl e)
           | Inr policy' \<Rightarrow> (policy', Some (ASKPASS_RESPONSE # secret), sent)))"

definition relay_request ::
  "envelope res \<Rightarrow> (prompt_event \<Rightarrow> bytes option res) \<Rightarrow> unit res \<Rightarrow> prompt_policy \<Rightarrow> prompt_policy \<times> bytes option \<times> unit res" where
  "relay_request request respond sent policy =
     (case request of
        Inl e \<Rightarrow> (policy, None, Inl e)
      | Inr m \<Rightarrow>
          if env_message_type m \<noteq> ''askpass.prompt'' \<or> set (keys (env_payload m)) \<noteq> {''prompt''}
          then (policy, None, Inl (AuthenticationProtocolError ''Askpass request fields are invalid''))
          else case pget (env_payload m) ''prompt'' of
            JStr prompt \<Rightarrow>
              (case bindE (classify_askpass_prompt prompt) (\<lambda>event. bindE (authorize event policy) (\<lambda>_. Inr event)) of
                 Inl (PromptPolicyError message) \<Rightarrow>
                   (policy, Some [ASKPASS_FAILED], bindE sent (\<lambda>_. Inl (AuthenticationProtocolError message)))
               | Inl e \<Rightarrow> (policy, None, Inl e)
               | Inr event \<Rightarrow> relay_answer event (respond event) sent policy)
          | _ \<Rightarrow> (policy, None, Inl (AuthenticationProtocolError ''Askpass prompt is not text'')))"

record askpass_relay =
  ay_policy :: prompt_policy
  ay_failure :: "exn option"
  ay_stop :: bool
  ay_frames :: "bytes list"

definition new_askpass_relay :: "prompt_policy \<Rightarrow> askpass_relay" where
  "new_askpass_relay policy = \<lparr>ay_policy = policy, ay_failure = None, ay_stop = False, ay_frames = []\<rparr>"

definition set_failure :: "exn \<Rightarrow> askpass_relay \<Rightarrow> askpass_relay" where
  "set_failure e r =
     r\<lparr>ay_failure := (case ay_failure r of None \<Rightarrow> Some e | Some f \<Rightarrow> Some f), ay_stop := True\<rparr>"

definition relay_check :: "askpass_relay \<Rightarrow> unit res" where
  "relay_check r = (case ay_failure r of None \<Rightarrow> Inr () | Some e \<Rightarrow> Inl e)"

record relay_turn =
  rt_now :: rat
  rt_accept :: "unit res"
  rt_stopped :: bool
  rt_handshake :: "unit res"
  rt_request :: "envelope res"
  rt_respond :: "prompt_event \<Rightarrow> bytes option res"
  rt_sent :: "unit res"

text \<open>The serving thread, until it is stopped, also by \<^verbatim>\<open>close\<close> while it accepts, fails or passes its deadline.\<close>

fun relay_serve :: "rat \<Rightarrow> relay_turn list \<Rightarrow> askpass_relay \<Rightarrow> askpass_relay" where
  "relay_serve deadline [] r = r"
| "relay_serve deadline (t # ts) r =
     (if ay_stop r \<or> \<not> rt_now t < deadline then r
      else case rt_accept t of
        Inl _ \<Rightarrow>
          if rt_stopped t then r else set_failure (AuthenticationProtocolError ''Askpass relay accept failed'') r
      | Inr _ \<Rightarrow>
          if rt_stopped t then r
          else (case rt_handshake t of
             Inl e \<Rightarrow> if is_ipc_error e then relay_serve deadline ts r else r
           | Inr _ \<Rightarrow>
               (case relay_request (rt_request t) (rt_respond t) (rt_sent t) (ay_policy r) of
                  (policy, frame, result) \<Rightarrow>
                    let r1 = r\<lparr>ay_policy := policy,
                              ay_frames := ay_frames r @ (case frame of None \<Rightarrow> [] | Some f \<Rightarrow> [f])\<rparr>
                    in case result of Inl e \<Rightarrow> set_failure e r1 | Inr _ \<Rightarrow> relay_serve deadline ts r1)))"

section \<open>The askpass program\<close>

text \<open>What it prints and its exit status; \<open>reply\<close> is what the connection to the relay gave.\<close>

definition run_askpass :: "pystr list \<Rightarrow> pystr \<Rightarrow> pystr \<Rightarrow> bytes res \<Rightarrow> bytes \<times> int" where
  "run_askpass arguments pipe token reply =
     (case arguments of
        [prompt] \<Rightarrow>
          if pipe = [] \<or> token = [] \<or> prompt = [] \<or> NUL \<in> set prompt \<or> 2048 < py_len prompt then ([], 3)
          else (case reply of
              Inl _ \<Rightarrow> ([], 3)
            | Inr response \<Rightarrow>
                if response = [] \<or> hd response \<noteq> ASKPASS_RESPONSE then ([], 2)
                else let secret = tl response in
                  if secret = [] \<or> Auth_Model.MAX_AUTH_RESPONSE_BYTES < length secret \<or> CR \<in> set secret \<or> LF \<in> set secret
                  then ([], 3) else (secret @ [LF], 0))
      | _ \<Rightarrow> ([], 3))"

section \<open>Where an answer comes from\<close>

lemma receive_response_frame:
  "receive_response t c = (c', Inr response) \<Longrightarrow> \<exists>frame. tr_frame t = Inr frame \<and> decode_auth_response frame = Inr response"
  by (auto simp: receive_response_def Let_def split: sum.splits)

text \<open>A response of a connection: the handshake succeeded and the frame that was received says it.\<close>

definition answered_by :: "attempt \<Rightarrow> auth_response \<Rightarrow> bool" where
  "answered_by t response =
     (tr_accept t = Accepted \<and> tr_handshake t = Inr () \<and>
      (\<exists>frame. tr_frame t = Inr frame \<and> decode_auth_response frame = Inr response))"

lemma serve_connection_answered:
  assumes "serve_connection t c = (c', Some (Inr response))" and "tr_accept t = Accepted"
  shows "answered_by t response"
proof (cases "tr_handshake t")
  case (Inl e)
  then show ?thesis using assms(1) by (auto simp: serve_connection_def split: if_splits)
next
  case (Inr u)
  obtain c1 x where r: "receive_response t (c\<lparr>cs_authenticated := True\<rparr>) = (c1, x)" by fastforce
  show ?thesis
  proof (cases "cs_authenticated c")
    case True
    then show ?thesis using assms(1) Inr by (auto simp: serve_connection_def split: if_splits)
  next
    case False
    then have "x = Inr response" using assms(1) Inr r by (cases x) (auto simp: serve_connection_def split: if_splits)
    with receive_response_frame r assms(2) Inr show ?thesis by (auto simp: answered_by_def)
  qed
qed

lemma collect_loop_answered:
  assumes "collect_loop deadline ts c = Some (c', Inr response)"
  shows "\<exists>t \<in> set ts. answered_by t response"
  using assms
proof (induction ts arbitrary: c)
  case (Cons t ts)
  show ?case
  proof (cases "tr_accept t = Accepted \<and> tr_now t < deadline \<and> \<not> tr_cancelled t")
    case True
    obtain c1 x where s: "serve_connection t c = (c1, x)" by fastforce
    show ?thesis
    proof (cases x)
      case None
      then show ?thesis using Cons True s by auto
    next
      case (Some r)
      then have "serve_connection t c = (c1, Some (Inr response))" using Cons.prems True s by auto
      with serve_connection_answered True show ?thesis by auto
    qed
  next
    case False
    then show ?thesis using Cons.prems by (auto split: if_splits accept_outcome.splits)
  qed
qed simp

lemma apply_response_data:
  assumes "apply_response kind response = Inr data" and "decode_auth_response frame = Inr response"
  shows "if kind = HOST_KEY then decision_response_frame CONFIRM = Inr frame \<and> data = ''yes''
    else secret_response_frame data = Inr frame"
proof (cases "kind = HOST_KEY")
  case True
  then have "ar_kind response = CONFIRM" "data = ''yes''"
    using assms(1) by (auto simp: apply_response_def split: if_splits)
  then show ?thesis using True assms(2)
    by (auto simp: decode_auth_response_def decision_response_frame_def bindE_eq_Inr split: list.splits option.splits if_splits)
next
  case False
  then have "ar_secret response = Some data"
    using assms(1) by (auto simp: apply_response_def split: if_splits option.splits auth_response_kind.splits)
  from decoded_secret_ok [OF assms(2) this] False show ?thesis by (simp add: secret_response_frame_def)
qed

lemma answer_line_ok:
  assumes "if kind = HOST_KEY then f \<and> data = ''yes'' else secret_response_frame data = Inr frame"
  shows "data \<noteq> [] \<and> length data \<le> 4096 \<and> CR \<notin> set data \<and> LF \<notin> set data"
  using assms
  by (auto simp: secret_response_frame_def check_secret_def bindE_eq_Inr Auth_Model.MAX_AUTH_RESPONSE_BYTES_def split: if_splits)


definition demo_attempt :: attempt where
  "demo_attempt =
     \<lparr>tr_now = 1, tr_accept = Accepted, tr_cancelled = False, tr_handshake = Inr (), tr_challenge_id = replicate 32 CHR ''0'',
      tr_challenge_sent = Inr (), tr_frame = Inr (CHR 0x01 # ''pw''), tr_ack_id = replicate 32 CHR ''1'', tr_ack_sent = Inr (),
      tr_cancelled_later = False\<rparr>"

definition demo_respond_env :: respond_env where
  "demo_respond_env =
     \<lparr>re_request_hex = replicate 32 CHR ''0'', re_time = 0, re_launch = None, re_deadline = 120,
      re_attempts = [demo_attempt], re_finish = None\<rparr>"

definition demo_password_event :: prompt_event where
  "demo_password_event = \<lparr>pe_kind = PASSWORD, pe_prompt = ''password:''\<rparr>"

lemma create_accepted: "MESSAGE_ID (''msg_'' @ f) \<Longrightarrow> MESSAGE_TYPE mt \<Longrightarrow> \<exists>m. create f mt pl None = Inr m"
  by (simp add: create_def new_envelope_def match_text_def)

lemma demo_message_types: "MESSAGE_TYPE ''auth.challenge''" "MESSAGE_TYPE ''auth.response.ack''"
  by (simp_all add: MESSAGE_TYPE_def is_lower_def)

lemma demo_message_ids: "c = CHR ''0'' \<or> c = CHR ''1'' \<Longrightarrow> MESSAGE_ID (''msg_'' @ replicate 32 c)"
  by (auto simp: MESSAGE_ID_def list_all_iff is_alnum_def is_lower_def is_digit_def)

lemma demo_challenge:
  "\<exists>ch. new_challenge_server (replicate 32 CHR ''0'') 0 demo_auth_target demo_password_event 120 = Inr ch \<and>
    \<not> cs_authenticated ch \<and> \<not> cs_collect_started ch"
proof -
  have "AUTH_REQUEST_ID (''auth_'' @ replicate 32 CHR ''0'')"
    by (simp add: AUTH_REQUEST_ID_def starts_with_def list_all_iff is_hex_def is_digit_def)
  moreover have "validate_prompt_text ''password:'' = Inr ()"
    by (simp add: validate_prompt_text_def py_strip_def py_chars_ascii ascii_def is_space_def)
  ultimately show ?thesis
    by (simp add: new_challenge_server_def prompt_from_event_def new_auth_prompt_def ONE_TENTH_def demo_password_event_def)
qed

lemma demo_collected:
  assumes "\<not> cs_authenticated ch" and "\<not> cs_collect_started ch"
  shows "\<exists>c1. challenge_collect 120 [demo_attempt] ch = Some (c1, Inr \<lparr>ar_kind = SECRET, ar_secret = Some ''pw''\<rparr>)"
proof -
  have d: "decode_auth_response (CHR 0x01 # ''pw'') = Inr \<lparr>ar_kind = SECRET, ar_secret = Some ''pw''\<rparr>"
    by (simp add: decode_auth_response_def check_secret_def Auth_Model.MAX_AUTH_RESPONSE_BYTES_def)
  obtain m1 where m1: "create (replicate 32 CHR ''0'') ''auth.challenge'' (prompt_to_payload (cs_prompt ch)) None = Inr m1"
    using create_accepted [OF demo_message_ids demo_message_types(1)] by blast
  obtain m2 where m2: "create (replicate 32 CHR ''1'') ''auth.response.ack'' [(''status'', JStr ''submitted'')] None = Inr m2"
    using create_accepted [OF demo_message_ids demo_message_types(2)] by blast
  define c0 where "c0 = ch\<lparr>cs_collect_started := True\<rparr>"
  have c0: "\<not> cs_authenticated c0" "cs_prompt c0 = cs_prompt ch" using assms by (simp_all add: c0_def)
  have "\<exists>c1. serve_connection demo_attempt c0 = (c1, Some (Inr \<lparr>ar_kind = SECRET, ar_secret = Some ''pw''\<rparr>))"
    by (simp add: serve_connection_def receive_response_def demo_attempt_def c0 d m1 m2 Let_def)
  moreover have "tr_now demo_attempt = 1" "tr_accept demo_attempt = Accepted" "\<not> tr_cancelled demo_attempt"
    by (simp_all add: demo_attempt_def)
  ultimately show ?thesis using assms(2) by (auto simp: challenge_collect_def c0_def)
qed

lemma demo_respond:
  "\<exists>c'. coordinator_respond demo_respond_env 120 demo_auth_target demo_password_event
      \<lparr>co_active = None, co_cancel_requested = False\<rparr> = Some (c', Inr ''pw'')"
proof -
  obtain ch where ch: "new_challenge_server (replicate 32 CHR ''0'') 0 demo_auth_target demo_password_event 120 = Inr ch"
    and fresh: "\<not> cs_authenticated ch" "\<not> cs_collect_started ch"
    using demo_challenge by blast
  have "pe_kind demo_password_event = PASSWORD" by (simp add: demo_password_event_def)
  then show ?thesis
    using demo_collected [OF fresh] by (auto simp: coordinator_respond_def demo_respond_env_def ch Let_def apply_response_def)
qed


section \<open>How much the relay answers\<close>

definition is_answer :: "bytes \<Rightarrow> bool" where
  "is_answer f = (f \<noteq> [] \<and> hd f = ASKPASS_RESPONSE)"

lemma relay_failure_not_answer: "relay_failure e = Some code \<Longrightarrow> \<not> is_answer [code]"
  by (cases e) (auto simp: relay_failure_def is_answer_def ASKPASS_RESPONSE_def ASKPASS_REJECTED_def ASKPASS_CANCELLED_def
      ASKPASS_TIMED_OUT_def split: if_splits)

lemma relay_answer_cases:
  assumes "relay_answer event answer sent p = (p', frame, result)"
  shows "p' = p \<and> (\<forall>f. frame = Some f \<longrightarrow> \<not> is_answer f) \<or>
    (\<exists>secret. answer = Inr (Some secret) \<and> record_answer (pe_kind event) p = Inr p' \<and> frame = Some (ASKPASS_RESPONSE # secret))"
  using assms relay_failure_not_answer
  by (auto simp: relay_answer_def split: sum.splits option.splits)

lemma relay_request_cases:
  assumes "relay_request request respond sent p = (p', frame, result)"
  shows "p' = p \<and> (\<forall>f. frame = Some f \<longrightarrow> \<not> is_answer f) \<or>
    (\<exists>event secret. authorize event p = Inr () \<and> respond event = Inr (Some secret) \<and>
      record_answer (pe_kind event) p = Inr p' \<and> frame = Some (ASKPASS_RESPONSE # secret))"
proof -
  have nf: "\<not> is_answer [ASKPASS_FAILED]" by (simp add: is_answer_def ASKPASS_RESPONSE_def ASKPASS_FAILED_def)
  consider (refused) "p' = p" "frame = None" | (failed) "p' = p" "frame = Some [ASKPASS_FAILED]"
    | (ok) event where "authorize event p = Inr ()" "relay_answer event (respond event) sent p = (p', frame, result)"
    using assms
    by (auto simp: relay_request_def bindE_eq_Inr split: sum.splits if_splits json.splits exn.splits)
  then show ?thesis
  proof cases
    case ok
    then show ?thesis using relay_answer_cases [OF ok(2)] by blast
  qed (use nf in auto)
qed

text \<open>A run of the relay answers as one run of the policy does.\<close>

lemma relay_serve_answers:
  "\<exists>events. answer_all events (ay_policy r) = Inr (ay_policy (relay_serve deadline ts r)) \<and>
    length (filter is_answer (ay_frames (relay_serve deadline ts r))) = length (filter is_answer (ay_frames r)) + length events"
proof (induction ts arbitrary: r)
  case (Cons t ts)
  have none: "\<exists>events. answer_all events (ay_policy r) = Inr (ay_policy r') \<and>
    length (filter is_answer (ay_frames r')) = length (filter is_answer (ay_frames r)) + length events"
    if "ay_policy r' = ay_policy r" "ay_frames r' = ay_frames r" for r'
    using that by (intro exI [of _ "[]"]) simp
  obtain p' frame result where q: "relay_request (rt_request t) (rt_respond t) (rt_sent t) (ay_policy r) = (p', frame, result)"
    by (metis surj_pair)
  define r1 where "r1 = r\<lparr>ay_policy := p', ay_frames := ay_frames r @ (case frame of None \<Rightarrow> [] | Some f \<Rightarrow> [f])\<rparr>"
  have one: "\<exists>es. answer_all es (ay_policy r) = Inr p' \<and>
      length (filter is_answer (ay_frames r1)) = length (filter is_answer (ay_frames r)) + length es \<and>
      (\<forall>es' p2. answer_all es' p' = Inr p2 \<longrightarrow> answer_all (es @ es') (ay_policy r) = Inr p2)"
    using relay_request_cases [OF q]
  proof (elim disjE conjE exE)
    assume "p' = ay_policy r" "\<forall>f. frame = Some f \<longrightarrow> \<not> is_answer f"
    then show ?thesis by (intro exI [of _ "[]"]) (auto simp: r1_def split: option.split)
  next
    fix event secret
    assume "authorize event (ay_policy r) = Inr ()" "record_answer (pe_kind event) (ay_policy r) = Inr p'"
      "frame = Some (ASKPASS_RESPONSE # secret)"
    then show ?thesis by (intro exI [of _ "[event]"]) (auto simp: r1_def is_answer_def)
  qed
  have fail: "ay_policy (set_failure e x) = ay_policy x" "ay_frames (set_failure e x) = ay_frames x" for e x
    by (simp_all add: set_failure_def)
  show ?case
  proof (cases "\<not> ay_stop r \<and> rt_now t < deadline \<and> \<not> rt_stopped t \<and> rt_accept t = Inr () \<and> rt_handshake t = Inr ()")
    case True
    then have s: "relay_serve deadline (t # ts) r =
        (case result of Inl e \<Rightarrow> set_failure e r1 | Inr _ \<Rightarrow> relay_serve deadline ts r1)"
      by (cases result) (simp_all add: q r1_def Let_def)
    have p1: "ay_policy r1 = p'" by (simp add: r1_def)
    show ?thesis
    proof (cases result)
      case (Inl e)
      then show ?thesis using one p1 unfolding s by (auto simp: fail)
    next
      case (Inr u)
      obtain es' where "answer_all es' p' = Inr (ay_policy (relay_serve deadline ts r1))"
        "length (filter is_answer (ay_frames (relay_serve deadline ts r1))) = length (filter is_answer (ay_frames r1)) + length es'"
        using Cons.IH [of r1] p1 by auto
      moreover obtain es where "length (filter is_answer (ay_frames r1)) = length (filter is_answer (ay_frames r)) + length es"
        "\<forall>es' p2. answer_all es' p' = Inr p2 \<longrightarrow> answer_all (es @ es') (ay_policy r) = Inr p2"
        using one by blast
      ultimately show ?thesis unfolding s Inr by (intro exI [of _ "es @ es'"]) simp
    qed
  next
    case False
    then show ?thesis using none Cons.IH [of r] by (auto simp: fail split: sum.split)
  qed
qed (simp add: exI [of _ "[]"])

text \<open>
  The relay answers OpenSSH at most twice. However OpenSSH's askpass programs ask, whatever the window
  answers and however sending fails, one run of the relay for a profile sends at most two frames that hold an
  answer, and after a failure none: the answers correspond to events that the profile's policy lets
  through, one host-key decision and then one credential of a kind that the profile permits.
\<close>

theorem relay_answers_bounded:
  "\<exists>events :: prompt_event list.
    length (filter is_answer (ay_frames (relay_serve deadline ts (new_askpass_relay (policy_from_profile profile))))) =
      length events \<and> length events \<le> 2 \<and>
    set (map pe_kind events) \<subseteq> set (connection_prompt_kinds profile) - {SUDO_PASSWORD} \<and>
    (length events = 2 \<longrightarrow> pe_kind (hd events) = HOST_KEY \<and> pe_kind (events ! 1) \<noteq> HOST_KEY) \<and>
    (\<forall>e more. relay_serve deadline more (set_failure e (new_askpass_relay (policy_from_profile profile))) =
      set_failure e (new_askpass_relay (policy_from_profile profile)))"
proof -
  define r where "r = new_askpass_relay (policy_from_profile profile)"
  have r0: "ay_policy r = policy_from_profile profile" "ay_frames r = []" by (simp_all add: r_def new_askpass_relay_def)
  obtain events p where ev: "answer_all events (policy_from_profile profile) = Inr p"
    and n: "length (filter is_answer (ay_frames (relay_serve deadline ts r))) = length events"
    using relay_serve_answers [of r deadline ts] r0 by auto
  from answer_all_shape [OF ev] have
    shape: "map pe_kind events = [] \<or> (\<exists>c. map pe_kind events = [c]) \<or> (\<exists>c. c \<noteq> HOST_KEY \<and> map pe_kind events = [HOST_KEY, c])"
    and allowed: "set (map pe_kind events) \<subseteq> set (connection_prompt_kinds profile)"
    by (auto simp: policy_from_profile_def)
  have "relay_serve deadline more (set_failure e r) = set_failure e r" for e more
    by (cases more) (simp_all add: set_failure_def)
  moreover have "SUDO_PASSWORD \<notin> set (connection_prompt_kinds profile)" by (simp add: connection_prompt_kinds_def)
  moreover have "length events \<le> 2 \<and> (length events = 2 \<longrightarrow> pe_kind (hd events) = HOST_KEY \<and> pe_kind (events ! 1) \<noteq> HOST_KEY)"
    using shape by (auto simp: map_eq_Cons_conv)
  ultimately show ?thesis using n allowed unfolding r_def by (intro exI [of _ events]) auto
qed

theorem relay_answers_bounded_witness:
  "\<exists>n. length (filter is_answer (ay_frames (relay_serve 180
      [\<lparr>rt_now = 1, rt_accept = Inr (), rt_stopped = False, rt_handshake = Inr (), rt_request = Inl (IpcClosed []),
        rt_respond = (\<lambda>_. Inr None), rt_sent = Inr ()\<rparr>] (new_askpass_relay (policy_from_profile demo_profile))))) = n \<and> n \<le> 2"
  using relay_answers_bounded [of 180
      "[\<lparr>rt_now = 1, rt_accept = Inr (), rt_stopped = False, rt_handshake = Inr (), rt_request = Inl (IpcClosed []),
        rt_respond = (\<lambda>_. Inr None), rt_sent = Inr ()\<rparr>]" demo_profile]
  by auto

end
