(* ===== verification/Worker_Service.thy ===== *)
theory Worker_Service
  imports Worker_Interactive Auth_Flow Ssh_Invocation Files_Service Broker_Channel
begin

text \<open>
  \<^verbatim>\<open>worker/service.py\<close>, \<^verbatim>\<open>worker/protocol.py\<close> and the request loop of \<^verbatim>\<open>worker/process.py\<close>: what a worker does with
  the broker's requests. How a command runs in the terminal is the function \<open>execute\<close> of the environment, which
  stands for calls of \<open>session_execute\<close> that end (theorem \<open>execute_terminates\<close> says when); the same for
  opening and for closing an interactive operation.
\<close>

definition SESSION_OPEN_TIMEOUT_SECONDS :: rat where
  "SESSION_OPEN_TIMEOUT_SECONDS = 180"

record worker_service =
  wv_profile_name :: pystr
  wv_root_session :: bool
  wv_profile :: "server_profile option"
  wv_target :: "resolved_ssh_target option"
  wv_session :: "ssh_session option"
  wv_cwd :: "pystr option"

type_synonym 'a service_op = "worker_service \<Rightarrow> worker_service \<times> 'a res"

type_synonym executor = "pystr \<Rightarrow> rat \<Rightarrow> bool \<Rightarrow> pystr option \<Rightarrow> execution_result session_op"

definition executes :: "executor \<Rightarrow> bool" where
  "executes execute =
     (\<forall>command timeout allow tok s. \<exists>env. session_execute env command timeout allow tok s = Some (execute command timeout allow tok s))"

definition new_worker_service :: "pystr \<Rightarrow> bool \<Rightarrow> worker_service" where
  "new_worker_service name root_session =
     \<lparr>wv_profile_name = name, wv_root_session = root_session, wv_profile = None, wv_target = None, wv_session = None,
      wv_cwd = None\<rparr>"

definition open_session :: "worker_service \<Rightarrow> (ssh_session \<times> server_profile) res" where
  "open_session sv =
     (case (wv_session sv, wv_profile sv) of
        (Some s, Some p) \<Rightarrow> Inr (s, p)
      | _ \<Rightarrow> Inl (SessionError ''worker session has not been opened''))"

definition service_status :: "worker_service \<Rightarrow> payload" where
  "service_status sv =
     [(''profile_name'', JStr (wv_profile_name sv)),
      (''state'', JStr (state_value (case wv_session sv of None \<Rightarrow> CREATED | Some s \<Rightarrow> session_state_of s))),
      (''cwd'', json_option (wv_cwd sv)),
      (''ssh_user'', json_option (map_option rt_user (wv_target sv))),
      (''effective_user'', json_option (map_option (\<lambda>t. if wv_root_session sv then ''root'' else rt_user t) (wv_target sv))),
      (''elevated'', JBool (wv_root_session sv)), (''root_session'', JBool (wv_root_session sv)),
      (''environment'', json_option (map_option environment (wv_profile sv)))]"

section \<open>Executing\<close>

definition execution_payload :: "execution_result \<Rightarrow> payload" where
  "execution_payload r =
     [(''status'', JStr ''completed''), (''exit_code'', JInt (er_exit_code r)), (''cwd'', JStr (er_cwd r)),
      (''output'', JStr (er_output r)), (''truncated'', JBool (er_truncated r)), (''duration_ms'', JInt (er_duration_ms r))]"

definition execute_internal :: "executor \<Rightarrow> pystr \<Rightarrow> rat option \<Rightarrow> bool \<Rightarrow> pystr option \<Rightarrow> payload service_op" where
  "execute_internal execute command timeout allow tok sv =
     (case open_session sv of
        Inl e \<Rightarrow> (sv, Inl e)
      | Inr (s, profile) \<Rightarrow>
          (case require [READY] (ws_machine s) of
             Inl e \<Rightarrow> (sv, Inl e)
           | Inr _ \<Rightarrow>
               (case execute command (case timeout of None \<Rightarrow> of_int (command_timeout_seconds profile) | Some t \<Rightarrow> t) allow tok s of
                  (s1, Inl e) \<Rightarrow> (sv\<lparr>wv_session := Some s1\<rparr>, Inl e)
                | (s1, Inr r) \<Rightarrow> (sv\<lparr>wv_session := Some s1, wv_cwd := Some (er_cwd r)\<rparr>, Inr (execution_payload r)))))"

definition service_execute :: "executor \<Rightarrow> pystr \<Rightarrow> rat option \<Rightarrow> payload service_op" where
  "service_execute execute command timeout sv =
     (case open_session sv of
        Inl e \<Rightarrow> (sv, Inl e)
      | Inr (_, profile) \<Rightarrow>
          if \<not> allow_terminal profile then (sv, Inl (SessionError ''terminal access is disabled for this profile''))
          else execute_internal execute command timeout False None sv)"

text \<open>The tokens of the operation, and the hash of the file service, are arguments.\<close>

record operation_env =
  op_execute :: executor
  op_sha256 :: "bytes \<Rightarrow> pystr"
  op_token :: pystr
  op_token2 :: pystr
  op_interactive :: interactive_env
  op_interactive_close :: "rat \<Rightarrow> interactive_status session_op"

definition service_files :: "operation_env \<Rightarrow> pystr \<Rightarrow> payload \<Rightarrow> bool \<Rightarrow> payload service_op" where
  "service_files env action pl is_edit sv =
     (if wv_root_session sv
      then (sv, Inl (RemoteFileError ''root_session_file_access_disabled'' ''structured file tools are unavailable in root sessions''))
      else case open_session sv of
        Inl e \<Rightarrow> (sv, Inl e)
      | Inr (s, profile) \<Rightarrow>
          (case require [READY] (ws_machine s) of
             Inl e \<Rightarrow> (sv, Inl e)
           | Inr _ \<Rightarrow>
               let runner = (\<lambda>command timeout. execute_internal (op_execute env) command (Some (of_int timeout)) False None) in
               if is_edit then file_edit runner (op_sha256 env) (op_token env) (op_token2 env) profile action pl sv
               else file_read runner (op_token env) profile action pl sv))"

definition service_elevation :: "operation_env \<Rightarrow> pystr \<Rightarrow> payload \<Rightarrow> payload service_op" where
  "service_elevation env action pl sv =
     (case open_session sv of
        Inl e \<Rightarrow> (sv, Inl e)
      | Inr (s, profile) \<Rightarrow>
          (case require [READY] (ws_machine s) of
             Inl e \<Rightarrow> (sv, Inl e)
           | Inr _ \<Rightarrow>
               if wv_root_session sv
               then (sv, Inl (ElevationError ''already_elevated'' ''guided sudo actions are unavailable inside a root session''))
               else case wv_target sv of
                 None \<Rightarrow> (sv, Inl (AssertionError []))
               | Some target \<Rightarrow>
                   elevation_handle (\<lambda>command timeout tok. execute_internal (op_execute env) command (Some timeout) (tok \<noteq> None) tok)
                     (op_token env) (op_token2 env) profile (rt_user target) action pl sv))"

section \<open>The interactive terminal\<close>

definition payload_text :: "payload \<Rightarrow> pystr \<Rightarrow> pystr res" where
  "payload_text pl name =
     (case map_of pl name of
        None \<Rightarrow> Inl (KeyError name)
      | Some (JStr v) \<Rightarrow> Inr v
      | Some _ \<Rightarrow> Inl (ValueError (name @ '' must be a string'')))"

definition payload_integer :: "payload \<Rightarrow> pystr \<Rightarrow> int \<Rightarrow> int option \<Rightarrow> int res" where
  "payload_integer pl name minimum maximum =
     (case map_of pl name of
        None \<Rightarrow> Inl (KeyError name)
      | Some (JInt v) \<Rightarrow>
          if v < minimum \<or> (case maximum of None \<Rightarrow> False | Some m \<Rightarrow> m < v)
          then Inl (ValueError (name @ '' is outside the supported range'')) else Inr v
      | Some _ \<Rightarrow> Inl (ValueError (name @ '' must be an integer'')))"

definition payload_number :: "payload \<Rightarrow> pystr \<Rightarrow> json \<Rightarrow> rat \<Rightarrow> rat \<Rightarrow> rat res" where
  "payload_number pl name absent minimum maximum =
     (let in_range = (\<lambda>f. if minimum \<le> f \<and> f \<le> maximum then Inr f
            else Inl (ValueError (name @ '' is outside the supported range'')))
      in case pget_default pl name absent of
           JInt i \<Rightarrow> bindE (float_of_int i) in_range
         | JFloat f \<Rightarrow> in_range f
         | _ \<Rightarrow> Inl (ValueError (name @ '' must be a number'')))"

definition terminal_status :: "interactive_status \<Rightarrow> payload" where
  "terminal_status st =
     [(''status'', JStr (if is_running st then ''running'' else ''stopped'')), (''state'', JStr (state_value (is_state st))),
      (''running'', JBool (is_running st)), (''output_cursor'', JInt (int (is_cursor st)))]"

definition on_session :: "ssh_session \<Rightarrow> 'a session_op \<Rightarrow> ('a \<Rightarrow> payload) \<Rightarrow> payload service_op" where
  "on_session s f reply sv =
     (case f s of
        (s1, Inl e) \<Rightarrow> (sv\<lparr>wv_session := Some s1\<rparr>, Inl e)
      | (s1, Inr v) \<Rightarrow> (sv\<lparr>wv_session := Some s1\<rparr>, Inr (reply v)))"

definition read_payload :: "interactive_read_result \<Rightarrow> payload" where
  "read_payload r =
     [(''status'', JStr ''running''), (''state'', JStr (state_value (ir_state r))), (''output'', JStr (ir_output r)),
      (''next_cursor'', JInt (int (ir_next_cursor r))), (''dropped_before_cursor'', JBool (ir_dropped r))]"

text \<open>The operation on the session that an action asks for.\<close>

definition terminal_action :: "operation_env \<Rightarrow> pystr \<Rightarrow> payload \<Rightarrow> payload session_op res" where
  "terminal_action env action pl =
     (let ie = op_interactive env;
          status = (\<lambda>f. bindS f (\<lambda>st. liftS (Inr (terminal_status st))))
      in if action = ''start'' then
           bindE (payload_text pl ''command'') (\<lambda>command. Inr (status (interactive_start ie command)))
         else if action = ''read'' then
           bindE (payload_integer pl ''cursor'' 0 None) (\<lambda>cursor.
           bindE (payload_number pl ''timeout'' (JInt 0) 0 60) (\<lambda>timeout.
           Inr (bindS (interactive_read ie cursor) (\<lambda>r. liftS (Inr (read_payload r))))))
         else if action = ''write'' then
           bindE (payload_text pl ''text'') (\<lambda>t. Inr (status (interactive_write ie t)))
         else if action = ''interrupt'' then Inr (status (interactive_interrupt ie))
         else if action = ''resize'' then
           bindE (payload_integer pl ''columns'' 1 (Some 32767)) (\<lambda>columns.
           bindE (payload_integer pl ''rows'' 1 (Some 32767)) (\<lambda>rows.
           Inr (status (interactive_resize ie columns rows))))
         else if action = ''status'' then Inr (status (interactive_status_of ie))
         else if action = ''close'' then
           bindE (payload_number pl ''timeout'' (JInt 5) ONE_TENTH 60) (\<lambda>timeout.
           Inr (status (op_interactive_close env timeout)))
         else Inl (ValueError (''unsupported terminal action: '' @ action)))"

definition service_terminal :: "operation_env \<Rightarrow> pystr \<Rightarrow> payload \<Rightarrow> payload service_op" where
  "service_terminal env action pl sv =
     (case open_session sv of
        Inl e \<Rightarrow> (sv, Inl e)
      | Inr (s, profile) \<Rightarrow>
          if \<not> allow_terminal profile then (sv, Inl (SessionError ''terminal access is disabled for this profile''))
          else (case terminal_action env action pl of
              Inl e \<Rightarrow> (sv, Inl e)
            | Inr f \<Rightarrow> on_session s f (\<lambda>p. p) sv))"

section \<open>Opening and closing\<close>

record close_env =
  ce_now :: rat
  ce_running :: bool
  ce_write_fails :: bool
  ce_exited :: bool

definition close_with :: "close_env \<Rightarrow> unit session_op" where
  "close_with env = session_close (ce_now env) (ce_running env) (ce_write_fails env) (ce_exited env)"

definition service_close :: "close_env \<Rightarrow> unit service_op" where
  "service_close env sv =
     (case wv_session sv of
        None \<Rightarrow> (sv, Inr ())
      | Some s \<Rightarrow> (case close_with env s of (s1, r) \<Rightarrow> (sv\<lparr>wv_session := Some s1\<rparr>, r)))"

type_synonym opener = "pystr option list \<Rightarrow> bool \<Rightarrow> pystr option \<Rightarrow> unit session_op"

definition opens :: "opener \<Rightarrow> bool" where
  "opens op =
     (\<forall>arguments allow tok s. \<exists>env. session_open env SESSION_OPEN_TIMEOUT_SECONDS allow tok s = Some (op arguments allow tok s))"

record service_env =
  se_config :: "server_ops_config res"
  se_ssh :: "pystr res"
  se_resolve :: "pystr \<Rightarrow> (int \<times> pystr) res"
  se_known_hosts :: "pystr res"
  se_now :: rat
  se_nonce :: pystr
  se_relay :: "unit res"
  se_relay_start :: "unit res"
  se_root_token :: pystr
  se_open :: opener
  se_relay_check :: "unit res"
  se_relay_close :: "unit res"
  se_execute :: executor
  se_close :: close_env

text \<open>What \<^verbatim>\<open>open\<close> needs before it may change anything: the profile, the programs, the target and the session.\<close>

record open_plan =
  pl_profile :: server_profile
  pl_target :: resolved_ssh_target
  pl_ssh :: pystr
  pl_known_hosts :: pystr
  pl_session :: ssh_session
  pl_root_token :: "pystr option"
  pl_root_prompt :: "pystr option"

definition plan_open :: "service_env \<Rightarrow> worker_service \<Rightarrow> open_plan res" where
  "plan_open env sv =
     bindE (guardE (wv_session sv = None) (SessionError ''worker session is already initialized'')) (\<lambda>_.
     bindE (se_config env) (\<lambda>config.
     bindE (someE (map_of (profiles config) (wv_profile_name sv))
       (ConfigurationError (''profile does not exist: '' @ wv_profile_name sv))) (\<lambda>profile.
     bindE (guardE (\<not> (wv_root_session sv \<and> \<not> allow_root_session profile))
       (ElevationError ''root_session_disabled'' ''guided root sessions are disabled for this profile'')) (\<lambda>_.
     bindE (se_ssh env) (\<lambda>ssh.
     bindE (resolve_ssh_target profile (se_resolve env)) (\<lambda>target.
     bindE (se_known_hosts env) (\<lambda>known_hosts.
     bindE (new_auth_target (wv_profile_name sv) (display_name profile) (rt_host target) (rt_port target) (rt_user target)) (\<lambda>_.
     bindE (new_ssh_session (se_now env) (se_nonce env) (max_output_bytes profile)) (\<lambda>s.
     bindE (se_relay env) (\<lambda>_.
     let token = (if wv_root_session sv \<and> elevation_mode_of profile = INTERACTIVE_ELEVATION then Some (se_root_token env) else None) in
     bindE (case token of None \<Rightarrow> Inr None | Some t \<Rightarrow> bindE (operation_sudo_prompt ''root'' t) (\<lambda>p. Inr (Some p))) (\<lambda>prompt.
     Inr \<lparr>pl_profile = profile, pl_target = target, pl_ssh = ssh, pl_known_hosts = known_hosts, pl_session = s,
       pl_root_token = token, pl_root_prompt = prompt\<rparr>)))))))))))"

text \<open>\<^verbatim>\<open>try: ... finally: relay.close()\<close> around the opening.\<close>

definition open_terminal :: "service_env \<Rightarrow> bool \<Rightarrow> open_plan \<Rightarrow> unit session_op" where
  "open_terminal env root_session plan =
     bindS (liftS (se_relay_start env)) (\<lambda>_ s.
     (case bindS (liftS (build_ssh_arguments (pl_profile plan) (pl_ssh plan) (pl_known_hosts plan) root_session (pl_root_prompt plan)))
         (\<lambda>arguments.
           bindS (se_open env arguments (root_session \<and> elevation_mode_of (pl_profile plan) = INTERACTIVE_ELEVATION) (pl_root_token plan))
             (\<lambda>_. liftS (se_relay_check env))) s of
        (s1, r) \<Rightarrow> (s1, bindE (se_relay_close env) (\<lambda>_. r))))"

definition verify_root :: "service_env \<Rightarrow> bool \<Rightarrow> open_plan \<Rightarrow> pystr option session_op" where
  "verify_root env root_session plan =
     (if \<not> root_session then liftS (Inr None)
      else bindS (se_execute env ''id -u'' (of_int (command_timeout_seconds (pl_profile plan))) False None) (\<lambda>v.
        liftS (if py_strip (er_output v) \<noteq> ''0''
               then Inl (ElevationError ''root_session_verification_failed'' ''the dedicated session did not reach effective user root'')
               else Inr (Some (er_cwd v)))))"

definition service_open :: "service_env \<Rightarrow> payload service_op" where
  "service_open env sv =
     (case plan_open env sv of
        Inl e \<Rightarrow> (sv, Inl e)
      | Inr plan \<Rightarrow>
          let sv1 = sv\<lparr>wv_profile := Some (pl_profile plan), wv_target := Some (pl_target plan)\<rparr> in
          (case bindS (open_terminal env (wv_root_session sv) plan) (\<lambda>_. verify_root env (wv_root_session sv) plan) (pl_session plan) of
             (s1, Inl e) \<Rightarrow> (sv1\<lparr>wv_session := Some (fst (close_with (se_close env) s1))\<rparr>, Inl e)
           | (s1, Inr cwd) \<Rightarrow>
               let sv2 = sv1\<lparr>wv_session := Some s1, wv_cwd := (case cwd of None \<Rightarrow> wv_cwd sv | Some c \<Rightarrow> Some c)\<rparr>
               in (sv2, Inr (service_status sv2))))"

end
