(* ===== verification/Worker_Protocol.thy ===== *)
theory Worker_Protocol
  imports Worker_Service
begin

text \<open>
  \<^verbatim>\<open>worker/protocol.py\<close> and the request loop of \<^verbatim>\<open>worker/process.py\<close>: which requests a worker takes, and how it answers
  each of them. The worker's own identity (session id, profile, process id) is part of its state.
\<close>

record worker =
  wk_session_id :: pystr
  wk_profile_name :: pystr
  wk_pid :: int
  wk_service :: worker_service

record worker_env =
  we_service :: service_env
  we_operation :: operation_env
  we_close :: close_env

definition worker_fields :: "payload \<Rightarrow> pystr list \<Rightarrow> pystr list \<Rightarrow> unit res" where
  "worker_fields pl required optional =
     guardE (fields_match pl required optional) (ValueError ''worker request fields do not match the operation'')"

definition find_operation :: "(pystr \<times> pystr list \<times> pystr list) list \<Rightarrow> pystr \<Rightarrow> pystr \<Rightarrow> (pystr list \<times> pystr list) res" where
  "find_operation operations kind action =
     someE (map_of operations action) (ValueError (''unsupported '' @ kind @ '' action: '' @ action))"

definition terminal_fields :: "pystr \<Rightarrow> (pystr list \<times> pystr list) res" where
  "terminal_fields =
     find_operation
       [(''start'', [''command''], []), (''read'', [''cursor''], [''timeout'']), (''write'', [''text''], []),
        (''interrupt'', [], []), (''resize'', [''columns'', ''rows''], []), (''status'', [], []),
        (''close'', [], [''timeout''])]
       ''terminal''"

definition file_fields :: "bool \<Rightarrow> pystr \<Rightarrow> (pystr list \<times> pystr list) res" where
  "file_fields is_edit =
     (if is_edit
      then find_operation
        [(''write_text'', [''path'', ''content''], [''expected_sha256'']),
         (''apply_patch'', [''path'', ''patch''], [''expected_sha256'']), (''mkdir'', [''path''], []),
         (''rename'', [''path'', ''destination_path''], []),
         (''remove'', [''path''], [''recursive'', ''expected_sha256''])]
        ''file edit''
      else find_operation
        [(''list'', [''path''], [''max_results'']), (''stat'', [''path''], []),
         (''read_text'', [''path''], [''byte_limit'', ''start_line'', ''end_line'']),
         (''search_text'', [''path'', ''query''], [''max_results'']), (''hash'', [''path''], [])]
        ''file read'')"

definition worker_elevation_fields :: "pystr \<Rightarrow> (pystr list \<times> pystr list) res" where
  "worker_elevation_fields =
     find_operation
       [(''acquire'', [], []), (''status'', [], []), (''release'', [], []), (''exec'', [''command''], [''timeout''])]
       ''worker elevation''"

definition identity_payload :: "worker \<Rightarrow> payload \<Rightarrow> payload" where
  "identity_payload w pl =
     dmerge [(''session_id'', JStr (wk_session_id w)), (''profile_name'', JStr (wk_profile_name w)), (''pid'', JInt (wk_pid w))] pl"

text \<open>The command and the timeout of \<^verbatim>\<open>worker.exec\<close>.\<close>

definition exec_arguments :: "payload \<Rightarrow> (pystr \<times> rat option) res" where
  "exec_arguments pl =
     bindE (worker_fields pl [''command''] [''timeout'']) (\<lambda>_.
     case pget pl ''command'' of
       JStr command \<Rightarrow>
         let in_range = (\<lambda>f. if ONE_TENTH \<le> f \<and> f \<le> 3600 then Inr (command, Some f)
               else Inl (ValueError ''timeout is outside the supported range''))
         in (case pget pl ''timeout'' of
               JNull \<Rightarrow> Inr (command, None)
             | JInt i \<Rightarrow> bindE (float_of_int i) in_range
             | JFloat f \<Rightarrow> in_range f
             | _ \<Rightarrow> Inl (ValueError ''timeout must be a number''))
     | _ \<Rightarrow> Inl (ValueError ''command must be a string''))"

text \<open>The action of a request and its other fields, checked.\<close>

definition action_arguments :: "pystr \<Rightarrow> (pystr \<Rightarrow> (pystr list \<times> pystr list) res) \<Rightarrow> payload \<Rightarrow> (pystr \<times> payload) res" where
  "action_arguments kind fields_of pl =
     (case pget pl ''action'' of
        JStr action \<Rightarrow>
          bindE (fields_of action) (\<lambda>(expected, optional).
          bindE (worker_fields pl (''action'' # expected) optional) (\<lambda>_. Inr (action, ddel ''action'' pl)))
      | _ \<Rightarrow> Inl (ValueError (kind @ '' action must be a string'')))"

definition on_service :: "worker \<Rightarrow> payload service_op \<Rightarrow> worker \<times> (payload \<times> bool) res" where
  "on_service w f =
     (case f (wk_service w) of (sv, r) \<Rightarrow> (w\<lparr>wk_service := sv\<rparr>, bindE r (\<lambda>pl. Inr (pl, False))))"

definition worker_handle_message :: "worker_env \<Rightarrow> pystr \<Rightarrow> payload \<Rightarrow> worker \<Rightarrow> worker \<times> (payload \<times> bool) res" where
  "worker_handle_message env message_type pl w =
     (if message_type = ''worker.ping'' \<or> message_type = ''worker.status'' then
        (w, bindE (worker_fields pl [] []) (\<lambda>_. Inr (identity_payload w (service_status (wk_service w)), False)))
      else if message_type = ''worker.open'' then
        (case worker_fields pl [] [] of
           Inl e \<Rightarrow> (w, Inl e)
         | Inr _ \<Rightarrow>
             (case on_service w (service_open (we_service env)) of
                (w1, r) \<Rightarrow> (w1, bindE r (\<lambda>(reply, stop). Inr (identity_payload w reply, stop)))))
      else if message_type = ''worker.exec'' then
        (case exec_arguments pl of
           Inl e \<Rightarrow> (w, Inl e)
         | Inr (command, timeout) \<Rightarrow> on_service w (service_execute (op_execute (we_operation env)) command timeout))
      else if message_type = ''worker.terminal'' then
        (case action_arguments ''terminal'' terminal_fields pl of
           Inl e \<Rightarrow> (w, Inl e)
         | Inr (action, rest) \<Rightarrow> on_service w (service_terminal (we_operation env) action rest))
      else if message_type = ''worker.files'' \<or> message_type = ''worker.file_edit'' then
        (case action_arguments ''file'' (file_fields (message_type = ''worker.file_edit'')) pl of
           Inl e \<Rightarrow> (w, Inl e)
         | Inr (action, rest) \<Rightarrow> on_service w (service_files (we_operation env) action rest (message_type = ''worker.file_edit'')))
      else if message_type = ''worker.elevation'' then
        (case action_arguments ''elevation'' worker_elevation_fields pl of
           Inl e \<Rightarrow> (w, Inl e)
         | Inr (action, rest) \<Rightarrow> on_service w (service_elevation (we_operation env) action rest))
      else if message_type = ''worker.shutdown'' then
        (case worker_fields pl [] [] of
           Inl e \<Rightarrow> (w, Inl e)
         | Inr _ \<Rightarrow>
             (case service_close (we_close env) (wk_service w) of
                (sv, r) \<Rightarrow> (w\<lparr>wk_service := sv\<rparr>, bindE r (\<lambda>_. Inr ([(''status'', JStr ''closing'')], True)))))
      else (w, Inl (ValueError (''unknown worker message type: '' @ message_type))))"

definition worker_state :: "worker \<Rightarrow> json" where
  "worker_state w = pget (service_status (wk_service w)) ''state''"

definition error_payload :: "exn \<Rightarrow> worker \<Rightarrow> payload" where
  "error_payload e w =
     [(''code'', JStr (case exn_code e of None \<Rightarrow> ''invalid_request'' | Some c \<Rightarrow> c)), (''message'', JStr (exn_message e)),
      (''state'', worker_state w)]"

text \<open>One turn of the loop of \<^verbatim>\<open>run_worker\<close>: the answer to a request, and whether the worker stops.\<close>

definition worker_answer :: "worker_env \<Rightarrow> envelope \<Rightarrow> worker \<Rightarrow> worker \<times> envelope res \<times> bool" where
  "worker_answer env request w =
     (case worker_handle_message env (env_message_type request) (env_payload request) w of
        (w1, Inr (pl, stop)) \<Rightarrow>
          (w1, create [] (env_message_type request @ ''.result'') pl (Some (env_message_id request)), stop)
      | (w1, Inl e) \<Rightarrow>
          if is_serverops_error e \<or> is_value_error e
          then (w1, create [] ''error'' (error_payload e w1) (Some (env_message_id request)), False)
          else let w2 = w1\<lparr>wk_service := fst (service_close (we_close env) (wk_service w1))\<rparr> in
            (w2, create [] ''error''
               [(''code'', JStr ''worker_internal_error''), (''message'', JStr ''worker operation failed safely''),
                (''state'', worker_state w2)] (Some (env_message_id request)), True))"

text \<open>The requests of one authenticated connection: each with what receiving and sending gave.\<close>

record worker_turn =
  wt_env :: worker_env
  wt_request :: "envelope res"
  wt_sent :: "unit res"

fun worker_serve :: "worker_turn list \<Rightarrow> worker \<Rightarrow> worker \<times> envelope list" where
  "worker_serve [] w = (w, [])"
| "worker_serve (t # ts) w =
     (case wt_request t of
        Inl _ \<Rightarrow> (w, [])
      | Inr request \<Rightarrow>
          (case worker_answer (wt_env t) request w of
             (w1, Inl _, _) \<Rightarrow> (w1, [])
           | (w1, Inr reply, stop) \<Rightarrow>
               if wt_sent t \<noteq> Inr () then (w1, [])
               else if stop then (w1, [reply])
               else (case worker_serve ts w1 of (w2, replies) \<Rightarrow> (w2, reply # replies))))"

section \<open>The state of the session\<close>

lemma require_ready: "(require [READY] (ws_machine s) = Inr ()) = (session_state_of s = READY)"
  by (auto simp: require_def)

lemma session_close_closed: "session_state_of (fst (session_close now running write_fails exited s)) = CLOSED \<and>
    (\<exists>u. snd (session_close now running write_fails exited s) = Inr u)"
proof -
  consider (closed) "session_state_of s = CLOSED" | (closing) "session_state_of s = CLOSING"
    | (other) "session_state_of s \<notin> {CLOSED, CLOSING}" by blast
  then show ?thesis
  proof cases
    case closed
    then show ?thesis by (simp add: session_close_def begin_close_def)
  next
    case closing
    then show ?thesis
      by (simp add: session_close_def begin_close_def change_state_def transition_def terminate_terminal_def terminal_write_def Let_def)
  next
    case other
    then have "CLOSING \<in> set (ALLOWED_TRANSITIONS (session_state_of s))" by (cases "session_state_of s") auto
    with other show ?thesis
      by (simp add: session_close_def begin_close_def change_state_def transition_def terminate_terminal_def terminal_write_def Let_def)
  qed
qed

lemma execute_ready: "session_execute env command timeout allow tok s = Some (s', Inr v) \<Longrightarrow> session_state_of s' = READY"
proof -
  assume e: "session_execute env command timeout allow tok s = Some (s', Inr v)"
  then obtain p s1 where b: "bindS (activate_command (xe_token env)) (\<lambda>_. change_state (xe_started env) EXECUTING) s = (s1, Inr ())"
    and f: "map_option (finish_execute env) (deliver_and_wait env command timeout allow tok p s1) = Some (s', Inr v)"
    by (auto simp: session_execute_def split: sum.splits prod.splits)
  have "in_state EXECUTING (Some (xe_token env)) s1"
    using b by (auto simp: bindS_def activate_command_def change_state_def transition_def in_state_def Let_def split: if_splits)
  moreover obtain r0 where d: "deliver_and_wait env command timeout allow tok p s1 = Some r0" "finish_execute env r0 = (s', Inr v)"
    using f by auto
  ultimately have "execute_ended (s', Inr v)" using deliver_settled finish_execute_ended by metis
  then show ?thesis by (simp add: execute_ended_def in_state_def)
qed

lemma change_state_Inr: "change_state now t s = (s', Inr u) \<Longrightarrow> session_state_of s' = t"
  by (auto simp: change_state_def transition_def Let_def split: if_splits)

lemma open_loop_ready: "open_loop env allowed tok deadline ts gate s = Some (s', Inr u) \<Longrightarrow> session_state_of s' = READY"
proof (induction ts arbitrary: gate s)
  case (Cons t ts)
  show ?case
  proof (cases "tk_now t < deadline \<and> oe_check env (tk_now t) = None")
    case True
    obtain s1 x where rd: "read_and_handle_prompts allowed tok t gate s = (s1, x)" by fastforce
    show ?thesis
    proof (cases x)
      case (Inr g)
      obtain gate' extra where g: "g = (gate', extra)" by fastforce
      show ?thesis
        using Cons True
        by (auto simp: rd Inr g bindS_def dest: change_state_Inr split: if_splits option.splits sum.splits prod.splits)
    qed (use Cons.prems True in \<open>simp add: rd\<close>)
  next
    case False
    then show ?thesis using Cons.prems by (auto simp: bindS_def split: if_splits option.splits sum.splits prod.splits)
  qed
qed simp

lemma session_open_ready: "session_open env timeout allow tok s = Some (s', Inr u) \<Longrightarrow> session_state_of s' = READY"
proof -
  assume "session_open env timeout allow tok s = Some (s', Inr u)"
  then obtain s1 r where "finish_open env r = (s', Inr u)"
    and "r = (s', Inr ()) \<Longrightarrow> open_loop env (sudo_prompts allow) tok (oe_started env + timeout) (oe_ticks env) (new_gate allow) s1 = Some r"
    by (auto simp: session_open_def split: sum.splits prod.splits option.splits)
  moreover then have "r = (s', Inr ())"
    by (auto simp: finish_open_def bindS_def Let_def split: sum.splits prod.splits if_splits)
  ultimately show ?thesis using open_loop_ready by blast
qed

section \<open>What an operation keeps of the service\<close>

definition preserves :: "('s \<Rightarrow> bool) \<Rightarrow> ('s \<Rightarrow> 's \<times> 'a) \<Rightarrow> bool" where
  "preserves P f = (\<forall>s. P s \<longrightarrow> P (fst (f s)))"

lemma preserves_liftS [intro!]: "preserves P (liftS r)"
  by (simp add: preserves_def)

lemma preserves_bindS [intro!]: "preserves P m \<Longrightarrow> (\<And>a. preserves P (f a)) \<Longrightarrow> preserves P (bindS m f)"
  unfolding preserves_def by (metis bindS_invariant)

lemma preserves_if [intro!]: "(b \<Longrightarrow> preserves P f) \<Longrightarrow> (\<not> b \<Longrightarrow> preserves P g) \<Longrightarrow> preserves P (if b then f else g)"
  by simp

lemma preserves_run_file: "(\<And>c t. preserves P (runner c t)) \<Longrightarrow> preserves P (run_file runner profile command)"
  by (auto simp: run_file_def)

lemma preserves_file_read: "(\<And>c t. preserves P (runner c t)) \<Longrightarrow> preserves P (file_read runner token profile action pl)"
  unfolding file_read_def Let_def by (intro preserves_bindS preserves_liftS preserves_if preserves_run_file)

lemma preserves_file_edit: "(\<And>c t. preserves P (runner c t)) \<Longrightarrow> preserves P (file_edit runner sha token token' profile action pl)"
  unfolding file_edit_def apply_file_patch_def Let_def split_def
  by (intro preserves_bindS preserves_liftS preserves_if preserves_run_file)

lemma preserves_apply: "preserves P f \<Longrightarrow> P s \<Longrightarrow> f s = (s', r) \<Longrightarrow> P s'"
  unfolding preserves_def by (metis fst_conv)

lemma preserves_elevation_run: "(\<And>c t k. preserves P (runner c t k)) \<Longrightarrow> preserves P (elevation_run runner command timeout tok)"
  by (auto simp: elevation_run_def)

lemma preserves_cache:
  assumes r: "\<And>c t k. preserves P (runner c t k)"
  shows "preserves P (cache_is_active runner profile)"
proof (unfold preserves_def, intro allI impI)
  fix s
  assume "P s"
  obtain s1 y where e: "elevation_run runner SUDO_VALIDATE (short_timeout profile) None s = (s1, y)" by fastforce
  have "P s1" using preserves_apply [OF preserves_elevation_run [OF r] \<open>P s\<close> e] .
  then show "P (fst (cache_is_active runner profile s))"
    by (simp add: cache_is_active_def e split: sum.split)
qed

lemma preserves_acquire:
  assumes r: "\<And>c t k. preserves P (runner c t k)"
  shows "preserves P (elevation_acquire runner token profile ssh_user)"
proof -
  have "preserves P (\<lambda>s. case elevation_run runner command timeout tok s of
        (s1, Inl e) \<Rightarrow>
          if is_serverops_error e \<and> exn_code e = Some ''command_timed_out''
          then (case cache_is_active runner profile s1 of
              (s2, Inr True) \<Rightarrow> (s2, Inr (elevation_summary profile ssh_user ''acquired'' True))
            | (s2, Inr False) \<Rightarrow> (s2, Inl e)
            | (s2, Inl e') \<Rightarrow> (s2, Inl e'))
          else (s1, Inl e)
      | (s1, Inr result) \<Rightarrow> (s1, x result))" for command timeout tok x
  proof (unfold preserves_def, intro allI impI)
    fix s
    assume "P s"
    obtain s1 y where e: "elevation_run runner command timeout tok s = (s1, y)" by fastforce
    have s1: "P s1" using preserves_apply [OF preserves_elevation_run [OF r] \<open>P s\<close> e] .
    obtain s2 z where c: "cache_is_active runner profile s1 = (s2, z)" by fastforce
    have "P s2" using preserves_apply [OF preserves_cache [OF r] s1 c] .
    then show "P (fst (case elevation_run runner command timeout tok s of
        (s1, Inl e) \<Rightarrow>
          if is_serverops_error e \<and> exn_code e = Some ''command_timed_out''
          then (case cache_is_active runner profile s1 of
              (s2, Inr True) \<Rightarrow> (s2, Inr (elevation_summary profile ssh_user ''acquired'' True))
            | (s2, Inr False) \<Rightarrow> (s2, Inl e)
            | (s2, Inl e') \<Rightarrow> (s2, Inl e'))
          else (s1, Inl e)
      | (s1, Inr result) \<Rightarrow> (s1, x result)))"
      using s1 by (auto simp: e c split: sum.split bool.split)
  qed
  then show ?thesis unfolding elevation_acquire_def split_def by (intro preserves_bindS preserves_liftS)
qed

lemma preserves_elevation:
  assumes r: "\<And>c t k. preserves P (runner c t k)"
  shows "preserves P (elevation_handle runner prompt_token token profile ssh_user action pl)"
proof -
  have "preserves P (elevation_status runner profile ssh_user)" "preserves P (elevation_release runner profile ssh_user)"
    "preserves P (elevation_exec runner prompt_token token profile command timeout)" for command timeout
    unfolding elevation_status_def elevation_release_def elevation_exec_def Let_def
    by (intro preserves_bindS preserves_liftS preserves_if preserves_elevation_run r)+
  then show ?thesis
    unfolding elevation_handle_def by (intro preserves_bindS preserves_liftS preserves_if preserves_acquire [OF r]) auto
qed

text \<open>The identity of a service: profile, target and whether it is a root session.\<close>

definition same_service :: "worker_service \<Rightarrow> worker_service \<Rightarrow> bool" where
  "same_service sv sv' =
     (wv_profile sv' = wv_profile sv \<and> wv_target sv' = wv_target sv \<and> wv_root_session sv' = wv_root_session sv \<and>
      wv_profile_name sv' = wv_profile_name sv \<and> (wv_session sv' = None) = (wv_session sv = None))"

lemma same_service_refl [simp]: "same_service sv sv"
  by (simp add: same_service_def)

lemma preserves_execute_internal: "preserves (same_service sv) (execute_internal execute command timeout allow tok)"
proof (unfold preserves_def, intro allI impI)
  fix x
  assume x: "same_service sv x"
  show "same_service sv (fst (execute_internal execute command timeout allow tok x))"
  proof (cases "open_session x")
    case (Inr y)
    obtain s p where y: "y = (s, p)" by fastforce
    then have "wv_session x = Some s" using Inr by (auto simp: open_session_def split: option.splits)
    with x show ?thesis
      by (auto simp: execute_internal_def Inr y same_service_def split: sum.split prod.split)
  qed (use x in \<open>simp add: execute_internal_def\<close>)
qed

section \<open>What a profile permits\<close>

lemma service_files_permitted:
  assumes "service_files env action pl is_edit sv = (sv', r)"
  shows "same_service sv sv' \<and>
    (sv' = sv \<or> \<not> wv_root_session sv \<and>
      (\<exists>s p. open_session sv = Inr (s, p) \<and> session_state_of s = READY \<and> (if is_edit then allow_file_write p else allow_file_read p)))"
proof (cases "wv_root_session sv \<or> \<not> (\<exists>s p. open_session sv = Inr (s, p) \<and> session_state_of s = READY)")
  case True
  then have "sv' = sv" using assms
    by (auto simp: service_files_def require_def guardE_def split: if_splits sum.splits)
  then show ?thesis by simp
next
  case False
  then obtain s p where o: "open_session sv = Inr (s, p)" "session_state_of s = READY" and nr: "\<not> wv_root_session sv" by blast
  let ?run = "\<lambda>command timeout. execute_internal (op_execute env) command (Some (of_int timeout)) False None"
  have f: "(if is_edit then file_edit ?run (op_sha256 env) (op_token env) (op_token2 env) p action pl sv
      else file_read ?run (op_token env) p action pl sv) = (sv', r)"
    using assms nr o by (simp add: service_files_def require_def Let_def)
  have "preserves (same_service sv) (file_edit ?run (op_sha256 env) (op_token env) (op_token2 env) p action pl)"
    "preserves (same_service sv) (file_read ?run (op_token env) p action pl)"
    by (intro preserves_file_edit preserves_file_read preserves_execute_internal)+
  then have "same_service sv sv'" using f preserves_apply [of "same_service sv" _ sv] by (auto split: if_splits)
  moreover have "sv' = sv" if "\<not> (if is_edit then allow_file_write p else allow_file_read p)"
    using f that by (cases is_edit) (simp_all add: file_edit_def file_read_def require_write_def require_read_def)
  ultimately show ?thesis using nr o by blast
qed

lemma service_elevation_permitted:
  assumes "service_elevation env action pl sv = (sv', r)"
  shows "same_service sv sv' \<and>
    (sv' = sv \<or> \<not> wv_root_session sv \<and>
      (\<exists>s p. open_session sv = Inr (s, p) \<and> session_state_of s = READY \<and> elevation_mode_of p \<noteq> DISABLED))"
proof (cases "wv_root_session sv \<or> wv_target sv = None \<or> \<not> (\<exists>s p. open_session sv = Inr (s, p) \<and> session_state_of s = READY)")
  case True
  then have "sv' = sv" using assms
    by (auto simp: service_elevation_def require_def guardE_def split: if_splits sum.splits option.splits)
  then show ?thesis by simp
next
  case False
  then obtain s p t where o: "open_session sv = Inr (s, p)" "session_state_of s = READY" and nr: "\<not> wv_root_session sv"
    and t: "wv_target sv = Some t" by auto
  let ?run = "\<lambda>command timeout tok. execute_internal (op_execute env) command (Some timeout) (tok \<noteq> None) tok"
  have h: "elevation_handle ?run (op_token env) (op_token2 env) p (rt_user t) action pl sv = (sv', r)"
    using assms nr o t by (simp add: service_elevation_def require_def)
  have "preserves (same_service sv) (elevation_handle ?run (op_token env) (op_token2 env) p (rt_user t) action pl)"
    by (rule preserves_elevation) (rule preserves_execute_internal)
  from preserves_apply [OF this same_service_refl h] have "same_service sv sv'" .
  moreover have "sv' = sv" if "elevation_mode_of p = DISABLED"
  proof (cases "action = ''status''")
    case True
    then show ?thesis using h that
      by (simp add: elevation_handle_def elevation_status_def elevation_check_fields_def guardE_def split: if_splits)
  next
    case False
    then show ?thesis using h that by (simp add: elevation_handle_def require_enabled_def)
  qed
  ultimately show ?thesis using nr o by blast
qed

lemma on_session_same:
  "wv_session sv = Some s \<Longrightarrow> on_session s f g sv = (sv', r) \<Longrightarrow> same_service sv sv'"
  by (auto simp: on_session_def same_service_def split: prod.splits sum.splits)

lemma open_session_Some: "open_session sv = Inr (s, p) \<Longrightarrow> wv_session sv = Some s \<and> wv_profile sv = Some p"
  by (auto simp: open_session_def split: option.splits)

lemma service_terminal_permitted:
  assumes "service_terminal env action pl sv = (sv', r)"
  shows "same_service sv sv' \<and> (sv' = sv \<or> (\<exists>s p. open_session sv = Inr (s, p) \<and> allow_terminal p))"
proof (cases "open_session sv")
  case (Inr y)
  obtain s p where y: "y = (s, p)" by fastforce
  then show ?thesis using assms on_session_same [of sv s] open_session_Some [of sv s p] Inr
    by (cases "terminal_action env action pl") (auto simp: service_terminal_def split: if_splits)
qed (use assms in \<open>auto simp: service_terminal_def\<close>)

lemma service_execute_permitted:
  assumes "service_execute execute command timeout sv = (sv', r)"
  shows "same_service sv sv' \<and>
    (sv' = sv \<or> (\<exists>s p. open_session sv = Inr (s, p) \<and> session_state_of s = READY \<and> allow_terminal p))"
proof (cases "open_session sv")
  case (Inr y)
  obtain s p where y: "y = (s, p)" by fastforce
  have "same_service sv (fst (execute_internal execute command timeout False None sv))"
    using preserves_execute_internal [of sv] by (simp add: preserves_def)
  moreover have "fst (execute_internal execute command timeout False None sv) = sv" if "session_state_of s \<noteq> READY"
    using that by (simp add: execute_internal_def Inr y require_def)
  ultimately show ?thesis using assms Inr y by (auto simp: service_execute_def split: if_splits)
qed (use assms in \<open>auto simp: service_execute_def\<close>)

text \<open>What a request needs in order to have an effect on an opened session.\<close>

definition request_permitted :: "pystr \<Rightarrow> server_profile \<Rightarrow> bool \<Rightarrow> session_state \<Rightarrow> bool" where
  "request_permitted message_type profile root_session state =
     (message_type = ''worker.exec'' \<and> allow_terminal profile \<and> state = READY \<or>
      message_type = ''worker.terminal'' \<and> allow_terminal profile \<or>
      message_type = ''worker.files'' \<and> allow_file_read profile \<and> \<not> root_session \<and> state = READY \<or>
      message_type = ''worker.file_edit'' \<and> allow_file_write profile \<and> \<not> root_session \<and> state = READY \<or>
      message_type = ''worker.elevation'' \<and> elevation_mode_of profile \<noteq> DISABLED \<and> \<not> root_session \<and> state = READY \<or>
      message_type = ''worker.shutdown'')"

lemma service_open_again: "wv_session sv \<noteq> None \<Longrightarrow> fst (service_open env sv) = sv"
  by (cases "wv_session sv") (simp_all add: service_open_def plan_open_def)

lemma service_close_same: "same_service sv (fst (service_close env sv))"
  by (auto simp: service_close_def same_service_def split: option.split prod.split)

text \<open>A step of the worker that keeps its identity and has an effect only under a condition.\<close>

definition effect_only_if :: "bool \<Rightarrow> worker \<Rightarrow> worker \<Rightarrow> bool" where
  "effect_only_if b w w' = (same_service (wk_service w) (wk_service w') \<and> (w' = w \<or> b))"

lemma effect_none [simp]: "effect_only_if b w w"
  by (simp add: effect_only_if_def)

lemma effect_if:
  "(c \<Longrightarrow> effect_only_if b w (fst x)) \<Longrightarrow> (\<not> c \<Longrightarrow> effect_only_if b w (fst y)) \<Longrightarrow> effect_only_if b w (fst (if c then x else y))"
  by simp

lemma effect_checked:
  "(\<And>a. r = Inr a \<Longrightarrow> effect_only_if b w (fst (f a))) \<Longrightarrow> effect_only_if b w (fst (case r of Inl e \<Rightarrow> (w, Inl e) | Inr a \<Rightarrow> f a))"
  by (cases r) simp_all

lemma effect_on_service:
  assumes "\<And>sv' r'. f (wk_service w) = (sv', r') \<Longrightarrow> same_service (wk_service w) sv' \<and> (sv' = wk_service w \<or> b)"
  shows "effect_only_if b w (fst (on_service w f))"
proof -
  obtain sv' r' where f: "f (wk_service w) = (sv', r')" by fastforce
  then have "fst (on_service w f) = w\<lparr>wk_service := sv'\<rparr>" by (simp add: on_service_def)
  with assms [OF f] show ?thesis by (auto simp: effect_only_if_def)
qed

lemma effect_open:
  assumes "wv_session (wk_service w) \<noteq> None"
  shows "effect_only_if b w (fst (case on_service w (service_open env) of
    (w1, r) \<Rightarrow> (w1, bindE r (\<lambda>(reply, stop). Inr (identity_payload w reply, stop)))))"
proof -
  have "effect_only_if b w (fst (on_service w (service_open env)))"
    by (rule effect_on_service) (use service_open_again [OF assms] in \<open>metis fst_conv same_service_refl\<close>)
  then show ?thesis by (auto split: prod.split)
qed

lemma effect_close:
  "effect_only_if True w (fst (case service_close env (wk_service w) of
    (sv, r) \<Rightarrow> (w\<lparr>wk_service := sv\<rparr>, bindE r (\<lambda>_. Inr ([(''status'', JStr ''closing'')], True)))))"
  using service_close_same [of "wk_service w" env] by (auto simp: effect_only_if_def split: prod.split)


section \<open>Worker and broker\<close>

definition WORKER_MESSAGES :: "pystr list" where
  "WORKER_MESSAGES =
     [''worker.ping'', ''worker.status'', ''worker.open'', ''worker.exec'', ''worker.terminal'', ''worker.files'',
      ''worker.file_edit'', ''worker.elevation'', ''worker.shutdown'']"

lemma handled_message: "worker_handle_message env mt pl w = (w', Inr x) \<Longrightarrow> mt \<in> set WORKER_MESSAGES"
  by (rule ccontr) (simp add: worker_handle_message_def WORKER_MESSAGES_def)

lemma result_types: "mt \<in> set WORKER_MESSAGES \<Longrightarrow> MESSAGE_TYPE (mt @ ''.result'')"
  by (auto simp: WORKER_MESSAGES_def MESSAGE_TYPE_def is_lower_def)

lemma error_type: "MESSAGE_TYPE ''error''"
  by (simp add: MESSAGE_TYPE_def is_lower_def)

lemma answer_created:
  assumes "create fresh mt pl None = Inr request" and "MESSAGE_TYPE t"
  shows "create [] t q (Some (env_message_id request)) =
    Inr \<lparr>env_version = BROKER_PROTOCOL_VERSION, env_message_id = env_message_id request, env_message_type = t, env_payload = q\<rparr>"
proof -
  have "MESSAGE_ID (env_message_id request)" "env_message_id request \<noteq> []"
    using assms(1) by (auto simp: create_def new_envelope_def match_text_def bindE_eq_Inr split: if_splits)
  then show ?thesis using assms(2) by (cases "env_message_id request") (simp_all add: create_def new_envelope_def match_text_def)
qed

lemma created_request: "create fresh mt pl None = Inr request \<Longrightarrow> env_message_type request = mt \<and> env_payload request = pl"
  by (auto simp: create_def new_envelope_def match_text_def bindE_eq_Inr split: if_splits)

lemma worker_state_text: "worker_state w = JStr (state_value (case wv_session (wk_service w) of None \<Rightarrow> CREATED | Some s \<Rightarrow> session_state_of s))"
  by (simp add: worker_state_def service_status_def pget_def)

text \<open>
  The broker accepts every answer of its worker. For each request that the supervisor can make, whatever
  the worker's operation does, the worker's loop produces an envelope, and the supervisor takes it as the
  answer to this request on a connection that stays open: the reply of the operation when it succeeded, and
  otherwise an operation error with the state that the session is left in, which ends the worker
  exactly when the error was none of those that the operations raise on purpose.
\<close>

theorem worker_answers_accepted:
  assumes "create fresh message_type pl None = Inr request"
    and "worker_handle_message env message_type pl w = (w1, r)"
  shows "\<exists>w2 reply stop. worker_answer env request w = (w2, Inr reply, stop) \<and>
    (case r of
       Inr (result, s) \<Rightarrow> w2 = w1 \<and> stop = s \<and> worker_request message_type pl fresh (Reply reply) = (False, Inr result)
     | Inl e \<Rightarrow>
         (stop = (\<not> (is_serverops_error e \<or> is_value_error e))) \<and>
         (\<exists>code message state. worker_state w2 = JStr state \<and>
           worker_request message_type pl fresh (Reply reply) = (False, Inl (WorkerOperationError code message (Some state)))))"
proof -
  note q = created_request [OF assms(1)]
  show ?thesis
  proof (cases r)
    case (Inr x)
    obtain result stop where x: "x = (result, stop)" by fastforce
    have "MESSAGE_TYPE (message_type @ ''.result'')" using handled_message [OF assms(2) [unfolded Inr]] by (rule result_types)
    moreover have "message_type @ ''.result'' \<noteq> ''error''" by (auto dest: arg_cong [where f = last])
    ultimately show ?thesis using answer_created [OF assms(1)] q
      by (simp add: worker_answer_def assms(2) Inr x worker_request_def assms(1))
  next
    case (Inl e)
    show ?thesis using answer_created [OF assms(1) error_type] q
      by (simp add: worker_answer_def assms(2) Inl worker_request_def assms(1) worker_error_def error_payload_def
          worker_state_text pget_default_def pget_def Let_def)
  qed
qed

text \<open>
  A timeout that is an integer too large for a float is not refused like any other timeout out of range: the
  conversion raises \<^verbatim>\<open>OverflowError\<close>, and the worker closes its session and ends.
\<close>

theorem huge_timeout_ends_worker:
  assumes "FLOAT_LIMIT \<le> i" and "wv_session (wk_service w) = Some s"
    and "env_message_type request = ''worker.exec''"
    and "env_payload request = [(''command'', JStr command), (''timeout'', JInt i)]"
  shows "\<exists>w' reply s'. worker_answer env request w = (w', reply, True) \<and>
    wv_session (wk_service w') = Some s' \<and> session_state_of s' = CLOSED"
proof -
  have "float_of_int i = Inl (OverflowError ''int too large to convert to float'')"
    using assms(1) by (simp add: float_of_int_def)
  then have "exec_arguments (env_payload request) = Inl (OverflowError ''int too large to convert to float'')"
    by (simp add: exec_arguments_def assms(4) worker_fields_def fields_match_def keys_def pget_def Let_def)
  then have h: "worker_handle_message env (env_message_type request) (env_payload request) w =
      (w, Inl (OverflowError ''int too large to convert to float''))"
    by (simp add: worker_handle_message_def assms(3))
  show ?thesis using session_close_closed assms(2)
    by (simp add: worker_answer_def h is_serverops_error_def is_value_error_def Let_def service_close_def close_with_def split: prod.split)
      (metis fst_conv)
qed

section \<open>Opening\<close>

lemma open_terminal_ready:
  assumes "opens (se_open env)" and "open_terminal env as_root plan s = (s1, Inr u)"
  shows "session_state_of s1 = READY"
proof -
  let ?allow = "as_root \<and> elevation_mode_of (pl_profile plan) = INTERACTIVE_ELEVATION"
  obtain arguments where "se_open env arguments ?allow (pl_root_token plan) s = (s1, Inr ())"
    using assms(2) by (auto simp: open_terminal_def bindS_eq_Inr bindE_eq_Inr split: prod.splits)
  moreover obtain oenv where "session_open oenv SESSION_OPEN_TIMEOUT_SECONDS ?allow (pl_root_token plan) s =
      Some (se_open env arguments ?allow (pl_root_token plan) s)"
    using assms(1) unfolding opens_def by blast
  ultimately show ?thesis using session_open_ready by simp
qed

definition root_verified :: "service_env \<Rightarrow> open_plan \<Rightarrow> ssh_session \<Rightarrow> bool" where
  "root_verified env plan s =
     (\<exists>s0 v. se_execute env ''id -u'' (of_int (command_timeout_seconds (pl_profile plan))) False None s0 = (s, Inr v) \<and>
       py_strip (er_output v) = ''0'')"

lemma verify_root_ready:
  assumes "executes (se_execute env)" and "session_state_of s = READY" and "verify_root env as_root plan s = (s1, Inr c)"
  shows "session_state_of s1 = READY \<and> (as_root \<longrightarrow> root_verified env plan s1)"
proof (cases as_root)
  case True
  let ?t = "of_int (command_timeout_seconds (pl_profile plan))"
  obtain v where v: "se_execute env ''id -u'' ?t False None s = (s1, Inr v)" and z: "py_strip (er_output v) = ''0''"
    using assms(3) True by (auto simp: verify_root_def bindS_eq_Inr split: if_splits)
  obtain xenv where "session_execute xenv ''id -u'' ?t False None s = Some (s1, Inr v)"
    using assms(1) v unfolding executes_def by metis
  then have "session_state_of s1 = READY" by (rule execute_ready)
  moreover have "root_verified env plan s1" unfolding root_verified_def using v z by blast
  ultimately show ?thesis by simp
next
  case False
  then show ?thesis using assms(2,3) by (simp add: verify_root_def)
qed

lemma plan_open_permitted:
  "plan_open env sv = Inr plan \<Longrightarrow> (\<exists>config. se_config env = Inr config \<and> map_of (profiles config) (wv_profile_name sv) = Some (pl_profile plan)) \<and>
    (wv_root_session sv \<longrightarrow> allow_root_session (pl_profile plan))"
  by (auto simp: plan_open_def bindE_eq_Inr Let_def)

text \<open>
  C9: opening a worker session gives a session that is ready and, for a root session, verified to be root,
  or none at all. When \<^verbatim>\<open>open\<close> succeeds, the profile is the configured one of this name, the session is ready,
  and a root session was permitted by the profile and answered \<^verbatim>\<open>id -u\<close> with \<^verbatim>\<open>0\<close>. When it fails at any
  point, either nothing was changed or the session is closed, so that no later request can use it.
\<close>

theorem open_gives_verified_session:
  assumes "opens (se_open env)" and "executes (se_execute env)" and "service_open env sv = (sv', r)"
  shows "case r of
      Inr reply \<Rightarrow> \<exists>s plan config. wv_session sv' = Some s \<and> session_state_of s = READY \<and>
        wv_profile sv' = Some (pl_profile plan) \<and> se_config env = Inr config \<and>
        map_of (profiles config) (wv_profile_name sv) = Some (pl_profile plan) \<and> reply = service_status sv' \<and>
        (wv_root_session sv \<longrightarrow> allow_root_session (pl_profile plan) \<and> root_verified env plan s)
    | Inl e \<Rightarrow> sv' = sv \<or> (\<exists>s. wv_session sv' = Some s \<and> session_state_of s = CLOSED)"
proof (cases "plan_open env sv")
  case (Inl e)
  then show ?thesis using assms(3) by (auto simp: service_open_def)
next
  case (Inr plan)
  let ?run = "bindS (open_terminal env (wv_root_session sv) plan) (\<lambda>_. verify_root env (wv_root_session sv) plan)"
  obtain s1 x where x: "?run (pl_session plan) = (s1, x)" by fastforce
  show ?thesis
  proof (cases x)
    case (Inl e)
    then show ?thesis using assms(3) x session_close_closed
      by (auto simp: service_open_def Inr Let_def close_with_def)
  next
    case (Inr cwd)
    then obtain s0 u where "open_terminal env (wv_root_session sv) plan (pl_session plan) = (s0, Inr u)"
      and v: "verify_root env (wv_root_session sv) plan s0 = (s1, Inr cwd)"
      using x by (auto simp: bindS_eq_Inr)
    then have "session_state_of s0 = READY" using open_terminal_ready [OF assms(1)] by blast
    from verify_root_ready [OF assms(2) this v] plan_open_permitted [OF \<open>plan_open env sv = Inr plan\<close>]
    show ?thesis using assms(3) x Inr \<open>plan_open env sv = Inr plan\<close> by (auto simp: service_open_def Let_def)
  qed
qed

section \<open>Witnesses\<close>

definition demo_execute :: executor where
  "demo_execute command timeout allow tok s =
     (case session_execute (demo_exec_env\<lparr>xe_ticks := [demo_tick (timeout + 2) []]\<rparr>) command timeout allow tok s of
        Some r \<Rightarrow> r | None \<Rightarrow> (s, Inl (RuntimeError [])))"

lemma demo_executes: "executes demo_execute"
proof (unfold executes_def, intro allI)
  fix command timeout allow tok s
  let ?env = "demo_exec_env\<lparr>xe_ticks := [demo_tick (timeout + 2) []]\<rparr>"
  obtain s' r where "session_execute ?env command timeout allow tok s = Some (s', r)"
    using execute_ends [of ?env timeout 2 command allow tok s]
    by (auto simp: demo_exec_env_def demo_tick_def RECOVERY_TIMEOUT_SECONDS_def)
  then show "\<exists>env. session_execute env command timeout allow tok s = Some (demo_execute command timeout allow tok s)"
    by (intro exI [of _ ?env]) (simp add: demo_execute_def)
qed

definition demo_open_env :: open_env where
  "demo_open_env =
     \<lparr>oe_token = ''abcdef0123456789'', oe_started = 0, oe_start = Some (OSError ''no program''), oe_ticks = [], oe_check = (\<lambda>_. None),
      oe_write = None, oe_bootstrap_started = 0, oe_bootstrap = [], oe_now = 1, oe_running = False\<rparr>"

definition demo_open :: opener where
  "demo_open arguments allow tok s =
     (case session_open demo_open_env SESSION_OPEN_TIMEOUT_SECONDS allow tok s of Some r \<Rightarrow> r | None \<Rightarrow> (s, Inl (RuntimeError [])))"

lemma demo_opens: "opens demo_open"
proof (unfold opens_def, intro allI)
  fix arguments allow tok s
  have "\<exists>r. session_open demo_open_env SESSION_OPEN_TIMEOUT_SECONDS allow tok s = Some r"
    by (simp add: session_open_def demo_open_env_def split: sum.split prod.split)
  then obtain r where "session_open demo_open_env SESSION_OPEN_TIMEOUT_SECONDS allow tok s = Some r" by blast
  then show "\<exists>env. session_open env SESSION_OPEN_TIMEOUT_SECONDS allow tok s = Some (demo_open arguments allow tok s)"
    by (intro exI [of _ demo_open_env]) (simp add: demo_open_def)
qed

definition demo_service_env :: service_env where
  "demo_service_env =
     \<lparr>se_config = Inr \<lparr>profiles = [(''web'', demo_profile)], schema_version = 1\<rparr>, se_ssh = Inr ''ssh.exe'',
      se_resolve = (\<lambda>_. Inl (OSError [])), se_known_hosts = Inr ''known_hosts'', se_now = 0, se_nonce = ''0123456789abcdef'',
      se_relay = Inr (), se_relay_start = Inr (), se_root_token = replicate 32 CHR ''0'', se_open = demo_open,
      se_relay_check = Inr (), se_relay_close = Inr (), se_execute = demo_execute,
      se_close = \<lparr>ce_now = 2, ce_running = False, ce_write_fails = False, ce_exited = True\<rparr>\<rparr>"

theorem open_gives_verified_session_witness:
  "\<exists>sv' r. service_open demo_service_env (new_worker_service ''web'' False) = (sv', r) \<and>
    (case r of
      Inr reply \<Rightarrow> \<exists>s. wv_session sv' = Some s \<and> session_state_of s = READY
    | Inl e \<Rightarrow> sv' = new_worker_service ''web'' False \<or> (\<exists>s. wv_session sv' = Some s \<and> session_state_of s = CLOSED))"
proof -
  obtain sv' r where o: "service_open demo_service_env (new_worker_service ''web'' False) = (sv', r)" by fastforce
  have "opens (se_open demo_service_env)" "executes (se_execute demo_service_env)"
    by (simp_all add: demo_service_env_def demo_opens demo_executes)
  from open_gives_verified_session [OF this o] o show ?thesis by (auto split: sum.splits)
qed

definition demo_worker :: worker where
  "demo_worker =
     \<lparr>wk_session_id = ''sess-1'', wk_profile_name = ''web'', wk_pid = 7,
      wk_service = \<lparr>wv_profile_name = ''web'', wv_root_session = True, wv_profile = Some demo_profile,
        wv_target = Some \<lparr>rt_host = ''h'', rt_port = 22, rt_user = ''u''\<rparr>, wv_session = Some demo_ready_session, wv_cwd = None\<rparr>\<rparr>"

definition demo_worker_env :: worker_env where
  "demo_worker_env =
     \<lparr>we_service = demo_service_env,
      we_operation = \<lparr>op_execute = demo_execute, op_sha256 = (\<lambda>_. []), op_token = [], op_token2 = [],
        op_interactive = demo_interactive_env, op_interactive_close = (\<lambda>_ s. (s, Inl (RuntimeError [])))\<rparr>,
      we_close = \<lparr>ce_now = 2, ce_running = False, ce_write_fails = False, ce_exited = True\<rparr>\<rparr>"


theorem worker_answers_accepted_witness:
  "\<exists>request w2 reply stop. create (replicate 32 CHR ''0'') ''worker.ping'' [] None = Inr request \<and>
    worker_answer demo_worker_env request demo_worker = (w2, Inr reply, stop) \<and>
    fst (worker_request ''worker.ping'' [] (replicate 32 CHR ''0'') (Reply reply)) = False"
proof -
  have "MESSAGE_TYPE ''worker.ping''" by (simp add: MESSAGE_TYPE_def is_lower_def)
  then obtain request where q: "create (replicate 32 CHR ''0'') ''worker.ping'' [] None = Inr request"
    using create_accepted [OF demo_message_ids] by blast
  obtain result where h: "worker_handle_message demo_worker_env ''worker.ping'' [] demo_worker = (demo_worker, Inr (result, False))"
    by (simp add: worker_handle_message_def worker_fields_def fields_match_def keys_def)
  from worker_answers_accepted [OF q h] show ?thesis
    using q by auto
qed

end
