(* ===== verification/Redaction.thy ===== *)
theory Redaction
  imports Py_Regex Errors
begin

text \<open>
  \<^verbatim>\<open>security/redaction.py\<close>: the preview of a command that goes into the audit log. Each of the eight rules
  replaces its matches from left to right; a rule whose replacement is \<^verbatim>\<open>\1...\<close> keeps the group with
  which its pattern begins. Which characters outside of ASCII are letters or digits is an argument
  (\<open>uni\<close>), the Unicode data of the interpreter.
\<close>

section \<open>Rules\<close>

definition DEFAULT_PREVIEW_BYTES :: int where
  "DEFAULT_PREVIEW_BYTES = 512"

record redaction_result =
  red_text :: pystr
  red_redacted :: bool
  red_truncated :: bool

text \<open>The pattern of a rule is its group 1 followed by the rest; without a group the first part is the edge
  or empty.\<close>

record redaction_rule =
  rr_group :: pattern
  rr_rest :: pattern
  rr_keep_group :: bool
  rr_replacement :: pystr

definition word_char :: "(pystr \<Rightarrow> bool) \<Rightarrow> pystr \<Rightarrow> bool" where
  "word_char uni ch = (case ch of [c] \<Rightarrow> is_alnum c \<or> c = CHR ''_'' | _ \<Rightarrow> uni ch)"

definition no_chars :: pattern where
  "no_chars = Greedy 0 (\<lambda>_. False)"

fun one_of :: "pattern list \<Rightarrow> pattern" where
  "one_of [] = Cls (\<lambda>_. False)"
| "one_of [p] = p"
| "one_of (p # q # ps) = Alt p (one_of (q # ps))"

fun in_order :: "pattern list \<Rightarrow> pattern" where
  "in_order [] = no_chars"
| "in_order [p] = p"
| "in_order (p # q # ps) = Seq p (in_order (q # ps))"

definition maybe :: "pattern \<Rightarrow> pattern" where
  "maybe p = Alt p no_chars"

definition exactly :: "nat \<Rightarrow> (pystr \<Rightarrow> bool) \<Rightarrow> pattern" where
  "exactly n P = in_order (replicate n (Cls P))"

definition upper_digit :: "char \<Rightarrow> bool" where
  "upper_digit c = (is_upper c \<or> is_digit c)"

definition upper_digit_blank :: "char \<Rightarrow> bool" where
  "upper_digit_blank c = (upper_digit c \<or> c = CHR '' '')"

definition not_space :: "pystr \<Rightarrow> bool" where
  "not_space ch = (\<not> is_space ch)"

definition not_space_or :: "pystr \<Rightarrow> pystr \<Rightarrow> bool" where
  "not_space_or cs ch = (\<not> is_space ch \<and> ch \<notin> set (map (\<lambda>c. [c]) cs))"

definition quoted :: "char \<Rightarrow> pattern" where
  "quoted q = in_order [literal [q], Greedy 0 (\<lambda>ch. ch \<noteq> [q]), literal [q]]"

definition private_key_rule :: redaction_rule where
  "private_key_rule = \<lparr>rr_group = no_chars,
     rr_rest = in_order [literal ''-----BEGIN '', Greedy 0 (single upper_digit_blank), literal ''PRIVATE KEY-----'',
       Lazy 0 any_char, literal ''-----END '', Greedy 0 (single upper_digit_blank), literal ''PRIVATE KEY-----''],
     rr_keep_group = False, rr_replacement = ''[REDACTED_PRIVATE_KEY]''\<rparr>"

definition bearer_rule :: "(pystr \<Rightarrow> bool) \<Rightarrow> redaction_rule" where
  "bearer_rule uni = \<lparr>rr_group = in_order [WordEdge (word_char uni), literal_ci ''Bearer'', Greedy 1 is_space],
     rr_rest = Greedy 8 (single_ci (\<lambda>c. is_alnum c \<or> c \<in> set ''._~+/=-'')),
     rr_keep_group = True, rr_replacement = ''[REDACTED]''\<rparr>"

definition url_rule :: "(pystr \<Rightarrow> bool) \<Rightarrow> redaction_rule" where
  "url_rule uni = \<lparr>rr_group = in_order [WordEdge (word_char uni), literal_ci ''http'', maybe (literal_ci ''s''), literal ''://''],
     rr_rest = in_order [Greedy 1 (not_space_or ''/@:''), literal '':'', Greedy 1 (not_space_or ''/@''), literal ''@''],
     rr_keep_group = True, rr_replacement = ''[REDACTED]@''\<rparr>"

definition dash_or_underscore :: pattern where
  "dash_or_underscore = maybe (one_of [literal ''_'', literal ''-''])"

definition assignment_rule :: "(pystr \<Rightarrow> bool) \<Rightarrow> redaction_rule" where
  "assignment_rule uni = \<lparr>rr_group = in_order [WordEdge (word_char uni),
       one_of [literal_ci ''password'', literal_ci ''passwd'', literal_ci ''pwd'',
         in_order [literal_ci ''api'', dash_or_underscore, literal_ci ''key''],
         in_order [literal_ci ''access'', dash_or_underscore, literal_ci ''token''], literal_ci ''secret''],
       Greedy 0 is_space, one_of [literal ''='', literal '':''], Greedy 0 is_space],
     rr_rest = one_of [quoted QT, quoted SQ, Greedy 1 (not_space_or '',;'')],
     rr_keep_group = True, rr_replacement = ''[REDACTED]''\<rparr>"

definition option_rule :: redaction_rule where
  "option_rule = \<lparr>rr_group = in_order [literal ''--'',
       one_of [literal_ci ''password'', literal_ci ''passwd'', literal_ci ''api-key'', literal_ci ''access-token'',
         literal_ci ''secret''], Greedy 1 is_space],
     rr_rest = one_of [quoted QT, quoted SQ, Greedy 1 not_space],
     rr_keep_group = True, rr_replacement = ''[REDACTED]''\<rparr>"

definition github_rule :: "(pystr \<Rightarrow> bool) \<Rightarrow> redaction_rule" where
  "github_rule uni = \<lparr>rr_group = WordEdge (word_char uni),
     rr_rest = in_order [literal ''gh'', Cls (single (\<lambda>c. c \<in> set ''pousr'')), literal ''_'', Greedy 20 (single is_alnum),
       WordEdge (word_char uni)],
     rr_keep_group = False, rr_replacement = ''[REDACTED_GITHUB_TOKEN]''\<rparr>"

definition api_key_rule :: "(pystr \<Rightarrow> bool) \<Rightarrow> redaction_rule" where
  "api_key_rule uni = \<lparr>rr_group = WordEdge (word_char uni),
     rr_rest = in_order [one_of [literal ''sk'', literal ''pk'', literal ''rk''], literal ''-'',
       one_of [literal ''live'', literal ''test''], literal ''-'',
       Greedy 12 (single (\<lambda>c. is_alnum c \<or> c = CHR ''_'' \<or> c = CHR ''-'')), WordEdge (word_char uni)],
     rr_keep_group = False, rr_replacement = ''[REDACTED_API_KEY]''\<rparr>"

definition aws_rule :: "(pystr \<Rightarrow> bool) \<Rightarrow> redaction_rule" where
  "aws_rule uni = \<lparr>rr_group = WordEdge (word_char uni),
     rr_rest = in_order [literal ''AKIA'', exactly 16 (single upper_digit), WordEdge (word_char uni)],
     rr_keep_group = False, rr_replacement = ''[REDACTED_AWS_ACCESS_KEY]''\<rparr>"

definition PATTERNS :: "(pystr \<Rightarrow> bool) \<Rightarrow> redaction_rule list" where
  "PATTERNS uni = [private_key_rule, bearer_rule uni, url_rule uni, assignment_rule uni, option_rule, github_rule uni,
     api_key_rule uni, aws_rule uni]"

section \<open>Replacing\<close>

text \<open>The first match of a rule at a position: the ends of its group and of the whole.\<close>

definition rule_match :: "redaction_rule \<Rightarrow> text_chars \<Rightarrow> nat \<Rightarrow> (nat \<times> nat) option" where
  "rule_match rule s i =
     (case concat (map (\<lambda>m. map (Pair m) (ends (rr_rest rule) s m)) (ends (rr_group rule) s i)) of
        [] \<Rightarrow> None | me # _ \<Rightarrow> Some me)"

definition replaced :: "redaction_rule \<Rightarrow> text_chars \<Rightarrow> nat \<Rightarrow> nat \<Rightarrow> pystr" where
  "replaced rule s i m = (if rr_keep_group rule then concat (take (m - i) (drop i s)) else []) @ rr_replacement rule"

text \<open>\<^verbatim>\<open>pattern.subn(replacement, value)\<close> from a position on, for a pattern without empty matches.\<close>

function subn_from :: "redaction_rule \<Rightarrow> text_chars \<Rightarrow> nat \<Rightarrow> pystr \<times> nat" where
  "subn_from rule s i =
     (if length s \<le> i then ([], 0)
      else case rule_match rule s i of
        None \<Rightarrow> (case subn_from rule s (Suc i) of (r, n) \<Rightarrow> (s ! i @ r, n))
      | Some (m, e) \<Rightarrow> (case subn_from rule s (max (Suc i) e) of (r, n) \<Rightarrow> (replaced rule s i m @ r, Suc n)))"
  by pat_completeness auto
termination
  by (relation "measure (\<lambda>(rule, s, i). length s - i)") auto

declare subn_from.simps [simp del]

definition subn :: "redaction_rule \<Rightarrow> pystr \<Rightarrow> pystr \<times> nat" where
  "subn rule value = subn_from rule (py_chars value) 0"

fun apply_rules :: "redaction_rule list \<Rightarrow> pystr \<Rightarrow> bool \<Rightarrow> pystr \<times> bool" where
  "apply_rules [] value redacted = (value, redacted)"
| "apply_rules (rule # rules) value redacted =
     (case subn rule value of (value', count) \<Rightarrow> apply_rules rules value' (redacted \<or> 0 < count))"

section \<open>Truncating\<close>

definition ELLIPSIS :: pystr where
  "ELLIPSIS = [CHR 0xE2, CHR 0x80, CHR 0xA6]"

lemma utf8_error_start:
  "utf8_error i s = Some e \<Longrightarrow> i \<le> ue_start e \<and> ue_start e < i + length s"
proof (induction i s rule: utf8_error.induct)
  case (2 i c rest)
  obtain st n where u: "utf8_next c rest = (st, n)" by fastforce
  show ?case
  proof (cases st)
    case UOk
    then have "utf8_error (i + n) (drop n (c # rest)) = Some e" using "2.prems" u by (simp add: utf8_error.simps(2))
    from "2.IH" [OF u [symmetric] UOk this] show ?thesis by auto
  qed (use "2.prems" u in \<open>auto simp: utf8_error.simps(2)\<close>)
qed simp

text \<open>The \<^verbatim>\<open>while\<close> loop: cut in front of the first malformed sequence until the rest decodes.\<close>

function decodable_prefix :: "bytes \<Rightarrow> bytes" where
  "decodable_prefix prefix =
     (if prefix = [] then []
      else case decode_strict prefix of
        Inr text \<Rightarrow> text
      | Inl e \<Rightarrow> decodable_prefix (take (ue_start e) prefix))"
  by pat_completeness auto
termination
  by (relation "measure length") (auto simp: decode_strict_def dest!: utf8_error_start split: option.splits)

declare decodable_prefix.simps [simp del]

definition truncate_utf8 :: "pystr \<Rightarrow> nat \<Rightarrow> pystr \<times> bool" where
  "truncate_utf8 value byte_limit =
     (if length value \<le> byte_limit then (value, False)
      else (decodable_prefix (take (byte_limit - length ELLIPSIS) value) @ ELLIPSIS, True))"

definition redact_preview :: "(pystr \<Rightarrow> bool) \<Rightarrow> pystr \<Rightarrow> int \<Rightarrow> redaction_result res" where
  "redact_preview uni text_value max_bytes =
     (if max_bytes < 16 then Inl (ValueError ''max_bytes must be an integer of at least 16'')
      else case apply_rules (PATTERNS uni) text_value False of
        (value, redacted) \<Rightarrow>
          (case truncate_utf8 value (nat max_bytes) of
             (preview, truncated) \<Rightarrow> Inr \<lparr>red_text = preview, red_redacted = redacted, red_truncated = truncated\<rparr>))"

section \<open>What a preview shows\<close>

text \<open>Every match of a rule has characters, so that replacing makes progress.\<close>

fun min_length :: "pattern \<Rightarrow> nat" where
  "min_length (Cls P) = 1"
| "min_length (Seq p q) = min_length p + min_length q"
| "min_length (Alt p q) = min (min_length p) (min_length q)"
| "min_length (Greedy n P) = n"
| "min_length (Lazy n P) = n"
| "min_length _ = 0"

lemma ends_min_length: "e \<in> set (ends p s i) \<Longrightarrow> i + min_length p \<le> e"
proof (induction p arbitrary: i e)
  case (Seq p q)
  then obtain m where "m \<in> set (ends p s i)" "e \<in> set (ends q s m)" by auto
  with Seq.IH(1) [of m i] Seq.IH(2) [of e m] show ?case by simp
next
  case (Alt p q)
  then consider "e \<in> set (ends p s i)" | "e \<in> set (ends q s i)" by auto
  then show ?case using Alt.IH(1) [of e i] Alt.IH(2) [of e i] by cases (simp_all add: min_le_iff_disj)
qed (auto split: if_splits simp del: upt_Suc)

lemma rule_match_Some:
  assumes "rule_match rule s i = Some (m, e)"
  shows "m \<in> set (ends (rr_group rule) s i) \<and> e \<in> set (ends (rr_rest rule) s m)"
proof -
  let ?l = "concat (map (\<lambda>m. map (Pair m) (ends (rr_rest rule) s m)) (ends (rr_group rule) s i))"
  obtain rest where "?l = (m, e) # rest" using assms by (auto simp: rule_match_def split: list.splits)
  then have "(m, e) \<in> set ?l" by (simp only: list.set_intros)
  then show ?thesis by auto
qed

lemma rules_consume: "rule \<in> set (PATTERNS uni) \<Longrightarrow> 0 < min_length (rr_group rule) + min_length (rr_rest rule)"
  by (auto simp: PATTERNS_def private_key_rule_def bearer_rule_def url_rule_def assignment_rule_def option_rule_def
      github_rule_def api_key_rule_def aws_rule_def quoted_def)

lemma rule_match_nonempty:
  "rule \<in> set (PATTERNS uni) \<Longrightarrow> rule_match rule s i = Some (m, e) \<Longrightarrow> i \<le> m \<and> m \<le> e \<and> i < e"
  using rules_consume [of rule uni] ends_min_length [of m "rr_group rule" s i] ends_min_length [of e "rr_rest rule" s m]
    rule_match_Some [of rule s i m e] by simp linarith

lemma subn_from_none:
  "subn_from rule s i = (r, 0) \<Longrightarrow> r = concat (drop i s)"
proof (induction rule s i arbitrary: r rule: subn_from.induct)
  case (1 rule s i)
  show ?case
  proof (cases "length s \<le> i")
    case False
    then have none: "rule_match rule s i = None"
      using "1.prems" by (subst (asm) subn_from.simps) (auto split: option.splits prod.splits)
    obtain r' where r': "subn_from rule s (Suc i) = (r', 0)" "r = s ! i @ r'"
      using "1.prems" False none by (subst (asm) subn_from.simps) (auto split: prod.splits)
    have "r' = concat (drop (Suc i) s)" using "1.IH"(1) [OF False none r'(1)] .
    then show ?thesis using r'(2) Cons_nth_drop_Suc [of i s] False by (metis concat.simps(2) not_le)
  qed (use "1.prems" in \<open>simp add: subn_from.simps\<close>)
qed

lemma subn_from_no_match:
  "subn_from rule s i = (r, 0) \<Longrightarrow> i \<le> j \<Longrightarrow> j < length s \<Longrightarrow> rule_match rule s j = None"
proof (induction rule s i arbitrary: r rule: subn_from.induct)
  case (1 rule s i)
  then have le: "\<not> length s \<le> i" by simp
  then have none: "rule_match rule s i = None"
    using "1.prems"(1) by (subst (asm) subn_from.simps) (auto split: option.splits prod.splits)
  obtain r' where "subn_from rule s (Suc i) = (r', 0)"
    using "1.prems"(1) le none by (subst (asm) subn_from.simps) (auto split: prod.splits)
  from "1.IH"(1) [OF le none this] "1.prems"(2,3) none show ?case by (cases "j = i") simp_all
qed

lemma subn_none: "subn rule value = (r, 0) \<Longrightarrow> r = value"
  using subn_from_none [of rule "py_chars value" 0 r] by (simp add: subn_def)

lemma subn_none_no_match:
  assumes "subn rule v = (r, 0)" and "i < length (py_chars v)"
  shows "rule_match rule (py_chars v) i = None"
  using subn_from_no_match [of rule "py_chars v" 0 r i] assms by (simp add: subn_def)

lemma apply_rules_keep: "snd (apply_rules rules v True)"
  by (induction rules arbitrary: v) (auto split: prod.split)

lemma apply_rules_none:
  "apply_rules rules v False = (v', False) \<Longrightarrow>
     v' = v \<and> (\<forall>rule \<in> set rules. \<forall>i < length (py_chars v). rule_match rule (py_chars v) i = None)"
proof (induction rules arbitrary: v)
  case (Cons rule rules)
  obtain w n where s: "subn rule v = (w, n)" by fastforce
  have n: "n = 0" using Cons.prems s apply_rules_keep [of rules w] by (cases n) auto
  then have "w = v" using s subn_none by blast
  with Cons.IH [of v] Cons.prems s n subn_none_no_match [of rule v w] show ?case by auto
qed simp

lemma decodable_prefix_ok:
  "decode_strict (decodable_prefix b) = Inr (decodable_prefix b) \<and> (\<exists>n. decodable_prefix b = take n b)"
proof (induction b rule: decodable_prefix.induct)
  case (1 b)
  show ?case
  proof (cases "b = []")
    case False
    show ?thesis
    proof (cases "decode_strict b")
      case (Inl e)
      from "1.IH" [OF False Inl] obtain n where "decodable_prefix (take (ue_start e) b) = take n (take (ue_start e) b)"
        and "decode_strict (decodable_prefix (take (ue_start e) b)) = Inr (decodable_prefix (take (ue_start e) b))" by blast
      then show ?thesis
        using False Inl decodable_prefix.simps [of b] by (metis sum.case(1) take_take)
    next
      case (Inr t)
      then have "t = b" by (rule decode_strict_Inr)
      with Inr False show ?thesis using decodable_prefix.simps [of b] by (metis sum.case(2) take_all order_refl)
    qed
  qed (simp add: decodable_prefix.simps)
qed

text \<open>
  C38: what the audit log shows of a command. A preview has at most the permitted number of bytes. When
  nothing was redacted and nothing cut off it is the command itself. When it was cut off, it is a
  prefix of the redacted command, never cut inside a character, followed by an ellipsis. A command in which
  any of the rules has a match anywhere is never reported as not redacted.
\<close>

theorem preview_faithful:
  assumes "redact_preview uni command limit = Inr r"
  shows "length (red_text r) \<le> nat limit \<and> 16 \<le> limit \<and>
    (\<not> red_redacted r \<and> \<not> red_truncated r \<longrightarrow> red_text r = command) \<and>
    (red_truncated r \<longrightarrow> (\<exists>kept n. red_text r = kept @ ELLIPSIS \<and> decode_strict kept = Inr kept \<and>
       kept = take n (fst (apply_rules (PATTERNS uni) command False)))) \<and>
    (\<not> red_redacted r \<longrightarrow> (\<forall>rule \<in> set (PATTERNS uni). \<forall>i < length (py_chars command).
       rule_match rule (py_chars command) i = None))"
proof -
  obtain "value" redacted where v: "apply_rules (PATTERNS uni) command False = (value, redacted)" by fastforce
  let ?b = "take (nat limit - length ELLIPSIS) value"
  obtain m where ok: "decode_strict (decodable_prefix ?b) = Inr (decodable_prefix ?b)" "decodable_prefix ?b = take m ?b"
    using decodable_prefix_ok by blast
  have lim: "16 \<le> limit" and
    r: "r = (case truncate_utf8 value (nat limit) of (preview, truncated) \<Rightarrow>
      \<lparr>red_text = preview, red_redacted = redacted, red_truncated = truncated\<rparr>)"
    using assms v by (auto simp: redact_preview_def split: if_splits prod.splits)
  have same: "\<not> redacted \<longrightarrow> value = command \<and> (\<forall>rule \<in> set (PATTERNS uni). \<forall>i < length (py_chars command).
       rule_match rule (py_chars command) i = None)"
    using apply_rules_none [of "PATTERNS uni" command "value"] v by auto
  show ?thesis
  proof (cases "length value \<le> nat limit")
    case True
    then show ?thesis using r lim same v by (simp add: truncate_utf8_def)
  next
    case False
    then have rr: "red_text r = decodable_prefix ?b @ ELLIPSIS" "red_redacted r = redacted" "red_truncated r"
      using r by (simp_all add: truncate_utf8_def)
    have "length (decodable_prefix ?b) + 3 \<le> nat limit" unfolding ok(2) using lim by (auto simp: ELLIPSIS_def)
    moreover have "decodable_prefix ?b = take (min m (nat limit - length ELLIPSIS)) value" using ok(2) by simp
    ultimately show ?thesis using rr lim same v ok(1) by (auto simp: ELLIPSIS_def)
  qed
qed

lemma demo_redaction:
  "redact_preview (\<lambda>_. False) ''pwd=a b'' 512 =
     Inr \<lparr>red_text = ''pwd=[REDACTED] b'', red_redacted = True, red_truncated = False\<rparr>"
  by code_simp

theorem preview_faithful_witness:
  "\<exists>r. redact_preview (\<lambda>_. False) ''ls -l'' 512 = Inr r \<and> red_text r = ''ls -l''"
proof -
  let ?r = "\<lparr>red_text = ''ls -l'', red_redacted = False, red_truncated = False\<rparr>"
  have r: "redact_preview (\<lambda>_. False) ''ls -l'' 512 = Inr ?r" by code_simp
  have "\<not> red_redacted ?r \<and> \<not> red_truncated ?r" by simp
  with preview_faithful [OF r] have "red_text ?r = ''ls -l''" by blast
  with r show ?thesis by blast
qed

end
