(* ===== verification/Audit_Log.thy ===== *)
theory Audit_Log
  imports Redaction Ipc_Messages Broker_Model Config_Repository
begin

text \<open>
  \<^verbatim>\<open>security/audit.py\<close>, \<^verbatim>\<open>security/integration.py\<close> and \<^verbatim>\<open>security/profile_audit.py\<close>: the audit log, one file of
  JSON lines for each day, and the wrapper that records every call. The clock, the duration, the JSON
  writer, the hash and the Unicode data are arguments, and so is how an append ends: the lock may be
  refused or a write may fail, possibly after part of the line.
\<close>

section \<open>Events\<close>

definition AUDIT_SCHEMA_VERSION :: int where
  "AUDIT_SCHEMA_VERSION = 1"

record audit_write_result =
  aw_logged :: bool
  aw_command_redacted :: bool
  aw_command_preview_truncated :: bool

record audit_env =
  ae_unicode :: "pystr \<Rightarrow> bool"
  ae_sha256 :: "bytes \<Rightarrow> pystr"
  ae_codec :: json_codec

text \<open>A moment: its day, and its \<^verbatim>\<open>isoformat()\<close> in UTC in front of the offset \<^verbatim>\<open>+00:00\<close>.\<close>

record moment =
  mo_day :: pystr
  mo_iso :: pystr

text \<open>The keyword arguments of \<^verbatim>\<open>AuditLogger.record\<close>.\<close>

record audit_call =
  ac_tool :: pystr
  ac_action :: pystr
  ac_result :: "payload option"
  ac_duration_ms :: int
  ac_error_status :: "pystr option"
  ac_profile :: "pystr option"
  ac_session_id :: "pystr option"
  ac_ssh_user :: "pystr option"
  ac_effective_user :: "pystr option"
  ac_command :: "pystr option"

definition nonempty_text :: "json \<Rightarrow> pystr option" where
  "nonempty_text v = (case v of JStr (c # s) \<Rightarrow> Some (c # s) | _ \<Rightarrow> None)"

definition audit_integer :: "json \<Rightarrow> json" where
  "audit_integer v = (case v of JInt i \<Rightarrow> JInt i | _ \<Rightarrow> JNull)"

text \<open>\<^verbatim>\<open>a or b\<close> between values that are None or a text; an empty text counts as false.\<close>

definition or_else :: "pystr option \<Rightarrow> pystr option \<Rightarrow> pystr option" where
  "or_else a b = (case a of Some (c # s) \<Rightarrow> Some (c # s) | _ \<Rightarrow> b)"

definition PROFILE_TEXT_FIELDS :: "pystr list" where
  "PROFILE_TEXT_FIELDS = [''connection_type'', ''authentication'', ''environment'', ''elevation_mode'']"

definition PROFILE_BOOL_FIELDS :: "pystr list" where
  "PROFILE_BOOL_FIELDS = [''terminal_enabled'', ''file_read_enabled'', ''file_write_enabled'', ''root_session_enabled'']"

definition profile_event_fields :: "payload \<Rightarrow> payload" where
  "profile_event_fields response =
     (if ''profile_name'' \<notin> set (keys response) \<and>
         \<not> list_ex (\<lambda>name. name \<in> set (keys response)) (PROFILE_TEXT_FIELDS @ PROFILE_BOOL_FIELDS)
      then []
      else (''profile_name'', json_option (nonempty_text (pget response ''profile_name''))) #
        map (\<lambda>name. (name, json_option (nonempty_text (pget response name)))) PROFILE_TEXT_FIELDS @
        map (\<lambda>name. (name, case pget response name of JBool b \<Rightarrow> JBool b | _ \<Rightarrow> JNull)) PROFILE_BOOL_FIELDS)"

text \<open>\<^verbatim>\<open>redact_preview(command)\<close> with the default limit always returns.\<close>

definition command_preview :: "audit_env \<Rightarrow> pystr option \<Rightarrow> redaction_result option" where
  "command_preview env command =
     (case command of
        None \<Rightarrow> None
      | Some c \<Rightarrow> (case redact_preview (ae_unicode env) c DEFAULT_PREVIEW_BYTES of Inr r \<Rightarrow> Some r | Inl _ \<Rightarrow> None))"

definition audit_event :: "audit_env \<Rightarrow> moment \<Rightarrow> audit_call \<Rightarrow> payload" where
  "audit_event env mo a =
     (let response = (case ac_result a of None \<Rightarrow> [] | Some d \<Rightarrow> d);
          preview = command_preview env (ac_command a)
      in dmerge
        [(''schema_version'', JInt AUDIT_SCHEMA_VERSION),
         (''timestamp'', JStr (mo_iso mo @ ''Z'')),
         (''profile'', json_option (or_else (nonempty_text (pget response ''profile_name'')) (ac_profile a))),
         (''session_id'', json_option (or_else (nonempty_text (pget response ''session_id'')) (ac_session_id a))),
         (''ssh_user'', json_option (or_else (nonempty_text (pget response ''ssh_user'')) (ac_ssh_user a))),
         (''effective_user'', json_option (or_else (nonempty_text (pget response ''effective_user'')) (ac_effective_user a))),
         (''tool'', JStr (ac_tool a)),
         (''action'', JStr (ac_action a)),
         (''result_status'', json_option (or_else (ac_error_status a)
            (or_else (nonempty_text (pget response ''status'')) (Some ''completed'')))),
         (''exit_code'', audit_integer (pget response ''exit_code'')),
         (''duration_ms'', JInt (max 0 (ac_duration_ms a))),
         (''output_truncated'', JBool (pget response ''truncated'' = JBool True)),
         (''elevated'', JBool (pget response ''elevated'' = JBool True)),
         (''command_preview'', case preview of None \<Rightarrow> JNull | Some p \<Rightarrow> JStr (red_text p)),
         (''command_sha256'', case ac_command a of None \<Rightarrow> JNull | Some c \<Rightarrow> JStr (ae_sha256 env c)),
         (''command_redacted'', JBool (case preview of None \<Rightarrow> False | Some p \<Rightarrow> red_redacted p)),
         (''command_preview_truncated'', JBool (case preview of None \<Rightarrow> False | Some p \<Rightarrow> red_truncated p))]
        (profile_event_fields response))"

definition write_result :: "audit_env \<Rightarrow> bool \<Rightarrow> pystr option \<Rightarrow> audit_write_result" where
  "write_result env logged command =
     (let preview = command_preview env command
      in \<lparr>aw_logged = logged,
          aw_command_redacted = (case preview of None \<Rightarrow> False | Some p \<Rightarrow> red_redacted p),
          aw_command_preview_truncated = (case preview of None \<Rightarrow> False | Some p \<Rightarrow> red_truncated p)\<rparr>)"

section \<open>The log\<close>

type_synonym audit_log = "pystr dict"

datatype append_outcome = Appended | NotAppended exn | AppendedPart nat exn | AppendedButFailed exn

definition day_file :: "pystr \<Rightarrow> pystr" where
  "day_file day = day @ ''.jsonl''"

definition day_lines :: "audit_log \<Rightarrow> pystr \<Rightarrow> pystr" where
  "day_lines logs name = (case map_of logs name of None \<Rightarrow> [] | Some t \<Rightarrow> t)"

definition add_lines :: "pystr \<Rightarrow> pystr \<Rightarrow> audit_log \<Rightarrow> audit_log" where
  "add_lines name t logs = dput name (day_lines logs name @ t) logs"

fun append_line :: "append_outcome \<Rightarrow> pystr \<Rightarrow> pystr \<Rightarrow> audit_log \<Rightarrow> audit_log \<times> unit res" where
  "append_line Appended name line logs = (add_lines name line logs, Inr ())"
| "append_line (NotAppended e) name line logs = (logs, Inl e)"
| "append_line (AppendedPart n e) name line logs = (add_lines name (take n line) logs, Inl e)"
| "append_line (AppendedButFailed e) name line logs = (add_lines name line logs, Inl e)"

definition audit_append :: "audit_env \<Rightarrow> append_outcome \<Rightarrow> pystr \<Rightarrow> payload \<Rightarrow> audit_log \<Rightarrow> audit_log \<times> unit res" where
  "audit_append env outcome day event =
     bindS (liftS (someE (jc_dumps (ae_codec env) (JObj event)) (ValueError ''cannot encode the event''))) (\<lambda>line.
     append_line outcome (day_file day) (line @ [LF]))"

definition audit_record :: "audit_env \<Rightarrow> moment \<Rightarrow> append_outcome \<Rightarrow> audit_call \<Rightarrow> audit_log \<Rightarrow> audit_log \<times> audit_write_result res" where
  "audit_record env mo outcome a =
     bindS (audit_append env outcome (mo_day mo) (audit_event env mo a)) (\<lambda>_.
     liftS (Inr (write_result env True (ac_command a))))"

section \<open>Recorded calls\<close>

text \<open>\<^verbatim>\<open>round\<close> of a number, to the even neighbour in the middle, and the milliseconds between two clocks.\<close>

definition round_half_even :: "rat \<Rightarrow> int" where
  "round_half_even r =
     (let f = \<lfloor>r\<rfloor>; d = r - of_int f
      in if d < 1 / 2 then f else if 1 / 2 < d then f + 1 else if even f then f else f + 1)"

definition elapsed_ms :: "rat \<Rightarrow> rat \<Rightarrow> int" where
  "elapsed_ms started now = max 0 (round_half_even ((now - started) * 1000))"

definition safe_record :: "audit_env \<Rightarrow> moment \<Rightarrow> append_outcome \<Rightarrow> audit_call \<Rightarrow> audit_log \<Rightarrow> audit_log \<times> audit_write_result" where
  "safe_record env mo outcome a logs =
     (case audit_record env mo outcome a logs of
        (logs', Inr w) \<Rightarrow> (logs', w)
      | (logs', Inl _) \<Rightarrow> (logs', write_result env False (ac_command a)))"

text \<open>What the surroundings of one recorded call decide.\<close>

record call_env =
  ce_moment :: moment
  ce_started :: rat
  ce_finished :: rat
  ce_append :: append_outcome

definition audit_answer :: "audit_write_result \<Rightarrow> json" where
  "audit_answer w = JObj [(''logged'', JBool (aw_logged w)), (''command_redacted'', JBool (aw_command_redacted w)),
     (''command_preview_truncated'', JBool (aw_command_preview_truncated w))]"

definition error_status :: "exn \<Rightarrow> pystr" where
  "error_status e = (case exn_code e of None \<Rightarrow> ''error'' | Some c \<Rightarrow> c)"

text \<open>\<^verbatim>\<open>ApplicationAudit.call\<close>; without a logger the operation runs alone.\<close>

definition audited_call ::
  "audit_env option \<Rightarrow> call_env \<Rightarrow> pystr \<Rightarrow> pystr \<Rightarrow> ('s \<Rightarrow> 's \<times> payload res) \<Rightarrow> pystr option \<Rightarrow> pystr option \<Rightarrow> pystr option \<Rightarrow>
   's \<times> audit_log \<Rightarrow> ('s \<times> audit_log) \<times> payload res" where
  "audited_call logger c tool action operation profile session_id command st =
     (case st of (s, logs) \<Rightarrow>
       case operation s of (s', result) \<Rightarrow>
         (case logger of
            None \<Rightarrow> ((s', logs), result)
          | Some env \<Rightarrow>
              let a = \<lparr>ac_tool = tool, ac_action = action, ac_result = (case result of Inl _ \<Rightarrow> None | Inr d \<Rightarrow> Some d),
                    ac_duration_ms = elapsed_ms (ce_started c) (ce_finished c),
                    ac_error_status = (case result of Inl e \<Rightarrow> Some (error_status e) | Inr _ \<Rightarrow> None),
                    ac_profile = profile, ac_session_id = session_id, ac_ssh_user = None, ac_effective_user = None,
                    ac_command = command\<rparr>
              in case safe_record env (ce_moment c) (ce_append c) a logs of
                (logs', w) \<Rightarrow>
                  ((s', logs'), case result of Inl e \<Rightarrow> Inl e | Inr d \<Rightarrow> Inr (dput ''audit'' (audit_answer w) d))))"

section \<open>The record of profile changes\<close>

definition AUDIT_ENVIRONMENTS :: "pystr list" where
  "AUDIT_ENVIRONMENTS = [''unspecified'', ''test'', ''development'', ''staging'', ''production'']"

text \<open>\<^verbatim>\<open>SetupAuditStatus\<close> is its one field.\<close>

definition answer_logged :: "json \<Rightarrow> bool" where
  "answer_logged v = (case v of JObj d \<Rightarrow> pget d ''logged'' = JBool True | _ \<Rightarrow> False)"

definition status_from_result :: "payload \<Rightarrow> bool" where
  "status_from_result result = answer_logged (pget result ''audit'')"

definition status_combine :: "bool list \<Rightarrow> bool" where
  "status_combine statuses = (statuses \<noteq> [] \<and> list_all (\<lambda>s. s) statuses)"

definition status_attach :: "bool \<Rightarrow> payload \<Rightarrow> payload" where
  "status_attach logged result =
     (let previous_logged = (case pget result ''audit'' of JObj d \<Rightarrow> pget d ''logged'' = JBool True | _ \<Rightarrow> True)
      in dput ''audit'' (JObj [(''logged'', JBool (logged \<and> previous_logged))]) result)"

definition safe_profile_capabilities :: "server_profile \<Rightarrow> payload" where
  "safe_profile_capabilities p =
     [(''connection_type'', JStr (connection_type_value (connection_type_of p))),
      (''authentication'', JStr (authentication_value (authentication_of p))),
      (''environment'', JStr (if environment p \<in> set AUDIT_ENVIRONMENTS then environment p else ''custom'')),
      (''terminal_enabled'', JBool (allow_terminal p)),
      (''file_read_enabled'', JBool (allow_file_read p)),
      (''file_write_enabled'', JBool (allow_file_write p)),
      (''elevation_mode'', JStr (elevation_mode_value (elevation_mode_of p))),
      (''root_session_enabled'', JBool (allow_root_session p))]"

definition profile_audit_record ::
  "audit_env option \<Rightarrow> moment \<Rightarrow> append_outcome \<Rightarrow> pystr \<Rightarrow> pystr \<Rightarrow> server_profile option \<Rightarrow> pystr \<Rightarrow> audit_log \<Rightarrow> audit_log \<times> bool" where
  "profile_audit_record logger mo outcome action profile_name profile result_status logs =
     (case logger of
        None \<Rightarrow> (logs, False)
      | Some env \<Rightarrow>
          let result = [(''profile_name'', JStr profile_name), (''status'', JStr result_status)] @
                (case profile of None \<Rightarrow> [] | Some p \<Rightarrow> safe_profile_capabilities p);
              a = \<lparr>ac_tool = ''server_profile_setup'', ac_action = action, ac_result = Some result, ac_duration_ms = 0,
                    ac_error_status = None, ac_profile = Some profile_name, ac_session_id = None, ac_ssh_user = None,
                    ac_effective_user = None, ac_command = None\<rparr>
          in case audit_record env mo outcome a logs of
            (logs', Inl _) \<Rightarrow> (logs', False)
          | (logs', Inr w) \<Rightarrow> (logs', aw_logged w))"

section \<open>What a recorded call guarantees\<close>

text \<open>The log has one more complete line, that of the event, and nothing else has changed.\<close>

definition event_recorded :: "audit_env \<Rightarrow> moment \<Rightarrow> audit_call \<Rightarrow> audit_log \<Rightarrow> audit_log \<Rightarrow> bool" where
  "event_recorded env mo a logs logs' =
     (\<exists>line. jc_dumps (ae_codec env) (JObj (audit_event env mo a)) = Some line \<and>
        logs' = add_lines (day_file (mo_day mo)) (line @ [LF]) logs)"

text \<open>Nothing that was in the log is lost.\<close>

definition log_extended :: "audit_log \<Rightarrow> audit_log \<Rightarrow> bool" where
  "log_extended logs logs' = (\<forall>name. \<exists>t. day_lines logs' name = day_lines logs name @ t)"

lemma day_lines_add: "day_lines (add_lines name t logs) other = (if other = name then day_lines logs name @ t else day_lines logs other)"
  by (simp add: day_lines_def add_lines_def)

lemma log_extended_refl [simp]: "log_extended logs logs"
  by (simp add: log_extended_def)

lemma log_extended_add [simp]: "log_extended logs (add_lines name t logs)"
  by (simp add: log_extended_def day_lines_add)

lemma append_line_cases:
  "append_line outcome name line logs = (logs', r) \<Longrightarrow>
     log_extended logs logs' \<and> (r = Inr () \<longrightarrow> outcome = Appended \<and> logs' = add_lines name line logs)"
  by (cases outcome) auto

lemma safe_record_cases:
  assumes "safe_record env mo outcome a logs = (logs', w)"
  shows "log_extended logs logs' \<and> w = write_result env (aw_logged w) (ac_command a) \<and>
    (aw_logged w \<longrightarrow> event_recorded env mo a logs logs') \<and>
    (outcome = Appended \<and> jc_dumps (ae_codec env) (JObj (audit_event env mo a)) \<noteq> None \<longrightarrow> aw_logged w)"
proof (cases "jc_dumps (ae_codec env) (JObj (audit_event env mo a))")
  case None
  then show ?thesis
    using assms by (auto simp: safe_record_def audit_record_def audit_append_def bindS_def write_result_def Let_def)
next
  case (Some line)
  obtain l r where ap: "append_line outcome (day_file (mo_day mo)) (line @ [LF]) logs = (l, r)" by fastforce
  have "safe_record env mo outcome a logs = (l, write_result env (isOk r) (ac_command a))"
    using Some ap
    by (cases r) (simp_all add: safe_record_def audit_record_def audit_append_def bindS_def)
  then have lw: "logs' = l" "w = write_result env (isOk r) (ac_command a)" using assms by simp_all
  have "outcome = Appended \<longrightarrow> isOk r" using ap by auto
  then show ?thesis
    using append_line_cases [OF ap] Some
    by (cases r) (auto simp: lw write_result_def Let_def event_recorded_def)
qed

text \<open>The event of a call, from how its operation ended.\<close>

definition call_event ::
  "call_env \<Rightarrow> pystr \<Rightarrow> pystr \<Rightarrow> pystr option \<Rightarrow> pystr option \<Rightarrow> pystr option \<Rightarrow> payload res \<Rightarrow> audit_call" where
  "call_event c tool action profile session_id command result =
     \<lparr>ac_tool = tool, ac_action = action, ac_result = (case result of Inl _ \<Rightarrow> None | Inr d \<Rightarrow> Some d),
      ac_duration_ms = elapsed_ms (ce_started c) (ce_finished c),
      ac_error_status = (case result of Inl e \<Rightarrow> Some (error_status e) | Inr _ \<Rightarrow> None),
      ac_profile = profile, ac_session_id = session_id, ac_ssh_user = None, ac_effective_user = None, ac_command = command\<rparr>"

definition answered :: "audit_write_result \<Rightarrow> payload res \<Rightarrow> payload res" where
  "answered w result = (case result of Inl e \<Rightarrow> Inl e | Inr d \<Rightarrow> Inr (dput ''audit'' (audit_answer w) d))"

lemma audited_call_cases:
  assumes "audited_call (Some env) c tool action operation profile session_id command (s, logs) = ((s', logs'), r)"
  shows "\<exists>result w. operation s = (s', result) \<and> r = answered w result \<and> log_extended logs logs' \<and>
    (aw_logged w \<longrightarrow> event_recorded env (ce_moment c) (call_event c tool action profile session_id command result) logs logs')"
proof -
  obtain q result where op: "operation s = (q, result)" by fastforce
  let ?a = "call_event c tool action profile session_id command result"
  obtain l w where sr: "safe_record env (ce_moment c) (ce_append c) ?a logs = (l, w)" by fastforce
  have "audited_call (Some env) c tool action operation profile session_id command (s, logs) = ((q, l), answered w result)"
    using sr by (simp add: audited_call_def op call_event_def Let_def answered_def)
  then show ?thesis using assms op safe_record_cases [OF sr] by auto
qed

end
