(* ===== verification/Setup_Requests.thy ===== *)
theory Setup_Requests
  imports Runtime_Dir Config_Repository
begin

text \<open>
  \<^verbatim>\<open>setup/model.py\<close>, \<^verbatim>\<open>setup/store.py\<close>, \<^verbatim>\<open>setup/service.py\<close> and \<^verbatim>\<open>setup/app.py\<close>: the requests by which the
  assistant asks a person to add, edit, remove or test a profile in a local window, their records in
  the runtime directory, and the two processes that work on a record: the coordinator and the window.
  A directory maps file names to contents as in \<^verbatim>\<open>Runtime_Dir\<close>; how a write ends is an argument as in
  \<^verbatim>\<open>Config_Repository\<close>, and so are the clocks, the random token, and what the window returns.
\<close>

section \<open>Requests\<close>

definition SETUP_REQUEST_ID :: "pystr \<Rightarrow> bool" where
  "SETUP_REQUEST_ID s = (starts_with ''setup-'' s \<and> length s = 30 \<and> list_all is_hex (drop 6 s))"

definition SETUP_REQUEST_LIFETIME_SECONDS :: rat where
  "SETUP_REQUEST_LIFETIME_SECONDS = 30 * 60"

definition SECRET_RESULT_FIELDS :: "pystr list" where
  "SECRET_RESULT_FIELDS = [''password'', ''sudo_password'', ''key_passphrase'', ''passphrase'', ''private_key_content'']"

datatype setup_action = ADD | EDIT | REMOVE | TEST

fun setup_action_value :: "setup_action \<Rightarrow> pystr" where
  "setup_action_value ADD = ''add''"
| "setup_action_value EDIT = ''edit''"
| "setup_action_value REMOVE = ''remove''"
| "setup_action_value TEST = ''test''"

datatype setup_status =
  PENDING | RUNNING | CREATED | UPDATED | REMOVED | TESTED | CANCELLED | FAILED | EXPIRED

fun setup_status_value :: "setup_status \<Rightarrow> pystr" where
  "setup_status_value PENDING = ''user_interaction_required''"
| "setup_status_value RUNNING = ''running''"
| "setup_status_value CREATED = ''created''"
| "setup_status_value UPDATED = ''updated''"
| "setup_status_value REMOVED = ''removed''"
| "setup_status_value TESTED = ''tested''"
| "setup_status_value CANCELLED = ''cancelled''"
| "setup_status_value FAILED = ''failed''"
| "setup_status_value EXPIRED = ''expired''"

definition status_terminal :: "setup_status \<Rightarrow> bool" where
  "status_terminal s = (s \<notin> {PENDING, RUNNING})"

text \<open>\<^verbatim>\<open>SetupAction(value)\<close> and \<^verbatim>\<open>SetupStatus(value)\<close>\<close>

definition setup_actions :: "setup_action list" where
  "setup_actions = [ADD, EDIT, REMOVE, TEST]"

definition setup_statuses :: "setup_status list" where
  "setup_statuses = [PENDING, RUNNING, CREATED, UPDATED, REMOVED, TESTED, CANCELLED, FAILED, EXPIRED]"

definition setup_action_of :: "pystr \<Rightarrow> setup_action res" where
  "setup_action_of v =
     someE (List.find (\<lambda>a. setup_action_value a = v) setup_actions)
       (ValueError (py_repr v @ '' is not a valid SetupAction''))"

definition setup_status_of :: "pystr \<Rightarrow> setup_status res" where
  "setup_status_of v =
     someE (List.find (\<lambda>s. setup_status_value s = v) setup_statuses)
       (ValueError (py_repr v @ '' is not a valid SetupStatus''))"

definition new_setup_request_id :: "pystr \<Rightarrow> pystr" where
  "new_setup_request_id token_hex = ''setup-'' @ token_hex"

definition validate_setup_request_id :: "pystr \<Rightarrow> unit res" where
  "validate_setup_request_id v = guardE (SETUP_REQUEST_ID v) (ValueError ''request_id has an invalid format'')"

definition optional_suggestion :: "pystr option \<Rightarrow> pystr \<Rightarrow> pystr option res" where
  "optional_suggestion value field_name =
     (case value of
        None \<Rightarrow> Inr None
      | Some v \<Rightarrow>
          if v = [] \<or> v \<noteq> py_strip v \<or> 255 < py_len v \<or> NUL \<in> set v
          then Inl (ValueError (field_name @ '' must be trimmed text with at most 255 characters''))
          else if list_ex is_control v then Inl (ValueError (field_name @ '' contains a control character''))
          else Inr (Some v))"

record setup_request =
  rq_request_id :: pystr
  rq_action :: setup_action
  rq_created_at :: rat
  rq_expires_at :: rat
  rq_profile_name :: "pystr option"
  rq_suggested_host :: "pystr option"
  rq_suggested_user :: "pystr option"

text \<open>\<^verbatim>\<open>SetupRequest.__post_init__\<close>\<close>

definition new_setup_request :: "setup_request \<Rightarrow> setup_request res" where
  "new_setup_request r =
     bindE (validate_setup_request_id (rq_request_id r)) (\<lambda>_.
     bindE (guardE (\<not> rq_expires_at r \<le> rq_created_at r) (ValueError ''setup request expiry must follow creation'')) (\<lambda>_.
     bindE (case rq_profile_name r of None \<Rightarrow> Inr () | Some n \<Rightarrow> validate_profile_name n) (\<lambda>_.
     bindE (optional_suggestion (rq_suggested_host r) ''suggested_host'') (\<lambda>_.
     bindE (optional_suggestion (rq_suggested_user r) ''suggested_user'') (\<lambda>_.
     bindE (guardE (\<not> (rq_action r \<noteq> ADD \<and> rq_profile_name r = None))
       (ValueError (''profile_name is required for '' @ setup_action_value (rq_action r)))) (\<lambda>_.
     bindE (guardE (\<not> (rq_action r \<noteq> ADD \<and> (rq_suggested_host r \<noteq> None \<or> rq_suggested_user r \<noteq> None)))
       (ValueError ''suggestions are valid only when adding a profile'')) (\<lambda>_.
     Inr r)))))))"

definition create_setup_request ::
  "pystr \<Rightarrow> rat \<Rightarrow> setup_action \<Rightarrow> pystr option \<Rightarrow> pystr option \<Rightarrow> pystr option \<Rightarrow> setup_request res" where
  "create_setup_request token_hex now action profile_name suggested_host suggested_user =
     new_setup_request \<lparr>rq_request_id = new_setup_request_id token_hex, rq_action = action, rq_created_at = now,
       rq_expires_at = now + SETUP_REQUEST_LIFETIME_SECONDS, rq_profile_name = profile_name,
       rq_suggested_host = suggested_host, rq_suggested_user = suggested_user\<rparr>"

definition request_to_dict :: "setup_request \<Rightarrow> payload" where
  "request_to_dict r =
     [(''request_id'', JStr (rq_request_id r)), (''action'', JStr (setup_action_value (rq_action r))),
      (''created_at'', JFloat (rq_created_at r)), (''expires_at'', JFloat (rq_expires_at r)),
      (''profile_name'', json_option (rq_profile_name r)), (''suggested_host'', json_option (rq_suggested_host r)),
      (''suggested_user'', json_option (rq_suggested_user r))]"

text \<open>\<^verbatim>\<open>isinstance(value, int | float)\<close>, which accepts a boolean, and \<^verbatim>\<open>float(value)\<close> of such a value;
  a value that is None or a text.\<close>

fun is_number :: "json \<Rightarrow> bool" where
  "is_number (JInt _) = True"
| "is_number (JFloat _) = True"
| "is_number (JBool _) = True"
| "is_number _ = False"

fun to_float :: "json \<Rightarrow> rat res" where
  "to_float (JInt i) = float_of_int i"
| "to_float (JFloat r) = Inr r"
| "to_float (JBool b) = Inr (if b then 1 else 0)"
| "to_float _ = Inl (TypeError ''float() argument must be a string or a real number'')"

fun text_or_none :: "json \<Rightarrow> pystr option option" where
  "text_or_none JNull = Some None"
| "text_or_none (JStr s) = Some (Some s)"
| "text_or_none _ = None"

definition SETUP_REQUEST_FIELDS :: "pystr list" where
  "SETUP_REQUEST_FIELDS = [''request_id'', ''action'', ''created_at'', ''expires_at'', ''profile_name'',
     ''suggested_host'', ''suggested_user'']"

definition request_from_dict :: "payload \<Rightarrow> setup_request res" where
  "request_from_dict raw =
     (if set (keys raw) \<noteq> set SETUP_REQUEST_FIELDS then Inl (ValueError ''setup request fields are invalid'')
      else case (pget raw ''request_id'', pget raw ''action'') of
        (JStr request_id, JStr action) \<Rightarrow>
          if \<not> is_number (pget raw ''created_at'') \<or> \<not> is_number (pget raw ''expires_at'')
          then Inl (ValueError ''setup request timestamps are invalid'')
          else (case (text_or_none (pget raw ''profile_name''), text_or_none (pget raw ''suggested_host''),
                      text_or_none (pget raw ''suggested_user'')) of
              (Some profile_name, Some suggested_host, Some suggested_user) \<Rightarrow>
                bindE (setup_action_of action) (\<lambda>a.
                bindE (to_float (pget raw ''created_at'')) (\<lambda>created_at.
                bindE (to_float (pget raw ''expires_at'')) (\<lambda>expires_at.
                new_setup_request \<lparr>rq_request_id = request_id, rq_action = a, rq_created_at = created_at,
                  rq_expires_at = expires_at, rq_profile_name = profile_name, rq_suggested_host = suggested_host,
                  rq_suggested_user = suggested_user\<rparr>)))
            | _ \<Rightarrow> Inl (ValueError ''setup request suggestions are invalid''))
      | _ \<Rightarrow> Inl (ValueError ''setup request identifiers are invalid''))"

section \<open>Records\<close>

text \<open>
  \<^verbatim>\<open>key.lower()\<close>, as far as a result of ASCII letters depends on it: beside the ASCII capitals only the
  Kelvin sign has an ASCII letter as its lower case.
\<close>

definition lower_char :: "pystr \<Rightarrow> pystr" where
  "lower_char ch = (if map ord ch = [0xE2, 0x84, 0xAA] then ''k'' else map to_lower ch)"

definition py_lower :: "pystr \<Rightarrow> pystr" where
  "py_lower s = concat (map lower_char (py_chars s))"

definition secret_field :: "pystr \<Rightarrow> bool" where
  "secret_field key = (py_lower key \<in> set SECRET_RESULT_FIELDS)"

text \<open>The keys of a JSON object are texts, and the values of a JSON document are of the permitted types.\<close>

fun ensure_non_secret_result :: "json \<Rightarrow> unit res"
  and ensure_non_secret_list :: "json list \<Rightarrow> unit res"
  and ensure_non_secret_items :: "payload \<Rightarrow> unit res" where
  "ensure_non_secret_result (JObj ps) = ensure_non_secret_items ps"
| "ensure_non_secret_result (JList vs) = ensure_non_secret_list vs"
| "ensure_non_secret_result v = Inr ()"
| "ensure_non_secret_list [] = Inr ()"
| "ensure_non_secret_list (v # vs) = bindE (ensure_non_secret_result v) (\<lambda>_. ensure_non_secret_list vs)"
| "ensure_non_secret_items [] = Inr ()"
| "ensure_non_secret_items ((k, v) # ps) =
     (if secret_field k then Inl (ValueError (''setup result contains forbidden field: '' @ k))
      else bindE (ensure_non_secret_result v) (\<lambda>_. ensure_non_secret_items ps))"

record setup_record =
  rec_request :: setup_request
  rec_status :: setup_status
  rec_updated_at :: rat
  rec_result :: "payload option"
  rec_message :: "pystr option"

text \<open>\<^verbatim>\<open>SetupRecord.__post_init__\<close>\<close>

definition new_setup_record :: "setup_record \<Rightarrow> setup_record res" where
  "new_setup_record r =
     bindE (guardE (\<not> rec_updated_at r < rq_created_at (rec_request r))
       (ValueError ''setup status predates its request'')) (\<lambda>_.
     bindE (case rec_result r of None \<Rightarrow> Inr () | Some d \<Rightarrow> ensure_non_secret_result (JObj d)) (\<lambda>_.
     bindE (optional_suggestion (rec_message r) ''message'') (\<lambda>_. Inr r)))"

definition record_to_dict :: "setup_record \<Rightarrow> payload" where
  "record_to_dict r =
     [(''request'', JObj (request_to_dict (rec_request r))), (''status'', JStr (setup_status_value (rec_status r))),
      (''updated_at'', JFloat (rec_updated_at r)),
      (''result'', case rec_result r of None \<Rightarrow> JNull | Some d \<Rightarrow> JObj d), (''message'', json_option (rec_message r))]"

definition public_result :: "setup_record \<Rightarrow> payload" where
  "public_result r =
     (let document = [(''status'', JStr (setup_status_value (rec_status r))),
            (''request_id'', JStr (rq_request_id (rec_request r))),
            (''action'', JStr (setup_action_value (rq_action (rec_request r))))];
          document = (case rq_profile_name (rec_request r) of None \<Rightarrow> document
            | Some n \<Rightarrow> dput ''profile_name'' (JStr n) document);
          document = (case rec_result r of None \<Rightarrow> document | Some d \<Rightarrow> dmerge document d)
      in case rec_message r of None \<Rightarrow> document | Some m \<Rightarrow> dput ''message'' (JStr m) document)"

definition SETUP_RECORD_FIELDS :: "pystr list" where
  "SETUP_RECORD_FIELDS = [''request'', ''status'', ''updated_at'', ''result'', ''message'']"

definition record_from_dict :: "payload \<Rightarrow> setup_record res" where
  "record_from_dict raw =
     (if set (keys raw) \<noteq> set SETUP_RECORD_FIELDS then Inl (ValueError ''setup record fields are invalid'')
      else case (pget raw ''request'', pget raw ''status'') of
        (JObj request, JStr status) \<Rightarrow>
          if \<not> is_number (pget raw ''updated_at'') then Inl (ValueError ''setup record timestamp is invalid'')
          else bindE (case pget raw ''result'' of JNull \<Rightarrow> Inr None | JObj d \<Rightarrow> Inr (Some d)
                 | _ \<Rightarrow> Inl (ValueError ''setup result must be an object'')) (\<lambda>result.
               bindE (someE (text_or_none (pget raw ''message'')) (ValueError ''setup message must be text'')) (\<lambda>message.
               bindE (request_from_dict request) (\<lambda>req.
               bindE (setup_status_of status) (\<lambda>s.
               bindE (to_float (pget raw ''updated_at'')) (\<lambda>updated_at.
               new_setup_record \<lparr>rec_request = req, rec_status = s, rec_updated_at = updated_at,
                 rec_result = result, rec_message = message\<rparr>)))))
      | _ \<Rightarrow> Inl (ValueError ''setup record request or status is invalid''))"

section \<open>The store\<close>

type_synonym setup_dir = "bytes option dict"

fun put_file :: "write_outcome \<Rightarrow> pystr \<Rightarrow> bytes \<Rightarrow> setup_dir \<Rightarrow> setup_dir \<times> unit res" where
  "put_file Written name content dir = (dput name (Some content) dir, Inr ())"
| "put_file (NotWritten e) name content dir = (dir, Inl e)"
| "put_file (WrittenButFailed e) name content dir = (dput name (Some content) dir, Inl e)"

definition write_json :: "json_codec \<Rightarrow> write_outcome \<Rightarrow> pystr \<Rightarrow> payload \<Rightarrow> setup_dir \<Rightarrow> setup_dir \<times> unit res" where
  "write_json codec w name document =
     bindS (liftS (runtime_content codec document)) (\<lambda>content. put_file w name content)"

definition setup_path :: "pystr \<Rightarrow> pystr res" where
  "setup_path request_id = bindE (validate_setup_request_id request_id) (\<lambda>_. Inr (request_id @ ''.json''))"

text \<open>The name is reserved by an exclusive creation of an empty file (\<open>wr\<close>), then replaced (\<open>w\<close>).\<close>

definition write_new ::
  "json_codec \<Rightarrow> write_outcome \<Rightarrow> write_outcome \<Rightarrow> pystr \<Rightarrow> setup_record \<Rightarrow> setup_dir \<Rightarrow> setup_dir \<times> unit res" where
  "write_new codec wr w path r dir =
     (if path \<in> set (keys dir) then (dir, Inl (OSError ''File exists''))
      else bindS (put_file wr path []) (\<lambda>_ dir1.
        case write_json codec w path (record_to_dict r) dir1 of
          (dir2, Inl e) \<Rightarrow> (ddel path dir2, Inl e)
        | (dir2, Inr u) \<Rightarrow> (dir2, Inr u)) dir)"

definition store_create ::
  "json_codec \<Rightarrow> unit res \<Rightarrow> write_outcome \<Rightarrow> write_outcome \<Rightarrow> setup_request \<Rightarrow> setup_dir \<Rightarrow> setup_dir \<times> setup_record res" where
  "store_create codec prepared wr w request =
     bindS (liftS prepared) (\<lambda>_.
     bindS (liftS (setup_path (rq_request_id request))) (\<lambda>path dir.
       if path \<in> set (keys dir) then (dir, Inl (OSError ''setup request already exists''))
       else bindS (liftS (new_setup_record \<lparr>rec_request = request, rec_status = PENDING,
              rec_updated_at = rq_created_at request, rec_result = None, rec_message = None\<rparr>)) (\<lambda>r.
            bindS (write_new codec wr w path r) (\<lambda>_. liftS (Inr r))) dir))"

definition store_load :: "json_codec \<Rightarrow> pystr \<Rightarrow> setup_dir \<Rightarrow> setup_record res" where
  "store_load codec request_id dir =
     bindE (setup_path request_id) (\<lambda>path.
     bindE (someE (map_of dir path) (OSError (''setup request does not exist: '' @ request_id))) (\<lambda>content.
     bindE (read_json codec content) record_from_dict))"

text \<open>\<^verbatim>\<open>update\<close> reads the record, decides, and writes; other processes may act between the two parts.\<close>

definition decide_update ::
  "json_codec \<Rightarrow> pystr \<Rightarrow> setup_status \<Rightarrow> payload option \<Rightarrow> pystr option \<Rightarrow> rat \<Rightarrow> setup_dir \<Rightarrow> setup_record res" where
  "decide_update codec request_id status result message now dir =
     bindE (store_load codec request_id dir) (\<lambda>current.
     if status_terminal (rec_status current) then Inl (ValueError ''completed setup requests cannot be changed'')
     else new_setup_record \<lparr>rec_request = rec_request current, rec_status = status, rec_updated_at = now,
       rec_result = result, rec_message = message\<rparr>)"

definition write_update ::
  "json_codec \<Rightarrow> write_outcome \<Rightarrow> pystr \<Rightarrow> setup_record \<Rightarrow> setup_dir \<Rightarrow> setup_dir \<times> setup_record res" where
  "write_update codec w request_id r =
     bindS (liftS (setup_path request_id)) (\<lambda>path.
     bindS (write_json codec w path (record_to_dict r)) (\<lambda>_. liftS (Inr r)))"

definition store_update ::
  "json_codec \<Rightarrow> write_outcome \<Rightarrow> pystr \<Rightarrow> setup_status \<Rightarrow> payload option \<Rightarrow> pystr option \<Rightarrow> rat \<Rightarrow> setup_dir \<Rightarrow>
   setup_dir \<times> setup_record res" where
  "store_update codec w request_id status result message now dir =
     (case decide_update codec request_id status result message now dir of
        Inl e \<Rightarrow> (dir, Inl e)
      | Inr r \<Rightarrow> write_update codec w request_id r dir)"

definition EXPIRED_MESSAGE :: pystr where
  "EXPIRED_MESSAGE = ''The local setup request expired before completion.''"

definition expire_if_needed :: "json_codec \<Rightarrow> write_outcome \<Rightarrow> pystr \<Rightarrow> rat \<Rightarrow> setup_dir \<Rightarrow> setup_dir \<times> setup_record res" where
  "expire_if_needed codec w request_id now dir =
     bindS (liftS (store_load codec request_id dir)) (\<lambda>r.
       if \<not> status_terminal (rec_status r) \<and> rq_expires_at (rec_request r) \<le> now
       then store_update codec w request_id EXPIRED None (Some EXPIRED_MESSAGE) now
       else liftS (Inr r)) dir"

section \<open>The coordinator\<close>

text \<open>\<open>launched\<close> says how \<^verbatim>\<open>launcher.launch\<close> ended.\<close>

definition coordinator_start ::
  "json_codec \<Rightarrow> pystr \<Rightarrow> rat \<Rightarrow> unit res \<Rightarrow> write_outcome \<Rightarrow> write_outcome \<Rightarrow> unit res \<Rightarrow> rat \<Rightarrow> write_outcome \<Rightarrow>
   pystr \<Rightarrow> pystr option \<Rightarrow> pystr option \<Rightarrow> pystr option \<Rightarrow> setup_dir \<Rightarrow> setup_dir \<times> payload res" where
  "coordinator_start codec token_hex now prepared wr w launched later w_failed action profile_name suggested_host suggested_user =
     bindS (liftS (case setup_action_of action of Inl _ \<Rightarrow> Inl (ValueError (''unsupported setup action: '' @ action)) | Inr a \<Rightarrow> Inr a)) (\<lambda>a.
     bindS (liftS (create_setup_request token_hex now a profile_name suggested_host suggested_user)) (\<lambda>request.
     bindS (store_create codec prepared wr w request) (\<lambda>r.
     case launched of
       Inl _ \<Rightarrow>
         bindS (store_update codec w_failed (rq_request_id request) FAILED None
           (Some ''The local setup window could not be started.'') later) (\<lambda>_.
         liftS (Inl (RuntimeError ''the local setup window could not be started'')))
     | Inr _ \<Rightarrow> liftS (Inr (public_result r)))))"

definition coordinator_status :: "json_codec \<Rightarrow> write_outcome \<Rightarrow> rat \<Rightarrow> pystr \<Rightarrow> setup_dir \<Rightarrow> setup_dir \<times> payload res" where
  "coordinator_status codec w now request_id =
     bindS (expire_if_needed codec w request_id now) (\<lambda>r. liftS (Inr (public_result r)))"

text \<open>One turn of \<^verbatim>\<open>wait\<close>: what other processes did to the directory, the two clocks and the write.\<close>

record wait_turn =
  wt_others :: "setup_dir \<Rightarrow> setup_dir"
  wt_now :: rat
  wt_write :: write_outcome
  wt_monotonic :: rat

fun wait_loop :: "json_codec \<Rightarrow> pystr \<Rightarrow> rat \<Rightarrow> wait_turn list \<Rightarrow> setup_dir \<Rightarrow> (setup_dir \<times> payload res) option" where
  "wait_loop codec request_id deadline [] dir = None"
| "wait_loop codec request_id deadline (t # ts) dir =
     (case expire_if_needed codec (wt_write t) request_id (wt_now t) (wt_others t dir) of
        (dir', Inl e) \<Rightarrow> Some (dir', Inl e)
      | (dir', Inr r) \<Rightarrow>
          if status_terminal (rec_status r) \<or> deadline \<le> wt_monotonic t then Some (dir', Inr (public_result r))
          else wait_loop codec request_id deadline ts dir')"

fun wait_timeout :: "json \<Rightarrow> rat res" where
  "wait_timeout (JInt i) =
     (if 1 \<le> i \<and> i \<le> 30 then Inr (of_int i) else Inl (ValueError ''wait_timeout must be from 0.1 through 30 seconds''))"
| "wait_timeout (JFloat r) =
     (if 1 / 10 \<le> r \<and> r \<le> 30 then Inr r else Inl (ValueError ''wait_timeout must be from 0.1 through 30 seconds''))"
| "wait_timeout _ = Inl (ValueError ''wait_timeout must be a number'')"

definition coordinator_wait ::
  "json_codec \<Rightarrow> rat \<Rightarrow> wait_turn list \<Rightarrow> pystr \<Rightarrow> json \<Rightarrow> setup_dir \<Rightarrow> (setup_dir \<times> payload res) option" where
  "coordinator_wait codec monotonic turns request_id timeout dir =
     (case wait_timeout timeout of
        Inl e \<Rightarrow> Some (dir, Inl e)
      | Inr seconds \<Rightarrow> wait_loop codec request_id (monotonic + seconds) turns dir)"

section \<open>The window process\<close>

text \<open>The clocks and writes of \<^verbatim>\<open>run_setup_app\<close>, what other processes do while the window is open, and how
  building and running the window ends.\<close>

record app_run =
  ar_now :: rat
  ar_write :: write_outcome
  ar_now_running :: rat
  ar_write_running :: write_outcome
  ar_window :: "setup_record \<Rightarrow> (setup_status \<times> payload option \<times> pystr option) res"
  ar_others :: "setup_dir \<Rightarrow> setup_dir"
  ar_now_final :: rat
  ar_write_final :: write_outcome
  ar_now_failed :: rat
  ar_write_failed :: write_outcome

definition app_body :: "json_codec \<Rightarrow> app_run \<Rightarrow> pystr \<Rightarrow> setup_dir \<Rightarrow> setup_dir \<times> int res" where
  "app_body codec a request_id =
     bindS (expire_if_needed codec (ar_write a) request_id (ar_now a)) (\<lambda>r.
     if rec_status r \<noteq> PENDING then liftS (Inr 3)
     else bindS (store_update codec (ar_write_running a) request_id RUNNING None None (ar_now_running a)) (\<lambda>running dir.
       bindS (liftS (ar_window a running)) (\<lambda>(status, result, message).
       bindS (store_update codec (ar_write_final a) request_id status result message (ar_now_final a)) (\<lambda>_.
       liftS (Inr (if status \<in> {CREATED, UPDATED, REMOVED, TESTED} then 0 else 2)))) (ar_others a dir)))"

definition app_failed :: "json_codec \<Rightarrow> app_run \<Rightarrow> pystr \<Rightarrow> setup_dir \<Rightarrow> setup_dir" where
  "app_failed codec a request_id dir =
     (case store_load codec request_id dir of
        Inl _ \<Rightarrow> dir
      | Inr current \<Rightarrow>
          if status_terminal (rec_status current) then dir
          else fst (store_update codec (ar_write_failed a) request_id FAILED None
            (Some ''The local setup program failed before completion.'') (ar_now_failed a) dir))"

definition run_setup_app :: "json_codec \<Rightarrow> app_run \<Rightarrow> pystr \<Rightarrow> setup_dir \<Rightarrow> setup_dir \<times> int" where
  "run_setup_app codec a request_id dir =
     (case app_body codec a request_id dir of
        (dir', Inr code) \<Rightarrow> (dir', code)
      | (dir', Inl _) \<Rightarrow> (app_failed codec a request_id dir', 3))"

section \<open>Completed requests\<close>

definition setup_file :: "pystr \<Rightarrow> pystr" where
  "setup_file request_id = request_id @ ''.json''"

definition completed :: "json_codec \<Rightarrow> pystr \<Rightarrow> setup_dir \<Rightarrow> bool" where
  "completed codec rid dir = (\<exists>r. store_load codec rid dir = Inr r \<and> status_terminal (rec_status r))"

text \<open>An operation that leaves the file of every completed request alone.\<close>

definition final_kept :: "json_codec \<Rightarrow> pystr \<Rightarrow> (setup_dir \<Rightarrow> setup_dir \<times> 'a res) \<Rightarrow> bool" where
  "final_kept codec rid m =
     (\<forall>dir. completed codec rid dir \<longrightarrow> map_of (fst (m dir)) (setup_file rid) = map_of dir (setup_file rid))"

lemma setup_path_Inr: "(setup_path rid = Inr p) = (SETUP_REQUEST_ID rid \<and> p = setup_file rid)"
  by (auto simp: setup_path_def validate_setup_request_id_def setup_file_def bindE_eq_Inr)

lemma store_load_eq:
  "store_load codec rid dir =
     bindE (validate_setup_request_id rid) (\<lambda>_.
     bindE (someE (map_of dir (setup_file rid)) (OSError (''setup request does not exist: '' @ rid))) (\<lambda>content.
     bindE (read_json codec content) record_from_dict))"
  by (cases "validate_setup_request_id rid") (simp_all add: store_load_def setup_path_def setup_file_def)

lemma store_load_cong:
  "map_of d' (setup_file rid) = map_of d (setup_file rid) \<Longrightarrow> store_load codec rid d' = store_load codec rid d"
  by (simp add: store_load_eq)

lemma completed_cong:
  "map_of d' (setup_file rid) = map_of d (setup_file rid) \<Longrightarrow> completed codec rid d' = completed codec rid d"
  using store_load_cong [of d' rid d codec] by (simp add: completed_def)

lemma completed_present: "completed codec rid dir \<Longrightarrow> setup_file rid \<in> set (keys dir)"
  by (auto simp: completed_def store_load_eq bindE_eq_Inr set_keys)

lemma setup_file_inj [simp]: "(setup_file a = setup_file b) = (a = b)"
  by (simp add: setup_file_def)

lemma final_kept_liftS [simp, intro]: "final_kept codec rid (liftS r)"
  by (simp add: final_kept_def)

lemma final_kept_bindS [intro]:
  assumes "final_kept codec rid m" and "\<And>a. final_kept codec rid (f a)"
  shows "final_kept codec rid (bindS m f)"
  unfolding final_kept_def
proof (intro allI impI)
  fix dir
  assume c: "completed codec rid dir"
  obtain d1 x where m: "m dir = (d1, x)" by fastforce
  have same: "map_of d1 (setup_file rid) = map_of dir (setup_file rid)"
    using assms(1) c m by (auto simp: final_kept_def)
  show "map_of (fst (bindS m f dir)) (setup_file rid) = map_of dir (setup_file rid)"
    using assms(2) c m same completed_cong [OF same] by (cases x) (auto simp: bindS_def final_kept_def)
qed

lemma put_file_other: "k \<noteq> name \<Longrightarrow> map_of (fst (put_file w name content dir)) k = map_of dir k"
  by (cases w) simp_all

lemma write_json_other: "k \<noteq> name \<Longrightarrow> map_of (fst (write_json codec w name document dir)) k = map_of dir k"
  by (cases "runtime_content codec document") (simp_all add: write_json_def put_file_other)

lemma write_new_other: "k \<noteq> path \<Longrightarrow> map_of (fst (write_new codec wr w path r dir)) k = map_of dir k"
proof -
  assume k: "k \<noteq> path"
  obtain d1 x where p: "put_file wr path [] dir = (d1, x)" by fastforce
  have 1: "map_of d1 k = map_of dir k" using put_file_other [OF k, of wr "[]" dir] p by simp
  obtain d2 y where q: "write_json codec w path (record_to_dict r) d1 = (d2, y)" by fastforce
  have 2: "map_of d2 k = map_of d1 k" using write_json_other [OF k, of codec w "record_to_dict r" d1] q by simp
  show ?thesis using 1 2 k by (cases x; cases y) (simp_all add: write_new_def bindS_def p q)
qed

lemma write_update_fst:
  "fst (write_update codec w rid r dir) =
     (if SETUP_REQUEST_ID rid then fst (write_json codec w (setup_file rid) (record_to_dict r) dir) else dir)"
  by (cases "write_json codec w (setup_file rid) (record_to_dict r) dir")
    (auto simp: write_update_def setup_path_def validate_setup_request_id_def setup_file_def bindS_def split: sum.split)

lemma completed_not_decided:
  "completed codec rid dir \<Longrightarrow> \<exists>e. decide_update codec rid status result message now dir = Inl e"
  by (auto simp: completed_def decide_update_def)

lemma final_kept_update: "final_kept codec rid (store_update codec w rid' status result message now)"
  unfolding final_kept_def
proof (intro allI impI)
  fix dir
  assume c: "completed codec rid dir"
  show "map_of (fst (store_update codec w rid' status result message now dir)) (setup_file rid) = map_of dir (setup_file rid)"
  proof (cases "rid' = rid")
    case True
    obtain e where "decide_update codec rid status result message now dir = Inl e" using completed_not_decided [OF c] ..
    then show ?thesis using True by (simp add: store_update_def)
  next
    case False
    then show ?thesis
      by (auto simp: store_update_def write_update_fst write_json_other split: sum.split)
  qed
qed

lemma final_kept_create: "final_kept codec rid (store_create codec prepared wr w request)"
proof -
  have "final_kept codec rid (\<lambda>dir. if path \<in> set (keys dir) then (dir, Inl e)
       else bindS (liftS new) (\<lambda>r. bindS (write_new codec wr w path r) (\<lambda>_. liftS (Inr r))) dir)" for path e new
    unfolding final_kept_def
  proof (intro allI impI)
    fix dir
    assume c: "completed codec rid dir"
    show "map_of (fst (if path \<in> set (keys dir) then (dir, Inl e)
       else bindS (liftS new) (\<lambda>r. bindS (write_new codec wr w path r) (\<lambda>_. liftS (Inr r))) dir)) (setup_file rid) =
       map_of dir (setup_file rid)"
    proof (cases "path \<in> set (keys dir)")
      case False
      then have k: "setup_file rid \<noteq> path" using completed_present [OF c] by auto
      have "map_of (fst (bindS (write_new codec wr w path r) (\<lambda>_. liftS (Inr r)) dir)) (setup_file rid) =
          map_of dir (setup_file rid)" for r
        using write_new_other [OF k, of codec wr w r dir]
        by (cases "write_new codec wr w path r dir") (auto simp: bindS_def split: sum.split)
      then show ?thesis using False by (cases new) simp_all
    qed simp
  qed
  then show ?thesis unfolding store_create_def by (intro final_kept_bindS final_kept_liftS)
qed

lemma final_kept_expire: "final_kept codec rid (expire_if_needed codec w rid' now)"
  using final_kept_update [of codec rid w rid' EXPIRED None "Some EXPIRED_MESSAGE" now]
  by (auto simp: final_kept_def expire_if_needed_def bindS_def split: sum.split)

lemmas final_kept_store = final_kept_update final_kept_create final_kept_expire

lemma final_kept_start:
  "final_kept codec rid (coordinator_start codec token now prepared wr w launched later w_failed action n h u)"
  unfolding coordinator_start_def
  by (cases launched) (auto intro!: final_kept_bindS final_kept_liftS final_kept_store)

lemma final_kept_status: "final_kept codec rid (coordinator_status codec w now rid')"
  unfolding coordinator_status_def by (intro final_kept_bindS final_kept_liftS final_kept_store)

text \<open>What other processes may do meanwhile: they leave completed requests alone too.\<close>

abbreviation others_keep :: "json_codec \<Rightarrow> pystr \<Rightarrow> (setup_dir \<Rightarrow> setup_dir) \<Rightarrow> bool" where
  "others_keep codec rid f \<equiv> final_kept codec rid (\<lambda>dir. (f dir, Inr ()))"

lemma final_kept_apply:
  "final_kept codec rid m \<Longrightarrow> completed codec rid dir \<Longrightarrow> m dir = (d, x) \<Longrightarrow>
     map_of d (setup_file rid) = map_of dir (setup_file rid) \<and> completed codec rid d"
  using completed_cong [of d rid dir codec] by (auto simp: final_kept_def)

lemma final_kept_wait:
  assumes "\<And>t. t \<in> set ts \<Longrightarrow> others_keep codec rid (wt_others t)"
    and "completed codec rid dir" and "wait_loop codec rid' deadline ts dir = Some (d, x)"
  shows "map_of d (setup_file rid) = map_of dir (setup_file rid)"
  using assms
proof (induction ts arbitrary: dir)
  case (Cons t ts)
  obtain d1 y where e: "expire_if_needed codec (wt_write t) rid' (wt_now t) (wt_others t dir) = (d1, y)" by fastforce
  have 1: "map_of (wt_others t dir) (setup_file rid) = map_of dir (setup_file rid) \<and> completed codec rid (wt_others t dir)"
    using final_kept_apply [OF Cons.prems(1) Cons.prems(2) refl] by simp
  then have 2: "map_of d1 (setup_file rid) = map_of dir (setup_file rid) \<and> completed codec rid d1"
    using final_kept_apply [OF final_kept_expire _ e] by simp
  show ?case
    using Cons.IH [of d1] Cons.prems(1,3) 2 e by (cases y) (auto split: if_splits)
qed simp

lemma final_kept_others:
  assumes "others_keep codec rid g" and "final_kept codec rid m"
  shows "final_kept codec rid (\<lambda>dir. m (g dir))"
  unfolding final_kept_def
proof (intro allI impI)
  fix dir
  assume c: "completed codec rid dir"
  have same: "map_of (g dir) (setup_file rid) = map_of dir (setup_file rid)"
    using assms(1) c by (simp add: final_kept_def)
  then show "map_of (fst (m (g dir))) (setup_file rid) = map_of dir (setup_file rid)"
    using assms(2) c completed_cong [OF same, of codec] by (simp add: final_kept_def)
qed

lemma final_kept_app:
  assumes "others_keep codec rid (ar_others a)"
  shows "final_kept codec rid (\<lambda>dir. (fst (run_setup_app codec a rid' dir), Inr ()))"
proof -
  have body: "final_kept codec rid (app_body codec a rid')"
    unfolding app_body_def
    by (auto intro!: final_kept_bindS final_kept_liftS final_kept_store final_kept_others [OF assms] split: prod.split)
  have failed: "others_keep codec rid (app_failed codec a rid')"
    using final_kept_update [of codec rid] by (auto simp: final_kept_def app_failed_def split: sum.split)
  show ?thesis
    unfolding final_kept_def
  proof (intro allI impI)
    fix dir
    assume c: "completed codec rid dir"
    obtain d x where b: "app_body codec a rid' dir = (d, x)" by fastforce
    note k = final_kept_apply [OF body c b]
    show "map_of (fst (fst (run_setup_app codec a rid' dir), Inr ())) (setup_file rid) = map_of dir (setup_file rid)"
      using k final_kept_apply [OF failed, of d] by (cases x) (simp_all add: run_setup_app_def b)
  qed
qed

text \<open>Runs of the setup operations, one after the other; while \<^verbatim>\<open>wait\<close> sleeps and while a window is open
  other such runs may take place.\<close>

inductive setup_run :: "json_codec \<Rightarrow> setup_dir \<Rightarrow> setup_dir \<Rightarrow> bool" for codec where
  setup_run_refl: "setup_run codec dir dir"
| setup_run_start: "setup_run codec dir d1 \<Longrightarrow>
    coordinator_start codec token now prepared wr w launched later w_failed action n h u d1 = (d2, x) \<Longrightarrow> setup_run codec dir d2"
| setup_run_status: "setup_run codec dir d1 \<Longrightarrow> coordinator_status codec w now rid d1 = (d2, y) \<Longrightarrow> setup_run codec dir d2"
| setup_run_wait: "setup_run codec dir d1 \<Longrightarrow> (\<And>t d. t \<in> set ts \<Longrightarrow> setup_run codec d (wt_others t d)) \<Longrightarrow>
    coordinator_wait codec m ts rid timeout d1 = Some (d2, z) \<Longrightarrow> setup_run codec dir d2"
| setup_run_app: "setup_run codec dir d1 \<Longrightarrow> (\<And>d. setup_run codec d (ar_others a d)) \<Longrightarrow>
    run_setup_app codec a rid d1 = (d2, code) \<Longrightarrow> setup_run codec dir d2"
| setup_run_update: "setup_run codec dir d1 \<Longrightarrow>
    store_update codec w rid status result message now d1 = (d2, v) \<Longrightarrow> setup_run codec dir d2"

lemma keeps_further:
  assumes "map_of d1 (setup_file rid) = map_of dir (setup_file rid)" and "completed codec rid dir"
    and "completed codec rid d1 \<Longrightarrow> map_of d2 (setup_file rid) = map_of d1 (setup_file rid)"
  shows "map_of d2 (setup_file rid) = map_of dir (setup_file rid)"
  using assms(3) completed_cong [OF assms(1), of codec] assms(1,2) by metis

lemma setup_run_keeps:
  "setup_run codec dir d \<Longrightarrow> completed codec rid dir \<Longrightarrow> map_of d (setup_file rid) = map_of dir (setup_file rid)"
proof (induction rule: setup_run.induct)
  case (setup_run_start dir d1 token now prepared wr w launched later w_failed action n h u d2 x)
  show ?case
    by (rule keeps_further [OF setup_run_start.IH [OF setup_run_start.prems] setup_run_start.prems])
      (use final_kept_apply [OF final_kept_start _ setup_run_start.hyps(2)] in blast)
next
  case (setup_run_status dir d1 w now rid' d2 y)
  show ?case
    by (rule keeps_further [OF setup_run_status.IH [OF setup_run_status.prems] setup_run_status.prems])
      (use final_kept_apply [OF final_kept_status _ setup_run_status.hyps(2)] in blast)
next
  case (setup_run_wait dir d1 ts m rid' timeout d2 z)
  have others: "others_keep codec rid (wt_others t)" if "t \<in> set ts" for t
    using setup_run_wait.IH(2) [OF that] by (simp add: final_kept_def)
  have "map_of d2 (setup_file rid) = map_of d1 (setup_file rid)" if c: "completed codec rid d1"
    using final_kept_wait [OF others c] setup_run_wait.hyps(3)
    by (cases "wait_timeout timeout") (simp_all add: coordinator_wait_def)
  then show ?case
    by (rule keeps_further [OF setup_run_wait.IH(1) [OF setup_run_wait.prems] setup_run_wait.prems])
next
  case (setup_run_app dir d1 a rid' d2 code)
  have others: "others_keep codec rid (ar_others a)" using setup_run_app.IH(2) by (simp add: final_kept_def)
  have "map_of d2 (setup_file rid) = map_of d1 (setup_file rid)" if c: "completed codec rid d1"
    using final_kept_apply [OF final_kept_app [OF others] c, of rid' d2] setup_run_app.hyps(3) by simp
  then show ?case
    by (rule keeps_further [OF setup_run_app.IH(1) [OF setup_run_app.prems] setup_run_app.prems])
next
  case (setup_run_update dir d1 w rid' status result message now d2 v)
  show ?case
    by (rule keeps_further [OF setup_run_update.IH [OF setup_run_update.prems] setup_run_update.prems])
      (use final_kept_apply [OF final_kept_update _ setup_run_update.hyps(2)] in blast)
qed simp


section \<open>Secrets\<close>

text \<open>A value in which no object, at any depth, has a field with the name of a secret.\<close>

fun names_no_secret :: "json \<Rightarrow> bool" where
  "names_no_secret (JObj ps) = list_all (\<lambda>p. \<not> secret_field (fst p) \<and> names_no_secret (snd p)) ps"
| "names_no_secret (JList vs) = list_all names_no_secret vs"
| "names_no_secret v = True"

lemma ensure_non_secret_iff:
  "(ensure_non_secret_result v = Inr ()) = names_no_secret v"
  "(ensure_non_secret_list vs = Inr ()) = list_all names_no_secret vs"
  "(ensure_non_secret_items ps = Inr ()) = list_all (\<lambda>p. \<not> secret_field (fst p) \<and> names_no_secret (snd p)) ps"
  by (induction v and vs and ps rule: ensure_non_secret_result_ensure_non_secret_list_ensure_non_secret_items.induct)
    (auto simp: bindE_eq_Inr)

definition record_ok :: "setup_record \<Rightarrow> bool" where
  "record_ok r = (new_setup_record r = Inr r)"

lemma new_setup_record_ok: "new_setup_record r = Inr r' \<Longrightarrow> r' = r \<and> record_ok r"
  by (auto simp: record_ok_def new_setup_record_def bindE_eq_Inr)

lemma record_ok_free: "record_ok r \<Longrightarrow> rec_result r = Some d \<Longrightarrow> names_no_secret (JObj d)"
  using ensure_non_secret_iff(1) [of "JObj d"]
  by (auto simp: record_ok_def new_setup_record_def bindE_eq_Inr simp del: ensure_non_secret_result.simps)

lemma record_from_dict_ok: "record_from_dict raw = Inr r \<Longrightarrow> record_ok r"
  unfolding record_from_dict_def
  by (auto simp: bindE_eq_Inr dest: new_setup_record_ok split: if_splits json.splits)

lemma store_load_ok: "store_load codec rid dir = Inr r \<Longrightarrow> record_ok r"
  by (auto simp: store_load_eq bindE_eq_Inr dest: record_from_dict_ok)

lemma store_update_ok:
  assumes "store_update codec w rid s result message now dir = (d, Inr r)"
  shows "record_ok r"
proof -
  obtain r' where r': "decide_update codec rid s result message now dir = Inr r'" "write_update codec w rid r' dir = (d, Inr r)"
    using assms by (auto simp: store_update_def split: sum.splits)
  then have "r = r'" by (auto simp: write_update_def bindS_eq_Inr)
  moreover have "record_ok r'"
    using r'(1) by (auto simp: decide_update_def bindE_eq_Inr dest: new_setup_record_ok split: if_splits)
  ultimately show ?thesis by simp
qed

lemma expire_ok: "expire_if_needed codec w rid now dir = (d, Inr r) \<Longrightarrow> record_ok r"
  by (auto simp: expire_if_needed_def bindS_eq_Inr dest: store_load_ok store_update_ok split: if_splits)

lemma store_create_ok: "store_create codec prepared wr w request dir = (d, Inr r) \<Longrightarrow> record_ok r"
  by (auto simp: store_create_def bindS_eq_Inr dest: new_setup_record_ok split: if_splits)

lemma list_all_dmerge: "list_all P a \<Longrightarrow> list_all P b \<Longrightarrow> list_all P (dmerge a b)"
  by (induction a b rule: dmerge.induct) (auto simp: dput_list_all)

lemma public_fields_open:
  "\<not> secret_field ''status''" "\<not> secret_field ''request_id''" "\<not> secret_field ''action''"
  "\<not> secret_field ''profile_name''" "\<not> secret_field ''message''"
  by code_simp+

lemma public_result_free:
  assumes "record_ok r"
  shows "names_no_secret (JObj (public_result r))"
  using record_ok_free [OF assms]
  by (auto simp: public_result_def Let_def public_fields_open intro!: dput_list_all list_all_dmerge split: option.split)

lemma wait_loop_result:
  "wait_loop codec rid deadline ts dir = Some (d, Inr p) \<Longrightarrow> \<exists>r. record_ok r \<and> p = public_result r"
  by (induction ts arbitrary: dir) (auto dest: expire_ok split: prod.splits sum.splits if_splits)

text \<open>
  C39: no result of the setup operations names a secret. Whatever the window process or anybody else wrote
  into the record of a request, the answer that start, status or wait gives to the assistant has no
  field, at any depth, whose name in lower case is that of a password, a passphrase or the content of a
  private key: a record with such a field is refused.
\<close>

theorem setup_answers_free_of_secrets:
  assumes "coordinator_start codec token now prepared wr w launched later w_failed action n h u dir = (d, Inr p) \<or>
    coordinator_status codec w now rid dir = (d, Inr p) \<or> coordinator_wait codec m ts rid timeout dir = Some (d, Inr p)"
  shows "names_no_secret (JObj p)"
proof -
  have "\<exists>r. record_ok r \<and> p = public_result r"
    using assms
  proof (elim disjE)
    assume "coordinator_start codec token now prepared wr w launched later w_failed action n h u dir = (d, Inr p)"
    then show ?thesis
      by (cases launched) (auto simp: coordinator_start_def bindS_eq_Inr dest: store_create_ok)
  next
    assume "coordinator_status codec w now rid dir = (d, Inr p)"
    then show ?thesis by (auto simp: coordinator_status_def bindS_eq_Inr dest: expire_ok)
  next
    assume "coordinator_wait codec m ts rid timeout dir = Some (d, Inr p)"
    then show ?thesis
      by (cases "wait_timeout timeout") (auto simp: coordinator_wait_def dest: wait_loop_result)
  qed
  then show ?thesis using public_result_free by blast
qed

section \<open>What is written is read\<close>

lemma action_roundtrip [simp]: "setup_action_of (setup_action_value a) = Inr a"
  by (cases a) (simp_all add: setup_action_of_def setup_actions_def)

lemma status_roundtrip [simp]: "setup_status_of (setup_status_value s) = Inr s"
  by (cases s) (simp_all add: setup_status_of_def setup_statuses_def)

lemma text_or_none_option [simp]: "text_or_none (json_option x) = Some x"
  by (cases x) (simp_all add: json_option_def)

lemma request_roundtrip: "new_setup_request q = Inr q \<Longrightarrow> request_from_dict (request_to_dict q) = Inr q"
  by (cases q) (simp add: request_from_dict_def request_to_dict_def keys_def SETUP_REQUEST_FIELDS_def pget_def)

lemma record_roundtrip:
  assumes "record_ok r" and "new_setup_request (rec_request r) = Inr (rec_request r)"
  shows "record_from_dict (record_to_dict r) = Inr r"
  using assms(1) request_roundtrip [OF assms(2)]
  by (cases r; cases "rec_result r")
    (simp_all add: record_from_dict_def record_to_dict_def keys_def SETUP_RECORD_FIELDS_def pget_def record_ok_def)

lemma new_setup_request_fix: "new_setup_request q = Inr q' \<Longrightarrow> q' = q \<and> new_setup_request q' = Inr q'"
  by (auto simp: new_setup_request_def bindE_eq_Inr)

lemma request_from_dict_ok: "request_from_dict raw = Inr q \<Longrightarrow> new_setup_request q = Inr q"
  unfolding request_from_dict_def
  by (auto simp: bindE_eq_Inr dest: new_setup_request_fix split: if_splits json.splits option.splits)

lemma record_from_dict_request:
  "record_from_dict raw = Inr r \<Longrightarrow> new_setup_request (rec_request r) = Inr (rec_request r)"
  unfolding record_from_dict_def
  by (auto simp: bindE_eq_Inr dest!: new_setup_record_ok request_from_dict_ok split: if_splits json.splits)

lemma store_load_request: "store_load codec rid dir = Inr r \<Longrightarrow> new_setup_request (rec_request r) = Inr (rec_request r)"
  by (auto simp: store_load_eq bindE_eq_Inr dest: record_from_dict_request)

definition record_storable :: "json_codec \<Rightarrow> setup_record \<Rightarrow> bool" where
  "record_storable codec r =
     (codec_faithful codec (JObj (record_to_dict r)) \<and> plain_json (JObj (record_to_dict r)) \<and>
      isOk (runtime_content codec (record_to_dict r)))"

lemma written_record_loads:
  assumes "SETUP_REQUEST_ID rid" and "record_storable codec r" and "record_ok r"
    and "new_setup_request (rec_request r) = Inr (rec_request r)"
  shows "\<exists>d. write_update codec Written rid r dir = (d, Inr r) \<and> store_load codec rid d = Inr r"
proof -
  obtain t where t: "jc_dumps codec (JObj (record_to_dict r)) = Some t" "t \<noteq> []" "utf8_error 0 t = None"
      "jc_loads codec t = Some (JObj (record_to_dict r))"
    using assms(2) by (auto simp: record_storable_def codec_faithful_def split: option.splits)
  moreover have len: "length t \<le> MAX_RUNTIME_JSON_BYTES"
    using assms(2) t(1) by (auto simp: record_storable_def runtime_content_def isOk_iff split: if_splits)
  moreover have "reject_runtime_duplicates (JObj (record_to_dict r)) = Inr (JObj (record_to_dict r))"
    using assms(2) checked_plain(1) by (simp add: record_storable_def reject_runtime_duplicates_def del: checked_json.simps plain_json.simps)
  ultimately have read: "read_json codec (Some t) = Inr (record_to_dict r)"
    by (simp add: read_json_def decode_strict_def)
  let ?d = "dput (setup_file rid) (Some t) dir"
  have "write_update codec Written rid r dir = (?d, Inr r)"
    using assms(1) t(1) len
    by (simp add: write_update_def write_json_def setup_path_def validate_setup_request_id_def setup_file_def
        runtime_content_def bindS_def)
  moreover have "store_load codec rid ?d = Inr r"
    using assms(1) read record_roundtrip [OF assms(3,4)]
    by (simp add: store_load_eq validate_setup_request_id_def)
  ultimately show ?thesis by blast
qed

lemma decide_update_Inr:
  assumes "decide_update codec rid s result message now dir = Inr r"
  shows "SETUP_REQUEST_ID rid" and "record_ok r" and "new_setup_request (rec_request r) = Inr (rec_request r)"
    and "rec_status r = s" and "rec_result r = result" and "rec_message r = message"
proof -
  obtain current where load: "store_load codec rid dir = Inr current"
    and new: "new_setup_record \<lparr>rec_request = rec_request current, rec_status = s, rec_updated_at = now,
       rec_result = result, rec_message = message\<rparr> = Inr r"
    using assms by (auto simp: decide_update_def bindE_eq_Inr split: if_splits)
  have r: "r = \<lparr>rec_request = rec_request current, rec_status = s, rec_updated_at = now,
       rec_result = result, rec_message = message\<rparr>" and "record_ok r"
    using new_setup_record_ok [OF new] by simp_all
  then show "record_ok r" "rec_status r = s" "rec_result r = result" "rec_message r = message" by simp_all
  show "new_setup_request (rec_request r) = Inr (rec_request r)" using store_load_request [OF load] r by simp
  show "SETUP_REQUEST_ID rid" using load by (auto simp: store_load_eq bindE_eq_Inr validate_setup_request_id_def)
qed

lemma decided_record_loads:
  assumes "decide_update codec rid s result message now dir = Inr r" and "record_storable codec r"
  shows "\<exists>d. write_update codec Written rid r dir' = (d, Inr r) \<and> store_load codec rid d = Inr r"
  using written_record_loads [OF _ assms(2)] decide_update_Inr [OF assms(1)] by blast

text \<open>
  C40: the check for completed requests and the write that follows it are not one step. When the
  coordinator finds a running request past its expiry and, before it writes that, the window process
  records its outcome, the outcome is overwritten: the request was completed with that outcome, which every
  later update refuses to change, and is then read as expired.
\<close>

theorem late_expiry_overwrites_completion:
  assumes "decide_update codec rid EXPIRED None (Some EXPIRED_MESSAGE) now dir = Inr late" and "record_storable codec late"
    and "decide_update codec rid status result message now' dir = Inr outcome" and "record_storable codec outcome"
    and "status_terminal status"
  shows "\<exists>d1 d2. store_update codec Written rid status result message now' dir = (d1, Inr outcome) \<and>
    store_load codec rid d1 = Inr outcome \<and> (\<forall>s r m n. \<exists>e. decide_update codec rid s r m n d1 = Inl e) \<and>
    write_update codec Written rid late d1 = (d2, Inr late) \<and>
    (\<exists>final. store_load codec rid d2 = Inr final \<and> rec_status final = EXPIRED \<and> rec_result final = None)"
proof -
  obtain d1 where d1: "write_update codec Written rid outcome dir = (d1, Inr outcome)" "store_load codec rid d1 = Inr outcome"
    using decided_record_loads [OF assms(3,4)] by blast
  obtain d2 where d2: "write_update codec Written rid late d1 = (d2, Inr late)" "store_load codec rid d2 = Inr late"
    using decided_record_loads [OF assms(1,2)] by blast
  have "completed codec rid d1"
    using d1(2) assms(5) decide_update_Inr(4) [OF assms(3)] by (simp add: completed_def)
  then have "\<forall>s r m n. \<exists>e. decide_update codec rid s r m n d1 = Inl e" using completed_not_decided by blast
  moreover have "store_update codec Written rid status result message now' dir = (d1, Inr outcome)"
    using assms(3) d1(1) by (simp add: store_update_def)
  ultimately show ?thesis using d1(2) d2 decide_update_Inr(4,5) [OF assms(1)] by blast
qed

text \<open>Waiting ends when the clock has passed its deadline, or earlier with the request.\<close>

lemma wait_loop_ends:
  assumes "t \<in> set ts" and "deadline \<le> wt_monotonic t"
  shows "\<exists>r. wait_loop codec rid deadline ts dir = Some r"
  using assms by (induction ts arbitrary: dir) (auto split: prod.split sum.split)

section \<open>An example\<close>

definition demo_setup_id :: pystr where
  "demo_setup_id = ''setup-0123456789abcdef01234567''"

definition demo_setup_request :: setup_request where
  "demo_setup_request = \<lparr>rq_request_id = demo_setup_id, rq_action = ADD, rq_created_at = 0, rq_expires_at = 1800,
     rq_profile_name = Some ''web'', rq_suggested_host = None, rq_suggested_user = None\<rparr>"

definition demo_running :: setup_record where
  "demo_running = \<lparr>rec_request = demo_setup_request, rec_status = RUNNING, rec_updated_at = 1, rec_result = None,
     rec_message = None\<rparr>"

definition demo_created :: setup_record where
  "demo_created = \<lparr>rec_request = demo_setup_request, rec_status = CREATED, rec_updated_at = 1900,
     rec_result = Some [(''connection'', JStr ''ready'')], rec_message = None\<rparr>"

definition demo_late :: setup_record where
  "demo_late = \<lparr>rec_request = demo_setup_request, rec_status = EXPIRED, rec_updated_at = 2000, rec_result = None,
     rec_message = Some EXPIRED_MESSAGE\<rparr>"

text \<open>A codec that knows these three records, each written as its status.\<close>

definition demo_setup_codec :: json_codec where
  "demo_setup_codec = \<lparr>jc_dumps = (\<lambda>v. case v of JObj d \<Rightarrow> (case pget d ''status'' of JStr s \<Rightarrow> Some s | _ \<Rightarrow> None) | _ \<Rightarrow> None),
     jc_loads = (\<lambda>t. map_option (\<lambda>r. JObj (record_to_dict r))
       (List.find (\<lambda>r. setup_status_value (rec_status r) = t) [demo_running, demo_created, demo_late]))\<rparr>"

definition demo_setup_dir :: setup_dir where
  "demo_setup_dir = [(setup_file demo_setup_id, Some ''running'')]"

definition demo_created_dir :: setup_dir where
  "demo_created_dir = [(setup_file demo_setup_id, Some ''created'')]"

lemma demo_request_ok: "new_setup_request demo_setup_request = Inr demo_setup_request"
  by code_simp

lemma demo_records_ok: "record_ok demo_running" "record_ok demo_created" "record_ok demo_late"
proof -
  show "record_ok demo_running"
    by (simp add: record_ok_def new_setup_record_def demo_running_def demo_setup_request_def optional_suggestion_def)
  have "ensure_non_secret_result (JObj [(''connection'', JStr ''ready'')]) = Inr ()" by code_simp
  then show "record_ok demo_created"
    by (simp add: record_ok_def new_setup_record_def demo_created_def demo_setup_request_def optional_suggestion_def)
  have "optional_suggestion (Some EXPIRED_MESSAGE) ''message'' = Inr (Some EXPIRED_MESSAGE)" by code_simp
  then show "record_ok demo_late"
    by (simp add: record_ok_def new_setup_record_def demo_late_def demo_setup_request_def)
qed

lemma demo_load:
  assumes "r = demo_running \<or> r = demo_created"
  shows "store_load demo_setup_codec demo_setup_id [(setup_file demo_setup_id, Some (setup_status_value (rec_status r)))] = Inr r"
proof -
  have "SETUP_REQUEST_ID demo_setup_id" by code_simp
  moreover have "plain_json (JObj (record_to_dict r))"
    using assms by (auto simp: record_to_dict_def request_to_dict_def json_option_def demo_running_def demo_created_def
        demo_setup_request_def)
  then have "reject_runtime_duplicates (JObj (record_to_dict r)) = Inr (JObj (record_to_dict r))"
    using checked_plain(1) by (simp add: reject_runtime_duplicates_def del: checked_json.simps plain_json.simps)
  then have "read_json demo_setup_codec (Some (setup_status_value (rec_status r))) = Inr (record_to_dict r)"
    using assms by (auto simp: read_json_def demo_setup_codec_def demo_running_def demo_created_def
        utf8_error_ascii ascii_def decode_strict_def MAX_RUNTIME_JSON_BYTES_def)
  moreover have "record_ok r" and "new_setup_request (rec_request r) = Inr (rec_request r)"
    using assms demo_records_ok demo_request_ok by (auto simp: demo_running_def demo_created_def)
  ultimately show ?thesis
    using record_roundtrip by (simp add: store_load_eq validate_setup_request_id_def)
qed

lemma demo_running_load: "store_load demo_setup_codec demo_setup_id demo_setup_dir = Inr demo_running"
  using demo_load [of demo_running] by (simp add: demo_setup_dir_def) (simp add: demo_running_def)

lemma demo_created_load: "store_load demo_setup_codec demo_setup_id demo_created_dir = Inr demo_created"
  using demo_load [of demo_created] by (simp add: demo_created_dir_def) (simp add: demo_created_def)

lemma demo_decide_late:
  "decide_update demo_setup_codec demo_setup_id EXPIRED None (Some EXPIRED_MESSAGE) 2000 demo_setup_dir = Inr demo_late"
  using demo_records_ok(3)
  by (simp add: decide_update_def demo_running_load) (simp add: demo_running_def status_terminal_def record_ok_def demo_late_def)

lemma demo_decide_created:
  "decide_update demo_setup_codec demo_setup_id CREATED (Some [(''connection'', JStr ''ready'')]) None 1900 demo_setup_dir =
     Inr demo_created"
  using demo_records_ok(2)
  by (simp add: decide_update_def demo_running_load) (simp add: demo_running_def status_terminal_def record_ok_def demo_created_def)

lemma demo_storable: "record_storable demo_setup_codec demo_late" "record_storable demo_setup_codec demo_created"
  by (simp_all add: record_storable_def codec_faithful_def demo_setup_codec_def record_to_dict_def request_to_dict_def
      pget_def demo_late_def demo_created_def demo_running_def demo_setup_request_def utf8_error_ascii ascii_def
      runtime_content_def MAX_RUNTIME_JSON_BYTES_def json_option_def)


theorem setup_answers_free_of_secrets_witness:
  "names_no_secret (JObj (public_result demo_created))"
proof (rule setup_answers_free_of_secrets, rule disjI2, rule disjI1)
  show "coordinator_status demo_setup_codec Written 1950 demo_setup_id demo_created_dir =
      (demo_created_dir, Inr (public_result demo_created))"
    by (simp add: coordinator_status_def expire_if_needed_def demo_created_load bindS_def)
      (simp add: demo_created_def status_terminal_def)
qed

theorem late_expiry_overwrites_completion_witness:
  "\<exists>d1 d2 final. store_load demo_setup_codec demo_setup_id d1 = Inr demo_created \<and>
     write_update demo_setup_codec Written demo_setup_id demo_late d1 = (d2, Inr demo_late) \<and>
     store_load demo_setup_codec demo_setup_id d2 = Inr final \<and> rec_status final = EXPIRED"
proof -
  have "status_terminal CREATED" by (simp add: status_terminal_def)
  from late_expiry_overwrites_completion [OF demo_decide_late demo_storable(1) demo_decide_created demo_storable(2) this]
  show ?thesis by blast
qed

end
