(* ===== verification/Application.thy ===== *)
theory Application
  imports Audit_Log Broker_Channel Setup_Requests
begin

text \<open>
  \<^verbatim>\<open>application.py\<close> and \<^verbatim>\<open>config/presentation.py\<close>: the services behind the tools that the assistant calls. Every
  operation checks its arguments, sends at most one request to the broker and records it in the audit
  log. The state is the list of the requests that were handed to a connection and the log; whether the
  broker can be reached, what comes back, the clocks and how the append ends are arguments. A keyword
  argument that may be None is an \<open>option\<close>, a number that the caller may get wrong a \<open>json\<close> value.
\<close>

section \<open>Presentation of profiles\<close>

definition first_nonempty :: "pystr option \<Rightarrow> pystr option \<Rightarrow> json" where
  "first_nonempty a b = json_option (or_else a b)"

definition profile_summary :: "pystr \<Rightarrow> server_profile \<Rightarrow> payload" where
  "profile_summary name p =
     [(''name'', JStr name),
      (''display_name'', JStr (display_name p)),
      (''connection_type'', JStr (connection_type_value (connection_type_of p))),
      (''target'', first_nonempty (ssh_host p) (host p)),
      (''environment'', JStr (environment p)),
      (''allow_terminal'', JBool (allow_terminal p)),
      (''allow_file_read'', JBool (allow_file_read p)),
      (''allow_file_write'', JBool (allow_file_write p)),
      (''elevation_mode'', JStr (elevation_mode_value (elevation_mode_of p)))]"

definition profile_details :: "pystr \<Rightarrow> server_profile \<Rightarrow> payload" where
  "profile_details name p =
     dmerge (profile_summary name p)
       [(''ssh_host'', json_option (ssh_host p)),
        (''host'', json_option (host p)),
        (''port'', case port p of None \<Rightarrow> JNull | Some n \<Rightarrow> JInt n),
        (''user'', json_option (user p)),
        (''identity_file'', json_option (identity_file p)),
        (''authentication'', JStr (authentication_value (authentication_of p))),
        (''allowed_roots'', JList (map JStr (allowed_roots p))),
        (''allow_root_session'', JBool (allow_root_session p)),
        (''command_timeout_seconds'', JInt (command_timeout_seconds p)),
        (''max_output_bytes'', JInt (Config_Model.max_output_bytes p))]"

section \<open>Requests to the broker\<close>

type_synonym sent_requests = "(pystr \<times> payload) list"
type_synonym app_state = "sent_requests \<times> audit_log"

record broker_link =
  bl_connected :: "unit res"
  bl_fresh :: pystr
  bl_transport :: transport

record app_env =
  ap_logger :: "audit_env option"
  ap_call :: call_env
  ap_link :: broker_link

definition broker_operation :: "broker_link \<Rightarrow> pystr \<Rightarrow> payload \<Rightarrow> sent_requests \<Rightarrow> sent_requests \<times> payload res" where
  "broker_operation link message_type pl sent =
     (case bl_connected link of
        Inl e \<Rightarrow> (sent, Inl e)
      | Inr _ \<Rightarrow>
          (if isOk (create (bl_fresh link) message_type pl None) then sent @ [(message_type, pl)] else sent,
           snd (client_request message_type pl (bl_fresh link) (bl_transport link))))"

definition AUDIT_TOOLS :: "pystr dict" where
  "AUDIT_TOOLS =
     [(''session.open'', ''server_connection''), (''session.list'', ''server_connection''),
      (''session.status'', ''server_connection''), (''session.rediscover'', ''server_connection''),
      (''session.close'', ''server_connection''), (''session.exec'', ''server_exec''),
      (''session.terminal'', ''server_terminal''), (''session.files'', ''server_files''),
      (''session.file_edit'', ''server_file_edit''), (''session.elevation'', ''server_elevation'')]"

definition audit_operation :: "pystr \<Rightarrow> payload \<Rightarrow> (pystr \<times> pystr) res" where
  "audit_operation message_type pl =
     (case map_of AUDIT_TOOLS message_type of
        None \<Rightarrow> Inl (ValueError (''broker operation has no audit mapping: '' @ message_type))
      | Some tool \<Rightarrow>
          Inr (tool, case pget pl ''action'' of
            JStr action \<Rightarrow> action
          | _ \<Rightarrow> if message_type = ''session.exec'' then ''exec'' else last (split_on (CHR ''.'') message_type)))"

definition audited_command :: "pystr \<Rightarrow> pystr \<Rightarrow> payload \<Rightarrow> pystr option" where
  "audited_command tool action pl =
     (if tool \<in> {''server_exec'', ''server_elevation''} \<or> (tool = ''server_terminal'' \<and> action = ''start'')
      then nonempty_text (pget pl ''command'') else None)"

definition broker_request :: "app_env \<Rightarrow> pystr \<Rightarrow> payload \<Rightarrow> app_state \<Rightarrow> app_state \<times> payload res" where
  "broker_request env message_type pl st =
     (case audit_operation message_type pl of
        Inl e \<Rightarrow> (st, Inl e)
      | Inr (tool, action) \<Rightarrow>
          audited_call (ap_logger env) (ap_call env) tool action (broker_operation (ap_link env) message_type pl)
            (nonempty_text (pget pl ''profile_name'')) (nonempty_text (pget pl ''session_id''))
            (audited_command tool action pl) st)"

section \<open>The services\<close>

definition app_profile_name :: "pystr option \<Rightarrow> pystr res" where
  "app_profile_name v =
     (case v of None \<Rightarrow> Inl (ValueError ''profile_name is required'')
      | Some n \<Rightarrow> bindE (validate_profile_name n) (\<lambda>_. Inr n))"

definition app_session_id :: "pystr option \<Rightarrow> pystr res" where
  "app_session_id v =
     (case v of None \<Rightarrow> Inl (ValueError ''session_id is required'')
      | Some i \<Rightarrow> bindE (validate_session_id i) (\<lambda>_. Inr i))"

definition forbid :: "bool \<Rightarrow> pystr \<Rightarrow> pystr \<Rightarrow> unit res" where
  "forbid given field_name action = guardE (\<not> given) (ValueError (field_name @ '' is not valid for '' @ action))"

fun app_timeout :: "json \<Rightarrow> json option res" where
  "app_timeout JNull = Inr None"
| "app_timeout (JInt i) =
     (if 1 \<le> i \<and> i \<le> 3600 then Inr (Some (JFloat (of_int i)))
      else Inl (ValueError ''timeout must be from 0.1 through 3600 seconds''))"
| "app_timeout (JFloat r) =
     (if 1 / 10 \<le> r \<and> r \<le> 3600 then Inr (Some (JFloat r))
      else Inl (ValueError ''timeout must be from 0.1 through 3600 seconds''))"
| "app_timeout _ = Inl (ValueError ''timeout must be from 0.1 through 3600 seconds'')"

definition with_timeout :: "json option \<Rightarrow> payload \<Rightarrow> payload" where
  "with_timeout t pl = (case t of None \<Rightarrow> pl | Some v \<Rightarrow> dput ''timeout'' v pl)"

definition server_connection ::
  "app_env \<Rightarrow> pystr \<Rightarrow> pystr option \<Rightarrow> pystr option \<Rightarrow> app_state \<Rightarrow> app_state \<times> payload res" where
  "server_connection env action profile_name session_id =
     (if action = ''open'' then
        bindS (liftS (forbid (session_id \<noteq> None) ''session_id'' action)) (\<lambda>_.
        bindS (liftS (app_profile_name profile_name)) (\<lambda>n.
        broker_request env ''session.open'' [(''profile_name'', JStr n)]))
      else if action = ''list'' then
        bindS (liftS (forbid (profile_name \<noteq> None) ''profile_name'' action)) (\<lambda>_.
        bindS (liftS (forbid (session_id \<noteq> None) ''session_id'' action)) (\<lambda>_.
        broker_request env ''session.list'' []))
      else if action \<in> {''status'', ''rediscover'', ''close''} then
        bindS (liftS (forbid (profile_name \<noteq> None) ''profile_name'' action)) (\<lambda>_.
        bindS (liftS (app_session_id session_id)) (\<lambda>i.
        broker_request env (''session.'' @ action) [(''session_id'', JStr i)]))
      else liftS (Inl (ValueError (''unsupported server_connection action: '' @ action))))"

definition server_exec :: "app_env \<Rightarrow> pystr \<Rightarrow> pystr \<Rightarrow> json \<Rightarrow> app_state \<Rightarrow> app_state \<times> payload res" where
  "server_exec env session_id command timeout =
     bindS (liftS (guardE (command \<noteq> [] \<and> NUL \<notin> set command) (ValueError ''command must be non-empty text without NUL''))) (\<lambda>_.
     bindS (liftS (app_session_id (Some session_id))) (\<lambda>i.
     bindS (liftS (app_timeout timeout)) (\<lambda>t.
     broker_request env ''session.exec'' (with_timeout t [(''session_id'', JStr i), (''command'', JStr command)]))))"

text \<open>The keyword parameters of the three operations that pass them on, without those that are None.\<close>

definition given_parameters :: "payload \<Rightarrow> payload" where
  "given_parameters parameters = List.filter (\<lambda>p. snd p \<noteq> JNull) parameters"

definition session_request :: "pystr \<Rightarrow> app_env \<Rightarrow> pystr \<Rightarrow> pystr \<Rightarrow> payload \<Rightarrow> app_state \<Rightarrow> app_state \<times> payload res" where
  "session_request message_type env action session_id parameters =
     bindS (liftS (app_session_id (Some session_id))) (\<lambda>i.
     broker_request env message_type
       (dmerge [(''session_id'', JStr i), (''action'', JStr action)] (given_parameters parameters)))"

definition server_terminal :: "app_env \<Rightarrow> pystr \<Rightarrow> pystr \<Rightarrow> payload \<Rightarrow> app_state \<Rightarrow> app_state \<times> payload res" where
  "server_terminal = session_request ''session.terminal''"

definition server_files :: "app_env \<Rightarrow> pystr \<Rightarrow> pystr \<Rightarrow> payload \<Rightarrow> app_state \<Rightarrow> app_state \<times> payload res" where
  "server_files = session_request ''session.files''"

definition server_file_edit :: "app_env \<Rightarrow> pystr \<Rightarrow> pystr \<Rightarrow> payload \<Rightarrow> app_state \<Rightarrow> app_state \<times> payload res" where
  "server_file_edit = session_request ''session.file_edit''"

definition server_elevation ::
  "app_env \<Rightarrow> pystr \<Rightarrow> pystr \<Rightarrow> pystr option \<Rightarrow> json \<Rightarrow> app_state \<Rightarrow> app_state \<times> payload res" where
  "server_elevation env action session_id command timeout =
     bindS (liftS (app_session_id (Some session_id))) (\<lambda>i.
     let pl = [(''session_id'', JStr i), (''action'', JStr action)] in
     if action = ''exec'' then
       bindS (liftS (case command of
           Some (c # cs) \<Rightarrow> if NUL \<in> set (c # cs) then Inl (ValueError ''command is required for elevation exec'') else Inr (c # cs)
         | _ \<Rightarrow> Inl (ValueError ''command is required for elevation exec''))) (\<lambda>cmd.
       bindS (liftS (app_timeout timeout)) (\<lambda>t.
       broker_request env ''session.elevation'' (with_timeout t (pl @ [(''command'', JStr cmd)]))))
     else
       bindS (liftS (forbid (command \<noteq> None) ''command'' action)) (\<lambda>_.
       bindS (liftS (forbid (timeout \<noteq> JNull) ''timeout'' action)) (\<lambda>_.
       broker_request env ''session.elevation'' pl)))"

definition server_profiles :: "repo_env \<Rightarrow> repo \<Rightarrow> pystr \<Rightarrow> pystr option \<Rightarrow> payload res" where
  "server_profiles env r action profile_name =
     bindE (snd (repo_load env r)) (\<lambda>snapshot.
     let ps = profiles (snap_config snapshot) in
     if action = ''list'' then
       (if profile_name \<noteq> None then Inl (ValueError ''profile_name is not valid for list'')
        else Inr [(''profiles'', JList (map (\<lambda>(n, p). JObj (profile_summary n p)) (sort_key fst ps)))])
     else if action = ''inspect'' then
       bindE (app_profile_name profile_name) (\<lambda>n.
       bindE (someE (map_of ps n) (ConfigurationError (''profile does not exist: '' @ n))) (\<lambda>p.
       Inr [(''profile'', JObj (profile_details n p))]))
     else Inl (ValueError (''unsupported server_profiles action: '' @ action)))"

text \<open>What the setup operations meet: see the arguments of the coordinator.\<close>

record setup_env =
  se_codec :: json_codec
  se_token :: pystr
  se_now :: rat
  se_prepared :: "unit res"
  se_reserve :: write_outcome
  se_write :: write_outcome
  se_launched :: "unit res"
  se_later :: rat
  se_write_failed :: write_outcome
  se_monotonic :: rat
  se_turns :: "wait_turn list"

definition server_profile_setup ::
  "setup_env option \<Rightarrow> pystr \<Rightarrow> pystr option \<Rightarrow> pystr option \<Rightarrow> pystr option \<Rightarrow> pystr option \<Rightarrow> json \<Rightarrow> setup_dir \<Rightarrow>
   (setup_dir \<times> payload res) option" where
  "server_profile_setup setup action profile_name suggested_host suggested_user request_id timeout dir =
     (case setup of
        None \<Rightarrow> Some (dir, Inl (RuntimeError ''setup coordinator is unavailable''))
      | Some se \<Rightarrow>
          if action \<in> {''add'', ''edit'', ''remove'', ''test''} then
            Some (bindS (liftS (forbid (request_id \<noteq> None) ''request_id'' action)) (\<lambda>_.
              bindS (liftS (forbid (timeout \<noteq> JNull) ''wait_timeout'' action)) (\<lambda>_.
              coordinator_start (se_codec se) (se_token se) (se_now se) (se_prepared se) (se_reserve se) (se_write se)
                (se_launched se) (se_later se) (se_write_failed se) action profile_name suggested_host suggested_user)) dir)
          else if action \<in> {''status'', ''wait''} then
            (case bindE (forbid (profile_name \<noteq> None) ''profile_name'' action) (\<lambda>_.
                  bindE (forbid (suggested_host \<noteq> None) ''suggested_host'' action) (\<lambda>_.
                  bindE (forbid (suggested_user \<noteq> None) ''suggested_user'' action) (\<lambda>_.
                  bindE (someE request_id (ValueError ''request_id is required'')) (\<lambda>i.
                  bindE (if action = ''status'' then forbid (timeout \<noteq> JNull) ''wait_timeout'' action else Inr ()) (\<lambda>_.
                  Inr i))))) of
               Inl e \<Rightarrow> Some (dir, Inl e)
             | Inr i \<Rightarrow>
                 if action = ''status'' then Some (coordinator_status (se_codec se) (se_write se) (se_now se) i dir)
                 else coordinator_wait (se_codec se) (se_monotonic se) (se_turns se) i
                   (if timeout = JNull then JInt 5 else timeout) dir)
          else Some (dir, Inl (ValueError (''unsupported server_profile_setup action: '' @ action))))"

section \<open>Every request is valid and recorded\<close>

datatype app_call =
    Connection pystr "pystr option" "pystr option"
  | Exec pystr pystr json
  | Terminal pystr pystr payload
  | Files pystr pystr payload
  | FileEdit pystr pystr payload
  | ElevationCall pystr pystr "pystr option" json

fun run_app_call :: "app_env \<Rightarrow> app_call \<Rightarrow> app_state \<Rightarrow> app_state \<times> payload res" where
  "run_app_call env (Connection action n i) = server_connection env action n i"
| "run_app_call env (Exec i command timeout) = server_exec env i command timeout"
| "run_app_call env (Terminal action i ps) = server_terminal env action i ps"
| "run_app_call env (Files action i ps) = server_files env action i ps"
| "run_app_call env (FileEdit action i ps) = server_file_edit env action i ps"
| "run_app_call env (ElevationCall action i command timeout) = server_elevation env action i command timeout"

text \<open>A keyword argument cannot have the name of a parameter that is already bound.\<close>

definition free_keywords :: "payload \<Rightarrow> bool" where
  "free_keywords ps = (''session_id'' \<notin> set (keys ps) \<and> ''action'' \<notin> set (keys ps))"

fun call_ok :: "app_call \<Rightarrow> bool" where
  "call_ok (Terminal _ _ ps) = free_keywords ps"
| "call_ok (Files _ _ ps) = free_keywords ps"
| "call_ok (FileEdit _ _ ps) = free_keywords ps"
| "call_ok _ = True"

definition timeout_valid :: "json option \<Rightarrow> bool" where
  "timeout_valid v = (case v of None \<Rightarrow> True | Some (JFloat r) \<Rightarrow> 1 / 10 \<le> r \<and> r \<le> 3600 | _ \<Rightarrow> False)"

definition command_valid :: "json option \<Rightarrow> bool" where
  "command_valid v = (case v of Some (JStr c) \<Rightarrow> c \<noteq> [] \<and> NUL \<notin> set c | _ \<Rightarrow> False)"

definition request_valid :: "pystr \<Rightarrow> payload \<Rightarrow> bool" where
  "request_valid mt pl =
     (if mt = ''session.open'' then \<exists>n. pl = [(''profile_name'', JStr n)] \<and> PROFILE_NAME n
      else if mt = ''session.list'' then pl = []
      else (\<exists>i. map_of pl ''session_id'' = Some (JStr i) \<and> SESSION_ID i) \<and> mt \<in> set (keys AUDIT_TOOLS) \<and>
        (mt = ''session.exec'' \<or> mt = ''session.elevation'' \<and> map_of pl ''action'' = Some (JStr ''exec'') \<longrightarrow>
           command_valid (map_of pl ''command'') \<and> timeout_valid (map_of pl ''timeout'')))"

text \<open>An operation that raises at once or sends one valid request.\<close>

definition sends_valid :: "app_env \<Rightarrow> (app_state \<Rightarrow> app_state \<times> payload res) \<Rightarrow> bool" where
  "sends_valid env m =
     (\<forall>st. (\<exists>e. m st = (st, Inl e)) \<or> (\<exists>mt pl. request_valid mt pl \<and> m st = broker_request env mt pl st))"

lemma sends_valid_raise [simp]: "sends_valid env (liftS (Inl e))"
  by (simp add: sends_valid_def)

lemma sends_valid_bind: "(\<And>a. r = Inr a \<Longrightarrow> sends_valid env (f a)) \<Longrightarrow> sends_valid env (bindS (liftS r) f)"
  by (cases r) (simp_all add: sends_valid_def)

lemma sends_valid_request: "request_valid mt pl \<Longrightarrow> sends_valid env (broker_request env mt pl)"
  by (auto simp: sends_valid_def)

lemma app_session_id_Inr: "(app_session_id v = Inr i) = (v = Some i \<and> SESSION_ID i)"
  by (cases v) (auto simp: app_session_id_def validate_session_id_def bindE_eq_Inr)

lemma app_profile_name_Inr: "(app_profile_name v = Inr n) = (v = Some n \<and> PROFILE_NAME n)"
  by (cases v) (auto simp: app_profile_name_def validate_profile_name_def bindE_eq_Inr)

lemma app_timeout_Inr: "app_timeout v = Inr t \<Longrightarrow> timeout_valid t"
  by (cases v) (auto simp: timeout_valid_def split: if_splits)

lemma map_of_with_timeout:
  "map_of (with_timeout t pl) k = (if k = ''timeout'' \<and> t \<noteq> None then t else map_of pl k)"
  by (cases t) (simp_all add: with_timeout_def)

lemma map_of_dmerge_other: "k \<notin> set (keys b) \<Longrightarrow> map_of (dmerge a b) k = map_of a k"
  by (induction a b rule: dmerge.induct) (auto simp: keys_def)

lemma given_parameters_keys: "set (keys (given_parameters ps)) \<subseteq> set (keys ps)"
  by (auto simp: given_parameters_def keys_def)

lemma sends_valid_session_request:
  assumes "free_keywords ps" and "mt \<in> set (keys AUDIT_TOOLS)"
    and "mt \<notin> {''session.open'', ''session.list'', ''session.exec'', ''session.elevation''}"
  shows "sends_valid env (session_request mt env action i ps)"
  unfolding session_request_def
proof (rule sends_valid_bind, rule sends_valid_request)
  fix j
  assume "app_session_id (Some i) = Inr j"
  then have j: "SESSION_ID j" by (simp add: app_session_id_Inr)
  have "''session_id'' \<notin> set (keys (given_parameters ps))"
    using assms(1) given_parameters_keys [of ps] by (auto simp: free_keywords_def)
  then have "map_of (dmerge [(''session_id'', JStr j), (''action'', JStr action)] (given_parameters ps)) ''session_id'' = Some (JStr j)"
    by (simp add: map_of_dmerge_other)
  with j assms(2,3) show "request_valid mt (dmerge [(''session_id'', JStr j), (''action'', JStr action)] (given_parameters ps))"
    by (simp add: request_valid_def)
qed

lemma connection_request_valid:
  "PROFILE_NAME n \<Longrightarrow> request_valid ''session.open'' [(''profile_name'', JStr n)]"
  "request_valid ''session.list'' []"
  "SESSION_ID i \<Longrightarrow> action \<in> {''status'', ''rediscover'', ''close''} \<Longrightarrow>
     request_valid (''session.'' @ action) [(''session_id'', JStr i)]"
  by (auto simp: request_valid_def AUDIT_TOOLS_def keys_def)

lemma sends_valid_if: "(b \<Longrightarrow> sends_valid env m) \<Longrightarrow> (\<not> b \<Longrightarrow> sends_valid env m') \<Longrightarrow> sends_valid env (if b then m else m')"
  by simp

lemma sends_valid_connection: "sends_valid env (server_connection env action n i)"
  unfolding server_connection_def
  by (intro sends_valid_if sends_valid_bind sends_valid_request sends_valid_raise connection_request_valid)
    (simp_all add: app_session_id_Inr app_profile_name_Inr)

lemma sends_valid_exec: "sends_valid env (server_exec env i command timeout)"
  unfolding server_exec_def
  by (intro sends_valid_bind sends_valid_request)
    (auto simp: request_valid_def app_session_id_Inr map_of_with_timeout AUDIT_TOOLS_def keys_def command_valid_def
      timeout_valid_def [of None] dest: app_timeout_Inr)

lemma elevation_request_valid:
  assumes "SESSION_ID i" and "c \<noteq> []" and "NUL \<notin> set c" and "timeout_valid t"
  shows "request_valid ''session.elevation''
    (with_timeout t [(''session_id'', JStr i), (''action'', JStr ''exec''), (''command'', JStr c)])"
  using assms
  by (auto simp: request_valid_def map_of_with_timeout AUDIT_TOOLS_def keys_def command_valid_def timeout_valid_def [of None])

lemma sends_valid_elevation: "sends_valid env (server_elevation env action i command timeout)"
proof -
  have cmd: "c \<noteq> [] \<and> NUL \<notin> set c" if "(case command of
           Some (c # cs) \<Rightarrow> if NUL \<in> set (c # cs) then Inl e else Inr (c # cs) | _ \<Rightarrow> Inl e) = Inr c" for c and e :: exn
    using that by (auto split: option.splits list.splits if_splits)
  show ?thesis
  proof (cases "action = ''exec''")
    case True
    then show ?thesis
      unfolding server_elevation_def Let_def
      by (auto intro!: sends_valid_bind sends_valid_request elevation_request_valid simp: app_session_id_Inr dest: cmd app_timeout_Inr)
  next
    case False
    then show ?thesis
      unfolding server_elevation_def Let_def
      by (auto intro!: sends_valid_bind sends_valid_request simp: app_session_id_Inr request_valid_def AUDIT_TOOLS_def keys_def)
  qed
qed

lemma run_app_call_valid: "call_ok call \<Longrightarrow> sends_valid env (run_app_call env call)"
  by (cases call) (auto simp: server_terminal_def server_files_def server_file_edit_def AUDIT_TOOLS_def keys_def
      intro: sends_valid_connection sends_valid_exec sends_valid_elevation sends_valid_session_request)

lemma audit_operation_valid: "request_valid mt pl \<Longrightarrow> \<exists>tool action. audit_operation mt pl = Inr (tool, action) \<and> map_of AUDIT_TOOLS mt = Some tool"
  by (auto simp: request_valid_def audit_operation_def AUDIT_TOOLS_def keys_def split: if_splits)

text \<open>
  C10: whatever the assistant calls, the broker is asked at most once, with a valid request, and the call is
  on record. A call of the connection, command, terminal, file and elevation tools either raises before
  anything is sent, and then changes nothing; or makes one request whose profile name, session id,
  command and timeout have passed their checks. Of that request the answer or the exception of the broker
  is passed on, with a note on the audit; no line of the log is lost; and when the note says that the call
  was logged, the log has one new line with the event of exactly this call: its tool, action and outcome.
\<close>

theorem calls_checked_and_recorded:
  assumes "call_ok call" and "ap_logger env = Some logger" and "run_app_call env call (sent, logs) = ((sent', logs'), r)"
  shows "(sent' = sent \<and> logs' = logs \<and> (\<exists>e. r = Inl e)) \<or>
    (\<exists>mt pl tool action outcome w. request_valid mt pl \<and> map_of AUDIT_TOOLS mt = Some tool \<and>
       audit_operation mt pl = Inr (tool, action) \<and>
       (sent' = sent \<or> sent' = sent @ [(mt, pl)]) \<and> broker_operation (ap_link env) mt pl sent = (sent', outcome) \<and>
       r = answered w outcome \<and> log_extended logs logs' \<and>
       (aw_logged w \<longrightarrow> event_recorded logger (ce_moment (ap_call env))
          (call_event (ap_call env) tool action (nonempty_text (pget pl ''profile_name''))
             (nonempty_text (pget pl ''session_id'')) (audited_command tool action pl) outcome) logs logs'))"
proof -
  consider e where "run_app_call env call (sent, logs) = ((sent, logs), Inl e)"
    | mt pl where "request_valid mt pl" "run_app_call env call (sent, logs) = broker_request env mt pl (sent, logs)"
    using run_app_call_valid [OF assms(1), of env] unfolding sends_valid_def by blast
  then show ?thesis
  proof cases
    case 1
    then show ?thesis using assms(3) by simp
  next
    case 2
    obtain tool action where op: "audit_operation mt pl = Inr (tool, action)" "map_of AUDIT_TOOLS mt = Some tool"
      using audit_operation_valid [OF 2(1)] by blast
    have "audited_call (Some logger) (ap_call env) tool action (broker_operation (ap_link env) mt pl)
        (nonempty_text (pget pl ''profile_name'')) (nonempty_text (pget pl ''session_id''))
        (audited_command tool action pl) (sent, logs) = ((sent', logs'), r)"
      using 2(2) op(1) assms(2,3) by (simp add: broker_request_def)
    from audited_call_cases [OF this] obtain outcome w
      where c: "broker_operation (ap_link env) mt pl sent = (sent', outcome)" "r = answered w outcome" "log_extended logs logs'"
        "aw_logged w \<longrightarrow> event_recorded logger (ce_moment (ap_call env))
          (call_event (ap_call env) tool action (nonempty_text (pget pl ''profile_name''))
             (nonempty_text (pget pl ''session_id'')) (audited_command tool action pl) outcome) logs logs'"
      by blast
    have "sent' = sent \<or> sent' = sent @ [(mt, pl)]"
      using c(1) by (auto simp: broker_operation_def split: sum.splits if_splits)
    with 2(1) op c show ?thesis by blast
  qed
qed

definition demo_audit_env :: audit_env where
  "demo_audit_env = \<lparr>ae_unicode = (\<lambda>_. False), ae_sha256 = (\<lambda>b. dec_nat (length b)),
     ae_codec = \<lparr>jc_dumps = (\<lambda>_. Some ''{}''), jc_loads = (\<lambda>_. None)\<rparr>\<rparr>"

definition demo_app_env :: app_env where
  "demo_app_env = \<lparr>ap_logger = Some demo_audit_env,
     ap_call = \<lparr>ce_moment = \<lparr>mo_day = ''2026-01-01'', mo_iso = ''2026-01-01T00:00:00''\<rparr>, ce_started = 0, ce_finished = 1,
       ce_append = Appended\<rparr>,
     ap_link = \<lparr>bl_connected = Inr (), bl_fresh = ''0001'', bl_transport = TransportError (IpcClosed ''closed'')\<rparr>\<rparr>"

theorem calls_checked_and_recorded_witness:
  "\<exists>sent' logs' r. run_app_call demo_app_env (Exec ''sess-0123456789abcdef'' ''ls'' JNull) ([], []) = ((sent', logs'), r) \<and>
     log_extended [] logs' \<and> length sent' \<le> 1"
proof -
  obtain sent' logs' r where run: "run_app_call demo_app_env (Exec ''sess-0123456789abcdef'' ''ls'' JNull) ([], []) = ((sent', logs'), r)"
    by (metis surj_pair)
  have "log_extended [] logs' \<and> length sent' \<le> 1"
    using calls_checked_and_recorded [OF _ _ run, of demo_audit_env] by (auto simp: demo_app_env_def)
  with run show ?thesis by blast
qed

end
