(* ===== verification/Public_Key.thy ===== *)
theory Public_Key
  imports Base64 Errors
begin

text \<open>
  The checks on a public key in \<^verbatim>\<open>setup/keys.py\<close> and the plan of its installation in
  \<^verbatim>\<open>setup/public_key_transition.py\<close>: the script that adds the key to the remote account and the marker line by
  which its outcome is recognised. The random token is an argument.
\<close>

section \<open>Public keys\<close>

text \<open>\<^verbatim>\<open>text.split()\<close>: the words between white space.\<close>

fun words_of_chars :: "pystr \<Rightarrow> pystr list \<Rightarrow> pystr list" where
  "words_of_chars cur [] = (if cur = [] then [] else [cur])"
| "words_of_chars cur (ch # chs) =
     (if is_space ch then (if cur = [] then words_of_chars [] chs else cur # words_of_chars [] chs)
      else words_of_chars (cur @ ch) chs)"

definition py_split :: "pystr \<Rightarrow> pystr list" where
  "py_split s = words_of_chars [] (py_chars s)"

definition SUPPORTED_KEYS :: "pystr list" where
  "SUPPORTED_KEYS = [''ssh-ed25519'', ''ssh-rsa'', ''ecdsa-sha2-nistp256'']"

text \<open>\<^verbatim>\<open>int.from_bytes(data, "big")\<close>\<close>

definition from_bytes_big :: "bytes \<Rightarrow> nat" where
  "from_bytes_big bs = foldl (\<lambda>n b. 256 * n + ord b) 0 bs"

definition check_key_payload :: "pystr \<Rightarrow> pystr \<Rightarrow> unit res" where
  "check_key_payload algorithm payload_text =
     (case (if list_all ascii payload_text then b64decode payload_text else None) of
        None \<Rightarrow> Inl (ValueError ''the OpenSSH public key payload is not valid base64'')
      | Some blob \<Rightarrow>
          if length blob < 8 \<or> 8192 < length blob
          then Inl (ValueError ''the OpenSSH public key payload has an invalid size'')
          else guardE (take (from_bytes_big (take 4 blob)) (drop 4 blob) = algorithm)
            (ValueError ''the OpenSSH public key type does not match its payload''))"

definition validate_public_key_line :: "pystr \<Rightarrow> pystr res" where
  "validate_public_key_line t =
     (if t = [] \<or> 16384 < py_len t \<or> t \<noteq> py_strip t then Inl (ValueError ''the public SSH key must be one trimmed line'')
      else if list_ex is_control t then Inl (ValueError ''the public SSH key contains a control character'')
      else case py_split t of
        algorithm # payload_text # _ \<Rightarrow>
          if algorithm \<notin> set SUPPORTED_KEYS
          then Inl (ValueError ''the selected file is not a supported OpenSSH public key'')
          else bindE (check_key_payload algorithm payload_text) (\<lambda>_. Inr t)
      | _ \<Rightarrow> Inl (ValueError ''the selected file is not a supported OpenSSH public key''))"

definition read_public_key :: "bytes res \<Rightarrow> pystr res" where
  "read_public_key file =
     bindE file (\<lambda>content.
     if content = [] \<or> 16384 < length content then Inl (ValueError ''the public SSH key has an invalid size'')
     else case decode_strict content of
       Inl _ \<Rightarrow> Inl (ValueError ''the public SSH key must be UTF-8 text'')
     | Inr t \<Rightarrow> validate_public_key_line (py_strip t))"

section \<open>The plan\<close>

datatype local_rollback_status = ROLLED_BACK | SKIPPED_CONCURRENT_CHANGE | ROLLBACK_FAILED

fun rollback_status_value :: "local_rollback_status \<Rightarrow> pystr" where
  "rollback_status_value ROLLED_BACK = ''rolled_back''"
| "rollback_status_value SKIPPED_CONCURRENT_CHANGE = ''skipped_concurrent_change''"
| "rollback_status_value ROLLBACK_FAILED = ''failed''"

definition REMOTE_KEY_WARNING :: pystr where
  "REMOTE_KEY_WARNING =
     ''The public key may already be present in the remote authorized_keys file.'' @ [LF] @
     ''Review the remote account before retrying or removing the key.''"

definition ROLLED_BACK_WARNING :: pystr where
  "ROLLED_BACK_WARNING = ''The local profile switch was rolled back.'' @ [LF, LF] @ REMOTE_KEY_WARNING"

fun transition_warning :: "local_rollback_status \<Rightarrow> pystr" where
  "transition_warning ROLLED_BACK = ROLLED_BACK_WARNING"
| "transition_warning SKIPPED_CONCURRENT_CHANGE =
     ''The local profile switch was not rolled back because the local configuration changed concurrently.'' @
     [LF, LF] @ REMOTE_KEY_WARNING"
| "transition_warning ROLLBACK_FAILED =
     ''The local profile switch rollback could not be completed.'' @ [LF, LF] @ REMOTE_KEY_WARNING"

text \<open>The constructors of the two exceptions.\<close>

definition outcome_unknown_error :: "pystr \<Rightarrow> local_rollback_status option \<Rightarrow> exn" where
  "outcome_unknown_error message rollback =
     (case rollback of
        None \<Rightarrow> PublicKeyInstallOutcomeUnknown message None
      | Some s \<Rightarrow> PublicKeyInstallOutcomeUnknown (message @ [LF, LF] @ transition_warning s) (Some (rollback_status_value s)))"

definition transition_error :: "local_rollback_status \<Rightarrow> bool \<Rightarrow> exn" where
  "transition_error s was_new = PublicKeyTransitionError (transition_warning s) (rollback_status_value s) was_new"

record public_key_install_plan =
  pk_command :: pystr
  pk_marker_prefix :: pystr
  pk_key_identity :: pystr

definition INSTALL_TOKEN :: "pystr \<Rightarrow> bool" where
  "INSTALL_TOKEN s = (length s = 32 \<and> list_all is_hex s)"

text \<open>A word between single quotes, as the script has its four variable parts.\<close>

definition quote_word :: "pystr \<Rightarrow> pystr" where
  "quote_word w = [SQ] @ w @ [SQ]"

definition install_script :: "pystr \<Rightarrow> pystr \<Rightarrow> pystr \<Rightarrow> pystr \<Rightarrow> pystr" where
  "install_script encoded_line encoded_algorithm encoded_blob marker =
     join [LF]
       [''set -eu'',
        ''builtin umask 077'',
        ''command mkdir -p -- '' @ [QT] @ ''$HOME/.ssh'' @ [QT],
        ''command chmod 700 -- '' @ [QT] @ ''$HOME/.ssh'' @ [QT],
        ''command touch -- '' @ [QT] @ ''$HOME/.ssh/authorized_keys'' @ [QT],
        ''command chmod 600 -- '' @ [QT] @ ''$HOME/.ssh/authorized_keys'' @ [QT],
        ''_serverops_key=$(builtin printf '' @ quote_word ''%s'' @ '' '' @ quote_word encoded_line @ '' | command base64 -d)'',
        ''_serverops_alg=$(builtin printf '' @ quote_word ''%s'' @ '' '' @ quote_word encoded_algorithm @ '' | command base64 -d)'',
        ''_serverops_blob=$(builtin printf '' @ quote_word ''%s'' @ '' '' @ quote_word encoded_blob @ '' | command base64 -d)'',
        ''if command awk -v alg='' @ [QT] @ ''$_serverops_alg'' @ [QT] @ '' -v blob='' @ [QT] @ ''$_serverops_blob'' @ [QT] @ '' '' @
          [SQ] @ ''{ for (i = 1; i < NF; i++) if ($i == alg && $(i + 1) == blob) found = 1 } END { exit(found ? 0 : 1) }'' @
          [SQ] @ '' '' @ [QT] @ ''$HOME/.ssh/authorized_keys'' @ [QT] @ ''; then'',
        ''  builtin printf '' @ quote_word (''%s'' @ [BSL] @ ''n'') @ '' '' @ quote_word (marker @ ''key_already_present''),
        ''else'',
        ''  if [ -s '' @ [QT] @ ''$HOME/.ssh/authorized_keys'' @ [QT] @ '' ] &&      [ '' @ [QT] @ ''$(command tail -c 1 '' @
          [QT] @ ''$HOME/.ssh/authorized_keys'' @ [QT] @ '' | command wc -l)'' @ [QT] @ '' -eq 0 ]; then'',
        ''    builtin printf '' @ quote_word ([BSL] @ ''n'') @ '' >> '' @ [QT] @ ''$HOME/.ssh/authorized_keys'' @ [QT],
        ''  fi'',
        ''  builtin printf '' @ quote_word (''%s'' @ [BSL] @ ''n'') @ '' '' @ [QT] @ ''$_serverops_key'' @ [QT] @ '' >> '' @
          [QT] @ ''$HOME/.ssh/authorized_keys'' @ [QT],
        ''  command sync '' @ [QT] @ ''$HOME/.ssh/authorized_keys'' @ [QT] @ '' 2>/dev/null || true'',
        ''  builtin printf '' @ quote_word (''%s'' @ [BSL] @ ''n'') @ '' '' @ quote_word (marker @ ''key_added''),
        ''fi'',
        ''builtin unset _serverops_key _serverops_alg _serverops_blob'']"

definition install_marker :: "pystr \<Rightarrow> pystr" where
  "install_marker token = ''__SERVEROPS_PUBLIC_KEY_'' @ token @ ''__:''"

definition build_public_key_install_plan :: "pystr \<Rightarrow> pystr \<Rightarrow> public_key_install_plan res" where
  "build_public_key_install_plan public_key token =
     bindE (validate_public_key_line public_key) (\<lambda>line.
     let parts = py_split line; algorithm = parts ! 0; blob = parts ! 1 in
     bindE (guardE (INSTALL_TOKEN token) (ValueError ''public-key install token is invalid'')) (\<lambda>_.
     Inr \<lparr>pk_command = install_script (b64encode line) (b64encode algorithm) (b64encode blob) (install_marker token),
          pk_marker_prefix = install_marker token, pk_key_identity = algorithm @ '' '' @ blob\<rparr>))"

text \<open>
  \<^verbatim>\<open>PublicKeyInstallPlan.parse\<close>, with \<open>was_new\<close> as its result. Line boundaries are white space, so stripping a line
  with its boundary gives the stripped line.
\<close>

definition install_markers :: "public_key_install_plan \<Rightarrow> pystr \<Rightarrow> pystr list" where
  "install_markers plan out = List.filter (starts_with (pk_marker_prefix plan)) (map py_strip (splitlines_keep out))"

definition parse_install :: "public_key_install_plan \<Rightarrow> json \<Rightarrow> bool res" where
  "parse_install plan out =
     (case out of
        JStr s \<Rightarrow>
          if install_markers plan s = [pk_marker_prefix plan @ ''key_added''] then Inr True
          else if install_markers plan s = [pk_marker_prefix plan @ ''key_already_present''] then Inr False
          else Inl (outcome_unknown_error ''the remote key-install result was missing or ambiguous'' None)
      | _ \<Rightarrow> Inl (outcome_unknown_error ''the remote key-install command returned no verifiable marker'' None))"

end
