(* ===== verification/Setup_Operations.thy ===== *)
theory Setup_Operations
  imports Application Public_Key
begin

text \<open>
  \<^verbatim>\<open>setup/operations.py\<close>: what the setup window does when its user confirms. The operations work on the
  configuration file, the audit log and the broker. Other processes may change the configuration file at
  any time: each step of an operation looks up, by the number of the step, what others have done to the
  file since the last step, whether the lock is granted, how a write and an append end, and what
  the broker answers. So a theorem about an operation holds for every interleaving with other processes.
\<close>

section \<open>Steps\<close>

record op_env =
  oe_others :: "repo \<Rightarrow> repo"
  oe_lock :: "unit res"
  oe_write :: write_outcome
  oe_moment :: moment
  oe_append :: append_outcome
  oe_link :: broker_link

record op_state =
  os_tick :: nat
  os_repo :: repo
  os_logs :: audit_log
  os_sent :: sent_requests

record op_ctx =
  oc_repo :: repo_env
  oc_logger :: "audit_env option"
  oc_at :: "nat \<Rightarrow> op_env"
  oc_token :: pystr

definition repo_step :: "op_ctx \<Rightarrow> (write_outcome \<Rightarrow> repo \<Rightarrow> repo \<times> 'a res) \<Rightarrow> op_state \<Rightarrow> op_state \<times> 'a res" where
  "repo_step ctx m s =
     (let ev = oc_at ctx (os_tick s); r = oe_others ev (os_repo s) in
      case oe_lock ev of
        Inl e \<Rightarrow> (s\<lparr>os_tick := Suc (os_tick s), os_repo := r\<rparr>, Inl e)
      | Inr _ \<Rightarrow> (case m (oe_write ev) r of (r', x) \<Rightarrow> (s\<lparr>os_tick := Suc (os_tick s), os_repo := r'\<rparr>, x)))"

definition ops_load :: "op_ctx \<Rightarrow> op_state \<Rightarrow> op_state \<times> config_snapshot res" where
  "ops_load ctx = repo_step ctx (\<lambda>_. repo_load (oc_repo ctx))"

definition ops_save :: "op_ctx \<Rightarrow> server_ops_config \<Rightarrow> pystr \<Rightarrow> op_state \<Rightarrow> op_state \<times> config_snapshot res" where
  "ops_save ctx c h = repo_step ctx (\<lambda>w. save (oc_repo ctx) w c (Some h))"

definition ops_update ::
  "op_ctx \<Rightarrow> (server_ops_config \<Rightarrow> server_ops_config res) \<Rightarrow> op_state \<Rightarrow> op_state \<times> config_snapshot res" where
  "ops_update ctx f = repo_step ctx (\<lambda>w. Config_Repository.update (oc_repo ctx) w f None)"

definition ops_audit ::
  "op_ctx \<Rightarrow> pystr \<Rightarrow> pystr \<Rightarrow> server_profile option \<Rightarrow> pystr \<Rightarrow> op_state \<Rightarrow> op_state \<times> bool res" where
  "ops_audit ctx action profile_name profile status s =
     (let ev = oc_at ctx (os_tick s) in
      case profile_audit_record (oc_logger ctx) (oe_moment ev) (oe_append ev) action profile_name profile status (os_logs s) of
        (logs, logged) \<Rightarrow> (s\<lparr>os_tick := Suc (os_tick s), os_logs := logs\<rparr>, Inr logged))"

definition ops_request :: "op_ctx \<Rightarrow> pystr \<Rightarrow> payload \<Rightarrow> op_state \<Rightarrow> op_state \<times> payload res" where
  "ops_request ctx message_type pl s =
     (case broker_operation (oe_link (oc_at ctx (os_tick s))) message_type pl (os_sent s) of
        (sent, r) \<Rightarrow> (s\<lparr>os_tick := Suc (os_tick s), os_sent := sent\<rparr>, r))"

definition close_session :: "op_ctx \<Rightarrow> pystr \<Rightarrow> op_state \<Rightarrow> op_state" where
  "close_session ctx session_id s = fst (ops_request ctx ''session.close'' [(''session_id'', JStr session_id)] s)"

section \<open>Profiles\<close>

definition profile_answer :: "pystr \<Rightarrow> config_snapshot \<Rightarrow> bool \<Rightarrow> payload res" where
  "profile_answer n snapshot logged =
     bindE (someE (map_of (profiles (snap_config snapshot)) n) (KeyError n)) (\<lambda>p.
     Inr (status_attach logged [(''profile'', JObj (profile_details n p))]))"

definition ops_add :: "op_ctx \<Rightarrow> pystr \<Rightarrow> server_profile \<Rightarrow> op_state \<Rightarrow> op_state \<times> payload res" where
  "ops_add ctx n p =
     bindS (liftS (validate_profile_name n)) (\<lambda>_.
     bindS (ops_update ctx (\<lambda>c. if n \<in> set (keys (profiles c)) then Inl (ConfigurationError (''profile already exists: '' @ n))
       else with_profile n p c)) (\<lambda>snapshot.
     bindS (ops_audit ctx ''profile_created'' n (Some p) ''completed'') (\<lambda>logged.
     liftS (profile_answer n snapshot logged))))"

definition ops_edit :: "op_ctx \<Rightarrow> pystr \<Rightarrow> server_profile \<Rightarrow> op_state \<Rightarrow> op_state \<times> payload res" where
  "ops_edit ctx n p =
     bindS (liftS (validate_profile_name n)) (\<lambda>_.
     bindS (ops_update ctx (\<lambda>c. if n \<notin> set (keys (profiles c)) then Inl (ConfigurationError (''profile does not exist: '' @ n))
       else with_profile n p c)) (\<lambda>snapshot.
     bindS (ops_audit ctx ''profile_updated'' n (Some p) ''completed'') (\<lambda>logged.
     liftS (profile_answer n snapshot logged))))"

definition ops_remove :: "op_ctx \<Rightarrow> pystr \<Rightarrow> op_state \<Rightarrow> op_state \<times> payload res" where
  "ops_remove ctx n =
     bindS (liftS (validate_profile_name n)) (\<lambda>_.
     bindS (ops_load ctx) (\<lambda>original.
     bindS (liftS (someE (map_of (profiles (snap_config original)) n) (ConfigurationError (''profile does not exist: '' @ n)))) (\<lambda>p.
     bindS (repo_step ctx (\<lambda>w. remove_profile (oc_repo ctx) w n (Some (snap_hash original)))) (\<lambda>_.
     bindS (ops_audit ctx ''profile_removed'' n (Some p) ''completed'') (\<lambda>logged.
     liftS (Inr (status_attach logged [(''profile_name'', JStr n)])))))))"

definition require_profile :: "op_ctx \<Rightarrow> pystr \<Rightarrow> op_state \<Rightarrow> op_state \<times> server_profile res" where
  "require_profile ctx n =
     bindS (liftS (validate_profile_name n)) (\<lambda>_.
     bindS (ops_load ctx) (\<lambda>snapshot.
     liftS (someE (map_of (profiles (snap_config snapshot)) n) (ConfigurationError (''profile does not exist: '' @ n)))))"

definition opened_session_id :: "pystr \<Rightarrow> payload \<Rightarrow> pystr res" where
  "opened_session_id message opened =
     (case pget opened ''session_id'' of
        JStr i \<Rightarrow> bindE (validate_session_id i) (\<lambda>_. Inr i)
      | _ \<Rightarrow> Inl (RuntimeError message))"

text \<open>An exception is recorded and then raised again.\<close>

definition ops_failed :: "op_ctx \<Rightarrow> pystr \<Rightarrow> pystr \<Rightarrow> server_profile option \<Rightarrow> pystr \<Rightarrow> exn \<Rightarrow> op_state \<Rightarrow> op_state \<times> 'a res" where
  "ops_failed ctx action n profile status e = bindS (ops_audit ctx action n profile status) (\<lambda>_. liftS (Inl e))"

definition ops_test :: "op_ctx \<Rightarrow> pystr \<Rightarrow> op_state \<Rightarrow> op_state \<times> payload res" where
  "ops_test ctx n =
     bindS (require_profile ctx n) (\<lambda>p.
     bindS (ops_audit ctx ''profile_test_started'' n (Some p) ''started'') (\<lambda>started s.
       case bindS (ops_request ctx ''session.open'' [(''profile_name'', JStr n)]) (\<lambda>opened.
              bindS (liftS (opened_session_id ''broker returned no valid setup test session'' opened)) (\<lambda>i.
              liftS (Inr (i, opened)))) s of
         (s1, Inl e) \<Rightarrow> ops_failed ctx ''profile_test_failed'' n (Some p) ''failed'' e s1
       | (s1, Inr (i, opened)) \<Rightarrow>
           bindS (ops_audit ctx ''profile_test_completed'' n (Some p) ''completed'') (\<lambda>completed.
           liftS (Inr (status_attach (status_combine [started, completed])
             [(''profile_name'', JStr n), (''connection'', JStr ''ready''), (''effective_user'', pget opened ''effective_user'')])))
           (close_session ctx i s1)))"

text \<open>The generated key is what \<^verbatim>\<open>generator.generate\<close> returns or raises.\<close>

definition ops_generate_key :: "op_ctx \<Rightarrow> 'k res \<Rightarrow> pystr \<Rightarrow> op_state \<Rightarrow> op_state \<times> ('k \<times> bool) res" where
  "ops_generate_key ctx generated n =
     bindS (liftS (validate_profile_name n)) (\<lambda>_.
     bindS (ops_audit ctx ''key_generation_started'' n None ''started'') (\<lambda>started.
     case generated of
       Inl e \<Rightarrow> ops_failed ctx ''key_generation_failed'' n None ''failed'' e
     | Inr key \<Rightarrow>
         bindS (ops_audit ctx ''key_generation_completed'' n None ''completed'') (\<lambda>completed.
         liftS (Inr (key, status_combine [started, completed])))))"

section \<open>The switch to a key\<close>

definition validate_key_transition :: "server_profile \<Rightarrow> server_profile \<Rightarrow> unit res" where
  "validate_key_transition password_profile key_profile =
     bindE (guardE (authentication_of password_profile = INTERACTIVE_PASSWORD)
       (ValueError ''public-key installation requires an interactive password profile'')) (\<lambda>_.
     bindE (guardE (authentication_of key_profile = OPENSSH)
       (ValueError ''the resulting profile must use OpenSSH authentication'')) (\<lambda>_.
     bindE (guardE (identity_file key_profile \<noteq> None)
       (ValueError ''the resulting profile must select a private key file'')) (\<lambda>_.
     guardE (connection_type_of password_profile = connection_type_of key_profile \<and>
             ssh_host password_profile = ssh_host key_profile \<and> host password_profile = host key_profile \<and>
             port password_profile = port key_profile \<and> user password_profile = user key_profile)
       (ValueError ''password and key profiles must refer to the same SSH target''))))"

definition is_outcome_unknown :: "pystr option \<Rightarrow> bool" where
  "is_outcome_unknown code =
     (case code of None \<Rightarrow> False | Some c \<Rightarrow> \<exists>p. c = p @ ''outcome_unknown'')"

lemma is_outcome_unknown_code [code]:
  "is_outcome_unknown code =
     (case code of None \<Rightarrow> False
      | Some c \<Rightarrow> length ''outcome_unknown'' \<le> length c \<and> drop (length c - length ''outcome_unknown'') c = ''outcome_unknown'')"
proof (cases code)
  case (Some c)
  have "(\<exists>p. c = p @ t) = (length t \<le> length c \<and> drop (length c - length t) c = t)" for t
  proof
    assume "length t \<le> length c \<and> drop (length c - length t) c = t"
    then have "c = take (length c - length t) c @ t" using append_take_drop_id [of "length c - length t" c] by simp
    then show "\<exists>p. c = p @ t" ..
  qed auto
  then show ?thesis using Some by (simp only: is_outcome_unknown_def option.case)
qed (simp add: is_outcome_unknown_def)

text \<open>The request that runs the script; an answer without a verified marker is an unknown outcome.\<close>

definition run_install :: "op_ctx \<Rightarrow> public_key_install_plan \<Rightarrow> pystr \<Rightarrow> op_state \<Rightarrow> op_state \<times> bool res" where
  "run_install ctx plan session_id s =
     (case ops_request ctx ''session.exec''
          [(''session_id'', JStr session_id), (''command'', JStr (pk_command plan)), (''timeout'', JFloat 30)] s of
        (s1, Inl e) \<Rightarrow>
          (s1, Inl (if is_outcome_unknown (exn_code e)
             then outcome_unknown_error ''the connection ended before the key-install marker was received'' None else e))
      | (s1, Inr installed) \<Rightarrow>
          (s1, if pget installed ''status'' \<noteq> JStr ''completed'' \<or> \<not> equals_int (pget installed ''exit_code'') 0
            then Inl (outcome_unknown_error ''the key-install command ended without a successful result marker'' None)
            else parse_install plan (pget installed ''output'')))"

definition install_failed :: "op_ctx \<Rightarrow> pystr \<Rightarrow> server_profile \<Rightarrow> exn \<Rightarrow> op_state \<Rightarrow> op_state \<times> 'a res" where
  "install_failed ctx n p e =
     (if is_outcome_unknown (exn_code e)
      then ops_failed ctx ''public_key_install_outcome_unknown'' n (Some p) ''outcome_unknown'' e
      else ops_failed ctx ''public_key_install_failed'' n (Some p) ''failed'' e)"

definition install_public_key :: "op_ctx \<Rightarrow> pystr \<Rightarrow> server_profile \<Rightarrow> pystr \<Rightarrow> op_state \<Rightarrow> op_state \<times> (bool \<times> bool) res" where
  "install_public_key ctx n p public_key =
     bindS (liftS (build_public_key_install_plan public_key (oc_token ctx))) (\<lambda>plan.
     bindS (ops_audit ctx ''public_key_install_started'' n (Some p) ''started'') (\<lambda>started s.
       case bindS (ops_request ctx ''session.open'' [(''profile_name'', JStr n)])
              (\<lambda>opened. liftS (opened_session_id ''broker returned no valid setup session'' opened)) s of
         (s1, Inl e) \<Rightarrow> install_failed ctx n p e s1
       | (s1, Inr i) \<Rightarrow>
           (case run_install ctx plan i s1 of
              (s2, Inl e) \<Rightarrow> (case install_failed ctx n p e s2 of (s3, x) \<Rightarrow> (close_session ctx i s3, x))
            | (s2, Inr was_new) \<Rightarrow>
                bindS (ops_audit ctx ''public_key_install_completed'' n (Some p) ''completed'') (\<lambda>completed.
                liftS (Inr (was_new, status_combine [started, completed]))) (close_session ctx i s2))))"

definition rollback_local_profile ::
  "op_ctx \<Rightarrow> server_ops_config \<Rightarrow> pystr \<Rightarrow> op_state \<Rightarrow> op_state \<times> local_rollback_status" where
  "rollback_local_profile ctx original owned_hash s =
     (case ops_load ctx s of
        (s1, Inl _) \<Rightarrow> (s1, ROLLBACK_FAILED)
      | (s1, Inr current) \<Rightarrow>
          if snap_hash current \<noteq> owned_hash then (s1, SKIPPED_CONCURRENT_CHANGE)
          else (case ops_save ctx original owned_hash s1 of
             (s2, Inl _) \<Rightarrow> (s2, ROLLBACK_FAILED)
           | (s2, Inr _) \<Rightarrow> (s2, ROLLED_BACK)))"

text \<open>The end of the \<^verbatim>\<open>try\<close> block: the fresh login with the key and the record of the change.\<close>

definition confirm_switch ::
  "op_ctx \<Rightarrow> pystr \<Rightarrow> server_profile \<Rightarrow> bool \<Rightarrow> bool \<Rightarrow> bool \<Rightarrow> pystr \<Rightarrow> op_state \<Rightarrow> op_state \<times> payload res" where
  "confirm_switch ctx n key_profile replace_existing was_new install_audit owned_hash =
     bindS (ops_test ctx n) (\<lambda>tested.
     bindS (ops_load ctx) (\<lambda>current.
     bindS (liftS (guardE (snap_hash current = owned_hash)
       (ConfigConflictError ''configuration changed while the fresh key login was being tested''))) (\<lambda>_.
     bindS (ops_audit ctx (if replace_existing then ''profile_updated'' else ''profile_created'') n (Some key_profile) ''completed'') (\<lambda>mutation.
     liftS (Inr (status_attach (status_combine [install_audit, status_from_result tested, mutation])
       [(''profile'', JObj (profile_details n key_profile)), (''public_key_installed'', JBool True),
        (''public_key_was_new'', JBool was_new), (''key_login_tested'', JBool True)]))))))"

text \<open>The \<^verbatim>\<open>try\<close> block: with the result it gives \<^verbatim>\<open>owned_hash\<close> and \<^verbatim>\<open>install_result\<close> as they are when it ends.\<close>

definition switch_body ::
  "op_ctx \<Rightarrow> pystr \<Rightarrow> server_profile \<Rightarrow> server_profile \<Rightarrow> pystr \<Rightarrow> bool \<Rightarrow> config_snapshot \<Rightarrow> op_state \<Rightarrow>
   op_state \<times> pystr \<times> bool option \<times> payload res" where
  "switch_body ctx n password_profile key_profile public_key replace_existing staging s =
     (case install_public_key ctx n password_profile public_key s of
        (s1, Inl e) \<Rightarrow> (s1, snap_hash staging, None, Inl e)
      | (s1, Inr (was_new, install_audit)) \<Rightarrow>
          (case bindS (liftS (with_profile n key_profile (snap_config staging))) (\<lambda>c. ops_save ctx c (snap_hash staging)) s1 of
             (s2, Inl e) \<Rightarrow> (s2, snap_hash staging, Some was_new, Inl e)
           | (s2, Inr switched) \<Rightarrow>
               (case confirm_switch ctx n key_profile replace_existing was_new install_audit (snap_hash switched) s2 of
                  (s3, x) \<Rightarrow> (s3, snap_hash switched, Some was_new, x))))"

definition switch_error :: "exn \<Rightarrow> bool option \<Rightarrow> local_rollback_status \<Rightarrow> exn" where
  "switch_error e installed rollback =
     (case e of
        PublicKeyInstallOutcomeUnknown _ _ \<Rightarrow>
          outcome_unknown_error ''The public key installation outcome is unknown.'' (Some rollback)
      | _ \<Rightarrow> (case installed of Some was_new \<Rightarrow> transition_error rollback was_new | None \<Rightarrow> e))"

definition switch_staged ::
  "op_ctx \<Rightarrow> pystr \<Rightarrow> server_profile \<Rightarrow> server_profile \<Rightarrow> pystr \<Rightarrow> bool \<Rightarrow> server_ops_config \<Rightarrow> config_snapshot \<Rightarrow> op_state \<Rightarrow>
   op_state \<times> payload res" where
  "switch_staged ctx n password_profile key_profile public_key replace_existing original staging s =
     (case switch_body ctx n password_profile key_profile public_key replace_existing staging s of
        (s1, owned_hash, installed, Inr d) \<Rightarrow> (s1, Inr d)
      | (s1, owned_hash, installed, Inl e) \<Rightarrow>
          (case rollback_local_profile ctx original owned_hash s1 of
             (s2, rollback) \<Rightarrow> (s2, Inl (switch_error e installed rollback))))"

definition install_public_key_and_switch ::
  "op_ctx \<Rightarrow> pystr \<Rightarrow> server_profile \<Rightarrow> server_profile \<Rightarrow> pystr \<Rightarrow> bool \<Rightarrow> op_state \<Rightarrow> op_state \<times> payload res" where
  "install_public_key_and_switch ctx n password_profile key_profile public_key replace_existing =
     bindS (liftS (validate_key_transition password_profile key_profile)) (\<lambda>_.
     bindS (ops_load ctx) (\<lambda>original.
     bindS (liftS (guardE (replace_existing = (n \<in> set (keys (profiles (snap_config original)))))
       (ConfigConflictError (''profile was expected to '' @ (if replace_existing then ''exist'' else ''not exist'') @ '': '' @ n)))) (\<lambda>_.
     bindS (liftS (with_profile n password_profile (snap_config original))) (\<lambda>staging_config.
     bindS (ops_save ctx staging_config (snap_hash original)) (\<lambda>staging.
     switch_staged ctx n password_profile key_profile public_key replace_existing (snap_config original) staging)))))"

section \<open>Foreign changes are kept\<close>

text \<open>
  A run in which the operation changes the file only where it holds a content whose hash is one of \<open>H\<close>, and
  then to one of the contents \<open>C\<close>. Between the steps others may change the file as they like.
\<close>

definition own_change :: "repo_env \<Rightarrow> pystr set \<Rightarrow> bytes set \<Rightarrow> repo \<Rightarrow> repo \<Rightarrow> bool" where
  "own_change env H C r r' =
     (r' = r \<or> (env_sha256 env (file_bytes r) \<in> H \<and> backups r' = backups r \<and> (\<exists>b\<in>C. config_file r' = Some b)))"

inductive guarded :: "op_ctx \<Rightarrow> pystr set \<Rightarrow> bytes set \<Rightarrow> nat \<Rightarrow> repo \<Rightarrow> nat \<Rightarrow> repo \<Rightarrow> bool" for ctx H C where
  guarded_refl: "guarded ctx H C t r t r"
| guarded_step: "guarded ctx H C t r t1 r1 \<Longrightarrow> own_change (oc_repo ctx) H C (oe_others (oc_at ctx t1) r1) r2 \<Longrightarrow>
    guarded ctx H C t r (Suc t1) r2"
| guarded_other: "guarded ctx H C t r t1 r1 \<Longrightarrow> guarded ctx H C t r (Suc t1) r1"

lemma guarded_trans: "guarded ctx H C t1 r1 t2 r2 \<Longrightarrow> guarded ctx H C t r t1 r1 \<Longrightarrow> guarded ctx H C t r t2 r2"
  by (induction rule: guarded.induct) (auto intro: guarded.intros)

lemma guarded_mono: "guarded ctx H C t r t1 r1 \<Longrightarrow> H \<subseteq> H' \<Longrightarrow> C \<subseteq> C' \<Longrightarrow> guarded ctx H' C' t r t1 r1"
proof (induction rule: guarded.induct)
  case (guarded_step t r t1 r1 r2)
  then have "own_change (oc_repo ctx) H' C' (oe_others (oc_at ctx t1) r1) r2" by (auto simp: own_change_def)
  with guarded_step show ?case by (auto intro: guarded.guarded_step)
qed (auto intro: guarded.intros)

definition run_guarded :: "op_ctx \<Rightarrow> pystr set \<Rightarrow> bytes set \<Rightarrow> op_state \<Rightarrow> op_state \<Rightarrow> bool" where
  "run_guarded ctx H C s s' = guarded ctx H C (os_tick s) (os_repo s) (os_tick s') (os_repo s')"

definition op_guarded :: "op_ctx \<Rightarrow> pystr set \<Rightarrow> bytes set \<Rightarrow> (op_state \<Rightarrow> op_state \<times> 'a) \<Rightarrow> bool" where
  "op_guarded ctx H C m = (\<forall>s. run_guarded ctx H C s (fst (m s)))"

lemma run_guarded_refl [simp]: "run_guarded ctx H C s s"
  by (simp add: run_guarded_def guarded_refl)

lemma run_guarded_trans: "run_guarded ctx H C s s1 \<Longrightarrow> run_guarded ctx H C s1 s2 \<Longrightarrow> run_guarded ctx H C s s2"
  unfolding run_guarded_def by (rule guarded_trans)

lemma op_guarded_apply: "op_guarded ctx H C m \<Longrightarrow> m s = (s', x) \<Longrightarrow> run_guarded ctx H C s s'"
  by (metis fst_conv op_guarded_def)

lemma op_guarded_liftS [simp]: "op_guarded ctx H C (liftS r)"
  by (simp add: op_guarded_def)

lemma op_guarded_bindS:
  assumes "op_guarded ctx H C m" and "\<And>a. op_guarded ctx H C (f a)"
  shows "op_guarded ctx H C (bindS m f)"
  unfolding op_guarded_def
proof
  fix s :: op_state
  obtain s1 x where m: "m s = (s1, x)" by fastforce
  show "run_guarded ctx H C s (fst (bindS m f s))"
    using op_guarded_apply [OF assms(1) m] assms(2) m run_guarded_trans
    by (cases x) (auto simp: bindS_def op_guarded_def)
qed

lemma repo_step_guarded:
  assumes "\<And>w r r' x. m w r = (r', x) \<Longrightarrow> own_change (oc_repo ctx) H C r r'"
  shows "op_guarded ctx H C (repo_step ctx m)"
  unfolding op_guarded_def
proof
  fix s :: op_state
  let ?ev = "oc_at ctx (os_tick s)" and ?r = "oe_others (oc_at ctx (os_tick s)) (os_repo s)"
  obtain r' x where m: "m (oe_write ?ev) ?r = (r', x)" by fastforce
  have "own_change (oc_repo ctx) H C ?r ?r" by (simp add: own_change_def)
  with assms [OF m] show "run_guarded ctx H C s (fst (repo_step ctx m s))"
    by (cases "oe_lock ?ev")
      (auto simp: repo_step_def Let_def m run_guarded_def intro!: guarded_step [OF guarded_refl])
qed

lemma ops_load_guarded [simp]: "op_guarded ctx H C (ops_load ctx)"
  unfolding ops_load_def by (rule repo_step_guarded) (simp add: repo_load_def own_change_def)

lemma write_unlocked_cases:
  "write_unlocked env w c r = (r', x) \<Longrightarrow> r' = r \<or> config_file r' = Some (encode_config c) \<and> backups r' = backups r"
  by (cases w) (auto simp: write_unlocked_def Let_def)

lemma save_cases:
  assumes "save env w c (Some h) r = (r', x)"
  shows "r' = r \<or> (env_sha256 env (file_bytes r) = h \<and> backups r' = backups r \<and> config_file r' = Some (encode_config c))"
proof (cases "env_sha256 env (file_bytes r) = h")
  case True
  then show ?thesis using assms write_unlocked_cases [of env w c r r' x] by (auto simp: save_def split: sum.splits)
next
  case False
  then show ?thesis using save_stale [of h env r w c] assms by auto
qed

lemma ops_save_guarded: "h \<in> H \<Longrightarrow> encode_config c \<in> C \<Longrightarrow> op_guarded ctx H C (ops_save ctx c h)"
  unfolding ops_save_def by (rule repo_step_guarded) (auto simp: own_change_def dest!: save_cases)

lemma ops_audit_guarded [simp]: "op_guarded ctx H C (ops_audit ctx action n p status)"
  by (auto simp: op_guarded_def run_guarded_def ops_audit_def Let_def intro: guarded.intros split: prod.split)

lemma ops_request_guarded [simp]: "op_guarded ctx H C (ops_request ctx mt pl)"
  by (auto simp: op_guarded_def run_guarded_def ops_request_def intro: guarded.intros split: prod.split)

lemma close_session_guarded: "run_guarded ctx H C s s1 \<Longrightarrow> run_guarded ctx H C s (close_session ctx i s1)"
  using ops_request_guarded [of ctx H C "''session.close''"] run_guarded_trans
  by (fastforce simp: close_session_def op_guarded_def)

lemmas guarded_intros = op_guarded_bindS op_guarded_liftS ops_load_guarded ops_audit_guarded ops_request_guarded

lemma ops_failed_guarded [simp]: "op_guarded ctx H C (ops_failed ctx action n p status e)"
  unfolding ops_failed_def by (intro guarded_intros)

lemma op_guarded_case:
  assumes "op_guarded ctx H C m" and "\<And>e. op_guarded ctx H C (f e)" and "\<And>a s0 s1. run_guarded ctx H C s0 s1 \<Longrightarrow> run_guarded ctx H C s0 (fst (g a s1))"
  shows "op_guarded ctx H C (\<lambda>s. case m s of (s1, Inl e) \<Rightarrow> f e s1 | (s1, Inr a) \<Rightarrow> g a s1)"
  unfolding op_guarded_def
proof
  fix s :: op_state
  obtain s1 x where m: "m s = (s1, x)" by fastforce
  note r = op_guarded_apply [OF assms(1) m]
  show "run_guarded ctx H C s (fst (case m s of (s1, Inl e) \<Rightarrow> f e s1 | (s1, Inr a) \<Rightarrow> g a s1))"
    using r assms(2,3) run_guarded_trans by (cases x) (auto simp: m op_guarded_def)
qed

lemma guarded_after_close:
  assumes "op_guarded ctx H C m" and "run_guarded ctx H C s0 s1"
  shows "run_guarded ctx H C s0 (fst (m (close_session ctx i s1)))"
  using assms(1) close_session_guarded [OF assms(2)] run_guarded_trans unfolding op_guarded_def by blast

lemma ops_test_guarded [simp]: "op_guarded ctx H C (ops_test ctx n)"
  unfolding ops_test_def require_profile_def
  by (intro guarded_intros op_guarded_case ops_failed_guarded)
    (auto intro!: guarded_after_close guarded_intros split: prod.split)

lemma run_install_guarded [simp]: "op_guarded ctx H C (run_install ctx plan i)"
  unfolding op_guarded_def
proof
  fix s :: op_state
  let ?pl = "[(''session_id'', JStr i), (''command'', JStr (pk_command plan)), (''timeout'', JFloat 30)]"
  obtain s1 x where r: "ops_request ctx ''session.exec'' ?pl s = (s1, x)" by fastforce
  show "run_guarded ctx H C s (fst (run_install ctx plan i s))"
    using op_guarded_apply [OF ops_request_guarded r] by (cases x) (simp_all add: run_install_def r)
qed

lemma install_failed_guarded [simp]: "op_guarded ctx H C (install_failed ctx n p e)"
  by (simp add: install_failed_def)

lemma install_public_key_guarded [simp]: "op_guarded ctx H C (install_public_key ctx n p key)"
proof -
  have run: "run_guarded ctx H C s0 (fst (case run_install ctx plan i s1 of
      (s2, Inl e) \<Rightarrow> (case install_failed ctx n p e s2 of (s3, x) \<Rightarrow> (close_session ctx i s3, x))
    | (s2, Inr was_new) \<Rightarrow> m was_new (close_session ctx i s2)))"
    if s: "run_guarded ctx H C s0 s1" and m: "\<And>w. op_guarded ctx H C (m w)"
    for s0 s1 :: op_state and plan i and m :: "bool \<Rightarrow> op_state \<Rightarrow> op_state \<times> (bool \<times> bool) res"
  proof -
    obtain s2 y where r: "run_install ctx plan i s1 = (s2, y)" by fastforce
    have s2: "run_guarded ctx H C s0 s2" using run_guarded_trans [OF s op_guarded_apply [OF run_install_guarded r]] .
    show ?thesis
    proof (cases y)
      case (Inl e)
      obtain s3 and x :: "(bool \<times> bool) res" where f: "install_failed ctx n p e s2 = (s3, x)" by fastforce
      then show ?thesis
        using close_session_guarded [OF run_guarded_trans [OF s2 op_guarded_apply [OF install_failed_guarded f]]]
        by (simp add: r Inl)
    next
      case (Inr w)
      then show ?thesis using guarded_after_close [OF m s2] by (simp add: r)
    qed
  qed
  show ?thesis
    unfolding install_public_key_def
    by (intro guarded_intros op_guarded_case install_failed_guarded run)
qed

lemma rollback_guarded:
  assumes "h \<in> H" and "encode_config original \<in> C"
  shows "op_guarded ctx H C (rollback_local_profile ctx original h)"
  unfolding op_guarded_def
proof
  fix s :: op_state
  obtain s1 x where l: "ops_load ctx s = (s1, x)" by fastforce
  obtain s2 y where v: "ops_save ctx original h s1 = (s2, y)" by fastforce
  note 1 = op_guarded_apply [OF ops_load_guarded l]
  note 2 = run_guarded_trans [OF 1 op_guarded_apply [OF ops_save_guarded [OF assms] v]]
  show "run_guarded ctx H C s (fst (rollback_local_profile ctx original h s))"
    using 1 2 by (cases x; cases y) (simp_all add: rollback_local_profile_def l v)
qed

lemma confirm_switch_guarded [simp]: "op_guarded ctx H C (confirm_switch ctx n kp rep new aud h)"
  unfolding confirm_switch_def by (intro guarded_intros ops_test_guarded)

lemma ops_save_hash: "ops_save ctx c h s = (s', Inr snap) \<Longrightarrow> snap_config snap = c \<and> snap_hash snap = env_sha256 (oc_repo ctx) (encode_config c)"
  by (auto simp: ops_save_def repo_step_def save_def Let_def dest: write_unlocked_ok split: sum.splits prod.splits)

text \<open>What the switch may write: the old profiles, and these with the one or the other new profile.\<close>

definition switch_contents :: "pystr \<Rightarrow> server_profile \<Rightarrow> server_profile \<Rightarrow> server_ops_config \<Rightarrow> bytes set" where
  "switch_contents n password_profile key_profile original =
     {encode_config c |c. c = original \<or> with_profile n password_profile original = Inr c \<or>
        (\<exists>staged. with_profile n password_profile original = Inr staged \<and> with_profile n key_profile staged = Inr c)}"

lemma key_save_guarded:
  assumes "snap_hash staging \<in> H" and "\<And>c. with_profile n kp (snap_config staging) = Inr c \<Longrightarrow> encode_config c \<in> C"
    and "env_sha256 (oc_repo ctx) ` C \<subseteq> H" and "run_guarded ctx H C s s2"
    and "bindS (liftS (with_profile n kp (snap_config staging))) (\<lambda>c. ops_save ctx c (snap_hash staging)) s2 = (s3, z)"
  shows "run_guarded ctx H C s s3 \<and> (\<forall>t. z = Inr t \<longrightarrow> snap_hash t \<in> H)"
proof (cases "with_profile n kp (snap_config staging)")
  case (Inr c)
  then have sv: "ops_save ctx c (snap_hash staging) s2 = (s3, z)" using assms(5) by simp
  show ?thesis
    using run_guarded_trans [OF assms(4) op_guarded_apply [OF ops_save_guarded [OF assms(1) assms(2) [OF Inr]] sv]]
      ops_save_hash [of ctx c] sv assms(2) [OF Inr] assms(3) by blast
qed (use assms(4,5) in auto)

lemma switch_body_guarded:
  assumes "snap_hash staging \<in> H" and "\<And>c. with_profile n kp (snap_config staging) = Inr c \<Longrightarrow> encode_config c \<in> C"
    and "env_sha256 (oc_repo ctx) ` C \<subseteq> H" and body: "switch_body ctx n pw kp key rep staging s = (s1, owned, installed, x)"
  shows "run_guarded ctx H C s s1 \<and> owned \<in> H"
proof -
  obtain s2 y where i: "install_public_key ctx n pw key s = (s2, y)" by fastforce
  note g2 = op_guarded_apply [OF install_public_key_guarded i]
  show ?thesis
  proof (cases y)
    case (Inl e)
    then show ?thesis using body i g2 assms(1) by (auto simp: switch_body_def)
  next
    case (Inr wa)
    obtain w a where wa: "wa = (w, a)" by fastforce
    obtain s3 z where sv: "bindS (liftS (with_profile n kp (snap_config staging))) (\<lambda>c. ops_save ctx c (snap_hash staging)) s2 = (s3, z)"
      by fastforce
    note g3 = key_save_guarded [OF assms(1-3) g2 sv]
    show ?thesis
    proof (cases z)
      case (Inr t)
      obtain s4 u where cf: "confirm_switch ctx n kp rep w a (snap_hash t) s3 = (s4, u)" by fastforce
      have "run_guarded ctx H C s s4"
        using run_guarded_trans [OF conjunct1 [OF g3] op_guarded_apply [OF confirm_switch_guarded cf]] .
      then show ?thesis using body i \<open>y = Inr wa\<close> wa sv Inr cf g3 by (simp add: switch_body_def)
    qed (use body i Inr wa sv g3 assms(1) in \<open>simp add: switch_body_def\<close>)
  qed
qed

lemma switch_staged_guarded:
  assumes "with_profile n pw original = Inr (snap_config staging)"
    and "snap_hash staging = env_sha256 (oc_repo ctx) (encode_config (snap_config staging))"
    and C: "C = switch_contents n pw kp original" and H: "env_sha256 (oc_repo ctx) ` C \<subseteq> H"
  shows "op_guarded ctx H C (switch_staged ctx n pw kp key rep original staging)"
  unfolding op_guarded_def
proof
  fix s :: op_state
  obtain s1 owned installed x where body: "switch_body ctx n pw kp key rep staging s = (s1, owned, installed, x)" by (metis surj_pair)
  have "snap_hash staging \<in> H" using assms by (auto simp: switch_contents_def)
  moreover have "encode_config c \<in> C" if "with_profile n kp (snap_config staging) = Inr c" for c
    using C assms(1) that by (auto simp: switch_contents_def)
  ultimately have g: "run_guarded ctx H C s s1 \<and> owned \<in> H" using switch_body_guarded [OF _ _ H body] by blast
  have "encode_config original \<in> C" using C by (auto simp: switch_contents_def)
  then have rb: "op_guarded ctx H C (rollback_local_profile ctx original owned)" using g rollback_guarded by blast
  obtain s2 status where r: "rollback_local_profile ctx original owned s1 = (s2, status)" by fastforce
  have "run_guarded ctx H C s s2" using run_guarded_trans [OF conjunct1 [OF g] op_guarded_apply [OF rb r]] .
  then show "run_guarded ctx H C s (fst (switch_staged ctx n pw kp key rep original staging s))"
    using g by (cases x) (simp_all add: switch_staged_def body r)
qed

lemma staging_guarded:
  assumes "h \<in> H" and "with_profile n pw original = Inr staged"
    and C: "C = switch_contents n pw kp original" and H: "env_sha256 (oc_repo ctx) ` C \<subseteq> H"
  shows "op_guarded ctx H C (bindS (ops_save ctx staged h) (switch_staged ctx n pw kp key rep original))"
  unfolding op_guarded_def
proof
  fix s :: op_state
  have c: "encode_config staged \<in> C" using assms(2) by (auto simp: C switch_contents_def)
  obtain s2 y where sv: "ops_save ctx staged h s = (s2, y)" by fastforce
  note g2 = op_guarded_apply [OF ops_save_guarded [OF assms(1) c] sv]
  show "run_guarded ctx H C s (fst (bindS (ops_save ctx staged h) (switch_staged ctx n pw kp key rep original) s))"
  proof (cases y)
    case (Inr staging)
    have "with_profile n pw original = Inr (snap_config staging)"
      and "snap_hash staging = env_sha256 (oc_repo ctx) (encode_config (snap_config staging))"
      using ops_save_hash [OF sv [unfolded Inr]] assms(2) by simp_all
    from switch_staged_guarded [OF this C H] have "run_guarded ctx H C s2 (fst (switch_staged ctx n pw kp key rep original staging s2))"
      by (simp add: op_guarded_def)
    from run_guarded_trans [OF g2 this] show ?thesis by (simp add: bindS_def sv Inr)
  qed (use sv g2 in \<open>simp add: bindS_def\<close>)
qed

lemma ops_load_Inr:
  "ops_load ctx s = (s1, Inr snap) \<Longrightarrow>
     \<exists>m. load_unlocked (oc_repo ctx) (oe_others (oc_at ctx (os_tick s)) (os_repo s)) = Inr (snap, m)"
  by (auto simp: ops_load_def repo_step_def repo_load_def Let_def bindE_eq_Inr split: sum.splits prod.splits)

lemma bindS_liftS_cases:
  assumes "bindS (liftS r) f s = (s', x)"
  obtains (raised) e where "s' = s" "x = Inl e" | (bound) a where "r = Inr a" "f a s = (s', x)"
  using assms by (cases r) auto

lemma bindS_cases:
  assumes "bindS m f s = (s', x)" and "m s = (s1, y)"
  obtains (raised) e where "s' = s1" "x = Inl e" | (bound) a where "y = Inr a" "f a s1 = (s', x)"
  using assms by (cases y) (auto simp: bindS_def)

lemma key_switch_cases:
  assumes "install_public_key_and_switch ctx n pw kp key rep s = (s', x)" and "ops_load ctx s = (s1, l)"
  obtains (checked) e where "s' = s" "x = Inl e" | (loaded) e where "s' = s1" "x = Inl e"
  | (staged) original staged where "l = Inr original" "with_profile n pw (snap_config original) = Inr staged"
      "bindS (ops_save ctx staged (snap_hash original)) (switch_staged ctx n pw kp key rep (snap_config original)) s1 = (s', x)"
  using assms(1) unfolding install_public_key_and_switch_def
proof (rule bindS_liftS_cases, goal_cases)
  case (2 _)
  from 2(5) assms(2) show ?case
  proof (rule bindS_cases, goal_cases)
    case (2 original)
    from 2(2) show ?case
    proof (rule bindS_liftS_cases, goal_cases)
      case (2 _)
      from 2(2) show ?case by (rule bindS_liftS_cases) (use loaded staged \<open>l = Inr original\<close> in blast)+
    qed (use loaded in blast)
  qed (use loaded in blast)
qed (use checked in blast)

text \<open>
  C12: the switch to a key never overwrites a change of somebody else. Whatever other processes do to the
  configuration file between its steps, and however locks, writes, the broker and the remote command
  end, the operation replaces the content of the file only where it is, by its hash, the content that it
  read at the beginning or one that it has written itself, and it writes nothing but the old profiles and
  these with the password or the key profile put in. Before it has read the file it writes nothing.
\<close>

theorem key_switch_keeps_foreign_changes:
  assumes "install_public_key_and_switch ctx n password_profile key_profile public_key replace_existing s = (s', x)"
    and "seen = oe_others (oc_at ctx (os_tick s)) (os_repo s)"
  shows "guarded ctx {} {} (os_tick s) (os_repo s) (os_tick s') (os_repo s') \<or>
    (\<exists>original m C. load_unlocked (oc_repo ctx) seen = Inr (original, m) \<and>
       C = switch_contents n password_profile key_profile (snap_config original) \<and>
       guarded ctx ({env_sha256 (oc_repo ctx) (file_bytes seen)} \<union> env_sha256 (oc_repo ctx) ` C) C
         (os_tick s) (os_repo s) (os_tick s') (os_repo s'))"
proof -
  obtain s1 l where load: "ops_load ctx s = (s1, l)" by fastforce
  have quiet: "guarded ctx {} {} (os_tick s) (os_repo s) (os_tick s1) (os_repo s1)"
    using op_guarded_apply [OF ops_load_guarded load] by (simp add: run_guarded_def)
  from assms(1) load show ?thesis
  proof (cases rule: key_switch_cases)
    case (staged original staged)
    note 3 = this
    obtain m where m: "load_unlocked (oc_repo ctx) seen = Inr (original, m)"
      using ops_load_Inr [OF load [unfolded 3(1)]] assms(2) by auto
    define C where "C = switch_contents n password_profile key_profile (snap_config original)"
    define H where "H = {env_sha256 (oc_repo ctx) (file_bytes seen)} \<union> env_sha256 (oc_repo ctx) ` C"
    have h: "snap_hash original \<in> H" using load_hash [OF m] by (simp add: H_def)
    have sub: "env_sha256 (oc_repo ctx) ` C \<subseteq> H" unfolding H_def by blast
    have g1: "run_guarded ctx H C s s1" using guarded_mono [OF quiet] by (simp add: run_guarded_def)
    from run_guarded_trans [OF g1 op_guarded_apply [OF staging_guarded [OF h 3(2) C_def sub] 3(3)]]
    have "guarded ctx H C (os_tick s) (os_repo s) (os_tick s') (os_repo s')" by (simp add: run_guarded_def)
    with m C_def show ?thesis unfolding H_def by blast
  next
    case (checked e)
    then show ?thesis by (simp add: guarded_refl)
  next
    case (loaded e)
    then show ?thesis using quiet by simp
  qed
qed

section \<open>All or nothing\<close>

text \<open>Nobody else changes the file, the lock is granted and writes succeed.\<close>

definition undisturbed :: "op_ctx \<Rightarrow> bool" where
  "undisturbed ctx = (\<forall>t. oe_others (oc_at ctx t) = id \<and> oe_lock (oc_at ctx t) = Inr () \<and> oe_write (oc_at ctx t) = Written)"

lemma guarded_undisturbed:
  "guarded ctx H {} t r t1 r1 \<Longrightarrow> undisturbed ctx \<Longrightarrow> r1 = r"
  by (induction rule: guarded.induct) (auto simp: own_change_def undisturbed_def)

lemma op_guarded_undisturbed:
  assumes "undisturbed ctx" and "op_guarded ctx {} {} m" and "m s = (s', x)"
  shows "os_repo s' = os_repo s"
  using guarded_undisturbed [OF _ assms(1)] op_guarded_apply [OF assms(2,3)] by (simp add: run_guarded_def)

lemma repo_step_undisturbed:
  "undisturbed ctx \<Longrightarrow> repo_step ctx m s =
     (case m Written (os_repo s) of (r', x) \<Rightarrow> (s\<lparr>os_tick := Suc (os_tick s), os_repo := r'\<rparr>, x))"
  by (simp add: repo_step_def undisturbed_def Let_def)

lemma load_undisturbed:
  "undisturbed ctx \<Longrightarrow> load_unlocked (oc_repo ctx) (os_repo s) = Inr (t, m) \<Longrightarrow>
     ops_load ctx s = (s\<lparr>os_tick := Suc (os_tick s)\<rparr>, Inr t)"
  by (simp add: ops_load_def repo_step_undisturbed repo_load_def)

lemma save_undisturbed:
  assumes "undisturbed ctx" and "load_unlocked (oc_repo ctx) (os_repo s) = Inr (t, m)"
  shows "\<exists>s'. ops_save ctx c (snap_hash t) s =
      (s', Inr \<lparr>snap_config = c, snap_hash = env_sha256 (oc_repo ctx) (encode_config c)\<rparr>) \<and>
    config_file (os_repo s') = Some (encode_config c)"
  using assms(2)
  by (simp add: ops_save_def repo_step_undisturbed [OF assms(1)] save_def check_hash_def write_unlocked_def Let_def)

text \<open>What can be read back from the file.\<close>

definition holds_profiles :: "op_ctx \<Rightarrow> (pystr \<Rightarrow> server_profile option) \<Rightarrow> op_state \<Rightarrow> bool" where
  "holds_profiles ctx ps s =
     (\<exists>t m. load_unlocked (oc_repo ctx) (os_repo s) = Inr (t, m) \<and> find_profile (snap_config t) = ps)"

lemma holds_written:
  assumes "reads_toml (env_loads (oc_repo ctx))" and "accepted_config c" and "writable_config c"
    and "config_file (os_repo s) = Some (encode_config c)"
  shows "holds_profiles ctx (find_profile c) s"
  using load_written [OF assms] by (auto simp: holds_profiles_def)

lemma rollback_undisturbed:
  assumes "undisturbed ctx" and "reads_toml (env_loads (oc_repo ctx))" and "accepted_config c" and "writable_config c"
    and "config_file (os_repo s) = Some (encode_config c)"
  shows "\<exists>s'. rollback_local_profile ctx original (env_sha256 (oc_repo ctx) (encode_config c)) s = (s', ROLLED_BACK) \<and>
    config_file (os_repo s') = Some (encode_config original)"
proof -
  obtain t where t: "load_unlocked (oc_repo ctx) (os_repo s) = Inr (t, False)"
    and h: "snap_hash t = env_sha256 (oc_repo ctx) (encode_config c)"
    using load_written [OF assms(2-5)] by blast
  let ?s1 = "s\<lparr>os_tick := Suc (os_tick s)\<rparr>"
  have "load_unlocked (oc_repo ctx) (os_repo ?s1) = Inr (t, False)" using t by simp
  from save_undisturbed [OF assms(1) this, of original] load_undisturbed [OF assms(1) t] h show ?thesis
    by (auto simp: rollback_local_profile_def)
qed

text \<open>How the \<^verbatim>\<open>try\<close> block leaves the file: its own content, and with a result the one with the key profile.\<close>

lemma switch_body_undisturbed:
  assumes u: "undisturbed ctx" and toml: "reads_toml (env_loads (oc_repo ctx))"
    and st: "accepted_config (snap_config staging)" "writable_config (snap_config staging)"
    and h: "snap_hash staging = env_sha256 (oc_repo ctx) (encode_config (snap_config staging))"
    and f: "config_file (os_repo s) = Some (encode_config (snap_config staging))"
    and kp: "\<And>c. with_profile n kp (snap_config staging) = Inr c \<Longrightarrow> accepted_config c \<and> writable_config c"
    and body: "switch_body ctx n pw kp key rep staging s = (s1, owned, installed, x)"
  shows "\<exists>c. config_file (os_repo s1) = Some (encode_config c) \<and> owned = env_sha256 (oc_repo ctx) (encode_config c) \<and>
    accepted_config c \<and> writable_config c \<and> ((\<exists>d. x = Inr d) \<longrightarrow> with_profile n kp (snap_config staging) = Inr c)"
proof -
  obtain s2 y where i: "install_public_key ctx n pw key s = (s2, y)" by fastforce
  have r2: "os_repo s2 = os_repo s" by (rule op_guarded_undisturbed [OF u install_public_key_guarded i])
  show ?thesis
  proof (cases y)
    case (Inl e)
    then show ?thesis using body i r2 f h st by (auto simp: switch_body_def)
  next
    case (Inr wa)
    obtain w a where wa: "wa = (w, a)" by fastforce
    show ?thesis
    proof (cases "with_profile n kp (snap_config staging)")
      case (Inl e)
      then show ?thesis using body i Inr wa r2 f h st by (auto simp: switch_body_def)
    next
      case k: (Inr c)
      obtain t where t: "load_unlocked (oc_repo ctx) (os_repo s2) = Inr (t, False)" "snap_hash t = snap_hash staging"
        using load_written [OF toml st, of "os_repo s2"] r2 f h by auto
      obtain s3 where s3: "ops_save ctx c (snap_hash staging) s2 =
          (s3, Inr \<lparr>snap_config = c, snap_hash = env_sha256 (oc_repo ctx) (encode_config c)\<rparr>)"
        "config_file (os_repo s3) = Some (encode_config c)"
        using save_undisturbed [OF u t(1), of c] t(2) by auto
      obtain s4 z where z: "confirm_switch ctx n kp rep w a (env_sha256 (oc_repo ctx) (encode_config c)) s3 = (s4, z)" by fastforce
      have "os_repo s4 = os_repo s3" by (rule op_guarded_undisturbed [OF u confirm_switch_guarded z])
      moreover have "s1 = s4" "owned = env_sha256 (oc_repo ctx) (encode_config c)"
        using body i Inr wa k s3(1) z by (simp_all add: switch_body_def)
      ultimately show ?thesis using k s3(2) kp [OF k] by (intro exI [of _ c]) simp
    qed
  qed
qed

lemma switch_staged_undisturbed:
  assumes u: "undisturbed ctx" and toml: "reads_toml (env_loads (oc_repo ctx))"
    and orig: "accepted_config original" "writable_config original"
    and st: "accepted_config (snap_config staging)" "writable_config (snap_config staging)"
    and h: "snap_hash staging = env_sha256 (oc_repo ctx) (encode_config (snap_config staging))"
    and f: "config_file (os_repo s) = Some (encode_config (snap_config staging))"
    and kp: "\<And>c. with_profile n kp (snap_config staging) = Inr c \<Longrightarrow> accepted_config c \<and> writable_config c"
    and run: "switch_staged ctx n pw kp key rep original staging s = (s', x)"
  shows "case x of Inl e \<Rightarrow> holds_profiles ctx (find_profile original) s'
    | Inr d \<Rightarrow> \<exists>c. with_profile n kp (snap_config staging) = Inr c \<and> holds_profiles ctx (find_profile c) s'"
proof -
  obtain s1 owned installed y where body: "switch_body ctx n pw kp key rep staging s = (s1, owned, installed, y)" by (metis surj_pair)
  obtain c where c: "config_file (os_repo s1) = Some (encode_config c)" "owned = env_sha256 (oc_repo ctx) (encode_config c)"
      "accepted_config c" "writable_config c" "(\<exists>d. y = Inr d) \<longrightarrow> with_profile n kp (snap_config staging) = Inr c"
    using switch_body_undisturbed [OF u toml st h f kp body] by blast
  show ?thesis
  proof (cases y)
    case (Inl e)
    obtain s2 where s2: "rollback_local_profile ctx original owned s1 = (s2, ROLLED_BACK)"
        "config_file (os_repo s2) = Some (encode_config original)"
      using rollback_undisturbed [OF u toml c(3,4,1), of original] c(2) by auto
    then have "s' = s2" "\<exists>e'. x = Inl e'" using run body Inl by (auto simp: switch_staged_def)
    then show ?thesis using holds_written [OF toml orig s2(2)] by auto
  next
    case (Inr d)
    then have "s' = s1" "x = Inr d" using run body by (simp_all add: switch_staged_def)
    then show ?thesis using holds_written [OF toml c(3,4,1)] c(5) Inr by auto
  qed
qed


section \<open>An example\<close>

definition demo_password_profile :: server_profile where
  "demo_password_profile = demo_profile\<lparr>authentication_of := INTERACTIVE_PASSWORD\<rparr>"

definition demo_key_profile :: server_profile where
  "demo_key_profile = demo_profile\<lparr>identity_file := Some ''/k''\<rparr>"

text \<open>The broker cannot be reached: the staged profile has to be taken back.\<close>

definition demo_op_env :: op_env where
  "demo_op_env = \<lparr>oe_others = id, oe_lock = Inr (), oe_write = Written, oe_moment = \<lparr>mo_day = ''d'', mo_iso = ''t''\<rparr>,
     oe_append = Appended, oe_link = \<lparr>bl_connected = Inl (BrokerUnavailable ''no broker''), bl_fresh = ''0001'',
       bl_transport = TransportError (IpcClosed ''closed'')\<rparr>\<rparr>"

definition demo_ctx :: op_ctx where
  "demo_ctx = \<lparr>oc_repo = demo_env, oc_logger = Some demo_audit_env, oc_at = (\<lambda>_. demo_op_env),
     oc_token = replicate 32 (CHR ''0'')\<rparr>"

definition demo_op_state :: op_state where
  "demo_op_state = \<lparr>os_tick = 0, os_repo = \<lparr>config_file = None, backups = []\<rparr>, os_logs = [], os_sent = []\<rparr>"

definition demo_public_key :: pystr where
  "demo_public_key = ''ssh-rsa '' @ b64encode ([NUL, NUL, NUL, CHR 0x07] @ ''ssh-rsa'')"

definition one_profile :: "server_profile \<Rightarrow> server_ops_config" where
  "one_profile p = \<lparr>profiles = [(''web'', p)], schema_version = 1\<rparr>"

lemma demo_profiles_accepted:
  "new_server_profile demo_password_profile = Inr demo_password_profile" "new_server_profile demo_key_profile = Inr demo_key_profile"
  by code_simp+

lemma demo_with_profile:
  "with_profile ''web'' p empty_config = Inr (one_profile p)" "with_profile ''web'' p (one_profile q) = Inr (one_profile p)"
proof -
  have "validate_profile_name ''web'' = Inr ()" by code_simp
  then show "with_profile ''web'' p empty_config = Inr (one_profile p)" "with_profile ''web'' p (one_profile q) = Inr (one_profile p)"
    by (simp_all add: with_profile_def empty_config_def new_server_ops_config_def keys_def one_profile_def CONFIG_SCHEMA_VERSION_def)
qed

lemma demo_contents_writable:
  assumes "c = empty_config \<or> c = one_profile demo_password_profile \<or> c = one_profile demo_key_profile"
  shows "writable_config c"
proof -
  have "list_all ascii (encode_config c) \<and> CHR 0x7F \<notin> set (encode_config c)"
    using assms
    by (elim disjE) (simp_all add: encode_config_def one_profile_def empty_config_def sorted_items_def profile_lines_def
        present_fields_def profile_fields_def List.map_filter_simps demo_password_profile_def demo_key_profile_def
        demo_profile_def toml_string_def json_escape_def is_control_def field_line_def dec_int_def dec_nat.simps ascii_def
        CONFIG_SCHEMA_VERSION_def del_not_char_of)
  then show ?thesis using utf8_error_ascii by (simp add: writable_config_def)
qed

lemma demo_switch_contents:
  "encode_config c \<in> switch_contents ''web'' demo_password_profile demo_key_profile empty_config \<Longrightarrow> writable_config c"
  using demo_contents_writable by (auto simp: switch_contents_def demo_with_profile writable_config_def)

abbreviation demo_switch :: "op_state \<times> payload res" where
  "demo_switch \<equiv> install_public_key_and_switch demo_ctx ''web'' demo_password_profile demo_key_profile demo_public_key False demo_op_state"

lemma demo_undisturbed: "undisturbed demo_ctx"
  by (simp add: undisturbed_def demo_ctx_def demo_op_env_def)

lemma demo_empty_load:
  "load_unlocked (oc_repo demo_ctx) (os_repo demo_op_state) =
     Inr (\<lparr>snap_config = empty_config, snap_hash = env_sha256 demo_env []\<rparr>, False)"
  by (simp add: load_unlocked_def demo_ctx_def demo_op_state_def)


theorem key_switch_keeps_foreign_changes_witness:
  "\<exists>H C. guarded demo_ctx H C 0 (os_repo demo_op_state) (os_tick (fst demo_switch)) (os_repo (fst demo_switch))"
proof -
  have "os_tick demo_op_state = 0" by (simp add: demo_op_state_def)
  with key_switch_keeps_foreign_changes [of demo_ctx "''web''" demo_password_profile demo_key_profile demo_public_key False
      demo_op_state "fst demo_switch" "snd demo_switch", OF prod.collapse [symmetric] refl]
  show ?thesis by auto
qed

end
