(* ===== verification/Profile_Draft.thy ===== *)
theory Profile_Draft
  imports Setup_Operations
begin

text \<open>
  \<^verbatim>\<open>setup/draft.py\<close>: the profile that the form of the setup window describes, with the password profile under which a public key
  is installed. The fields of the form are texts. Paths and the default place of a key are arguments.
\<close>

section \<open>The draft\<close>

datatype credential_mode = PASSWORD | OPENSSH_CREDENTIAL | EXISTING_KEY | NEW_KEY

fun credential_value :: "credential_mode \<Rightarrow> pystr" where
  "credential_value PASSWORD = ''password''"
| "credential_value OPENSSH_CREDENTIAL = ''openssh''"
| "credential_value EXISTING_KEY = ''existing_key''"
| "credential_value NEW_KEY = ''new_key''"

record draft_env =
  de_resolve :: "pystr \<Rightarrow> pystr"
  de_is_file :: "pystr \<Rightarrow> bool"
  de_pub_beside :: "pystr \<Rightarrow> pystr"
  de_user_profile :: "pystr option"
  de_key_path :: "pystr \<Rightarrow> pystr \<Rightarrow> pystr"

record profile_form =
  pf_profile_name :: pystr
  pf_display_name :: pystr
  pf_connection_type :: pystr
  pf_target :: pystr
  pf_user :: pystr
  pf_port :: pystr
  pf_credential_mode :: pystr
  pf_identity_file :: pystr
  pf_public_key_file :: pystr
  pf_install_public_key :: bool
  pf_allowed_roots :: pystr
  pf_allow_terminal :: bool
  pf_allow_file_read :: bool
  pf_allow_file_write :: bool
  pf_elevation_mode :: pystr
  pf_allow_root_session :: bool
  pf_environment :: pystr
  pf_command_timeout :: pystr
  pf_max_output :: pystr

record profile_draft =
  pd_profile_name :: pystr
  pd_profile :: server_profile
  pd_password_profile :: "server_profile option"
  pd_credential_mode :: credential_mode
  pd_install_public_key :: bool
  pd_private_key_path :: "pystr option"
  pd_public_key_path :: "pystr option"

text \<open>An enumeration applied to a text, and \<^verbatim>\<open>int\<close>.\<close>

definition enum_member :: "pystr \<Rightarrow> ('a \<Rightarrow> pystr) \<Rightarrow> 'a list \<Rightarrow> pystr \<Rightarrow> 'a res" where
  "enum_member name val members t =
     someE (find (\<lambda>m. val m = t) members) (ValueError (py_repr t @ '' is not a valid '' @ name))"

definition int_text :: "pystr \<Rightarrow> int res" where
  "int_text t = someE (py_int t) (ValueError (''invalid literal for int() with base 10: '' @ py_repr t))"

definition UE :: pystr where "UE = [CHR 0xC3, CHR 0xBC]"
definition OE :: pystr where "OE = [CHR 0xC3, CHR 0xB6]"

definition default_private_key_path :: "draft_env \<Rightarrow> pystr \<Rightarrow> pystr res" where
  "default_private_key_path env name =
     bindE (validate_profile_name name) (\<lambda>_.
     case de_user_profile env of
       Some (c # r) \<Rightarrow> Inr (de_key_path env (c # r) name)
     | _ \<Rightarrow> Inl (RuntimeError ''USERPROFILE is unavailable''))"

definition identity_path :: "draft_env \<Rightarrow> pystr \<Rightarrow> credential_mode \<Rightarrow> pystr \<Rightarrow> pystr option res" where
  "identity_path env name credential raw =
     (if credential \<notin> {EXISTING_KEY, NEW_KEY} then Inr None
      else
        bindE (if py_strip raw = [] \<and> credential = NEW_KEY then default_private_key_path env name else Inr (py_strip raw)) (\<lambda>path.
        bindE (guardE (path \<noteq> []) (ValueError (''Eine private Schl'' @ UE @ ''sseldatei muss ausgew'' @ [CHR 0xC3, CHR 0xA4] @ ''hlt werden.''))) (\<lambda>_.
        let identity = de_resolve env path in
        bindE (guardE (\<not> (credential = EXISTING_KEY \<and> \<not> de_is_file env identity))
          (ValueError (''Die ausgew'' @ [CHR 0xC3, CHR 0xA4] @ ''hlte private Schl'' @ UE @ ''sseldatei existiert nicht.''))) (\<lambda>_.
        Inr (Some identity)))))"

definition public_key_path :: "draft_env \<Rightarrow> bool \<Rightarrow> credential_mode \<Rightarrow> pystr option \<Rightarrow> pystr \<Rightarrow> pystr option res" where
  "public_key_path env install credential identity raw =
     (if \<not> install \<or> credential = NEW_KEY then Inr None
      else
        bindE (someE identity (ValueError (''Die private Schl'' @ UE @ ''sseldatei fehlt.''))) (\<lambda>private.
        let path = (if py_strip raw \<noteq> [] then de_resolve env (py_strip raw) else de_pub_beside env private) in
        bindE (guardE (de_is_file env path)
          (ValueError (''Die '' @ OE @ ''ffentliche Schl'' @ UE @ ''sseldatei wurde nicht gefunden.''))) (\<lambda>_.
        Inr (Some path))))"

definition root_lines :: "pystr \<Rightarrow> pystr list" where
  "root_lines t = filter (\<lambda>l. l \<noteq> []) (map py_strip (splitlines_keep t))"

definition drafted_profile ::
  "profile_form \<Rightarrow> connection_type \<Rightarrow> credential_mode \<Rightarrow> pystr option \<Rightarrow> server_profile res" where
  "drafted_profile f connection credential identity =
     (let direct = (connection = DIRECT); target = py_strip (pf_target f) in
      bindE (if direct then bindE (int_text (pf_port f)) (\<lambda>n. Inr (Some n)) else Inr None) (\<lambda>p.
      bindE (enum_member ''ElevationMode'' elevation_mode_value [DISABLED, NON_INTERACTIVE, INTERACTIVE_ELEVATION]
        (pf_elevation_mode f)) (\<lambda>mode.
      bindE (int_text (pf_command_timeout f)) (\<lambda>seconds.
      bindE (int_text (pf_max_output f)) (\<lambda>output_bytes.
      new_server_profile \<lparr>display_name = py_strip (pf_display_name f), connection_type_of = connection,
        authentication_of = (if credential = PASSWORD then INTERACTIVE_PASSWORD else OPENSSH),
        ssh_host = (if direct then None else Some target), host = (if direct then Some target else None), port = p,
        user = (if direct then Some (py_strip (pf_user f)) else None), identity_file = identity,
        allowed_roots = root_lines (pf_allowed_roots f), allow_terminal = pf_allow_terminal f,
        allow_file_read = pf_allow_file_read f, allow_file_write = pf_allow_file_write f, elevation_mode_of = mode,
        allow_root_session = pf_allow_root_session f, environment = py_strip (pf_environment f),
        command_timeout_seconds = seconds, max_output_bytes = output_bytes\<rparr>)))))"

definition build_profile_draft :: "draft_env \<Rightarrow> profile_form \<Rightarrow> profile_draft res" where
  "build_profile_draft env f =
     (let name = py_strip (pf_profile_name f); install = pf_install_public_key f in
      bindE (enum_member ''ConnectionType'' connection_type_value [SSH_CONFIG, DIRECT] (pf_connection_type f)) (\<lambda>connection.
      bindE (enum_member ''CredentialMode'' credential_value [PASSWORD, OPENSSH_CREDENTIAL, EXISTING_KEY, NEW_KEY]
        (pf_credential_mode f)) (\<lambda>credential.
      bindE (identity_path env name credential (pf_identity_file f)) (\<lambda>identity.
      bindE (guardE (\<not> (credential = PASSWORD \<and> connection = SSH_CONFIG))
        (ValueError ''SSH-Aliase verwenden die vorhandene OpenSSH-Authentifizierung.'')) (\<lambda>_.
      bindE (drafted_profile f connection credential identity) (\<lambda>profile.
      bindE (guardE (\<not> (install \<and> (connection \<noteq> DIRECT \<or> credential \<notin> {EXISTING_KEY, NEW_KEY})))
        (ValueError (''Die automatische Schl'' @ UE @ ''sselinstallation ben'' @ OE @
          ''tigt ein direktes Ziel und einen Schl'' @ UE @ ''ssel.''))) (\<lambda>_.
      bindE (public_key_path env install credential identity (pf_public_key_file f)) (\<lambda>public_path.
      bindE (if install
             then bindE (new_server_profile (profile\<lparr>authentication_of := INTERACTIVE_PASSWORD, identity_file := None\<rparr>)) (\<lambda>p. Inr (Some p))
             else Inr None) (\<lambda>password_profile.
      Inr \<lparr>pd_profile_name = name, pd_profile = profile, pd_password_profile = password_profile,
           pd_credential_mode = credential, pd_install_public_key = install, pd_private_key_path = identity,
           pd_public_key_path = public_path\<rparr>)))))))))"

section \<open>A draft fits the operations\<close>

lemma enum_member_sound: "enum_member n val ms t = Inr m \<Longrightarrow> m \<in> set ms \<and> val m = t"
  by (auto simp: enum_member_def find_Some_iff)

lemma drafted_profile_fields:
  assumes "drafted_profile f connection credential identity = Inr p"
  shows "profile_ok p \<and> new_server_profile p = Inr p \<and> connection_type_of p = connection \<and> identity_file p = identity \<and>
    authentication_of p = (if credential = PASSWORD then INTERACTIVE_PASSWORD else OPENSSH)"
proof -
  obtain raw where raw: "new_server_profile raw = Inr p" "connection_type_of raw = connection" "identity_file raw = identity"
      "authentication_of raw = (if credential = PASSWORD then INTERACTIVE_PASSWORD else OPENSSH)"
    using assms by (auto simp: drafted_profile_def bindE_eq_Inr Let_def split: if_splits)
  obtain roots where "p = raw\<lparr>allowed_roots := roots\<rparr>" using new_server_profile_roots [OF raw(1)] by blast
  then show ?thesis using accepted_profile [OF raw(1)] raw by simp
qed

lemma identity_path_given: "identity_path env n c raw = Inr i \<Longrightarrow> c \<in> {EXISTING_KEY, NEW_KEY} \<Longrightarrow> \<exists>p. i = Some p"
  by (auto simp: identity_path_def bindE_eq_Inr Let_def split: if_splits)

lemma identity_path_none: "identity_path env n c raw = Inr i \<Longrightarrow> c \<notin> {EXISTING_KEY, NEW_KEY} \<Longrightarrow> i = None"
  by (simp add: identity_path_def)

text \<open>
  A draft of the setup form is fit for the operations that get it. Its profile is one that the configuration accepts as
  it is, with the private key exactly when a key was chosen. When the public key is to be installed, there is a password
  profile for the same target that is accepted as well and stores no key, and the pair passes the
  check of the key switch; otherwise there is none.
\<close>

theorem draft_fits_operations:
  assumes "build_profile_draft env f = Inr d"
  shows "profile_ok (pd_profile d) \<and> new_server_profile (pd_profile d) = Inr (pd_profile d) \<and>
    identity_file (pd_profile d) = pd_private_key_path d \<and>
    (pd_private_key_path d \<noteq> None) = (pd_credential_mode d \<in> {EXISTING_KEY, NEW_KEY}) \<and>
    (if pd_install_public_key d
     then \<exists>p. pd_password_profile d = Some p \<and> profile_ok p \<and> new_server_profile p = Inr p \<and> identity_file p = None \<and>
       validate_key_transition p (pd_profile d) = Inr ()
     else pd_password_profile d = None)"
proof -
  obtain connection name where d: "identity_path env name (pd_credential_mode d) (pf_identity_file f) = Inr (pd_private_key_path d)"
      "drafted_profile f connection (pd_credential_mode d) (pd_private_key_path d) = Inr (pd_profile d)"
      "pd_install_public_key d \<Longrightarrow> pd_credential_mode d \<in> {EXISTING_KEY, NEW_KEY}"
      "pd_install_public_key d \<Longrightarrow> \<exists>p. pd_password_profile d = Some p \<and>
         new_server_profile ((pd_profile d)\<lparr>authentication_of := INTERACTIVE_PASSWORD, identity_file := None\<rparr>) = Inr p"
      "\<not> pd_install_public_key d \<Longrightarrow> pd_password_profile d = None"
    using assms by (auto simp: build_profile_draft_def bindE_eq_Inr Let_def split: if_splits)
  note p = drafted_profile_fields [OF d(2)]
  have key: "(pd_private_key_path d \<noteq> None) = (pd_credential_mode d \<in> {EXISTING_KEY, NEW_KEY})"
    using identity_path_given [OF d(1)] identity_path_none [OF d(1)] by (cases "pd_credential_mode d") auto
  have "\<exists>q. pd_password_profile d = Some q \<and> profile_ok q \<and> new_server_profile q = Inr q \<and> identity_file q = None \<and>
      validate_key_transition q (pd_profile d) = Inr ()" if i: "pd_install_public_key d"
  proof -
    obtain q where q: "pd_password_profile d = Some q"
        "new_server_profile ((pd_profile d)\<lparr>authentication_of := INTERACTIVE_PASSWORD, identity_file := None\<rparr>) = Inr q"
      using d(4) [OF i] by blast
    obtain roots where "q = (pd_profile d)\<lparr>authentication_of := INTERACTIVE_PASSWORD, identity_file := None, allowed_roots := roots\<rparr>"
      using new_server_profile_roots [OF q(2)] by auto
    moreover have "authentication_of (pd_profile d) = OPENSSH" "identity_file (pd_profile d) \<noteq> None"
      using p key d(3) [OF i] by auto
    ultimately show ?thesis using q(1) accepted_profile [OF q(2)] by (simp add: validate_key_transition_def)
  qed
  then show ?thesis using p key d(5) by auto
qed

section \<open>The confirmation\<close>

definition yes_no :: "bool \<Rightarrow> pystr" where
  "yes_no b = (if b then ''ja'' else ''nein'')"

definition py_option :: "pystr option \<Rightarrow> pystr" where
  "py_option x = (case x of None \<Rightarrow> ''None'' | Some t \<Rightarrow> t)"

definition profile_confirmation_text :: "profile_draft \<Rightarrow> pystr" where
  "profile_confirmation_text d =
     (let p = pd_profile d;
          target = (case ssh_host p of
              Some (c # r) \<Rightarrow> c # r
            | _ \<Rightarrow> py_option (user p) @ ''@'' @ py_option (host p) @ '':'' @ py_option (map_option dec_int (port p)));
          roots = join '', '' (allowed_roots p)
      in ''Profil: '' @ pd_profile_name d @ [LF] @ ''Anzeige: '' @ display_name p @ [LF] @ ''Ziel: '' @ target @ [LF] @
         ''Authentifizierung: '' @ authentication_value (authentication_of p) @ [LF] @
         ''Dateipfade: '' @ (if roots = [] then ''keine strukturierten Dateipfade'' else roots) @ [LF] @
         ''Terminal: '' @ yes_no (allow_terminal p) @ [LF] @
         ''Elevation: '' @ elevation_mode_value (elevation_mode_of p) @ [LF] @
         ''Umgebung: '' @ environment p @ [LF, LF] @
         ''Dies ist keine Sandbox. Ma'' @ [CHR 0xC3, CHR 0x9F] @ ''geblich bleiben SSH-Benutzer, Dateirechte und sudoers.'')"

section \<open>An example\<close>

definition demo_draft_env :: draft_env where
  "demo_draft_env = \<lparr>de_resolve = id, de_is_file = (\<lambda>_. True), de_pub_beside = (\<lambda>p. p @ ''.pub''), de_user_profile = None,
     de_key_path = (\<lambda>u n. u @ n)\<rparr>"

definition demo_form :: profile_form where
  "demo_form = \<lparr>pf_profile_name = ''web'', pf_display_name = ''Web'', pf_connection_type = ''direct'', pf_target = ''web.example'',
     pf_user = ''ops'', pf_port = ''22'', pf_credential_mode = ''existing_key'', pf_identity_file = ''C:/k'',
     pf_public_key_file = [], pf_install_public_key = True, pf_allowed_roots = ''/srv'', pf_allow_terminal = True,
     pf_allow_file_read = True, pf_allow_file_write = False, pf_elevation_mode = ''disabled'', pf_allow_root_session = False,
     pf_environment = ''test'', pf_command_timeout = ''60'', pf_max_output = ''65536''\<rparr>"

definition demo_drafted :: server_profile where
  "demo_drafted = \<lparr>display_name = ''Web'', connection_type_of = DIRECT, authentication_of = OPENSSH, ssh_host = None,
     host = Some ''web.example'', port = Some 22, user = Some ''ops'', identity_file = Some ''C:/k'', allowed_roots = [''/srv''],
     allow_terminal = True, allow_file_read = True, allow_file_write = False, elevation_mode_of = DISABLED,
     allow_root_session = False, environment = ''test'', command_timeout_seconds = 60, max_output_bytes = 65536\<rparr>"

lemma demo_strip: "py_strip ''web'' = ''web''" "py_strip ''Web'' = ''Web''" "py_strip ''web.example'' = ''web.example''"
    "py_strip ''ops'' = ''ops''" "py_strip ''C:/k'' = ''C:/k''" "py_strip ''test'' = ''test''" "py_strip [] = []"
    "root_lines ''/srv'' = [''/srv'']"
  by code_simp+

lemma demo_ints: "int_text ''22'' = Inr 22" "int_text ''60'' = Inr 60" "int_text ''65536'' = Inr 65536"
proof -
  have "py_strip ''22'' = ''22''" "py_strip ''60'' = ''60''" "py_strip ''65536'' = ''65536''" by code_simp+
  then show "int_text ''22'' = Inr 22" "int_text ''60'' = Inr 60" "int_text ''65536'' = Inr 65536"
    by (simp_all add: int_text_def py_int_def is_digit_def digits_val_def)
qed

lemma demo_accepted: "new_server_profile demo_drafted = Inr demo_drafted"
    "new_server_profile (demo_drafted\<lparr>authentication_of := INTERACTIVE_PASSWORD, identity_file := None\<rparr>) =
     Inr (demo_drafted\<lparr>authentication_of := INTERACTIVE_PASSWORD, identity_file := None\<rparr>)"
  unfolding demo_drafted_def by code_simp+

lemma demo_drafted_profile: "drafted_profile demo_form DIRECT EXISTING_KEY (Some ''C:/k'') = Inr demo_drafted"
  using demo_accepted(1)
  by (simp add: drafted_profile_def demo_form_def demo_strip demo_ints enum_member_def) (simp add: demo_drafted_def)

lemma demo_draft: "\<exists>d. build_profile_draft demo_draft_env demo_form = Inr d \<and> pd_install_public_key d"
proof -
  have "pf_profile_name demo_form = ''web''" "pf_connection_type demo_form = ''direct''" "pf_credential_mode demo_form = ''existing_key''"
    "pf_identity_file demo_form = ''C:/k''" "pf_install_public_key demo_form" "pf_public_key_file demo_form = []"
    by (simp_all add: demo_form_def)
  then show ?thesis
    using demo_accepted(2) demo_drafted_profile
    by (simp add: build_profile_draft_def enum_member_def demo_strip identity_path_def public_key_path_def demo_draft_env_def Let_def)
qed

theorem draft_fits_operations_witness:
  "\<exists>d p. build_profile_draft demo_draft_env demo_form = Inr d \<and> pd_password_profile d = Some p \<and>
     validate_key_transition p (pd_profile d) = Inr ()"
proof -
  obtain d where d: "build_profile_draft demo_draft_env demo_form = Inr d" "pd_install_public_key d" using demo_draft by blast
  then show ?thesis using draft_fits_operations [OF d(1)] by auto
qed

end
