(* ===== verification/Form_State.thy ===== *)
theory Form_State
  imports Profile_Draft
begin

text \<open>
  \<^verbatim>\<open>setup/form_state.py\<close>: the variables behind the setup form. A variable of the toolkit holds a text or a truth value; the choice
  fields hold the label of the choice. The theory shows what becomes of a profile that is opened for editing and
  saved unchanged.
\<close>

section \<open>Labels\<close>

definition CONNECTION_LABELS :: "(pystr \<times> pystr) list" where
  "CONNECTION_LABELS =
     [(connection_type_value DIRECT, ''Server direkt angeben''),
      (connection_type_value SSH_CONFIG, ''Vorhandenen SSH-Alias verwenden'')]"

definition CREDENTIAL_LABELS :: "(pystr \<times> pystr) list" where
  "CREDENTIAL_LABELS =
     [(credential_value PASSWORD, ''Passwort beim Verbinden verwenden''),
      (credential_value OPENSSH_CREDENTIAL, ''OpenSSH-Standard verwenden''),
      (credential_value EXISTING_KEY, ''Vorhandenen SSH-Schl'' @ UE @ ''ssel verwenden''),
      (credential_value NEW_KEY, ''Neuen SSH-Schl'' @ UE @ ''ssel erstellen'')]"

definition ELEVATION_LABELS :: "(pystr \<times> pystr) list" where
  "ELEVATION_LABELS =
     [(elevation_mode_value DISABLED, ''Keine gef'' @ UE @ ''hrten Administratoraktionen''),
      (elevation_mode_value NON_INTERACTIVE, ''Nur bereits passwortlos erlaubtes sudo''),
      (elevation_mode_value INTERACTIVE_ELEVATION, ''sudo bei Bedarf im sicheren Fenster freigeben'')]"

definition selected_key :: "(pystr \<times> pystr) list \<Rightarrow> pystr \<Rightarrow> pystr res" where
  "selected_key labels selected =
     someE (map_option fst (find (\<lambda>(val, label). selected = label) labels))
       (ValueError (''Die ausgew'' @ [CHR 0xC3, CHR 0xA4] @ ''hlte Option ist ung'' @ UE @ ''ltig.''))"

text \<open>\<^verbatim>\<open>LABELS[value]\<close> of a value that has a label.\<close>

definition label_of :: "(pystr \<times> pystr) list \<Rightarrow> pystr \<Rightarrow> pystr" where
  "label_of labels val = (case map_of labels val of Some l \<Rightarrow> l | None \<Rightarrow> [])"

section \<open>The state\<close>

record form_state =
  fs_profile_name :: pystr
  fs_display_name :: pystr
  fs_connection_type :: pystr
  fs_target :: pystr
  fs_user :: pystr
  fs_port :: pystr
  fs_credential_mode :: pystr
  fs_identity_file :: pystr
  fs_public_key_file :: pystr
  fs_install_public_key :: bool
  fs_initial_allowed_roots :: pystr
  fs_allow_terminal :: bool
  fs_allow_file_read :: bool
  fs_allow_file_write :: bool
  fs_elevation_mode :: pystr
  fs_allow_root_session :: bool
  fs_environment :: pystr
  fs_command_timeout :: pystr
  fs_max_output :: pystr
  fs_key_passphrase :: pystr
  fs_key_passphrase_repeat :: pystr

text \<open>\<^verbatim>\<open>value or default\<close> of an optional text.\<close>

definition text_or :: "pystr option \<Rightarrow> pystr \<Rightarrow> pystr" where
  "text_or x d = (case x of Some (c # r) \<Rightarrow> c # r | _ \<Rightarrow> d)"

definition initial_credential :: "server_profile option \<Rightarrow> credential_mode" where
  "initial_credential profile =
     (case profile of
        None \<Rightarrow> PASSWORD
      | Some p \<Rightarrow>
          if text_or (identity_file p) [] \<noteq> [] then EXISTING_KEY
          else if authentication_of p = INTERACTIVE_PASSWORD then PASSWORD else OPENSSH_CREDENTIAL)"

definition initial_target :: "server_profile option \<Rightarrow> pystr option \<Rightarrow> pystr" where
  "initial_target profile suggested_host =
     (case profile of Some p \<Rightarrow> text_or (ssh_host p) (text_or (host p) []) | None \<Rightarrow> text_or suggested_host [])"

definition initial_user :: "server_profile option \<Rightarrow> pystr option \<Rightarrow> pystr" where
  "initial_user profile suggested_user =
     (case profile of Some p \<Rightarrow> text_or (user p) (text_or suggested_user []) | None \<Rightarrow> text_or suggested_user [])"

definition initial_port :: "server_profile option \<Rightarrow> int" where
  "initial_port profile =
     (case profile of Some p \<Rightarrow> (case port p of Some n \<Rightarrow> if n = 0 then 22 else n | None \<Rightarrow> 22) | None \<Rightarrow> 22)"

definition new_form_state ::
  "pystr option \<Rightarrow> server_profile option \<Rightarrow> pystr option \<Rightarrow> pystr option \<Rightarrow> form_state" where
  "new_form_state profile_name profile suggested_host suggested_user =
     \<lparr>fs_profile_name = text_or profile_name [],
      fs_display_name = (case profile of Some p \<Rightarrow> display_name p | None \<Rightarrow> text_or suggested_host []),
      fs_connection_type = label_of CONNECTION_LABELS
        (connection_type_value (case profile of Some p \<Rightarrow> connection_type_of p | None \<Rightarrow> DIRECT)),
      fs_target = initial_target profile suggested_host, fs_user = initial_user profile suggested_user,
      fs_port = dec_int (initial_port profile),
      fs_credential_mode = label_of CREDENTIAL_LABELS (credential_value (initial_credential profile)),
      fs_identity_file = (case profile of Some p \<Rightarrow> text_or (identity_file p) [] | None \<Rightarrow> []),
      fs_public_key_file = [], fs_install_public_key = False,
      fs_initial_allowed_roots = (case profile of Some p \<Rightarrow> join [LF] (allowed_roots p) | None \<Rightarrow> []),
      fs_allow_terminal = (case profile of Some p \<Rightarrow> allow_terminal p | None \<Rightarrow> True),
      fs_allow_file_read = (case profile of Some p \<Rightarrow> allow_file_read p | None \<Rightarrow> False),
      fs_allow_file_write = (case profile of Some p \<Rightarrow> allow_file_write p | None \<Rightarrow> False),
      fs_elevation_mode = label_of ELEVATION_LABELS
        (elevation_mode_value (case profile of Some p \<Rightarrow> elevation_mode_of p | None \<Rightarrow> DISABLED)),
      fs_allow_root_session = (case profile of Some p \<Rightarrow> allow_root_session p | None \<Rightarrow> False),
      fs_environment = (case profile of Some p \<Rightarrow> environment p | None \<Rightarrow> ''unspecified''),
      fs_command_timeout = dec_int (case profile of Some p \<Rightarrow> command_timeout_seconds p | None \<Rightarrow> 60),
      fs_max_output = dec_int (case profile of Some p \<Rightarrow> max_output_bytes p | None \<Rightarrow> 2097152),
      fs_key_passphrase = [], fs_key_passphrase_repeat = []\<rparr>"

definition fs_connection :: "form_state \<Rightarrow> connection_type res" where
  "fs_connection st =
     bindE (selected_key CONNECTION_LABELS (fs_connection_type st)) (enum_member ''ConnectionType'' connection_type_value [SSH_CONFIG, DIRECT])"

definition fs_credential :: "form_state \<Rightarrow> credential_mode res" where
  "fs_credential st =
     bindE (selected_key CREDENTIAL_LABELS (fs_credential_mode st))
       (enum_member ''CredentialMode'' credential_value [PASSWORD, OPENSSH_CREDENTIAL, EXISTING_KEY, NEW_KEY])"

definition fs_elevation :: "form_state \<Rightarrow> elevation_mode res" where
  "fs_elevation st =
     bindE (selected_key ELEVATION_LABELS (fs_elevation_mode st))
       (enum_member ''ElevationMode'' elevation_mode_value [DISABLED, NON_INTERACTIVE, INTERACTIVE_ELEVATION])"

definition normalize_connection :: "form_state \<Rightarrow> form_state \<times> unit res" where
  "normalize_connection st =
     (case fs_connection st of
        Inl e \<Rightarrow> (st, Inl e)
      | Inr SSH_CONFIG \<Rightarrow>
          (st\<lparr>fs_credential_mode := label_of CREDENTIAL_LABELS (credential_value OPENSSH_CREDENTIAL), fs_install_public_key := False\<rparr>, Inr ())
      | Inr DIRECT \<Rightarrow> (st, Inr ()))"

text \<open>The permissions that \<^verbatim>\<open>_build_draft\<close> is called with, and the fields that a caller may override.\<close>

record draft_permissions =
  dp_allowed_roots :: pystr
  dp_allow_terminal :: bool
  dp_allow_file_read :: bool
  dp_allow_file_write :: bool
  dp_elevation_mode :: pystr
  dp_allow_root_session :: bool
  dp_environment :: pystr
  dp_command_timeout :: pystr
  dp_max_output :: pystr

record draft_overrides =
  do_credential_mode :: "pystr option"
  do_identity_file :: "pystr option"
  do_public_key_file :: "pystr option"
  do_install_public_key :: "bool option"

definition no_overrides :: draft_overrides where
  "no_overrides = \<lparr>do_credential_mode = None, do_identity_file = None, do_public_key_file = None, do_install_public_key = None\<rparr>"

definition fs_build_draft :: "draft_env \<Rightarrow> form_state \<Rightarrow> draft_permissions \<Rightarrow> draft_overrides \<Rightarrow> profile_draft res" where
  "fs_build_draft env st perms over =
     bindE (fs_connection st) (\<lambda>connection.
     bindE (if connection = SSH_CONFIG then Inr (credential_value OPENSSH_CREDENTIAL)
            else case do_credential_mode over of
              Some (c # r) \<Rightarrow> Inr (c # r)
            | _ \<Rightarrow> bindE (fs_credential st) (\<lambda>m. Inr (credential_value m))) (\<lambda>credential.
     build_profile_draft env
       \<lparr>pf_profile_name = fs_profile_name st, pf_display_name = fs_display_name st,
        pf_connection_type = connection_type_value connection, pf_target = fs_target st, pf_user = fs_user st,
        pf_port = fs_port st, pf_credential_mode = credential,
        pf_identity_file = (case do_identity_file over of None \<Rightarrow> fs_identity_file st | Some t \<Rightarrow> t),
        pf_public_key_file = (case do_public_key_file over of None \<Rightarrow> fs_public_key_file st | Some t \<Rightarrow> t),
        pf_install_public_key = (case do_install_public_key over of None \<Rightarrow> fs_install_public_key st | Some b \<Rightarrow> b),
        pf_allowed_roots = dp_allowed_roots perms, pf_allow_terminal = dp_allow_terminal perms,
        pf_allow_file_read = dp_allow_file_read perms, pf_allow_file_write = dp_allow_file_write perms,
        pf_elevation_mode = dp_elevation_mode perms, pf_allow_root_session = dp_allow_root_session perms,
        pf_environment = dp_environment perms, pf_command_timeout = dp_command_timeout perms,
        pf_max_output = dp_max_output perms\<rparr>))"

definition fs_draft :: "draft_env \<Rightarrow> form_state \<Rightarrow> pystr \<Rightarrow> profile_draft res" where
  "fs_draft env st roots =
     bindE (fs_elevation st) (\<lambda>mode.
     fs_build_draft env st
       \<lparr>dp_allowed_roots = roots, dp_allow_terminal = fs_allow_terminal st, dp_allow_file_read = fs_allow_file_read st,
        dp_allow_file_write = fs_allow_file_write st, dp_elevation_mode = elevation_mode_value mode,
        dp_allow_root_session = fs_allow_root_session st, dp_environment = fs_environment st,
        dp_command_timeout = fs_command_timeout st, dp_max_output = fs_max_output st\<rparr> no_overrides)"

definition minimal_permissions :: draft_permissions where
  "minimal_permissions =
     \<lparr>dp_allowed_roots = [], dp_allow_terminal = True, dp_allow_file_read = False, dp_allow_file_write = False,
      dp_elevation_mode = elevation_mode_value DISABLED, dp_allow_root_session = False, dp_environment = ''unspecified'',
      dp_command_timeout = ''60'', dp_max_output = ''2097152''\<rparr>"

definition validate_connection :: "draft_env \<Rightarrow> form_state \<Rightarrow> unit res" where
  "validate_connection env st =
     bindE (fs_build_draft env st minimal_permissions
       \<lparr>do_credential_mode = Some (credential_value PASSWORD), do_identity_file = Some [], do_public_key_file = Some [],
        do_install_public_key = Some False\<rparr>) (\<lambda>_. Inr ())"

definition passphrases_differ :: exn where
  "passphrases_differ = ValueError (''Die beiden Passphrasen stimmen nicht '' @ UE @ ''berein.'')"

definition validate_authentication :: "draft_env \<Rightarrow> form_state \<Rightarrow> unit res" where
  "validate_authentication env st =
     bindE (fs_build_draft env st minimal_permissions no_overrides) (\<lambda>_.
     guardE (fs_key_passphrase st = fs_key_passphrase_repeat st) passphrases_differ)"

definition take_key_secret :: "form_state \<Rightarrow> form_state \<times> bytes res" where
  "take_key_secret st =
     (st\<lparr>fs_key_passphrase := [], fs_key_passphrase_repeat := []\<rparr>,
      if fs_key_passphrase st \<noteq> fs_key_passphrase_repeat st then Inl passphrases_differ else Inr (fs_key_passphrase st))"

lemma take_key_secret_once:
  "take_key_secret st = (st', r) \<Longrightarrow> fs_key_passphrase st' = [] \<and> fs_key_passphrase_repeat st' = [] \<and> take_key_secret st' = (st', Inr [])"
  by (auto simp: take_key_secret_def)

section \<open>Texts that survive the form\<close>

definition trimmed :: "pystr \<Rightarrow> bool" where
  "trimmed s = (list_all ascii s \<and> s \<noteq> [] \<and> \<not> is_space [hd s] \<and> \<not> is_space [last s])"

lemma py_strip_ascii:
  "list_all ascii s \<Longrightarrow> py_strip s = rev (dropWhile (\<lambda>c. is_space [c]) (rev (dropWhile (\<lambda>c. is_space [c]) s)))"
  by (simp add: py_strip_def py_chars_ascii dropWhile_map rev_map comp_def)

lemma dropWhile_hd: "s \<noteq> [] \<Longrightarrow> \<not> P (hd s) \<Longrightarrow> dropWhile P s = s"
  by (cases s) auto

lemma strip_trimmed: "trimmed s \<Longrightarrow> py_strip s = s"
  by (simp add: trimmed_def py_strip_ascii dropWhile_hd hd_rev)

lemma strip_trimmed_line: "trimmed s \<Longrightarrow> py_strip (s @ [LF]) = s"
proof -
  assume t: "trimmed s"
  have "ascii LF" "is_space [LF]" by (simp_all add: ascii_def is_space_def)
  moreover have "dropWhile (\<lambda>c. is_space [c]) (s @ [LF]) = s @ [LF]" using t by (intro dropWhile_hd) (auto simp: trimmed_def)
  ultimately show ?thesis using t by (simp add: trimmed_def py_strip_ascii dropWhile_hd hd_rev)
qed

definition one_line :: "pystr \<Rightarrow> bool" where
  "one_line s = list_all (\<lambda>c. \<not> is_line_break [c]) s"

lemma lines_of_line:
  assumes "one_line s"
  shows "lines_of_chars cur (map (\<lambda>c. [c]) s) = (if cur @ s = [] then [] else [cur @ s])"
    and "lines_of_chars cur (map (\<lambda>c. [c]) s @ [LF] # rest) = (cur @ s @ [LF]) # lines_of_chars [] rest"
proof -
  have br: "is_line_break [LF]" "is_line_break [CR]" by (simp_all add: is_line_break_def)
  have step: "lines_of_chars cur (ch # rest) = lines_of_chars (cur @ ch) rest" if "\<not> is_line_break ch" for cur ch rest
    using that br by (cases rest) auto
  have nl: "lines_of_chars cur ([LF] # rest) = (cur @ [LF]) # lines_of_chars [] rest" for cur
    using br by (cases rest) auto
  show "lines_of_chars cur (map (\<lambda>c. [c]) s) = (if cur @ s = [] then [] else [cur @ s])"
    using assms by (induction s arbitrary: cur) (simp_all add: one_line_def step)
  show "lines_of_chars cur (map (\<lambda>c. [c]) s @ [LF] # rest) = (cur @ s @ [LF]) # lines_of_chars [] rest"
    using assms by (induction s arbitrary: cur) (simp_all add: one_line_def step nl)
qed

lemma root_lines_join:
  assumes "list_all (\<lambda>r. trimmed r \<and> one_line r) rs"
  shows "root_lines (join [LF] rs) = rs"
proof -
  have as: "list_all ascii (join [LF] rs)"
    using assms by (induction "[LF]" rs rule: join.induct) (auto simp: trimmed_def ascii_def)
  have "map py_strip (lines_of_chars [] (map (\<lambda>c. [c]) (join [LF] rs))) = rs"
    using assms
  proof (induction "[LF]" rs rule: join.induct)
    case (2 w)
    then show ?case by (simp add: lines_of_line strip_trimmed) (simp add: trimmed_def)
  next
    case (3 w w' ws)
    then show ?case by (simp add: lines_of_line strip_trimmed_line)
  qed simp
  moreover have "filter (\<lambda>l. l \<noteq> []) rs = rs" using assms by (auto simp: filter_id_conv list_all_iff trimmed_def)
  ultimately show ?thesis using as by (simp add: root_lines_def splitlines_keep_def py_chars_ascii)
qed

lemma digit_plain: "is_digit c \<Longrightarrow> ascii c \<and> \<not> is_space [c] \<and> c \<noteq> CHR ''-'' \<and> c \<noteq> CHR ''+''"
  by (auto simp: is_digit_def ascii_def is_space_def)

lemma length_dec_nat: "n < 10 ^ Suc k \<Longrightarrow> length (dec_nat n) \<le> Suc k"
proof (induction k arbitrary: n)
  case 0
  then show ?case by (simp add: dec_nat.simps)
next
  case (Suc k)
  then have "n div 10 < 10 ^ Suc k" by (simp add: less_mult_imp_div_less)
  then show ?case using Suc.IH [of "n div 10"] by (subst dec_nat.simps) simp
qed

lemma int_text_dec: "0 \<le> i \<Longrightarrow> i < 10 ^ 8 \<Longrightarrow> int_text (dec_int i) = Inr i"
proof -
  assume i: "0 \<le> i" "i < 10 ^ 8"
  let ?d = "dec_nat (nat i)"
  have d: "list_all is_digit ?d" "?d \<noteq> []" by (simp_all add: dec_nat_digits)
  then have "list_all ascii ?d" "is_digit (hd ?d)" "is_digit (last ?d)" using digit_plain by (auto simp: list_all_iff)
  then have s: "py_strip ?d = ?d" using d digit_plain by (auto intro!: strip_trimmed simp: trimmed_def)
  have "nat i < 10 ^ Suc 7" using i by simp
  then have l: "length ?d \<le> 4300" using length_dec_nat [of "nat i" 7] by linarith
  obtain c r where cr: "?d = c # r" using d(2) by (cases ?d) auto
  then have c: "c \<noteq> CHR ''-''" "c \<noteq> CHR ''+''" using d(1) digit_plain [of c] by auto
  have f: "filter is_digit ?d = ?d" using d(1) by (auto simp: filter_id_conv list_all_iff)
  have "py_int ?d = Some (int (digits_val ?d))"
    using s c l f int_digits_ok_digits [OF d(2,1)] unfolding py_int_def cr by (simp add: Let_def)
  then show ?thesis using i by (simp add: int_text_def dec_int_def)
qed

section \<open>Editing without changes\<close>

lemma label_roundtrip [simp]:
  "selected_key CONNECTION_LABELS (label_of CONNECTION_LABELS (connection_type_value c)) = Inr (connection_type_value c)"
  "selected_key CREDENTIAL_LABELS (label_of CREDENTIAL_LABELS (credential_value m)) = Inr (credential_value m)"
  "selected_key ELEVATION_LABELS (label_of ELEVATION_LABELS (elevation_mode_value e)) = Inr (elevation_mode_value e)"
  subgoal by (cases c) (simp_all add: selected_key_def label_of_def CONNECTION_LABELS_def)
  subgoal by (cases m) (simp_all add: selected_key_def label_of_def CREDENTIAL_LABELS_def UE_def)
  subgoal by (cases e) (simp_all add: selected_key_def label_of_def ELEVATION_LABELS_def UE_def)
  done

lemma enum_roundtrip [simp]:
  "enum_member n connection_type_value [SSH_CONFIG, DIRECT] (connection_type_value c) = Inr c"
  "enum_member n credential_value [PASSWORD, OPENSSH_CREDENTIAL, EXISTING_KEY, NEW_KEY] (credential_value m) = Inr m"
  "enum_member n elevation_mode_value [DISABLED, NON_INTERACTIVE, INTERACTIVE_ELEVATION] (elevation_mode_value e) = Inr e"
  subgoal by (cases c) (simp_all add: enum_member_def)
  subgoal by (cases m) (simp_all add: enum_member_def)
  subgoal by (cases e) (simp_all add: enum_member_def)
  done

text \<open>A profile whose roots are plain text and whose private key is there under the path that is stored.\<close>

definition editable :: "draft_env \<Rightarrow> server_profile \<Rightarrow> bool" where
  "editable env p =
     (new_server_profile p = Inr p \<and> list_all (\<lambda>r. list_all ascii r \<and> last r \<noteq> CHR '' '') (allowed_roots p) \<and>
      (case identity_file p of None \<Rightarrow> True | Some i \<Rightarrow> de_resolve env i = i \<and> de_is_file env i))"

lemma plain_char: "\<not> is_control c \<Longrightarrow> \<not> is_line_break [c] \<and> (is_space [c] \<longrightarrow> c = CHR '' '')"
proof -
  assume "\<not> is_control c"
  then have c: "32 \<le> ord c" by (simp add: is_control_def)
  have "c = CHR '' ''" if "ord c = 32"
  proof -
    have "ord c = ord (CHR '' '')" using that by simp
    then show ?thesis by (simp only: of_char_eq_iff)
  qed
  then show ?thesis using c by (auto simp: is_line_break_def is_space_def)
qed

lemma root_plain:
  assumes "safe_root r" and "list_all ascii r" and "last r \<noteq> CHR '' ''"
  shows "trimmed r \<and> one_line r"
proof -
  obtain t where r: "r = CHR ''/'' # t" using assms(1) by (cases r) (auto simp: safe_root_def starts_with_def)
  then have "\<not> is_control (last r)" using assms(1) by (auto simp: safe_root_def list_all_iff)
  then show ?thesis
    using assms plain_char r by (auto simp: trimmed_def one_line_def safe_root_def list_all_iff is_space_def)
qed

lemma display_text_stripped: "validate_display_text v f m = Inr u \<Longrightarrow> py_strip v = v"
  by (auto simp: validate_display_text_def split: if_splits)

lemma target_stripped: "validate_target v f = Inr u \<Longrightarrow> py_strip v = v"
  by (auto simp: validate_target_def bindE_eq_Inr dest: display_text_stripped)

lemma user_stripped: "REMOTE_USER u \<Longrightarrow> py_strip u = u"
proof -
  assume u: "REMOTE_USER u"
  have alnum: "ascii c \<and> \<not> is_space [c]" if "is_alnum c \<or> c \<in> {CHR ''_'', CHR ''.'', CHR ''-''}" for c
    using that by (auto simp: is_alnum_def is_digit_def is_upper_def is_lower_def ascii_def is_space_def)
  have "u \<noteq> [] \<and> list_all (\<lambda>c. is_alnum c \<or> c \<in> {CHR ''_'', CHR ''.'', CHR ''-''}) u"
    using u by (cases u) (auto simp: REMOTE_USER_def name_matches_def is_alnum_def)
  then have "trimmed u" using alnum by (auto simp: trimmed_def list_all_iff)
  then show ?thesis by (rule strip_trimmed)
qed

lemma editable_facts:
  assumes "editable env p"
  shows "profile_ok p" "root_lines (join [LF] (allowed_roots p)) = allowed_roots p"
    "py_strip (display_name p) = display_name p" "py_strip (environment p) = environment p"
    "\<And>i. identity_file p = Some i \<Longrightarrow> i \<noteq> [] \<and> py_strip i = i"
    "int_text (dec_int (command_timeout_seconds p)) = Inr (command_timeout_seconds p)"
    "int_text (dec_int (max_output_bytes p)) = Inr (max_output_bytes p)"
proof -
  have acc: "new_server_profile p = Inr p" using assms by (simp add: editable_def)
  note ok = accepted_profile [OF acc] new_server_profile_roots [OF acc]
  show "profile_ok p" using ok by simp
  show "root_lines (join [LF] (allowed_roots p)) = allowed_roots p"
    using assms ok root_plain by (intro root_lines_join) (auto simp: editable_def profile_ok_def list_all_iff)
  show "py_strip (display_name p) = display_name p" "py_strip (environment p) = environment p"
    using ok by (auto dest: display_text_stripped)
  show "i \<noteq> [] \<and> py_strip i = i" if "identity_file p = Some i" for i
    using ok that by (auto simp: check_identity_def bindE_eq_Inr dest: display_text_stripped validate_display_text_ok)
  show "int_text (dec_int (command_timeout_seconds p)) = Inr (command_timeout_seconds p)"
    "int_text (dec_int (max_output_bytes p)) = Inr (max_output_bytes p)"
    using ok by (auto simp: profile_ok_def intro!: int_text_dec)
qed

lemma accepted_without_identity:
  "new_server_profile p = Inr p \<Longrightarrow> new_server_profile (p\<lparr>identity_file := None\<rparr>) = Inr (p\<lparr>identity_file := None\<rparr>)"
proof -
  assume "new_server_profile p = Inr p"
  then obtain roots where r: "normalize_allowed_roots (allowed_roots p) = Inr roots" "p = p\<lparr>allowed_roots := roots\<rparr>"
    and checks: "validate_display_text (display_name p) ''display_name'' 128 = Inr ()"
    "validate_display_text (environment p) ''environment'' 64 = Inr ()"
    "check_connection p = Inr ()" "check_permissions p = Inr ()"
    using new_server_profile_roots by blast
  have "allowed_roots p = roots" using arg_cong [OF r(2), of allowed_roots] by simp
  then have "p\<lparr>identity_file := None, allowed_roots := roots\<rparr> = p\<lparr>identity_file := None\<rparr>" by (cases p) simp
  moreover have "check_connection (p\<lparr>identity_file := None\<rparr>) = check_connection p"
    "check_permissions (p\<lparr>identity_file := None\<rparr>) = check_permissions p"
    "check_identity (p\<lparr>identity_file := None\<rparr>) = Inr ()"
    by (cases "connection_type_of p"; cases "ssh_host p"; cases "host p"; cases "user p"; cases "port p";
        simp add: check_connection_def) (simp_all add: check_permissions_def check_identity_def)
  ultimately show ?thesis using r(1) checks by (simp add: new_server_profile_def)
qed

definition edit_draft :: "draft_env \<Rightarrow> pystr \<Rightarrow> server_profile \<Rightarrow> pystr option \<Rightarrow> pystr option \<Rightarrow> profile_draft res" where
  "edit_draft env name p h u =
     (let st = new_form_state (Some name) (Some p) h u in fs_draft env st (fs_initial_allowed_roots st))"

text \<open>The form that an unchanged profile gives.\<close>

definition edit_form :: "pystr \<Rightarrow> server_profile \<Rightarrow> pystr option \<Rightarrow> pystr option \<Rightarrow> profile_form" where
  "edit_form name p h u =
     \<lparr>pf_profile_name = text_or (Some name) [], pf_display_name = display_name p,
      pf_connection_type = connection_type_value (connection_type_of p), pf_target = initial_target (Some p) h,
      pf_user = initial_user (Some p) u, pf_port = dec_int (initial_port (Some p)),
      pf_credential_mode = credential_value (if connection_type_of p = SSH_CONFIG then OPENSSH_CREDENTIAL else initial_credential (Some p)),
      pf_identity_file = text_or (identity_file p) [], pf_public_key_file = [], pf_install_public_key = False,
      pf_allowed_roots = join [LF] (allowed_roots p), pf_allow_terminal = allow_terminal p,
      pf_allow_file_read = allow_file_read p, pf_allow_file_write = allow_file_write p,
      pf_elevation_mode = elevation_mode_value (elevation_mode_of p), pf_allow_root_session = allow_root_session p,
      pf_environment = environment p, pf_command_timeout = dec_int (command_timeout_seconds p),
      pf_max_output = dec_int (max_output_bytes p)\<rparr>"

lemma edit_draft_form: "edit_draft env name p h u = build_profile_draft env (edit_form name p h u)"
  by (simp add: edit_draft_def Let_def fs_draft_def new_form_state_def fs_elevation_def fs_build_draft_def fs_connection_def
      fs_credential_def no_overrides_def edit_form_def
      del: connection_type_value.simps credential_value.simps elevation_mode_value.simps)

text \<open>Building the draft of that form, once the fields that depend on the kind of connection are known.\<close>

lemma build_edit_draft:
  assumes "editable env p" and "m = (if connection_type_of p = SSH_CONFIG then OPENSSH_CREDENTIAL else initial_credential (Some p))"
    and "\<And>nm. identity_path env nm m (text_or (identity_file p) []) = Inr i"
    and "\<not> (m = PASSWORD \<and> connection_type_of p = SSH_CONFIG)"
    and "new_server_profile (p\<lparr>identity_file := i\<rparr>) = Inr (p\<lparr>identity_file := i\<rparr>)"
    and "(if m = PASSWORD then INTERACTIVE_PASSWORD else OPENSSH) = authentication_of p"
    and "ssh_host p = (if connection_type_of p = DIRECT then None else Some (py_strip (initial_target (Some p) h)))"
    and "host p = (if connection_type_of p = DIRECT then Some (py_strip (initial_target (Some p) h)) else None)"
    and "user p = (if connection_type_of p = DIRECT then Some (py_strip (initial_user (Some p) u)) else None)"
    and "(if connection_type_of p = DIRECT then bindE (int_text (dec_int (initial_port (Some p)))) (\<lambda>n. Inr (Some n)) else Inr None) = Inr (port p)"
  shows "\<exists>d. edit_draft env name p h u = Inr d \<and> pd_profile d = p\<lparr>identity_file := i\<rparr> \<and> pd_password_profile d = None"
proof -
  note e = editable_facts [OF assms(1)]
  let ?f = "edit_form name p h u"
  let ?r = "\<lparr>display_name = display_name p, connection_type_of = connection_type_of p, authentication_of = authentication_of p,
      ssh_host = ssh_host p, host = host p, port = port p, user = user p, identity_file = i, allowed_roots = allowed_roots p,
      allow_terminal = allow_terminal p, allow_file_read = allow_file_read p, allow_file_write = allow_file_write p,
      elevation_mode_of = elevation_mode_of p, allow_root_session = allow_root_session p, environment = environment p,
      command_timeout_seconds = command_timeout_seconds p, max_output_bytes = max_output_bytes p\<rparr>"
  have "?r = p\<lparr>identity_file := i\<rparr>" by (cases p) simp
  then have "new_server_profile ?r = Inr (p\<lparr>identity_file := i\<rparr>)" using assms(5) by (simp only:)
  then have "drafted_profile ?f (connection_type_of p) m i = Inr (p\<lparr>identity_file := i\<rparr>)"
    using assms(7-10) e(2-4,6,7) unfolding drafted_profile_def Let_def assms(6)
    by (cases "connection_type_of p") (simp_all add: edit_form_def del: elevation_mode_value.simps)
  then show ?thesis
    using assms(2-4) unfolding edit_draft_form build_profile_draft_def Let_def
    by (simp add: edit_form_def public_key_path_def del: connection_type_value.simps credential_value.simps)
qed

lemma edit_direct:
  assumes "editable env p" and "connection_type_of p = DIRECT"
  shows "\<exists>d. edit_draft env name p h u = Inr d \<and> pd_profile d = p \<and> pd_password_profile d = None"
proof -
  note e = editable_facts [OF assms(1)]
  obtain ho us n where f: "ssh_host p = None" "host p = Some ho" "user p = Some us" "port p = Some n"
      "safe_target ho" "REMOTE_USER us" "1 \<le> n" "n \<le> 65535"
    using e(1) assms(2) by (auto simp: profile_ok_def)
  have acc: "new_server_profile p = Inr p" using assms(1) by (simp add: editable_def)
  have "check_connection p = Inr ()" using new_server_profile_roots [OF acc] by auto
  then have ho: "ho \<noteq> []" "py_strip ho = ho"
    using f(5) assms(2) f(1-4) by (auto simp: safe_target_def check_connection_def bindE_eq_Inr dest: target_stripped)
  have us: "us \<noteq> []" "py_strip us = us" using f(6) user_stripped by (auto simp: REMOTE_USER_def name_matches_def)
  have n: "int_text (dec_int n) = Inr n" using f(7,8) by (intro int_text_dec) auto
  let ?m = "initial_credential (Some p)"
  have cred: "identity_file p = None \<Longrightarrow> ?m \<notin> {EXISTING_KEY, NEW_KEY} \<and> (?m = PASSWORD) = (authentication_of p = INTERACTIVE_PASSWORD)"
      "\<And>i. identity_file p = Some i \<Longrightarrow> ?m = EXISTING_KEY \<and> authentication_of p = OPENSSH"
    using e(1,5) by (auto simp: initial_credential_def text_or_def profile_ok_def split: list.splits)
  have ident: "identity_path env nm ?m (text_or (identity_file p) []) = Inr (identity_file p)" for nm
    using cred e(5) assms(1)
    by (cases "identity_file p") (auto simp: identity_path_def editable_def text_or_def split: list.splits)
  have auth: "(if ?m = PASSWORD then INTERACTIVE_PASSWORD else OPENSSH) = authentication_of p"
    using cred by (cases "identity_file p"; cases "authentication_of p") auto
  have texts: "initial_target (Some p) h = ho" "initial_user (Some p) u = us" "initial_port (Some p) = n"
    using f ho us by (auto simp: initial_target_def initial_user_def initial_port_def text_or_def split: list.splits)
  have same: "p\<lparr>identity_file := identity_file p\<rparr> = p" by (cases p) simp
  have "\<exists>d. edit_draft env name p h u = Inr d \<and> pd_profile d = p\<lparr>identity_file := identity_file p\<rparr> \<and> pd_password_profile d = None"
    by (rule build_edit_draft [OF assms(1) refl]) (use assms(2) ident auth texts f ho us n acc same in simp_all)
  then show ?thesis using same by simp
qed

lemma edit_ssh_config:
  assumes "editable env p" and "connection_type_of p = SSH_CONFIG"
  shows "\<exists>d. edit_draft env name p h u = Inr d \<and> pd_profile d = p\<lparr>identity_file := None\<rparr> \<and> pd_password_profile d = None"
proof -
  note e = editable_facts [OF assms(1)]
  obtain ho where f: "ssh_host p = Some ho" "host p = None" "port p = None" "user p = None" "authentication_of p = OPENSSH" "safe_target ho"
    using e(1) assms(2) by (auto simp: profile_ok_def)
  have acc: "new_server_profile p = Inr p" using assms(1) by (simp add: editable_def)
  have "check_connection p = Inr ()" using new_server_profile_roots [OF acc] by auto
  then have ho: "ho \<noteq> []" "py_strip ho = ho"
    using f assms(2) by (auto simp: safe_target_def check_connection_def bindE_eq_Inr dest: target_stripped)
  have t: "initial_target (Some p) h = ho" using f ho by (auto simp: initial_target_def text_or_def split: list.splits)
  show ?thesis
    by (rule build_edit_draft [OF assms(1) refl])
      (use assms(2) t f ho accepted_without_identity [OF acc] in \<open>simp_all add: identity_path_def\<close>)
qed


section \<open>An example\<close>

definition alias_with_key :: server_profile where
  "alias_with_key = demo_drafted\<lparr>connection_type_of := SSH_CONFIG, ssh_host := Some ''web'', host := None, port := None, user := None\<rparr>"

lemma alias_with_key_editable: "editable demo_draft_env alias_with_key"
proof -
  have "new_server_profile alias_with_key = Inr alias_with_key"
    unfolding alias_with_key_def demo_drafted_def by code_simp
  then show ?thesis by (simp add: editable_def) (simp add: alias_with_key_def demo_drafted_def demo_draft_env_def ascii_def)
qed


end
