(* ===== verification/Managed_Block.thy ===== *)
theory Managed_Block
  imports Errors
begin

text \<open>
  Text that the program owns inside a file of the user: a block between two marker lines, as
  \<^verbatim>\<open>installer/codex_config.py\<close> and \<^verbatim>\<open>setup/ssh_alias.py\<close> both keep one. The search is \<^verbatim>\<open>str.count\<close> and \<^verbatim>\<open>str.index\<close>;
  positions count the bytes of the text, at which slices cut the same characters as in the source. The locale
  \<open>marker_pair\<close> has what the two pairs of markers share and shows that a block is found
  again exactly where it was put.
\<close>

section \<open>Searching\<close>

text \<open>\<^verbatim>\<open>str.count\<close> of a pattern that is not empty, and \<^verbatim>\<open>str.index\<close>.\<close>

function (sequential) count_sub :: "pystr \<Rightarrow> pystr \<Rightarrow> nat" where
  "count_sub pat [] = 0"
| "count_sub pat (c # s) =
     (if starts_with pat (c # s) then Suc (count_sub pat (drop (length pat - 1) s)) else count_sub pat s)"
  by pat_completeness auto
termination
  by (relation "measure (\<lambda>(pat, s). length s)") auto

fun index_sub :: "pystr \<Rightarrow> pystr \<Rightarrow> nat option" where
  "index_sub pat [] = (if pat = [] then Some 0 else None)"
| "index_sub pat (c # s) = (if starts_with pat (c # s) then Some 0 else map_option Suc (index_sub pat s))"

definition managed_span :: "pystr \<Rightarrow> pystr \<Rightarrow> exn \<Rightarrow> pystr \<Rightarrow> (nat \<times> nat) option res" where
  "managed_span begin_marker end_marker ambiguous content =
     (let begin_count = count_sub begin_marker content; end_count = count_sub end_marker content
      in if begin_count = 0 \<and> end_count = 0 then Inr None
         else if begin_count \<noteq> 1 \<or> end_count \<noteq> 1 then Inl ambiguous
         else
           bindE (someE (index_sub begin_marker content) (ValueError ''substring not found'')) (\<lambda>b.
           bindE (someE (index_sub end_marker (drop b content)) (ValueError ''substring not found'')) (\<lambda>e.
           Inr (Some (b, b + e + length end_marker)))))"

section \<open>Markers\<close>

text \<open>A marker starts with a hash and has no other one, so that no occurrence reaches over the start of another marker.\<close>

definition is_marker :: "pystr \<Rightarrow> bool" where
  "is_marker m = (\<exists>r. m = CHR ''#'' # r \<and> CHR ''#'' \<notin> set r)"

lemma is_markerE:
  assumes "is_marker m" obtains r where "m = CHR ''#'' # r" "CHR ''#'' \<notin> set r"
  using assms by (auto simp: is_marker_def)

lemma starts_with_over:
  assumes "c \<notin> set (tl m)" and "x \<noteq> []"
  shows "starts_with m (x @ c # y) = starts_with m x"
proof
  assume "starts_with m (x @ c # y)"
  then obtain t where t: "x @ c # y = m @ t" by (auto simp: starts_with_iff)
  show "starts_with m x"
  proof (cases "length m \<le> length x")
    case True
    then have "take (length m) x = m" using arg_cong [OF t, of "take (length m)"] by simp
    then show ?thesis by (simp add: starts_with_def)
  next
    case False
    then have "m ! length x = c" using arg_cong [OF t, of "\<lambda>l. l ! length x"] by (simp add: nth_append)
    moreover have "m ! length x = tl m ! (length x - 1)" using False assms(2) by (cases m; cases x) auto
    moreover have "length x - 1 < length (tl m)" using False assms(2) by (cases x) auto
    ultimately have "c \<in> set (tl m)" using nth_mem by fastforce
    then show ?thesis using assms(1) by blast
  qed
qed (auto simp: starts_with_iff)

lemma count_over:
  assumes "c \<notin> set (tl m)" and "m \<noteq> []"
  shows "count_sub m (x @ c # y) = count_sub m x + count_sub m (c # y)"
  using assms
proof (induction m x rule: count_sub.induct)
  case (2 m d s)
  have eq: "starts_with m ((d # s) @ c # y) = starts_with m (d # s)" using starts_with_over 2(3) by blast
  show ?case
  proof (cases "starts_with m (d # s)")
    case True
    then have "length m - 1 \<le> length s" using 2(4) by (auto simp: starts_with_iff Cons_eq_append_conv)
    then show ?thesis using 2(1) [OF True 2(3,4)] True eq by simp
  next
    case False
    then show ?thesis using 2(2) [OF False 2(3,4)] eq by simp
  qed
qed simp

lemma count_skip: "is_marker m \<Longrightarrow> CHR ''#'' \<notin> set x \<Longrightarrow> count_sub m (x @ y) = count_sub m y"
  by (induction x) (auto simp: starts_with_def elim: is_markerE)

lemma count_free: "is_marker m \<Longrightarrow> CHR ''#'' \<notin> set x \<Longrightarrow> count_sub m x = 0"
  using count_skip [of m x "[]"] by simp

lemma count_own: "is_marker m \<Longrightarrow> count_sub m (m @ y) = Suc (count_sub m y)"
  by (erule is_markerE) (simp add: starts_with_def)

lemma shift_option: "map_option ((+) (0 :: nat)) x = x" "map_option Suc (map_option ((+) n) x) = map_option ((+) (Suc n)) x"
  by (cases x; simp)+

lemma index_over:
  assumes "c \<notin> set (tl m)" and "m \<noteq> []" and "count_sub m x = 0"
  shows "index_sub m (x @ c # y) = map_option ((+) (length x)) (index_sub m (c # y))"
  using assms
proof (induction x)
  case (Cons d s)
  then have "\<not> starts_with m (d # s)" "count_sub m s = 0" by (auto split: if_splits)
  then have "index_sub m ((d # s) @ c # y) = map_option Suc (map_option ((+) (length s)) (index_sub m (c # y)))"
    using Cons.IH [OF Cons.prems(1,2)] starts_with_over [OF Cons.prems(1), of "d # s" y] by simp
  then show ?case by (simp only: shift_option length_Cons)
qed (simp add: shift_option)

lemma index_own [simp]: "index_sub m (m @ y) = Some 0"
  by (cases "m @ y") (auto, metis starts_with_append)

lemma index_Some: "index_sub m s = Some i \<Longrightarrow> \<exists>x y. s = x @ m @ y \<and> length x = i"
proof (induction s arbitrary: i)
  case (Cons c s)
  show ?case
  proof (cases "starts_with m (c # s)")
    case True
    then show ?thesis using Cons.prems by (auto simp: starts_with_iff)
  next
    case False
    then obtain j where j: "index_sub m s = Some j" "i = Suc j" using Cons.prems by auto
    then show ?thesis using Cons.IH by (metis append_Cons length_Cons)
  qed
qed (auto split: if_splits)

lemma index_skip: "is_marker m \<Longrightarrow> CHR ''#'' \<notin> set x \<Longrightarrow> index_sub m (x @ y) = map_option ((+) (length x)) (index_sub m y)"
  by (induction x) (auto simp: starts_with_def shift_option elim: is_markerE)

lemma other_marker:
  assumes "is_marker m" and "is_marker m'" and "\<not> starts_with m (m' @ y)"
  shows "count_sub m (m' @ y) = count_sub m y" and "index_sub m (m' @ y) = map_option ((+) (length m')) (index_sub m y)"
proof -
  obtain r where r: "m' = CHR ''#'' # r" "CHR ''#'' \<notin> set r" using assms(2) by (rule is_markerE)
  show "count_sub m (m' @ y) = count_sub m y" using r assms(3) count_skip [OF assms(1) r(2)] by simp
  show "index_sub m (m' @ y) = map_option ((+) (length m')) (index_sub m y)"
    using r assms(3) index_skip [OF assms(1) r(2)] by (simp add: shift_option)
qed

lemma before_marker:
  assumes "is_marker m" and "is_marker m'"
  shows "count_sub m (x @ m' @ y) = count_sub m x + count_sub m (m' @ y)"
    and "count_sub m x = 0 \<Longrightarrow> index_sub m (x @ m' @ y) = map_option ((+) (length x)) (index_sub m (m' @ y))"
proof -
  obtain r r' where r: "m = CHR ''#'' # r" "CHR ''#'' \<notin> set r" "m' = CHR ''#'' # r'"
    using assms by (auto simp: is_marker_def)
  show "count_sub m (x @ m' @ y) = count_sub m x + count_sub m (m' @ y)"
    using count_over [of "CHR ''#''" m x "r' @ y"] r by simp
  show "count_sub m x = 0 \<Longrightarrow> index_sub m (x @ m' @ y) = map_option ((+) (length x)) (index_sub m (m' @ y))"
    using index_over [of "CHR ''#''" m x "r' @ y"] r by simp
qed

text \<open>Text in which neither marker occurs.\<close>

definition unmarked :: "pystr \<Rightarrow> pystr \<Rightarrow> pystr \<Rightarrow> bool" where
  "unmarked begin_marker end_marker s = (count_sub begin_marker s = 0 \<and> count_sub end_marker s = 0)"

lemma unmarked_free: "is_marker b \<Longrightarrow> is_marker e \<Longrightarrow> CHR ''#'' \<notin> set s \<Longrightarrow> unmarked b e s"
  by (simp add: unmarked_def count_free)

locale marker_pair =
  fixes bm :: pystr and em :: pystr
  assumes bm_marker: "is_marker bm" and em_marker: "is_marker em"
    and apart: "\<not> starts_with bm (em @ y)" "\<not> starts_with em (bm @ y)"
begin

lemma count_block:
  "count_sub bm (p @ bm @ body @ em @ q) = Suc (count_sub bm p + count_sub bm body + count_sub bm q)"
  "count_sub em (p @ bm @ body @ em @ q) = Suc (count_sub em p + count_sub em body + count_sub em q)"
  using bm_marker em_marker apart
  by (simp_all add: before_marker other_marker count_own)

lemma span_None: "(managed_span bm em amb content = Inr None) = unmarked bm em content"
  by (auto simp: managed_span_def unmarked_def Let_def bindE_eq_Inr)

lemma span_of_block:
  assumes "unmarked bm em p" and "unmarked bm em body" and "unmarked bm em q"
  shows "managed_span bm em amb (p @ bm @ body @ em @ q) = Inr (Some (length p, length (p @ bm @ body @ em)))"
proof -
  have "index_sub bm (p @ bm @ body @ em @ q) = Some (length p)"
    using before_marker(2) [OF bm_marker bm_marker, of p "body @ em @ q"] assms(1) by (simp add: unmarked_def)
  moreover have "index_sub em (bm @ body @ em @ q) = Some (length bm + length body)"
    using other_marker(2) [OF em_marker bm_marker apart(2)] before_marker(2) [OF em_marker em_marker, of body q] assms(2)
    by (simp add: unmarked_def)
  ultimately show ?thesis using assms count_block by (simp add: managed_span_def unmarked_def)
qed

lemma span_block:
  assumes "managed_span bm em amb content = Inr (Some (b, e))"
  obtains p body q where "content = p @ bm @ body @ em @ q" "b = length p" "e = length (p @ bm @ body @ em)"
    "unmarked bm em p" "unmarked bm em body" "unmarked bm em q"
proof -
  have one: "count_sub bm content = 1" "count_sub em content = 1"
    using assms by (auto simp: managed_span_def Let_def split: if_splits)
  obtain e0 where i: "index_sub bm content = Some b" "index_sub em (drop b content) = Some e0" "e = b + e0 + length em"
    using assms one by (auto simp: managed_span_def bindE_eq_Inr)
  obtain p y where p: "content = p @ bm @ y" "length p = b" using index_Some [OF i(1)] by blast
  then obtain e1 where e1: "index_sub em y = Some e1" "e0 = length bm + e1"
    using i(2) other_marker(2) [OF em_marker bm_marker apart(2)] by auto
  then obtain body q where "y = body @ em @ q" "length body = e1" using index_Some by blast
  then show thesis using that [of p body q] one p i(3) e1(2) count_block [of p body q] by (simp add: unmarked_def)
qed

lemma block_replaced:
  assumes "managed_span bm em amb content = Inr (Some (b, e))" and "unmarked bm em body"
  shows "managed_span bm em amb' (take b content @ (bm @ body @ em) @ drop e content)
    = Inr (Some (b, b + length (bm @ body @ em)))"
proof -
  obtain p old q where "content = p @ bm @ old @ em @ q" "b = length p" "e = length (p @ bm @ old @ em)" "unmarked bm em p" "unmarked bm em q"
    using assms(1) by (rule span_block)
  then show ?thesis using span_of_block [OF _ assms(2), of p q amb'] by simp
qed

end

end
