(* ===== verification/Config_Files.thy ===== *)
theory Config_Files
  imports Errors
begin

text \<open>
  The files and file operations that \<^verbatim>\<open>installer/codex_config.py\<close> and \<^verbatim>\<open>setup/ssh_alias.py\<close> use to replace a file of the
  user: the file itself, its backup, and the staging files beside it, whose names carry a fresh random part. Each
  operation is a step; before a step other processes may change the files, and the operating system
  decides whether the step fails. A write that fails may leave a file with part of the data.
\<close>

datatype ufile = Target | Backup | BackupStage | Stage | Restore

type_synonym ufiles = "ufile \<Rightarrow> bytes option"

datatype ustep =
    CheckFirst | MakeDir | CheckExists | WriteBackup | SecureBackup | ReplaceBackup | WriteStage | ReadStage | CheckCurrent
  | ReplaceTarget | ReadBack | CompareBack | UnlinkBackupStage | UnlinkStage | CheckBackup | ReadBackup | WriteRestore
  | ReplaceRestore | UnlinkTarget

record uworld =
  uw_others :: "ustep \<Rightarrow> ufiles \<Rightarrow> ufiles"
  uw_fails :: "ustep \<Rightarrow> bool"
  uw_partial :: "ustep \<Rightarrow> bytes option"

definition io_error :: exn where
  "io_error = OSError ''file operation failed''"

definition step_io :: "uworld \<Rightarrow> ustep \<Rightarrow> (ufiles \<Rightarrow> ufiles \<times> 'a res) \<Rightarrow> ufiles \<Rightarrow> ufiles \<times> 'a res" where
  "step_io w st f files =
     (let g = uw_others w st files in if uw_fails w st then (g, Inl io_error) else f g)"

text \<open>\<^verbatim>\<open>_write_fsynced\<close>, which both modules define alike.\<close>

definition write_fsynced :: "uworld \<Rightarrow> ustep \<Rightarrow> ufile \<Rightarrow> bytes \<Rightarrow> ufiles \<Rightarrow> ufiles \<times> unit res" where
  "write_fsynced w st target data files =
     (let g = uw_others w st files in
      if uw_fails w st
      then (case uw_partial w st of None \<Rightarrow> (g, Inl io_error) | Some b \<Rightarrow> (g(target := Some b), Inl io_error))
      else (g(target := Some data), Inr ()))"

definition read_file :: "uworld \<Rightarrow> ustep \<Rightarrow> ufile \<Rightarrow> ufiles \<Rightarrow> ufiles \<times> bytes res" where
  "read_file w st f = step_io w st (\<lambda>g. (g, someE (g f) io_error))"

definition replace_file :: "uworld \<Rightarrow> ustep \<Rightarrow> ufile \<Rightarrow> ufile \<Rightarrow> ufiles \<Rightarrow> ufiles \<times> unit res" where
  "replace_file w st src dst = step_io w st (\<lambda>g.
     case g src of None \<Rightarrow> (g, Inl io_error) | Some b \<Rightarrow> (g(src := None, dst := Some b), Inr ()))"

definition unlink_file :: "uworld \<Rightarrow> ustep \<Rightarrow> bool \<Rightarrow> ufile \<Rightarrow> ufiles \<Rightarrow> ufiles \<times> unit res" where
  "unlink_file w st missing_ok f = step_io w st (\<lambda>g.
     if g f = None \<and> \<not> missing_ok then (g, Inl io_error) else (g(f := None), Inr ()))"

text \<open>\<^verbatim>\<open>with suppress(OSError)\<close> around removing a file.\<close>

definition drop_file :: "uworld \<Rightarrow> ustep \<Rightarrow> ufile \<Rightarrow> ufiles \<Rightarrow> ufiles" where
  "drop_file w st f files = fst (unlink_file w st False f files)"

section \<open>What a step changes\<close>

definition undisturbed :: "uworld \<Rightarrow> bool" where
  "undisturbed w = (\<forall>st files. uw_others w st files = files)"

lemma undisturbed_others [simp]: "undisturbed w \<Longrightarrow> uw_others w st files = files"
  by (simp add: undisturbed_def)

lemma write_other: "fst (write_fsynced w st t d files) f = uw_others w st files f" if "f \<noteq> t"
  using that by (auto simp: write_fsynced_def Let_def split: option.split)

lemma write_ok: "write_fsynced w st t d files = (files', Inr ()) \<Longrightarrow> files' = (uw_others w st files)(t := Some d)"
  by (auto simp: write_fsynced_def Let_def split: if_splits option.splits)

lemma read_files [simp]: "fst (read_file w st f files) = uw_others w st files"
  by (simp add: read_file_def step_io_def Let_def)

lemma read_ok: "read_file w st f files = (files', Inr b) \<Longrightarrow> files' = uw_others w st files \<and> files' f = Some b"
  by (auto simp: read_file_def step_io_def Let_def split: if_splits)

lemma replace_other: "fst (replace_file w st s t files) f = uw_others w st files f" if "f \<noteq> s" "f \<noteq> t"
  using that by (auto simp: replace_file_def step_io_def Let_def split: option.split)

lemma replace_failed: "replace_file w st s t files = (files', Inl e) \<Longrightarrow> files' = uw_others w st files \<and> e = io_error"
  by (auto simp: replace_file_def step_io_def Let_def split: if_splits option.splits)

lemma replace_ok:
  "replace_file w st s t files = (files', Inr ()) \<Longrightarrow>
     \<exists>b. uw_others w st files s = Some b \<and> files' = (uw_others w st files)(s := None, t := Some b)"
  by (auto simp: replace_file_def step_io_def Let_def split: if_splits option.splits)

lemma drop_other: "drop_file w st f files f' = uw_others w st files f'" if "f' \<noteq> f"
  using that by (simp add: drop_file_def unlink_file_def step_io_def Let_def)

lemma unlink_other: "fst (unlink_file w st ok f files) f' = uw_others w st files f'" if "f' \<noteq> f"
  using that by (simp add: unlink_file_def step_io_def Let_def)

lemma unlink_ok: "unlink_file w st ok f files = (files', Inr ()) \<Longrightarrow> files' = (uw_others w st files)(f := None)"
  by (auto simp: unlink_file_def step_io_def Let_def split: if_splits)

text \<open>The common middle of both updates: after the backup, the new content is staged, checked and moved into place.\<close>

lemma staged_replace:
  fixes r1 :: "unit res"
  assumes "undisturbed w" and "bk files = (g1, r1)" and "\<And>g. fst (check g) = g" and "\<And>g. fst (again g) = g"
    and "bindS bk (\<lambda>_. bindS (write_fsynced w WriteStage Stage d) (\<lambda>_. bindS check (\<lambda>_. bindS again (\<lambda>_.
      replace_file w ReplaceTarget Stage Target)))) files = (g, r)"
  shows "(\<forall>e. r = Inl e \<longrightarrow> g Target = g1 Target) \<and>
    (r = Inr () \<longrightarrow> r1 = Inr () \<and> g Target = Some d \<and> g Backup = g1 Backup)"
proof -
  obtain g2 r2 where 2: "write_fsynced w WriteStage Stage d g1 = (g2, r2)" by fastforce
  have s: "g2 Target = g1 Target" "g2 Backup = g1 Backup" "r2 = Inr () \<Longrightarrow> g2 Stage = Some d"
    using 2 assms(1) by (auto simp: write_fsynced_def Let_def split: if_splits option.splits)
  obtain r3 where 3: "check g2 = (g2, r3)" using assms(3) [of g2] by (cases "check g2") auto
  obtain r4 where 4: "again g2 = (g2, r4)" using assms(4) [of g2] by (cases "again g2") auto
  show ?thesis
  proof (cases "isOk r1 \<and> isOk r2 \<and> isOk r3 \<and> isOk r4")
    case True
    then have ok: "r1 = Inr ()" "r2 = Inr ()" by (simp_all add: isOk_iff)
    have "replace_file w ReplaceTarget Stage Target g2 = (g, r)"
      using True assms(2,5) 2 3 4 by (auto simp: isOk_iff bindS_Inr)
    then show ?thesis using assms(1) ok s by (auto dest: replace_failed replace_ok)
  next
    case False
    then have "(g = g1 \<or> g = g2) \<and> \<not> isOk r"
      using assms(2,5) 2 3 4 by (cases r1; cases r2; cases r3; cases r4) (auto simp: bindS_def)
    then show ?thesis using s(1) by auto
  qed
qed

end
