(* ===== verification/Codex_Config.thy ===== *)
theory Codex_Config
  imports Managed_Block Config_Files
begin

text \<open>
  \<^verbatim>\<open>installer/codex_config.py\<close>: the block of the server in the Codex configuration of the user. The TOML
  parser and what the system says about wheels, programs and paths are arguments. The file operations of an
  update are the steps of \<open>Config_Files\<close>.
\<close>

section \<open>The block\<close>

definition BEGIN_MARKER :: pystr where
  "BEGIN_MARKER = ''# >>> codex-serverops-mcp managed block >>>''"

definition END_MARKER :: pystr where
  "END_MARKER = ''# <<< codex-serverops-mcp managed block <<<''"

definition SERVER_TABLE :: pystr where
  "SERVER_TABLE = ''[mcp_servers.serverops]''"

definition version_char :: "char \<Rightarrow> bool" where
  "version_char c = (is_alnum c \<or> c \<in> set ''._+!-'')"

definition VERSION :: "pystr \<Rightarrow> bool" where
  "VERSION s = (case s of [] \<Rightarrow> False | c # r \<Rightarrow> is_alnum c \<and> length r \<le> 63 \<and> list_all version_char r)"

definition DEVELOPMENT_VERSION_PREFIX :: pystr where
  "DEVELOPMENT_VERSION_PREFIX = ''# Development wheel version: ''"

record installer_env =
  ie_loads :: "pystr \<Rightarrow> pystr + payload"
  ie_resolve :: "pystr \<Rightarrow> pystr"
  ie_is_file :: "pystr \<Rightarrow> bool"
  ie_wheel_suffix :: "pystr \<Rightarrow> bool"
  ie_wheel_names :: "pystr \<Rightarrow> pystr list option"
  ie_wheel_metadata :: "pystr \<Rightarrow> pystr \<Rightarrow> (pystr option \<times> pystr option) option"
  ie_python_stdout :: "pystr \<Rightarrow> pystr option"
  ie_which_uvx :: "pystr option"

definition toml_string :: "pystr \<Rightarrow> pystr" where
  "toml_string value = [QT] @ concat (map (\<lambda>c. if c = BSL then [BSL, BSL] else if c = QT then [BSL, QT] else [c]) value) @ [QT]"

definition ends_with :: "pystr \<Rightarrow> pystr \<Rightarrow> bool" where
  "ends_with suf s = (length suf \<le> length s \<and> drop (length s - length suf) s = suf)"

text \<open>\<^verbatim>\<open>None\<close> of the archive is a failure to open it, and of the metadata a failure to read it.\<close>

definition validate_development_wheel :: "installer_env \<Rightarrow> pystr \<Rightarrow> pystr \<Rightarrow> unit res" where
  "validate_development_wheel env wheel version =
     (let invalid = InstallerError ''the development wheel could not be validated'' in
      bindE (guardE (ie_is_file env wheel \<and> ie_wheel_suffix env wheel)
        (InstallerError ''the development wheel must be an existing .whl file'')) (\<lambda>_.
      bindE (someE (ie_wheel_names env wheel) invalid) (\<lambda>names.
      case filter (ends_with ''.dist-info/METADATA'') names of
        [name] \<Rightarrow>
          bindE (someE (ie_wheel_metadata env wheel name) invalid) (\<lambda>(meta_name, meta_version).
          bindE (guardE (meta_name = Some ''codex-serverops-mcp'')
            (InstallerError ''the development wheel has the wrong package name'')) (\<lambda>_.
          guardE (meta_version = Some version)
            (InstallerError ''the development wheel version does not match this installer'')))
      | _ \<Rightarrow> Inl (InstallerError ''the development wheel has ambiguous package metadata''))))"

definition validate_development_python :: "installer_env \<Rightarrow> pystr option \<Rightarrow> pystr res" where
  "validate_development_python env python =
     bindE (someE python (InstallerError ''a development wheel requires an explicit Python 3.12 executable'')) (\<lambda>p.
     let resolved = ie_resolve env p in
     bindE (guardE (ie_is_file env resolved) (InstallerError ''the development Python executable does not exist'')) (\<lambda>_.
     bindE (someE (ie_python_stdout env resolved)
       (InstallerError ''the development Python executable could not be verified'')) (\<lambda>out.
     bindE (guardE (py_strip out = ''3.12'') (InstallerError ''the development Python executable must be Python 3.12'')) (\<lambda>_.
     Inr resolved))))"

definition development_wheel_block :: "installer_env \<Rightarrow> pystr \<Rightarrow> pystr \<Rightarrow> pystr option \<Rightarrow> pystr res" where
  "development_wheel_block env version wheel python =
     (let resolved_wheel = ie_resolve env wheel in
      bindE (validate_development_wheel env resolved_wheel version) (\<lambda>_.
      bindE (validate_development_python env python) (\<lambda>resolved_python.
      bindE (someE (ie_which_uvx env) (InstallerError ''uvx is required for a development-wheel MCP configuration'')) (\<lambda>uvx.
      Inr (join [LF] [BEGIN_MARKER, DEVELOPMENT_VERSION_PREFIX @ version, SERVER_TABLE,
        ''command = '' @ toml_string (ie_resolve env uvx),
        ''args = ['' @ [QT] @ ''--python'' @ [QT] @ '', '' @ toml_string resolved_python @ '', '' @ [QT] @ ''--offline'' @ [QT] @ '', '' @
          [QT] @ ''--from'' @ [QT] @ '', '' @ toml_string resolved_wheel @ '', '' @ [QT] @ ''codex-serverops-mcp'' @ [QT] @ '']'',
        ''startup_timeout_sec = 60'', ''tool_timeout_sec = 3730'', END_MARKER])))))"

definition PIN :: pystr where
  "PIN = [QT] @ ''codex-serverops-mcp==''"

definition pinned_lines :: "pystr \<Rightarrow> pystr list" where
  "pinned_lines version =
     [SERVER_TABLE, ''command = '' @ [QT] @ ''uvx'' @ [QT],
      ''args = ['' @ [QT] @ ''--from'' @ [QT] @ '', '' @ PIN @ version @ [QT] @ '', '' @ [QT] @ ''codex-serverops-mcp'' @ [QT] @ '']'',
      ''startup_timeout_sec = 60'', ''tool_timeout_sec = 3730'']"

definition managed_block :: "installer_env \<Rightarrow> pystr \<Rightarrow> pystr option \<Rightarrow> pystr option \<Rightarrow> pystr res" where
  "managed_block env version development_wheel development_python =
     bindE (guardE (VERSION version) (InstallerError ''the distribution version is not safe for a pinned uvx command'')) (\<lambda>_.
     case development_wheel of
       Some wheel \<Rightarrow> development_wheel_block env version wheel development_python
     | None \<Rightarrow>
         if development_python \<noteq> None then Inl (InstallerError ''a development Python requires a development wheel'')
         else Inr (join [LF] (BEGIN_MARKER # pinned_lines version @ [END_MARKER])))"

section \<open>Planning a change\<close>

definition parse_codex_config :: "installer_env \<Rightarrow> pystr \<Rightarrow> payload res" where
  "parse_codex_config env content =
     (if py_strip content = [] then Inr []
      else case ie_loads env content of
        Inl _ \<Rightarrow> Inl (InstallerError ''the user Codex configuration is not valid TOML'')
      | Inr parsed \<Rightarrow> Inr parsed)"

definition codex_span :: "pystr \<Rightarrow> (nat \<times> nat) option res" where
  "codex_span content =
     bindE (managed_span BEGIN_MARKER END_MARKER
       (InstallerError ''the managed Codex configuration markers are ambiguous'') content) (\<lambda>span.
     case span of
       None \<Rightarrow> Inr None
     | Some (b, e) \<Rightarrow>
         if is_infix SERVER_TABLE (take (e - b) (drop b content)) then Inr (Some (b, e))
         else Inl (InstallerError ''the managed Codex configuration block is malformed''))"

text \<open>\<^verbatim>\<open>read_text(encoding="utf-8")\<close> with the translation of line ends.\<close>

definition read_text :: "bytes \<Rightarrow> pystr res" where
  "read_text content =
     (case decode_strict content of
        Inl _ \<Rightarrow> Inl (ValueError ''invalid UTF-8'')
      | Inr t \<Rightarrow> Inr (subst_char CR LF (replace_crlf t)))"

record codex_config_change =
  cc_previous_exists :: bool
  cc_previous :: pystr
  cc_updated :: pystr
  cc_preview :: pystr

definition strip_lf :: "pystr \<Rightarrow> pystr" where
  "strip_lf s = rstrip_chars {LF} (dropWhile (\<lambda>c. c = LF) s)"

definition has_server :: "payload \<Rightarrow> bool" where
  "has_server parsed =
     (case map_of parsed ''mcp_servers'' of Some (JObj servers) \<Rightarrow> ''serverops'' \<in> set (keys servers) | _ \<Rightarrow> False)"

definition separator :: "pystr \<Rightarrow> pystr" where
  "separator previous = (if previous = [] then [] else if last previous = LF then [LF] else [LF, LF])"

text \<open>What follows once the previous text has been read.\<close>

definition plan_text ::
  "installer_env \<Rightarrow> bool \<Rightarrow> pystr \<Rightarrow> pystr \<Rightarrow> bool \<Rightarrow> pystr option \<Rightarrow> pystr option \<Rightarrow> codex_config_change res" where
  "plan_text env previous_exists previous version remove wheel python =
     bindE (parse_codex_config env previous) (\<lambda>parsed.
     bindE (codex_span previous) (\<lambda>span.
     case span of
       None \<Rightarrow>
         if has_server parsed
         then Inl (InstallerError ''an unmarked [mcp_servers.serverops] entry exists and was not changed'')
         else if remove
         then Inr \<lparr>cc_previous_exists = previous_exists, cc_previous = previous, cc_updated = previous,
                cc_preview = ''No installer-managed Codex configuration block exists; no change is needed.''\<rparr>
         else
           bindE (managed_block env version wheel python) (\<lambda>block.
           let updated = previous @ separator previous @ block @ [LF] in
           bindE (parse_codex_config env updated) (\<lambda>_.
           Inr \<lparr>cc_previous_exists = previous_exists, cc_previous = previous, cc_updated = updated, cc_preview = block\<rparr>))
     | Some (b, e) \<Rightarrow>
         if remove
         then
           let stripped = strip_lf (take b previous @ drop e previous);
               updated = (if stripped = [] then [] else stripped @ [LF])
           in bindE (parse_codex_config env updated) (\<lambda>_.
              Inr \<lparr>cc_previous_exists = previous_exists, cc_previous = previous, cc_updated = updated,
                   cc_preview = ''Remove the installer-managed [mcp_servers.serverops] block.''\<rparr>)
         else
           bindE (managed_block env version wheel python) (\<lambda>block.
           let updated = take b previous @ block @ drop e previous in
           bindE (parse_codex_config env updated) (\<lambda>_.
           Inr \<lparr>cc_previous_exists = previous_exists, cc_previous = previous, cc_updated = updated, cc_preview = block\<rparr>))))"

definition plan_codex_config_change ::
  "installer_env \<Rightarrow> bool \<Rightarrow> bytes option \<Rightarrow> pystr \<Rightarrow> bool \<Rightarrow> pystr option \<Rightarrow> pystr option \<Rightarrow> codex_config_change res" where
  "plan_codex_config_change env readable file version remove wheel python =
     (if remove \<and> (wheel \<noteq> None \<or> python \<noteq> None)
      then Inl (InstallerError ''development runtime options cannot be combined with removal'')
      else
        bindE (case file of
            None \<Rightarrow> Inr []
          | Some content \<Rightarrow>
              if \<not> readable then Inl (InstallerError ''the user Codex configuration could not be read'')
              else read_text content) (\<lambda>previous.
        plan_text env (file \<noteq> None) previous version remove wheel python))"

section \<open>Inspecting the version\<close>

definition pin_char :: "char \<Rightarrow> bool" where
  "pin_char c = (c \<noteq> QT \<and> c \<noteq> CR \<and> c \<noteq> LF)"

text \<open>The two searches: the first position at which the pattern matches.\<close>

fun search_pin :: "pystr \<Rightarrow> pystr option" where
  "search_pin [] = None"
| "search_pin (c # s) =
     (let after = drop (length PIN) (c # s); found = takeWhile pin_char after; rest = dropWhile pin_char after
      in if starts_with PIN (c # s) \<and> found \<noteq> [] \<and> rest \<noteq> [] \<and> hd rest = QT then Some found else search_pin s)"

fun search_development :: "bool \<Rightarrow> pystr \<Rightarrow> pystr option" where
  "search_development line_start [] = None"
| "search_development line_start (c # s) =
     (let after = drop (length DEVELOPMENT_VERSION_PREFIX) (c # s);
          found = takeWhile (\<lambda>c. c \<noteq> CR \<and> c \<noteq> LF) after; rest = dropWhile (\<lambda>c. c \<noteq> CR \<and> c \<noteq> LF) after
      in if line_start \<and> starts_with DEVELOPMENT_VERSION_PREFIX (c # s) \<and> found \<noteq> [] \<and> (rest = [] \<or> hd rest = LF)
         then Some found else search_development (c = LF) s)"

definition inspect_text :: "installer_env \<Rightarrow> pystr \<Rightarrow> pystr option res" where
  "inspect_text env content =
     bindE (parse_codex_config env content) (\<lambda>_.
     bindE (codex_span content) (\<lambda>span.
     case span of
       None \<Rightarrow> Inr None
     | Some (b, e) \<Rightarrow>
         let block = take (e - b) (drop b content) in
         case search_pin block of
           Some version \<Rightarrow> Inr (Some version)
         | None \<Rightarrow>
             (case search_development True block of
                Some version \<Rightarrow>
                  if VERSION version then Inr (Some version)
                  else Inl (InstallerError ''the managed Codex block has no exact package pin'')
              | None \<Rightarrow> Inl (InstallerError ''the managed Codex block has no exact package pin''))))"

definition inspect_managed_version :: "installer_env \<Rightarrow> bytes option \<Rightarrow> pystr option res" where
  "inspect_managed_version env file =
     (case file of
        None \<Rightarrow> Inr None
      | Some content \<Rightarrow> bindE (read_text content) (inspect_text env))"

section \<open>Applying a change\<close>

definition changed_after_preview :: exn where
  "changed_after_preview = InstallerError ''the Codex configuration changed after preview; generate it again''"

definition assert_current :: "uworld \<Rightarrow> ustep \<Rightarrow> codex_config_change \<Rightarrow> ufiles \<Rightarrow> ufiles \<times> unit res" where
  "assert_current w st change files =
     (let g = uw_others w st files in
      (g, if (g Target \<noteq> None) \<noteq> cc_previous_exists change then Inl changed_after_preview
          else case g Target of
            None \<Rightarrow> Inr ()
          | Some content \<Rightarrow>
              if uw_fails w st then Inl io_error
              else bindE (read_text content) (\<lambda>t. guardE (t = cc_previous change) changed_after_preview)))"

definition parse_file :: "installer_env \<Rightarrow> uworld \<Rightarrow> ustep \<Rightarrow> ufile \<Rightarrow> ufiles \<Rightarrow> ufiles \<times> unit res" where
  "parse_file env w st f =
     bindS (read_file w st f) (\<lambda>content.
     liftS (bindE (read_text content) (\<lambda>t. bindE (parse_codex_config env t) (\<lambda>_. Inr ()))))"

text \<open>The body of \<^verbatim>\<open>try\<close> up to the replacement, which includes it, and what follows.\<close>

definition stage_and_replace :: "installer_env \<Rightarrow> uworld \<Rightarrow> codex_config_change \<Rightarrow> bool \<Rightarrow> ufiles \<Rightarrow> ufiles \<times> unit res" where
  "stage_and_replace env w change had_previous =
     bindS (if had_previous
            then bindS (write_fsynced w WriteBackup BackupStage (cc_previous change)) (\<lambda>_.
                 replace_file w ReplaceBackup BackupStage Backup)
            else liftS (Inr ())) (\<lambda>_.
     bindS (write_fsynced w WriteStage Stage (cc_updated change)) (\<lambda>_.
     bindS (parse_file env w ReadStage Stage) (\<lambda>_.
     bindS (assert_current w CheckCurrent change) (\<lambda>_.
     replace_file w ReplaceTarget Stage Target))))"

definition roll_back :: "uworld \<Rightarrow> bool \<Rightarrow> bool \<Rightarrow> ufiles \<Rightarrow> ufiles \<times> unit res" where
  "roll_back w replaced had_previous files =
     (let g = uw_others w CheckBackup files in
      if replaced \<and> had_previous \<and> g Backup \<noteq> None
      then bindS (read_file w ReadBackup Backup) (\<lambda>content.
           bindS (write_fsynced w WriteRestore Restore content) (\<lambda>_.
           replace_file w ReplaceRestore Restore Target)) g
      else if replaced \<and> \<not> had_previous then unlink_file w UnlinkTarget True Target g
      else (g, Inr ()))"

definition update_failed :: "uworld \<Rightarrow> bool \<Rightarrow> bool \<Rightarrow> ufiles \<Rightarrow> ufiles \<times> unit res" where
  "update_failed w replaced had_previous files =
     (case roll_back w replaced had_previous (drop_file w UnlinkStage Stage (drop_file w UnlinkBackupStage BackupStage files)) of
        (files', Inl _) \<Rightarrow>
          (files', Inl (InstallerError ''the Codex configuration update failed and rollback was incomplete''))
      | (files', Inr _) \<Rightarrow> (files', Inl (InstallerError ''the Codex configuration update failed and was rolled back'')))"

definition apply_codex_config_change :: "installer_env \<Rightarrow> uworld \<Rightarrow> codex_config_change \<Rightarrow> ufiles \<Rightarrow> ufiles \<times> unit res" where
  "apply_codex_config_change env w change =
     bindS (assert_current w CheckFirst change) (\<lambda>_.
     if cc_updated change = cc_previous change then liftS (Inr ())
     else bindS (step_io w MakeDir (\<lambda>g. (g, Inr ()))) (\<lambda>_ files.
       let g = uw_others w CheckExists files; had_previous = (g Target \<noteq> None) in
       case stage_and_replace env w change had_previous g of
         (g1, Inl _) \<Rightarrow> update_failed w False had_previous g1
       | (g1, Inr _) \<Rightarrow>
           (case parse_file env w ReadBack Target g1 of
              (g2, Inl _) \<Rightarrow> update_failed w True had_previous g2
            | (g2, Inr _) \<Rightarrow> (g2, Inr ()))))"

section \<open>The markers\<close>

lemma codex_markers: "is_marker BEGIN_MARKER" "is_marker END_MARKER"
  by (simp_all add: is_marker_def BEGIN_MARKER_def END_MARKER_def)

interpretation codex: marker_pair BEGIN_MARKER END_MARKER
  by unfold_locales
    (simp_all add: codex_markers, simp_all add: starts_with_def BEGIN_MARKER_def END_MARKER_def)

section \<open>The pinned block\<close>

definition pinned_body :: "pystr \<Rightarrow> pystr" where
  "pinned_body version = [LF] @ join [LF] (pinned_lines version) @ [LF]"

lemma pinned_block: "managed_block env version None None = Inr block \<Longrightarrow>
    VERSION version \<and> block = BEGIN_MARKER @ pinned_body version @ END_MARKER"
  by (auto simp: managed_block_def pinned_body_def pinned_lines_def bindE_eq_Inr)

lemma version_chars: "VERSION v \<Longrightarrow> v \<noteq> [] \<and> list_all version_char v"
  by (cases v) (auto simp: VERSION_def version_char_def)

lemma version_char_plain: "version_char c \<Longrightarrow> pin_char c \<and> c \<noteq> CHR ''#''"
  by (auto simp: version_char_def pin_char_def is_alnum_def is_digit_def is_upper_def is_lower_def)

lemma version_no_hash: "VERSION v \<Longrightarrow> CHR ''#'' \<notin> set v"
  using version_chars [of v] version_char_plain by (auto simp: list_all_iff)

lemma pinned_body_unmarked: "VERSION v \<Longrightarrow> unmarked BEGIN_MARKER END_MARKER (pinned_body v)"
  by (rule unmarked_free [OF codex_markers])
    (simp add: pinned_body_def pinned_lines_def SERVER_TABLE_def PIN_def version_no_hash)

lemma search_pin_skip: "QT \<notin> set x \<Longrightarrow> search_pin (x @ s) = search_pin s"
  by (induction x) (auto simp: starts_with_def PIN_def)

lemma search_pin_here:
  assumes "starts_with PIN s" and "drop (length PIN) s = found @ QT # r" and "found \<noteq> []" and "list_all pin_char found"
  shows "search_pin s = Some found"
proof -
  have "takeWhile pin_char (found @ QT # r) = found" "dropWhile pin_char (found @ QT # r) = QT # r"
    using assms(4) by (simp_all add: takeWhile_append2 dropWhile_append2 list_all_iff pin_char_def)
  then show ?thesis using assms(1-3) by (cases s) (auto simp: Let_def)
qed

lemma search_pin_at: "VERSION v \<Longrightarrow> search_pin (PIN @ v @ QT # r) = Some v"
  using version_chars [of v] version_char_plain by (auto simp: list_all_iff intro!: search_pin_here)

lemma is_infix_append: "is_infix p (x @ p @ y)"
  by (induction x) (cases "p @ y"; auto simp: starts_with_iff; metis append_Nil)+

lemma search_pin_step: "c \<noteq> QT \<Longrightarrow> search_pin (c # s) = search_pin s" "d \<noteq> CHR ''c'' \<Longrightarrow> search_pin (QT # d # s) = search_pin (d # s)"
  by (simp_all add: starts_with_def PIN_def)

lemma pinned_search: "VERSION v \<Longrightarrow> search_pin (BEGIN_MARKER @ pinned_body v @ END_MARKER) = Some v"
proof -
  assume "VERSION v"
  then have "search_pin (PIN @ v @ QT # r) = Some v" for r by (rule search_pin_at)
  then show ?thesis
    by (simp add: pinned_body_def pinned_lines_def BEGIN_MARKER_def SERVER_TABLE_def search_pin_step del: search_pin.simps)
qed

lemma pinned_span:
  assumes "VERSION v" and "unmarked BEGIN_MARKER END_MARKER p" and "unmarked BEGIN_MARKER END_MARKER q"
  shows "codex_span (p @ (BEGIN_MARKER @ pinned_body v @ END_MARKER) @ q) =
    Inr (Some (length p, length (p @ BEGIN_MARKER @ pinned_body v @ END_MARKER)))"
proof -
  obtain x y where "BEGIN_MARKER @ pinned_body v @ END_MARKER = x @ SERVER_TABLE @ y"
    by (simp add: pinned_body_def pinned_lines_def) (metis append.assoc append_Cons append_Nil)
  then have "is_infix SERVER_TABLE (BEGIN_MARKER @ pinned_body v @ END_MARKER)" by (simp only: is_infix_append)
  then show ?thesis
    using codex.span_of_block [OF assms(2) pinned_body_unmarked [OF assms(1)] assms(3)] by (simp add: codex_span_def)
qed

lemma codex_span_managed:
  assumes "codex_span content = Inr sp"
  obtains amb where "managed_span BEGIN_MARKER END_MARKER amb content = Inr sp"
proof -
  obtain found where f: "managed_span BEGIN_MARKER END_MARKER
      (InstallerError ''the managed Codex configuration markers are ambiguous'') content = Inr found"
    using assms by (auto simp: codex_span_def bindE_eq_Inr)
  then have "found = sp" using assms by (cases found) (auto simp: codex_span_def split: if_splits)
  then show thesis using that f by simp
qed

lemma codex_span_None: "codex_span content = Inr None \<Longrightarrow> unmarked BEGIN_MARKER END_MARKER content"
  using codex_span_managed codex.span_None by metis

lemma codex_span_Some:
  assumes "codex_span content = Inr (Some (b, e))"
  obtains p body q where "content = p @ (BEGIN_MARKER @ body @ END_MARKER) @ q" "take b content = p" "drop e content = q"
    "unmarked BEGIN_MARKER END_MARKER p" "unmarked BEGIN_MARKER END_MARKER q"
proof -
  obtain amb where "managed_span BEGIN_MARKER END_MARKER amb content = Inr (Some (b, e))"
    using assms by (rule codex_span_managed)
  then obtain p body q where "content = p @ BEGIN_MARKER @ body @ END_MARKER @ q" "b = length p"
      "e = length (p @ BEGIN_MARKER @ body @ END_MARKER)" "unmarked BEGIN_MARKER END_MARKER p" "unmarked BEGIN_MARKER END_MARKER q"
    by (metis codex.span_block)
  then show thesis using that [of p body q] by simp
qed

lemma unmarked_LF: "unmarked BEGIN_MARKER END_MARKER [LF]"
  by (rule unmarked_free [OF codex_markers]) simp

lemma separator_LF: "separator t \<in> {[], [LF], [LF, LF]}"
  by (simp add: separator_def)

lemma unmarked_end:
  assumes "unmarked BEGIN_MARKER END_MARKER t"
  shows "unmarked BEGIN_MARKER END_MARKER (t @ separator t)"
proof -
  have "LF \<notin> set BEGIN_MARKER" "LF \<notin> set END_MARKER" "BEGIN_MARKER \<noteq> []" "END_MARKER \<noteq> []"
    by (simp_all add: BEGIN_MARKER_def END_MARKER_def)
  moreover from this have "LF \<notin> set (tl BEGIN_MARKER)" "LF \<notin> set (tl END_MARKER)"
    by (metis list.set_sel(2))+
  moreover have "count_sub m [LF] = 0" "count_sub m [LF, LF] = 0" if "is_marker m" for m
    using count_free [OF that, of "[LF]"] count_free [OF that, of "[LF, LF]"] by simp_all
  ultimately show ?thesis
    using assms codex_markers count_over [of LF BEGIN_MARKER t] count_over [of LF END_MARKER t] separator_LF [of t]
    by (auto simp: unmarked_def)
qed

text \<open>What a plan of installing a pinned version does to the text.\<close>

lemma planned_install:
  assumes "plan_text env ex previous v False None None = Inr change"
  obtains p q where "VERSION v" "cc_updated change = p @ (BEGIN_MARKER @ pinned_body v @ END_MARKER) @ q"
    "unmarked BEGIN_MARKER END_MARKER p" "unmarked BEGIN_MARKER END_MARKER q"
    "(p = previous @ separator previous \<and> q = [LF] \<and> unmarked BEGIN_MARKER END_MARKER previous) \<or>
     (\<exists>body. previous = p @ (BEGIN_MARKER @ body @ END_MARKER) @ q)"
    "\<exists>parsed. parse_codex_config env (cc_updated change) = Inr parsed"
proof -
  obtain sp where span: "codex_span previous = Inr sp" using assms by (auto simp: plan_text_def bindE_eq_Inr)
  show thesis
  proof (cases sp)
    case None
    then have "unmarked BEGIN_MARKER END_MARKER previous" using span codex_span_None by simp
    moreover obtain block parsed where "managed_block env v None None = Inr block"
        "cc_updated change = previous @ separator previous @ block @ [LF]" "parse_codex_config env (cc_updated change) = Inr parsed"
      using assms span None by (auto simp: plan_text_def bindE_eq_Inr Let_def split: if_splits)
    ultimately show thesis using that [of "previous @ separator previous" "[LF]"] pinned_block unmarked_end unmarked_LF by fastforce
  next
    case (Some be)
    obtain b e where be: "be = (b, e)" by fastforce
    then obtain p body q where d: "previous = p @ (BEGIN_MARKER @ body @ END_MARKER) @ q" "take b previous = p" "drop e previous = q"
        "unmarked BEGIN_MARKER END_MARKER p" "unmarked BEGIN_MARKER END_MARKER q"
      using span Some codex_span_Some by blast
    obtain block parsed where "managed_block env v None None = Inr block"
        "cc_updated change = take b previous @ block @ drop e previous" "parse_codex_config env (cc_updated change) = Inr parsed"
      using assms span Some be by (auto simp: plan_text_def bindE_eq_Inr Let_def split: if_splits)
    then show thesis using that [of p q] d pinned_block by fastforce
  qed
qed

lemma strip_lf_snoc: "strip_lf (y @ [LF]) = strip_lf y"
proof (cases "\<forall>c\<in>set y. c = LF")
  case True
  then have "dropWhile (\<lambda>c. c = LF) y = []" "dropWhile (\<lambda>c. c = LF) (y @ [LF]) = []" by (simp_all add: dropWhile_eq_Nil_conv)
  then show ?thesis by (simp only: strip_lf_def)
next
  case False
  then obtain x where "x \<in> set y" "x \<noteq> LF" by blast
  then have "dropWhile (\<lambda>c. c = LF) (y @ [LF]) = dropWhile (\<lambda>c. c = LF) y @ [LF]" by (rule dropWhile_append1)
  then show ?thesis by (simp add: strip_lf_def)
qed

lemma strip_lf_end: "strip_lf (x @ replicate n LF) = strip_lf x"
proof (induction n)
  case (Suc n)
  have "x @ replicate (Suc n) LF = (x @ replicate n LF) @ [LF]" by (simp add: replicate_append_same)
  then show ?case using Suc by (simp only: strip_lf_snoc)
qed simp

text \<open>The text that is left when a block is removed.\<close>

definition without_block :: "pystr \<Rightarrow> pystr" where
  "without_block t = (if strip_lf t = [] then [] else strip_lf t @ [LF])"

text \<open>
  C33: installing the block of the server in the Codex configuration keeps the rest of it. Where a plan to install a pinned
  version succeeds, the updated text is the block between parts that come unchanged from the previous text: it
  was appended, or it took the place of the old block. The version that is found in the updated text is
  the one installed; planning again changes nothing; and where there was no block before, removing it again
  gives the previous text up to line breaks at its ends.
\<close>

theorem install_found_again:
  assumes "plan_text env ex previous v False None None = Inr change"
  shows "(\<exists>p q block. managed_block env v None None = Inr block \<and> cc_updated change = p @ block @ q \<and>
      ((p = previous @ separator previous \<and> q = [LF]) \<or> (\<exists>body. previous = p @ (BEGIN_MARKER @ body @ END_MARKER) @ q))) \<and>
    inspect_text env (cc_updated change) = Inr (Some v) \<and>
    (\<exists>again. plan_text env True (cc_updated change) v False None None = Inr again \<and> cc_updated again = cc_updated change) \<and>
    (codex_span previous = Inr None \<and> isOk (parse_codex_config env (without_block previous)) \<longrightarrow>
      (\<exists>gone. plan_text env True (cc_updated change) v True None None = Inr gone \<and> cc_updated gone = without_block previous))"
proof -
  let ?b = "BEGIN_MARKER @ pinned_body v @ END_MARKER"
  obtain p q where d: "VERSION v" "cc_updated change = p @ ?b @ q" "unmarked BEGIN_MARKER END_MARKER p"
      "unmarked BEGIN_MARKER END_MARKER q"
      "(p = previous @ separator previous \<and> q = [LF] \<and> unmarked BEGIN_MARKER END_MARKER previous) \<or>
       (\<exists>body. previous = p @ (BEGIN_MARKER @ body @ END_MARKER) @ q)"
      "\<exists>parsed. parse_codex_config env (cc_updated change) = Inr parsed"
    using assms by (rule planned_install)
  have block: "managed_block env v None None = Inr ?b"
    using d(1) by (simp add: managed_block_def pinned_body_def pinned_lines_def)
  obtain parsed where parsed: "parse_codex_config env (p @ ?b @ q) = Inr parsed" using d(2,6) by auto
  have sp: "codex_span (p @ ?b @ q) = Inr (Some (length p, length (p @ ?b)))" using pinned_span [OF d(1,3,4)] by simp
  have kept: "\<exists>p q block. managed_block env v None None = Inr block \<and> cc_updated change = p @ block @ q \<and>
      ((p = previous @ separator previous \<and> q = [LF]) \<or> (\<exists>body. previous = p @ (BEGIN_MARKER @ body @ END_MARKER) @ q))"
    using block d(2,5) by blast
  have "inspect_text env (cc_updated change) = Inr (Some v)"
    using parsed sp pinned_search [OF d(1)] unfolding d(2) by (simp add: inspect_text_def Let_def)
  moreover have "\<exists>again. plan_text env True (cc_updated change) v False None None = Inr again \<and> cc_updated again = cc_updated change"
    using parsed sp block unfolding d(2) by (simp add: plan_text_def Let_def)
  moreover have "\<exists>gone. plan_text env True (cc_updated change) v True None None = Inr gone \<and> cc_updated gone = without_block previous"
    if none: "codex_span previous = Inr None" and ok: "isOk (parse_codex_config env (without_block previous))"
  proof -
    have "\<not> (\<exists>body. previous = p @ (BEGIN_MARKER @ body @ END_MARKER) @ q)"
      using codex_span_None [OF none] codex.count_block(1) [of p _ q] by (auto simp: unmarked_def)
    then have pq: "p = previous @ separator previous" "q = [LF]" using d(5) by blast+
    have "strip_lf (p @ q) = strip_lf previous"
      using separator_LF [of previous] strip_lf_end [of previous 1] strip_lf_end [of previous 2] strip_lf_end [of previous 3] pq
      by (auto simp: eval_nat_numeral)
    then show ?thesis using parsed sp ok unfolding d(2)
      by (auto simp: plan_text_def Let_def without_block_def isOk_iff)
  qed
  ultimately show ?thesis using kept by blast
qed

definition demo_installer_env :: installer_env where
  "demo_installer_env = \<lparr>ie_loads = (\<lambda>_. Inr []), ie_resolve = id, ie_is_file = (\<lambda>_. True), ie_wheel_suffix = (\<lambda>_. True),
     ie_wheel_names = (\<lambda>_. None), ie_wheel_metadata = (\<lambda>_ _. None), ie_python_stdout = (\<lambda>_. None), ie_which_uvx = None\<rparr>"

lemma demo_parse [simp]: "parse_codex_config demo_installer_env t = Inr []"
  by (simp add: parse_codex_config_def demo_installer_env_def)

lemma demo_no_span: "codex_span ''model = 1'' = Inr None"
proof -
  have "unmarked BEGIN_MARKER END_MARKER ''model = 1''" by (rule unmarked_free [OF codex_markers]) simp
  then have "managed_span BEGIN_MARKER END_MARKER amb ''model = 1'' = Inr None" for amb by (simp only: codex.span_None)
  then show ?thesis by (simp add: codex_span_def)
qed

lemma demo_plan:
  "\<exists>change. plan_text demo_installer_env ex ''model = 1'' ''1.2'' False None None = Inr change \<and>
     cc_previous change = ''model = 1'' \<and> cc_previous_exists change = ex"
  using demo_no_span
  by (simp add: plan_text_def has_server_def managed_block_def VERSION_def version_char_def is_alnum_def is_digit_def Let_def)

theorem install_found_again_witness:
  "\<exists>change gone. plan_text demo_installer_env True ''model = 1'' ''1.2'' False None None = Inr change \<and>
     inspect_text demo_installer_env (cc_updated change) = Inr (Some ''1.2'') \<and>
     plan_text demo_installer_env True (cc_updated change) ''1.2'' True None None = Inr gone \<and> cc_updated gone = ''model = 1'' @ [LF]"
proof -
  obtain change where c: "plan_text demo_installer_env True ''model = 1'' ''1.2'' False None None = Inr change"
    using demo_plan by blast
  have "without_block ''model = 1'' = ''model = 1'' @ [LF]"
    by (simp add: without_block_def strip_lf_def rstrip_chars_def)
  then show ?thesis using install_found_again [OF c] demo_no_span c by auto
qed

section \<open>Updates are all or nothing\<close>

lemma assert_ok:
  assumes "assert_current w st change files = (g, Inr ())"
  shows "g = uw_others w st files \<and> (g Target \<noteq> None) = cc_previous_exists change \<and>
    (\<forall>c. g Target = Some c \<longrightarrow> read_text c = Inr (cc_previous change))"
  using assms by (auto simp: assert_current_def Let_def bindE_eq_Inr split: if_splits option.splits)

lemma assert_files [simp]: "fst (assert_current w st change files) = uw_others w st files"
  by (simp add: assert_current_def Let_def)

lemma parse_file_files [simp]: "fst (parse_file env w st f files) = uw_others w st files"
  using read_files [of w st f files]
  by (cases "read_file w st f files"; cases "snd (read_file w st f files)") (simp_all add: parse_file_def bindS_def)

lemma stage_body:
  assumes "undisturbed w" and "had = (files Target \<noteq> None)" and "stage_and_replace env w change had files = (g, r)"
  shows "(\<forall>e. r = Inl e \<longrightarrow> g Target = files Target) \<and>
    (r = Inr () \<longrightarrow> g Target = Some (cc_updated change) \<and> (had \<longrightarrow> g Backup = Some (cc_previous change)))"
proof -
  let ?backup = "if had then bindS (write_fsynced w WriteBackup BackupStage (cc_previous change)) (\<lambda>_.
      replace_file w ReplaceBackup BackupStage Backup) else liftS (Inr ())"
  obtain g1 r1 where 1: "?backup files = (g1, r1)" by fastforce
  have b: "g1 Target = files Target" "r1 = Inr () \<Longrightarrow> had \<Longrightarrow> g1 Backup = Some (cc_previous change)"
    using 1 assms(1)
    by (auto simp: bindS_def write_fsynced_def replace_file_def step_io_def Let_def split: if_splits option.splits)
  show ?thesis
    using staged_replace [OF assms(1) 1 _ _ assms(3) [unfolded stage_and_replace_def]] assms(1) b by simp
qed

definition rollback_incomplete :: "exn \<Rightarrow> bool" where
  "rollback_incomplete e = (e = InstallerError ''the Codex configuration update failed and rollback was incomplete'')"

lemma update_failed_target:
  assumes "undisturbed w" and "update_failed w replaced had files = (g, Inl e)" and "\<not> rollback_incomplete e"
    and "replaced \<Longrightarrow> had \<Longrightarrow> files Backup = Some old"
  shows "g Target = (if \<not> replaced then files Target else if had then Some old else None)"
proof -
  let ?f = "drop_file w UnlinkStage Stage (drop_file w UnlinkBackupStage BackupStage files)"
  have keep: "?f Target = files Target" "?f Backup = files Backup" using assms(1) by (simp_all add: drop_other)
  have "roll_back w replaced had ?f = (g, Inr ())"
    using assms(2,3) by (auto simp: update_failed_def rollback_incomplete_def split: prod.splits sum.splits)
  then show ?thesis
    using assms(1,4) keep
    by (auto simp: roll_back_def Let_def bindS_eq_Inr read_file_def step_io_def write_fsynced_def replace_file_def
        dest: unlink_ok split: if_splits option.splits)
qed

lemma update_failed_Inl: "\<exists>g e. update_failed w replaced had files = (g, Inl e)"
  by (simp add: update_failed_def split: prod.split sum.split)

lemma undisturbed_update:
  assumes "undisturbed w" and "assert_current w CheckFirst change files = (files, c)"
    and "stage_and_replace env w change (files Target \<noteq> None) files = (g1, r1)"
    and "parse_file env w ReadBack Target g1 = (g1, r2)"
  shows "apply_codex_config_change env w change files = (case c of Inl e \<Rightarrow> (files, Inl e) | Inr _ \<Rightarrow>
      if cc_updated change = cc_previous change then (files, Inr ())
      else if uw_fails w MakeDir then (files, Inl io_error)
      else case r1 of Inl _ \<Rightarrow> update_failed w False (files Target \<noteq> None) g1
        | Inr _ \<Rightarrow> (case r2 of Inl _ \<Rightarrow> update_failed w True (files Target \<noteq> None) g1 | Inr _ \<Rightarrow> (g1, Inr ())))"
  using assms unfolding apply_codex_config_change_def
  by (cases c; cases r1; cases r2) (simp_all add: bindS_def step_io_def Let_def)

lemma update_outcome:
  assumes "undisturbed w" and "apply_codex_config_change env w change files = (files', r)"
  shows "(r = Inr () \<longrightarrow>
      (if cc_updated change = cc_previous change then files' = files
       else files' Target = Some (cc_updated change) \<and> (files Target \<noteq> None \<longrightarrow> files' Backup = Some (cc_previous change)))) \<and>
    (\<forall>e. r = Inl e \<and> \<not> rollback_incomplete e \<longrightarrow>
      files' Target = files Target \<or> (files Target \<noteq> None \<and> files' Target = Some (cc_previous change)))"
proof -
  let ?had = "files Target \<noteq> None"
  obtain c where c: "assert_current w CheckFirst change files = (files, c)"
    using assert_files [of w CheckFirst change files] assms(1) by (metis eq_fst_iff undisturbed_others)
  obtain g1 r1 where 1: "stage_and_replace env w change ?had files = (g1, r1)" by fastforce
  obtain r2 where 2: "parse_file env w ReadBack Target g1 = (g1, r2)"
    using parse_file_files [of env w ReadBack Target g1] assms(1) by (metis eq_fst_iff undisturbed_others)
  have s: "\<And>e. r1 = Inl e \<Longrightarrow> g1 Target = files Target" "r1 = Inr () \<Longrightarrow> g1 Target = Some (cc_updated change)"
      "r1 = Inr () \<Longrightarrow> ?had \<Longrightarrow> g1 Backup = Some (cc_previous change)"
    using stage_body [OF assms(1) refl 1] by auto
  note run = undisturbed_update [OF assms(1) c 1 2]
  have failed: "files' Target = (if \<not> rep then g1 Target else if ?had then Some (cc_previous change) else None)"
    if "update_failed w rep ?had g1 = (files', Inl e)" "\<not> rollback_incomplete e" "rep \<Longrightarrow> r1 = Inr ()" for rep e
    using update_failed_target [OF assms(1) that(1,2)] that(3) s(3) by blast
  consider (early) "files' = files" "r = Inr () \<Longrightarrow> cc_updated change = cc_previous change"
    | (before) e where "update_failed w False ?had g1 = (files', r)" "r1 = Inl e" "cc_updated change \<noteq> cc_previous change"
    | (after) "update_failed w True ?had g1 = (files', r)" "r1 = Inr ()" "cc_updated change \<noteq> cc_previous change"
    | (written) "files' = g1" "r = Inr ()" "r1 = Inr ()" "cc_updated change \<noteq> cc_previous change"
    using assms(2) unfolding run by (cases c; cases r1; cases r2) (auto split: if_splits)
  then show ?thesis
  proof cases
    case early
    then show ?thesis by simp
  next
    case before
    then obtain e' where "r = Inl e'" using update_failed_Inl [of w False ?had g1] by auto
    then show ?thesis using before failed [of False e'] s(1) by simp
  next
    case after
    then obtain e' where "r = Inl e'" using update_failed_Inl [of w True ?had g1] by auto
    then show ?thesis using after failed [of True e'] by (cases "files Target") simp_all
  next
    case written
    then show ?thesis using s(2,3) by simp
  qed
qed

lemma undisturbed_written:
  assumes "undisturbed w" and "apply_codex_config_change env w change files = (files', Inr ())"
  shows "files' Target = (if cc_updated change = cc_previous change then files Target else Some (cc_updated change))"
  using update_outcome [OF assms] by (simp split: if_splits)

text \<open>
  C34: an update of the Codex configuration happens as a whole or not at all. Unless another process interferes,
  whatever step the operating system fails: an update that returns has written exactly the updated text and, where a
  file existed, has left the previous text in the backup; one that raises has left the file as it was, or with the text that
  was read from it, except where the error says that the rollback was incomplete.
\<close>

theorem codex_update_all_or_nothing:
  assumes "undisturbed w" and "apply_codex_config_change env w change files = (files', r)"
  shows "(r = Inr () \<longrightarrow>
      (if cc_updated change = cc_previous change then files' = files
       else files' Target = Some (cc_updated change) \<and> (files Target \<noteq> None \<longrightarrow> files' Backup = Some (cc_previous change)))) \<and>
    (\<forall>e. r = Inl e \<and> \<not> rollback_incomplete e \<longrightarrow>
      files' Target = files Target \<or> (files Target \<noteq> None \<and> files' Target = Some (cc_previous change)))"
  by (rule update_outcome [OF assms])

section \<open>Edits of other processes are kept\<close>

text \<open>Another process writes the file between the preparation of the new text and the last check.\<close>

definition edited_before_check :: "uworld \<Rightarrow> bytes \<Rightarrow> bool" where
  "edited_before_check w edit =
     (\<forall>st files. uw_others w st files = (if st = CheckCurrent then files(Target := Some edit) else files))"

lemma stage_refuses:
  assumes "edited_before_check w edit" and "read_text edit \<noteq> Inr (cc_previous change)"
    and "stage_and_replace env w change had files = (g, r)"
  shows "\<not> isOk r \<and> (g Target = files Target \<or> g Target = Some edit)"
proof -
  have others: "\<And>st files. st \<noteq> CheckCurrent \<Longrightarrow> uw_others w st files = files"
      "\<And>files. uw_others w CheckCurrent files = files(Target := Some edit)"
    using assms(1) by (simp_all add: edited_before_check_def)
  let ?backup = "if had then bindS (write_fsynced w WriteBackup BackupStage (cc_previous change)) (\<lambda>_.
      replace_file w ReplaceBackup BackupStage Backup) else liftS (Inr ())"
  obtain g1 r1 where 1: "?backup files = (g1, r1)" by fastforce
  have b: "g1 Target = files Target"
    using 1 others(1) by (auto simp: bindS_def write_fsynced_def replace_file_def step_io_def Let_def split: if_splits option.splits)
  obtain g2 r2 where 2: "write_fsynced w WriteStage Stage (cc_updated change) g1 = (g2, r2)" by fastforce
  have s: "g2 Target = g1 Target"
    using 2 others(1) by (auto simp: write_fsynced_def Let_def split: if_splits option.splits)
  obtain r3 where 3: "parse_file env w ReadStage Stage g2 = (g2, r3)"
    using parse_file_files [of env w ReadStage Stage g2] others(1) [of ReadStage g2] by (cases "parse_file env w ReadStage Stage g2") auto
  have "\<exists>e. assert_current w CheckCurrent change g2 = (g2(Target := Some edit), Inl e)"
    using assms(2) others(2) by (cases "read_text edit") (simp_all add: assert_current_def Let_def)
  then obtain e where 4: "assert_current w CheckCurrent change g2 = (g2(Target := Some edit), Inl e)" by blast
  show ?thesis
    using assms(3) 1 2 3 4 b s by (cases r1; cases r2; cases r3) (auto simp: stage_and_replace_def bindS_def)
qed


section \<open>An example\<close>

definition quiet_world :: uworld where
  "quiet_world = \<lparr>uw_others = (\<lambda>_ files. files), uw_fails = (\<lambda>_. False), uw_partial = (\<lambda>_. None)\<rparr>"

definition failing_world :: "ustep \<Rightarrow> uworld" where
  "failing_world st = quiet_world\<lparr>uw_fails := (\<lambda>x. x = st)\<rparr>"

definition editing_world :: "bytes \<Rightarrow> uworld" where
  "editing_world edit = quiet_world\<lparr>uw_others := (\<lambda>st files. if st = CheckCurrent then files(Target := Some edit) else files)\<rparr>"

lemma quiet_undisturbed [simp]: "undisturbed quiet_world" "undisturbed (failing_world st)"
  by (simp_all add: undisturbed_def quiet_world_def failing_world_def)

definition demo_files :: ufiles where
  "demo_files = (\<lambda>f. if f = Target then Some ''model = 1'' else None)"

definition demo_change :: codex_config_change where
  "demo_change = \<lparr>cc_previous_exists = True, cc_previous = ''model = 1'', cc_updated = ''model = 2'', cc_preview = []\<rparr>"

lemma read_text_plain: "list_all ascii t \<Longrightarrow> CR \<notin> set t \<Longrightarrow> read_text t = Inr t"
  by (simp add: read_text_def replace_crlf_no_cr subst_char_absent)

lemma demo_texts: "read_text ''model = 1'' = Inr ''model = 1''" "read_text ''model = 2'' = Inr ''model = 2''"
    "read_text ''model = 3'' = Inr ''model = 3''"
  by (simp_all add: read_text_plain ascii_def)

theorem codex_update_all_or_nothing_witness:
  "\<exists>files' e. apply_codex_config_change demo_installer_env (failing_world ReadBack) demo_change demo_files = (files', Inl e) \<and>
     \<not> rollback_incomplete e \<and> files' Target = Some ''model = 1''"
proof -
  have run: "\<exists>files' e. apply_codex_config_change demo_installer_env (failing_world ReadBack) demo_change demo_files = (files', Inl e) \<and>
      \<not> rollback_incomplete e"
    by (simp add: apply_codex_config_change_def bindS_def assert_current_def step_io_def stage_and_replace_def write_fsynced_def
        replace_file_def parse_file_def read_file_def update_failed_def roll_back_def drop_file_def unlink_file_def
        demo_files_def demo_change_def failing_world_def quiet_world_def rollback_incomplete_def demo_texts Let_def)
  then obtain files' e where r: "apply_codex_config_change demo_installer_env (failing_world ReadBack) demo_change demo_files = (files', Inl e)"
      "\<not> rollback_incomplete e" by blast
  show ?thesis
    using codex_update_all_or_nothing [OF quiet_undisturbed(2) r(1)] r by (auto simp: demo_files_def demo_change_def)
qed


text \<open>The text is read with translated line ends and written as it is: the backup of a file with the line ends of
  Windows does not have its bytes, and neither has the updated file.\<close>

lemma line_ends_not_kept:
  assumes "plan_codex_config_change env True (Some (''a = 1'' @ [CR, LF])) v False None None = Inr change"
  shows "cc_previous change = ''a = 1'' @ [LF]"
proof -
  have "read_text (''a = 1'' @ [CR, LF]) = Inr (''a = 1'' @ [LF])"
    by (simp add: read_text_def subst_char_def ascii_def)
  then show ?thesis
    using assms by (auto simp: plan_codex_config_change_def plan_text_def bindE_eq_Inr Let_def split: option.splits if_splits)
qed

text \<open>Markers in the wrong order are not reported as an error of the installer.\<close>

lemma markers_reversed: "codex_span (END_MARKER @ [LF] @ BEGIN_MARKER) = Inl (ValueError ''substring not found'')"
  by code_simp

end
