(* ===== verification/Broker_Task.thy ===== *)
theory Broker_Task
  imports Errors
begin

text \<open>
  \<^verbatim>\<open>broker/task_model.py\<close> and \<^verbatim>\<open>broker/task_scheduler.py\<close>: the scheduled task of Windows that starts the broker
  when its user logs on. A task is the record of the fields that the program sets and reads; the scheduler is
  the folder of tasks, with the failure that a call to the service meets, if any. What Windows says
  about paths and accounts, the hash and the form in which the scheduler keeps a definition are arguments.
\<close>

section \<open>Specifications and descriptions\<close>

definition MANAGED_TASK_MARKER :: pystr where
  "MANAGED_TASK_MARKER = ''codex-serverops-mcp:broker-task:v1''"

record task_env =
  te_sha256 :: "bytes \<Rightarrow> pystr"
  te_is_absolute :: "pystr \<Rightarrow> bool"
  te_is_file :: "pystr \<Rightarrow> bool"
  te_same_path :: "pystr \<Rightarrow> pystr \<Rightarrow> bool"
  te_casefold :: "pystr \<Rightarrow> pystr"
  te_lookup_sid :: "pystr \<Rightarrow> pystr option"
  te_resolve :: "pystr \<Rightarrow> pystr"
  te_which_uvx :: "pystr option"

definition broker_action_digest :: "task_env \<Rightarrow> pystr \<Rightarrow> pystr \<Rightarrow> pystr \<Rightarrow> pystr" where
  "broker_action_digest env executable argument_line working_directory =
     take 16 (te_sha256 env (executable @ [NUL] @ argument_line @ [NUL] @ working_directory))"

definition legacy_broker_action_digest :: "task_env \<Rightarrow> pystr \<Rightarrow> pystr \<Rightarrow> pystr" where
  "legacy_broker_action_digest env executable argument_line =
     take 16 (te_sha256 env (executable @ [NUL] @ argument_line))"

definition DESCRIPTION_PREFIX :: pystr where
  "DESCRIPTION_PREFIX =
     ''Codex ServerOps MCP per-user broker. Managed marker: '' @ MANAGED_TASK_MARKER @ ''; source=''"

definition DESCRIPTION_ACTION :: pystr where
  "DESCRIPTION_ACTION = ''; action=''"

text \<open>\<^verbatim>\<open>MANAGED_DESCRIPTION.fullmatch\<close>: the groups \<^verbatim>\<open>source\<close> and \<^verbatim>\<open>action\<close>. The tail has a fixed length, so the
  groups are determined by the length of the text.\<close>

definition match_description :: "pystr \<Rightarrow> (pystr \<times> pystr) option" where
  "match_description description =
     (let n = length DESCRIPTION_ACTION + 16;
          body = drop (length DESCRIPTION_PREFIX) description;
          source = take (length body - n) body;
          tail = drop (length body - n) body;
          action = drop (length DESCRIPTION_ACTION) tail
      in if starts_with DESCRIPTION_PREFIX description \<and> n < length body \<and> CR \<notin> set source \<and> LF \<notin> set source \<and>
            take (length DESCRIPTION_ACTION) tail = DESCRIPTION_ACTION \<and> list_all is_hex action
         then Some (source, action) else None)"

definition managed_description_matches :: "task_env \<Rightarrow> pystr \<Rightarrow> pystr \<Rightarrow> pystr \<Rightarrow> pystr \<Rightarrow> bool" where
  "managed_description_matches env description executable argument_line working_directory =
     (case match_description description of
        None \<Rightarrow> False
      | Some (source, action) \<Rightarrow>
          py_strip source \<noteq> [] \<and>
          (action = broker_action_digest env executable argument_line working_directory \<or>
           (working_directory = [] \<and> action = legacy_broker_action_digest env executable argument_line)))"

text \<open>\<^verbatim>\<open>subprocess.list2cmdline\<close>: backslashes count only in front of a quotation mark and at the end of a quoted
  argument.\<close>

fun cmdline_chars :: "bool \<Rightarrow> nat \<Rightarrow> pystr \<Rightarrow> pystr" where
  "cmdline_chars quote pending [] = replicate (if quote then 2 * pending else pending) BSL @ (if quote then [QT] else [])"
| "cmdline_chars quote pending (c # cs) =
     (if c = BSL then cmdline_chars quote (Suc pending) cs
      else if c = QT then replicate (2 * pending) BSL @ [BSL, QT] @ cmdline_chars quote 0 cs
      else replicate pending BSL @ [c] @ cmdline_chars quote 0 cs)"

definition cmdline_argument :: "pystr \<Rightarrow> pystr" where
  "cmdline_argument arg =
     (let quote = (CHR '' '' \<in> set arg \<or> TAB \<in> set arg \<or> arg = [])
      in (if quote then [QT] else []) @ cmdline_chars quote 0 arg)"

definition list2cmdline :: "pystr list \<Rightarrow> pystr" where
  "list2cmdline args = join '' '' (map cmdline_argument args)"

record broker_task_spec =
  bt_executable :: pystr
  bt_arguments :: "pystr list"
  bt_source :: pystr
  bt_working_directory :: "pystr option"

definition validate_task_spec :: "task_env \<Rightarrow> broker_task_spec \<Rightarrow> unit res" where
  "validate_task_spec env spec =
     bindE (guardE (te_is_absolute env (bt_executable spec) \<and> te_is_file env (bt_executable spec))
       (ValueError ''broker task executable must be an existing absolute file'')) (\<lambda>_.
     bindE (guardE (bt_arguments spec \<noteq> [] \<and> [] \<notin> set (bt_arguments spec))
       (ValueError ''broker task arguments must not be empty'')) (\<lambda>_.
     bindE (guardE (py_strip (bt_source spec) \<noteq> []) (ValueError ''broker task source must not be empty'')) (\<lambda>_.
     guardE (case bt_working_directory spec of None \<Rightarrow> True | Some d \<Rightarrow> te_is_absolute env d)
       (ValueError ''broker task working directory must be absolute''))))"

definition argument_line :: "broker_task_spec \<Rightarrow> pystr" where
  "argument_line spec = list2cmdline (bt_arguments spec)"

definition working_text :: "broker_task_spec \<Rightarrow> pystr" where
  "working_text spec = (case bt_working_directory spec of None \<Rightarrow> [] | Some d \<Rightarrow> d)"

definition task_description :: "task_env \<Rightarrow> broker_task_spec \<Rightarrow> pystr" where
  "task_description env spec =
     DESCRIPTION_PREFIX @ bt_source spec @ DESCRIPTION_ACTION @
     broker_action_digest env (bt_executable spec) (argument_line spec) (working_text spec)"

record broker_task_status =
  ts_name :: pystr
  ts_exists :: bool
  ts_managed :: bool
  ts_running :: bool
  ts_executable :: "pystr option"
  ts_arguments :: "pystr option"

definition broker_task_name :: "task_env \<Rightarrow> pystr \<Rightarrow> pystr" where
  "broker_task_name env sid = ''Codex ServerOps MCP Broker '' @ take 12 (te_sha256 env sid)"

definition production_arguments :: "pystr \<Rightarrow> pystr list" where
  "production_arguments version = [''--from'', ''codex-serverops-mcp=='' @ version, ''serverops-broker'']"

definition production_broker_task_spec :: "task_env \<Rightarrow> pystr \<Rightarrow> pystr option \<Rightarrow> broker_task_spec res" where
  "production_broker_task_spec env version uvx_path =
     bindE (someE (case uvx_path of Some (c # cs) \<Rightarrow> Some (c # cs) | _ \<Rightarrow> te_which_uvx env) (ValueError ''uvx is required to install the per-user broker task'')) (\<lambda>uvx.
     Inr \<lparr>bt_executable = te_resolve env uvx, bt_arguments = production_arguments version,
          bt_source = ''codex-serverops-mcp=='' @ version, bt_working_directory = None\<rparr>)"

section \<open>Tasks of the scheduler\<close>

definition TASK_ACTION_EXEC :: int where "TASK_ACTION_EXEC = 0"
definition TASK_INSTANCES_IGNORE_NEW :: int where "TASK_INSTANCES_IGNORE_NEW = 2"
definition TASK_LOGON_INTERACTIVE_TOKEN :: int where "TASK_LOGON_INTERACTIVE_TOKEN = 3"
definition TASK_RUNLEVEL_LUA :: int where "TASK_RUNLEVEL_LUA = 0"
definition TASK_STATE_RUNNING :: int where "TASK_STATE_RUNNING = 4"
definition TASK_TRIGGER_LOGON :: int where "TASK_TRIGGER_LOGON = 9"
definition ERROR_FILE_NOT_FOUND_HRESULT :: int where "ERROR_FILE_NOT_FOUND_HRESULT = 0x80070002"

record task_action =
  ta_type :: int
  ta_path :: pystr
  ta_arguments :: pystr
  ta_working_directory :: pystr

record task_trigger =
  tt_type :: int
  tt_enabled :: bool
  tt_user_id :: pystr

record task_settings =
  st_enabled :: bool
  st_allow_demand_start :: bool
  st_start_when_available :: bool
  st_hidden :: bool
  st_disallow_start_if_on_batteries :: bool
  st_stop_if_going_on_batteries :: bool
  st_execution_time_limit :: pystr
  st_multiple_instances :: int

record task_definition =
  td_description :: pystr
  td_user_id :: pystr
  td_logon_type :: int
  td_run_level :: int
  td_settings :: task_settings
  td_triggers :: "task_trigger list"
  td_actions :: "task_action list"
  td_readable :: bool

text \<open>Reading an attribute may raise. A task without a definition is one whose definition, description, actions or
  triggers cannot be read, \<open>td_readable\<close> says whether the other fields can, and the state may be missing.\<close>

record task =
  tk_definition :: "task_definition option"
  tk_state :: "int option"

record com_error =
  ce_hresult :: int
  ce_scode :: "int option"

record scheduler =
  sc_tasks :: "task dict"
  sc_runs :: "pystr list"

record controller =
  tc_env :: task_env
  tc_account_name :: pystr
  tc_account_sid :: "pystr option"
  tc_task_name :: pystr

text \<open>How the service behaves during a call: a failure of looking up, registering, running or deleting, the error
  for a missing task, and the form in which a registered definition is kept.\<close>

record service =
  sv_get_failure :: "com_error option"
  sv_missing :: com_error
  sv_register_failure :: "com_error option"
  sv_run_failure :: "com_error option"
  sv_delete_failure :: "com_error option"
  sv_kept :: "task_definition \<Rightarrow> task_definition"

definition hresult :: "com_error \<Rightarrow> int" where
  "hresult e = (case ce_scode e of Some c \<Rightarrow> if c \<noteq> 0 then c mod 2 ^ 32 else ce_hresult e mod 2 ^ 32 | None \<Rightarrow> ce_hresult e mod 2 ^ 32)"

definition account_matches :: "task_env \<Rightarrow> pystr \<Rightarrow> pystr \<Rightarrow> pystr option \<Rightarrow> bool" where
  "account_matches env actual expected_name expected_sid =
     (te_casefold env actual = te_casefold env expected_name \<or>
      (case expected_sid of None \<Rightarrow> False | Some sid \<Rightarrow> te_lookup_sid env actual = Some sid))"

definition managed_definition :: "controller \<Rightarrow> task_definition \<Rightarrow> task_action option \<Rightarrow> task_trigger option \<Rightarrow> bool" where
  "managed_definition c d action trigger =
     (case (action, trigger) of
        (Some a, Some t) \<Rightarrow>
          td_readable d \<and> ta_type a = TASK_ACTION_EXEC \<and>
          managed_description_matches (tc_env c) (td_description d) (ta_path a) (ta_arguments a) (ta_working_directory a) \<and>
          account_matches (tc_env c) (td_user_id d) (tc_account_name c) (tc_account_sid c) \<and>
          td_logon_type d = TASK_LOGON_INTERACTIVE_TOKEN \<and> td_run_level d = TASK_RUNLEVEL_LUA \<and>
          tt_type t = TASK_TRIGGER_LOGON \<and> tt_enabled t \<and>
          account_matches (tc_env c) (tt_user_id t) (tc_account_name c) (tc_account_sid c) \<and>
          st_enabled (td_settings d) \<and> st_allow_demand_start (td_settings d) \<and> st_start_when_available (td_settings d) \<and>
          \<not> st_hidden (td_settings d) \<and> \<not> st_disallow_start_if_on_batteries (td_settings d) \<and>
          \<not> st_stop_if_going_on_batteries (td_settings d) \<and> st_execution_time_limit (td_settings d) = ''PT0S'' \<and>
          st_multiple_instances (td_settings d) = TASK_INSTANCES_IGNORE_NEW
      | _ \<Rightarrow> False)"

definition the_only :: "'a list \<Rightarrow> 'a option" where
  "the_only xs = (case xs of [x] \<Rightarrow> Some x | _ \<Rightarrow> None)"

section \<open>The controller\<close>

text \<open>\<^verbatim>\<open>BrokerTaskController.connect\<close>: the account's name and SID, or \<open>None\<close> when the service cannot be reached.\<close>

definition controller_connect :: "task_env \<Rightarrow> (pystr \<times> pystr) option \<Rightarrow> controller res" where
  "controller_connect env account =
     (case account of
        None \<Rightarrow> Inl (BrokerTaskUnavailable ''Windows Task Scheduler is unavailable'')
      | Some (name, sid) \<Rightarrow> Inr \<lparr>tc_env = env, tc_account_name = name, tc_account_sid = Some sid, tc_task_name = broker_task_name env sid\<rparr>)"

definition get_task :: "controller \<Rightarrow> service \<Rightarrow> scheduler \<Rightarrow> task option res" where
  "get_task c sv s =
     (let unavailable = BrokerTaskUnavailable ''could not inspect the per-user broker task'' in
      case sv_get_failure sv of
        Some e \<Rightarrow> if hresult e = ERROR_FILE_NOT_FOUND_HRESULT then Inr None else Inl unavailable
      | None \<Rightarrow>
          (case map_of (sc_tasks s) (tc_task_name c) of
             Some t \<Rightarrow> Inr (Some t)
           | None \<Rightarrow> if hresult (sv_missing sv) = ERROR_FILE_NOT_FOUND_HRESULT then Inr None else Inl unavailable))"

definition inspect :: "controller \<Rightarrow> service \<Rightarrow> scheduler \<Rightarrow> broker_task_status res" where
  "inspect c sv s =
     bindE (get_task c sv s) (\<lambda>found.
     Inr (case found of
        None \<Rightarrow> \<lparr>ts_name = tc_task_name c, ts_exists = False, ts_managed = False, ts_running = False,
                 ts_executable = None, ts_arguments = None\<rparr>
      | Some t \<Rightarrow>
          (case tk_definition t of
             None \<Rightarrow> \<lparr>ts_name = tc_task_name c, ts_exists = True, ts_managed = False, ts_running = False,
                      ts_executable = None, ts_arguments = None\<rparr>
           | Some d \<Rightarrow>
               let action = the_only (td_actions d); trigger = the_only (td_triggers d)
               in \<lparr>ts_name = tc_task_name c, ts_exists = True, ts_managed = (tk_state t \<noteq> None \<and> managed_definition c d action trigger),
                   ts_running = (tk_state t = Some TASK_STATE_RUNNING), ts_executable = map_option ta_path action,
                   ts_arguments = map_option ta_arguments action\<rparr>)))"

definition new_definition :: "controller \<Rightarrow> broker_task_spec \<Rightarrow> task_definition" where
  "new_definition c spec =
     \<lparr>td_description = task_description (tc_env c) spec, td_user_id = tc_account_name c,
      td_logon_type = TASK_LOGON_INTERACTIVE_TOKEN, td_run_level = TASK_RUNLEVEL_LUA,
      td_settings = \<lparr>st_enabled = True, st_allow_demand_start = True, st_start_when_available = True, st_hidden = False,
        st_disallow_start_if_on_batteries = False, st_stop_if_going_on_batteries = False,
        st_execution_time_limit = ''PT0S'', st_multiple_instances = TASK_INSTANCES_IGNORE_NEW\<rparr>,
      td_triggers = [\<lparr>tt_type = TASK_TRIGGER_LOGON, tt_enabled = True, tt_user_id = tc_account_name c\<rparr>],
      td_actions = [\<lparr>ta_type = TASK_ACTION_EXEC, ta_path = bt_executable spec, ta_arguments = argument_line spec,
        ta_working_directory = working_text spec\<rparr>],
      td_readable = True\<rparr>"

definition register :: "controller \<Rightarrow> service \<Rightarrow> broker_task_spec \<Rightarrow> scheduler \<Rightarrow> scheduler \<times> broker_task_status res" where
  "register c sv spec =
     bindS (liftS (validate_task_spec (tc_env c) spec)) (\<lambda>_ s.
     bindS (liftS (inspect c sv s)) (\<lambda>existing s.
       if ts_exists existing \<and> \<not> ts_managed existing
       then (s, Inl (BrokerTaskError (''refusing to replace unmanaged scheduled task: '' @ tc_task_name c)))
       else (case sv_register_failure sv of
          Some _ \<Rightarrow> (s, Inl (BrokerTaskError ''could not register the per-user broker task''))
        | None \<Rightarrow>
            let s' = s\<lparr>sc_tasks := dput (tc_task_name c) \<lparr>tk_definition = Some (sv_kept sv (new_definition c spec)),
                   tk_state = Some 3\<rparr> (sc_tasks s)\<rparr>
            in (s', inspect c sv s'))) s)"

datatype expected_runtime = ExpectSpec broker_task_spec | ExpectVersion pystr

definition occupied :: "controller \<Rightarrow> exn" where
  "occupied c = BrokerTaskError (''scheduled task name is occupied by an unmanaged task: '' @ tc_task_name c)"

definition inspect_compatible :: "controller \<Rightarrow> service \<Rightarrow> expected_runtime \<Rightarrow> scheduler \<Rightarrow> broker_task_status res" where
  "inspect_compatible c sv expected s =
     bindE (inspect c sv s) (\<lambda>status.
     if \<not> ts_exists status then Inr status
     else if \<not> ts_managed status then Inl (occupied c)
     else
       let expected_executable = (case expected of ExpectSpec spec \<Rightarrow> Some (bt_executable spec) | ExpectVersion _ \<Rightarrow> ts_executable status);
           expected_arguments = (case expected of ExpectSpec spec \<Rightarrow> argument_line spec
             | ExpectVersion version \<Rightarrow> list2cmdline (production_arguments version));
           executable_matches = (case expected_executable of None \<Rightarrow> True
             | Some e \<Rightarrow> (case ts_executable status of None \<Rightarrow> False | Some a \<Rightarrow> te_same_path (tc_env c) a e))
       in if \<not> executable_matches \<or> ts_arguments status \<noteq> Some expected_arguments
          then Inl (BrokerTaskError (''managed broker task is pinned to a different ServerOps runtime; '' @
            ''refresh it explicitly with '' @ [SQ] @ ''serverops-install setup --broker-task --apply --yes'' @ [SQ]))
          else Inr status)"

definition start_if_installed ::
  "controller \<Rightarrow> service \<Rightarrow> expected_runtime option \<Rightarrow> pystr option \<Rightarrow> scheduler \<Rightarrow> scheduler \<times> bool res" where
  "start_if_installed c sv expected expected_version s =
     (if expected \<noteq> None \<and> expected_version \<noteq> None
      then (s, Inl (ValueError ''expected and expected_version are mutually exclusive''))
      else
        let compatibility = (case expected of Some e \<Rightarrow> Some e | None \<Rightarrow> map_option ExpectVersion expected_version)
        in bindS (liftS (case compatibility of None \<Rightarrow> inspect c sv s | Some e \<Rightarrow> inspect_compatible c sv e s)) (\<lambda>status s.
          if \<not> ts_exists status then (s, Inr False)
          else if \<not> ts_managed status then (s, Inl (occupied c))
          else (case sv_run_failure sv of
             Some _ \<Rightarrow> (s, Inl (BrokerTaskError ''could not start the managed broker task''))
           | None \<Rightarrow> (s\<lparr>sc_runs := sc_runs s @ [tc_task_name c]\<rparr>, Inr True))) s)"

definition remove_task :: "controller \<Rightarrow> service \<Rightarrow> scheduler \<Rightarrow> scheduler \<times> bool res" where
  "remove_task c sv s =
     bindS (liftS (inspect c sv s)) (\<lambda>status s.
       if \<not> ts_exists status then (s, Inr False)
       else if \<not> ts_managed status
       then (s, Inl (BrokerTaskError (''refusing to remove unmanaged scheduled task: '' @ tc_task_name c)))
       else (case sv_delete_failure sv of
          Some _ \<Rightarrow> (s, Inl (BrokerTaskError ''could not remove the managed broker task''))
        | None \<Rightarrow> (s\<lparr>sc_tasks := ddel (tc_task_name c) (sc_tasks s)\<rparr>, Inr True))) s"

section \<open>Foreign tasks are left alone\<close>

text \<open>A task under the name of the broker's task that the program does not recognise as its own.\<close>

definition foreign_task :: "controller \<Rightarrow> service \<Rightarrow> scheduler \<Rightarrow> bool" where
  "foreign_task c sv s =
     (case inspect c sv s of Inl _ \<Rightarrow> False | Inr status \<Rightarrow> ts_exists status \<and> \<not> ts_managed status)"

definition is_task_error :: "exn \<Rightarrow> bool" where
  "is_task_error e = (case e of BrokerTaskError _ \<Rightarrow> True | BrokerTaskUnavailable _ \<Rightarrow> True | _ \<Rightarrow> False)"

lemma foreign_status:
  assumes "foreign_task c sv s"
  obtains status where "inspect c sv s = Inr status" "ts_exists status" "\<not> ts_managed status"
  using assms by (auto simp: foreign_task_def split: sum.splits)


section \<open>The own task is recognised\<close>

lemma description_matches:
  assumes "\<And>b. list_all is_hex (te_sha256 env b) \<and> 16 \<le> length (te_sha256 env b)"
    and "py_strip (bt_source spec) \<noteq> []" and "CR \<notin> set (bt_source spec)" and "LF \<notin> set (bt_source spec)"
  shows "managed_description_matches env (task_description env spec) (bt_executable spec) (argument_line spec) (working_text spec)"
proof -
  let ?d = "broker_action_digest env (bt_executable spec) (argument_line spec) (working_text spec)"
  let ?b = "bt_source spec @ DESCRIPTION_ACTION @ ?d"
  have d: "length ?d = 16" "list_all is_hex ?d"
    using assms(1) by (auto simp: broker_action_digest_def list_all_iff dest: in_set_takeD)
  have src: "bt_source spec \<noteq> []" using assms(2) by (auto simp: py_strip_def)
  have "drop (length DESCRIPTION_PREFIX) (task_description env spec) = ?b"
    by (simp add: task_description_def)
  moreover have "length ?b - (length DESCRIPTION_ACTION + 16) = length (bt_source spec)" using d(1) by simp
  ultimately have "match_description (task_description env spec) = Some (bt_source spec, ?d)"
    using d src assms(3,4) by (simp add: match_description_def Let_def) (simp add: task_description_def)
  then show ?thesis using assms(2) by (simp add: managed_description_matches_def)
qed

text \<open>What the program relies on when it registers: the scheduler keeps the fields that it was given, may
  write the account in another form of the same account, and finds the task afterwards.\<close>

definition keeps_definition :: "controller \<Rightarrow> service \<Rightarrow> task_definition \<Rightarrow> bool" where
  "keeps_definition c sv d =
     (\<exists>u v. sv_kept sv d = d\<lparr>td_user_id := u, td_triggers := map (\<lambda>t. t\<lparr>tt_user_id := v\<rparr>) (td_triggers d)\<rparr> \<and>
        account_matches (tc_env c) u (tc_account_name c) (tc_account_sid c) \<and>
        account_matches (tc_env c) v (tc_account_name c) (tc_account_sid c))"

lemma new_definition_managed:
  assumes "\<And>b. list_all is_hex (te_sha256 (tc_env c) b) \<and> 16 \<le> length (te_sha256 (tc_env c) b)"
    and "py_strip (bt_source spec) \<noteq> []" and "CR \<notin> set (bt_source spec)" and "LF \<notin> set (bt_source spec)"
    and "keeps_definition c sv (new_definition c spec)"
  shows "\<exists>a t. td_actions (sv_kept sv (new_definition c spec)) = [a] \<and> td_triggers (sv_kept sv (new_definition c spec)) = [t] \<and>
    ta_path a = bt_executable spec \<and> ta_arguments a = argument_line spec \<and>
    managed_definition c (sv_kept sv (new_definition c spec)) (Some a) (Some t)"
proof -
  obtain u v where k: "sv_kept sv (new_definition c spec) = (new_definition c spec)\<lparr>td_user_id := u,
        td_triggers := map (\<lambda>t. t\<lparr>tt_user_id := v\<rparr>) (td_triggers (new_definition c spec))\<rparr>"
    and m: "account_matches (tc_env c) u (tc_account_name c) (tc_account_sid c)"
      "account_matches (tc_env c) v (tc_account_name c) (tc_account_sid c)"
    using assms(5) by (auto simp: keeps_definition_def)
  show ?thesis
    using m description_matches [OF assms(1-4)] unfolding k by (simp add: new_definition_def managed_definition_def)
qed

text \<open>
  What the program registers it recognises as its own. After a successful registration the status says
  that the task exists and is managed, with the executable and the argument line of the specification;
  the check for a compatible runtime accepts it for this specification; and it can be removed again, after
  which no task is found under the name.
\<close>

theorem registered_task_managed:
  assumes "\<And>b. list_all is_hex (te_sha256 (tc_env c) b) \<and> 16 \<le> length (te_sha256 (tc_env c) b)"
    and "CR \<notin> set (bt_source spec)" and "LF \<notin> set (bt_source spec)"
    and "keeps_definition c sv (new_definition c spec)" and "te_same_path (tc_env c) (bt_executable spec) (bt_executable spec)"
    and "sv_get_failure sv = None" and "sv_delete_failure sv = None"
    and "hresult (sv_missing sv) = ERROR_FILE_NOT_FOUND_HRESULT"
    and "register c sv spec s = (s', Inr status)"
  shows "ts_exists status \<and> ts_managed status \<and> ts_executable status = Some (bt_executable spec) \<and>
    ts_arguments status = Some (argument_line spec) \<and>
    inspect_compatible c sv (ExpectSpec spec) s' = Inr status \<and>
    (\<exists>s''. remove_task c sv s' = (s'', Inr True) \<and> (\<exists>gone. inspect c sv s'' = Inr gone \<and> \<not> ts_exists gone) \<and>
       (\<forall>name. name \<noteq> tc_task_name c \<longrightarrow> map_of (sc_tasks s'') name = map_of (sc_tasks s) name))"
proof -
  have src: "py_strip (bt_source spec) \<noteq> []"
    using assms(9) by (auto simp: register_def bindS_eq_Inr validate_task_spec_def bindE_eq_Inr)
  let ?t = "\<lparr>tk_definition = Some (sv_kept sv (new_definition c spec)), tk_state = Some 3\<rparr>"
  have reg: "s' = s\<lparr>sc_tasks := dput (tc_task_name c) ?t (sc_tasks s)\<rparr>" "inspect c sv s' = Inr status"
    using assms(9) by (auto simp: register_def bindS_eq_Inr Let_def split: if_splits option.splits)
  obtain a t where at: "td_actions (sv_kept sv (new_definition c spec)) = [a]" "td_triggers (sv_kept sv (new_definition c spec)) = [t]"
      "ta_path a = bt_executable spec" "ta_arguments a = argument_line spec"
      "managed_definition c (sv_kept sv (new_definition c spec)) (Some a) (Some t)"
    using new_definition_managed [OF assms(1) src assms(2-4)] by blast
  have "get_task c sv s' = Inr (Some ?t)" using assms(6) reg(1) by (simp add: get_task_def)
  then have st: "ts_exists status" "ts_managed status" "ts_executable status = Some (bt_executable spec)"
      "ts_arguments status = Some (argument_line spec)"
    using reg(2) at by (auto simp: inspect_def the_only_def Let_def)
  then have "inspect_compatible c sv (ExpectSpec spec) s' = Inr status"
    using reg(2) assms(5) by (simp add: inspect_compatible_def Let_def)
  moreover have "remove_task c sv s' = (s'\<lparr>sc_tasks := ddel (tc_task_name c) (sc_tasks s')\<rparr>, Inr True)"
    using reg(2) st assms(7) by (simp add: remove_task_def)
  moreover have "\<exists>gone. inspect c sv (s'\<lparr>sc_tasks := ddel (tc_task_name c) (sc_tasks s')\<rparr>) = Inr gone \<and> \<not> ts_exists gone"
    using assms(6,8) by (simp add: inspect_def get_task_def)
  ultimately show ?thesis using st reg(1) by auto
qed

section \<open>An example\<close>

definition demo_task_env :: task_env where
  "demo_task_env = \<lparr>te_sha256 = (\<lambda>_. replicate 64 CHR ''0''), te_is_absolute = (\<lambda>_. True), te_is_file = (\<lambda>_. True),
     te_same_path = (=), te_casefold = id, te_lookup_sid = (\<lambda>_. None), te_resolve = id,
     te_which_uvx = Some ''C:/uvx.exe''\<rparr>"

definition demo_controller :: controller where
  "demo_controller = \<lparr>tc_env = demo_task_env, tc_account_name = ''PC/user'', tc_account_sid = None, tc_task_name = ''Broker''\<rparr>"

definition demo_service :: service where
  "demo_service = \<lparr>sv_get_failure = None, sv_missing = \<lparr>ce_hresult = 0x80070002, ce_scode = None\<rparr>, sv_register_failure = None,
     sv_run_failure = None, sv_delete_failure = None, sv_kept = id\<rparr>"

definition demo_task_spec :: broker_task_spec where
  "demo_task_spec = \<lparr>bt_executable = ''C:/uvx.exe'', bt_arguments = production_arguments ''1.0'',
     bt_source = ''codex-serverops-mcp==1.0'', bt_working_directory = None\<rparr>"

definition foreign_folder :: scheduler where
  "foreign_folder = \<lparr>sc_tasks = [(''Broker'', \<lparr>tk_definition = None, tk_state = Some 3\<rparr>)], sc_runs = []\<rparr>"


lemma demo_hash: "list_all is_hex (te_sha256 (tc_env demo_controller) b) \<and> 16 \<le> length (te_sha256 (tc_env demo_controller) b)"
  by (simp add: demo_controller_def demo_task_env_def list_all_iff is_hex_def is_digit_def)

lemma demo_kept: "keeps_definition demo_controller demo_service (new_definition demo_controller demo_task_spec)"
  unfolding keeps_definition_def
  by (intro exI [of _ "tc_account_name demo_controller"]) (simp add: demo_service_def new_definition_def account_matches_def)

lemma demo_source: "py_strip (bt_source demo_task_spec) \<noteq> []"
  unfolding demo_task_spec_def by code_simp

lemma demo_valid_spec: "validate_task_spec (tc_env demo_controller) demo_task_spec = Inr ()"
  using demo_source
  by (simp add: validate_task_spec_def demo_controller_def demo_task_env_def) (simp add: demo_task_spec_def production_arguments_def)

lemma demo_registered:
  "\<exists>s' status. register demo_controller demo_service demo_task_spec \<lparr>sc_tasks = [], sc_runs = []\<rparr> = (s', Inr status)"
  using demo_valid_spec
  by (simp add: register_def inspect_def get_task_def demo_service_def hresult_def ERROR_FILE_NOT_FOUND_HRESULT_def Let_def)

theorem registered_task_managed_witness:
  "\<exists>s' status. register demo_controller demo_service demo_task_spec \<lparr>sc_tasks = [], sc_runs = []\<rparr> = (s', Inr status) \<and>
     ts_managed status \<and> ts_arguments status = Some ''--from codex-serverops-mcp==1.0 serverops-broker''"
proof -
  have lines: "CR \<notin> set (bt_source demo_task_spec)" "LF \<notin> set (bt_source demo_task_spec)"
      "te_same_path (tc_env demo_controller) (bt_executable demo_task_spec) (bt_executable demo_task_spec)"
    by (simp_all add: demo_task_spec_def demo_controller_def demo_task_env_def)
  have service: "sv_get_failure demo_service = None" "sv_delete_failure demo_service = None"
      "hresult (sv_missing demo_service) = ERROR_FILE_NOT_FOUND_HRESULT"
    by (simp_all add: demo_service_def hresult_def ERROR_FILE_NOT_FOUND_HRESULT_def)
  have args: "argument_line demo_task_spec = ''--from codex-serverops-mcp==1.0 serverops-broker''" by code_simp
  obtain s' status where r: "register demo_controller demo_service demo_task_spec \<lparr>sc_tasks = [], sc_runs = []\<rparr> = (s', Inr status)"
    using demo_registered by blast
  show ?thesis using registered_task_managed [OF demo_hash lines(1,2) demo_kept lines(3) service r] r args by auto
qed

end
