(* ===== verification/Broker_Manager.thy ===== *)
theory Broker_Manager
  imports Broker_Task Broker_Channel
begin

text \<open>
  \<^verbatim>\<open>broker/manager.py\<close> and the construction of a client of \<^verbatim>\<open>broker/client.py\<close>: finding a broker that runs,
  starting one when there is none, and waiting until it is reachable. What a client finds when it tries (the
  status file, the pipe with its handshake), the task service, the process that is launched and the
  clock are arguments; every turn of the wait has its own clock and its own attempt.
\<close>

section \<open>Constructing a client\<close>

record attempt =
  at_status :: "payload res"
  at_connection :: "unit res"

definition open_client :: "attempt \<Rightarrow> payload res" where
  "open_client a =
     (case at_status a of
        Inl e \<Rightarrow>
          if is_value_error e \<or> (case e of OSError _ \<Rightarrow> True | _ \<Rightarrow> False)
          then Inl (BrokerUnavailable ''broker status is unavailable'') else Inl e
      | Inr status \<Rightarrow>
          bindE (validate_broker_status status) (\<lambda>_.
          case at_connection a of
            Inl e \<Rightarrow> if is_ipc_error e then Inl (BrokerUnavailable ''broker connection failed'') else Inl e
          | Inr _ \<Rightarrow> Inr status))"

definition is_unavailable :: "exn \<Rightarrow> bool" where
  "is_unavailable e = (case e of BrokerUnavailable _ \<Rightarrow> True | _ \<Rightarrow> False)"

section \<open>Starting a broker\<close>

text \<open>The manager's fields, the folder of tasks, and what was launched and terminated.\<close>

record manager =
  bm_runtime_path :: "pystr option"
  bm_startup_timeout :: rat
  bm_launched_process :: "nat option"
  bm_scheduler :: scheduler
  bm_spawned :: "pystr list list"
  bm_terminated :: "nat list"

record manager_env =
  me_task_env :: task_env
  me_account :: "(pystr \<times> pystr) option"
  me_service :: service
  me_version :: pystr
  me_python :: pystr
  me_alive :: "nat \<Rightarrow> bool"
  me_popen :: "nat res"

definition expected_task :: "manager_env \<Rightarrow> (controller \<times> expected_runtime) res" where
  "expected_task w =
     bindE (controller_connect (me_task_env w) (me_account w)) (\<lambda>c.
     bindE (production_broker_task_spec (me_task_env w) (me_version w) None) (\<lambda>spec.
     Inr (c, ExpectSpec spec)))"

definition validate_installed_task :: "manager_env \<Rightarrow> manager \<Rightarrow> unit res" where
  "validate_installed_task w m =
     (if bm_runtime_path m \<noteq> None then Inr ()
      else case bindE (expected_task w) (\<lambda>(c, expected). inspect_compatible c (me_service w) expected (bm_scheduler m)) of
        Inr _ \<Rightarrow> Inr ()
      | Inl (BrokerTaskUnavailable _) \<Rightarrow> Inr ()
      | Inl (BrokerTaskError message) \<Rightarrow> Inl (BrokerUnavailable message)
      | Inl e \<Rightarrow> Inl e)"

definition broker_arguments :: "manager_env \<Rightarrow> manager \<Rightarrow> pystr list" where
  "broker_arguments w m =
     [me_python w, ''-m'', ''codex_serverops_mcp.broker.server''] @
     (case bm_runtime_path m of None \<Rightarrow> [] | Some p \<Rightarrow> [''--runtime'', te_resolve (me_task_env w) p])"

definition launch_process :: "manager_env \<Rightarrow> manager \<Rightarrow> manager \<times> unit res" where
  "launch_process w m =
     (case me_popen w of
        Inl e \<Rightarrow> (m, Inl e)
      | Inr pid \<Rightarrow> (m\<lparr>bm_launched_process := Some pid, bm_spawned := bm_spawned m @ [broker_arguments w m]\<rparr>, Inr ()))"

definition launched_broker_is_running :: "manager_env \<Rightarrow> manager \<Rightarrow> bool" where
  "launched_broker_is_running w m = (case bm_launched_process m of None \<Rightarrow> False | Some pid \<Rightarrow> me_alive w pid)"

definition start_broker :: "manager_env \<Rightarrow> manager \<Rightarrow> manager \<times> unit res" where
  "start_broker w m =
     (if launched_broker_is_running w m then (m, Inr ())
      else if bm_runtime_path m \<noteq> None then launch_process w m
      else case expected_task w of
        Inl (BrokerTaskUnavailable _) \<Rightarrow> launch_process w m
      | Inl (BrokerTaskError _) \<Rightarrow> (m, Inl (BrokerUnavailable ''managed broker task could not start''))
      | Inl e \<Rightarrow> (m, Inl e)
      | Inr (c, expected) \<Rightarrow>
          (case start_if_installed c (me_service w) (Some expected) None (bm_scheduler m) of
             (sch, Inr True) \<Rightarrow> (m\<lparr>bm_scheduler := sch\<rparr>, Inr ())
           | (sch, Inr False) \<Rightarrow> launch_process w (m\<lparr>bm_scheduler := sch\<rparr>)
           | (sch, Inl (BrokerTaskUnavailable _)) \<Rightarrow> launch_process w (m\<lparr>bm_scheduler := sch\<rparr>)
           | (sch, Inl (BrokerTaskError _)) \<Rightarrow>
               (m\<lparr>bm_scheduler := sch\<rparr>, Inl (BrokerUnavailable ''managed broker task could not start''))
           | (sch, Inl e) \<Rightarrow> (m\<lparr>bm_scheduler := sch\<rparr>, Inl e)))"

section \<open>Connecting\<close>

record connect_turn =
  ct_clock :: rat
  ct_attempt :: attempt

text \<open>The loop over the turns of the clock; \<open>None\<close> when the given turns do not decide it.\<close>

fun connect_loop :: "rat \<Rightarrow> connect_turn list \<Rightarrow> payload res option" where
  "connect_loop deadline [] = None"
| "connect_loop deadline (t # ts) =
     (if ct_clock t < deadline
      then (case open_client (ct_attempt t) of
              Inr client \<Rightarrow> Some (Inr client)
            | Inl e \<Rightarrow> if is_unavailable e then connect_loop deadline ts else Some (Inl e))
      else Some (Inl (BrokerUnavailable ''broker did not become reachable'')))"

definition connect :: "manager_env \<Rightarrow> attempt \<Rightarrow> rat \<Rightarrow> connect_turn list \<Rightarrow> manager \<Rightarrow> (manager \<times> payload res) option" where
  "connect w first now turns m =
     (case validate_installed_task w m of
        Inl e \<Rightarrow> Some (m, Inl e)
      | Inr _ \<Rightarrow>
          (case open_client first of
             Inr client \<Rightarrow> Some (m, Inr client)
           | Inl e \<Rightarrow>
               if \<not> is_unavailable e then Some (m, Inl e)
               else (case start_broker w m of
                  (m', Inl e) \<Rightarrow> Some (m', Inl e)
                | (m', Inr _) \<Rightarrow> map_option (Pair m') (connect_loop (now + bm_startup_timeout m) turns))))"

section \<open>The launched process\<close>

text \<open>Waiting for a process ends with its exit or raises \<^verbatim>\<open>TimeoutExpired\<close>, here \<open>False\<close> and \<open>None\<close>.\<close>

definition wait_for_launched_broker :: "bool \<Rightarrow> manager \<Rightarrow> manager \<times> unit option" where
  "wait_for_launched_broker exits m =
     (case bm_launched_process m of
        None \<Rightarrow> (m, Some ())
      | Some _ \<Rightarrow> if exits then (m\<lparr>bm_launched_process := None\<rparr>, Some ()) else (m, None))"

definition shutdown_launched_broker :: "manager_env \<Rightarrow> bool \<Rightarrow> bool \<Rightarrow> manager \<Rightarrow> manager \<times> bool option" where
  "shutdown_launched_broker w exits exits_terminated m =
     (case bm_launched_process m of
        None \<Rightarrow> (m, Some False)
      | Some pid \<Rightarrow>
          if \<not> me_alive w pid \<or> exits then (m\<lparr>bm_launched_process := None\<rparr>, Some True)
          else if exits_terminated
          then (m\<lparr>bm_terminated := bm_terminated m @ [pid], bm_launched_process := None\<rparr>, Some True)
          else (m\<lparr>bm_terminated := bm_terminated m @ [pid]\<rparr>, None))"

lemma shutdown_forgets_process:
  "shutdown_launched_broker w x y m = (m', Some r) \<Longrightarrow> bm_launched_process m' = None \<and> (r \<longleftrightarrow> bm_launched_process m \<noteq> None)"
  by (auto simp: shutdown_launched_broker_def split: option.splits if_splits)

section \<open>A reachable broker is found\<close>

text \<open>A turn in which the client is made, or raises that the broker is not available.\<close>

definition attempt_regular :: "attempt \<Rightarrow> bool" where
  "attempt_regular a = (case open_client a of Inl e \<Rightarrow> is_unavailable e | Inr _ \<Rightarrow> True)"

definition reachable :: "attempt \<Rightarrow> bool" where
  "reachable a = (\<exists>status. open_client a = Inr status)"

lemma open_client_valid: "open_client a = Inr status \<Longrightarrow> at_status a = Inr status \<and> validate_broker_status status = Inr ()"
  by (auto simp: open_client_def bindE_eq_Inr split: sum.splits if_splits)

lemma connect_loop_reaches:
  assumes "sorted (map ct_clock turns)" and "\<And>t. t \<in> set turns \<Longrightarrow> attempt_regular (ct_attempt t)"
    and "t \<in> set turns" and "ct_clock t < deadline" and "reachable (ct_attempt t)"
  shows "\<exists>status t'. connect_loop deadline turns = Some (Inr status) \<and> t' \<in> set turns \<and> ct_clock t' \<le> ct_clock t \<and>
    open_client (ct_attempt t') = Inr status"
  using assms
proof (induction turns)
  case (Cons u us)
  have early: "ct_clock u \<le> ct_clock t" using Cons.prems(1,3) by auto
  show ?case
  proof (cases "open_client (ct_attempt u)")
    case (Inr status)
    then show ?thesis using early Cons.prems(4) by (intro exI [of _ status] exI [of _ u]) simp
  next
    case (Inl e)
    then have "is_unavailable e" "t \<in> set us"
      using Cons.prems(2) [of u] Cons.prems(3,5) by (auto simp: attempt_regular_def reachable_def)
    then show ?thesis using Inl early Cons.prems Cons.IH by auto
  qed
qed simp

lemma connect_loop_ends:
  assumes "t \<in> set turns" and "deadline \<le> ct_clock t"
  shows "\<exists>r. connect_loop deadline turns = Some r"
  using assms by (induction turns) (auto split: sum.splits)


text \<open>
  C26: connecting ends, and starts as little as it can. Once the clock has passed the startup time the call has returned,
  with the client or an error; it launches at most one process, and none when the
  broker answered at once, when the task of the name is not the program's own or is pinned to another
  runtime, or while the process launched before still runs.
\<close>

theorem connect_ends_and_launches_once:
  assumes "t \<in> set turns" and "now + bm_startup_timeout m \<le> ct_clock t"
  shows "\<exists>m' r. connect w first now turns m = Some (m', r) \<and>
    (bm_spawned m' = bm_spawned m \<or> bm_spawned m' = bm_spawned m @ [broker_arguments w m]) \<and>
    (reachable first \<or> (\<exists>e. validate_installed_task w m = Inl e) \<or> launched_broker_is_running w m \<longrightarrow> m' = m)"
proof -
  have launch: "bm_spawned (fst (launch_process w n)) = bm_spawned m \<or>
      bm_spawned (fst (launch_process w n)) = bm_spawned m @ [broker_arguments w m]"
    if "bm_spawned n = bm_spawned m" "bm_runtime_path n = bm_runtime_path m" for n
    using that by (auto simp: launch_process_def broker_arguments_def split: sum.split)
  have start: "bm_spawned (fst (start_broker w m)) = bm_spawned m \<or>
      bm_spawned (fst (start_broker w m)) = bm_spawned m @ [broker_arguments w m]"
    using launch by (auto simp: start_broker_def split: sum.split exn.split prod.split bool.split)
  have run: "launched_broker_is_running w m \<Longrightarrow> fst (start_broker w m) = m" by (simp add: start_broker_def)
  obtain r where r: "connect_loop (now + bm_startup_timeout m) turns = Some r" using connect_loop_ends [OF assms] by blast
  obtain m' x where s: "start_broker w m = (m', x)" by fastforce
  show ?thesis
    using start run r s
    by (cases "validate_installed_task w m"; cases "open_client first"; cases x) (auto simp: connect_def reachable_def)
qed

section \<open>Tasks that stand in the way\<close>

lemma foreign_task_blocks_connect:
  assumes "bm_runtime_path m = None" and "controller_connect (me_task_env w) (me_account w) = Inr c"
    and "production_broker_task_spec (me_task_env w) (me_version w) None = Inr spec"
    and "foreign_task c (me_service w) (bm_scheduler m)"
  shows "connect w first now turns m = Some (m, Inl (BrokerUnavailable (exn_message (occupied c))))"
proof -
  have "inspect_compatible c (me_service w) (ExpectSpec spec) (bm_scheduler m) = Inl (occupied c)"
    using assms(4) by (auto simp: inspect_compatible_def elim: foreign_status)
  then have "validate_installed_task w m = Inl (BrokerUnavailable (exn_message (occupied c)))"
    using assms(1-3) by (simp add: validate_installed_task_def expected_task_def occupied_def)
  then show ?thesis by (simp add: connect_def)
qed

text \<open>The expected specification is computed before anything is known about the task: where the task service can be
  reached and \<^verbatim>\<open>uvx\<close> is not on the path, connecting raises although a broker runs and no task is installed.\<close>

lemma connect_needs_uvx:
  assumes "bm_runtime_path m = None" and "me_account w \<noteq> None" and "te_which_uvx (me_task_env w) = None"
  shows "connect w first now turns m = Some (m, Inl (ValueError ''uvx is required to install the per-user broker task''))"
  using assms
  by (auto simp: connect_def validate_installed_task_def expected_task_def controller_connect_def
      production_broker_task_spec_def someE_def)

section \<open>An example\<close>

definition demo_broker_status :: payload where
  "demo_broker_status = [(''pid'', JInt 7), (''pipe'', JStr ''p''), (''protocol_version'', JInt BROKER_PROTOCOL_VERSION),
     (''instance_token'', JStr (replicate 32 CHR ''a'')), (''started_at'', JInt 0)]"

definition demo_absent :: attempt where
  "demo_absent = \<lparr>at_status = Inl (OSError ''missing''), at_connection = Inr ()\<rparr>"

definition demo_present :: attempt where
  "demo_present = \<lparr>at_status = Inr demo_broker_status, at_connection = Inr ()\<rparr>"

definition demo_manager :: manager where
  "demo_manager = \<lparr>bm_runtime_path = Some ''C:/run'', bm_startup_timeout = 10, bm_launched_process = None,
     bm_scheduler = \<lparr>sc_tasks = [], sc_runs = []\<rparr>, bm_spawned = [], bm_terminated = []\<rparr>"

definition demo_manager_env :: manager_env where
  "demo_manager_env = \<lparr>me_task_env = demo_task_env, me_account = None, me_service = demo_service, me_version = ''1.0'',
     me_python = ''python'', me_alive = (\<lambda>_. True), me_popen = Inr 7\<rparr>"

definition demo_launched :: manager where
  "demo_launched = demo_manager\<lparr>bm_launched_process := Some 7, bm_spawned := [broker_arguments demo_manager_env demo_manager]\<rparr>"

definition demo_turns :: "connect_turn list" where
  "demo_turns = [\<lparr>ct_clock = 1, ct_attempt = demo_absent\<rparr>, \<lparr>ct_clock = 2, ct_attempt = demo_present\<rparr>]"

lemma demo_attempts [simp]: "open_client demo_absent = Inl (BrokerUnavailable ''broker status is unavailable'')"
  "open_client demo_present = Inr demo_broker_status"
proof -
  have "validate_broker_status demo_broker_status = Inr ()" unfolding demo_broker_status_def by code_simp
  then show "open_client demo_present = Inr demo_broker_status" by (simp add: open_client_def demo_present_def)
qed (simp add: open_client_def demo_absent_def is_value_error_def)

lemma demo_start: "validate_installed_task demo_manager_env demo_manager = Inr ()"
    "start_broker demo_manager_env demo_manager = (demo_launched, Inr ())"
  by (simp_all add: validate_installed_task_def start_broker_def launched_broker_is_running_def launch_process_def
      demo_launched_def demo_manager_def demo_manager_env_def)


theorem connect_ends_and_launches_once_witness:
  "\<exists>m r. connect demo_manager_env demo_absent 0 [\<lparr>ct_clock = 11, ct_attempt = demo_absent\<rparr>] demo_manager = Some (m, r) \<and>
     length (bm_spawned m) \<le> 1"
proof -
  have "10 \<le> (11 :: rat)" by simp
  then show ?thesis
    using connect_ends_and_launches_once [of "\<lparr>ct_clock = 11, ct_attempt = demo_absent\<rparr>"
        "[\<lparr>ct_clock = 11, ct_attempt = demo_absent\<rparr>]" 0 demo_manager demo_manager_env demo_absent]
    by (auto simp: demo_manager_def)
qed

end
