(* ===== verification/Installer.thy ===== *)
theory Installer
  imports Codex_Config Broker_Manager
begin

text \<open>
  The commands of \<^verbatim>\<open>installer/cli.py\<close> that change what belongs to the user (the Codex configuration, the scheduled task, the local
  data), with \<^verbatim>\<open>remove_local_data\<close> of \<^verbatim>\<open>installer/setup.py\<close>, the reports of \<^verbatim>\<open>installer/model.py\<close> and the check of the Codex configuration in
  \<^verbatim>\<open>installer/checks.py\<close>. The state is the files beside the Codex configuration, the folder of tasks and whether the local data exists;
  what the user types, paths and file attributes are arguments. The theory composes \<open>Codex_Config\<close> and \<open>Broker_Task\<close>.
\<close>

section \<open>Reports\<close>

datatype check_level = PASS | WARNING | FAIL

record check_result =
  cr_code :: pystr
  cr_level :: check_level
  cr_message :: pystr

definition report_status :: "check_result list \<Rightarrow> pystr" where
  "report_status checks =
     (if list_ex (\<lambda>c. cr_level c = FAIL) checks then ''failed''
      else if list_ex (\<lambda>c. cr_level c = WARNING) checks then ''ready_with_warnings'' else ''ready'')"

definition report_succeeded :: "check_result list \<Rightarrow> bool" where
  "report_succeeded checks = (report_status checks \<noteq> ''failed'')"

definition passed :: "pystr \<Rightarrow> pystr \<Rightarrow> check_result" where
  "passed code message = \<lparr>cr_code = code, cr_level = PASS, cr_message = message\<rparr>"

definition warning :: "pystr \<Rightarrow> pystr \<Rightarrow> check_result" where
  "warning code message = \<lparr>cr_code = code, cr_level = WARNING, cr_message = message\<rparr>"

definition failed :: "pystr \<Rightarrow> pystr \<Rightarrow> check_result" where
  "failed code message = \<lparr>cr_code = code, cr_level = FAIL, cr_message = message\<rparr>"

lemma report_succeeded_iff: "report_succeeded checks \<longleftrightarrow> (\<forall>c\<in>set checks. cr_level c \<noteq> FAIL)"
  by (auto simp: report_succeeded_def report_status_def list_ex_iff)

text \<open>The check of the Codex configuration, of a file that can be read.\<close>

definition check_codex_config :: "installer_env \<Rightarrow> pystr \<Rightarrow> bytes option \<Rightarrow> check_result" where
  "check_codex_config env version file =
     (case file of
        None \<Rightarrow> warning ''codex_config_missing'' ''Codex config.toml does not exist yet''
      | Some content \<Rightarrow>
          (case bindE (read_text content) (\<lambda>t. bindE (parse_codex_config env t) (\<lambda>parsed.
                bindE (inspect_managed_version env file) (\<lambda>pinned. Inr (parsed, pinned)))) of
             Inl e \<Rightarrow> failed ''codex_config_invalid'' (''Codex configuration is invalid: '' @ exn_message e)
           | Inr (parsed, None) \<Rightarrow>
               if has_server parsed
               then warning ''codex_config_unmanaged'' ''An unmarked ServerOps MCP entry exists and will not be overwritten''
               else warning ''codex_config_not_installed'' ''The installer-managed ServerOps MCP block is not configured''
           | Inr (parsed, Some pinned) \<Rightarrow>
               if pinned \<noteq> version
               then warning ''codex_config_version_mismatch'' (''Codex pins '' @ pinned @ '', while this installer is '' @ version)
               else passed ''codex_config'' (''Codex MCP block is exactly pinned to '' @ pinned)))"

section \<open>The local data\<close>

text \<open>What the system says about the directory: its name, whether it or its parent is the root of the drive, whether it exists or is a
  link, its attributes (reparse point, directory) unless they cannot be read, and whether removing the tree fails.\<close>

record data_dir =
  dd_name :: pystr
  dd_is_anchor :: bool
  dd_parent_is_anchor :: bool
  dd_symlink :: bool
  dd_stat :: "(bool \<times> bool) option"
  dd_rmtree_fails :: bool

record install_state =
  is_files :: ufiles
  is_scheduler :: scheduler
  is_data :: bool

definition remove_local_data :: "data_dir \<Rightarrow> install_state \<Rightarrow> install_state \<times> unit res" where
  "remove_local_data d s =
     (if dd_name d \<noteq> ''codex-serverops-mcp'' \<or> dd_is_anchor d \<or> dd_parent_is_anchor d
      then (s, Inl (InstallerError ''refusing to remove an unexpected application data path''))
      else if \<not> is_data s \<and> \<not> dd_symlink d then (s, Inr ())
      else case dd_stat d of
        None \<Rightarrow> (s, Inl (InstallerError ''the local application data path could not be inspected''))
      | Some (reparse, is_dir) \<Rightarrow>
          if dd_symlink d \<or> reparse
          then (s, Inl (InstallerError ''refusing to remove a reparse-point application data path''))
          else if \<not> is_dir then (s, Inl (InstallerError ''the local application data path is not a directory''))
          else if dd_rmtree_fails d then (s, Inl io_error)
          else (s\<lparr>is_data := False\<rparr>, Inr ()))"

section \<open>The commands\<close>

record install_env =
  in_codex :: installer_env
  in_world :: uworld
  in_readable :: bool
  in_version :: pystr
  in_manager :: manager_env
  in_answer :: pystr
  in_casefold :: "pystr \<Rightarrow> pystr"
  in_shutdown :: "unit res"
  in_data :: data_dir
  in_prepare :: "unit res"

definition validate_confirmation_flags :: "bool \<Rightarrow> bool \<Rightarrow> unit res" where
  "validate_confirmation_flags apply_it assume_yes =
     guardE (\<not> (assume_yes \<and> \<not> apply_it)) (InstallerError ''--yes is valid only together with --apply'')"

definition confirm_or_raise :: "install_env \<Rightarrow> bool \<Rightarrow> unit res" where
  "confirm_or_raise env assume_yes =
     guardE (assume_yes \<or> in_casefold env (py_strip (in_answer env)) \<in> {''y'', ''yes''})
       (InstallerError ''the user-wide change was not applied'')"

definition on_files :: "(ufiles \<Rightarrow> ufiles \<times> 'a res) \<Rightarrow> install_state \<Rightarrow> install_state \<times> 'a res" where
  "on_files m s = (case m (is_files s) of (f, r) \<Rightarrow> (s\<lparr>is_files := f\<rparr>, r))"

definition on_scheduler :: "(scheduler \<Rightarrow> scheduler \<times> 'a res) \<Rightarrow> install_state \<Rightarrow> install_state \<times> 'a res" where
  "on_scheduler m s = (case m (is_scheduler s) of (c, r) \<Rightarrow> (s\<lparr>is_scheduler := c\<rparr>, r))"

definition plan_codex :: "install_env \<Rightarrow> bool \<Rightarrow> pystr option \<Rightarrow> pystr option \<Rightarrow> install_state \<Rightarrow> codex_config_change res" where
  "plan_codex env remove wheel python s =
     plan_codex_config_change (in_codex env) (in_readable env) (is_files s Target) (in_version env) remove wheel python"

definition codex_config_command ::
  "install_env \<Rightarrow> bool \<Rightarrow> bool \<Rightarrow> bool \<Rightarrow> pystr option \<Rightarrow> pystr option \<Rightarrow> install_state \<Rightarrow> install_state \<times> unit res" where
  "codex_config_command env apply_it yes remove wheel python s =
     bindS (liftS (validate_confirmation_flags apply_it yes)) (\<lambda>_.
     bindS (liftS (plan_codex env remove wheel python s)) (\<lambda>change.
     if \<not> apply_it then liftS (Inr ())
     else bindS (liftS (confirm_or_raise env yes)) (\<lambda>_.
       on_files (apply_codex_config_change (in_codex env) (in_world env) change)))) s"

definition connect_controller :: "install_env \<Rightarrow> controller res" where
  "connect_controller env = controller_connect (me_task_env (in_manager env)) (me_account (in_manager env))"

text \<open>\<^verbatim>\<open>_shutdown_broker\<close>: only an unavailable broker is ignored.\<close>

definition shutdown_broker :: "install_env \<Rightarrow> unit res" where
  "shutdown_broker env = (case in_shutdown env of Inl e \<Rightarrow> if is_unavailable e then Inr () else Inl e | Inr _ \<Rightarrow> Inr ())"

definition uninstall_command :: "install_env \<Rightarrow> bool \<Rightarrow> bool \<Rightarrow> bool \<Rightarrow> install_state \<Rightarrow> install_state \<times> unit res" where
  "uninstall_command env apply_it yes remove_data s =
     bindS (liftS (validate_confirmation_flags apply_it yes)) (\<lambda>_.
     bindS (liftS (plan_codex env True None None s)) (\<lambda>change.
     bindS (liftS (connect_controller env)) (\<lambda>c.
     bindS (liftS (inspect c (me_service (in_manager env)) (is_scheduler s))) (\<lambda>status.
     if ts_exists status \<and> \<not> ts_managed status
     then liftS (Inl (InstallerError (''scheduled task is not managed by ServerOps: '' @ ts_name status)))
     else if \<not> apply_it then liftS (Inr ())
     else bindS (liftS (confirm_or_raise env yes)) (\<lambda>_.
       bindS (liftS (shutdown_broker env)) (\<lambda>_.
       bindS (on_scheduler (remove_task c (me_service (in_manager env)))) (\<lambda>_.
       bindS (on_files (apply_codex_config_change (in_codex env) (in_world env) change)) (\<lambda>_.
       if remove_data then remove_local_data (in_data env) else liftS (Inr ()))))))))) s"

definition configure_broker_task :: "install_env \<Rightarrow> bool \<Rightarrow> bool \<Rightarrow> install_state \<Rightarrow> install_state \<times> unit res" where
  "configure_broker_task env apply_it yes s =
     bindS (liftS (production_broker_task_spec (me_task_env (in_manager env)) (in_version env) None)) (\<lambda>spec.
     bindS (liftS (connect_controller env)) (\<lambda>c.
     bindS (liftS (inspect c (me_service (in_manager env)) (is_scheduler s))) (\<lambda>current.
     if ts_exists current \<and> \<not> ts_managed current
     then liftS (Inl (InstallerError (''scheduled task name is occupied by an unmanaged task: '' @ ts_name current)))
     else if \<not> apply_it then liftS (Inr ())
     else bindS (liftS (confirm_or_raise env yes)) (\<lambda>_.
       bindS (on_scheduler (Broker_Task.register c (me_service (in_manager env)) spec)) (\<lambda>installed.
       liftS (guardE (ts_exists installed \<and> ts_managed installed)
         (InstallerError ''broker task registration could not be verified''))))))) s"

text \<open>The command \<^verbatim>\<open>setup --broker-task\<close>. Preparing the local state is an argument.\<close>

definition setup_task_command :: "install_env \<Rightarrow> bool \<Rightarrow> bool \<Rightarrow> install_state \<Rightarrow> install_state \<times> unit res" where
  "setup_task_command env apply_it yes =
     bindS (liftS (validate_confirmation_flags apply_it yes)) (\<lambda>_.
     bindS (liftS (in_prepare env)) (\<lambda>_. configure_broker_task env apply_it yes))"

datatype command = CodexConfig bool "pystr option" "pystr option" | Uninstall bool | SetupTask

definition run_command :: "install_env \<Rightarrow> command \<Rightarrow> bool \<Rightarrow> bool \<Rightarrow> install_state \<Rightarrow> install_state \<times> unit res" where
  "run_command env cmd apply_it yes =
     (case cmd of
        CodexConfig remove wheel python \<Rightarrow> codex_config_command env apply_it yes remove wheel python
      | Uninstall remove_data \<Rightarrow> uninstall_command env apply_it yes remove_data
      | SetupTask \<Rightarrow> setup_task_command env apply_it yes)"

text \<open>\<^verbatim>\<open>run\<close>: the exit code; an exception of another class escapes.\<close>

definition exit_code :: "unit res \<Rightarrow> int res" where
  "exit_code r =
     (case r of
        Inr _ \<Rightarrow> Inr 0
      | Inl e \<Rightarrow>
          if is_value_error e \<or> is_task_error e \<or> (case e of InstallerError _ \<Rightarrow> True | OSError _ \<Rightarrow> True | _ \<Rightarrow> False)
          then Inr 1 else Inl e)"

section \<open>Nothing changes without consent\<close>

lemma liftS_stays: "(\<And>a. fst (f a s) = s) \<Longrightarrow> fst (bindS (liftS r) f s) = s"
  by (cases r) simp_all

lemma liftS_raises: "(\<And>a. r = Inr a \<Longrightarrow> \<exists>e. f a s = (s, Inl e)) \<Longrightarrow> \<exists>e. bindS (liftS r) f s = (s, Inl e)"
  by (cases r) simp_all

text \<open>What the user agreed to.\<close>

definition consented :: "install_env \<Rightarrow> bool \<Rightarrow> bool \<Rightarrow> bool" where
  "consented env apply_it yes = (apply_it \<and> isOk (confirm_or_raise env yes))"

lemma not_confirmed: "\<not> isOk (confirm_or_raise env yes) \<Longrightarrow> fst (bindS (liftS (confirm_or_raise env yes)) f s) = s"
  by (cases "confirm_or_raise env yes") simp_all


section \<open>Uninstalling\<close>

lemma remove_local_data_ok:
  "remove_local_data d s = (s', Inr ()) \<Longrightarrow> is_files s' = is_files s \<and> is_scheduler s' = is_scheduler s \<and> \<not> is_data s'"
  by (auto simp: remove_local_data_def split: if_splits option.splits)

lemma remove_task_gone:
  assumes "sv_get_failure sv = None" and "hresult (sv_missing sv) = ERROR_FILE_NOT_FOUND_HRESULT"
    and "remove_task c sv t = (t', Inr r)"
  shows "(\<exists>gone. inspect c sv t' = Inr gone \<and> \<not> ts_exists gone) \<and>
    (\<forall>name. name \<noteq> tc_task_name c \<longrightarrow> map_of (sc_tasks t') name = map_of (sc_tasks t) name)"
proof -
  obtain status where st: "inspect c sv t = Inr status" using assms(3) by (auto simp: remove_task_def bindS_eq_Inr)
  show ?thesis
  proof (cases "ts_exists status")
    case False
    then show ?thesis using assms(3) st by (auto simp: remove_task_def)
  next
    case True
    then have "t' = t\<lparr>sc_tasks := ddel (tc_task_name c) (sc_tasks t)\<rparr>"
      using assms(3) st by (auto simp: remove_task_def split: if_splits option.splits)
    then show ?thesis using assms(1,2) by (simp add: inspect_def get_task_def)
  qed
qed

text \<open>
  A completed uninstallation has removed exactly what the program owns. When the command succeeds and no other process
  interferes, the Codex configuration holds the text that the preview of the removal showed, the broker's task is no longer
  found while every other task is as before, and the local data is gone if that was asked for and untouched otherwise.
\<close>

theorem uninstall_complete:
  assumes "undisturbed (in_world env)" and "connect_controller env = Inr c"
    and "sv_get_failure (me_service (in_manager env)) = None"
    and "hresult (sv_missing (me_service (in_manager env))) = ERROR_FILE_NOT_FOUND_HRESULT"
    and "run_command env (Uninstall remove_data) True yes s = (s', Inr ())"
  shows "\<exists>change. plan_codex env True None None s = Inr change \<and>
    is_files s' Target = (if cc_updated change = cc_previous change then is_files s Target else Some (cc_updated change)) \<and>
    (\<exists>gone. inspect c (me_service (in_manager env)) (is_scheduler s') = Inr gone \<and> \<not> ts_exists gone) \<and>
    (\<forall>name. name \<noteq> tc_task_name c \<longrightarrow> map_of (sc_tasks (is_scheduler s')) name = map_of (sc_tasks (is_scheduler s)) name) \<and>
    is_data s' = (is_data s \<and> \<not> remove_data)"
proof -
  let ?sv = "me_service (in_manager env)"
  obtain change s1 s2 r where plan: "plan_codex env True None None s = Inr change"
    and task: "on_scheduler (remove_task c ?sv) s = (s1, Inr r)"
    and codex: "on_files (apply_codex_config_change (in_codex env) (in_world env) change) s1 = (s2, Inr ())"
    and data: "(if remove_data then remove_local_data (in_data env) else liftS (Inr ())) s2 = (s', Inr ())"
    using assms(2,5) by (auto simp: run_command_def uninstall_command_def bindS_eq_Inr split: if_splits)
  obtain t where t: "remove_task c ?sv (is_scheduler s) = (t, Inr r)" "s1 = s\<lparr>is_scheduler := t\<rparr>"
    using task by (auto simp: on_scheduler_def split: prod.splits)
  obtain f where f: "apply_codex_config_change (in_codex env) (in_world env) change (is_files s) = (f, Inr ())" "s2 = s1\<lparr>is_files := f\<rparr>"
    using codex t(2) by (auto simp: on_files_def split: prod.splits)
  have s': "is_files s' = f" "is_scheduler s' = t" "is_data s' = (is_data s \<and> \<not> remove_data)"
    using data remove_local_data_ok [of "in_data env" s2 s'] f(2) t(2) by (auto split: if_splits)
  have "f Target = (if cc_updated change = cc_previous change then is_files s Target else Some (cc_updated change))"
    using undisturbed_written [OF assms(1) f(1)] by simp
  then show ?thesis using plan s' remove_task_gone [OF assms(3,4) t(1)] by auto
qed

section \<open>An example\<close>

definition demo_data_dir :: data_dir where
  "demo_data_dir = \<lparr>dd_name = ''codex-serverops-mcp'', dd_is_anchor = False, dd_parent_is_anchor = False, dd_symlink = False,
     dd_stat = Some (False, True), dd_rmtree_fails = False\<rparr>"

definition demo_install_env :: install_env where
  "demo_install_env = \<lparr>in_codex = demo_installer_env, in_world = quiet_world, in_readable = True, in_version = ''1.2'',
     in_manager = demo_manager_env\<lparr>me_account := Some (''PC/user'', ''S-1'')\<rparr>, in_answer = ''n'', in_casefold = id,
     in_shutdown = Inl (BrokerUnavailable ''none''), in_data = demo_data_dir, in_prepare = Inr ()\<rparr>"

definition demo_installed :: install_state where
  "demo_installed = \<lparr>is_files = (\<lambda>_. None), is_scheduler = \<lparr>sc_tasks = [], sc_runs = []\<rparr>, is_data = True\<rparr>"

definition demo_connected :: controller where
  "demo_connected = \<lparr>tc_env = demo_task_env, tc_account_name = ''PC/user'', tc_account_sid = Some ''S-1'',
     tc_task_name = broker_task_name demo_task_env ''S-1''\<rparr>"

lemma demo_connect: "connect_controller demo_install_env = Inr demo_connected"
  by (simp add: connect_controller_def controller_connect_def demo_install_env_def demo_manager_env_def demo_connected_def)


lemma demo_removal: "plan_codex demo_install_env True None None demo_installed =
    Inr \<lparr>cc_previous_exists = False, cc_previous = [], cc_updated = [],
      cc_preview = ''No installer-managed Codex configuration block exists; no change is needed.''\<rparr>"
proof -
  have "codex_span [] = Inr None" by (simp add: codex_span_def managed_span_def)
  then show ?thesis
    by (simp add: plan_codex_def plan_codex_config_change_def plan_text_def demo_install_env_def demo_installed_def has_server_def)
qed

lemma demo_uninstalled: "run_command demo_install_env (Uninstall True) True True demo_installed = (demo_installed\<lparr>is_data := False\<rparr>, Inr ())"
proof -
  have "inspect demo_connected (me_service (in_manager demo_install_env)) (is_scheduler demo_installed) =
      Inr \<lparr>ts_name = tc_task_name demo_connected, ts_exists = False, ts_managed = False, ts_running = False, ts_executable = None, ts_arguments = None\<rparr>"
    by (simp add: inspect_def get_task_def demo_install_env_def demo_manager_env_def demo_service_def demo_installed_def
        hresult_def ERROR_FILE_NOT_FOUND_HRESULT_def)
  then show ?thesis
    using demo_removal demo_connect
    by (simp add: run_command_def uninstall_command_def validate_confirmation_flags_def confirm_or_raise_def shutdown_broker_def
        bindS_def on_scheduler_def remove_task_def on_files_def apply_codex_config_change_def assert_current_def)
      (simp add: demo_install_env_def demo_installed_def is_unavailable_def quiet_world_def remove_local_data_def demo_data_dir_def)
qed

theorem uninstall_complete_witness:
  "\<exists>s' gone. run_command demo_install_env (Uninstall True) True True demo_installed = (s', Inr ()) \<and> \<not> is_data s' \<and>
     inspect demo_connected (me_service (in_manager demo_install_env)) (is_scheduler s') = Inr gone \<and> \<not> ts_exists gone"
proof -
  have sv: "undisturbed (in_world demo_install_env)" "sv_get_failure (me_service (in_manager demo_install_env)) = None"
      "hresult (sv_missing (me_service (in_manager demo_install_env))) = ERROR_FILE_NOT_FOUND_HRESULT"
    by (simp_all add: demo_install_env_def demo_manager_env_def demo_service_def hresult_def ERROR_FILE_NOT_FOUND_HRESULT_def)
  show ?thesis
    using uninstall_complete [OF sv(1) demo_connect sv(2,3) demo_uninstalled] demo_uninstalled by auto
qed

end
