(* ===== verification/Ssh_Alias.thy ===== *)
theory Ssh_Alias
  imports Managed_Block Config_Files Public_Key
begin

text \<open>
  \<^verbatim>\<open>setup/ssh_alias.py\<close>: the host alias that the setup writes into the OpenSSH configuration of the user. Paths, the folding
  of case, the answer of \<^verbatim>\<open>ssh -G\<close> and the rights of the backup are arguments. The file operations of an update are the
  steps of \<open>Config_Files\<close>.
\<close>

section \<open>The alias\<close>

definition ALIAS_BEGIN :: pystr where
  "ALIAS_BEGIN = ''# >>> codex-serverops-mcp managed ssh alias >>>''"

definition ALIAS_END :: pystr where
  "ALIAS_END = ''# <<< codex-serverops-mcp managed ssh alias <<<''"

definition safe_name :: "char set \<Rightarrow> nat \<Rightarrow> pystr \<Rightarrow> bool" where
  "safe_name extra n s =
     (case s of [] \<Rightarrow> False | c # r \<Rightarrow> is_alnum c \<and> length r \<le> n \<and> list_all (\<lambda>x. is_alnum x \<or> x \<in> extra) r)"

definition SAFE_ALIAS :: "pystr \<Rightarrow> bool" where "SAFE_ALIAS = safe_name (set ''._-'') 63"
definition SAFE_HOST :: "pystr \<Rightarrow> bool" where "SAFE_HOST = safe_name (set ''.-'') 252"
definition SAFE_USER :: "pystr \<Rightarrow> bool" where "SAFE_USER = safe_name (set ''._-'') 63"

record ssh_alias_spec =
  sa_alias :: pystr
  sa_hostname :: pystr
  sa_user :: pystr
  sa_port :: int
  sa_identity_file :: pystr

record alias_env =
  ae_resolve :: "pystr \<Rightarrow> pystr"
  ae_is_file :: "pystr \<Rightarrow> bool"
  ae_casefold :: "pystr \<Rightarrow> pystr"

definition validated :: "alias_env \<Rightarrow> ssh_alias_spec \<Rightarrow> ssh_alias_spec res" where
  "validated env spec =
     bindE (guardE (SAFE_ALIAS (sa_alias spec)) (ValueError ''SSH alias contains unsupported characters'')) (\<lambda>_.
     bindE (guardE (SAFE_HOST (sa_hostname spec)) (ValueError ''SSH hostname contains unsupported characters'')) (\<lambda>_.
     bindE (guardE (SAFE_USER (sa_user spec)) (ValueError ''SSH user contains unsupported characters'')) (\<lambda>_.
     bindE (guardE (1 \<le> sa_port spec \<and> sa_port spec \<le> 65535) (ValueError ''SSH port is outside the valid range'')) (\<lambda>_.
     let identity = ae_resolve env (sa_identity_file spec) in
     bindE (guardE (ae_is_file env identity) (ValueError ''SSH identity file does not exist'')) (\<lambda>_.
     bindE (guardE (LF \<notin> set identity \<and> CR \<notin> set identity \<and> QT \<notin> set identity)
       (ValueError ''SSH identity path contains unsupported characters'')) (\<lambda>_.
     Inr (spec\<lparr>sa_identity_file := identity\<rparr>)))))))"

text \<open>\<^verbatim>\<open>as_posix\<close> of a path of Windows.\<close>

definition as_posix :: "pystr \<Rightarrow> pystr" where
  "as_posix = subst_char BSL CHR ''/''"

definition alias_lines :: "ssh_alias_spec \<Rightarrow> pystr list" where
  "alias_lines checked =
     [''Host '' @ sa_alias checked, ''    HostName '' @ sa_hostname checked, ''    User '' @ sa_user checked,
      ''    Port '' @ dec_int (sa_port checked),
      ''    IdentityFile '' @ [QT] @ as_posix (sa_identity_file checked) @ [QT], ''    IdentitiesOnly yes'']"

definition managed_alias_block :: "alias_env \<Rightarrow> ssh_alias_spec \<Rightarrow> pystr res" where
  "managed_alias_block env spec =
     bindE (validated env spec) (\<lambda>checked. Inr (join [LF] (ALIAS_BEGIN # alias_lines checked @ [ALIAS_END])))"

section \<open>Planning\<close>

record ssh_alias_change =
  sc_previous_exists :: bool
  sc_previous :: bytes
  sc_updated :: bytes
  sc_spec :: ssh_alias_spec
  sc_preview :: pystr

definition BOM :: bytes where
  "BOM = [CHR 0xEF, CHR 0xBB, CHR 0xBF]"

text \<open>\<^verbatim>\<open>_decode\<close>: the text, and whether its encoding is \<^verbatim>\<open>utf-8-sig\<close>.\<close>

definition decode_config_text :: "bytes \<Rightarrow> (pystr \<times> bool) res" where
  "decode_config_text content =
     bindE (guardE (NUL \<notin> set content) (ValueError ''SSH config contains NUL bytes'')) (\<lambda>_.
     let signed = starts_with BOM content in
     case decode_strict (if signed then drop 3 content else content) of
       Inl _ \<Rightarrow> Inl (ValueError ''SSH config must be UTF-8 text'')
     | Inr t \<Rightarrow> Inr (t, signed))"

definition encode_config_text :: "bool \<Rightarrow> pystr \<Rightarrow> bytes" where
  "encode_config_text signed t = (if signed then BOM @ t else t)"

definition replace_newlines :: "pystr \<Rightarrow> pystr \<Rightarrow> pystr" where
  "replace_newlines newline t = concat (map (\<lambda>c. if c = LF then newline else [c]) t)"

definition newline_of :: "pystr \<Rightarrow> pystr" where
  "newline_of t = (if is_infix [CR, LF] t then [CR, LF] else [LF])"

text \<open>The words of a line: \<^verbatim>\<open>line.lstrip().split(None, 1)\<close> when it gives two fields. The line ends that
  \<open>splitlines_keep\<close> keeps are white space, which the splitting drops.\<close>

definition two_fields :: "pystr \<Rightarrow> (pystr \<times> pystr) option" where
  "two_fields line =
     (let chs = dropWhile is_space (py_chars line); word = takeWhile (\<lambda>c. \<not> is_space c) chs;
          rest = dropWhile is_space (dropWhile (\<lambda>c. \<not> is_space c) chs)
      in if word = [] \<or> rest = [] then None else Some (concat word, concat rest))"

definition line_uses_alias :: "alias_env \<Rightarrow> pystr \<Rightarrow> pystr \<Rightarrow> bool" where
  "line_uses_alias env expected line =
     (case two_fields line of
        None \<Rightarrow> False
      | Some (word, rest) \<Rightarrow>
          ae_casefold env word = ''host'' \<and>
          list_ex (\<lambda>pattern. ae_casefold env pattern = expected) (py_split (hd (split_on CHR ''#'' rest))))"

definition has_exact_alias :: "alias_env \<Rightarrow> pystr \<Rightarrow> pystr \<Rightarrow> bool" where
  "has_exact_alias env content alias = list_ex (line_uses_alias env (ae_casefold env alias)) (splitlines_keep content)"

definition alias_span :: "pystr \<Rightarrow> (nat \<times> nat) option res" where
  "alias_span = managed_span ALIAS_BEGIN ALIAS_END (ValueError ''managed SSH alias markers are ambiguous'')"

definition alias_separator :: "pystr \<Rightarrow> pystr \<Rightarrow> pystr" where
  "alias_separator newline t =
     (if t = [] then [] else if hd t = CR \<or> hd t = LF then newline else newline @ newline)"

definition plan_alias_text :: "alias_env \<Rightarrow> pystr \<Rightarrow> ssh_alias_spec \<Rightarrow> (pystr \<times> pystr) res" where
  "plan_alias_text env t checked =
     (let newline = newline_of t in
      bindE (alias_span t) (\<lambda>span.
      bindE (managed_alias_block env checked) (\<lambda>plain.
      let block = replace_newlines newline plain in
      case span of
        None \<Rightarrow>
          if has_exact_alias env t (sa_alias checked)
          then Inl (ValueError ''an unmanaged SSH block already uses the requested alias'')
          else Inr (block @ alias_separator newline t @ t, block)
      | Some (b, e) \<Rightarrow> Inr (take b t @ block @ drop e t, block))))"

definition plan_ssh_alias_change :: "alias_env \<Rightarrow> bytes option \<Rightarrow> ssh_alias_spec \<Rightarrow> ssh_alias_change res" where
  "plan_ssh_alias_change env file spec =
     bindE (validated env spec) (\<lambda>checked.
     let previous = (case file of None \<Rightarrow> [] | Some content \<Rightarrow> content) in
     bindE (decode_config_text previous) (\<lambda>(t, signed).
     bindE (plan_alias_text env t checked) (\<lambda>(updated, block).
     Inr \<lparr>sc_previous_exists = (file \<noteq> None), sc_previous = previous, sc_updated = encode_config_text signed updated,
          sc_spec = checked, sc_preview = block\<rparr>)))"

section \<open>Checking with OpenSSH\<close>

text \<open>\<^verbatim>\<open>line.partition(" ")\<close> of the lines of \<^verbatim>\<open>ssh -G\<close>: the values of each key in order.\<close>

fun option_values :: "alias_env \<Rightarrow> pystr list \<Rightarrow> pystr \<Rightarrow> pystr list" where
  "option_values env [] key = []"
| "option_values env (line # ls) key =
     (let k = takeWhile (\<lambda>c. c \<noteq> CHR '' '') line; rest = dropWhile (\<lambda>c. c \<noteq> CHR '' '') line
      in if rest \<noteq> [] \<and> ae_casefold env k = key then py_strip (tl rest) # option_values env ls key
         else option_values env ls key)"

definition first_value :: "pystr list \<Rightarrow> pystr option" where
  "first_value vs = (case vs of [] \<Rightarrow> None | v # _ \<Rightarrow> Some v)"

definition validate_ssh_alias :: "alias_env \<Rightarrow> int \<times> bytes \<Rightarrow> ssh_alias_spec \<Rightarrow> unit res" where
  "validate_ssh_alias env completed spec =
     bindE (guardE (fst completed = 0) (RuntimeError ''OpenSSH rejected the proposed SSH config'')) (\<lambda>_.
     let vals = option_values env (splitlines_keep (decode_replace (snd completed)));
         identities = map (ae_resolve env) (filter (\<lambda>v. ae_casefold env v \<noteq> ''none'') (vals ''identityfile''))
     in guardE (first_value (vals ''hostname'') = Some (sa_hostname spec) \<and> first_value (vals ''user'') = Some (sa_user spec) \<and>
          first_value (vals ''port'') = Some (dec_int (sa_port spec)) \<and> first_value (vals ''identitiesonly'') = Some ''yes'' \<and>
          ae_resolve env (sa_identity_file spec) \<in> set identities)
          (RuntimeError ''OpenSSH resolved different alias fields than requested''))"

section \<open>Applying\<close>

text \<open>The name of the backup: one that does not exist yet.\<close>

definition alias_backup_name :: "pystr \<Rightarrow> pystr \<Rightarrow> bool \<Rightarrow> pystr \<Rightarrow> pystr" where
  "alias_backup_name name timestamp taken token =
     (let backup = name @ ''.serverops-backup-'' @ timestamp in if taken then backup @ ''-'' @ take 8 token else backup)"

definition alias_assert_current :: "uworld \<Rightarrow> ustep \<Rightarrow> ssh_alias_change \<Rightarrow> ufiles \<Rightarrow> ufiles \<times> unit res" where
  "alias_assert_current w st change files =
     (let g = uw_others w st files; changed = RuntimeError ''SSH config changed after preview'' in
      (g, if (g Target \<noteq> None) \<noteq> sc_previous_exists change then Inl changed
          else case g Target of
            None \<Rightarrow> Inr ()
          | Some content \<Rightarrow> if uw_fails w st then Inl io_error else guardE (content = sc_previous change) changed))"

text \<open>The validator sees the content of the file it is given.\<close>

definition alias_validate ::
  "(bytes option \<Rightarrow> ssh_alias_spec \<Rightarrow> unit res) \<Rightarrow> uworld \<Rightarrow> ustep \<Rightarrow> ufile \<Rightarrow> ssh_alias_change \<Rightarrow> ufiles \<Rightarrow> ufiles \<times> unit res" where
  "alias_validate validator w st f change files =
     (let g = uw_others w st files in (g, if uw_fails w st then Inl io_error else validator (g f) (sc_spec change)))"

definition alias_stage ::
  "(bytes option \<Rightarrow> ssh_alias_spec \<Rightarrow> unit res) \<Rightarrow> uworld \<Rightarrow> ssh_alias_change \<Rightarrow> ufiles \<Rightarrow> ufiles \<times> unit res" where
  "alias_stage validator w change =
     bindS (if sc_previous_exists change
            then bindS (write_fsynced w WriteBackup Backup (sc_previous change)) (\<lambda>_. step_io w SecureBackup (\<lambda>g. (g, Inr ())))
            else liftS (Inr ())) (\<lambda>_.
     bindS (write_fsynced w WriteStage Stage (sc_updated change)) (\<lambda>_.
     bindS (alias_validate validator w ReadStage Stage change) (\<lambda>_.
     bindS (alias_assert_current w CheckCurrent change) (\<lambda>_.
     replace_file w ReplaceTarget Stage Target))))"

definition alias_check_back ::
  "(bytes option \<Rightarrow> ssh_alias_spec \<Rightarrow> unit res) \<Rightarrow> uworld \<Rightarrow> ssh_alias_change \<Rightarrow> ufiles \<Rightarrow> ufiles \<times> unit res" where
  "alias_check_back validator w change =
     bindS (alias_validate validator w ReadBack Target change) (\<lambda>_.
     bindS (read_file w CompareBack Target) (\<lambda>content.
     liftS (guardE (content = sc_updated change) (RuntimeError ''SSH config changed during post-write validation''))))"

definition alias_restore :: "uworld \<Rightarrow> ssh_alias_change \<Rightarrow> ufiles \<Rightarrow> ufiles \<times> unit res" where
  "alias_restore w change =
     (if sc_previous_exists change
      then bindS (write_fsynced w WriteRestore Restore (sc_previous change)) (\<lambda>_. replace_file w ReplaceRestore Restore Target)
      else unlink_file w UnlinkTarget True Target)"

definition alias_failed :: "uworld \<Rightarrow> bool \<Rightarrow> ssh_alias_change \<Rightarrow> ufiles \<Rightarrow> ufiles \<times> bool res" where
  "alias_failed w replaced change files =
     (let g = drop_file w UnlinkStage Stage files in
      if \<not> replaced then (g, Inl (RuntimeError ''SSH config update failed before replacement''))
      else case alias_restore w change g of
        (g', Inl _) \<Rightarrow> (g', Inl (RuntimeError ''SSH config update failed and rollback was incomplete''))
      | (g', Inr _) \<Rightarrow> (g', Inl (RuntimeError ''SSH config update failed and was rolled back'')))"

text \<open>The result says whether a backup was made.\<close>

definition apply_ssh_alias_change ::
  "(bytes option \<Rightarrow> ssh_alias_spec \<Rightarrow> unit res) \<Rightarrow> uworld \<Rightarrow> ssh_alias_change \<Rightarrow> ufiles \<Rightarrow> ufiles \<times> bool res" where
  "apply_ssh_alias_change validator w change =
     bindS (alias_assert_current w CheckFirst change) (\<lambda>_.
     bindS (step_io w MakeDir (\<lambda>g. (g, Inr ()))) (\<lambda>_ files.
       case alias_stage validator w change files of
         (g1, Inl _) \<Rightarrow> alias_failed w False change g1
       | (g1, Inr _) \<Rightarrow>
           (case alias_check_back validator w change g1 of
              (g2, Inl _) \<Rightarrow> alias_failed w True change g2
            | (g2, Inr _) \<Rightarrow> (g2, Inr (sc_previous_exists change)))))"

section \<open>The block is found again\<close>

lemma alias_markers: "is_marker ALIAS_BEGIN" "is_marker ALIAS_END"
  by (simp_all add: is_marker_def ALIAS_BEGIN_def ALIAS_END_def)

interpretation ssh_alias: marker_pair ALIAS_BEGIN ALIAS_END
  by unfold_locales
    (simp_all add: alias_markers, simp_all add: starts_with_def ALIAS_BEGIN_def ALIAS_END_def)

lemma crlf_append:
  "is_infix [CR, LF] (x @ y) = (is_infix [CR, LF] x \<or> is_infix [CR, LF] y \<or> (x \<noteq> [] \<and> last x = CR \<and> y \<noteq> [] \<and> hd y = LF))"
proof (induction x)
  case (Cons c x)
  show ?case
  proof (cases x)
    case Nil
    then show ?thesis by (cases y) (auto simp: starts_with_def)
  next
    case (Cons d x')
    then show ?thesis using Cons.IH by (auto simp: starts_with_def)
  qed
qed simp

lemma crlf_free: "CR \<notin> set x \<Longrightarrow> \<not> is_infix [CR, LF] x"
  by (induction x) (auto simp: starts_with_def)

lemma crlf_middle:
  assumes "CR \<notin> set x" and "x \<noteq> []" and "hd x \<noteq> LF" and "\<not> is_infix [CR, LF] p" and "\<not> is_infix [CR, LF] q"
  shows "\<not> is_infix [CR, LF] (p @ x @ q)"
proof -
  have "last x \<noteq> CR" using assms(1,2) last_in_set by fastforce
  then show ?thesis using assms crlf_free by (simp add: crlf_append)
qed

lemma newline_cases: "newline_of t = [CR, LF] \<and> is_infix [CR, LF] t \<or> newline_of t = [LF] \<and> \<not> is_infix [CR, LF] t"
  by (simp add: newline_of_def)

lemma replace_newlines_simps [simp]:
  "replace_newlines nl (x @ y) = replace_newlines nl x @ replace_newlines nl y"
  "replace_newlines nl (LF # y) = nl @ replace_newlines nl y" "LF \<notin> set z \<Longrightarrow> replace_newlines nl z = z"
  by (simp_all add: replace_newlines_def) (induction z; auto)+

definition alias_body :: "pystr \<Rightarrow> ssh_alias_spec \<Rightarrow> pystr" where
  "alias_body newline checked = replace_newlines newline ([LF] @ join [LF] (alias_lines checked) @ [LF])"

lemma alias_block:
  assumes "managed_alias_block env spec = Inr plain"
  obtains checked where "validated env spec = Inr checked"
    "replace_newlines newline plain = ALIAS_BEGIN @ alias_body newline checked @ ALIAS_END"
proof -
  obtain checked where v: "validated env spec = Inr checked" "plain = join [LF] (ALIAS_BEGIN # alias_lines checked @ [ALIAS_END])"
    using assms by (auto simp: managed_alias_block_def bindE_eq_Inr)
  have "plain = ALIAS_BEGIN @ ([LF] @ join [LF] (alias_lines checked) @ [LF]) @ ALIAS_END"
    using v(2) by (simp add: alias_lines_def)
  moreover have "LF \<notin> set ALIAS_BEGIN" "LF \<notin> set ALIAS_END" by (simp_all add: ALIAS_BEGIN_def ALIAS_END_def)
  ultimately show thesis using that [OF v(1)] by (simp add: alias_body_def)
qed

lemma safe_name_chars: "safe_name extra n s \<Longrightarrow> list_all (\<lambda>x. is_alnum x \<or> x \<in> extra) s"
  by (cases s) (auto simp: safe_name_def)

lemma alnum_not: "\<not> is_alnum CHR ''#''" "\<not> is_alnum LF" "\<not> is_alnum CR"
  by (simp_all add: is_alnum_def is_digit_def is_upper_def is_lower_def)

lemma dec_nat_char: "c \<in> set (dec_nat n) \<Longrightarrow> is_digit c"
  using dec_nat_digits [of n] by (simp add: list_all_iff)

lemma port_text_plain: "CHR ''#'' \<notin> set (dec_int i)" "LF \<notin> set (dec_int i)" "CR \<notin> set (dec_int i)"
  by (auto simp: dec_int_def is_digit_def dest!: dec_nat_char)

lemma validated_plain:
  assumes "validated env spec = Inr checked" and "x = sa_alias checked \<or> x = sa_hostname checked \<or> x = sa_user checked"
  shows "CHR ''#'' \<notin> set x \<and> LF \<notin> set x \<and> CR \<notin> set x"
proof -
  have "safe_name (set ''._-'') 63 x \<or> safe_name (set ''.-'') 252 x"
    using assms by (auto simp: validated_def bindE_eq_Inr Let_def SAFE_ALIAS_def SAFE_HOST_def SAFE_USER_def)
  then show ?thesis using safe_name_chars alnum_not by (fastforce simp: list_all_iff)
qed

lemma validated_identity:
  assumes "validated env spec = Inr checked"
  shows "LF \<notin> set (as_posix (sa_identity_file checked))" "CR \<notin> set (as_posix (sa_identity_file checked))"
  using assms by (auto simp: validated_def bindE_eq_Inr Let_def as_posix_def subst_char_def)

lemma alias_body_form:
  assumes "validated env spec = Inr checked"
  shows "alias_body nl checked =
    (nl @ ''Host '' @ sa_alias checked @ nl @ ''    HostName '' @ sa_hostname checked @ nl @ ''    User '' @ sa_user checked @ nl @
     ''    Port '' @ dec_int (sa_port checked) @ nl @ ''    IdentityFile '' @ [QT]) @ as_posix (sa_identity_file checked) @
    QT # nl @ ''    IdentitiesOnly yes'' @ nl"
proof -
  note plain = validated_plain [OF assms] port_text_plain [of "sa_port checked"] validated_identity [OF assms]
  have lit: "replace_newlines nl (c # x) = c # replace_newlines nl x" if "c \<noteq> LF" for c x
    using that by (simp add: replace_newlines_def)
  show ?thesis using plain by (simp add: alias_body_def alias_lines_def lit)
qed

lemma alias_body_unmarked:
  assumes "validated env spec = Inr checked" and "unmarked ALIAS_BEGIN ALIAS_END (as_posix (sa_identity_file checked))"
    and "nl = [LF] \<or> nl = [CR, LF]"
  shows "unmarked ALIAS_BEGIN ALIAS_END (alias_body nl checked)"
proof -
  let ?i = "as_posix (sa_identity_file checked)"
  let ?a = "nl @ ''Host '' @ sa_alias checked @ nl @ ''    HostName '' @ sa_hostname checked @ nl @ ''    User '' @
      sa_user checked @ nl @ ''    Port '' @ dec_int (sa_port checked) @ nl @ ''    IdentityFile '' @ [QT]"
  let ?b = "nl @ ''    IdentitiesOnly yes'' @ nl"
  have nl: "CHR ''#'' \<notin> set nl" using assms(3) by auto
  have f: "CHR ''#'' \<notin> set ?a" "CHR ''#'' \<notin> set ?b"
    using validated_plain [OF assms(1)] port_text_plain(1) nl by simp_all
  have "count_sub m (alias_body nl checked) = count_sub m ?i" if "is_marker m" "QT \<notin> set (tl m)" for m
  proof -
    have "count_sub m (QT # ?b) = 0" using f(2) by (intro count_free [OF that(1)]) simp
    moreover have "m \<noteq> []" using that(1) by (auto elim: is_markerE)
    ultimately have "count_sub m (?i @ QT # ?b) = count_sub m ?i" using count_over [OF that(2), of ?i ?b] by simp
    then show ?thesis unfolding alias_body_form [OF assms(1)] using count_skip [OF that(1) f(1)] by simp
  qed
  then show ?thesis using assms(2) alias_markers by (simp add: unmarked_def ALIAS_BEGIN_def ALIAS_END_def)
qed

lemma alias_newline:
  assumes "validated env spec = Inr checked"
    and "\<not> is_infix [CR, LF] t \<Longrightarrow> \<not> is_infix [CR, LF] p \<and> \<not> is_infix [CR, LF] q"
  shows "newline_of (p @ (ALIAS_BEGIN @ alias_body (newline_of t) checked @ ALIAS_END) @ q) = newline_of t"
proof (cases "is_infix [CR, LF] t")
  case True
  then have nl: "newline_of t = [CR, LF]" by (simp add: newline_of_def)
  have "is_infix [CR, LF] (alias_body [CR, LF] checked)" by (simp add: alias_body_def starts_with_def)
  then show ?thesis unfolding nl by (simp add: newline_of_def crlf_append)
next
  case False
  then have nl: "newline_of t = [LF]" by (simp add: newline_of_def)
  have "CR \<notin> set (alias_body [LF] checked)"
    using alias_body_form [OF assms(1), of "[LF]"] validated_plain [OF assms(1)] port_text_plain [of "sa_port checked"]
      validated_identity [OF assms(1)] by simp
  then have "CR \<notin> set (ALIAS_BEGIN @ alias_body [LF] checked @ ALIAS_END)" by (simp add: ALIAS_BEGIN_def ALIAS_END_def)
  moreover have "hd (ALIAS_BEGIN @ alias_body [LF] checked @ ALIAS_END) \<noteq> LF" "ALIAS_BEGIN @ alias_body [LF] checked @ ALIAS_END \<noteq> []"
    by (simp_all add: ALIAS_BEGIN_def)
  ultimately have "\<not> is_infix [CR, LF] (p @ (ALIAS_BEGIN @ alias_body [LF] checked @ ALIAS_END) @ q)"
    using crlf_middle assms(2) [OF False] by blast
  then show ?thesis unfolding nl by (simp add: newline_of_def)
qed

lemma separator_plain:
  assumes "\<not> is_infix [CR, LF] t"
  shows "\<not> is_infix [CR, LF] (alias_separator [LF] t @ t)"
  using assms by (auto simp: alias_separator_def crlf_append starts_with_def)

lemma separator_unmarked:
  assumes "unmarked ALIAS_BEGIN ALIAS_END t"
  shows "unmarked ALIAS_BEGIN ALIAS_END (alias_separator (newline_of t) t @ t)"
proof -
  have "CHR ''#'' \<notin> set (alias_separator (newline_of t) t)" by (simp add: alias_separator_def newline_of_def)
  then show ?thesis using assms count_skip alias_markers by (simp add: unmarked_def)
qed

text \<open>What a plan does to the text.\<close>

lemma planned_alias:
  assumes "plan_alias_text env t checked = Inr (updated, block)"
    and "unmarked ALIAS_BEGIN ALIAS_END (as_posix (ae_resolve env (sa_identity_file checked)))"
  obtains p q plain where "managed_alias_block env checked = Inr plain" "block = replace_newlines (newline_of t) plain"
    "updated = p @ block @ q" "newline_of updated = newline_of t"
    "alias_span updated = Inr (Some (length p, length (p @ block)))"
    "(p = [] \<and> q = alias_separator (newline_of t) t @ t) \<or> (\<exists>body. t = p @ (ALIAS_BEGIN @ body @ ALIAS_END) @ q)"
proof -
  note found = that
  obtain sp plain where sp: "alias_span t = Inr sp" and plain: "managed_alias_block env checked = Inr plain"
      "block = replace_newlines (newline_of t) plain"
    and upd: "updated = (case sp of None \<Rightarrow> block @ alias_separator (newline_of t) t @ t | Some (b, e) \<Rightarrow> take b t @ block @ drop e t)"
    using assms(1) by (auto simp: plan_alias_text_def bindE_eq_Inr Let_def split: option.splits if_splits)
  obtain c where c: "validated env checked = Inr c" "block = ALIAS_BEGIN @ alias_body (newline_of t) c @ ALIAS_END"
    using alias_block [OF plain(1)] plain(2) by metis
  have "sa_identity_file c = ae_resolve env (sa_identity_file checked)"
    using c(1) by (auto simp: validated_def bindE_eq_Inr Let_def)
  then have body: "unmarked ALIAS_BEGIN ALIAS_END (alias_body (newline_of t) c)"
    using alias_body_unmarked [OF c(1)] assms(2) by (simp add: newline_of_def)
  have fin: thesis if "updated = p @ block @ q" "unmarked ALIAS_BEGIN ALIAS_END p" "unmarked ALIAS_BEGIN ALIAS_END q"
      "\<not> is_infix [CR, LF] t \<Longrightarrow> \<not> is_infix [CR, LF] p \<and> \<not> is_infix [CR, LF] q"
      "(p = [] \<and> q = alias_separator (newline_of t) t @ t) \<or> (\<exists>body. t = p @ (ALIAS_BEGIN @ body @ ALIAS_END) @ q)" for p q
  proof -
    have "newline_of updated = newline_of t" using alias_newline [OF c(1) that(4)] that(1) c(2) by simp
    moreover have "alias_span updated = Inr (Some (length p, length (p @ block)))"
      using ssh_alias.span_of_block [OF that(2) body that(3)] that(1) c(2) by (simp add: alias_span_def)
    ultimately show thesis using found [OF plain that(1)] that(5) by blast
  qed
  show thesis
  proof (cases sp)
    case None
    then have "unmarked ALIAS_BEGIN ALIAS_END t" using sp ssh_alias.span_None by (simp add: alias_span_def)
    then show thesis
      using fin [of "[]" "alias_separator (newline_of t) t @ t"] upd None separator_unmarked separator_plain newline_cases [of t]
      by (auto simp: unmarked_def)
  next
    case (Some be)
    obtain b e where be: "be = (b, e)" by fastforce
    then obtain p old q where d: "t = p @ ALIAS_BEGIN @ old @ ALIAS_END @ q" "b = length p"
        "e = length (p @ ALIAS_BEGIN @ old @ ALIAS_END)" "unmarked ALIAS_BEGIN ALIAS_END p" "unmarked ALIAS_BEGIN ALIAS_END q"
      using sp Some ssh_alias.span_block unfolding alias_span_def by metis
    then have "updated = p @ block @ q" using upd Some be by simp
    then show thesis using fin [of p q] d by (simp add: crlf_append)
  qed
qed

text \<open>
  Writing the managed host alias keeps the rest of the OpenSSH configuration. Where a plan succeeds, the updated text is
  the block of the alias between parts that come unchanged from the previous text: it was put in front, or took the
  place of the old block; its lines end as the lines of the file do. Planning the same alias on
  the updated text gives the same text again, so that the block is found and never written twice.
\<close>

theorem alias_found_again:
  assumes "plan_alias_text env t checked = Inr (updated, block)"
    and "unmarked ALIAS_BEGIN ALIAS_END (as_posix (ae_resolve env (sa_identity_file checked)))"
  shows "(\<exists>p q. updated = p @ block @ q \<and>
      ((p = [] \<and> q = alias_separator (newline_of t) t @ t) \<or> (\<exists>body. t = p @ (ALIAS_BEGIN @ body @ ALIAS_END) @ q))) \<and>
    newline_of updated = newline_of t \<and> plan_alias_text env updated checked = Inr (updated, block)"
proof -
  obtain p q plain where d: "managed_alias_block env checked = Inr plain" "block = replace_newlines (newline_of t) plain"
    "updated = p @ block @ q" "newline_of updated = newline_of t"
    "alias_span updated = Inr (Some (length p, length (p @ block)))"
    "(p = [] \<and> q = alias_separator (newline_of t) t @ t) \<or> (\<exists>body. t = p @ (ALIAS_BEGIN @ body @ ALIAS_END) @ q)"
    using assms by (rule planned_alias)
  have "plan_alias_text env updated checked = Inr (take (length p) updated @ block @ drop (length (p @ block)) updated, block)"
    using d(1,2,4,5) by (simp add: plan_alias_text_def Let_def)
  then show ?thesis using d(3,4,6) by auto
qed

section \<open>Updates are all or nothing\<close>

definition alias_incomplete :: exn where
  "alias_incomplete = RuntimeError ''SSH config update failed and rollback was incomplete''"

lemma alias_assert_files [simp]: "fst (alias_assert_current w st change files) = uw_others w st files"
  by (simp add: alias_assert_current_def Let_def)

lemma alias_assert_ok:
  assumes "undisturbed w" and "alias_assert_current w st change files = (g, Inr ())"
  shows "g = files" "files Target = (if sc_previous_exists change then Some (sc_previous change) else None)"
  using assms by (auto simp: alias_assert_current_def Let_def split: if_splits option.splits)

lemma alias_stage_result:
  assumes "undisturbed w" and "alias_stage validator w change files = (g, r)"
  shows "(\<forall>e. r = Inl e \<longrightarrow> g Target = files Target) \<and>
    (r = Inr () \<longrightarrow> g Target = Some (sc_updated change) \<and> (sc_previous_exists change \<longrightarrow> g Backup = Some (sc_previous change)))"
proof -
  let ?backup = "if sc_previous_exists change
      then bindS (write_fsynced w WriteBackup Backup (sc_previous change)) (\<lambda>_. step_io w SecureBackup (\<lambda>g. (g, Inr ())))
      else liftS (Inr ())"
  obtain g1 r1 where 1: "?backup files = (g1, r1)" by fastforce
  have b: "g1 Target = files Target" "r1 = Inr () \<Longrightarrow> sc_previous_exists change \<Longrightarrow> g1 Backup = Some (sc_previous change)"
    using 1 assms(1) by (auto simp: bindS_def write_fsynced_def step_io_def Let_def split: if_splits option.splits)
  have v: "fst (alias_validate validator w ReadStage Stage change g) = g" for g
    using assms(1) by (simp add: alias_validate_def Let_def)
  show ?thesis
    using staged_replace [OF assms(1) 1 v _ assms(2) [unfolded alias_stage_def]] assms(1) b by simp
qed

lemma alias_check_back_result:
  assumes "undisturbed w" and "alias_check_back validator w change files = (g, r)"
  shows "g = files \<and> (r = Inr () \<longrightarrow> validator (files Target) (sc_spec change) = Inr () \<and> files Target = Some (sc_updated change))"
proof -
  have v: "alias_validate validator w ReadBack Target change files =
      (files, if uw_fails w ReadBack then Inl io_error else validator (files Target) (sc_spec change))"
    using assms(1) by (simp add: alias_validate_def Let_def)
  have c: "read_file w CompareBack Target files = (files, if uw_fails w CompareBack then Inl io_error else someE (files Target) io_error)"
    using assms(1) by (simp add: read_file_def step_io_def Let_def)
  show ?thesis
    using assms(2) v c
    by (cases "validator (files Target) (sc_spec change)"; cases "files Target")
      (auto simp: alias_check_back_def bindS_def split: if_splits)
qed

lemma alias_failed_target:
  assumes "undisturbed w" and "alias_failed w replaced change files = (g, r)"
  shows "\<exists>e. r = Inl e \<and> (e \<noteq> alias_incomplete \<longrightarrow> g Target =
    (if \<not> replaced then files Target else if sc_previous_exists change then Some (sc_previous change) else None))"
proof (cases replaced)
  case False
  then show ?thesis using assms by (auto simp: alias_failed_def Let_def drop_other)
next
  case True
  obtain g' x where x: "alias_restore w change (drop_file w UnlinkStage Stage files) = (g', x)" by fastforce
  have "g' Target = (if sc_previous_exists change then Some (sc_previous change) else None)" if "x = Inr ()"
    using x that assms(1) by (auto simp: alias_restore_def bindS_eq_Inr dest!: write_ok replace_ok unlink_ok split: if_splits)
  then show ?thesis using assms(2) True x by (cases x) (auto simp: alias_failed_def Let_def alias_incomplete_def)
qed

text \<open>
  C36: an update of the OpenSSH configuration happens as a whole or not at all. Unless another process interferes,
  whatever step the operating system fails and whatever OpenSSH says: an update that returns has written exactly the planned bytes,
  OpenSSH accepted the file under its final name, and the bytes before are in the backup; one that raises has left
  the file byte for byte as it was, except where the error says that the rollback was incomplete.
\<close>

theorem alias_update_all_or_nothing:
  assumes "undisturbed w" and "apply_ssh_alias_change validator w change files = (files', r)"
  shows "(\<forall>made. r = Inr made \<longrightarrow>
      files' Target = Some (sc_updated change) \<and> validator (Some (sc_updated change)) (sc_spec change) = Inr () \<and>
      made = (files Target \<noteq> None) \<and> (made \<longrightarrow> files' Backup = files Target)) \<and>
    (\<forall>e. r = Inl e \<and> e \<noteq> alias_incomplete \<longrightarrow> files' Target = files Target)"
proof -
  obtain c where c: "alias_assert_current w CheckFirst change files = (files, c)"
    using alias_assert_files [of w CheckFirst change files] assms(1) by (metis eq_fst_iff undisturbed_others)
  have cur: "c = Inr () \<Longrightarrow> files Target = (if sc_previous_exists change then Some (sc_previous change) else None)"
    using alias_assert_ok(2) [OF assms(1)] c by blast
  obtain g1 r1 where 1: "alias_stage validator w change files = (g1, r1)" by fastforce
  note s = alias_stage_result [OF assms(1) 1]
  obtain g2 r2 where 2: "alias_check_back validator w change g1 = (g2, r2)" by fastforce
  note k = alias_check_back_result [OF assms(1) 2]
  have run: "apply_ssh_alias_change validator w change files = (case c of Inl e \<Rightarrow> (files, Inl e) | Inr _ \<Rightarrow>
      if uw_fails w MakeDir then (files, Inl io_error)
      else case r1 of Inl _ \<Rightarrow> alias_failed w False change g1
        | Inr _ \<Rightarrow> (case r2 of Inl _ \<Rightarrow> alias_failed w True change g2 | Inr _ \<Rightarrow> (g2, Inr (sc_previous_exists change))))"
    using assms(1) c 1 2 unfolding apply_ssh_alias_change_def
    by (cases c; cases r1; cases r2) (simp_all add: bindS_def step_io_def Let_def)
  consider (early) e where "files' = files" "r = Inl e"
    | (before) e where "c = Inr ()" "alias_failed w False change g1 = (files', r)" "r1 = Inl e"
    | (after) "c = Inr ()" "alias_failed w True change g2 = (files', r)"
    | (written) "c = Inr ()" "files' = g2" "r = Inr (sc_previous_exists change)" "r1 = Inr ()" "r2 = Inr ()"
    using assms(2) unfolding run by (cases c; cases r1; cases r2) (auto split: if_splits)
  then show ?thesis
  proof cases
    case before
    then show ?thesis using alias_failed_target [OF assms(1) before(2)] s by auto
  next
    case after
    then show ?thesis using alias_failed_target [OF assms(1) after(2)] cur by auto
  next
    case written
    then show ?thesis using s k cur by auto
  qed simp
qed

section \<open>An example\<close>

definition demo_alias_env :: alias_env where
  "demo_alias_env = \<lparr>ae_resolve = id, ae_is_file = (\<lambda>_. True), ae_casefold = map to_lower\<rparr>"

definition demo_alias :: ssh_alias_spec where
  "demo_alias = \<lparr>sa_alias = ''web'', sa_hostname = ''web.example'', sa_user = ''ops'', sa_port = 22, sa_identity_file = ''C:/k''\<rparr>"

definition demo_ssh_config :: pystr where
  "demo_ssh_config = ''Host db'' @ [CR, LF] @ ''    User root'' @ [CR, LF]"

lemma demo_alias_span: "alias_span demo_ssh_config = Inr None"
proof -
  have "unmarked ALIAS_BEGIN ALIAS_END demo_ssh_config"
    by (rule unmarked_free [OF alias_markers]) (simp add: demo_ssh_config_def)
  then show ?thesis by (simp only: alias_span_def ssh_alias.span_None)
qed

lemma demo_alias_valid: "validated demo_alias_env demo_alias = Inr demo_alias"
  by (simp add: validated_def demo_alias_env_def demo_alias_def SAFE_ALIAS_def SAFE_HOST_def SAFE_USER_def safe_name_def
      is_alnum_def is_lower_def)

lemma demo_alias_plan: "\<exists>updated block. plan_alias_text demo_alias_env demo_ssh_config demo_alias = Inr (updated, block)"
proof -
  have "\<not> has_exact_alias demo_alias_env demo_ssh_config (sa_alias demo_alias)"
    unfolding demo_alias_env_def demo_ssh_config_def demo_alias_def by code_simp
  then show ?thesis using demo_alias_span demo_alias_valid by (simp add: plan_alias_text_def managed_alias_block_def Let_def)
qed

theorem alias_found_again_witness:
  "\<exists>updated block. plan_alias_text demo_alias_env demo_ssh_config demo_alias = Inr (updated, block) \<and>
     plan_alias_text demo_alias_env updated demo_alias = Inr (updated, block) \<and> newline_of updated = [CR, LF]"
proof -
  obtain updated block where p: "plan_alias_text demo_alias_env demo_ssh_config demo_alias = Inr (updated, block)"
    using demo_alias_plan by blast
  have u: "unmarked ALIAS_BEGIN ALIAS_END (as_posix (ae_resolve demo_alias_env (sa_identity_file demo_alias)))"
    by (rule unmarked_free [OF alias_markers]) (simp add: demo_alias_env_def demo_alias_def as_posix_def subst_char_def)
  have "newline_of demo_ssh_config = [CR, LF]" by (simp add: newline_of_def demo_ssh_config_def starts_with_def)
  then show ?thesis using alias_found_again [OF p u] p by auto
qed

definition demo_alias_change :: ssh_alias_change where
  "demo_alias_change = \<lparr>sc_previous_exists = True, sc_previous = ''a'', sc_updated = ''b'', sc_spec = demo_alias, sc_preview = []\<rparr>"

definition demo_alias_world :: uworld where
  "demo_alias_world = \<lparr>uw_others = (\<lambda>_ files. files), uw_fails = (\<lambda>st. st = CompareBack), uw_partial = (\<lambda>_. None)\<rparr>"

theorem alias_update_all_or_nothing_witness:
  "\<exists>files' e. apply_ssh_alias_change (\<lambda>_ _. Inr ()) demo_alias_world demo_alias_change (\<lambda>f. if f = Target then Some ''a'' else None)
       = (files', Inl e) \<and> e \<noteq> alias_incomplete \<and> files' Target = Some ''a''"
proof -
  have w: "undisturbed demo_alias_world" by (simp add: undisturbed_def demo_alias_world_def)
  have "\<exists>files' e. apply_ssh_alias_change (\<lambda>_ _. Inr ()) demo_alias_world demo_alias_change (\<lambda>f. if f = Target then Some ''a'' else None)
      = (files', Inl e) \<and> e \<noteq> alias_incomplete"
    by (simp add: apply_ssh_alias_change_def bindS_def alias_assert_current_def step_io_def alias_stage_def write_fsynced_def
        alias_validate_def replace_file_def alias_check_back_def read_file_def alias_failed_def alias_restore_def drop_file_def
        unlink_file_def alias_incomplete_def demo_alias_world_def demo_alias_change_def Let_def)
  then obtain files' e where
    r: "apply_ssh_alias_change (\<lambda>_ _. Inr ()) demo_alias_world demo_alias_change (\<lambda>f. if f = Target then Some ''a'' else None)
      = (files', Inl e)" "e \<noteq> alias_incomplete" by blast
  show ?thesis using alias_update_all_or_nothing [OF w r(1)] r by auto
qed

end
